(* ===== verification/Prelude.thy ===== *)
theory Prelude
  imports Main "HOL-Library.Word" "HOL-Library.Monad_Syntax"
begin

text \<open>
  Shared vocabulary of the development: octets and octet strings, the big and
  little endian accessors of \<^verbatim>\<open>src/utils/common.h\<close>
  (\<^verbatim>\<open>WPA_GET_BE16\<close>, \<^verbatim>\<open>WPA_PUT_LE16\<close>, \<dots>), checked reads that
  make an access outside a buffer visible as \<^const>\<open>None\<close>, and
  \<^verbatim>\<open>os_memcpy\<close> into a fixed array.  The collections below gather the rules
  that the component theories give to the simplifier.
\<close>

unbundle bit_operations_syntax

named_theorems rd_simps \<open>checked reads inside a buffer succeed\<close>

type_synonym byte = "8 word"
type_synonym bytes = "8 word list"
type_synonym u16 = "16 word"
type_synonym u32 = "32 word"


section \<open>Octet strings\<close>

definition slice :: "nat \<Rightarrow> nat \<Rightarrow> 'a list \<Rightarrow> 'a list" where
  "slice off n xs = take n (drop off xs)"

text \<open>\<^verbatim>\<open>os_memcpy (dst + off, src, length src)\<close> into an array; the part of
  the source that does not fit is not written.\<close>

definition overwrite :: "nat \<Rightarrow> 'a list \<Rightarrow> 'a list \<Rightarrow> 'a list" where
  "overwrite off src dst =
     take off dst @ take (length dst - off) src @ drop (off + length src) dst"

definition zeros :: "nat \<Rightarrow> bytes" where
  "zeros n = replicate n 0"

lemma length_slice [simp]: "length (slice off n xs) = min n (length xs - off)"
  by (simp add: slice_def min.commute)

lemma length_overwrite [simp]: "length (overwrite off src dst) = length dst"
  by (auto simp: overwrite_def)

lemma length_zeros [simp]: "length (zeros n) = n"
  by (simp add: zeros_def)

lemma slice_zero [simp]: "slice off 0 xs = []"
  by (simp add: slice_def)

lemma slice_all [simp]: "length xs \<le> n \<Longrightarrow> slice 0 n xs = xs"
  by (simp add: slice_def)

lemma slice_append_left [simp]:
  "off + n \<le> length xs \<Longrightarrow> slice off n (xs @ ys) = slice off n xs"
  by (simp add: slice_def)

lemma slice_append_right [simp]:
  "length xs \<le> off \<Longrightarrow> slice off n (xs @ ys) = slice (off - length xs) n ys"
  by (simp add: slice_def)

lemma slice_overwrite_same:
  "off + length src \<le> length dst \<Longrightarrow> slice off (length src) (overwrite off src dst) = src"
  by (simp add: slice_def overwrite_def)

lemma overwrite_0: "length src \<le> length dst \<Longrightarrow> overwrite 0 src dst = src @ drop (length src) dst"
  by (simp add: overwrite_def)

lemma set_slice_subset: "set (slice off n xs) \<subseteq> set xs"
  by (auto simp: slice_def dest: in_set_takeD in_set_dropD)


section \<open>Multi-octet integers\<close>

definition WPA_PUT_BE16 :: "u16 \<Rightarrow> bytes" where
  "WPA_PUT_BE16 v = [ucast (drop_bit 8 v), ucast v]"

definition WPA_PUT_LE16 :: "u16 \<Rightarrow> bytes" where
  "WPA_PUT_LE16 v = [ucast v, ucast (drop_bit 8 v)]"

definition WPA_PUT_BE32 :: "u32 \<Rightarrow> bytes" where
  "WPA_PUT_BE32 v = [ucast (drop_bit 24 v), ucast (drop_bit 16 v), ucast (drop_bit 8 v), ucast v]"

definition be16 :: "byte \<Rightarrow> byte \<Rightarrow> u16" where
  "be16 a b = push_bit 8 (ucast a) OR ucast b"

definition be24 :: "byte \<Rightarrow> byte \<Rightarrow> byte \<Rightarrow> u32" where
  "be24 a b c = push_bit 16 (ucast a) OR push_bit 8 (ucast b) OR ucast c"

definition be32 :: "byte \<Rightarrow> byte \<Rightarrow> byte \<Rightarrow> byte \<Rightarrow> u32" where
  "be32 a b c d = push_bit 24 (ucast a) OR push_bit 16 (ucast b) OR push_bit 8 (ucast c) OR ucast d"

text \<open>The four octets of a selector written out as a constant.\<close>

abbreviation (input) RSN_SELECTOR :: "byte \<Rightarrow> byte \<Rightarrow> byte \<Rightarrow> byte \<Rightarrow> u32" where
  "RSN_SELECTOR a b c d \<equiv> be32 a b c d"

lemma length_WPA_PUT [simp]:
  "length (WPA_PUT_BE16 v) = 2" "length (WPA_PUT_LE16 v) = 2" "length (WPA_PUT_BE32 w) = 4"
  by (simp_all add: WPA_PUT_BE16_def WPA_PUT_LE16_def WPA_PUT_BE32_def)

lemma be16_PUT [simp]: "be16 (ucast (drop_bit 8 v)) (ucast (v :: u16)) = v"
  unfolding be16_def
  by (rule bit_word_eqI) (auto simp: bit_simps)

lemma be32_bits:
  "n < 32 \<Longrightarrow> bit (be32 a b c d) n =
     (if n < 8 then bit d n else if n < 16 then bit c (n - 8)
      else if n < 24 then bit b (n - 16) else bit a (n - 24))"
  by (auto simp: be32_def bit_simps dest: bit_imp_le_length)

lemma be32_PUT [simp]:
  "be32 (ucast (drop_bit 24 v)) (ucast (drop_bit 16 v)) (ucast (drop_bit 8 v)) (ucast (v :: u32)) = v"
proof (rule bit_word_eqI)
  fix n :: nat assume "n < LENGTH(32)"
  then consider "n < 8" | "8 \<le> n \<and> n < 16" | "16 \<le> n \<and> n < 24" | "24 \<le> n \<and> n < 32"
    by fastforce
  then show "bit (be32 (ucast (drop_bit 24 v)) (ucast (drop_bit 16 v)) (ucast (drop_bit 8 v)) (ucast v)) n
      = bit v n"
    by cases (auto simp: be32_bits bit_simps)
qed

lemma be32_inject [simp]:
  "be32 a b c d = be32 a' b' c' d' \<longleftrightarrow> a = a' \<and> b = b' \<and> c = c' \<and> d = d'"
proof
  assume eq: "be32 a b c d = be32 a' b' c' d'"
  have bits: "bit (be32 a b c d) n = bit (be32 a' b' c' d') n" for n
    by (simp add: eq)
  have "d = d'"
  proof (rule bit_word_eqI)
    fix n :: nat assume "n < LENGTH(8)"
    then show "bit d n = bit d' n" using bits [of n] by (simp add: be32_bits)
  qed
  moreover have "c = c'"
  proof (rule bit_word_eqI)
    fix n :: nat assume "n < LENGTH(8)"
    then show "bit c n = bit c' n" using bits [of "n + 8"] by (simp add: be32_bits)
  qed
  moreover have "b = b'"
  proof (rule bit_word_eqI)
    fix n :: nat assume "n < LENGTH(8)"
    then show "bit b n = bit b' n" using bits [of "n + 16"] by (simp add: be32_bits)
  qed
  moreover have "a = a'"
  proof (rule bit_word_eqI)
    fix n :: nat assume "n < LENGTH(8)"
    then show "bit a n = bit a' n" using bits [of "n + 24"] by (simp add: be32_bits)
  qed
  ultimately show "a = a' \<and> b = b' \<and> c = c' \<and> d = d'" by blast
qed simp


section \<open>Checked reads\<close>

text \<open>
  A read at offset \<open>i\<close> of a buffer; \<^const>\<open>None\<close> is an access outside the
  buffer, which the source must never make.
\<close>

definition rd8 :: "bytes \<Rightarrow> nat \<Rightarrow> byte option" where
  "rd8 buf i = (if i < length buf then Some (buf ! i) else None)"

definition WPA_GET_BE16 :: "bytes \<Rightarrow> nat \<Rightarrow> u16 option" where
  "WPA_GET_BE16 buf i = do { a \<leftarrow> rd8 buf i; b \<leftarrow> rd8 buf (i + 1); Some (be16 a b) }"

definition WPA_GET_LE16 :: "bytes \<Rightarrow> nat \<Rightarrow> u16 option" where
  "WPA_GET_LE16 buf i = do { a \<leftarrow> rd8 buf i; b \<leftarrow> rd8 buf (i + 1); Some (be16 b a) }"

definition WPA_GET_BE24 :: "bytes \<Rightarrow> nat \<Rightarrow> u32 option" where
  "WPA_GET_BE24 buf i = do {
     a \<leftarrow> rd8 buf i; b \<leftarrow> rd8 buf (i + 1); c \<leftarrow> rd8 buf (i + 2); Some (be24 a b c) }"

definition WPA_GET_BE32 :: "bytes \<Rightarrow> nat \<Rightarrow> u32 option" where
  "WPA_GET_BE32 buf i = do {
     a \<leftarrow> rd8 buf i; b \<leftarrow> rd8 buf (i + 1); c \<leftarrow> rd8 buf (i + 2); d \<leftarrow> rd8 buf (i + 3);
     Some (be32 a b c d) }"

definition rd_slice :: "bytes \<Rightarrow> nat \<Rightarrow> nat \<Rightarrow> bytes option" where
  "rd_slice buf off n = (if off + n \<le> length buf then Some (slice off n buf) else None)"

text \<open>A branch on a condition that itself reads the buffer.\<close>

definition if_rd :: "bool option \<Rightarrow> 'a option \<Rightarrow> 'a option \<Rightarrow> 'a option" where
  "if_rd c t e = Option.bind c (\<lambda>b. if b then t else e)"

lemma if_rd_Some [simp]: "if_rd (Some b) t e = (if b then t else e)"
  by (simp add: if_rd_def)

lemma if_rd_not_None:
  "c \<noteq> None \<Longrightarrow> (c = Some True \<Longrightarrow> t \<noteq> None) \<Longrightarrow> (c = Some False \<Longrightarrow> e \<noteq> None) \<Longrightarrow> if_rd c t e \<noteq> None"
  by (cases c) (auto simp: if_rd_def)

lemma rd8_Some [rd_simps]: "i < length buf \<Longrightarrow> rd8 buf i = Some (buf ! i)"
  by (simp add: rd8_def)

lemma rd_slice_Some [rd_simps]:
  "off + n \<le> length buf \<Longrightarrow> rd_slice buf off n = Some (slice off n buf)"
  by (simp add: rd_slice_def)

lemma rd8_first: "4 \<le> length buf \<Longrightarrow> rd8 buf 0 = Some (buf ! 0)"
  by (rule rd8_Some) linarith

lemma WPA_GET_BE16_Some [rd_simps]:
  "i + 1 < length buf \<Longrightarrow> WPA_GET_BE16 buf i = Some (be16 (buf ! i) (buf ! (i + 1)))"
  by (simp add: WPA_GET_BE16_def rd8_def)

lemma WPA_GET_LE16_Some [rd_simps]:
  "i + 1 < length buf \<Longrightarrow> WPA_GET_LE16 buf i = Some (be16 (buf ! (i + 1)) (buf ! i))"
  by (simp add: WPA_GET_LE16_def rd8_def)

lemma WPA_GET_BE24_Some [rd_simps]:
  "i + 2 < length buf \<Longrightarrow>
   WPA_GET_BE24 buf i = Some (be24 (buf ! i) (buf ! (i + 1)) (buf ! (i + 2)))"
  by (simp add: WPA_GET_BE24_def rd8_def)

lemma WPA_GET_BE32_Some [rd_simps]:
  "i + 3 < length buf \<Longrightarrow>
   WPA_GET_BE32 buf i = Some (be32 (buf ! i) (buf ! (i + 1)) (buf ! (i + 2)) (buf ! (i + 3)))"
  by (simp add: WPA_GET_BE32_def rd8_def)

text \<open>Reading back what was written, at any position of the buffer.\<close>

lemma rd8_skip [simp]: "length xs \<le> i \<Longrightarrow> rd8 (xs @ ys) i = rd8 ys (i - length xs)"
  by (auto simp: rd8_def nth_append)

lemma WPA_GET_skip:
  "length xs \<le> i \<Longrightarrow> WPA_GET_LE16 (xs @ ys) i = WPA_GET_LE16 ys (i - length xs)"
  "length xs \<le> i \<Longrightarrow> WPA_GET_BE16 (xs @ ys) i = WPA_GET_BE16 ys (i - length xs)"
  "length xs \<le> i \<Longrightarrow> WPA_GET_BE32 (xs @ ys) i = WPA_GET_BE32 ys (i - length xs)"
  by (simp_all add: WPA_GET_LE16_def WPA_GET_BE16_def WPA_GET_BE32_def Suc_diff_le
      flip: add.commute [of "_ :: nat" 1])

lemma rd8_Cons_0 [simp]: "rd8 (x # xs) 0 = Some x"
  by (simp add: rd8_def)

lemma rd8_Cons_pos [simp]: "0 < i \<Longrightarrow> rd8 (x # xs) i = rd8 xs (i - 1)"
  by (auto simp: rd8_def nth_Cons')

lemma WPA_GET_LE16_PUT:
  assumes "i = length xs"
  shows "WPA_GET_LE16 (xs @ WPA_PUT_LE16 v @ ys) i = Some v"
  using assms by (simp add: WPA_GET_LE16_def WPA_PUT_LE16_def)

lemma WPA_GET_BE16_PUT:
  assumes "i = length xs"
  shows "WPA_GET_BE16 (xs @ WPA_PUT_BE16 v @ ys) i = Some v"
  using assms by (simp add: WPA_GET_BE16_def WPA_PUT_BE16_def)

lemma WPA_GET_BE32_PUT:
  assumes "i = length xs"
  shows "WPA_GET_BE32 (xs @ WPA_PUT_BE32 v @ ys) i = Some v"
  using assms by (simp add: WPA_GET_BE32_def WPA_PUT_BE32_def)

text \<open>\<^verbatim>\<open>os_memcmp\<close> on equally long arrays: the sign of the first
  difference.\<close>

fun os_memcmp :: "bytes \<Rightarrow> bytes \<Rightarrow> int" where
  "os_memcmp (x # xs) (y # ys) = (if x = y then os_memcmp xs ys else if x < y then -1 else 1)"
| "os_memcmp _ _ = 0"

lemma os_memcmp_swap: "os_memcmp ys xs = - os_memcmp xs ys"
  by (induction xs ys rule: os_memcmp.induct) auto

lemma os_memcmp_eq_0: "length xs = length ys \<Longrightarrow> os_memcmp xs ys = 0 \<longleftrightarrow> xs = ys"
  by (induction xs ys rule: os_memcmp.induct) auto


section \<open>Results of checked code\<close>

text \<open>\<open>good P r\<close>: the checked computation \<open>r\<close> made no access outside its buffer
  and its result satisfies \<open>P\<close>.\<close>

definition good :: "('a \<Rightarrow> bool) \<Rightarrow> 'a option \<Rightarrow> bool" where
  "good P r \<longleftrightarrow> (\<exists>x. r = Some x \<and> P x)"

lemma good_Some [simp]: "good P (Some x) \<longleftrightarrow> P x"
  by (simp add: good_def)

lemma good_not_None: "good P r \<Longrightarrow> r \<noteq> None"
  by (auto simp: good_def)

lemma good_bind: "good Q m \<Longrightarrow> (\<And>x. m = Some x \<Longrightarrow> Q x \<Longrightarrow> good P (f x)) \<Longrightarrow> good P (Option.bind m f)"
  by (auto simp: good_def)

lemma good_if: "(c \<Longrightarrow> good P t) \<Longrightarrow> (\<not> c \<Longrightarrow> good P e) \<Longrightarrow> good P (if c then t else e)"
  by simp

lemma good_if_rd:
  "c \<noteq> None \<Longrightarrow> (c = Some True \<Longrightarrow> good P t) \<Longrightarrow> (c = Some False \<Longrightarrow> good P e) \<Longrightarrow> good P (if_rd c t e)"
  by (cases c) auto

lemma good_if_rd_guard:
  "(g \<Longrightarrow> c \<noteq> None) \<Longrightarrow> (g \<Longrightarrow> good P t) \<Longrightarrow> good P e \<Longrightarrow>
   good P (if_rd (if g then c else Some False) t e)"
  by (cases c) auto


section \<open>What code keeps of a state\<close>

text \<open>
  A relation between the states before and after some code, such as ``the cache
  stays consistent'' or ``no key was installed''.  The rules follow the shape of
  state-passing code: every intermediate state is replaced by an arbitrary state
  that is related to the first one.  Code that returns a result as well has it
  as the first component of a pair.
\<close>

locale state_frame =
  fixes R :: "'s \<Rightarrow> 's \<Rightarrow> bool"
  assumes refl: "R s s"
    and trans: "R s t \<Longrightarrow> R t u \<Longrightarrow> R s u"
begin

lemma if_state: "(b \<Longrightarrow> R s x) \<Longrightarrow> (\<not> b \<Longrightarrow> R s y) \<Longrightarrow> R s (if b then x else y)"
  by simp

lemma if_snd: "(b \<Longrightarrow> R s (snd x)) \<Longrightarrow> (\<not> b \<Longrightarrow> R s (snd y)) \<Longrightarrow> R s (snd (if b then x else y))"
  by simp

lemma option_state:
  "(opt = None \<Longrightarrow> R s x) \<Longrightarrow> (\<And>v. opt = Some v \<Longrightarrow> R s (f v)) \<Longrightarrow> R s (case_option x f opt)"
  by (cases opt) auto

lemma option_snd:
  "(opt = None \<Longrightarrow> R s (snd x)) \<Longrightarrow> (\<And>v. opt = Some v \<Longrightarrow> R s (snd (f v))) \<Longrightarrow>
   R s (snd (case_option x f opt))"
  by (cases opt) auto

lemma let_call:
  "R s (snd p) \<Longrightarrow> (\<And>r t. p = (r, t) \<Longrightarrow> R s t \<Longrightarrow> R s (f r t)) \<Longrightarrow> R s (Let p (\<lambda>(r, t). f r t))"
  by (cases p) simp

lemma let_call_snd:
  "R s (snd p) \<Longrightarrow> (\<And>r t. p = (r, t) \<Longrightarrow> R s t \<Longrightarrow> R s (snd (f r t))) \<Longrightarrow> R s (snd (Let p (\<lambda>(r, t). f r t)))"
  by (cases p) simp

lemma let_state: "R s p \<Longrightarrow> (\<And>t. R s t \<Longrightarrow> R s (f t)) \<Longrightarrow> R s (Let p f)"
  by simp

lemma let_state_snd: "R s p \<Longrightarrow> (\<And>t. R s t \<Longrightarrow> R s (snd (f t))) \<Longrightarrow> R s (snd (Let p f))"
  by simp

lemma let_value: "(\<And>x. x = v \<Longrightarrow> R s (g x)) \<Longrightarrow> R s (Let v g)"
  by simp

lemma let_value_snd: "(\<And>x. x = v \<Longrightarrow> R s (snd (g x))) \<Longrightarrow> R s (snd (Let v g))"
  by simp

lemma pair_snd: "R s t \<Longrightarrow> R s (snd (r, t))"
  by simp

lemma prod_state: "(\<And>a b. p = (a, b) \<Longrightarrow> R s (h a b)) \<Longrightarrow> R s (case p of (a, b) \<Rightarrow> h a b)"
  by (cases p) simp

lemma prod_snd: "(\<And>a b. p = (a, b) \<Longrightarrow> R s (snd (h a b))) \<Longrightarrow> R s (snd (case p of (a, b) \<Rightarrow> h a b))"
  by (cases p) simp

lemmas rules = refl pair_snd prod_state prod_snd if_state if_snd option_state option_snd let_call let_call_snd let_state
  let_state_snd let_value let_value_snd

lemma after: "R t (f t) \<Longrightarrow> R s t \<Longrightarrow> R s (f t)"
  by (rule trans)

text \<open>Checked code: besides, no read outside a buffer.\<close>

lemma checked_Some: "R s t \<Longrightarrow> good (R s) (Some t)"
  by simp

lemma checked_let_state:
  "R s p \<Longrightarrow> (\<And>t. R s t \<Longrightarrow> good (R s) (f t)) \<Longrightarrow> good (R s) (Let p f)"
  by simp

lemma checked_let_value: "(\<And>x. x = v \<Longrightarrow> good (R s) (g x)) \<Longrightarrow> good (R s) (Let v g)"
  by simp

lemma checked_option:
  "(opt = None \<Longrightarrow> good (R s) x) \<Longrightarrow> (\<And>v. opt = Some v \<Longrightarrow> good (R s) (f v)) \<Longrightarrow>
   good (R s) (case_option x f opt)"
  by (cases opt) auto

lemma checked_read:
  "m = Some v \<Longrightarrow> (m = Some v \<Longrightarrow> good (R s) (f v)) \<Longrightarrow> good (R s) (Option.bind m f)"
  by simp

lemmas checked = checked_Some good_if checked_option checked_let_state checked_let_value

end

end
