(* ===== verification/Crypto.thy ===== *)
theory Crypto
  imports Prelude
begin

text \<open>
  The key derivation, key wrap and stream cipher code of
  \<^verbatim>\<open>src/crypto\<close> that the EAPOL-Key handshake uses.  The hash based MACs and
  the AES block operation come from the configured cryptographic library (with
  the default build, OpenSSL), so they are the fields of a parameter record
  \<open>crypto\<close>; everything built on top of them (\<^verbatim>\<open>sha1-prf.c\<close>,
  \<^verbatim>\<open>sha256-prf.c\<close>, \<^verbatim>\<open>sha384-prf.c\<close>, \<^verbatim>\<open>sha512-prf.c\<close>,
  \<^verbatim>\<open>aes-wrap.c\<close>, \<^verbatim>\<open>aes-unwrap.c\<close>, \<^verbatim>\<open>aes-omac1.c\<close>,
  \<^verbatim>\<open>rc4.c\<close>) is modelled here.  \<^const>\<open>None\<close> is the return value \<open>-1\<close>.
  \<open>hash_uninit\<close> is what a local hash buffer holds before it is written, which
  \<^verbatim>\<open>rsn_pmkid\<close> copies when the MAC computation fails.
\<close>

record crypto =
  hmac_md5_vector :: "bytes \<Rightarrow> bytes \<Rightarrow> bytes option"
  hmac_sha1_vector :: "bytes \<Rightarrow> bytes \<Rightarrow> bytes option"
  hmac_sha256_vector :: "bytes \<Rightarrow> bytes \<Rightarrow> bytes option"
  hmac_sha384_vector :: "bytes \<Rightarrow> bytes \<Rightarrow> bytes option"
  hmac_sha512_vector :: "bytes \<Rightarrow> bytes \<Rightarrow> bytes option"
  aes_encrypt_init :: "bytes \<Rightarrow> (bytes \<Rightarrow> bytes) option"
  aes_decrypt_init :: "bytes \<Rightarrow> (bytes \<Rightarrow> bytes) option"
  hash_uninit :: bytes


section \<open>Pseudo-random functions\<close>

definition label_bytes :: "string \<Rightarrow> bytes" where
  "label_bytes l = map of_char l"

text \<open>The loop of \<^verbatim>\<open>sha1_prf\<close>: \<open>left\<close> is \<^verbatim>\<open>buf_len - pos\<close>, the
  counter is one octet and wraps.\<close>

fun sha1_prf_loop :: "crypto \<Rightarrow> bytes \<Rightarrow> bytes \<Rightarrow> byte \<Rightarrow> nat \<Rightarrow> bytes option" where
  "sha1_prf_loop c key pre counter left =
     (if left = 0 then Some []
      else do {
        hash \<leftarrow> hmac_sha1_vector c key (pre @ [counter]);
        if left \<ge> 20
        then do { rest \<leftarrow> sha1_prf_loop c key pre (counter + 1) (left - 20); Some (hash @ rest) }
        else Some (take left hash) })"

declare sha1_prf_loop.simps [simp del]

definition sha1_prf :: "crypto \<Rightarrow> bytes \<Rightarrow> string \<Rightarrow> bytes \<Rightarrow> nat \<Rightarrow> bytes option" where
  "sha1_prf c key label data buf_len =
     sha1_prf_loop c key (label_bytes label @ [0] @ data) 0 buf_len"

text \<open>The loop shared by \<^verbatim>\<open>sha256_prf_bits\<close>, \<^verbatim>\<open>sha384_prf_bits\<close> and
  \<^verbatim>\<open>sha512_prf_bits\<close>, which differ in the hash and its length only.\<close>

function prf_bits_loop ::
  "(bytes \<Rightarrow> bytes \<Rightarrow> bytes option) \<Rightarrow> nat \<Rightarrow> bytes \<Rightarrow> bytes \<Rightarrow> u16 \<Rightarrow> nat \<Rightarrow> bytes option" where
  "prf_bits_loop hmac mac_len key body counter left =
     (if left = 0 then Some []
      else do {
        hash \<leftarrow> hmac key (WPA_PUT_LE16 counter @ body);
        if left \<ge> mac_len \<and> mac_len > 0
        then do {
          rest \<leftarrow> prf_bits_loop hmac mac_len key body (counter + 1) (left - mac_len);
          Some (hash @ rest) }
        else Some (take left hash) })"
  by pat_completeness auto
termination
  by (relation "measure (\<lambda>(_, _, _, _, _, left). left)") auto

declare prf_bits_loop.simps [simp del]

definition mask_last :: "nat \<Rightarrow> bytes \<Rightarrow> bytes" where
  "mask_last bits buf =
     (if bits mod 8 \<noteq> 0
      then buf [length buf - 1 := (buf ! (length buf - 1)) AND push_bit (8 - bits mod 8) 0xff]
      else buf)"

definition prf_bits ::
  "(bytes \<Rightarrow> bytes \<Rightarrow> bytes option) \<Rightarrow> nat \<Rightarrow> bytes \<Rightarrow> string \<Rightarrow> bytes \<Rightarrow> nat \<Rightarrow> bytes option" where
  "prf_bits hmac mac_len key label data bits =
     map_option (mask_last bits)
       (prf_bits_loop hmac mac_len key
          (label_bytes label @ data @ WPA_PUT_LE16 (of_nat bits)) 1 ((bits + 7) div 8))"

definition sha256_prf_bits :: "crypto \<Rightarrow> bytes \<Rightarrow> string \<Rightarrow> bytes \<Rightarrow> nat \<Rightarrow> bytes option" where
  "sha256_prf_bits c = prf_bits (hmac_sha256_vector c) 32"

definition sha384_prf_bits :: "crypto \<Rightarrow> bytes \<Rightarrow> string \<Rightarrow> bytes \<Rightarrow> nat \<Rightarrow> bytes option" where
  "sha384_prf_bits c = prf_bits (hmac_sha384_vector c) 48"

definition sha512_prf_bits :: "crypto \<Rightarrow> bytes \<Rightarrow> string \<Rightarrow> bytes \<Rightarrow> nat \<Rightarrow> bytes option" where
  "sha512_prf_bits c = prf_bits (hmac_sha512_vector c) 64"

definition sha256_prf :: "crypto \<Rightarrow> bytes \<Rightarrow> string \<Rightarrow> bytes \<Rightarrow> nat \<Rightarrow> bytes option" where
  "sha256_prf c key label data buf_len = sha256_prf_bits c key label data (buf_len * 8)"

definition sha384_prf :: "crypto \<Rightarrow> bytes \<Rightarrow> string \<Rightarrow> bytes \<Rightarrow> nat \<Rightarrow> bytes option" where
  "sha384_prf c key label data buf_len = sha384_prf_bits c key label data (buf_len * 8)"

definition sha512_prf :: "crypto \<Rightarrow> bytes \<Rightarrow> string \<Rightarrow> bytes \<Rightarrow> nat \<Rightarrow> bytes option" where
  "sha512_prf c key label data buf_len = sha512_prf_bits c key label data (buf_len * 8)"


section \<open>AES key wrap\<close>

definition xor_t :: "u32 \<Rightarrow> bytes \<Rightarrow> bytes" where
  "xor_t t a =
     a [7 := (a ! 7) XOR ucast t, 6 := (a ! 6) XOR ucast (drop_bit 8 t),
        5 := (a ! 5) XOR ucast (drop_bit 16 t), 4 := (a ! 4) XOR ucast (drop_bit 24 t)]"

text \<open>The body of the inner loop; the state is the register \<open>a\<close> and the
  buffer \<open>r\<close>.\<close>

definition aes_wrap_body ::
  "(bytes \<Rightarrow> bytes) \<Rightarrow> nat \<Rightarrow> nat \<times> nat \<Rightarrow> bytes \<times> bytes \<Rightarrow> bytes \<times> bytes" where
  "aes_wrap_body enc n = (\<lambda>(j, i) (a, r).
     let b = enc (a @ slice (8 * (i - 1)) 8 r)
     in (xor_t (of_nat (n * j + i)) (slice 0 8 b), overwrite (8 * (i - 1)) (slice 8 8 b) r))"

definition wrap_schedule :: "nat \<Rightarrow> (nat \<times> nat) list" where
  "wrap_schedule n = concat (map (\<lambda>j. map (\<lambda>i. (j, i)) [1..<Suc n]) [0..<6])"

definition aes_wrap :: "crypto \<Rightarrow> bytes \<Rightarrow> nat \<Rightarrow> bytes \<Rightarrow> bytes option" where
  "aes_wrap c kek n plain =
     (case aes_encrypt_init c kek of
        None \<Rightarrow> None
      | Some enc \<Rightarrow>
          (let (a, r) = fold (aes_wrap_body enc n) (wrap_schedule n)
                          (replicate 8 0xa6, slice 0 (8 * n) plain)
           in Some (a @ r)))"

definition aes_unwrap_body ::
  "(bytes \<Rightarrow> bytes) \<Rightarrow> nat \<Rightarrow> nat \<times> nat \<Rightarrow> bytes \<times> bytes \<Rightarrow> bytes \<times> bytes" where
  "aes_unwrap_body dec n = (\<lambda>(j, i) (a, r).
     let b = dec (xor_t (of_nat (n * j + i)) a @ slice (8 * (i - 1)) 8 r)
     in (slice 0 8 b, overwrite (8 * (i - 1)) (slice 8 8 b) r))"

definition unwrap_schedule :: "nat \<Rightarrow> (nat \<times> nat) list" where
  "unwrap_schedule n = concat (map (\<lambda>j. map (\<lambda>i. (j, i)) (rev [1..<Suc n])) (rev [0..<6]))"

definition aes_unwrap :: "crypto \<Rightarrow> bytes \<Rightarrow> nat \<Rightarrow> bytes \<Rightarrow> bytes option" where
  "aes_unwrap c kek n cipher =
     (case aes_decrypt_init c kek of
        None \<Rightarrow> None
      | Some dec \<Rightarrow>
          (let (a, r) = fold (aes_unwrap_body dec n) (unwrap_schedule n)
                          (slice 0 8 cipher, slice 8 (8 * n) cipher)
           in if list_all (\<lambda>x. x = 0xa6) a then Some r else None))"


section \<open>OMAC1 (AES-CMAC)\<close>

definition xor_bytes :: "bytes \<Rightarrow> bytes \<Rightarrow> bytes" where
  "xor_bytes a b = map2 (XOR) (take (length b) a) b @ drop (length b) a"

definition gf_mulx :: "bytes \<Rightarrow> bytes" where
  "gf_mulx pad =
     (let carry = pad ! 0 AND 0x80;
          sh = map (\<lambda>i. push_bit 1 (pad ! i) OR drop_bit 7 (pad ! (i + 1))) [0..<15]
               @ [push_bit 1 (pad ! 15)]
      in if carry \<noteq> 0 then sh [15 := sh ! 15 XOR 0x87] else sh)"

text \<open>The main loop of \<^verbatim>\<open>omac1_aes_vector\<close> over the concatenation of the
  input elements; the last full block is not encrypted here.\<close>

function omac1_loop :: "(bytes \<Rightarrow> bytes) \<Rightarrow> bytes \<Rightarrow> bytes \<Rightarrow> bytes \<times> bytes" where
  "omac1_loop enc cbc data =
     (if length data \<ge> 16
      then let cbc = xor_bytes cbc (take 16 data)
           in omac1_loop enc (if length data > 16 then enc cbc else cbc) (drop 16 data)
      else (cbc, data))"
  by pat_completeness auto
termination
  by (relation "measure (\<lambda>(_, _, data). length data)") auto

declare omac1_loop.simps [simp del]

definition omac1_aes_vector :: "crypto \<Rightarrow> bytes \<Rightarrow> bytes list \<Rightarrow> bytes option" where
  "omac1_aes_vector c key elems =
     (case aes_encrypt_init c key of
        None \<Rightarrow> None
      | Some enc \<Rightarrow>
          (let data = concat elems;
               (cbc, rest) = omac1_loop enc (zeros 16) data;
               pad = gf_mulx (enc (zeros 16));
               (cbc, pad) =
                 (if rest \<noteq> [] \<or> data = []
                  then let cbc = xor_bytes cbc rest
                       in (cbc [length rest := cbc ! length rest XOR 0x80], gf_mulx pad)
                  else (cbc, pad))
           in Some (enc (xor_bytes pad cbc))))"

definition omac1_aes_128 :: "crypto \<Rightarrow> bytes \<Rightarrow> bytes \<Rightarrow> bytes option" where
  "omac1_aes_128 c key data = omac1_aes_vector c (slice 0 16 key) [data]"


section \<open>RC4\<close>

text \<open>The 32-bit indices of the source are masked with \<^verbatim>\<open>0xff\<close> after every
  addition, so they are octets here.\<close>

definition S_SWAP :: "byte \<Rightarrow> byte \<Rightarrow> bytes \<Rightarrow> bytes" where
  "S_SWAP a b S = (let t = S ! unat a in S [unat a := S ! unat b, unat b := t])"

fun rc4_setup :: "bytes \<Rightarrow> nat list \<Rightarrow> byte \<Rightarrow> nat \<Rightarrow> bytes \<Rightarrow> bytes" where
  "rc4_setup key [] j kpos S = S"
| "rc4_setup key (i # is) j kpos S =
     (let j = j + S ! i + key ! kpos;
          kpos = (if kpos + 1 \<ge> length key then 0 else kpos + 1)
      in rc4_setup key is j kpos (S_SWAP (of_nat i) j S))"

fun rc4_skip_loop :: "nat \<Rightarrow> byte \<times> byte \<times> bytes \<Rightarrow> byte \<times> byte \<times> bytes" where
  "rc4_skip_loop 0 st = st"
| "rc4_skip_loop (Suc k) (i, j, S) =
     (let i = i + 1; j = j + S ! unat i in rc4_skip_loop k (i, j, S_SWAP i j S))"

fun rc4_apply :: "byte \<times> byte \<times> bytes \<Rightarrow> bytes \<Rightarrow> bytes" where
  "rc4_apply st [] = []"
| "rc4_apply (i, j, S) (x # xs) =
     (let i = i + 1; j = j + S ! unat i; S = S_SWAP i j S
      in (x XOR S ! unat (S ! unat i + S ! unat j)) # rc4_apply (i, j, S) xs)"

definition rc4_skip :: "bytes \<Rightarrow> nat \<Rightarrow> bytes \<Rightarrow> bytes" where
  "rc4_skip key skip data =
     rc4_apply (rc4_skip_loop skip (0, 0, rc4_setup key [0..<256] 0 0 (map of_nat [0..<256]))) data"


section \<open>Lengths of derived keys\<close>

definition mac_lengths_ok :: "crypto \<Rightarrow> bool" where
  "mac_lengths_ok c \<longleftrightarrow>
     (\<forall>k d h. hmac_md5_vector c k d = Some h \<longrightarrow> length h = 16) \<and>
     (\<forall>k d h. hmac_sha1_vector c k d = Some h \<longrightarrow> length h = 20) \<and>
     (\<forall>k d h. hmac_sha256_vector c k d = Some h \<longrightarrow> length h = 32) \<and>
     (\<forall>k d h. hmac_sha384_vector c k d = Some h \<longrightarrow> length h = 48) \<and>
     (\<forall>k d h. hmac_sha512_vector c k d = Some h \<longrightarrow> length h = 64)"

lemma length_sha1_prf_loop:
  assumes "\<And>k d h. hmac_sha1_vector c k d = Some h \<Longrightarrow> length h = 20"
  shows "sha1_prf_loop c key pre counter left = Some out \<Longrightarrow> length out = left"
proof (induction left arbitrary: counter out rule: less_induct)
  case (less left)
  show ?case
    using less.prems less.IH [of "left - 20"] assms
    by (subst (asm) sha1_prf_loop.simps)
       (auto split: if_splits Option.bind_splits)
qed

lemma length_prf_bits_loop:
  assumes "\<And>k d h. hmac k d = Some h \<Longrightarrow> length h = n" "0 < n"
  shows "prf_bits_loop hmac n key body counter left = Some out \<Longrightarrow> length out = left"
proof (induction left arbitrary: counter out rule: less_induct)
  case (less left)
  show ?case
    using less.prems less.IH [of "left - n"] assms
    by (subst (asm) prf_bits_loop.simps)
       (auto split: if_splits Option.bind_splits)
qed

lemma mac_lengths_okD:
  assumes "mac_lengths_ok c"
  shows "hmac_md5_vector c k d = Some h \<Longrightarrow> length h = 16"
    and "hmac_sha1_vector c k d = Some h \<Longrightarrow> length h = 20"
    and "hmac_sha256_vector c k d = Some h \<Longrightarrow> length h = 32"
    and "hmac_sha384_vector c k d = Some h \<Longrightarrow> length h = 48"
    and "hmac_sha512_vector c k d = Some h \<Longrightarrow> length h = 64"
  using assms by (auto simp: mac_lengths_ok_def)

lemma length_mask_last [simp]: "length (mask_last bits buf) = length buf"
  by (simp add: mask_last_def)

lemma length_prf_bits:
  assumes "\<And>k d h. hmac k d = Some h \<Longrightarrow> length h = n" "0 < n"
    and "prf_bits hmac n key label data bits = Some out"
  shows "length out = (bits + 7) div 8"
  using assms(3) length_prf_bits_loop [OF assms(1,2)]
  by (auto simp: prf_bits_def)

text \<open>Every PRF produces exactly the number of octets it is asked for.\<close>

lemma length_prf:
  assumes "mac_lengths_ok c"
  shows "sha1_prf c key label data n = Some out \<Longrightarrow> length out = n"
    and "sha256_prf c key label data n = Some out \<Longrightarrow> length out = n"
    and "sha384_prf c key label data n = Some out \<Longrightarrow> length out = n"
    and "sha512_prf c key label data n = Some out \<Longrightarrow> length out = n"
  using length_sha1_prf_loop [OF mac_lengths_okD(2) [OF assms]]
    length_prf_bits [OF mac_lengths_okD(3) [OF assms]]
    length_prf_bits [OF mac_lengths_okD(4) [OF assms]]
    length_prf_bits [OF mac_lengths_okD(5) [OF assms]]
  by (force simp: sha1_prf_def sha256_prf_def sha384_prf_def sha512_prf_def
        sha256_prf_bits_def sha384_prf_bits_def sha512_prf_bits_def)+


section \<open>Key wrap round trip\<close>

definition aes_inverse :: "crypto \<Rightarrow> bytes \<Rightarrow> bool" where
  "aes_inverse c kek \<longleftrightarrow>
     (case (aes_encrypt_init c kek, aes_decrypt_init c kek) of
        (Some enc, Some dec) \<Rightarrow>
          (\<forall>b. length b = 16 \<longrightarrow> length (enc b) = 16 \<and> dec (enc b) = b)
      | _ \<Rightarrow> False)"

lemma length_xor_t [simp]: "length (xor_t t a) = length a"
  by (simp add: xor_t_def)

lemma xor_t_xor_t [simp]: "length a = 8 \<Longrightarrow> xor_t t (xor_t t a) = a"
  by (auto simp: xor_t_def nth_list_update list_eq_iff_nth_eq xor.assoc)

lemma overwrite_slice_back:
  assumes "off + n \<le> length r" "length b = n"
  shows "overwrite off (slice off n r) (overwrite off b r) = r"
proof -
  define p m q where "p = take off r" and "m = slice off n r" and "q = drop (off + n) r"
  have "r = p @ m @ q"
    by (simp add: p_def m_def q_def slice_def add.commute [of off] flip: drop_drop)
  moreover have "length p = off" "length m = n"
    using assms(1) by (auto simp: p_def m_def)
  ultimately show ?thesis
    using assms(2) by (simp add: overwrite_def slice_def)
qed

lemma aes_body_inverse:
  assumes "\<And>b. length b = 16 \<Longrightarrow> length (enc b) = 16 \<and> dec (enc b) = b"
    and "length a = 8" "1 \<le> i" "8 * i \<le> length r"
  shows "aes_unwrap_body dec n (j, i) (aes_wrap_body enc n (j, i) (a, r)) = (a, r)"
proof -
  define off where "off = 8 * (i - Suc 0)"
  have off: "off + 8 \<le> length r" using assms(3,4) by (auto simp: off_def)
  define b where "b = enc (a @ slice off 8 r)"
  have lb: "length b = 16" and db: "dec b = a @ slice off 8 r"
    using assms(1) [of "a @ slice off 8 r"] assms(2) off by (auto simp: b_def)
  have bsplit: "slice 0 8 b @ slice 8 8 b = b"
    using lb by (simp add: slice_def)
  have wback: "slice off 8 (overwrite off (slice 8 8 b) r) = slice 8 8 b"
    using slice_overwrite_same [of off "slice 8 8 b" r] lb off by simp
  show ?thesis
    using lb off assms(2) overwrite_slice_back [of off 8 r "slice 8 8 b"]
    by (simp add: aes_unwrap_body_def aes_wrap_body_def Let_def off_def [symmetric]
        b_def [symmetric] wback bsplit db slice_def [of 0 8 "a @ _"] slice_def [of 8 8 "a @ _"])
qed

lemma aes_wrap_body_lengths:
  assumes "\<And>b. length b = 16 \<Longrightarrow> length (enc b) = 16"
    and "length a = 8" "1 \<le> i" "8 * i \<le> length r"
    and "aes_wrap_body enc n (j, i) (a, r) = (a', r')"
  shows "length a' = 8 \<and> length r' = length r"
  using assms by (auto simp: aes_wrap_body_def Let_def)

lemma fold_inverse:
  assumes "\<And>x s. x \<in> set xs \<Longrightarrow> P s \<Longrightarrow> g x (f x s) = s \<and> P (f x s)" "P s"
  shows "fold g (rev xs) (fold f xs s) = s \<and> P (fold f xs s)"
  using assms by (induction xs arbitrary: s) auto

lemma unwrap_schedule_rev: "unwrap_schedule n = rev (wrap_schedule n)"
  by (simp add: unwrap_schedule_def wrap_schedule_def rev_concat rev_map comp_def)

lemma set_wrap_schedule: "(j, i) \<in> set (wrap_schedule n) \<Longrightarrow> 1 \<le> i \<and> i \<le> n"
  by (auto simp: wrap_schedule_def)

lemma aes_unwrap_wrap:
  assumes "aes_inverse c kek" "length plain = 8 * n"
  shows "\<exists>cipher. aes_wrap c kek n plain = Some cipher \<and> length cipher = 8 * n + 8 \<and>
           aes_unwrap c kek n cipher = Some plain"
proof -
  obtain enc dec where ed: "aes_encrypt_init c kek = Some enc" "aes_decrypt_init c kek = Some dec"
    and inv: "\<And>b. length b = 16 \<Longrightarrow> length (enc b) = 16 \<and> dec (enc b) = b"
    using assms(1) by (auto simp: aes_inverse_def split: option.splits)
  define s0 where "s0 = (replicate 8 (0xa6 :: byte), plain)"
  define P where "P = (\<lambda>s :: bytes \<times> bytes. length (fst s) = 8 \<and> length (snd s) = 8 * n)"
  have step: "aes_unwrap_body dec n x (aes_wrap_body enc n x s) = s \<and> P (aes_wrap_body enc n x s)"
    if "x \<in> set (wrap_schedule n)" "P s" for x s
  proof -
    obtain j i a r where x: "x = (j, i)" and s: "s = (a, r)" by (cases x, cases s)
    have i: "1 \<le> i" "8 * i \<le> length r" and a: "length a = 8" and r: "length r = 8 * n"
      using that set_wrap_schedule [of j i n] by (auto simp: x s P_def)
    obtain a' r' where w: "aes_wrap_body enc n (j, i) (a, r) = (a', r')" by fastforce
    show ?thesis
      using aes_body_inverse [OF inv a i, of n j] aes_wrap_body_lengths [OF conjunct1 [OF inv] a i w] r
      by (simp add: P_def x s w)
  qed
  obtain a r where ar: "fold (aes_wrap_body enc n) (wrap_schedule n) s0 = (a, r)"
    by fastforce
  have "P s0" using assms(2) by (simp add: P_def s0_def)
  from fold_inverse [of "wrap_schedule n" P "aes_unwrap_body dec n" "aes_wrap_body enc n" s0, OF step this]
  have undo: "fold (aes_unwrap_body dec n) (unwrap_schedule n) (a, r) = s0" and "P (a, r)"
    by (auto simp: ar unwrap_schedule_rev)
  then have "length a = 8" "length r = 8 * n" by (auto simp: P_def)
  then show ?thesis
    using undo ar assms(2)
    by (simp add: aes_wrap_def aes_unwrap_def ed s0_def slice_def list_all_length)
qed


section \<open>RC4 is an involution\<close>

lemma rc4_apply_apply: "rc4_apply st (rc4_apply st data) = data"
  by (induction st data rule: rc4_apply.induct) (auto simp: Let_def xor.assoc)

lemma length_rc4_apply [simp]: "length (rc4_apply st data) = length data"
  by (induction st data rule: rc4_apply.induct) (auto simp: Let_def)

lemma rc4_skip_involution:
  "rc4_skip key skip (rc4_skip key skip data) = data \<and> length (rc4_skip key skip data) = length data"
  by (simp add: rc4_skip_def rc4_apply_apply)


section \<open>A library for concrete runs\<close>

text \<open>A cryptographic library that computes, with results of the documented
  sizes, to run the definitions on concrete inputs.\<close>

definition crypto_sample :: crypto where
  "crypto_sample = \<lparr>
     hmac_md5_vector = (\<lambda>k d. Some (zeros 16)), hmac_sha1_vector = (\<lambda>k d. Some (zeros 20)),
     hmac_sha256_vector = (\<lambda>k d. Some (zeros 32)), hmac_sha384_vector = (\<lambda>k d. Some (zeros 48)),
     hmac_sha512_vector = (\<lambda>k d. Some (zeros 64)),
     aes_encrypt_init = (\<lambda>k. Some (\<lambda>b. take 16 (b @ zeros 16))),
     aes_decrypt_init = (\<lambda>k. Some (\<lambda>b. take 16 (b @ zeros 16))),
     hash_uninit = zeros 64 \<rparr>"

lemma crypto_sample_ok: "mac_lengths_ok crypto_sample" "aes_inverse crypto_sample kek"
  by (auto simp: mac_lengths_ok_def aes_inverse_def crypto_sample_def)

end
