(* ===== verification/EAP_Common.thy ===== *)
theory EAP_Common
  imports Prelude
begin

text \<open>
  EAP headers, \<^verbatim>\<open>src/eap_common/eap_common.c\<close>: validation of the header of a
  received message, for both the legacy and the expanded Type, and the header of a
  new message.  A \<^verbatim>\<open>struct wpabuf\<close> is the list of the octets put in it so far.
  Reads are checked as in the other parsers: the outer \<^const>\<open>None\<close> is an access
  outside the buffer.
\<close>

unbundle bit_operations_syntax

abbreviation (input) EAP_CODE_REQUEST :: byte where "EAP_CODE_REQUEST \<equiv> 1"
abbreviation (input) EAP_CODE_RESPONSE :: byte where "EAP_CODE_RESPONSE \<equiv> 2"
abbreviation (input) EAP_CODE_SUCCESS :: byte where "EAP_CODE_SUCCESS \<equiv> 3"
abbreviation (input) EAP_CODE_FAILURE :: byte where "EAP_CODE_FAILURE \<equiv> 4"
abbreviation (input) EAP_CODE_INITIATE :: byte where "EAP_CODE_INITIATE \<equiv> 5"
abbreviation (input) EAP_CODE_FINISH :: byte where "EAP_CODE_FINISH \<equiv> 6"

abbreviation (input) EAP_VENDOR_IETF :: u32 where "EAP_VENDOR_IETF \<equiv> 0"
abbreviation (input) EAP_TYPE_NONE :: u32 where "EAP_TYPE_NONE \<equiv> 0"
abbreviation (input) EAP_TYPE_IDENTITY :: u32 where "EAP_TYPE_IDENTITY \<equiv> 1"
abbreviation (input) EAP_TYPE_NOTIFICATION :: u32 where "EAP_TYPE_NOTIFICATION \<equiv> 2"
abbreviation (input) EAP_TYPE_NAK :: u32 where "EAP_TYPE_NAK \<equiv> 3"
abbreviation (input) EAP_TYPE_TLS :: u32 where "EAP_TYPE_TLS \<equiv> 13"
abbreviation (input) EAP_TYPE_LEAP :: u32 where "EAP_TYPE_LEAP \<equiv> 17"
abbreviation (input) EAP_TYPE_PEAP :: u32 where "EAP_TYPE_PEAP \<equiv> 25"
abbreviation (input) EAP_TYPE_EXPANDED :: u32 where "EAP_TYPE_EXPANDED \<equiv> 254"


section \<open>Operations\<close>

definition eap_hdr_len_valid :: "bytes option \<Rightarrow> nat \<Rightarrow> bool option" where
  "eap_hdr_len_valid msg min_payload =
     (case msg of
        None \<Rightarrow> Some False
      | Some m \<Rightarrow>
          if length m < 4 then Some False
          else do {
            len \<leftarrow> WPA_GET_BE16 m 2;
            Some (\<not> (unat len < 4 + min_payload \<or> unat len > length m)) })"

text \<open>The payload as offset and length.\<close>

definition eap_hdr_validate :: "u32 \<Rightarrow> u32 \<Rightarrow> bytes option \<Rightarrow> (nat \<times> nat) option option" where
  "eap_hdr_validate vendor eap_type msg = do {
     valid \<leftarrow> eap_hdr_len_valid msg 1;
     case msg of
       None \<Rightarrow> Some None
     | Some m \<Rightarrow>
         if \<not> valid then Some None
         else do {
           l \<leftarrow> WPA_GET_BE16 m 2;
           t \<leftarrow> rd8 m 4;
           if ucast t = EAP_TYPE_EXPANDED
           then if unat l < 4 + 8 then Some None
                else do {
                  exp_vendor \<leftarrow> WPA_GET_BE24 m 5;
                  exp_type \<leftarrow> WPA_GET_BE32 m 8;
                  Some (if exp_vendor \<noteq> vendor \<or> exp_type \<noteq> eap_type then None
                        else Some (12, unat l - 4 - 8)) }
           else Some (if vendor \<noteq> EAP_VENDOR_IETF \<or> ucast t \<noteq> eap_type then None
                      else Some (5, unat l - 4 - 1)) } }"

definition put_be24 :: "u32 \<Rightarrow> bytes" where
  "put_be24 v = [ucast (drop_bit 16 v), ucast (drop_bit 8 v), ucast v]"

text \<open>The octets in a buffer of a new message, to which the payload is appended.\<close>

definition eap_msg_alloc :: "u32 \<Rightarrow> u32 \<Rightarrow> nat \<Rightarrow> byte \<Rightarrow> byte \<Rightarrow> bytes" where
  "eap_msg_alloc vendor typ payload_len code identifier =
     (let len = 4 + (if vendor = EAP_VENDOR_IETF then 1 else 8) + payload_len
      in [code, identifier] @ WPA_PUT_BE16 (of_nat len) @
         (if vendor = EAP_VENDOR_IETF then [ucast typ]
          else [ucast EAP_TYPE_EXPANDED] @ put_be24 vendor @ WPA_PUT_BE32 typ))"

definition eap_update_len :: "bytes \<Rightarrow> bytes" where
  "eap_update_len msg =
     (if length msg < 4 then msg else overwrite 2 (WPA_PUT_BE16 (of_nat (length msg))) msg)"

definition eap_get_id :: "bytes \<Rightarrow> byte option" where
  "eap_get_id msg = (if length msg < 4 then Some 0 else rd8 msg 1)"

definition eap_get_type :: "bytes \<Rightarrow> u32 option" where
  "eap_get_type msg = (if length msg < 5 then Some EAP_TYPE_NONE else map_option ucast (rd8 msg 4))"


section \<open>Validation\<close>

lemma eap_hdr_len_valid_not_None: "eap_hdr_len_valid msg n \<noteq> None"
  by (cases msg) (auto simp: eap_hdr_len_valid_def rd_simps)

lemma eap_hdr_len_validD:
  assumes "eap_hdr_len_valid (Some m) n = Some True"
  obtains l where "WPA_GET_BE16 m 2 = Some l" "4 + n \<le> unat l" "unat l \<le> length m"
  using assms by (auto simp: eap_hdr_len_valid_def rd_simps split: if_splits)

text \<open>Validating an EAP header reads only octets of the message, and the payload
  that is handed out lies inside the message, whatever its Length field says.\<close>

theorem eap_hdr_validate_in_bounds:
  "\<exists>r. eap_hdr_validate vendor typ (Some m) = Some r \<and>
     (case r of None \<Rightarrow> True | Some (off, n) \<Rightarrow> off + n \<le> length m)"
proof (cases "eap_hdr_len_valid (Some m) 1")
  case None
  then show ?thesis using eap_hdr_len_valid_not_None by simp
next
  case (Some v)
  show ?thesis
  proof (cases v)
    case True
    then obtain l where "WPA_GET_BE16 m 2 = Some l" "4 + 1 \<le> unat l" "unat l \<le> length m"
      using Some by (auto elim: eap_hdr_len_validD)
    then show ?thesis
      using Some True by (auto simp: eap_hdr_validate_def rd_simps)
  qed (use Some in \<open>simp add: eap_hdr_validate_def\<close>)
qed

lemma take_bit_self:
  assumes "unat (v :: 'a :: len word) < 2 ^ k"
  shows "take_bit k v = v"
proof (rule unsigned_word_eqI)
  show "unat (take_bit k v) = unat v"
    using assms by (simp add: unsigned_take_bit_eq take_bit_nat_eq_self)
qed

lemma be24_PUT:
  assumes "unat (v :: u32) < 2 ^ 24"
  shows "be24 (ucast (drop_bit 16 v)) (ucast (drop_bit 8 v)) (ucast v) = v"
proof (rule bit_word_eqI)
  fix n :: nat assume n: "n < LENGTH(32)"
  have top: "\<not> bit v n" if "n \<ge> 24"
    using that take_bit_self [OF assms] by (metis bit_take_bit_iff not_less)
  consider "n < 8" | "8 \<le> n \<and> n < 16" | "16 \<le> n \<and> n < 24" | "24 \<le> n" by linarith
  then show "bit (be24 (ucast (drop_bit 16 v)) (ucast (drop_bit 8 v)) (ucast v)) n = bit v n"
    by cases (use n top in \<open>auto simp: be24_def bit_simps\<close>)
qed

lemma unat_u16: "m < 65536 \<Longrightarrow> unat (of_nat m :: u16) = m"
  unfolding unsigned_of_nat by (simp add: take_bit_nat_eq_self)

text \<open>A message that was started with \<^verbatim>\<open>eap_msg_alloc\<close> and got the announced
  payload is accepted by \<^verbatim>\<open>eap_hdr_validate\<close> for its vendor and type, which finds the
  payload again.\<close>

theorem eap_msg_roundtrip:
  assumes "length payload = n" "12 + n < 65536" "unat vendor < 2 ^ 24"
    and "vendor = EAP_VENDOR_IETF \<Longrightarrow> unat typ < 254"
  shows "\<exists>off. eap_hdr_validate vendor typ (Some (eap_msg_alloc vendor typ n code ident @ payload)) =
      Some (Some (off, n)) \<and>
    slice off n (eap_msg_alloc vendor typ n code ident @ payload) = payload"
proof (cases "vendor = EAP_VENDOR_IETF")
  case True
  have "take_bit 8 typ = typ" using assms(4) [OF True] by (auto intro!: take_bit_self)
  then have t: "ucast (ucast typ :: byte) = typ" "typ \<noteq> EAP_TYPE_EXPANDED"
    using assms(4) [OF True] by (auto simp: unsigned_ucast_eq)
  have "unat (of_nat (5 + n) :: u16) = 5 + n" using assms(2) by (intro unat_u16) simp
  then show ?thesis
    using True assms(1) t
    by (intro exI [of _ 5])
       (simp add: eap_hdr_validate_def eap_hdr_len_valid_def eap_msg_alloc_def Let_def slice_def
          WPA_GET_BE16_def WPA_PUT_BE16_def del: of_nat_Suc of_nat_add)
next
  case False
  have "unat (of_nat (12 + n) :: u16) = 12 + n" using assms(2) by (intro unat_u16) simp
  then show ?thesis
    using False assms(1) be24_PUT [OF assms(3)]
    by (intro exI [of _ 12])
       (simp add: eap_hdr_validate_def eap_hdr_len_valid_def eap_msg_alloc_def Let_def slice_def
          WPA_GET_BE16_def WPA_PUT_BE16_def WPA_GET_BE24_def put_be24_def WPA_GET_BE32_def WPA_PUT_BE32_def
          del: of_nat_Suc of_nat_add)
qed

theorem eap_msg_roundtrip_witness:
  "\<exists>off. eap_hdr_validate 0x372a 1 (Some (eap_msg_alloc 0x372a 1 3 EAP_CODE_RESPONSE 7 @ [1, 2, 3])) =
     Some (Some (off, 3)) \<and> slice off 3 (eap_msg_alloc 0x372a 1 3 EAP_CODE_RESPONSE 7 @ [1, 2, 3]) = [1, 2, 3]"
  by (rule eap_msg_roundtrip) simp_all

end
