(* ===== verification/EAPOL_SM.thy ===== *)
theory EAPOL_SM
  imports Crypto EAP_Common "HOL-Library.Sublist"
begin

text \<open>
  The state of the EAPOL supplicant and of the EAP peer: \<^verbatim>\<open>struct eapol_sm\<close> of
  \<^verbatim>\<open>src/eapol_supp/eapol_supp_sm.c\<close> and \<^verbatim>\<open>struct eap_sm\<close> of
  \<^verbatim>\<open>src/eap_peer/eap_i.h\<close>, which share variables through the callbacks
  \<^verbatim>\<open>get_bool\<close>, \<^verbatim>\<open>set_bool\<close>, \<^verbatim>\<open>get_int\<close> and \<^verbatim>\<open>set_int\<close>; so the EAP state machine is a
  field of the EAPOL state machine and its operations work on both.

  The callbacks of \<^verbatim>\<open>struct eapol_ctx\<close>, the timers and the calls of EAP methods are
  actions of a trace, most recent first, and an environment answers them from what
  happened before.  An EAP method may change the variables in \<open>method_vars\<close>, which are
  the ones that the methods of \<^verbatim>\<open>src/eap_peer\<close> assign.  A callback that is not set is
  one that returns 0; callbacks and methods do not call back into the state machine.
  The field \<open>x_keydata_uninit\<close> is what the uninitialised local array \<^verbatim>\<open>keydata\<close> of
  \<^verbatim>\<open>eapol_sm_processKey\<close> holds.
\<close>


section \<open>Actions and environment\<close>

datatype eapol_supp_result =
    EAPOL_SUPP_RESULT_FAILURE | EAPOL_SUPP_RESULT_SUCCESS | EAPOL_SUPP_RESULT_EXPECTED_FAILURE

datatype eapol_action =
    Eapol_send byte bytes
  | Set_wep_key bool nat bytes
  | Eapol_done_cb
  | Port_cb bool
  | Aborted_cached_cb
  | Confirm_auth_cb
  | Result_cb eapol_supp_result
  | Register_tick
  | Cancel_tick
  | Register_step
  | Cancel_step
  | Method_init u32 u32
  | Method_init_for_reauth
  | Method_deinit
  | Method_deinit_for_reauth
  | Method_process bytes
  | Request_identity

datatype EapDecision = DECISION_FAIL | DECISION_COND_SUCC | DECISION_UNCOND_SUCC

datatype EapMethodState = METHOD_NONE | METHOD_INIT | METHOD_CONT | METHOD_MAY_CONT | METHOD_DONE

record eap_method_ret =
  r_ignore :: bool
  r_methodState :: EapMethodState
  r_decision :: EapDecision
  r_allowNotifications :: bool

record method_vars =
  mv_ignore :: bool
  mv_ClientTimeout :: u32
  mv_leap_done :: bool
  mv_peap_done :: bool
  mv_expected_failure :: bool
  mv_ext_cert_check :: bool
  mv_waiting_ext_cert_check :: bool
  mv_use_machine_cred :: bool

datatype alloc_site =
    Alloc_nak | Alloc_identity | Alloc_notify | Alloc_lastResp | Alloc_retransmit | Alloc_eapol_key
  | Alloc_eapReq

record eapol_env =
  x_set_wep_key :: "eapol_action list \<Rightarrow> int"
  x_confirm_auth :: "eapol_action list \<Rightarrow> int"
  x_eloop :: "eapol_action list \<Rightarrow> int"
  x_alloc :: "alloc_site \<Rightarrow> eapol_action list \<Rightarrow> bool"
  x_preauth :: bool
  x_has_cb :: bool
  x_methods :: "(u32 \<times> u32) list"
  x_has_reauth_data :: "eapol_action list \<Rightarrow> bool"
  x_init :: "eapol_action list \<Rightarrow> bool"
  x_process :: "eapol_action list \<Rightarrow> eap_method_ret \<Rightarrow> eap_method_ret \<times> bytes option"
  x_method_vars :: "eapol_action list \<Rightarrow> method_vars \<Rightarrow> method_vars"
  x_isKeyAvailable :: "eapol_action list \<Rightarrow> bool"
  x_getKey :: "eapol_action list \<Rightarrow> bytes option"
  x_getSessionId :: "eapol_action list \<Rightarrow> bytes option"
  x_get_identity :: "eapol_action list \<Rightarrow> bytes option"
  x_pending_pin :: "eapol_action list \<Rightarrow> bool"
  x_sha1 :: "bytes \<Rightarrow> bytes option"
  x_keydata_uninit :: "eapol_action list \<Rightarrow> bytes"


section \<open>Network configuration\<close>

text \<open>The fields of \<^verbatim>\<open>struct eap_peer_config\<close> that the EAP state machine reads;
  \<open>cf_id\<close> is the identity of the object.\<close>

record eap_peer_config =
  cf_id :: nat
  cf_identity :: "bytes option"
  cf_anonymous_identity :: "bytes option"
  cf_machine_identity :: "bytes option"
  cf_eap_methods :: "(u32 \<times> u32) list option"
  cf_phase1 :: "string option"
  cf_pcsc :: bool

record eapol_config =
  ec_accept_802_1x_keys :: bool
  ec_required_keys :: u32
  ec_fast_reauth :: bool
  ec_workaround :: bool
  ec_eap_disabled :: bool
  ec_external_sim :: bool
  ec_wps :: u32


section \<open>EAP peer\<close>

datatype EAP_state =
    EAP_INITIALIZE | EAP_DISABLED | EAP_IDLE | EAP_RECEIVED | EAP_GET_METHOD | EAP_METHOD
  | EAP_SEND_RESPONSE | EAP_DISCARD | EAP_IDENTITY | EAP_NOTIFICATION | EAP_RETRANSMIT
  | EAP_SUCCESS | EAP_FAILURE

text \<open>The selected method is given by its vendor and type, its private data by
  whether there is any.\<close>

record eap_sm =
  ea_state :: EAP_state
  ea_selectedMethod :: u32
  ea_methodState :: EapMethodState
  ea_lastId :: int
  ea_lastRespData :: "bytes option"
  ea_decision :: EapDecision
  ea_rxReq :: bool
  ea_rxSuccess :: bool
  ea_rxFailure :: bool
  ea_rxResp :: bool
  ea_reqId :: int
  ea_reqMethod :: u32
  ea_reqVendor :: u32
  ea_reqVendorMethod :: u32
  ea_allowNotifications :: bool
  ea_eapRespData :: "bytes option"
  ea_eapKeyAvailable :: bool
  ea_eapKeyData :: "bytes option"
  ea_eapSessionId :: "bytes option"
  ea_m :: "(u32 \<times> u32) option"
  ea_method_priv :: bool
  ea_mv :: method_vars
  ea_changed :: bool
  ea_fast_reauth :: bool
  ea_reauthInit :: bool
  ea_req_sha1 :: bytes
  ea_last_sha1 :: bytes
  ea_workaround :: bool
  ea_num_rounds :: int
  ea_num_rounds_short :: int
  ea_force_disabled :: bool
  ea_external_sim :: bool
  ea_prev_failure :: bool
  ea_last_config :: "nat option"


section \<open>EAPOL supplicant\<close>

datatype PortStatus = Unauthorized | Authorized

datatype PortControl = Auto | ForceUnauthorized | ForceAuthorized

datatype SUPP_PAE_state =
    SUPP_PAE_UNKNOWN | SUPP_PAE_DISCONNECTED | SUPP_PAE_LOGOFF | SUPP_PAE_CONNECTING
  | SUPP_PAE_AUTHENTICATING | SUPP_PAE_AUTHENTICATED | SUPP_PAE_HELD | SUPP_PAE_RESTART
  | SUPP_PAE_S_FORCE_AUTH | SUPP_PAE_S_FORCE_UNAUTH

datatype KEY_RX_state = KEY_RX_UNKNOWN | KEY_RX_NO_KEY_RECEIVE | KEY_RX_KEY_RECEIVE

datatype SUPP_BE_state =
    SUPP_BE_UNKNOWN | SUPP_BE_INITIALIZE | SUPP_BE_IDLE | SUPP_BE_REQUEST | SUPP_BE_RECEIVE
  | SUPP_BE_RESPONSE | SUPP_BE_FAIL | SUPP_BE_TIMEOUT | SUPP_BE_SUCCESS

datatype cb_status = EAPOL_CB_IN_PROGRESS | EAPOL_CB_SUCCESS | EAPOL_CB_FAILURE

record eapol_sm =
  es_authWhile :: u32
  es_heldWhile :: u32
  es_startWhen :: u32
  es_idleWhile :: u32
  es_timer_tick_enabled :: bool
  es_eapFail :: bool
  es_eapolEap :: bool
  es_eapSuccess :: bool
  es_initialize :: bool
  es_keyDone :: bool
  es_keyRun :: bool
  es_portControl :: PortControl
  es_portEnabled :: bool
  es_suppPortStatus :: PortStatus
  es_portValid :: bool
  es_suppAbort :: bool
  es_suppFail :: bool
  es_suppStart :: bool
  es_suppSuccess :: bool
  es_suppTimeout :: bool
  es_pae :: SUPP_PAE_state
  es_userLogoff :: bool
  es_logoffSent :: bool
  es_startCount :: u32
  es_eapRestart :: bool
  es_sPortMode :: PortControl
  es_heldPeriod :: u32
  es_startPeriod :: u32
  es_maxStart :: u32
  es_key_rx :: KEY_RX_state
  es_rxKey :: bool
  es_be :: SUPP_BE_state
  es_eapNoResp :: bool
  es_eapReq :: bool
  es_eapResp :: bool
  es_authPeriod :: u32
  es_dot1xSuppEapolFramesRx :: u32
  es_dot1xSuppEapolFramesTx :: u32
  es_dot1xSuppEapolStartFramesTx :: u32
  es_dot1xSuppEapolLogoffFramesTx :: u32
  es_dot1xSuppEapolRespFramesTx :: u32
  es_dot1xSuppEapolReqIdFramesRx :: u32
  es_dot1xSuppEapolReqFramesRx :: u32
  es_dot1xSuppInvalidEapolFramesRx :: u32
  es_dot1xSuppEapLengthErrorFramesRx :: u32
  es_dot1xSuppLastEapolFrameVersion :: byte
  es_dot1xSuppLastEapolFrameSource :: bytes
  es_changed :: bool
  es_eap :: eap_sm
  es_config :: "eap_peer_config option"
  es_initial_req :: bool
  es_last_rx_key :: "bytes option"
  es_eapReqData :: "bytes option"
  es_altAccept :: bool
  es_altReject :: bool
  es_eapTriggerStart :: bool
  es_replay_counter_valid :: bool
  es_last_replay_counter :: bytes
  es_conf :: eapol_config
  es_cb_status :: cb_status
  es_cached_pmk :: bool
  es_unicast_key_received :: bool
  es_broadcast_key_received :: bool
  es_force_authorized_update :: bool
  es_trace :: "eapol_action list"

definition eact :: "eapol_action \<Rightarrow> eapol_sm \<Rightarrow> eapol_sm" where
  "eact a sm = sm\<lparr> es_trace := a # es_trace sm \<rparr>"

definition upd_eap :: "(eap_sm \<Rightarrow> eap_sm) \<Rightarrow> eapol_sm \<Rightarrow> eapol_sm" where
  "upd_eap f sm = sm\<lparr> es_eap := f (es_eap sm) \<rparr>"

definition eap_sm_zero :: eap_sm where
  "eap_sm_zero = \<lparr>
     ea_state = EAP_INITIALIZE, ea_selectedMethod = 0, ea_methodState = METHOD_NONE, ea_lastId = 0,
     ea_lastRespData = None, ea_decision = DECISION_FAIL, ea_rxReq = False, ea_rxSuccess = False,
     ea_rxFailure = False, ea_rxResp = False, ea_reqId = 0, ea_reqMethod = 0, ea_reqVendor = 0,
     ea_reqVendorMethod = 0, ea_allowNotifications = False, ea_eapRespData = None,
     ea_eapKeyAvailable = False, ea_eapKeyData = None, ea_eapSessionId = None, ea_m = None,
     ea_method_priv = False,
     ea_mv = \<lparr> mv_ignore = False, mv_ClientTimeout = 0, mv_leap_done = False, mv_peap_done = False,
               mv_expected_failure = False, mv_ext_cert_check = False,
               mv_waiting_ext_cert_check = False, mv_use_machine_cred = False \<rparr>,
     ea_changed = False, ea_fast_reauth = False, ea_reauthInit = False, ea_req_sha1 = zeros 20,
     ea_last_sha1 = zeros 20, ea_workaround = False, ea_num_rounds = 0, ea_num_rounds_short = 0,
     ea_force_disabled = False, ea_external_sim = False, ea_prev_failure = False,
     ea_last_config = None \<rparr>"

definition eapol_sm_zero :: eapol_sm where
  "eapol_sm_zero = \<lparr>
     es_authWhile = 0, es_heldWhile = 0, es_startWhen = 0, es_idleWhile = 0,
     es_timer_tick_enabled = False, es_eapFail = False, es_eapolEap = False, es_eapSuccess = False,
     es_initialize = False, es_keyDone = False, es_keyRun = False, es_portControl = Auto,
     es_portEnabled = False, es_suppPortStatus = Unauthorized, es_portValid = False,
     es_suppAbort = False, es_suppFail = False, es_suppStart = False, es_suppSuccess = False,
     es_suppTimeout = False, es_pae = SUPP_PAE_UNKNOWN, es_userLogoff = False,
     es_logoffSent = False, es_startCount = 0, es_eapRestart = False, es_sPortMode = Auto,
     es_heldPeriod = 0, es_startPeriod = 0, es_maxStart = 0, es_key_rx = KEY_RX_UNKNOWN,
     es_rxKey = False, es_be = SUPP_BE_UNKNOWN, es_eapNoResp = False, es_eapReq = False,
     es_eapResp = False, es_authPeriod = 0, es_dot1xSuppEapolFramesRx = 0,
     es_dot1xSuppEapolFramesTx = 0, es_dot1xSuppEapolStartFramesTx = 0,
     es_dot1xSuppEapolLogoffFramesTx = 0, es_dot1xSuppEapolRespFramesTx = 0,
     es_dot1xSuppEapolReqIdFramesRx = 0, es_dot1xSuppEapolReqFramesRx = 0,
     es_dot1xSuppInvalidEapolFramesRx = 0, es_dot1xSuppEapLengthErrorFramesRx = 0,
     es_dot1xSuppLastEapolFrameVersion = 0, es_dot1xSuppLastEapolFrameSource = zeros 6,
     es_changed = False, es_eap = eap_sm_zero, es_config = None, es_initial_req = False,
     es_last_rx_key = None, es_eapReqData = None, es_altAccept = False, es_altReject = False,
     es_eapTriggerStart = False, es_replay_counter_valid = False,
     es_last_replay_counter = zeros 16,
     es_conf = \<lparr> ec_accept_802_1x_keys = False, ec_required_keys = 0, ec_fast_reauth = False,
                 ec_workaround = False, ec_eap_disabled = False, ec_external_sim = False,
                 ec_wps = 0 \<rparr>,
     es_cb_status = EAPOL_CB_IN_PROGRESS, es_cached_pmk = False, es_unicast_key_received = False,
     es_broadcast_key_received = False, es_force_authorized_update = False, es_trace = [] \<rparr>"

text \<open>\<^verbatim>\<open>eapol_enable_timer_tick\<close>, and the callbacks by which the EAP peer sets the
  variables it shares with the EAPOL state machine.\<close>

definition eapol_enable_timer_tick :: "eapol_env \<Rightarrow> eapol_sm \<Rightarrow> eapol_sm" where
  "eapol_enable_timer_tick x sm =
     (if es_timer_tick_enabled sm then sm
      else let sm = eact Register_tick (eact Cancel_tick sm)
           in if x_eloop x (es_trace sm) = 0 then sm\<lparr> es_timer_tick_enabled := True \<rparr> else sm)"

definition eapol_sm_set_idleWhile :: "eapol_env \<Rightarrow> u32 \<Rightarrow> eapol_sm \<Rightarrow> eapol_sm" where
  "eapol_sm_set_idleWhile x v sm =
     (let sm = sm\<lparr> es_idleWhile := v \<rparr> in if v > 0 then eapol_enable_timer_tick x sm else sm)"

end
