(* ===== verification/EAP_Peer.thy ===== *)
theory EAP_Peer
  imports EAPOL_SM
begin

text \<open>
  The EAP peer state machine of RFC 4137, \<^verbatim>\<open>src/eap_peer/eap.c\<close>: one operation per
  state and per transition function, the parser of received EAP messages, the replies
  the state machine builds itself (Nak, Identity, Notification), the loop
  \<^verbatim>\<open>eap_peer_sm_step\<close> and the notifications from the lower layer.  Support for ERP
  and smart cards is not built in.  The methods themselves are the environment's; log
  messages and status notifications are left out.
\<close>

abbreviation (input) EAP_MAX_AUTH_ROUNDS :: int where "EAP_MAX_AUTH_ROUNDS \<equiv> 100"
abbreviation (input) EAP_MAX_AUTH_ROUNDS_SHORT :: int where "EAP_MAX_AUTH_ROUNDS_SHORT \<equiv> 50"
abbreviation (input) EAP_CLIENT_TIMEOUT_DEFAULT :: u32 where "EAP_CLIENT_TIMEOUT_DEFAULT \<equiv> 60"


section \<open>Helpers\<close>

definition eap_peer_get_eap_method :: "eapol_env \<Rightarrow> u32 \<Rightarrow> u32 \<Rightarrow> (u32 \<times> u32) option" where
  "eap_peer_get_eap_method x vendor method =
     find (\<lambda>m. fst m = vendor \<and> snd m = method) (x_methods x)"

definition eap_sm_free_key :: "eapol_sm \<Rightarrow> eapol_sm" where
  "eap_sm_free_key = upd_eap (\<lambda>e. e\<lparr> ea_eapKeyData := None \<rparr>)"

definition method_effect :: "eapol_env \<Rightarrow> eapol_action \<Rightarrow> eapol_sm \<Rightarrow> eapol_sm" where
  "method_effect x a sm =
     (let sm = eact a sm
      in upd_eap (\<lambda>e. e\<lparr> ea_mv := x_method_vars x (es_trace sm) (ea_mv e) \<rparr>) sm)"

definition eap_deinit_prev_method :: "eapol_env \<Rightarrow> eapol_sm \<Rightarrow> eapol_sm" where
  "eap_deinit_prev_method x sm =
     (if ea_m (es_eap sm) = None \<or> \<not> ea_method_priv (es_eap sm) then sm
      else upd_eap (\<lambda>e. e\<lparr> ea_method_priv := False, ea_m := None \<rparr>)
             (method_effect x Method_deinit sm))"

text \<open>The list of methods ends at the first entry with vendor and type zero.\<close>

fun eap_methods_find :: "(u32 \<times> u32) list \<Rightarrow> u32 \<Rightarrow> u32 \<Rightarrow> bool" where
  "eap_methods_find [] vendor method = False"
| "eap_methods_find ((v, t) # ms) vendor method =
     (if v = EAP_VENDOR_IETF \<and> t = EAP_TYPE_NONE then False
      else if v = vendor \<and> t = method then True
      else eap_methods_find ms vendor method)"

definition eap_config_allowed_method ::
    "eap_peer_config option \<Rightarrow> u32 \<Rightarrow> u32 \<Rightarrow> bool" where
  "eap_config_allowed_method config vendor method =
     (case config of
        None \<Rightarrow> True
      | Some c \<Rightarrow> (case cf_eap_methods c of
                   None \<Rightarrow> True
                 | Some m \<Rightarrow> eap_methods_find m vendor method))"

definition eap_allowed_method :: "eapol_sm \<Rightarrow> u32 \<Rightarrow> u32 \<Rightarrow> bool" where
  "eap_allowed_method sm = eap_config_allowed_method (es_config sm)"

definition eap_sm_allowMethod :: "eapol_env \<Rightarrow> eapol_sm \<Rightarrow> u32 \<Rightarrow> u32 \<Rightarrow> bool" where
  "eap_sm_allowMethod x sm vendor method =
     (if \<not> eap_allowed_method sm vendor method then False
      else eap_peer_get_eap_method x vendor method \<noteq> None)"


section \<open>Replies built by the state machine\<close>

definition expanded_nak_entries :: "eapol_sm \<Rightarrow> (u32 \<times> u32) list \<Rightarrow> (u32 \<times> u32) list" where
  "expanded_nak_entries sm methods =
     filter (\<lambda>(v, t). \<not> (ea_reqVendor (es_eap sm) = v \<and> ea_reqVendorMethod (es_eap sm) = t) \<and>
                     eap_allowed_method sm v t) methods"

definition put_expanded :: "u32 \<Rightarrow> u32 \<Rightarrow> bytes" where
  "put_expanded vendor typ = [ucast EAP_TYPE_EXPANDED] @ put_be24 vendor @ WPA_PUT_BE32 typ"

definition eap_sm_build_expanded_nak ::
    "eapol_env \<Rightarrow> eapol_sm \<Rightarrow> int \<Rightarrow> (u32 \<times> u32) list \<Rightarrow> bytes option" where
  "eap_sm_build_expanded_nak x sm ident methods =
     (if \<not> x_alloc x Alloc_nak (es_trace sm) then None
      else
        let resp = eap_msg_alloc EAP_VENDOR_IETF EAP_TYPE_EXPANDED (8 + 8 * (length methods + 1))
                     EAP_CODE_RESPONSE (word_of_int ident);
            resp = resp @ put_be24 EAP_VENDOR_IETF @ WPA_PUT_BE32 EAP_TYPE_NAK;
            found = expanded_nak_entries sm methods;
            resp = resp @ concat (map (\<lambda>(v, t). put_expanded v t) found);
            resp = (if found = [] then resp @ put_expanded EAP_VENDOR_IETF EAP_TYPE_NONE else resp)
        in Some (eap_update_len resp))"

text \<open>The types of a legacy Nak: at most one entry stands for all expanded types.\<close>

fun nak_types :: "eapol_sm \<Rightarrow> bool \<Rightarrow> (u32 \<times> u32) list \<Rightarrow> bytes" where
  "nak_types sm expanded_found [] = []"
| "nak_types sm expanded_found ((v, t) # ms) =
     (if v = EAP_VENDOR_IETF \<and> t = ea_reqMethod (es_eap sm) then nak_types sm expanded_found ms
      else if eap_allowed_method sm v t
      then if v \<noteq> EAP_VENDOR_IETF
           then if expanded_found then nak_types sm expanded_found ms
                else ucast EAP_TYPE_EXPANDED # nak_types sm True ms
           else ucast t # nak_types sm expanded_found ms
      else nak_types sm expanded_found ms)"

definition eap_sm_buildNak :: "eapol_env \<Rightarrow> eapol_sm \<Rightarrow> int \<Rightarrow> bytes option" where
  "eap_sm_buildNak x sm ident =
     (if x_methods x = [] then None
      else if ea_reqMethod (es_eap sm) = EAP_TYPE_EXPANDED
      then eap_sm_build_expanded_nak x sm ident (x_methods x)
      else if \<not> x_alloc x Alloc_nak (es_trace sm) then None
      else
        let resp = eap_msg_alloc EAP_VENDOR_IETF EAP_TYPE_NAK (4 + 1 + length (x_methods x) + 1)
                     EAP_CODE_RESPONSE (word_of_int ident);
            found = nak_types sm False (x_methods x);
            resp = resp @ found;
            resp = (if found = [] then resp @ [ucast EAP_TYPE_NONE] else resp)
        in Some (eap_update_len resp))"

definition eap_sm_buildIdentity ::
    "eapol_env \<Rightarrow> int \<Rightarrow> bool \<Rightarrow> eapol_sm \<Rightarrow> bytes option \<times> eapol_sm" where
  "eap_sm_buildIdentity x ident encrypted sm =
     (case es_config sm of
        None \<Rightarrow> (None, sm)
      | Some config \<Rightarrow>
          let method_identity =
                (if ea_m (es_eap sm) = None then None else x_get_identity x (es_trace sm));
              identity =
                (if method_identity \<noteq> None then method_identity
                 else if \<not> encrypted \<and> cf_anonymous_identity config \<noteq> None
                 then cf_anonymous_identity config
                 else if mv_use_machine_cred (ea_mv (es_eap sm)) then cf_machine_identity config
                 else cf_identity config)
          in if cf_pcsc config then (None, sm)
             else case identity of
                    None \<Rightarrow> (None, eact Request_identity sm)
                  | Some identity \<Rightarrow>
                      if \<not> x_alloc x Alloc_identity (es_trace sm) then (None, sm)
                      else (Some (eap_msg_alloc EAP_VENDOR_IETF EAP_TYPE_IDENTITY (length identity)
                                    EAP_CODE_RESPONSE (word_of_int ident) @ identity), sm))"

definition eap_sm_buildNotify :: "eapol_env \<Rightarrow> int \<Rightarrow> eapol_sm \<Rightarrow> bytes option" where
  "eap_sm_buildNotify x ident sm =
     (if \<not> x_alloc x Alloc_notify (es_trace sm) then None
      else Some (eap_msg_alloc EAP_VENDOR_IETF EAP_TYPE_NOTIFICATION 0 EAP_CODE_RESPONSE
                   (word_of_int ident)))"


section \<open>Parsing of received messages\<close>

text \<open>Without ERP an EAP-Initiate asks for an EAPOL-Start, and an EAP-Finish is
  ignored.\<close>

definition eap_peer_initiate :: "eapol_sm \<Rightarrow> eapol_sm" where
  "eap_peer_initiate sm = sm\<lparr> es_eapTriggerStart := True \<rparr>"

text \<open>The switch on the code of the message, of length \<open>plen\<close>.\<close>

definition eap_sm_parse_code :: "bytes \<Rightarrow> nat \<Rightarrow> byte \<Rightarrow> eapol_sm \<Rightarrow> eapol_sm option" where
  "eap_sm_parse_code r plen code sm =
     (if code = EAP_CODE_REQUEST
      then if plen < 4 + 1 then Some sm
           else do {
             t \<leftarrow> rd8 r 4;
             let sm = upd_eap (\<lambda>e. e\<lparr> ea_rxReq := True, ea_reqMethod := ucast t \<rparr>) sm in
             if ucast t = EAP_TYPE_EXPANDED
             then if plen < 4 + 8 then Some sm
                  else do {
                    v \<leftarrow> WPA_GET_BE24 r 5;
                    vt \<leftarrow> WPA_GET_BE32 r 8;
                    Some (upd_eap (\<lambda>e. e\<lparr> ea_reqVendor := v, ea_reqVendorMethod := vt \<rparr>) sm) }
             else Some sm }
      else if code = EAP_CODE_RESPONSE
      then if ea_selectedMethod (es_eap sm) = EAP_TYPE_LEAP
           then if plen < 4 + 1 then Some sm
                else do {
                  t \<leftarrow> rd8 r 4;
                  Some (upd_eap (\<lambda>e. e\<lparr> ea_rxResp := True, ea_reqMethod := ucast t \<rparr>) sm) }
           else Some sm
      else if code = EAP_CODE_SUCCESS then Some (upd_eap (\<lambda>e. e\<lparr> ea_rxSuccess := True \<rparr>) sm)
      else if code = EAP_CODE_FAILURE then Some (upd_eap (\<lambda>e. e\<lparr> ea_rxFailure := True \<rparr>) sm)
      else if code = EAP_CODE_INITIATE then Some (eap_peer_initiate sm)
      else Some sm)"

definition eap_sm_parseEapReq ::
    "eapol_env \<Rightarrow> bytes option \<Rightarrow> eapol_sm \<Rightarrow> eapol_sm option" where
  "eap_sm_parseEapReq x req sm =
     (let sm = upd_eap (\<lambda>e. e\<lparr> ea_rxReq := False, ea_rxResp := False, ea_rxSuccess := False,
                              ea_rxFailure := False, ea_reqId := 0, ea_reqMethod := EAP_TYPE_NONE,
                              ea_reqVendor := EAP_VENDOR_IETF,
                              ea_reqVendorMethod := EAP_TYPE_NONE \<rparr>) sm
      in case req of
           None \<Rightarrow> Some sm
         | Some r \<Rightarrow>
             if length r < 4 then Some sm
             else do {
               l \<leftarrow> WPA_GET_BE16 r 2;
               let plen = unat l in
               if plen > length r then Some sm
               else do {
                 identifier \<leftarrow> rd8 r 1;
                 let sm = upd_eap (\<lambda>e. e\<lparr> ea_reqId := uint identifier \<rparr>) sm;
                     sm = (if ea_workaround (es_eap sm)
                           then case x_sha1 x (take plen r) of
                                  None \<Rightarrow> sm
                                | Some h \<Rightarrow> upd_eap (\<lambda>e. e\<lparr> ea_req_sha1 := h \<rparr>) sm
                           else sm)
                 in do { code \<leftarrow> rd8 r 0; eap_sm_parse_code r plen code sm } } })"


section \<open>States\<close>

text \<open>\<^verbatim>\<open>SM_ENTRY\<close>: a transition out of a state, or a global transition into another one,
  is a change.\<close>

definition SM_ENTRY_EAP :: "bool \<Rightarrow> EAP_state \<Rightarrow> eapol_sm \<Rightarrow> eapol_sm" where
  "SM_ENTRY_EAP global st =
     upd_eap (\<lambda>e. e\<lparr> ea_changed := ea_changed e \<or> \<not> global \<or> ea_state e \<noteq> st, ea_state := st \<rparr>)"

definition sm_EAP_INITIALIZE_Enter :: "eapol_env \<Rightarrow> bool \<Rightarrow> eapol_sm \<Rightarrow> eapol_sm" where
  "sm_EAP_INITIALIZE_Enter x global sm =
     (let sm = SM_ENTRY_EAP global EAP_INITIALIZE sm;
          e = es_eap sm;
          config = map_option cf_id (es_config sm);
          sm = (if ea_fast_reauth e \<and> ea_m e \<noteq> None \<and> x_has_reauth_data x (es_trace sm) \<and>
                   \<not> ea_prev_failure e \<and> ea_last_config e = config
                then method_effect x Method_deinit_for_reauth sm
                else eap_deinit_prev_method x (upd_eap (\<lambda>e. e\<lparr> ea_last_config := config \<rparr>) sm));
          sm = upd_eap (\<lambda>e. e\<lparr> ea_selectedMethod := EAP_TYPE_NONE, ea_methodState := METHOD_NONE,
                              ea_allowNotifications := True, ea_decision := DECISION_FAIL,
                              ea_mv := (ea_mv e)\<lparr> mv_ClientTimeout := EAP_CLIENT_TIMEOUT_DEFAULT \<rparr> \<rparr>) sm;
          sm = eapol_sm_set_idleWhile x EAP_CLIENT_TIMEOUT_DEFAULT sm;
          sm = sm\<lparr> es_eapSuccess := False, es_eapFail := False \<rparr>;
          sm = eap_sm_free_key sm;
          sm = upd_eap (\<lambda>e. e\<lparr> ea_eapSessionId := None, ea_eapKeyAvailable := False \<rparr>) sm;
          sm = sm\<lparr> es_eapRestart := False \<rparr>;
          sm = upd_eap (\<lambda>e. e\<lparr> ea_lastId := -1 \<rparr>) sm;
          sm = sm\<lparr> es_eapResp := False, es_eapNoResp := False \<rparr>
      in upd_eap (\<lambda>e. e\<lparr> ea_num_rounds := 0, ea_num_rounds_short := 0, ea_prev_failure := False,
                        ea_reauthInit := False,
                        ea_mv := (ea_mv e)\<lparr> mv_ignore := False, mv_expected_failure := False,
                                           mv_use_machine_cred := False \<rparr> \<rparr>) sm)"

definition sm_EAP_DISABLED_Enter :: "eapol_env \<Rightarrow> bool \<Rightarrow> eapol_sm \<Rightarrow> eapol_sm" where
  "sm_EAP_DISABLED_Enter x global sm =
     eapol_sm_set_idleWhile x 0
       (upd_eap (\<lambda>e. e\<lparr> ea_num_rounds := 0, ea_num_rounds_short := 0 \<rparr>)
          (SM_ENTRY_EAP global EAP_DISABLED sm))"

definition sm_EAP_IDLE_Enter :: "bool \<Rightarrow> eapol_sm \<Rightarrow> eapol_sm" where
  "sm_EAP_IDLE_Enter global sm = SM_ENTRY_EAP global EAP_IDLE sm"

text \<open>\<open>eap_sm_parseEapReq_not_None\<close> below shows that the parser stays inside the
  message, so the case of \<^const>\<open>None\<close> does not arise.\<close>

definition sm_EAP_RECEIVED_Enter :: "eapol_env \<Rightarrow> bool \<Rightarrow> eapol_sm \<Rightarrow> eapol_sm" where
  "sm_EAP_RECEIVED_Enter x global sm =
     (let sm = SM_ENTRY_EAP global EAP_RECEIVED sm;
          eapReqData = es_eapReqData sm;
          sm = (case eap_sm_parseEapReq x eapReqData sm of None \<Rightarrow> sm | Some sm' \<Rightarrow> sm')
      in upd_eap (\<lambda>e. e\<lparr> ea_num_rounds := ea_num_rounds e + 1,
                        ea_num_rounds_short :=
                          (if case eapReqData of None \<Rightarrow> True | Some d \<Rightarrow> length d < 20
                           then ea_num_rounds_short e + 1 else 0) \<rparr>) sm)"

definition eap_nak :: "eapol_env \<Rightarrow> eapol_sm \<Rightarrow> eapol_sm" where
  "eap_nak x sm =
     upd_eap (\<lambda>e. e\<lparr> ea_eapRespData := eap_sm_buildNak x sm (ea_reqId (es_eap sm)) \<rparr>) sm"

definition sm_EAP_GET_METHOD_Enter :: "eapol_env \<Rightarrow> bool \<Rightarrow> eapol_sm \<Rightarrow> eapol_sm" where
  "sm_EAP_GET_METHOD_Enter x global sm =
     (let sm = SM_ENTRY_EAP global EAP_GET_METHOD sm;
          e = es_eap sm;
          method = (if ea_reqMethod e = EAP_TYPE_EXPANDED then ea_reqVendorMethod e
                    else ea_reqMethod e);
          eap_method = eap_peer_get_eap_method x (ea_reqVendor e) method
      in if \<not> eap_sm_allowMethod x sm (ea_reqVendor e) method then eap_nak x sm
         else
           let reinit = (ea_fast_reauth e \<and> ea_m e = Some (ea_reqVendor e, method) \<and>
                         x_has_reauth_data x (es_trace sm));
               sm = (if reinit then sm else eap_deinit_prev_method x sm);
               sm = upd_eap (\<lambda>e. e\<lparr> ea_selectedMethod := ea_reqMethod e,
                                   ea_m := (if ea_m e = None then eap_method else ea_m e) \<rparr>) sm
           in if ea_m (es_eap sm) = None then eap_nak x sm
              else
                let sm = upd_eap (\<lambda>e. e\<lparr> ea_mv := (ea_mv e)\<lparr> mv_ClientTimeout :=
                                                              EAP_CLIENT_TIMEOUT_DEFAULT \<rparr> \<rparr>) sm;
                    sm = (if reinit then method_effect x Method_init_for_reauth sm
                          else method_effect x (Method_init (ea_reqVendor e) method)
                                 (upd_eap (\<lambda>e. e\<lparr> ea_mv := (ea_mv e)\<lparr> mv_waiting_ext_cert_check := False,
                                                                     mv_ext_cert_check := False \<rparr> \<rparr>) sm));
                    sm = upd_eap (\<lambda>e. e\<lparr> ea_method_priv := x_init x (es_trace sm) \<rparr>) sm
                in if \<not> ea_method_priv (es_eap sm)
                   then
                     let sm = upd_eap (\<lambda>e. e\<lparr> ea_m := None, ea_methodState := METHOD_NONE,
                                             ea_selectedMethod := EAP_TYPE_NONE \<rparr>) sm
                     in if ea_reqMethod (es_eap sm) = EAP_TYPE_TLS \<and> es_config sm \<noteq> None \<and>
                           x_pending_pin x (es_trace sm)
                        then sm
                        else eap_nak x sm
                   else upd_eap (\<lambda>e. e\<lparr> ea_methodState := METHOD_INIT \<rparr>) sm)"

definition sm_EAP_METHOD_Enter :: "eapol_env \<Rightarrow> bool \<Rightarrow> eapol_sm \<Rightarrow> eapol_sm" where
  "sm_EAP_METHOD_Enter x global sm =
     (let sm = SM_ENTRY_EAP global EAP_METHOD sm
      in case ea_m (es_eap sm) of
           None \<Rightarrow> sm
         | Some m \<Rightarrow>
             let min_len = (if m = (EAP_VENDOR_IETF, EAP_TYPE_LEAP) then 0 else 1)
             in case es_eapReqData sm of
                  None \<Rightarrow> sm
                | Some eapReqData \<Rightarrow>
                    if eap_hdr_len_valid (Some eapReqData) min_len \<noteq> Some True then sm
                    else
                      let e = es_eap sm;
                          ret = \<lparr> r_ignore = mv_ignore (ea_mv e), r_methodState = ea_methodState e,
                                  r_decision = ea_decision e,
                                  r_allowNotifications = ea_allowNotifications e \<rparr>;
                          sm = method_effect x (Method_process eapReqData) sm;
                          res = x_process x (es_trace sm) ret;
                          ret = fst res;
                          sm = upd_eap (\<lambda>e. e\<lparr> ea_eapRespData := snd res,
                                              ea_mv := (ea_mv e)\<lparr> mv_ignore := r_ignore ret \<rparr> \<rparr>) sm
                      in if r_ignore ret then sm
                         else
                           let sm = upd_eap (\<lambda>e. e\<lparr> ea_methodState := r_methodState ret,
                                                   ea_decision := r_decision ret,
                                                   ea_allowNotifications := r_allowNotifications ret \<rparr>) sm
                           in if x_isKeyAvailable x (es_trace sm)
                              then upd_eap (\<lambda>e. e\<lparr> ea_eapKeyData := x_getKey x (es_trace sm),
                                                  ea_eapSessionId := x_getSessionId x (es_trace sm) \<rparr>)
                                     (eap_sm_free_key sm)
                              else sm)"

definition sm_EAP_SEND_RESPONSE_Enter :: "eapol_env \<Rightarrow> bool \<Rightarrow> eapol_sm \<Rightarrow> eapol_sm" where
  "sm_EAP_SEND_RESPONSE_Enter x global sm =
     (let sm = SM_ENTRY_EAP global EAP_SEND_RESPONSE sm;
          sm = (case ea_eapRespData (es_eap sm) of
                  Some resp \<Rightarrow>
                    (upd_eap (\<lambda>e. e\<lparr> ea_num_rounds_short := (if length resp \<ge> 20 then 0
                                                            else ea_num_rounds_short e),
                                    ea_last_sha1 := (if ea_workaround e then ea_req_sha1 e
                                                     else ea_last_sha1 e),
                                    ea_lastId := ea_reqId e,
                                    ea_lastRespData :=
                                      (if x_alloc x Alloc_lastResp (es_trace sm) then Some resp
                                       else None) \<rparr>) sm)\<lparr> es_eapResp := True \<rparr>
                | None \<Rightarrow> upd_eap (\<lambda>e. e\<lparr> ea_lastRespData := None \<rparr>) sm);
          sm = sm\<lparr> es_eapReq := False \<rparr>;
          sm = eapol_sm_set_idleWhile x (mv_ClientTimeout (ea_mv (es_eap sm))) sm
      in upd_eap (\<lambda>e. e\<lparr> ea_reauthInit := False \<rparr>) sm)"

definition sm_EAP_DISCARD_Enter :: "bool \<Rightarrow> eapol_sm \<Rightarrow> eapol_sm" where
  "sm_EAP_DISCARD_Enter global sm =
     (SM_ENTRY_EAP global EAP_DISCARD sm)\<lparr> es_eapReq := False, es_eapNoResp := True \<rparr>"

definition sm_EAP_IDENTITY_Enter :: "eapol_env \<Rightarrow> bool \<Rightarrow> eapol_sm \<Rightarrow> eapol_sm" where
  "sm_EAP_IDENTITY_Enter x global sm =
     (let sm = SM_ENTRY_EAP global EAP_IDENTITY sm
      in if eap_hdr_len_valid (es_eapReqData sm) 1 \<noteq> Some True then sm
         else
           let (resp, sm) = eap_sm_buildIdentity x (ea_reqId (es_eap sm)) False sm
           in upd_eap (\<lambda>e. e\<lparr> ea_eapRespData := resp \<rparr>) sm)"

definition sm_EAP_NOTIFICATION_Enter :: "eapol_env \<Rightarrow> bool \<Rightarrow> eapol_sm \<Rightarrow> eapol_sm" where
  "sm_EAP_NOTIFICATION_Enter x global sm =
     (let sm = SM_ENTRY_EAP global EAP_NOTIFICATION sm
      in if eap_hdr_len_valid (es_eapReqData sm) 1 \<noteq> Some True then sm
         else upd_eap (\<lambda>e. e\<lparr> ea_eapRespData :=
                               eap_sm_buildNotify x (ea_reqId (es_eap sm)) sm \<rparr>) sm)"

definition sm_EAP_RETRANSMIT_Enter :: "eapol_env \<Rightarrow> bool \<Rightarrow> eapol_sm \<Rightarrow> eapol_sm" where
  "sm_EAP_RETRANSMIT_Enter x global sm =
     (let sm = SM_ENTRY_EAP global EAP_RETRANSMIT sm
      in upd_eap (\<lambda>e. e\<lparr> ea_eapRespData :=
                          (if x_alloc x Alloc_retransmit (es_trace sm) then ea_lastRespData e
                           else None) \<rparr>) sm)"

definition sm_EAP_SUCCESS_Enter :: "bool \<Rightarrow> eapol_sm \<Rightarrow> eapol_sm" where
  "sm_EAP_SUCCESS_Enter global sm =
     (upd_eap (\<lambda>e. e\<lparr> ea_eapKeyAvailable := ea_eapKeyAvailable e \<or> ea_eapKeyData e \<noteq> None \<rparr>)
        (SM_ENTRY_EAP global EAP_SUCCESS sm))
       \<lparr> es_eapSuccess := True, es_eapReq := False, es_eapNoResp := True \<rparr>"

definition sm_EAP_FAILURE_Enter :: "bool \<Rightarrow> eapol_sm \<Rightarrow> eapol_sm" where
  "sm_EAP_FAILURE_Enter global sm =
     upd_eap (\<lambda>e. e\<lparr> ea_prev_failure := True \<rparr>)
       ((SM_ENTRY_EAP global EAP_FAILURE sm)
          \<lparr> es_eapFail := True, es_eapReq := False, es_eapNoResp := True \<rparr>)"


section \<open>Transitions\<close>

text \<open>In C the low octet of \<^verbatim>\<open>lastId + 1\<close> for \<^verbatim>\<open>lastId = -1\<close> is 0.\<close>

definition eap_success_workaround :: "eapol_sm \<Rightarrow> int \<Rightarrow> int \<Rightarrow> bool" where
  "eap_success_workaround sm reqId lastId =
     (ea_workaround (es_eap sm) \<and> (reqId = (lastId + 1) mod 256 \<or> reqId = (lastId + 2) mod 256))"

definition eap_peer_sm_step_idle :: "eapol_env \<Rightarrow> eapol_sm \<Rightarrow> eapol_sm" where
  "eap_peer_sm_step_idle x sm =
     (let e = es_eap sm in
      if es_eapReq sm then sm_EAP_RECEIVED_Enter x False sm
      else if es_altAccept sm \<and> ea_decision e \<noteq> DECISION_FAIL \<or>
              es_idleWhile sm = 0 \<and> ea_decision e = DECISION_UNCOND_SUCC
      then sm_EAP_SUCCESS_Enter False sm
      else if es_altReject sm \<or>
              es_idleWhile sm = 0 \<and> ea_decision e \<noteq> DECISION_UNCOND_SUCC \<or>
              es_altAccept sm \<and> ea_methodState e \<noteq> METHOD_CONT \<and> ea_decision e = DECISION_FAIL
      then sm_EAP_FAILURE_Enter False sm
      else if ea_selectedMethod e = EAP_TYPE_LEAP \<and> mv_leap_done (ea_mv e) \<and>
              ea_decision e \<noteq> DECISION_FAIL \<and> ea_methodState e = METHOD_DONE
      then sm_EAP_SUCCESS_Enter False sm
      else if ea_selectedMethod e = EAP_TYPE_PEAP \<and> mv_peap_done (ea_mv e) \<and>
              ea_decision e \<noteq> DECISION_FAIL \<and> ea_methodState e = METHOD_DONE
      then sm_EAP_SUCCESS_Enter False sm
      else sm)"

definition eap_peer_req_is_duplicate :: "eapol_sm \<Rightarrow> bool" where
  "eap_peer_req_is_duplicate sm =
     (let e = es_eap sm;
          duplicate = (ea_reqId e = ea_lastId e \<and> ea_rxReq e)
      in if ea_workaround e \<and> duplicate \<and> ea_req_sha1 e \<noteq> ea_last_sha1 e then False
         else duplicate)"

definition eap_peer_sm_allow_canned :: "eapol_sm \<Rightarrow> bool" where
  "eap_peer_sm_allow_canned sm =
     (case es_config sm of
        None \<Rightarrow> False
      | Some c \<Rightarrow> (case cf_phase1 c of
                   None \<Rightarrow> False
                 | Some p \<Rightarrow> sublist ''allow_canned_success=1'' p))"

definition eap_peer_sm_step_received :: "eapol_env \<Rightarrow> eapol_sm \<Rightarrow> eapol_sm" where
  "eap_peer_sm_step_received x sm =
     (let e = es_eap sm;
          duplicate = eap_peer_req_is_duplicate sm;
          id_ok = (ea_reqId e = ea_lastId e \<or>
                   eap_success_workaround sm (ea_reqId e) (ea_lastId e))
      in
      if ea_rxSuccess e \<and> ea_decision e \<noteq> DECISION_FAIL \<and> id_ok
      then sm_EAP_SUCCESS_Enter False sm
      else if ea_workaround e \<and> ea_lastId e = -1 \<and> ea_rxSuccess e \<and> \<not> ea_rxFailure e \<and>
              \<not> ea_rxReq e \<and> eap_peer_sm_allow_canned sm
      then sm_EAP_SUCCESS_Enter False sm
      else if ea_workaround e \<and> ea_lastId e = -1 \<and> ea_rxFailure e \<and> \<not> ea_rxReq e \<and>
              ea_methodState e \<noteq> METHOD_CONT \<and> eap_peer_sm_allow_canned sm
      then sm_EAP_FAILURE_Enter False sm
      else if ea_workaround e \<and> ea_rxSuccess e \<and> \<not> ea_rxFailure e \<and> \<not> ea_rxReq e \<and>
              ea_methodState e \<noteq> METHOD_CONT \<and> eap_peer_sm_allow_canned sm
      then sm_EAP_SUCCESS_Enter False sm
      else if ea_methodState e \<noteq> METHOD_CONT \<and>
              (ea_rxFailure e \<and> ea_decision e \<noteq> DECISION_UNCOND_SUCC \<or>
               ea_rxSuccess e \<and> ea_decision e = DECISION_FAIL \<and>
               (ea_selectedMethod e \<noteq> EAP_TYPE_LEAP \<or> ea_methodState e \<noteq> METHOD_MAY_CONT)) \<and>
              id_ok
      then sm_EAP_FAILURE_Enter False sm
      else if ea_rxReq e \<and> duplicate then sm_EAP_RETRANSMIT_Enter x False sm
      else if ea_rxReq e \<and> \<not> duplicate \<and> ea_reqMethod e = EAP_TYPE_NOTIFICATION \<and>
              ea_allowNotifications e
      then sm_EAP_NOTIFICATION_Enter x False sm
      else if ea_rxReq e \<and> \<not> duplicate \<and> ea_selectedMethod e = EAP_TYPE_NONE \<and>
              ea_reqMethod e = EAP_TYPE_IDENTITY
      then sm_EAP_IDENTITY_Enter x False sm
      else if ea_rxReq e \<and> \<not> duplicate \<and> ea_selectedMethod e = EAP_TYPE_NONE \<and>
              ea_reqMethod e \<noteq> EAP_TYPE_IDENTITY \<and> ea_reqMethod e \<noteq> EAP_TYPE_NOTIFICATION
      then sm_EAP_GET_METHOD_Enter x False sm
      else if ea_rxReq e \<and> \<not> duplicate \<and> ea_reqMethod e = ea_selectedMethod e \<and>
              ea_methodState e \<noteq> METHOD_DONE
      then sm_EAP_METHOD_Enter x False sm
      else if ea_selectedMethod e = EAP_TYPE_LEAP \<and> (ea_rxSuccess e \<or> ea_rxResp e)
      then sm_EAP_METHOD_Enter x False sm
      else if ea_reauthInit e then sm_EAP_SEND_RESPONSE_Enter x False sm
      else sm_EAP_DISCARD_Enter False sm)"

definition eap_peer_sm_step_local :: "eapol_env \<Rightarrow> eapol_sm \<Rightarrow> eapol_sm" where
  "eap_peer_sm_step_local x sm =
     (let e = es_eap sm in
      case ea_state e of
        EAP_INITIALIZE \<Rightarrow> sm_EAP_IDLE_Enter False sm
      | EAP_DISABLED \<Rightarrow>
          if es_portEnabled sm \<and> \<not> ea_force_disabled e then sm_EAP_INITIALIZE_Enter x False sm else sm
      | EAP_IDLE \<Rightarrow> eap_peer_sm_step_idle x sm
      | EAP_RECEIVED \<Rightarrow> eap_peer_sm_step_received x sm
      | EAP_GET_METHOD \<Rightarrow>
          if ea_selectedMethod e = ea_reqMethod e then sm_EAP_METHOD_Enter x False sm
          else sm_EAP_SEND_RESPONSE_Enter x False sm
      | EAP_METHOD \<Rightarrow>
          if mv_ignore (ea_mv e) then sm_EAP_DISCARD_Enter False sm
          else if ea_methodState e = METHOD_DONE \<and> ea_decision e = DECISION_FAIL \<and>
                  ea_eapRespData e = None
          then sm_EAP_FAILURE_Enter False sm
          else sm_EAP_SEND_RESPONSE_Enter x False sm
      | EAP_SEND_RESPONSE \<Rightarrow> sm_EAP_IDLE_Enter False sm
      | EAP_DISCARD \<Rightarrow> sm_EAP_IDLE_Enter False sm
      | EAP_IDENTITY \<Rightarrow> sm_EAP_SEND_RESPONSE_Enter x False sm
      | EAP_NOTIFICATION \<Rightarrow> sm_EAP_SEND_RESPONSE_Enter x False sm
      | EAP_RETRANSMIT \<Rightarrow> sm_EAP_SEND_RESPONSE_Enter x False sm
      | EAP_SUCCESS \<Rightarrow> sm
      | EAP_FAILURE \<Rightarrow> sm)"

definition sm_EAP_Step :: "eapol_env \<Rightarrow> eapol_sm \<Rightarrow> eapol_sm" where
  "sm_EAP_Step x sm =
     (let e = es_eap sm in
      if es_eapRestart sm \<and> es_portEnabled sm then sm_EAP_INITIALIZE_Enter x True sm
      else if \<not> es_portEnabled sm \<or> ea_force_disabled e then sm_EAP_DISABLED_Enter x True sm
      else if ea_num_rounds e > EAP_MAX_AUTH_ROUNDS
      then if ea_num_rounds e = EAP_MAX_AUTH_ROUNDS + 1
           then sm_EAP_FAILURE_Enter True
                  (upd_eap (\<lambda>e. e\<lparr> ea_num_rounds := ea_num_rounds e + 1 \<rparr>) sm)
           else sm
      else if ea_num_rounds_short e > EAP_MAX_AUTH_ROUNDS_SHORT
      then if ea_num_rounds_short e = EAP_MAX_AUTH_ROUNDS_SHORT + 1
           then sm_EAP_FAILURE_Enter True
                  (upd_eap (\<lambda>e. e\<lparr> ea_num_rounds_short := ea_num_rounds_short e + 1 \<rparr>) sm)
           else sm
      else eap_peer_sm_step_local x sm)"


section \<open>What a transition leaves alone\<close>

named_theorems eap_simps \<open>fields of the state after a transition of the EAP peer\<close>

fun eap_action :: "eapol_action \<Rightarrow> bool" where
  "eap_action Register_tick = True"
| "eap_action Cancel_tick = True"
| "eap_action (Method_init v t) = True"
| "eap_action Method_init_for_reauth = True"
| "eap_action Method_deinit = True"
| "eap_action Method_deinit_for_reauth = True"
| "eap_action (Method_process d) = True"
| "eap_action Request_identity = True"
| "eap_action _ = False"

text \<open>The fields of the EAPOL state machine that the EAP peer can set, and the actions it
  can take.\<close>

definition eap_frame :: "eapol_sm \<Rightarrow> eapol_sm \<Rightarrow> bool" where
  "eap_frame sm sm' \<longleftrightarrow>
     sm' = sm\<lparr> es_eap := es_eap sm', es_idleWhile := es_idleWhile sm',
               es_timer_tick_enabled := es_timer_tick_enabled sm', es_eapFail := es_eapFail sm',
               es_eapSuccess := es_eapSuccess sm', es_eapRestart := es_eapRestart sm',
               es_eapNoResp := es_eapNoResp sm', es_eapReq := es_eapReq sm',
               es_eapResp := es_eapResp sm', es_eapTriggerStart := es_eapTriggerStart sm',
               es_trace := es_trace sm' \<rparr> \<and>
     ea_force_disabled (es_eap sm') = ea_force_disabled (es_eap sm) \<and>
     ea_workaround (es_eap sm') = ea_workaround (es_eap sm) \<and>
     ea_fast_reauth (es_eap sm') = ea_fast_reauth (es_eap sm) \<and>
     (\<exists>as. es_trace sm' = as @ es_trace sm \<and> list_all eap_action as)"

lemma eap_frameE:
  assumes "eap_frame sm sm'"
  obtains e i t f s r n q p g as where
    "sm' = sm\<lparr> es_eap := e, es_idleWhile := i, es_timer_tick_enabled := t, es_eapFail := f,
               es_eapSuccess := s, es_eapRestart := r, es_eapNoResp := n, es_eapReq := q,
               es_eapResp := p, es_eapTriggerStart := g, es_trace := as @ es_trace sm \<rparr>"
    "list_all eap_action as"
    "ea_force_disabled e = ea_force_disabled (es_eap sm)"
    "ea_workaround e = ea_workaround (es_eap sm)" "ea_fast_reauth e = ea_fast_reauth (es_eap sm)"
  using assms unfolding eap_frame_def by metis

lemma eap_frame_trans: "eap_frame a b \<Longrightarrow> eap_frame b c \<Longrightarrow> eap_frame a c"
  by (elim eap_frameE) (simp add: eap_frame_def)

interpretation ef: state_frame eap_frame
  by unfold_locales (simp add: eap_frame_def, rule eap_frame_trans)

lemma eap_frame_fields:
  assumes "eap_frame sm sm'"
  shows "es_portEnabled sm' = es_portEnabled sm" "es_eapReqData sm' = es_eapReqData sm"
    "es_config sm' = es_config sm" "es_altAccept sm' = es_altAccept sm"
    "es_altReject sm' = es_altReject sm" "es_pae sm' = es_pae sm"
    "es_suppPortStatus sm' = es_suppPortStatus sm" "es_portValid sm' = es_portValid sm"
    "es_portControl sm' = es_portControl sm" "es_be sm' = es_be sm" "es_key_rx sm' = es_key_rx sm"
    "es_conf sm' = es_conf sm" "ea_force_disabled (es_eap sm') = ea_force_disabled (es_eap sm)"
    "ea_workaround (es_eap sm') = ea_workaround (es_eap sm)"
  using assms by (auto elim: eap_frameE)

lemma eap_frame_upd_eap:
  assumes "eap_frame sm sm'" "\<And>e. ea_force_disabled (f e) = ea_force_disabled e"
    "\<And>e. ea_workaround (f e) = ea_workaround e" "\<And>e. ea_fast_reauth (f e) = ea_fast_reauth e"
  shows "eap_frame sm (upd_eap f sm')"
  using assms by (elim eap_frameE) (simp add: eap_frame_def upd_eap_def)

lemma eap_frame_set:
  assumes "eap_frame sm sm'"
  shows "eap_frame sm (sm'\<lparr> es_eapSuccess := b \<rparr>)" "eap_frame sm (sm'\<lparr> es_eapFail := b \<rparr>)"
    "eap_frame sm (sm'\<lparr> es_eapReq := b \<rparr>)" "eap_frame sm (sm'\<lparr> es_eapResp := b \<rparr>)"
    "eap_frame sm (sm'\<lparr> es_eapNoResp := b \<rparr>)" "eap_frame sm (sm'\<lparr> es_eapRestart := b \<rparr>)"
    "eap_frame sm (sm'\<lparr> es_eapTriggerStart := b \<rparr>)" "eap_frame sm (sm'\<lparr> es_idleWhile := i \<rparr>)"
    "eap_frame sm (sm'\<lparr> es_timer_tick_enabled := b \<rparr>)"
  using assms by (elim eap_frameE; simp add: eap_frame_def)+

lemma eap_frame_eact: "eap_frame sm sm' \<Longrightarrow> eap_action a \<Longrightarrow> eap_frame sm (eact a sm')"
  by (elim eap_frameE) (simp add: eap_frame_def eact_def)

lemmas eap_frame_base = ef.rules eap_frame_set eap_frame_eact eap_frame_upd_eap

lemma eapol_enable_timer_tick_frame:
  "eap_frame sm sm' \<Longrightarrow> eap_frame sm (eapol_enable_timer_tick x sm')"
  unfolding eapol_enable_timer_tick_def
  by (assumption | rule eap_frame_base eap_action.simps [THEN iffD2] | simp)+

lemma eapol_sm_set_idleWhile_frame:
  "eap_frame sm sm' \<Longrightarrow> eap_frame sm (eapol_sm_set_idleWhile x v sm')"
  unfolding eapol_sm_set_idleWhile_def
  by (assumption | rule eap_frame_base eapol_enable_timer_tick_frame)+

lemma method_effect_frame:
  "eap_frame sm sm' \<Longrightarrow> eap_action a \<Longrightarrow> eap_frame sm (method_effect x a sm')"
  unfolding method_effect_def by (assumption | rule eap_frame_base | simp)+

lemma SM_ENTRY_EAP_frame: "eap_frame sm sm' \<Longrightarrow> eap_frame sm (SM_ENTRY_EAP g st sm')"
  unfolding SM_ENTRY_EAP_def by (assumption | rule eap_frame_base | simp)+

lemma eap_deinit_prev_method_frame:
  "eap_frame sm sm' \<Longrightarrow> eap_frame sm (eap_deinit_prev_method x sm')"
  unfolding eap_deinit_prev_method_def
  by (assumption | rule eap_frame_base method_effect_frame | simp)+

lemma eap_sm_free_key_frame: "eap_frame sm sm' \<Longrightarrow> eap_frame sm (eap_sm_free_key sm')"
  unfolding eap_sm_free_key_def by (assumption | rule eap_frame_base | simp)+

lemma eap_nak_frame: "eap_frame sm sm' \<Longrightarrow> eap_frame sm (eap_nak x sm')"
  unfolding eap_nak_def by (assumption | rule eap_frame_base | simp)+

lemmas eap_frame_rules =
  eap_frame_base eapol_enable_timer_tick_frame eapol_sm_set_idleWhile_frame method_effect_frame
  SM_ENTRY_EAP_frame eap_deinit_prev_method_frame eap_sm_free_key_frame eap_nak_frame


text \<open>The parser sets the variables of the received message.\<close>

definition parse_frame :: "eapol_sm \<Rightarrow> eapol_sm \<Rightarrow> bool" where
  "parse_frame sm sm' \<longleftrightarrow>
     sm' = sm\<lparr> es_eap := (es_eap sm)
        \<lparr> ea_rxReq := ea_rxReq (es_eap sm'), ea_rxResp := ea_rxResp (es_eap sm'),
          ea_rxSuccess := ea_rxSuccess (es_eap sm'), ea_rxFailure := ea_rxFailure (es_eap sm'),
          ea_reqId := ea_reqId (es_eap sm'), ea_reqMethod := ea_reqMethod (es_eap sm'),
          ea_reqVendor := ea_reqVendor (es_eap sm'),
          ea_reqVendorMethod := ea_reqVendorMethod (es_eap sm'),
          ea_req_sha1 := ea_req_sha1 (es_eap sm') \<rparr>,
        es_eapTriggerStart := es_eapTriggerStart sm' \<rparr>"

lemma parse_frameE:
  assumes "parse_frame sm sm'"
  obtains a b c d i m v t h g where
    "sm' = sm\<lparr> es_eap := (es_eap sm)
        \<lparr> ea_rxReq := a, ea_rxResp := b, ea_rxSuccess := c, ea_rxFailure := d, ea_reqId := i,
          ea_reqMethod := m, ea_reqVendor := v, ea_reqVendorMethod := t, ea_req_sha1 := h \<rparr>,
        es_eapTriggerStart := g \<rparr>"
  using assms unfolding parse_frame_def by blast

interpretation pf: state_frame parse_frame
proof unfold_locales
  show "parse_frame s t \<Longrightarrow> parse_frame t u \<Longrightarrow> parse_frame s u" for s t u
    by (elim parse_frameE) (simp add: parse_frame_def)
qed (simp add: parse_frame_def)

lemma parse_frame_upd:
  "parse_frame sm (upd_eap (\<lambda>e. e\<lparr> ea_rxReq := False, ea_rxResp := False, ea_rxSuccess := False,
     ea_rxFailure := False, ea_reqId := 0, ea_reqMethod := 0, ea_reqVendor := 0,
     ea_reqVendorMethod := 0 \<rparr>) sm)"
  "parse_frame sm (upd_eap (\<lambda>e. e\<lparr> ea_reqId := i \<rparr>) sm)"
  "parse_frame sm (upd_eap (\<lambda>e. e\<lparr> ea_req_sha1 := h \<rparr>) sm)"
  "parse_frame sm (upd_eap (\<lambda>e. e\<lparr> ea_rxReq := True, ea_reqMethod := m \<rparr>) sm)"
  "parse_frame sm (upd_eap (\<lambda>e. e\<lparr> ea_rxResp := True, ea_reqMethod := m \<rparr>) sm)"
  "parse_frame sm (upd_eap (\<lambda>e. e\<lparr> ea_reqVendor := v, ea_reqVendorMethod := t \<rparr>) sm)"
  "parse_frame sm (upd_eap (\<lambda>e. e\<lparr> ea_rxSuccess := True \<rparr>) sm)"
  "parse_frame sm (upd_eap (\<lambda>e. e\<lparr> ea_rxFailure := True \<rparr>) sm)"
  "parse_frame sm (eap_peer_initiate sm)"
  by (simp_all add: parse_frame_def upd_eap_def eap_peer_initiate_def)

lemma eap_sm_parse_code_frame:
  assumes "plen \<le> length r" "parse_frame s0 sm"
  shows "good (parse_frame s0) (eap_sm_parse_code r plen code sm)"
  unfolding eap_sm_parse_code_def
  by (assumption | rule assms pf.checked pf.checked_read rd_simps | rule pf.after, rule parse_frame_upd
      | (use assms(1) in linarith))+

lemma eap_sm_parseEapReq_frame: "good (parse_frame sm) (eap_sm_parseEapReq x req sm)"
  unfolding eap_sm_parseEapReq_def
  by (assumption | rule pf.checked pf.checked_read rd_simps rd8_first pf.rules eap_sm_parse_code_frame | rule pf.after, rule parse_frame_upd
      | linarith)+


lemma parse_frame_imp: "parse_frame sm sm' \<Longrightarrow> eap_frame sm sm'"
  by (elim parse_frameE) (simp add: eap_frame_def)

lemma parse_received_frame:
  "parse_frame sm (case eap_sm_parseEapReq x req sm of None \<Rightarrow> sm | Some sm' \<Rightarrow> sm')"
  using eap_sm_parseEapReq_frame [of sm x req] by (auto simp: good_def)

lemma parse_received_eap_frame:
  "eap_frame s0 sm \<Longrightarrow> eap_frame s0 (case eap_sm_parseEapReq x req sm of None \<Rightarrow> sm | Some sm' \<Rightarrow> sm')"
  by (rule ef.after [OF parse_frame_imp [OF parse_received_frame]])

lemma eap_sm_buildIdentity_frame:
  "eap_frame s0 sm \<Longrightarrow> eap_frame s0 (snd (eap_sm_buildIdentity x i enc sm))"
  unfolding eap_sm_buildIdentity_def by (assumption | rule eap_frame_rules | simp)+

lemma sm_EAP_INITIALIZE_Enter_frame: "eap_frame s0 sm \<Longrightarrow> eap_frame s0 (sm_EAP_INITIALIZE_Enter x g sm)"
  unfolding sm_EAP_INITIALIZE_Enter_def by (assumption | rule eap_frame_rules | simp)+

lemma sm_EAP_DISABLED_Enter_frame: "eap_frame s0 sm \<Longrightarrow> eap_frame s0 (sm_EAP_DISABLED_Enter x g sm)"
  unfolding sm_EAP_DISABLED_Enter_def by (assumption | rule eap_frame_rules | simp)+

lemma sm_EAP_RECEIVED_Enter_frame: "eap_frame s0 sm \<Longrightarrow> eap_frame s0 (sm_EAP_RECEIVED_Enter x g sm)"
  unfolding sm_EAP_RECEIVED_Enter_def by (assumption | rule parse_received_eap_frame eap_frame_rules | simp)+

lemma sm_EAP_GET_METHOD_Enter_frame: "eap_frame s0 sm \<Longrightarrow> eap_frame s0 (sm_EAP_GET_METHOD_Enter x g sm)"
  unfolding sm_EAP_GET_METHOD_Enter_def by (assumption | rule eap_frame_rules | simp)+

lemma sm_EAP_METHOD_Enter_frame: "eap_frame s0 sm \<Longrightarrow> eap_frame s0 (sm_EAP_METHOD_Enter x g sm)"
  unfolding sm_EAP_METHOD_Enter_def by (assumption | rule eap_frame_rules | simp)+

lemma sm_EAP_SEND_RESPONSE_Enter_frame: "eap_frame s0 sm \<Longrightarrow> eap_frame s0 (sm_EAP_SEND_RESPONSE_Enter x g sm)"
  unfolding sm_EAP_SEND_RESPONSE_Enter_def by (assumption | rule eap_frame_rules | simp)+

lemma sm_EAP_IDENTITY_Enter_frame: "eap_frame s0 sm \<Longrightarrow> eap_frame s0 (sm_EAP_IDENTITY_Enter x g sm)"
  unfolding sm_EAP_IDENTITY_Enter_def by (assumption | rule eap_sm_buildIdentity_frame eap_frame_rules | simp)+

lemma eap_simple_Enter_frame:
  assumes "eap_frame s0 sm"
  shows "eap_frame s0 (sm_EAP_IDLE_Enter g sm)" "eap_frame s0 (sm_EAP_DISCARD_Enter g sm)"
    "eap_frame s0 (sm_EAP_NOTIFICATION_Enter x g sm)" "eap_frame s0 (sm_EAP_RETRANSMIT_Enter x g sm)"
    "eap_frame s0 (sm_EAP_SUCCESS_Enter g sm)" "eap_frame s0 (sm_EAP_FAILURE_Enter g sm)"
  unfolding sm_EAP_IDLE_Enter_def sm_EAP_DISCARD_Enter_def sm_EAP_NOTIFICATION_Enter_def sm_EAP_RETRANSMIT_Enter_def sm_EAP_SUCCESS_Enter_def sm_EAP_FAILURE_Enter_def by (assumption | rule assms eap_frame_rules | simp)+

lemmas eap_Enter_frames = sm_EAP_INITIALIZE_Enter_frame sm_EAP_DISABLED_Enter_frame
  sm_EAP_RECEIVED_Enter_frame sm_EAP_GET_METHOD_Enter_frame sm_EAP_METHOD_Enter_frame
  sm_EAP_SEND_RESPONSE_Enter_frame sm_EAP_IDENTITY_Enter_frame eap_simple_Enter_frame

lemma sm_EAP_Step_frame: "eap_frame s0 sm \<Longrightarrow> eap_frame s0 (sm_EAP_Step x sm)"
  unfolding sm_EAP_Step_def eap_peer_sm_step_local_def eap_peer_sm_step_idle_def
    eap_peer_sm_step_received_def
  apply (simp only: Let_def)
  by (cases "ea_state (es_eap sm)") (simp_all add: eap_Enter_frames eap_frame_upd_eap)

end
