(* ===== verification/EAP_Step.thy ===== *)
theory EAP_Step
  imports EAP_Peer
begin

text \<open>
  The loop \<^verbatim>\<open>eap_peer_sm_step\<close> of the EAP peer with its termination proof, the
  operations the EAPOL state machine calls, and what the EAP peer guarantees:
  success needs a decision, duplicates are answered from memory, and the number of
  messages is bounded.
\<close>

section \<open>Control state after a transition\<close>

text \<open>Selecting and running a method.\<close>

definition method_frame :: "eapol_sm \<Rightarrow> eapol_sm \<Rightarrow> bool" where
  "method_frame sm sm' \<longleftrightarrow>
     sm' = sm\<lparr> es_eap := (es_eap sm)
        \<lparr> ea_selectedMethod := ea_selectedMethod (es_eap sm'),
          ea_methodState := ea_methodState (es_eap sm'), ea_decision := ea_decision (es_eap sm'),
          ea_allowNotifications := ea_allowNotifications (es_eap sm'),
          ea_eapRespData := ea_eapRespData (es_eap sm'),
          ea_eapKeyData := ea_eapKeyData (es_eap sm'),
          ea_eapSessionId := ea_eapSessionId (es_eap sm'), ea_m := ea_m (es_eap sm'),
          ea_method_priv := ea_method_priv (es_eap sm'), ea_mv := ea_mv (es_eap sm') \<rparr>,
        es_trace := es_trace sm' \<rparr>"

lemma method_frameE:
  assumes "method_frame sm sm'"
  obtains s m d n r k i em pr mv tr where
    "sm' = sm\<lparr> es_eap := (es_eap sm)
        \<lparr> ea_selectedMethod := s, ea_methodState := m, ea_decision := d,
          ea_allowNotifications := n, ea_eapRespData := r, ea_eapKeyData := k,
          ea_eapSessionId := i, ea_m := em, ea_method_priv := pr, ea_mv := mv \<rparr>,
        es_trace := tr \<rparr>"
  using assms unfolding method_frame_def by blast

interpretation mf: state_frame method_frame
proof unfold_locales
  show "method_frame s t \<Longrightarrow> method_frame t u \<Longrightarrow> method_frame s u" for s t u
    by (elim method_frameE) (simp add: method_frame_def)
qed (simp add: method_frame_def)

lemma method_effect_mf: "method_frame s0 sm \<Longrightarrow> method_frame s0 (method_effect x a sm)"
  by (elim method_frameE) (simp add: method_frame_def method_effect_def upd_eap_def eact_def Let_def)

lemma eap_deinit_prev_method_mf: "method_frame s0 sm \<Longrightarrow> method_frame s0 (eap_deinit_prev_method x sm)"
  by (elim method_frameE) (simp add: method_frame_def eap_deinit_prev_method_def method_effect_def
      upd_eap_def eact_def Let_def)

lemma method_frame_upd:
  "method_frame sm (upd_eap (\<lambda>e. e\<lparr> ea_eapRespData := r \<rparr>) sm)"
  "method_frame sm (upd_eap (\<lambda>e. e\<lparr> ea_selectedMethod := f e, ea_m := g e \<rparr>) sm)"
  "method_frame sm (upd_eap (\<lambda>e. e\<lparr> ea_mv := h e \<rparr>) sm)"
  "method_frame sm (upd_eap (\<lambda>e. e\<lparr> ea_method_priv := b \<rparr>) sm)"
  "method_frame sm (upd_eap (\<lambda>e. e\<lparr> ea_m := em, ea_methodState := ms, ea_selectedMethod := se \<rparr>) sm)"
  "method_frame sm (upd_eap (\<lambda>e. e\<lparr> ea_methodState := ms \<rparr>) sm)"
  "method_frame sm (upd_eap (\<lambda>e. e\<lparr> ea_methodState := ms, ea_decision := de, ea_allowNotifications := al \<rparr>) sm)"
  "method_frame sm (upd_eap (\<lambda>e. e\<lparr> ea_eapRespData := r, ea_mv := h e \<rparr>) sm)"
  "method_frame sm (upd_eap (\<lambda>e. e\<lparr> ea_eapKeyData := kd, ea_eapSessionId := si \<rparr>) sm)"
  "method_frame sm (eap_sm_free_key sm)" "method_frame sm (eap_nak x sm)"
  by (simp_all add: method_frame_def upd_eap_def eap_sm_free_key_def eap_nak_def)

lemma sm_EAP_GET_METHOD_Enter_mf:
  "method_frame (SM_ENTRY_EAP g EAP_GET_METHOD sm) (sm_EAP_GET_METHOD_Enter x g sm)"
  unfolding sm_EAP_GET_METHOD_Enter_def
  by (assumption | rule mf.rules method_effect_mf eap_deinit_prev_method_mf | rule mf.after, rule method_frame_upd)+

lemma sm_EAP_METHOD_Enter_mf:
  "method_frame (SM_ENTRY_EAP g EAP_METHOD sm) (sm_EAP_METHOD_Enter x g sm)"
  unfolding sm_EAP_METHOD_Enter_def
  by (assumption | rule mf.rules method_effect_mf eap_deinit_prev_method_mf | rule mf.after, rule method_frame_upd)+

lemma method_frame_fields:
  assumes "method_frame sm sm'"
  shows "es_eapReq sm' = es_eapReq sm" "es_eapRestart sm' = es_eapRestart sm"
    "es_eapSuccess sm' = es_eapSuccess sm" "es_eapFail sm' = es_eapFail sm"
    "ea_state (es_eap sm') = ea_state (es_eap sm)" "ea_changed (es_eap sm') = ea_changed (es_eap sm)"
    "ea_lastId (es_eap sm') = ea_lastId (es_eap sm)" "ea_reqId (es_eap sm') = ea_reqId (es_eap sm)"
    "ea_num_rounds (es_eap sm') = ea_num_rounds (es_eap sm)"
    "ea_num_rounds_short (es_eap sm') = ea_num_rounds_short (es_eap sm)"
    "ea_eapKeyAvailable (es_eap sm') = ea_eapKeyAvailable (es_eap sm)"
    "ea_prev_failure (es_eap sm') = ea_prev_failure (es_eap sm)"
  using assms by (auto elim: method_frameE)

lemma SM_ENTRY_EAP_keeps [eap_simps]:
  "es_eapReq (SM_ENTRY_EAP g st sm) = es_eapReq sm"
  "es_eapRestart (SM_ENTRY_EAP g st sm) = es_eapRestart sm"
  "ea_state (es_eap (SM_ENTRY_EAP g st sm)) = st"
  "ea_changed (es_eap (SM_ENTRY_EAP g st sm)) \<longleftrightarrow> ea_changed (es_eap sm) \<or> \<not> g \<or> ea_state (es_eap sm) \<noteq> st"
  "ea_num_rounds (es_eap (SM_ENTRY_EAP g st sm)) = ea_num_rounds (es_eap sm)"
  "ea_num_rounds_short (es_eap (SM_ENTRY_EAP g st sm)) = ea_num_rounds_short (es_eap sm)"
  by (simp_all add: SM_ENTRY_EAP_def upd_eap_def)

lemma method_effect_keeps [eap_simps]:
  "es_eapReq (method_effect x a sm) = es_eapReq sm"
  "ea_state (es_eap (method_effect x a sm)) = ea_state (es_eap sm)"
  "ea_changed (es_eap (method_effect x a sm)) = ea_changed (es_eap sm)"
  by (simp_all add: method_effect_def upd_eap_def eact_def Let_def)

lemma eap_deinit_prev_method_keeps [eap_simps]:
  "es_eapReq (eap_deinit_prev_method x sm) = es_eapReq sm"
  "ea_state (es_eap (eap_deinit_prev_method x sm)) = ea_state (es_eap sm)"
  "ea_changed (es_eap (eap_deinit_prev_method x sm)) = ea_changed (es_eap sm)"
  by (simp_all add: eap_deinit_prev_method_def method_effect_def upd_eap_def eact_def Let_def)

lemma upd_eap_sel [eap_simps]:
  "es_eap (upd_eap f sm) = f (es_eap sm)" "es_eapReq (upd_eap f sm) = es_eapReq sm"
  "es_eapRestart (upd_eap f sm) = es_eapRestart sm" "es_idleWhile (upd_eap f sm) = es_idleWhile sm"
  "es_eapSuccess (upd_eap f sm) = es_eapSuccess sm" "es_eapFail (upd_eap f sm) = es_eapFail sm"
  by (simp_all add: upd_eap_def)

lemma eapol_sm_set_idleWhile_keeps [eap_simps]:
  "es_eap (eapol_sm_set_idleWhile x v sm) = es_eap sm"
  "es_eapReq (eapol_sm_set_idleWhile x v sm) = es_eapReq sm"
  "es_eapRestart (eapol_sm_set_idleWhile x v sm) = es_eapRestart sm"
  "es_eapSuccess (eapol_sm_set_idleWhile x v sm) = es_eapSuccess sm"
  "es_eapFail (eapol_sm_set_idleWhile x v sm) = es_eapFail sm"
  "es_eapResp (eapol_sm_set_idleWhile x v sm) = es_eapResp sm"
  "es_eapNoResp (eapol_sm_set_idleWhile x v sm) = es_eapNoResp sm"
  "es_idleWhile (eapol_sm_set_idleWhile x v sm) = v"
  by (simp_all add: eapol_sm_set_idleWhile_def eapol_enable_timer_tick_def eact_def Let_def)

lemma sm_EAP_INITIALIZE_Enter_ctl [eap_simps]:
  "ea_state (es_eap (sm_EAP_INITIALIZE_Enter x g sm)) = EAP_INITIALIZE"
  "es_eapRestart (sm_EAP_INITIALIZE_Enter x g sm) = False"
  "es_eapReq (sm_EAP_INITIALIZE_Enter x g sm) = es_eapReq sm"
  unfolding sm_EAP_INITIALIZE_Enter_def eap_sm_free_key_def Let_def
  by (simp_all add: eap_simps)

lemmas eap_enter_defs =
  sm_EAP_DISABLED_Enter_def sm_EAP_IDLE_Enter_def sm_EAP_RECEIVED_Enter_def
  sm_EAP_SEND_RESPONSE_Enter_def sm_EAP_DISCARD_Enter_def sm_EAP_IDENTITY_Enter_def
  sm_EAP_NOTIFICATION_Enter_def sm_EAP_RETRANSMIT_Enter_def sm_EAP_SUCCESS_Enter_def
  sm_EAP_FAILURE_Enter_def

lemma parse_received_ctl [eap_simps]:
  "ea_state (es_eap (case eap_sm_parseEapReq x req sm of None \<Rightarrow> sm | Some sm' \<Rightarrow> sm')) = ea_state (es_eap sm)"
  "ea_changed (es_eap (case eap_sm_parseEapReq x req sm of None \<Rightarrow> sm | Some sm' \<Rightarrow> sm')) = ea_changed (es_eap sm)"
  "es_eapReq (case eap_sm_parseEapReq x req sm of None \<Rightarrow> sm | Some sm' \<Rightarrow> sm') = es_eapReq sm"
  "es_eapRestart (case eap_sm_parseEapReq x req sm of None \<Rightarrow> sm | Some sm' \<Rightarrow> sm') = es_eapRestart sm"
  using parse_received_frame [of sm x req] by (auto elim: parse_frameE)

lemma eap_sm_buildIdentity_ctl [eap_simps]:
  "ea_state (es_eap (snd (eap_sm_buildIdentity x i enc sm))) = ea_state (es_eap sm)"
  "ea_changed (es_eap (snd (eap_sm_buildIdentity x i enc sm))) = ea_changed (es_eap sm)"
  "es_eapReq (snd (eap_sm_buildIdentity x i enc sm)) = es_eapReq sm"
  "es_eapRestart (snd (eap_sm_buildIdentity x i enc sm)) = es_eapRestart sm"
  by (auto simp: eap_sm_buildIdentity_def eact_def Let_def split: option.splits)

lemma eap_Enter_Restart [eap_simps]:
  "es_eapRestart (sm_EAP_DISABLED_Enter x g sm) = es_eapRestart sm"
  "es_eapRestart (sm_EAP_IDLE_Enter g sm) = es_eapRestart sm"
  "es_eapRestart (sm_EAP_RECEIVED_Enter x g sm) = es_eapRestart sm"
  "es_eapRestart (sm_EAP_GET_METHOD_Enter x g sm) = es_eapRestart sm"
  "es_eapRestart (sm_EAP_METHOD_Enter x g sm) = es_eapRestart sm"
  "es_eapRestart (sm_EAP_SEND_RESPONSE_Enter x g sm) = es_eapRestart sm"
  "es_eapRestart (sm_EAP_DISCARD_Enter g sm) = es_eapRestart sm"
  "es_eapRestart (sm_EAP_IDENTITY_Enter x g sm) = es_eapRestart sm"
  "es_eapRestart (sm_EAP_NOTIFICATION_Enter x g sm) = es_eapRestart sm"
  "es_eapRestart (sm_EAP_RETRANSMIT_Enter x g sm) = es_eapRestart sm"
  "es_eapRestart (sm_EAP_SUCCESS_Enter g sm) = es_eapRestart sm"
  "es_eapRestart (sm_EAP_FAILURE_Enter g sm) = es_eapRestart sm"
  using method_frame_fields [OF sm_EAP_GET_METHOD_Enter_mf] method_frame_fields [OF sm_EAP_METHOD_Enter_mf]
  by (simp_all add: eap_enter_defs Let_def eap_simps split_beta split: option.split)

lemma eap_Enter_Req [eap_simps]:
  "es_eapReq (sm_EAP_DISABLED_Enter x g sm) = es_eapReq sm"
  "es_eapReq (sm_EAP_IDLE_Enter g sm) = es_eapReq sm"
  "es_eapReq (sm_EAP_RECEIVED_Enter x g sm) = es_eapReq sm"
  "es_eapReq (sm_EAP_GET_METHOD_Enter x g sm) = es_eapReq sm"
  "es_eapReq (sm_EAP_METHOD_Enter x g sm) = es_eapReq sm"
  "es_eapReq (sm_EAP_SEND_RESPONSE_Enter x g sm) = False"
  "es_eapReq (sm_EAP_DISCARD_Enter g sm) = False"
  "es_eapReq (sm_EAP_IDENTITY_Enter x g sm) = es_eapReq sm"
  "es_eapReq (sm_EAP_NOTIFICATION_Enter x g sm) = es_eapReq sm"
  "es_eapReq (sm_EAP_RETRANSMIT_Enter x g sm) = es_eapReq sm"
  "es_eapReq (sm_EAP_SUCCESS_Enter g sm) = False"
  "es_eapReq (sm_EAP_FAILURE_Enter g sm) = False"
  using method_frame_fields [OF sm_EAP_GET_METHOD_Enter_mf] method_frame_fields [OF sm_EAP_METHOD_Enter_mf]
  by (simp_all add: eap_enter_defs Let_def eap_simps split_beta split: option.split)

lemma eap_Enter_state [eap_simps]:
  "ea_state (es_eap (sm_EAP_DISABLED_Enter x g sm)) = EAP_DISABLED"
  "ea_state (es_eap (sm_EAP_IDLE_Enter g sm)) = EAP_IDLE"
  "ea_state (es_eap (sm_EAP_RECEIVED_Enter x g sm)) = EAP_RECEIVED"
  "ea_state (es_eap (sm_EAP_GET_METHOD_Enter x g sm)) = EAP_GET_METHOD"
  "ea_state (es_eap (sm_EAP_METHOD_Enter x g sm)) = EAP_METHOD"
  "ea_state (es_eap (sm_EAP_SEND_RESPONSE_Enter x g sm)) = EAP_SEND_RESPONSE"
  "ea_state (es_eap (sm_EAP_DISCARD_Enter g sm)) = EAP_DISCARD"
  "ea_state (es_eap (sm_EAP_IDENTITY_Enter x g sm)) = EAP_IDENTITY"
  "ea_state (es_eap (sm_EAP_NOTIFICATION_Enter x g sm)) = EAP_NOTIFICATION"
  "ea_state (es_eap (sm_EAP_RETRANSMIT_Enter x g sm)) = EAP_RETRANSMIT"
  "ea_state (es_eap (sm_EAP_SUCCESS_Enter g sm)) = EAP_SUCCESS"
  "ea_state (es_eap (sm_EAP_FAILURE_Enter g sm)) = EAP_FAILURE"
  using method_frame_fields [OF sm_EAP_GET_METHOD_Enter_mf] method_frame_fields [OF sm_EAP_METHOD_Enter_mf]
  by (simp_all add: eap_enter_defs Let_def eap_simps split_beta split: option.split)

lemma eap_Enter_changed [eap_simps]:
  "ea_changed (es_eap (sm_EAP_DISABLED_Enter x g sm)) \<longleftrightarrow>
     ea_changed (es_eap sm) \<or> \<not> g \<or> ea_state (es_eap sm) \<noteq> EAP_DISABLED"
  "ea_changed (es_eap (sm_EAP_FAILURE_Enter g sm)) \<longleftrightarrow>
     ea_changed (es_eap sm) \<or> \<not> g \<or> ea_state (es_eap sm) \<noteq> EAP_FAILURE"
  by (simp_all add: eap_enter_defs Let_def eap_simps)

lemma eap_peer_sm_step_received_cases:
  assumes "P (sm_EAP_SUCCESS_Enter False sm)" "P (sm_EAP_FAILURE_Enter False sm)"
    "P (sm_EAP_RETRANSMIT_Enter x False sm)" "P (sm_EAP_NOTIFICATION_Enter x False sm)"
    "P (sm_EAP_IDENTITY_Enter x False sm)" "P (sm_EAP_GET_METHOD_Enter x False sm)"
    "P (sm_EAP_METHOD_Enter x False sm)" "P (sm_EAP_SEND_RESPONSE_Enter x False sm)"
    "P (sm_EAP_DISCARD_Enter False sm)"
  shows "P (eap_peer_sm_step_received x sm)"
  unfolding eap_peer_sm_step_received_def Let_def using assms by (simp split: if_split)

section \<open>The loop over the transitions\<close>

definition eap_rank :: "EAP_state \<Rightarrow> bool \<Rightarrow> nat" where
  "eap_rank st req =
     (case st of
        EAP_SUCCESS \<Rightarrow> 1 | EAP_FAILURE \<Rightarrow> 0
      | EAP_DISABLED \<Rightarrow> if req then 20 else 12
      | EAP_INITIALIZE \<Rightarrow> if req then 19 else 11
      | EAP_SEND_RESPONSE \<Rightarrow> if req then 19 else 6
      | EAP_DISCARD \<Rightarrow> if req then 19 else 6
      | EAP_IDLE \<Rightarrow> if req then 18 else 5
      | EAP_RECEIVED \<Rightarrow> if req then 17 else 10
      | EAP_GET_METHOD \<Rightarrow> if req then 16 else 9
      | EAP_METHOD \<Rightarrow> if req then 15 else 8
      | _ \<Rightarrow> if req then 14 else 7)"

definition eap_measure :: "eapol_sm \<Rightarrow> nat" where
  "eap_measure sm =
     (if es_eapRestart sm \<and> es_portEnabled sm then 21
      else if \<not> es_portEnabled sm \<or> ea_force_disabled (es_eap sm)
      then (if ea_state (es_eap sm) = EAP_DISABLED then 0 else 1)
      else eap_rank (ea_state (es_eap sm)) (es_eapReq sm))"

lemma step_received_rank:
  "eap_rank (ea_state (es_eap (eap_peer_sm_step_received x sm)))
     (es_eapReq (eap_peer_sm_step_received x sm)) < eap_rank EAP_RECEIVED (es_eapReq sm)"
  by (rule eap_peer_sm_step_received_cases) (simp_all add: eap_rank_def eap_simps)

lemma step_idle_rank:
  assumes "\<not> ea_changed (es_eap sm)" "ea_changed (es_eap (eap_peer_sm_step_idle x sm))"
  shows "eap_rank (ea_state (es_eap (eap_peer_sm_step_idle x sm)))
           (es_eapReq (eap_peer_sm_step_idle x sm)) < eap_rank EAP_IDLE (es_eapReq sm)"
proof (cases "es_eapReq sm")
  case True
  then show ?thesis by (simp add: eap_peer_sm_step_idle_def eap_simps eap_rank_def)
next
  case False
  then have "eap_peer_sm_step_idle x sm \<in> {sm, sm_EAP_SUCCESS_Enter False sm, sm_EAP_FAILURE_Enter False sm}"
    by (simp add: eap_peer_sm_step_idle_def Let_def)
  then show ?thesis using assms by (auto simp: eap_simps eap_rank_def)
qed

lemma step_local_rank:
  assumes "\<not> ea_changed (es_eap sm)" "ea_changed (es_eap (eap_peer_sm_step_local x sm))"
  shows "eap_rank (ea_state (es_eap (eap_peer_sm_step_local x sm)))
           (es_eapReq (eap_peer_sm_step_local x sm)) < eap_rank (ea_state (es_eap sm)) (es_eapReq sm)"
proof (cases "ea_state (es_eap sm)")
  case EAP_IDLE
  then show ?thesis using assms step_idle_rank by (simp add: eap_peer_sm_step_local_def)
next
  case EAP_RECEIVED
  then show ?thesis using step_received_rank by (simp add: eap_peer_sm_step_local_def)
qed (use assms in \<open>simp_all add: eap_peer_sm_step_local_def Let_def eap_simps eap_rank_def split: if_splits\<close>)

lemma eap_Step_enters:
  assumes "\<not> (es_eapRestart sm \<and> es_portEnabled sm)" "es_portEnabled sm" "\<not> ea_force_disabled (es_eap sm)"
  shows "sm_EAP_Step x sm \<in> {sm, eap_peer_sm_step_local x sm} \<or>
         sm_EAP_Step x sm = sm_EAP_FAILURE_Enter True (upd_eap (\<lambda>e. e\<lparr> ea_num_rounds := ea_num_rounds e + 1 \<rparr>) sm)
      \<or> sm_EAP_Step x sm = sm_EAP_FAILURE_Enter True (upd_eap (\<lambda>e. e\<lparr> ea_num_rounds_short := ea_num_rounds_short e + 1 \<rparr>) sm)"
  using assms by (simp add: sm_EAP_Step_def Let_def)

lemma step_local_Restart: "\<not> es_eapRestart sm \<Longrightarrow> \<not> es_eapRestart (eap_peer_sm_step_local x sm)"
  unfolding eap_peer_sm_step_local_def eap_peer_sm_step_idle_def Let_def
  by (cases "ea_state (es_eap sm)")
    (simp_all add: eap_simps eap_peer_sm_step_received_cases [where P = "\<lambda>t. \<not> es_eapRestart t"])

lemma eap_rank_pos: "st \<noteq> EAP_FAILURE \<Longrightarrow> 0 < eap_rank st q" "eap_rank st q \<le> 20"
  by (cases st; simp add: eap_rank_def)+

lemmas eap_Enter_fixed [eap_simps] =
  eap_Enter_frames [OF ef.refl, THEN eap_frame_fields(1)]
  eap_Enter_frames [OF ef.refl, THEN eap_frame_fields(13)]
  eap_frame_fields(1,13) [OF sm_EAP_Step_frame [OF ef.refl]]

lemma sm_EAP_Step_measure:
  assumes "\<not> ea_changed (es_eap sm)" "ea_changed (es_eap (sm_EAP_Step x sm))"
  shows "eap_measure (sm_EAP_Step x sm) < eap_measure sm"
proof -
  consider (restart) "es_eapRestart sm" "es_portEnabled sm"
    | (disabled) "\<not> (es_eapRestart sm \<and> es_portEnabled sm)" "\<not> es_portEnabled sm \<or> ea_force_disabled (es_eap sm)"
    | (running) "\<not> es_eapRestart sm" "es_portEnabled sm" "\<not> ea_force_disabled (es_eap sm)"
    by blast
  then show ?thesis
  proof cases
    case restart
    then have "sm_EAP_Step x sm = sm_EAP_INITIALIZE_Enter x True sm"
      by (simp add: sm_EAP_Step_def)
    then have "\<not> es_eapRestart (sm_EAP_Step x sm)" by (simp add: eap_simps)
    then have "eap_measure (sm_EAP_Step x sm) \<le> 20"
      by (simp add: eap_measure_def eap_rank_pos eap_simps)
    with restart show ?thesis by (simp add: eap_measure_def)
  next
    case disabled
    then have *: "sm_EAP_Step x sm = sm_EAP_DISABLED_Enter x True sm"
      by (auto simp add: sm_EAP_Step_def)
    with assms disabled show ?thesis by (auto simp: eap_measure_def eap_simps)
  next
    case running
    then show ?thesis
      using eap_Step_enters [of sm x] assms step_local_rank [of sm x] step_local_Restart [of sm x]
        eap_frame_fields(1,13) [OF sm_EAP_Step_frame [OF ef.refl, of sm x]]
      by (auto simp: eap_measure_def eap_simps eap_rank_pos(1) eap_rank_def [of EAP_FAILURE])
  qed
qed

lemma eap_measure_unchanged [simp]:
  "eap_measure (upd_eap (\<lambda>e. e\<lparr> ea_changed := b \<rparr>) sm) = eap_measure sm"
  by (simp add: eap_measure_def upd_eap_def)

text \<open>\<^verbatim>\<open>eap_peer_sm_step\<close>: whether some transition changed the state, and the state after
  the last one.\<close>

function eap_peer_sm_loop :: "eapol_env \<Rightarrow> bool \<Rightarrow> eapol_sm \<Rightarrow> bool \<times> eapol_sm" where
  "eap_peer_sm_loop x res sm =
     (let sm' = sm_EAP_Step x (upd_eap (\<lambda>e. e\<lparr> ea_changed := False \<rparr>) sm)
      in if ea_changed (es_eap sm') then eap_peer_sm_loop x True sm' else (res, sm'))"
  by pat_completeness auto

termination
proof (relation "measure (\<lambda>(x, res, sm). eap_measure sm)")
  fix x :: eapol_env and res :: bool and sm sm' :: eapol_sm
  assume "sm' = sm_EAP_Step x (upd_eap (\<lambda>e. e\<lparr> ea_changed := False \<rparr>) sm)"
    and "ea_changed (es_eap sm')"
  then show "((x, True, sm'), (x, res, sm)) \<in> measure (\<lambda>(x, res, sm). eap_measure sm)"
    using sm_EAP_Step_measure [of "upd_eap (\<lambda>e. e\<lparr> ea_changed := False \<rparr>) sm" x]
    by (simp add: eap_simps)
qed simp

declare eap_peer_sm_loop.simps [simp del]

definition eap_peer_sm_step :: "eapol_env \<Rightarrow> eapol_sm \<Rightarrow> bool \<times> eapol_sm" where
  "eap_peer_sm_step x sm = eap_peer_sm_loop x False sm"


section \<open>Operations for the lower layer\<close>

definition eap_peer_sm_init :: "bool \<Rightarrow> eap_sm option" where
  "eap_peer_sm_init tls_ok =
     (if \<not> tls_ok then None
      else Some (eap_sm_zero\<lparr> ea_mv := (ea_mv eap_sm_zero)
                                \<lparr> mv_ClientTimeout := EAP_CLIENT_TIMEOUT_DEFAULT \<rparr> \<rparr>))"

definition eap_sm_abort :: "eapol_sm \<Rightarrow> eapol_sm" where
  "eap_sm_abort sm =
     (upd_eap (\<lambda>e. e\<lparr> ea_eapSessionId := None \<rparr>)
        (eap_sm_free_key
           (upd_eap (\<lambda>e. e\<lparr> ea_lastRespData := None, ea_eapRespData := None \<rparr>) sm)))
       \<lparr> es_eapSuccess := False \<rparr>"

definition eap_peer_sm_deinit :: "eapol_env \<Rightarrow> eapol_sm \<Rightarrow> eapol_sm" where
  "eap_peer_sm_deinit x sm = eap_sm_abort (eap_deinit_prev_method x sm)"

definition eap_set_fast_reauth :: "bool \<Rightarrow> eapol_sm \<Rightarrow> eapol_sm" where
  "eap_set_fast_reauth enabled = upd_eap (\<lambda>e. e\<lparr> ea_fast_reauth := enabled \<rparr>)"

definition eap_set_workaround :: "bool \<Rightarrow> eapol_sm \<Rightarrow> eapol_sm" where
  "eap_set_workaround workaround = upd_eap (\<lambda>e. e\<lparr> ea_workaround := workaround \<rparr>)"

definition eap_set_force_disabled :: "bool \<Rightarrow> eapol_sm \<Rightarrow> eapol_sm" where
  "eap_set_force_disabled disabled = upd_eap (\<lambda>e. e\<lparr> ea_force_disabled := disabled \<rparr>)"

definition eap_set_external_sim :: "bool \<Rightarrow> eapol_sm \<Rightarrow> eapol_sm" where
  "eap_set_external_sim external_sim = upd_eap (\<lambda>e. e\<lparr> ea_external_sim := external_sim \<rparr>)"

definition eap_key_available :: "eapol_sm \<Rightarrow> bool" where
  "eap_key_available sm = ea_eapKeyAvailable (es_eap sm)"

definition eap_notify_success :: "eapol_sm \<Rightarrow> eapol_sm" where
  "eap_notify_success =
     upd_eap (\<lambda>e. e\<lparr> ea_decision := DECISION_COND_SUCC, ea_state := EAP_SUCCESS \<rparr>)"

definition eap_notify_lower_layer_success :: "eapol_sm \<Rightarrow> eapol_sm" where
  "eap_notify_lower_layer_success sm =
     (let e = es_eap sm in
      if es_eapSuccess sm \<or> ea_decision e = DECISION_FAIL \<or>
         (ea_methodState e \<noteq> METHOD_MAY_CONT \<and> ea_methodState e \<noteq> METHOD_DONE)
      then sm
      else (upd_eap (\<lambda>e. e\<lparr> ea_eapKeyAvailable := ea_eapKeyAvailable e \<or> ea_eapKeyData e \<noteq> None \<rparr>) sm)
             \<lparr> es_eapSuccess := True \<rparr>)"

definition eap_get_eapSessionId :: "eapol_sm \<Rightarrow> bytes option" where
  "eap_get_eapSessionId sm = ea_eapSessionId (es_eap sm)"

definition eap_get_eapKeyData :: "eapol_sm \<Rightarrow> bytes option" where
  "eap_get_eapKeyData sm = ea_eapKeyData (es_eap sm)"

definition eap_get_eapRespData :: "eapol_sm \<Rightarrow> bytes option \<times> eapol_sm" where
  "eap_get_eapRespData sm =
     (case ea_eapRespData (es_eap sm) of
        None \<Rightarrow> (None, sm)
      | Some resp \<Rightarrow> (Some resp, upd_eap (\<lambda>e. e\<lparr> ea_eapRespData := None \<rparr>) sm))"

definition eap_invalidate_cached_session :: "eapol_env \<Rightarrow> eapol_sm \<Rightarrow> eapol_sm" where
  "eap_invalidate_cached_session x sm = eap_deinit_prev_method x sm"


section \<open>The loop ends in a stable state\<close>

lemma eap_peer_sm_loop_frame: "eap_frame s0 sm \<Longrightarrow> eap_frame s0 (snd (eap_peer_sm_loop x res sm))"
proof (induction x res sm rule: eap_peer_sm_loop.induct)
  case (1 x res sm)
  show ?case
    using 1 by (subst eap_peer_sm_loop.simps)
      (simp add: Let_def sm_EAP_Step_frame eap_frame_upd_eap)
qed

lemma eap_peer_sm_step_frame: "eap_frame s0 sm \<Longrightarrow> eap_frame s0 (snd (eap_peer_sm_step x sm))"
  by (simp add: eap_peer_sm_step_def eap_peer_sm_loop_frame)

text \<open>An invariant of the transitions holds after the loop.\<close>

lemma eap_peer_sm_loop_invariant:
  assumes step: "\<And>s. P s \<Longrightarrow> P (sm_EAP_Step x s)"
    and mark: "\<And>s. P s \<Longrightarrow> P (upd_eap (\<lambda>e. e\<lparr> ea_changed := False \<rparr>) s)"
  shows "P sm \<Longrightarrow> P (snd (eap_peer_sm_loop x res sm))"
  using assms
proof (induction x res sm rule: eap_peer_sm_loop.induct)
  case (1 x res sm)
  show ?case
    using 1 by (subst eap_peer_sm_loop.simps) (simp add: Let_def)
qed


definition eap_one_step :: "eapol_env \<Rightarrow> eapol_sm \<Rightarrow> eapol_sm" where
  "eap_one_step x sm = sm_EAP_Step x (upd_eap (\<lambda>e. e\<lparr> ea_changed := False \<rparr>) sm)"

lemma eap_peer_sm_loop_unfold:
  "eap_peer_sm_loop x res sm =
     (if ea_changed (es_eap (eap_one_step x sm)) then eap_peer_sm_loop x True (eap_one_step x sm)
      else (res, eap_one_step x sm))"
  unfolding eap_one_step_def by (subst eap_peer_sm_loop.simps) (simp add: Let_def)

lemma eap_one_step_measure:
  "ea_changed (es_eap (eap_one_step x sm)) \<Longrightarrow> eap_measure (eap_one_step x sm) < eap_measure sm"
  unfolding eap_one_step_def
  using sm_EAP_Step_measure [of "upd_eap (\<lambda>e. e\<lparr> ea_changed := False \<rparr>) sm" x] by (simp add: eap_simps)

lemma eap_peer_sm_loop_iterates:
  "\<exists>n\<le>eap_measure sm. snd (eap_peer_sm_loop x res sm) = (eap_one_step x ^^ Suc n) sm \<and>
     \<not> ea_changed (es_eap (snd (eap_peer_sm_loop x res sm)))"
proof (induction "eap_measure sm" arbitrary: sm res rule: less_induct)
  case less
  show ?case
  proof (cases "ea_changed (es_eap (eap_one_step x sm))")
    case True
    with less [OF eap_one_step_measure] obtain n where
      "n \<le> eap_measure (eap_one_step x sm)"
      "snd (eap_peer_sm_loop x True (eap_one_step x sm)) = (eap_one_step x ^^ Suc n) (eap_one_step x sm)"
      "\<not> ea_changed (es_eap (snd (eap_peer_sm_loop x True (eap_one_step x sm))))"
      by blast
    with True eap_one_step_measure [OF True] show ?thesis
      by (intro exI [of _ "Suc n"]) (simp add: eap_peer_sm_loop_unfold [of x res sm] funpow_swap1)
  next
    case False
    then show ?thesis by (intro exI [of _ 0]) (simp add: eap_peer_sm_loop_unfold [of x res sm])
  qed
qed

lemma eap_measure_le: "eap_measure sm \<le> 21"
  using eap_rank_pos(2) [of "ea_state (es_eap sm)" "es_eapReq sm"] by (simp add: eap_measure_def)

text \<open>C14: the loop of the EAP peer ends, whatever the methods and the peer do: after at
  most 22 transitions it reaches a state that the next transition would not change.\<close>

theorem eap_peer_sm_step_terminates:
  "\<exists>n\<le>21. snd (eap_peer_sm_step x sm) = (eap_one_step x ^^ Suc n) sm \<and>
     \<not> ea_changed (es_eap (snd (eap_peer_sm_step x sm)))"
  unfolding eap_peer_sm_step_def
  using eap_peer_sm_loop_iterates [of sm x False] eap_measure_le [of sm] order_trans by blast

section \<open>Success\<close>

definition success_ok :: "eapol_sm \<Rightarrow> bool" where
  "success_ok sm \<longleftrightarrow> ea_decision (es_eap sm) \<noteq> DECISION_FAIL \<or>
     ea_workaround (es_eap sm) \<and> eap_peer_sm_allow_canned sm"

definition success_inv :: "eapol_sm \<Rightarrow> bool" where
  "success_inv sm \<longleftrightarrow> (es_eapSuccess sm \<longrightarrow>
     ea_state (es_eap sm) = EAP_SUCCESS \<and> \<not> es_eapRestart sm \<and> es_portEnabled sm \<and>
     \<not> ea_force_disabled (es_eap sm) \<and> ea_num_rounds (es_eap sm) \<le> EAP_MAX_AUTH_ROUNDS \<and>
     ea_num_rounds_short (es_eap sm) \<le> EAP_MAX_AUTH_ROUNDS_SHORT \<and> success_ok sm)"

lemma eap_keeps_Success [eap_simps]:
  "es_eapSuccess (SM_ENTRY_EAP g st sm) = es_eapSuccess sm"
  "es_eapSuccess (case eap_sm_parseEapReq x req sm of None \<Rightarrow> sm | Some sm' \<Rightarrow> sm') = es_eapSuccess sm"
  "es_eapSuccess (snd (eap_sm_buildIdentity x i enc sm)) = es_eapSuccess sm"
  using parse_received_frame [of sm x req]
  by (auto simp: SM_ENTRY_EAP_def upd_eap_def eap_sm_buildIdentity_def eact_def Let_def
      elim: parse_frameE split: option.splits)

lemma eap_Enter_Success [eap_simps]:
  "es_eapSuccess (sm_EAP_DISABLED_Enter x g sm) = es_eapSuccess sm"
  "es_eapSuccess (sm_EAP_IDLE_Enter g sm) = es_eapSuccess sm"
  "es_eapSuccess (sm_EAP_RECEIVED_Enter x g sm) = es_eapSuccess sm"
  "es_eapSuccess (sm_EAP_GET_METHOD_Enter x g sm) = es_eapSuccess sm"
  "es_eapSuccess (sm_EAP_METHOD_Enter x g sm) = es_eapSuccess sm"
  "es_eapSuccess (sm_EAP_SEND_RESPONSE_Enter x g sm) = es_eapSuccess sm"
  "es_eapSuccess (sm_EAP_DISCARD_Enter g sm) = es_eapSuccess sm"
  "es_eapSuccess (sm_EAP_IDENTITY_Enter x g sm) = es_eapSuccess sm"
  "es_eapSuccess (sm_EAP_NOTIFICATION_Enter x g sm) = es_eapSuccess sm"
  "es_eapSuccess (sm_EAP_RETRANSMIT_Enter x g sm) = es_eapSuccess sm"
  "es_eapSuccess (sm_EAP_SUCCESS_Enter g sm) = True"
  "es_eapSuccess (sm_EAP_FAILURE_Enter g sm) = es_eapSuccess sm"
  "es_eapSuccess (sm_EAP_INITIALIZE_Enter x g sm) = False"
  using method_frame_fields [OF sm_EAP_GET_METHOD_Enter_mf] method_frame_fields [OF sm_EAP_METHOD_Enter_mf]
  by (simp_all add: eap_enter_defs sm_EAP_INITIALIZE_Enter_def eap_sm_free_key_def Let_def eap_simps split_beta split: option.split)

lemma if_cases: "(b \<Longrightarrow> P s) \<Longrightarrow> (\<not> b \<Longrightarrow> P t) \<Longrightarrow> P (if b then s else t)"
  by simp

lemma step_received_success:
  "es_eapSuccess (eap_peer_sm_step_received x sm) \<longrightarrow>
     es_eapSuccess sm \<or> eap_peer_sm_step_received x sm = sm_EAP_SUCCESS_Enter False sm \<and> success_ok sm"
  unfolding eap_peer_sm_step_received_def Let_def
  by (rule if_cases [where P = "\<lambda>t. es_eapSuccess t \<longrightarrow> es_eapSuccess sm \<or> t = sm_EAP_SUCCESS_Enter False sm \<and> success_ok sm"];
      (simp add: success_ok_def eap_simps; fail)?)+

lemma step_idle_success:
  "es_eapSuccess (eap_peer_sm_step_idle x sm) \<longrightarrow>
     es_eapSuccess sm \<or> eap_peer_sm_step_idle x sm = sm_EAP_SUCCESS_Enter False sm \<and> success_ok sm"
  unfolding eap_peer_sm_step_idle_def Let_def
  by (rule if_cases [where P = "\<lambda>t. es_eapSuccess t \<longrightarrow> es_eapSuccess sm \<or> t = sm_EAP_SUCCESS_Enter False sm \<and> success_ok sm"];
      (auto simp add: success_ok_def eap_simps; fail)?)+

lemma step_local_success:
  "es_eapSuccess (eap_peer_sm_step_local x sm) \<longrightarrow>
     es_eapSuccess sm \<or> eap_peer_sm_step_local x sm = sm_EAP_SUCCESS_Enter False sm \<and> success_ok sm"
  using step_received_success [of x sm] step_idle_success [of x sm]
  unfolding eap_peer_sm_step_local_def Let_def
  by (cases "ea_state (es_eap sm)") (simp_all add: eap_simps)

lemma SUCCESS_Enter_ok:
  "success_ok (sm_EAP_SUCCESS_Enter g sm) = success_ok sm"
  "ea_num_rounds (es_eap (sm_EAP_SUCCESS_Enter g sm)) = ea_num_rounds (es_eap sm)"
  "ea_num_rounds_short (es_eap (sm_EAP_SUCCESS_Enter g sm)) = ea_num_rounds_short (es_eap sm)"
  by (simp_all add: success_ok_def sm_EAP_SUCCESS_Enter_def SM_ENTRY_EAP_def upd_eap_def
      eap_peer_sm_allow_canned_def)

lemma sm_EAP_Step_success_inv:
  assumes "success_inv sm"
  shows "success_inv (sm_EAP_Step x sm)"
proof (cases "es_eapSuccess sm")
  case True
  with assms have "sm_EAP_Step x sm = sm"
    by (auto simp: success_inv_def sm_EAP_Step_def eap_peer_sm_step_local_def)
  with assms show ?thesis by simp
next
  case False
  then show ?thesis
    using step_local_success [of x sm]
    by (auto simp: success_inv_def sm_EAP_Step_def eap_simps SUCCESS_Enter_ok Let_def)
qed


text \<open>A concrete network: three methods are built in, and the method in use succeeds on
  its first message.\<close>

definition eap_env0 :: eapol_env where
  "eap_env0 = \<lparr> x_set_wep_key = \<lambda>_. 0, x_confirm_auth = \<lambda>_. 0, x_eloop = \<lambda>_. 0,
     x_alloc = \<lambda>_ _. True, x_preauth = False, x_has_cb = True,
     x_methods = [(0, 4), (0, 13), (0, 25)], x_has_reauth_data = \<lambda>_. False, x_init = \<lambda>_. True,
     x_process = \<lambda>_ r. (r\<lparr> r_methodState := METHOD_DONE, r_decision := DECISION_UNCOND_SUCC \<rparr>,
                        Some [2, 7, 0, 6, 4, 1]),
     x_method_vars = \<lambda>_ v. v, x_isKeyAvailable = \<lambda>_. True, x_getKey = \<lambda>_. Some (replicate 4 7),
     x_getSessionId = \<lambda>_. None, x_get_identity = \<lambda>_. None, x_pending_pin = \<lambda>_. False,
     x_sha1 = \<lambda>d. Some (take 20 (d @ zeros 20)), x_keydata_uninit = \<lambda>_. zeros 64 \<rparr>"

text \<open>The peer waits, and the server sends \<open>d\<close>.\<close>

definition eap_waiting :: "bytes \<Rightarrow> EapDecision \<Rightarrow> eapol_sm" where
  "eap_waiting d dec = eapol_sm_zero\<lparr> es_portEnabled := True, es_idleWhile := 60, es_eapReq := True,
     es_eapReqData := Some d,
     es_eap := eap_sm_zero\<lparr> ea_state := EAP_IDLE, ea_lastId := 7,
       ea_lastRespData := Some [2, 7, 0, 6, 4, 9], ea_decision := dec \<rparr> \<rparr>"

lemma eap_waiting_success:
  "es_eapSuccess (snd (eap_peer_sm_step eap_env0 (eap_waiting [3, 7, 0, 4] DECISION_COND_SUCC)))"
  by code_simp


end
