(* ===== verification/EAP_Safety.thy ===== *)
theory EAP_Safety
  imports EAP_Step
begin

text \<open>
  What the EAP peer does with the messages it gets: a duplicate is answered from
  memory, the number of messages is limited, a Nak proposes what the configuration
  allows, and parsing stays inside the message.
\<close>

section \<open>Retransmission\<close>

lemma parse_request:
  assumes "length r \<ge> 5" "r ! 0 = EAP_CODE_REQUEST" "WPA_GET_BE16 r 2 = Some l"
    "5 \<le> unat l" "unat l \<le> length r"
    and "ea_workaround (es_eap sm) \<Longrightarrow> x_sha1 x (take (unat l) r) = Some h"
  shows "\<exists>sm'. eap_sm_parseEapReq x (Some r) sm = Some sm' \<and> ea_rxReq (es_eap sm') \<and>
    \<not> ea_rxSuccess (es_eap sm') \<and> \<not> ea_rxFailure (es_eap sm') \<and>
    ea_reqId (es_eap sm') = uint (r ! 1) \<and>
    (ea_workaround (es_eap sm) \<longrightarrow> ea_req_sha1 (es_eap sm') = h)"
  using assms
  by (simp add: eap_sm_parseEapReq_def eap_sm_parse_code_def rd_simps rd8_first upd_eap_def Let_def)

text \<open>After the response only the timeout of the authentication is left to check.\<close>

definition answered :: "eapol_sm \<Rightarrow> bytes \<Rightarrow> eapol_sm \<Rightarrow> bool" where
  "answered s0 resp sm \<longleftrightarrow>
     ea_state (es_eap sm) \<in> {EAP_SEND_RESPONSE, EAP_IDLE, EAP_SUCCESS, EAP_FAILURE} \<and>
     \<not> es_eapReq sm \<and> \<not> es_eapRestart sm \<and> es_portEnabled sm \<and> \<not> ea_force_disabled (es_eap sm) \<and>
     es_eapResp sm \<and> ea_eapRespData (es_eap sm) = Some resp \<and> ea_lastRespData (es_eap sm) = Some resp \<and>
     (\<exists>as. es_trace sm = as @ es_trace s0 \<and> set as \<subseteq> {Register_tick, Cancel_tick})"

lemma answered_step:
  assumes "answered s0 resp sm"
  shows "answered s0 resp (sm_EAP_Step x sm)"
proof -
  have idle: "answered s0 resp (eap_peer_sm_step_idle x sm)"
    using assms unfolding eap_peer_sm_step_idle_def Let_def
    by (simp add: answered_def sm_EAP_SUCCESS_Enter_def sm_EAP_FAILURE_Enter_def SM_ENTRY_EAP_def upd_eap_def)
  have "answered s0 resp (eap_peer_sm_step_local x sm)"
  proof (cases "ea_state (es_eap sm)")
    case EAP_IDLE then show ?thesis using idle by (simp add: eap_peer_sm_step_local_def)
  qed (use assms in \<open>simp_all add: eap_peer_sm_step_local_def answered_def sm_EAP_IDLE_Enter_def
        SM_ENTRY_EAP_def upd_eap_def\<close>)
  moreover have "answered s0 resp (sm_EAP_FAILURE_Enter True (upd_eap f sm))"
    if "f \<in> {\<lambda>e. e\<lparr> ea_num_rounds := ea_num_rounds e + 1 \<rparr>,
            \<lambda>e. e\<lparr> ea_num_rounds_short := ea_num_rounds_short e + 1 \<rparr>}" for f
    using assms that by (auto simp add: answered_def sm_EAP_FAILURE_Enter_def SM_ENTRY_EAP_def upd_eap_def)
  ultimately show ?thesis
    using assms unfolding sm_EAP_Step_def Let_def by (auto simp: answered_def)
qed

lemma answered_loop:
  assumes "answered s0 resp sm"
  shows "answered s0 resp (snd (eap_peer_sm_loop x res sm))"
  by (rule eap_peer_sm_loop_invariant [where P = "answered s0 resp"])
    (rule answered_step, assumption, simp add: answered_def upd_eap_def, rule assms)

lemma eap_loop_changed:
  assumes "sm_EAP_Step x (upd_eap (\<lambda>e. e\<lparr> ea_changed := False \<rparr>) sm) = t" "ea_changed (es_eap t)"
  shows "eap_peer_sm_loop x res sm = eap_peer_sm_loop x True t"
  using assms by (subst eap_peer_sm_loop.simps) simp

definition running :: "eapol_sm \<Rightarrow> bool" where
  "running sm \<longleftrightarrow> es_portEnabled sm \<and> \<not> es_eapRestart sm \<and> \<not> ea_force_disabled (es_eap sm) \<and>
     ea_num_rounds (es_eap sm) \<le> EAP_MAX_AUTH_ROUNDS \<and>
     ea_num_rounds_short (es_eap sm) \<le> EAP_MAX_AUTH_ROUNDS_SHORT"

lemma running_Step: "running sm \<Longrightarrow> sm_EAP_Step x sm = eap_peer_sm_step_local x sm"
  by (simp add: sm_EAP_Step_def running_def)

lemma running_unmark: "running (upd_eap (\<lambda>e. e\<lparr> ea_changed := b \<rparr>) sm) = running sm"
  by (simp add: running_def upd_eap_def)

lemma eap_retransmit_answers:
  assumes "running sm" "ea_state (es_eap sm) = EAP_RETRANSMIT" "ea_eapRespData (es_eap sm) = Some resp"
    "x_alloc x Alloc_lastResp (es_trace sm)" "es_trace sm = es_trace s0"
  shows "answered s0 resp (snd (eap_peer_sm_loop x res sm))"
proof -
  let ?t = "sm_EAP_SEND_RESPONSE_Enter x False (upd_eap (\<lambda>e. e\<lparr> ea_changed := False \<rparr>) sm)"
  have "sm_EAP_Step x (upd_eap (\<lambda>e. e\<lparr> ea_changed := False \<rparr>) sm) = ?t"
    using assms by (simp add: running_Step running_unmark eap_peer_sm_step_local_def eap_simps)
  moreover have "answered s0 resp ?t \<and> ea_changed (es_eap ?t)"
    using assms
    by (simp add: answered_def running_def sm_EAP_SEND_RESPONSE_Enter_def SM_ENTRY_EAP_def upd_eap_def
        eapol_sm_set_idleWhile_def eapol_enable_timer_tick_def eact_def Let_def)
  ultimately show ?thesis by (simp add: eap_loop_changed answered_loop)
qed

lemma sm_EAP_RECEIVED_Enter_request:
  assumes "es_eapReqData sm = Some r" "r ! 0 = EAP_CODE_REQUEST" "WPA_GET_BE16 r 2 = Some l"
    "5 \<le> unat l" "unat l \<le> length r"
    and sha: "ea_workaround (es_eap sm) \<Longrightarrow> x_sha1 x (take (unat l) r) = Some h"
  obtains p where "parse_frame (SM_ENTRY_EAP False EAP_RECEIVED sm) p"
    "sm_EAP_RECEIVED_Enter x False sm = upd_eap (\<lambda>e. e\<lparr> ea_num_rounds := ea_num_rounds e + 1,
      ea_num_rounds_short := (if length r < 20 then ea_num_rounds_short e + 1 else 0) \<rparr>) p"
    "ea_rxReq (es_eap p)" "\<not> ea_rxSuccess (es_eap p)" "\<not> ea_rxFailure (es_eap p)"
    "ea_reqId (es_eap p) = uint (r ! 1)"
    "ea_workaround (es_eap sm) \<longrightarrow> ea_req_sha1 (es_eap p) = h"
proof -
  let ?s = "SM_ENTRY_EAP False EAP_RECEIVED sm"
  have w: "ea_workaround (es_eap ?s) = ea_workaround (es_eap sm)" "es_eapReqData ?s = Some r"
    using assms(1) by (simp_all add: SM_ENTRY_EAP_def upd_eap_def)
  have "5 \<le> length r" using assms by linarith
  from parse_request [OF this assms(2-5), of ?s x h] sha w obtain p where
    p: "eap_sm_parseEapReq x (Some r) ?s = Some p" "ea_rxReq (es_eap p)" "\<not> ea_rxSuccess (es_eap p)"
      "\<not> ea_rxFailure (es_eap p)" "ea_reqId (es_eap p) = uint (r ! 1)"
      "ea_workaround (es_eap sm) \<longrightarrow> ea_req_sha1 (es_eap p) = h" by auto
  with eap_sm_parseEapReq_frame [of ?s x "Some r"] have "parse_frame ?s p" by simp
  from that [OF this _ p(2-6)] show thesis
    using p(1) w(2) by (simp add: sm_EAP_RECEIVED_Enter_def Let_def)
qed

lemma step_received_duplicate:
  assumes "ea_rxReq (es_eap sm)" "\<not> ea_rxSuccess (es_eap sm)" "\<not> ea_rxFailure (es_eap sm)"
    "ea_reqId (es_eap sm) = ea_lastId (es_eap sm)"
    "ea_workaround (es_eap sm) \<Longrightarrow> ea_req_sha1 (es_eap sm) = ea_last_sha1 (es_eap sm)"
  shows "eap_peer_sm_step_received x sm = sm_EAP_RETRANSMIT_Enter x False sm"
proof -
  have "eap_peer_req_is_duplicate sm"
    using assms by (auto simp: eap_peer_req_is_duplicate_def Let_def)
  with assms(1-3) show ?thesis by (simp add: eap_peer_sm_step_received_def Let_def)
qed

text \<open>A Request that repeats the identifier of the last one (and, with the workarounds
  enabled, its octets) is answered with the stored response; no method runs.\<close>

theorem eap_duplicate_retransmitted:
  assumes "ea_state (es_eap sm) = EAP_IDLE" "es_eapReq sm" "es_portEnabled sm" "\<not> es_eapRestart sm"
    "\<not> ea_force_disabled (es_eap sm)" "ea_num_rounds (es_eap sm) < EAP_MAX_AUTH_ROUNDS"
    "ea_num_rounds_short (es_eap sm) < EAP_MAX_AUTH_ROUNDS_SHORT"
    and msg: "es_eapReqData sm = Some r" "r ! 0 = EAP_CODE_REQUEST" "WPA_GET_BE16 r 2 = Some l"
      "5 \<le> unat l" "unat l \<le> length r"
    and dup: "uint (r ! 1) = ea_lastId (es_eap sm)"
      "ea_workaround (es_eap sm) \<Longrightarrow> x_sha1 x (take (unat l) r) = Some (ea_last_sha1 (es_eap sm))"
    and resp: "ea_lastRespData (es_eap sm) = Some resp" "\<And>site. x_alloc x site (es_trace sm)"
    and sm': "sm' = snd (eap_peer_sm_step x sm)"
  shows "es_eapResp sm' \<and> ea_eapRespData (es_eap sm') = Some resp \<and>
    (\<exists>as. es_trace sm' = as @ es_trace sm \<and> set as \<subseteq> {Register_tick, Cancel_tick})"
proof -
  let ?clear = "upd_eap (\<lambda>e. e\<lparr> ea_changed := False \<rparr>)"
  define s1 where "s1 = sm_EAP_RECEIVED_Enter x False (?clear sm)"
  define s2 where "s2 = sm_EAP_RETRANSMIT_Enter x False (?clear s1)"
  obtain p where p: "parse_frame (SM_ENTRY_EAP False EAP_RECEIVED (?clear sm)) p"
    and s1: "s1 = upd_eap (\<lambda>e. e\<lparr> ea_num_rounds := ea_num_rounds e + 1,
      ea_num_rounds_short := (if length r < 20 then ea_num_rounds_short e + 1 else 0) \<rparr>) p"
    and rx: "ea_rxReq (es_eap p)" "\<not> ea_rxSuccess (es_eap p)" "\<not> ea_rxFailure (es_eap p)"
      "ea_reqId (es_eap p) = uint (r ! 1)"
      "ea_workaround (es_eap sm) \<longrightarrow> ea_req_sha1 (es_eap p) = ea_last_sha1 (es_eap sm)"
    unfolding s1_def
    by (rule sm_EAP_RECEIVED_Enter_request [OF _ msg(2-5), of "?clear sm" x "ea_last_sha1 (es_eap sm)"])
      (use msg dup in \<open>simp_all add: upd_eap_def\<close>)
  from p have keep: "ea_lastId (es_eap p) = ea_lastId (es_eap sm)"
    "ea_last_sha1 (es_eap p) = ea_last_sha1 (es_eap sm)"
    "ea_workaround (es_eap p) = ea_workaround (es_eap sm)" "es_trace p = es_trace sm"
    "ea_lastRespData (es_eap p) = ea_lastRespData (es_eap sm)" "ea_state (es_eap p) = EAP_RECEIVED"
    "ea_changed (es_eap p)"
    by (auto elim!: parse_frameE simp: SM_ENTRY_EAP_def upd_eap_def)
  have run: "running (?clear sm)" using assms by (simp add: running_def upd_eap_def)
  have run1: "running s1"
    using p assms by (auto elim!: parse_frameE simp: s1 running_def upd_eap_def SM_ENTRY_EAP_def)
  have 1: "eap_peer_sm_loop x False sm = eap_peer_sm_loop x True s1"
    by (rule eap_loop_changed)
      (use assms run keep in \<open>simp_all add: running_Step eap_peer_sm_step_local_def
        eap_peer_sm_step_idle_def s1_def [symmetric] eap_simps, simp add: s1 upd_eap_def\<close>)
  have "sm_EAP_Step x (?clear s1) = s2"
    unfolding s2_def using run1 rx keep dup
    by (subst step_received_duplicate [symmetric])
      (simp_all add: running_Step running_unmark eap_peer_sm_step_local_def s1 eap_simps)
  then have 2: "eap_peer_sm_loop x True s1 = eap_peer_sm_loop x True s2"
    by (rule eap_loop_changed) (simp add: s2_def sm_EAP_RETRANSMIT_Enter_def Let_def eap_simps)
  have "answered sm resp (snd (eap_peer_sm_loop x True s2))"
    by (rule eap_retransmit_answers)
      (use run1 keep resp in \<open>simp_all add: s2_def s1 sm_EAP_RETRANSMIT_Enter_def SM_ENTRY_EAP_def
        upd_eap_def running_def\<close>)
  with 1 2 show ?thesis unfolding sm' eap_peer_sm_step_def by (simp add: answered_def)
qed

theorem eap_duplicate_retransmitted_witness:
  "ea_eapRespData (es_eap (snd (eap_peer_sm_step eap_env0 (eap_waiting [1, 7, 0, 5, 4] DECISION_FAIL))))
     = Some [2, 7, 0, 6, 4, 9]"
proof -
  let ?sm = "eap_waiting [1, 7, 0, 5, 4] DECISION_FAIL"
  have s: "es_eap ?sm = eap_sm_zero\<lparr> ea_state := EAP_IDLE, ea_lastId := 7,
       ea_lastRespData := Some [2, 7, 0, 6, 4, 9], ea_decision := DECISION_FAIL \<rparr>"
    "es_eapReq ?sm" "es_portEnabled ?sm" "\<not> es_eapRestart ?sm" "es_eapReqData ?sm = Some [1, 7, 0, 5, 4]"
    by (simp_all add: eap_waiting_def eapol_sm_zero_def)
  have l: "WPA_GET_BE16 [1, 7, 0, 5, 4] 2 = Some 5" by code_simp
  show ?thesis
    using eap_duplicate_retransmitted [of ?sm "[1, 7, 0, 5, 4]" 5 eap_env0 "[2, 7, 0, 6, 4, 9]", OF _ _ _ _ _ _ _ _ _ l]
    by (simp add: s eap_sm_zero_def eap_env0_def)
qed


section \<open>The limit on the number of messages\<close>

definition eap_over :: "eapol_sm \<Rightarrow> eapol_sm \<Rightarrow> bool" where
  "eap_over s0 s \<longleftrightarrow> es_portEnabled s \<and> \<not> es_eapRestart s \<and> \<not> ea_force_disabled (es_eap s) \<and>
    (ea_num_rounds (es_eap s) > EAP_MAX_AUTH_ROUNDS \<or>
     ea_num_rounds_short (es_eap s) > EAP_MAX_AUTH_ROUNDS_SHORT) \<and>
    es_trace s = es_trace s0 \<and> es_eapResp s = es_eapResp s0 \<and>
    ea_eapRespData (es_eap s) = ea_eapRespData (es_eap s0) \<and>
    (ea_num_rounds (es_eap s0) = EAP_MAX_AUTH_ROUNDS + 1 \<longrightarrow>
       ea_num_rounds (es_eap s) = EAP_MAX_AUTH_ROUNDS + 1 \<or>
       ea_num_rounds (es_eap s) = EAP_MAX_AUTH_ROUNDS + 2 \<and> ea_state (es_eap s) = EAP_FAILURE \<and>
       es_eapFail s)"

lemma eap_over_step:
  assumes "eap_over s0 s"
  shows "eap_over s0 (eap_one_step x s)"
    and "ea_num_rounds (es_eap (eap_one_step x s)) \<noteq> EAP_MAX_AUTH_ROUNDS + 1"
  using assms unfolding eap_one_step_def sm_EAP_Step_def Let_def
  by (auto simp: eap_over_def sm_EAP_FAILURE_Enter_def SM_ENTRY_EAP_def upd_eap_def)




section \<open>Nak\<close>

lemma ucast_byte_inj:
  assumes "(ucast (a :: u32) :: byte) = ucast b" "unat a < 256" "unat b < 256"
  shows "a = b"
proof -
  have "unat (ucast a :: byte) = unat a" "unat (ucast b :: byte) = unat b"
    using assms(2,3) by (simp_all add: unsigned_ucast_eq take_bit_nat_eq_self unsigned_take_bit_eq)
  with assms(1) show ?thesis by (metis unsigned_word_eqI)
qed

lemma length_eap_update_len [simp]: "length (eap_update_len m) = length m"
  by (simp add: eap_update_len_def)

lemma nak_types_length: "length (nak_types sm f ms) \<le> length ms"
  by (induction ms arbitrary: f) (auto simp: le_SucI)

lemma nak_types_iff:
  assumes "b \<noteq> 254"
  shows "b \<in> set (nak_types sm f ms) \<longleftrightarrow>
     (\<exists>t. (EAP_VENDOR_IETF, t) \<in> set ms \<and> eap_allowed_method sm EAP_VENDOR_IETF t \<and>
       t \<noteq> ea_reqMethod (es_eap sm) \<and> b = ucast t)"
  using assms by (induction ms arbitrary: f) (auto split: if_splits)

definition nak_payload :: "eapol_env \<Rightarrow> eapol_sm \<Rightarrow> bytes" where
  "nak_payload x sm =
     (let ts = nak_types sm False (x_methods x) in if ts = [] then [0] else ts)"

lemma eap_update_len_5:
  "eap_update_len ([c, i, a, b, t] @ p) = [c, i] @ WPA_PUT_BE16 (of_nat (5 + length p)) @ [t] @ p"
  by (simp add: eap_update_len_def overwrite_def WPA_PUT_BE16_def)

lemma eap_sm_buildNak_legacy:
  assumes "ea_reqMethod (es_eap sm) \<noteq> EAP_TYPE_EXPANDED" "eap_sm_buildNak x sm i = Some m"
  shows "m = [EAP_CODE_RESPONSE, word_of_int i] @
    WPA_PUT_BE16 (of_nat (5 + length (nak_payload x sm))) @ [3] @ nak_payload x sm"
proof -
  obtain a b where ab: "WPA_PUT_BE16 (of_nat (5 + (4 + 1 + length (x_methods x) + 1))) = [a, b]"
    by (simp add: WPA_PUT_BE16_def)
  show ?thesis
    using assms ab eap_update_len_5 [of "EAP_CODE_RESPONSE" "word_of_int i" a b 3]
    by (auto simp: eap_sm_buildNak_def eap_msg_alloc_def nak_payload_def Let_def split: if_splits)
qed

lemma eap_hdr_validate_nak:
  assumes "unat v = 5 + length p"
  shows "eap_hdr_validate EAP_VENDOR_IETF EAP_TYPE_NAK (Some ([c, i] @ WPA_PUT_BE16 v @ [3] @ p)) =
    Some (Some (5, length p))"
  using assms by (simp add: eap_hdr_validate_def eap_hdr_len_valid_def WPA_PUT_BE16_def
      WPA_GET_BE16_def rd_simps)

text \<open>The legacy Nak is a well-formed EAP-Response that fits the buffer it is
  written to; it proposes exactly the methods that are built in and allowed by the
  configuration (254 standing for the expanded types, 0 for none), and never the refused
  method.\<close>

theorem eap_nak_proposes_allowed:
  assumes "eap_sm_buildNak x sm i = Some m" "length (x_methods x) < 50000"
    and "ea_reqMethod (es_eap sm) \<notin> {EAP_TYPE_NONE, EAP_TYPE_EXPANDED}"
    and "unat (ea_reqMethod (es_eap sm)) < 256"
    and "\<And>t. (EAP_VENDOR_IETF, t) \<in> set (x_methods x) \<Longrightarrow> unat t < 256"
  shows "eap_hdr_validate EAP_VENDOR_IETF EAP_TYPE_NAK (Some m) = Some (Some (5, length m - 5)) \<and>
    length m \<le> 5 + (4 + 1 + length (x_methods x) + 1) \<and>
    (\<forall>b. b \<noteq> 0 \<longrightarrow> b \<noteq> 254 \<longrightarrow> (b \<in> set (drop 5 m) \<longleftrightarrow>
       (\<exists>t. (EAP_VENDOR_IETF, t) \<in> set (x_methods x) \<and> eap_allowed_method sm EAP_VENDOR_IETF t \<and>
         t \<noteq> ea_reqMethod (es_eap sm) \<and> b = ucast t))) \<and>
    ucast (ea_reqMethod (es_eap sm)) \<notin> set (drop 5 m)"
proof -
  let ?p = "nak_payload x sm"
  have m: "m = [EAP_CODE_RESPONSE, word_of_int i] @ WPA_PUT_BE16 (of_nat (5 + length ?p)) @ [3] @ ?p"
    using eap_sm_buildNak_legacy [OF _ assms(1)] assms(3) by simp
  have len: "length ?p \<le> 1 + length (x_methods x)"
    using nak_types_length [of sm False "x_methods x"] by (simp add: nak_payload_def Let_def)
  have v: "unat (of_nat (5 + length ?p) :: u16) = 5 + length ?p"
    by (rule unat_u16) (use len assms(2) in simp)
  have p: "drop 5 m = ?p" "length m = 5 + length ?p"
    unfolding m by (simp_all add: WPA_PUT_BE16_def)
  have iff: "b \<in> set ?p \<longleftrightarrow> (\<exists>t. (EAP_VENDOR_IETF, t) \<in> set (x_methods x) \<and>
      eap_allowed_method sm EAP_VENDOR_IETF t \<and> t \<noteq> ea_reqMethod (es_eap sm) \<and> b = ucast t)"
    if "b \<noteq> 0" "b \<noteq> 254" for b
    using that nak_types_iff [of b sm False "x_methods x"] 
    by (cases "nak_types sm False (x_methods x) = []") (auto simp: nak_payload_def)
  have req: "ucast (ea_reqMethod (es_eap sm)) \<notin> set ?p"
  proof
    assume "ucast (ea_reqMethod (es_eap sm)) \<in> set ?p"
    moreover have "(ucast (ea_reqMethod (es_eap sm)) :: byte) \<noteq> 0"
      "(ucast (ea_reqMethod (es_eap sm)) :: byte) \<noteq> 254"
      using assms(3,4) ucast_byte_inj [of "ea_reqMethod (es_eap sm)" 0]
        ucast_byte_inj [of "ea_reqMethod (es_eap sm)" 254] by auto
    ultimately show False
      using iff assms(4,5) ucast_byte_inj [of "ea_reqMethod (es_eap sm)"] by metis
  qed
  show ?thesis
    using eap_hdr_validate_nak [OF v, of EAP_CODE_RESPONSE "word_of_int i"] m p len iff req
    by simp
qed

theorem eap_nak_proposes_allowed_witness:
  "4 \<in> set (drop 5 (the (eap_sm_buildNak eap_env0
      (upd_eap (\<lambda>e. e\<lparr> ea_reqMethod := 13 \<rparr>) (eap_waiting [1, 9, 0, 6, 13, 32] DECISION_FAIL)) 9)))"
proof -
  let ?sm = "upd_eap (\<lambda>e. e\<lparr> ea_reqMethod := 13 \<rparr>) (eap_waiting [1, 9, 0, 6, 13, 32] DECISION_FAIL)"
  have r: "ea_reqMethod (es_eap ?sm) = 13" by (simp add: upd_eap_def)
  have a: "eap_allowed_method ?sm 0 4"
    by (simp add: eap_allowed_method_def eap_config_allowed_method_def eap_waiting_def
        eapol_sm_zero_def upd_eap_def)
  obtain m where m: "eap_sm_buildNak eap_env0 ?sm 9 = Some m"
    using r by (simp add: eap_sm_buildNak_def eap_env0_def Let_def)
  have "(\<forall>b. b \<noteq> 0 \<longrightarrow> b \<noteq> 254 \<longrightarrow> (b \<in> set (drop 5 m) \<longleftrightarrow>
       (\<exists>t. (EAP_VENDOR_IETF, t) \<in> set (x_methods eap_env0) \<and> eap_allowed_method ?sm EAP_VENDOR_IETF t \<and>
         t \<noteq> ea_reqMethod (es_eap ?sm) \<and> b = ucast t)))"
    using eap_nak_proposes_allowed [OF m] r by (simp add: eap_env0_def) force
  then show ?thesis using m r a by (auto simp: eap_env0_def)
qed


section \<open>Parsing\<close>

text \<open>The parser of EAP messages reads only octets of the message, and it reports a
  Request, Success or Failure only for a message whose header carries that code and whose
  Length field does not exceed what was received; the type of a Request is inside that
  length.\<close>

theorem eap_parse_in_bounds:
  "\<exists>sm'. eap_sm_parseEapReq x req sm = Some sm' \<and>
     (ea_rxReq (es_eap sm') \<or> ea_rxSuccess (es_eap sm') \<or> ea_rxFailure (es_eap sm') \<longrightarrow>
       (\<exists>r l. req = Some r \<and> WPA_GET_BE16 r 2 = Some l \<and> unat l \<le> length r \<and> 4 \<le> length r \<and>
         ea_reqId (es_eap sm') = uint (r ! 1) \<and>
         (ea_rxReq (es_eap sm') \<longleftrightarrow> r ! 0 = EAP_CODE_REQUEST \<and> 5 \<le> unat l) \<and>
         (ea_rxReq (es_eap sm') \<longrightarrow> ea_reqMethod (es_eap sm') = ucast (r ! 4)) \<and>
         (ea_rxSuccess (es_eap sm') \<longleftrightarrow> r ! 0 = EAP_CODE_SUCCESS) \<and>
         (ea_rxFailure (es_eap sm') \<longleftrightarrow> r ! 0 = EAP_CODE_FAILURE)))"
proof (cases req)
  case None
  then show ?thesis by (simp add: eap_sm_parseEapReq_def upd_eap_def)
next
  case (Some r)
  show ?thesis
  proof (cases "4 \<le> length r")
    case False
    then show ?thesis using Some by (simp add: eap_sm_parseEapReq_def upd_eap_def)
  next
    case True
    then obtain l where l: "WPA_GET_BE16 r 2 = Some l" by (simp add: rd_simps)
    show ?thesis
    proof (cases "unat l \<le> length r")
      case False
      then show ?thesis using Some True l by (simp add: eap_sm_parseEapReq_def upd_eap_def)
    next
      case le: True
      consider (req) "r ! 0 = EAP_CODE_REQUEST" | (resp) "r ! 0 = EAP_CODE_RESPONSE"
        | (other) "r ! 0 \<notin> {EAP_CODE_REQUEST, EAP_CODE_RESPONSE}" by blast
      then show ?thesis
        by cases (use Some True l le in \<open>auto simp: eap_sm_parseEapReq_def eap_sm_parse_code_def rd_simps rd8_first
             upd_eap_def eap_peer_initiate_def Let_def split: option.splits\<close>)
    qed
  qed
qed

theorem eap_parse_in_bounds_witness:
  "\<exists>sm'. eap_sm_parseEapReq eap_env0 (Some [1, 9, 0, 5, 4]) eapol_sm_zero = Some sm' \<and>
     ea_reqId (es_eap sm') = 9 \<and> ea_reqMethod (es_eap sm') = 4"
proof -
  have l: "WPA_GET_BE16 [1, 9, 0, 5, 4] 2 = Some 5" by code_simp
  have "\<not> ea_workaround (es_eap eapol_sm_zero)" by (simp add: eapol_sm_zero_def eap_sm_zero_def)
  with parse_request [of "[1, 9, 0, 5, 4]", OF _ _ l] obtain sm' where
    "eap_sm_parseEapReq eap_env0 (Some [1, 9, 0, 5, 4]) eapol_sm_zero = Some sm'" "ea_rxReq (es_eap sm')"
    by fastforce
  with eap_parse_in_bounds [of eap_env0 "Some [1, 9, 0, 5, 4]" eapol_sm_zero] show ?thesis by auto
qed


end
