(* ===== verification/EAPOL_Supp.thy ===== *)
theory EAPOL_Supp
  imports EAP_Step
begin

text \<open>
  The EAPOL supplicant of IEEE 802.1X-2004, \<^verbatim>\<open>src/eapol_supp/eapol_supp_sm.c\<close>: the
  state machines SUPP_PAE (port access), KEY_RX (dynamic WEP keys) and SUPP_BE (back
  end), which run together with the EAP peer in \<^verbatim>\<open>eapol_sm_step\<close>; the processing of
  received frames and of IEEE 802.1X EAPOL-Key frames; the notifications from the rest
  of the supplicant, and the port timers.
\<close>

abbreviation (input) IEEE802_1X_TYPE_EAP_PACKET :: byte where "IEEE802_1X_TYPE_EAP_PACKET \<equiv> 0"
abbreviation (input) IEEE802_1X_TYPE_EAPOL_START :: byte where "IEEE802_1X_TYPE_EAPOL_START \<equiv> 1"
abbreviation (input) IEEE802_1X_TYPE_EAPOL_LOGOFF :: byte where "IEEE802_1X_TYPE_EAPOL_LOGOFF \<equiv> 2"
abbreviation (input) IEEE802_1X_TYPE_EAPOL_KEY :: byte where "IEEE802_1X_TYPE_EAPOL_KEY \<equiv> 3"
abbreviation (input) EAPOL_KEY_TYPE_RC4 :: byte where "EAPOL_KEY_TYPE_RC4 \<equiv> 1"
abbreviation (input) EAPOL_KEY_TYPE_RSN :: byte where "EAPOL_KEY_TYPE_RSN \<equiv> 2"
abbreviation (input) EAPOL_KEY_TYPE_WPA :: byte where "EAPOL_KEY_TYPE_WPA \<equiv> 254"
abbreviation (input) EAPOL_REQUIRE_KEY_UNICAST :: u32 where "EAPOL_REQUIRE_KEY_UNICAST \<equiv> 1"
abbreviation (input) EAPOL_REQUIRE_KEY_BROADCAST :: u32 where "EAPOL_REQUIRE_KEY_BROADCAST \<equiv> 2"
abbreviation (input) EAPOL_PEER_IS_WPS20_AP :: u32 where "EAPOL_PEER_IS_WPS20_AP \<equiv> 2"


section \<open>Ports and transmission\<close>

definition eapol_sm_set_port_authorized :: "eapol_sm \<Rightarrow> eapol_sm" where
  "eapol_sm_set_port_authorized sm =
     (let cb = (es_suppPortStatus sm \<noteq> Authorized \<or> es_force_authorized_update sm);
          sm = sm\<lparr> es_force_authorized_update := False, es_suppPortStatus := Authorized \<rparr>
      in if cb then eact (Port_cb True) sm else sm)"

definition eapol_sm_set_port_unauthorized :: "eapol_sm \<Rightarrow> eapol_sm" where
  "eapol_sm_set_port_unauthorized sm =
     (let cb = (es_suppPortStatus sm \<noteq> Unauthorized \<or> es_force_authorized_update sm);
          sm = sm\<lparr> es_force_authorized_update := False, es_suppPortStatus := Unauthorized \<rparr>
      in if cb then eact (Port_cb False) sm else sm)"

definition eapol_sm_txLogoff :: "eapol_sm \<Rightarrow> eapol_sm" where
  "eapol_sm_txLogoff sm =
     (let sm = eact (Eapol_send IEEE802_1X_TYPE_EAPOL_LOGOFF []) sm
      in sm\<lparr> es_dot1xSuppEapolLogoffFramesTx := es_dot1xSuppEapolLogoffFramesTx sm + 1,
             es_dot1xSuppEapolFramesTx := es_dot1xSuppEapolFramesTx sm + 1 \<rparr>)"

definition eapol_sm_txStart :: "eapol_sm \<Rightarrow> eapol_sm" where
  "eapol_sm_txStart sm =
     (let sm = eact (Eapol_send IEEE802_1X_TYPE_EAPOL_START []) sm
      in sm\<lparr> es_dot1xSuppEapolStartFramesTx := es_dot1xSuppEapolStartFramesTx sm + 1,
             es_dot1xSuppEapolFramesTx := es_dot1xSuppEapolFramesTx sm + 1 \<rparr>)"

definition eapol_sm_txSuppRsp :: "eapol_sm \<Rightarrow> eapol_sm" where
  "eapol_sm_txSuppRsp sm =
     (case eap_get_eapRespData sm of
        (None, sm) \<Rightarrow> sm
      | (Some resp, sm) \<Rightarrow>
          let sm = eact (Eapol_send IEEE802_1X_TYPE_EAP_PACKET resp) sm;
              sm = (if es_initial_req sm
                    then sm\<lparr> es_dot1xSuppEapolReqIdFramesRx := es_dot1xSuppEapolReqIdFramesRx sm + 1 \<rparr>
                    else sm\<lparr> es_dot1xSuppEapolReqFramesRx := es_dot1xSuppEapolReqFramesRx sm + 1 \<rparr>)
          in sm\<lparr> es_dot1xSuppEapolRespFramesTx := es_dot1xSuppEapolRespFramesTx sm + 1,
                 es_dot1xSuppEapolFramesTx := es_dot1xSuppEapolFramesTx sm + 1 \<rparr>)"

definition eapol_sm_abortSupp :: "eapol_sm \<Rightarrow> eapol_sm" where
  "eapol_sm_abortSupp sm = eap_sm_abort (sm\<lparr> es_last_rx_key := None, es_eapReqData := None \<rparr>)"

text \<open>The result of \<^verbatim>\<open>confirm_auth_cb\<close>, and the state with the call recorded.\<close>

definition eapol_sm_confirm_auth :: "eapol_env \<Rightarrow> eapol_sm \<Rightarrow> int \<times> eapol_sm" where
  "eapol_sm_confirm_auth x sm =
     (let sm = eact Confirm_auth_cb sm in (x_confirm_auth x (es_trace sm), sm))"


section \<open>IEEE 802.1X EAPOL-Key frames\<close>

text \<open>\<^verbatim>\<open>eapol_sm_get_key\<close>: the return value, and the key when it is 0.\<close>

definition eapol_sm_get_key :: "eapol_sm \<Rightarrow> nat \<Rightarrow> int \<times> bytes" where
  "eapol_sm_get_key sm len =
     (if \<not> eap_key_available sm then (-1, [])
      else case eap_get_eapKeyData sm of
             None \<Rightarrow> (-1, [])
           | Some eap_key \<Rightarrow>
               if len > length eap_key then (int (length eap_key), [])
               else (0, take len eap_key))"

text \<open>Signing key, encryption key and its length: 32 and 32 octets of the MSK, or 16 octets
  for both from LEAP.  The array \<^verbatim>\<open>keydata\<close> starts out with the octets \<open>uninit\<close>.\<close>

definition eapol_key_material ::
    "eapol_sm \<Rightarrow> bytes \<Rightarrow> (bytes \<times> bytes \<times> nat) option" where
  "eapol_key_material sm uninit =
     (let (res, key) = eapol_sm_get_key sm 64 in
      if res < 0 then None
      else if res = 16
      then let (res, key) = eapol_sm_get_key sm 16 in
           if res \<noteq> 0 then None
           else let keydata = overwrite 0 key (take 64 uninit);
                    encr_key = take 32 keydata;
                    sign_key = overwrite 0 (take 16 encr_key) (drop 32 keydata)
                in Some (take 16 sign_key, encr_key, 16)
      else if res \<noteq> 0 then None
      else Some (drop 32 key, take 32 key, 32))"

text \<open>The WEP key of the frame, from its key data or from the MSK.\<close>

definition eapol_datakey ::
    "bytes \<Rightarrow> bytes \<Rightarrow> nat \<Rightarrow> nat \<Rightarrow> nat \<Rightarrow> bytes option option" where
  "eapol_datakey f encr_key encr_key_len key_len rx_key_length =
     (if key_len > 32 \<or> rx_key_length > 32 then Some None
      else if key_len = rx_key_length
      then do {
        iv \<leftarrow> rd_slice f 15 16;
        data \<leftarrow> rd_slice f 48 key_len;
        Some (Some (rc4_skip (iv @ take encr_key_len encr_key) 0 data)) }
      else if key_len = 0 then Some (Some (take rx_key_length encr_key))
      else Some None)"

text \<open>The last part: the key goes to the driver, and the port becomes valid once all
  required keys are there.\<close>

definition eapol_set_wep_key :: "eapol_env \<Rightarrow> byte \<Rightarrow> bytes \<Rightarrow> eapol_sm \<Rightarrow> eapol_sm" where
  "eapol_set_wep_key x key_index datakey sm =
     (let unicast = (and key_index 0x80 \<noteq> 0);
          sm = eact (Set_wep_key unicast (unat (and key_index 3)) datakey) sm
      in if x_set_wep_key x (es_trace sm) < 0 then sm
         else
           let sm = (if unicast then sm\<lparr> es_unicast_key_received := True \<rparr>
                     else sm\<lparr> es_broadcast_key_received := True \<rparr>);
               required = ec_required_keys (es_conf sm)
           in if (es_unicast_key_received sm \<or> and required EAPOL_REQUIRE_KEY_UNICAST = 0) \<and>
                 (es_broadcast_key_received sm \<or> and required EAPOL_REQUIRE_KEY_BROADCAST = 0)
              then eact Eapol_done_cb (sm\<lparr> es_portValid := True \<rparr>)
              else sm)"

text \<open>The checks of the frame \<open>f\<close>, after its lengths: replay counter, then signature.  The
  source ignores the result of \<^verbatim>\<open>hmac_md5\<close>, which fills in the signature field that was
  cleared before.\<close>

definition eapol_key_verify ::
    "crypto \<Rightarrow> bytes \<Rightarrow> bytes \<Rightarrow> nat \<Rightarrow> eapol_sm \<Rightarrow> bool option" where
  "eapol_key_verify c f sign_key plen sm = do {
     replay_counter \<leftarrow> rd_slice f 7 8;
     if es_replay_counter_valid sm \<and>
        os_memcmp (take 8 (es_last_replay_counter sm)) replay_counter \<ge> 0
     then Some False
     else do {
       orig_key_sign \<leftarrow> rd_slice f 32 16;
       let sign = (case hmac_md5_vector c sign_key (take (4 + plen) (overwrite 32 (zeros 16) f)) of
                     None \<Rightarrow> zeros 16
                   | Some m \<Rightarrow> m)
       in Some (orig_key_sign = sign) } }"

definition eapol_key_accept ::
    "eapol_env \<Rightarrow> crypto \<Rightarrow> bytes \<Rightarrow> nat \<Rightarrow> nat \<Rightarrow> bytes \<times> bytes \<times> nat \<Rightarrow> eapol_sm \<Rightarrow> eapol_sm option" where
  "eapol_key_accept x c f plen rx_key_length km sm =
     (case km of (sign_key, encr_key, encr_key_len) \<Rightarrow> do {
        ok \<leftarrow> eapol_key_verify c f sign_key plen sm;
        if \<not> ok then Some sm
        else do {
          dk \<leftarrow> eapol_datakey f encr_key encr_key_len (plen - 44) rx_key_length;
          case dk of
            None \<Rightarrow> Some sm
          | Some datakey \<Rightarrow> do {
              replay_counter \<leftarrow> rd_slice f 7 8;
              key_index \<leftarrow> rd8 f 31;
              Some (eapol_set_wep_key x key_index datakey
                (sm\<lparr> es_replay_counter_valid := True,
                     es_last_replay_counter := overwrite 0 replay_counter (es_last_replay_counter sm) \<rparr>)) } } })"

definition eapol_sm_processKey :: "eapol_env \<Rightarrow> crypto \<Rightarrow> eapol_sm \<Rightarrow> eapol_sm option" where
  "eapol_sm_processKey x c sm =
     (case es_last_rx_key sm of
        None \<Rightarrow> Some sm
      | Some f \<Rightarrow>
          if \<not> ec_accept_802_1x_keys (es_conf sm) then Some sm
          else if length f < 4 + 44 then Some sm
          else do {
            l \<leftarrow> WPA_GET_BE16 f 2;
            let plen = unat l in
            if 4 + plen > length f \<or> plen < 44 then Some sm
            else do {
              rx_key_length \<leftarrow> WPA_GET_BE16 f 5;
              let sm = eap_notify_lower_layer_success sm in
              case eapol_key_material sm (x_keydata_uninit x (es_trace sm)) of
                None \<Rightarrow> Some sm
              | Some km \<Rightarrow> eapol_key_accept x c f plen (unat rx_key_length) km sm } })"


section \<open>Supplicant PAE state machine\<close>

definition SM_ENTRY_SUPP_PAE :: "bool \<Rightarrow> SUPP_PAE_state \<Rightarrow> eapol_sm \<Rightarrow> eapol_sm" where
  "SM_ENTRY_SUPP_PAE global st sm =
     sm\<lparr> es_changed := es_changed sm \<or> \<not> global \<or> es_pae sm \<noteq> st, es_pae := st \<rparr>"

definition sm_SUPP_PAE_LOGOFF_Enter :: "bool \<Rightarrow> eapol_sm \<Rightarrow> eapol_sm" where
  "sm_SUPP_PAE_LOGOFF_Enter global sm =
     eapol_sm_set_port_unauthorized
       ((eapol_sm_txLogoff (SM_ENTRY_SUPP_PAE global SUPP_PAE_LOGOFF sm))\<lparr> es_logoffSent := True \<rparr>)"

definition sm_SUPP_PAE_DISCONNECTED_Enter :: "bool \<Rightarrow> eapol_sm \<Rightarrow> eapol_sm" where
  "sm_SUPP_PAE_DISCONNECTED_Enter global sm =
     (eapol_sm_set_port_unauthorized
        ((SM_ENTRY_SUPP_PAE global SUPP_PAE_DISCONNECTED sm)
           \<lparr> es_sPortMode := Auto, es_startCount := 0, es_eapTriggerStart := False,
             es_logoffSent := False \<rparr>))
       \<lparr> es_suppAbort := True, es_unicast_key_received := False,
         es_broadcast_key_received := False, es_heldWhile := 0 \<rparr>"

definition sm_SUPP_PAE_CONNECTING_Enter :: "eapol_env \<Rightarrow> bool \<Rightarrow> eapol_sm \<Rightarrow> eapol_sm" where
  "sm_SUPP_PAE_CONNECTING_Enter x global sm =
     (let send_start = (es_pae sm = SUPP_PAE_CONNECTING \<or> es_pae sm = SUPP_PAE_HELD);
          sm = SM_ENTRY_SUPP_PAE global SUPP_PAE_CONNECTING sm;
          send_start = (send_start \<or> es_eapTriggerStart sm \<or> x_preauth x);
          sm = sm\<lparr> es_eapTriggerStart := False \<rparr>;
          wps = ec_wps (es_conf sm);
          sm = (if send_start
                then sm\<lparr> es_startWhen := es_startPeriod sm, es_startCount := es_startCount sm + 1 \<rparr>
                else if wps \<noteq> 0 \<and> and wps EAPOL_PEER_IS_WPS20_AP = 0 then sm\<lparr> es_startWhen := 1 \<rparr>
                else sm\<lparr> es_startWhen := 2 \<rparr>);
          sm = (eapol_enable_timer_tick x sm)\<lparr> es_eapolEap := False \<rparr>
      in if send_start then eapol_sm_txStart sm else sm)"

definition sm_SUPP_PAE_AUTHENTICATING_Enter :: "bool \<Rightarrow> eapol_sm \<Rightarrow> eapol_sm" where
  "sm_SUPP_PAE_AUTHENTICATING_Enter global sm =
     (SM_ENTRY_SUPP_PAE global SUPP_PAE_AUTHENTICATING sm)
       \<lparr> es_startCount := 0, es_suppSuccess := False, es_suppFail := False, es_suppTimeout := False,
         es_keyRun := False, es_keyDone := False, es_suppStart := True \<rparr>"

definition sm_SUPP_PAE_HELD_Enter :: "eapol_env \<Rightarrow> bool \<Rightarrow> eapol_sm \<Rightarrow> eapol_sm" where
  "sm_SUPP_PAE_HELD_Enter x global sm =
     (let sm = SM_ENTRY_SUPP_PAE global SUPP_PAE_HELD sm;
          sm = eapol_enable_timer_tick x (sm\<lparr> es_heldWhile := es_heldPeriod sm \<rparr>)
      in (eapol_sm_set_port_unauthorized sm)\<lparr> es_cb_status := EAPOL_CB_FAILURE \<rparr>)"

definition sm_SUPP_PAE_AUTHENTICATED_Enter :: "bool \<Rightarrow> eapol_sm \<Rightarrow> eapol_sm" where
  "sm_SUPP_PAE_AUTHENTICATED_Enter global sm =
     (eapol_sm_set_port_authorized (SM_ENTRY_SUPP_PAE global SUPP_PAE_AUTHENTICATED sm))
       \<lparr> es_cb_status := EAPOL_CB_SUCCESS \<rparr>"

definition sm_SUPP_PAE_RESTART_Enter :: "eapol_env \<Rightarrow> bool \<Rightarrow> eapol_sm \<Rightarrow> eapol_sm" where
  "sm_SUPP_PAE_RESTART_Enter x global sm =
     (let (res, sm) = eapol_sm_confirm_auth x sm in
      if res \<noteq> 0 then sm
      else
        let sm = (SM_ENTRY_SUPP_PAE global SUPP_PAE_RESTART sm)\<lparr> es_eapRestart := True \<rparr>
        in if es_altAccept sm then sm\<lparr> es_eapSuccess := False, es_altAccept := False \<rparr> else sm)"

definition sm_SUPP_PAE_S_FORCE_AUTH_Enter :: "bool \<Rightarrow> eapol_sm \<Rightarrow> eapol_sm" where
  "sm_SUPP_PAE_S_FORCE_AUTH_Enter global sm =
     (eapol_sm_set_port_authorized (SM_ENTRY_SUPP_PAE global SUPP_PAE_S_FORCE_AUTH sm))
       \<lparr> es_sPortMode := ForceAuthorized \<rparr>"

definition sm_SUPP_PAE_S_FORCE_UNAUTH_Enter :: "bool \<Rightarrow> eapol_sm \<Rightarrow> eapol_sm" where
  "sm_SUPP_PAE_S_FORCE_UNAUTH_Enter global sm =
     eapol_sm_txLogoff
       ((eapol_sm_set_port_unauthorized (SM_ENTRY_SUPP_PAE global SUPP_PAE_S_FORCE_UNAUTH sm))
          \<lparr> es_sPortMode := ForceUnauthorized \<rparr>)"

text \<open>The transitions out of CONNECTING and AUTHENTICATING.\<close>

definition sm_SUPP_PAE_step_connecting :: "eapol_env \<Rightarrow> eapol_sm \<Rightarrow> eapol_sm" where
  "sm_SUPP_PAE_step_connecting x sm =
     (if es_startWhen sm = 0 \<and> es_startCount sm < es_maxStart sm
      then sm_SUPP_PAE_CONNECTING_Enter x False sm
      else if es_startWhen sm = 0 \<and> es_startCount sm \<ge> es_maxStart sm \<and> es_portValid sm
      then sm_SUPP_PAE_AUTHENTICATED_Enter False sm
      else if es_eapSuccess sm \<or> es_eapFail sm then sm_SUPP_PAE_AUTHENTICATING_Enter False sm
      else if es_eapolEap sm then sm_SUPP_PAE_RESTART_Enter x False sm
      else if es_startWhen sm = 0 \<and> es_startCount sm \<ge> es_maxStart sm \<and> \<not> es_portValid sm
      then sm_SUPP_PAE_HELD_Enter x False sm
      else sm)"

definition sm_SUPP_PAE_step_authenticating :: "eapol_env \<Rightarrow> eapol_sm \<Rightarrow> eapol_sm" where
  "sm_SUPP_PAE_step_authenticating x sm =
     (let sm = (if es_eapSuccess sm \<and> \<not> es_portValid sm \<and> ec_accept_802_1x_keys (es_conf sm) \<and>
                   ec_required_keys (es_conf sm) = 0
                then eact Eapol_done_cb (sm\<lparr> es_portValid := True \<rparr>)
                else sm)
      in if es_eapSuccess sm \<and> es_portValid sm then sm_SUPP_PAE_AUTHENTICATED_Enter False sm
         else if es_eapFail sm \<or> (es_keyDone sm \<and> \<not> es_portValid sm)
         then sm_SUPP_PAE_HELD_Enter x False sm
         else if es_suppTimeout sm then sm_SUPP_PAE_CONNECTING_Enter x False sm
         else if es_eapTriggerStart sm then sm_SUPP_PAE_CONNECTING_Enter x False sm
         else sm)"

definition sm_SUPP_PAE_Step :: "eapol_env \<Rightarrow> eapol_sm \<Rightarrow> eapol_sm" where
  "sm_SUPP_PAE_Step x sm =
     (let off = (es_initialize sm \<or> \<not> es_portEnabled sm) in
      if es_userLogoff sm \<and> \<not> es_logoffSent sm \<and> \<not> off then sm_SUPP_PAE_LOGOFF_Enter True sm
      else if es_portControl sm = Auto \<and> es_sPortMode sm \<noteq> es_portControl sm \<or> off
      then sm_SUPP_PAE_DISCONNECTED_Enter True sm
      else if es_portControl sm = ForceAuthorized \<and> es_sPortMode sm \<noteq> es_portControl sm \<and> \<not> off
      then sm_SUPP_PAE_S_FORCE_AUTH_Enter True sm
      else if es_portControl sm = ForceUnauthorized \<and> es_sPortMode sm \<noteq> es_portControl sm \<and> \<not> off
      then sm_SUPP_PAE_S_FORCE_UNAUTH_Enter True sm
      else case es_pae sm of
        SUPP_PAE_UNKNOWN \<Rightarrow> sm
      | SUPP_PAE_LOGOFF \<Rightarrow>
          if \<not> es_userLogoff sm then sm_SUPP_PAE_DISCONNECTED_Enter False sm else sm
      | SUPP_PAE_DISCONNECTED \<Rightarrow> sm_SUPP_PAE_CONNECTING_Enter x False sm
      | SUPP_PAE_CONNECTING \<Rightarrow> sm_SUPP_PAE_step_connecting x sm
      | SUPP_PAE_AUTHENTICATING \<Rightarrow> sm_SUPP_PAE_step_authenticating x sm
      | SUPP_PAE_HELD \<Rightarrow>
          if es_heldWhile sm = 0 then sm_SUPP_PAE_CONNECTING_Enter x False sm
          else if es_eapolEap sm then sm_SUPP_PAE_RESTART_Enter x False sm
          else sm
      | SUPP_PAE_AUTHENTICATED \<Rightarrow>
          if es_eapolEap sm \<and> es_portValid sm then sm_SUPP_PAE_RESTART_Enter x False sm
          else if \<not> es_portValid sm then sm_SUPP_PAE_DISCONNECTED_Enter False sm
          else sm
      | SUPP_PAE_RESTART \<Rightarrow>
          if \<not> es_eapRestart sm then sm_SUPP_PAE_AUTHENTICATING_Enter False sm else sm
      | SUPP_PAE_S_FORCE_AUTH \<Rightarrow> sm
      | SUPP_PAE_S_FORCE_UNAUTH \<Rightarrow> sm)"


section \<open>Key receive state machine\<close>

definition SM_ENTRY_KEY_RX :: "bool \<Rightarrow> KEY_RX_state \<Rightarrow> eapol_sm \<Rightarrow> eapol_sm" where
  "SM_ENTRY_KEY_RX global st sm =
     sm\<lparr> es_changed := es_changed sm \<or> \<not> global \<or> es_key_rx sm \<noteq> st, es_key_rx := st \<rparr>"

definition sm_KEY_RX_NO_KEY_RECEIVE_Enter :: "bool \<Rightarrow> eapol_sm \<Rightarrow> eapol_sm" where
  "sm_KEY_RX_NO_KEY_RECEIVE_Enter global sm = SM_ENTRY_KEY_RX global KEY_RX_NO_KEY_RECEIVE sm"

text \<open>\<open>eapol_sm_processKey_not_None\<close> below: the frame is read inside its bounds.\<close>

definition sm_KEY_RX_KEY_RECEIVE_Enter ::
    "eapol_env \<Rightarrow> crypto \<Rightarrow> bool \<Rightarrow> eapol_sm \<Rightarrow> eapol_sm" where
  "sm_KEY_RX_KEY_RECEIVE_Enter x c global sm =
     (let sm = SM_ENTRY_KEY_RX global KEY_RX_KEY_RECEIVE sm
      in (case eapol_sm_processKey x c sm of None \<Rightarrow> sm | Some sm' \<Rightarrow> sm')\<lparr> es_rxKey := False \<rparr>)"

definition sm_KEY_RX_Step :: "eapol_env \<Rightarrow> crypto \<Rightarrow> eapol_sm \<Rightarrow> eapol_sm" where
  "sm_KEY_RX_Step x c sm =
     (let sm = (if es_initialize sm \<or> \<not> es_portEnabled sm
                then sm_KEY_RX_NO_KEY_RECEIVE_Enter True sm else sm)
      in case es_key_rx sm of
           KEY_RX_UNKNOWN \<Rightarrow> sm
         | KEY_RX_NO_KEY_RECEIVE \<Rightarrow>
             if es_rxKey sm then sm_KEY_RX_KEY_RECEIVE_Enter x c False sm else sm
         | KEY_RX_KEY_RECEIVE \<Rightarrow>
             if es_rxKey sm then sm_KEY_RX_KEY_RECEIVE_Enter x c False sm else sm)"


section \<open>Supplicant backend state machine\<close>

definition SM_ENTRY_SUPP_BE :: "bool \<Rightarrow> SUPP_BE_state \<Rightarrow> eapol_sm \<Rightarrow> eapol_sm" where
  "SM_ENTRY_SUPP_BE global st sm =
     sm\<lparr> es_changed := es_changed sm \<or> \<not> global \<or> es_be sm \<noteq> st, es_be := st \<rparr>"

definition sm_SUPP_BE_REQUEST_Enter :: "bool \<Rightarrow> eapol_sm \<Rightarrow> eapol_sm" where
  "sm_SUPP_BE_REQUEST_Enter global sm =
     (SM_ENTRY_SUPP_BE global SUPP_BE_REQUEST sm)\<lparr> es_authWhile := 0, es_eapReq := True \<rparr>"

definition sm_SUPP_BE_RESPONSE_Enter :: "bool \<Rightarrow> eapol_sm \<Rightarrow> eapol_sm" where
  "sm_SUPP_BE_RESPONSE_Enter global sm =
     (eapol_sm_txSuppRsp (SM_ENTRY_SUPP_BE global SUPP_BE_RESPONSE sm))\<lparr> es_eapResp := False \<rparr>"

definition sm_SUPP_BE_SUCCESS_Enter :: "bool \<Rightarrow> eapol_sm \<Rightarrow> eapol_sm" where
  "sm_SUPP_BE_SUCCESS_Enter global sm =
     (let sm = (SM_ENTRY_SUPP_BE global SUPP_BE_SUCCESS sm)
                 \<lparr> es_keyRun := True, es_suppSuccess := True \<rparr>
      in if eap_key_available sm then sm\<lparr> es_replay_counter_valid := False \<rparr> else sm)"

definition sm_SUPP_BE_FAIL_Enter :: "bool \<Rightarrow> eapol_sm \<Rightarrow> eapol_sm" where
  "sm_SUPP_BE_FAIL_Enter global sm =
     (SM_ENTRY_SUPP_BE global SUPP_BE_FAIL sm)\<lparr> es_suppFail := True \<rparr>"

definition sm_SUPP_BE_TIMEOUT_Enter :: "bool \<Rightarrow> eapol_sm \<Rightarrow> eapol_sm" where
  "sm_SUPP_BE_TIMEOUT_Enter global sm =
     (SM_ENTRY_SUPP_BE global SUPP_BE_TIMEOUT sm)\<lparr> es_suppTimeout := True \<rparr>"

definition sm_SUPP_BE_IDLE_Enter :: "bool \<Rightarrow> eapol_sm \<Rightarrow> eapol_sm" where
  "sm_SUPP_BE_IDLE_Enter global sm =
     (SM_ENTRY_SUPP_BE global SUPP_BE_IDLE sm)\<lparr> es_suppStart := False, es_initial_req := True \<rparr>"

definition sm_SUPP_BE_INITIALIZE_Enter :: "bool \<Rightarrow> eapol_sm \<Rightarrow> eapol_sm" where
  "sm_SUPP_BE_INITIALIZE_Enter global sm =
     (eapol_sm_abortSupp (SM_ENTRY_SUPP_BE global SUPP_BE_INITIALIZE sm))
       \<lparr> es_suppAbort := False, es_authWhile := 0 \<rparr>"

definition sm_SUPP_BE_RECEIVE_Enter :: "eapol_env \<Rightarrow> bool \<Rightarrow> eapol_sm \<Rightarrow> eapol_sm" where
  "sm_SUPP_BE_RECEIVE_Enter x global sm =
     (let sm = SM_ENTRY_SUPP_BE global SUPP_BE_RECEIVE sm
      in (eapol_enable_timer_tick x (sm\<lparr> es_authWhile := es_authPeriod sm \<rparr>))
           \<lparr> es_eapolEap := False, es_eapNoResp := False, es_initial_req := False \<rparr>)"

definition sm_SUPP_BE_Step :: "eapol_env \<Rightarrow> eapol_sm \<Rightarrow> eapol_sm" where
  "sm_SUPP_BE_Step x sm =
     (if es_initialize sm \<or> es_suppAbort sm then sm_SUPP_BE_INITIALIZE_Enter True sm
      else case es_be sm of
        SUPP_BE_UNKNOWN \<Rightarrow> sm
      | SUPP_BE_REQUEST \<Rightarrow>
          if es_eapResp sm then sm_SUPP_BE_RESPONSE_Enter False sm
          else if es_eapNoResp sm then sm_SUPP_BE_RECEIVE_Enter x False sm
          else if es_eapFail sm then sm_SUPP_BE_FAIL_Enter False sm
          else if es_eapSuccess sm then sm_SUPP_BE_SUCCESS_Enter False sm
          else sm
      | SUPP_BE_RESPONSE \<Rightarrow> sm_SUPP_BE_RECEIVE_Enter x False sm
      | SUPP_BE_SUCCESS \<Rightarrow> sm_SUPP_BE_IDLE_Enter False sm
      | SUPP_BE_FAIL \<Rightarrow> sm_SUPP_BE_IDLE_Enter False sm
      | SUPP_BE_TIMEOUT \<Rightarrow> sm_SUPP_BE_IDLE_Enter False sm
      | SUPP_BE_IDLE \<Rightarrow>
          if es_eapFail sm \<and> es_suppStart sm then sm_SUPP_BE_FAIL_Enter False sm
          else if es_eapolEap sm \<and> es_suppStart sm then sm_SUPP_BE_REQUEST_Enter False sm
          else if es_eapSuccess sm \<and> es_suppStart sm then sm_SUPP_BE_SUCCESS_Enter False sm
          else sm
      | SUPP_BE_INITIALIZE \<Rightarrow> sm_SUPP_BE_IDLE_Enter False sm
      | SUPP_BE_RECEIVE \<Rightarrow>
          if es_eapolEap sm then sm_SUPP_BE_REQUEST_Enter False sm
          else if es_eapFail sm then sm_SUPP_BE_FAIL_Enter False sm
          else if es_authWhile sm = 0 then sm_SUPP_BE_TIMEOUT_Enter False sm
          else if es_eapSuccess sm then sm_SUPP_BE_SUCCESS_Enter False sm
          else sm)"


section \<open>Stepping\<close>

text \<open>One round of the four state machines, and at most \<open>n\<close> of them.\<close>

definition eapol_sm_round :: "eapol_env \<Rightarrow> crypto \<Rightarrow> eapol_sm \<Rightarrow> eapol_sm" where
  "eapol_sm_round x c sm =
     (let sm = sm\<lparr> es_changed := False \<rparr>;
          sm = sm_SUPP_PAE_Step x sm;
          sm = sm_KEY_RX_Step x c sm;
          sm = sm_SUPP_BE_Step x sm;
          (r, sm) = eap_peer_sm_step x sm
      in if r then sm\<lparr> es_changed := True \<rparr> else sm)"

fun eapol_sm_rounds :: "eapol_env \<Rightarrow> crypto \<Rightarrow> nat \<Rightarrow> eapol_sm \<Rightarrow> eapol_sm" where
  "eapol_sm_rounds x c 0 sm = sm"
| "eapol_sm_rounds x c (Suc n) sm =
     (let sm = eapol_sm_round x c sm
      in if \<not> es_changed sm then sm else eapol_sm_rounds x c n sm)"

definition eapol_sm_result :: "eapol_env \<Rightarrow> eapol_sm \<Rightarrow> eapol_sm" where
  "eapol_sm_result x sm =
     (if x_has_cb x \<and> es_cb_status sm \<noteq> EAPOL_CB_IN_PROGRESS
      then let result = (if es_cb_status sm = EAPOL_CB_SUCCESS then EAPOL_SUPP_RESULT_SUCCESS
                         else if mv_expected_failure (ea_mv (es_eap sm))
                         then EAPOL_SUPP_RESULT_EXPECTED_FAILURE
                         else EAPOL_SUPP_RESULT_FAILURE)
           in eact (Result_cb result) (sm\<lparr> es_cb_status := EAPOL_CB_IN_PROGRESS \<rparr>)
      else sm)"

definition eapol_sm_step :: "eapol_env \<Rightarrow> crypto \<Rightarrow> eapol_sm \<Rightarrow> eapol_sm" where
  "eapol_sm_step x c sm =
     (let sm = eapol_sm_rounds x c 100 sm;
          sm = (if es_changed sm then eact Register_step (eact Cancel_step sm) else sm)
      in eapol_sm_result x sm)"

definition eapol_sm_step_timeout :: "eapol_env \<Rightarrow> crypto \<Rightarrow> eapol_sm \<Rightarrow> eapol_sm" where
  "eapol_sm_step_timeout x c sm = eapol_sm_step x c sm"

definition count_down :: "u32 \<Rightarrow> u32" where
  "count_down t = (if t > 0 then t - 1 else t)"

definition eapol_port_timers_tick :: "eapol_env \<Rightarrow> crypto \<Rightarrow> eapol_sm \<Rightarrow> eapol_sm" where
  "eapol_port_timers_tick x c sm =
     (let sm = sm\<lparr> es_authWhile := count_down (es_authWhile sm),
                   es_heldWhile := count_down (es_heldWhile sm),
                   es_startWhen := count_down (es_startWhen sm),
                   es_idleWhile := count_down (es_idleWhile sm) \<rparr>;
          sm = (if or (or (or (es_authWhile sm) (es_heldWhile sm)) (es_startWhen sm)) (es_idleWhile sm) \<noteq> 0
                then let sm = eact Register_tick sm
                     in if x_eloop x (es_trace sm) < 0 then sm\<lparr> es_timer_tick_enabled := False \<rparr>
                        else sm
                else sm\<lparr> es_timer_tick_enabled := False \<rparr>)
      in eapol_sm_step x c sm)"


section \<open>Received frames\<close>

definition eapol_sm_abort_cached :: "eapol_env \<Rightarrow> eapol_sm \<Rightarrow> eapol_sm" where
  "eapol_sm_abort_cached x sm =
     (let sm = sm\<lparr> es_cached_pmk := False, es_pae := SUPP_PAE_CONNECTING \<rparr>;
          sm = (eapol_sm_set_port_unauthorized sm)\<lparr> es_startWhen := 3 \<rparr>
      in eact Aborted_cached_cb (eapol_enable_timer_tick x sm))"

text \<open>The length of the payload, with the workaround for EAPOL headers that are too short
  for the EAP message they carry.\<close>

definition eapol_rx_plen :: "eapol_sm \<Rightarrow> bytes \<Rightarrow> byte \<Rightarrow> nat \<Rightarrow> nat option" where
  "eapol_rx_plen sm buf typ plen =
     (if ec_wps (es_conf sm) \<noteq> 0 \<and> ec_workaround (es_conf sm) \<and> plen < length buf - 4 \<and>
         typ = IEEE802_1X_TYPE_EAP_PACKET \<and> length buf - 4 > 4
      then do {
        elen \<leftarrow> WPA_GET_BE16 buf 6;
        Some (if unat elen > plen \<and> unat elen \<le> length buf - 4 then unat elen else plen) }
      else Some plen)"

definition eapol_rx_eap_packet ::
    "eapol_env \<Rightarrow> crypto \<Rightarrow> bytes \<Rightarrow> nat \<Rightarrow> eapol_sm \<Rightarrow> eapol_sm option" where
  "eapol_rx_eap_packet x c buf plen sm = do {
     code10 \<leftarrow> (if ec_workaround (es_conf sm) \<and> plen \<ge> 4
                then map_option (\<lambda>code. code = 10) (rd8 buf 4) else Some False);
     if code10 then Some sm
     else do {
       data \<leftarrow> rd_slice buf 4 plen;
       let sm = (if es_cached_pmk sm then eapol_sm_abort_cached x sm else sm) in
       Some (if x_alloc x Alloc_eapReq (es_trace sm)
             then eapol_sm_step x c (sm\<lparr> es_eapReqData := Some data, es_eapolEap := True \<rparr>)
             else sm\<lparr> es_eapReqData := None \<rparr>) } }"

definition eapol_rx_eapol_key ::
    "eapol_env \<Rightarrow> crypto \<Rightarrow> bytes \<Rightarrow> nat \<Rightarrow> eapol_sm \<Rightarrow> (int \<times> eapol_sm) option" where
  "eapol_rx_eapol_key x c buf plen sm =
     (if plen < 44 then Some (1, sm)
      else do {
        key_type \<leftarrow> rd8 buf 4;
        if key_type = EAPOL_KEY_TYPE_WPA \<or> key_type = EAPOL_KEY_TYPE_RSN then Some (0, sm)
        else if key_type \<noteq> EAPOL_KEY_TYPE_RC4 then Some (1, sm)
        else do {
          frame \<leftarrow> rd_slice buf 0 (plen + 4);
          Some (1, if x_alloc x Alloc_eapol_key (es_trace sm)
                   then eapol_sm_step x c (sm\<lparr> es_last_rx_key := Some frame, es_rxKey := True \<rparr>)
                   else sm\<lparr> es_last_rx_key := None \<rparr>) } })"

definition eapol_sm_rx_eapol ::
    "eapol_env \<Rightarrow> crypto \<Rightarrow> bytes \<Rightarrow> bytes \<Rightarrow> eapol_sm \<Rightarrow> (int \<times> eapol_sm) option" where
  "eapol_sm_rx_eapol x c src buf sm =
     (let sm = sm\<lparr> es_dot1xSuppEapolFramesRx := es_dot1xSuppEapolFramesRx sm + 1 \<rparr> in
      if length buf < 4
      then Some (0, sm\<lparr> es_dot1xSuppInvalidEapolFramesRx := es_dot1xSuppInvalidEapolFramesRx sm + 1 \<rparr>)
      else do {
        version \<leftarrow> rd8 buf 0;
        typ \<leftarrow> rd8 buf 1;
        l \<leftarrow> WPA_GET_BE16 buf 2;
        let sm = sm\<lparr> es_dot1xSuppLastEapolFrameVersion := version,
                     es_dot1xSuppLastEapolFrameSource := src \<rparr> in
        if unat l > length buf - 4
        then Some (0, sm\<lparr> es_dot1xSuppEapLengthErrorFramesRx :=
                            es_dot1xSuppEapLengthErrorFramesRx sm + 1 \<rparr>)
        else do {
          plen \<leftarrow> eapol_rx_plen sm buf typ (unat l);
          if typ = IEEE802_1X_TYPE_EAP_PACKET
          then map_option (\<lambda>sm. (1, sm)) (eapol_rx_eap_packet x c buf plen sm)
          else if typ = IEEE802_1X_TYPE_EAPOL_KEY then eapol_rx_eapol_key x c buf plen sm
          else Some (1, sm\<lparr> es_dot1xSuppInvalidEapolFramesRx :=
                              es_dot1xSuppInvalidEapolFramesRx sm + 1 \<rparr>) } })"


section \<open>Notifications\<close>

definition eapol_sm_notify_tx_eapol_key :: "eapol_sm \<Rightarrow> eapol_sm" where
  "eapol_sm_notify_tx_eapol_key sm =
     sm\<lparr> es_dot1xSuppEapolFramesTx := es_dot1xSuppEapolFramesTx sm + 1 \<rparr>"

definition eapol_sm_notify_portEnabled :: "eapol_env \<Rightarrow> crypto \<Rightarrow> bool \<Rightarrow> eapol_sm \<Rightarrow> eapol_sm" where
  "eapol_sm_notify_portEnabled x c enabled sm =
     (let sm = (if es_portEnabled sm \<noteq> enabled then sm\<lparr> es_force_authorized_update := True \<rparr> else sm)
      in eapol_sm_step x c (sm\<lparr> es_portEnabled := enabled \<rparr>))"

definition eapol_sm_notify_portValid :: "eapol_env \<Rightarrow> crypto \<Rightarrow> bool \<Rightarrow> eapol_sm \<Rightarrow> eapol_sm" where
  "eapol_sm_notify_portValid x c valid sm = eapol_sm_step x c (sm\<lparr> es_portValid := valid \<rparr>)"

definition eapol_sm_notify_eap_success :: "eapol_env \<Rightarrow> crypto \<Rightarrow> bool \<Rightarrow> eapol_sm \<Rightarrow> eapol_sm" where
  "eapol_sm_notify_eap_success x c success sm =
     (let sm = sm\<lparr> es_eapSuccess := success, es_altAccept := success \<rparr>
      in eapol_sm_step x c (if success then eap_notify_success sm else sm))"

definition eapol_sm_notify_eap_fail :: "eapol_env \<Rightarrow> crypto \<Rightarrow> bool \<Rightarrow> eapol_sm \<Rightarrow> eapol_sm" where
  "eapol_sm_notify_eap_fail x c fail sm =
     eapol_sm_step x c (sm\<lparr> es_eapFail := fail, es_altReject := fail \<rparr>)"

definition eapol_sm_notify_config ::
    "eap_peer_config option \<Rightarrow> eapol_config option \<Rightarrow> eapol_sm \<Rightarrow> eapol_sm" where
  "eapol_sm_notify_config config conf sm =
     (let sm = sm\<lparr> es_config := config \<rparr>
      in case conf of
           None \<Rightarrow> sm
         | Some cf \<Rightarrow>
             let sm = sm\<lparr> es_conf := (es_conf sm)
                        \<lparr> ec_accept_802_1x_keys := ec_accept_802_1x_keys cf,
                          ec_required_keys := ec_required_keys cf,
                          ec_fast_reauth := ec_fast_reauth cf, ec_workaround := ec_workaround cf,
                          ec_wps := ec_wps cf \<rparr> \<rparr>;
                 sm = eap_set_fast_reauth (ec_fast_reauth cf) sm;
                 sm = eap_set_workaround (ec_workaround cf) sm;
                 sm = eap_set_force_disabled (ec_eap_disabled cf) sm
             in eap_set_external_sim (ec_external_sim cf) sm)"

definition eapol_sm_get_session_id :: "eapol_sm \<Rightarrow> bytes option" where
  "eapol_sm_get_session_id sm =
     (if \<not> eap_key_available sm then None else eap_get_eapSessionId sm)"

definition eapol_sm_notify_logoff :: "eapol_env \<Rightarrow> crypto \<Rightarrow> bool \<Rightarrow> eapol_sm \<Rightarrow> eapol_sm" where
  "eapol_sm_notify_logoff x c logoff sm =
     (let sm = sm\<lparr> es_userLogoff := logoff \<rparr>
      in eapol_sm_step x c (if \<not> logoff then sm\<lparr> es_startWhen := 0 \<rparr> else sm))"

definition eapol_sm_notify_cached :: "eapol_env \<Rightarrow> crypto \<Rightarrow> eapol_sm \<Rightarrow> eapol_sm" where
  "eapol_sm_notify_cached x c sm =
     eapol_sm_step x c (eap_notify_success (sm\<lparr> es_eapSuccess := True \<rparr>))"

definition eapol_sm_notify_pmkid_attempt :: "eapol_sm \<Rightarrow> eapol_sm" where
  "eapol_sm_notify_pmkid_attempt sm = sm\<lparr> es_cached_pmk := True \<rparr>"

definition eapol_sm_notify_portControl ::
    "eapol_env \<Rightarrow> crypto \<Rightarrow> PortControl \<Rightarrow> eapol_sm \<Rightarrow> eapol_sm" where
  "eapol_sm_notify_portControl x c portControl sm =
     eapol_sm_step x c (sm\<lparr> es_portControl := portControl \<rparr>)"

definition eapol_sm_notify_ctrl_response :: "eapol_env \<Rightarrow> crypto \<Rightarrow> eapol_sm \<Rightarrow> eapol_sm" where
  "eapol_sm_notify_ctrl_response x c sm =
     (if es_eapReqData sm \<noteq> None \<and> \<not> es_eapReq sm
      then eapol_sm_step x c (sm\<lparr> es_eapolEap := True, es_eapReq := True \<rparr>)
      else sm)"

definition eapol_sm_notify_pending :: "eapol_env \<Rightarrow> crypto \<Rightarrow> eapol_sm \<Rightarrow> eapol_sm" where
  "eapol_sm_notify_pending x c sm =
     (if es_eapReqData sm \<noteq> None \<and> \<not> es_eapReq sm
      then eapol_sm_step x c (sm\<lparr> es_eapolEap := True, es_eapReq := True \<rparr>)
      else sm)"

definition eapol_sm_request_reauth :: "eapol_sm \<Rightarrow> eapol_sm" where
  "eapol_sm_request_reauth sm =
     (if es_pae sm \<noteq> SUPP_PAE_AUTHENTICATED then sm else eapol_sm_txStart sm)"

definition eapol_sm_notify_lower_layer_success ::
    "eapol_env \<Rightarrow> crypto \<Rightarrow> bool \<Rightarrow> eapol_sm \<Rightarrow> eapol_sm" where
  "eapol_sm_notify_lower_layer_success x c in_eapol_sm sm =
     (let sm = eap_notify_lower_layer_success sm
      in if \<not> in_eapol_sm then eapol_sm_step x c sm else sm)"

definition eapol_sm_invalidate_cached_session :: "eapol_env \<Rightarrow> eapol_sm \<Rightarrow> eapol_sm" where
  "eapol_sm_invalidate_cached_session x sm = eap_invalidate_cached_session x sm"

definition eapol_sm_failed :: "eapol_sm \<Rightarrow> bool" where
  "eapol_sm_failed sm = (\<not> es_eapSuccess sm \<and> es_eapFail sm)"

definition eapol_sm_init :: "eapol_env \<Rightarrow> crypto \<Rightarrow> bool \<Rightarrow> eapol_sm option" where
  "eapol_sm_init x c tls_ok =
     (case eap_peer_sm_init tls_ok of
        None \<Rightarrow> None
      | Some eap \<Rightarrow>
          let sm = eapol_sm_zero\<lparr> es_portControl := Auto, es_heldPeriod := 60, es_startPeriod := 30,
                     es_maxStart := 3, es_authPeriod := 30, es_eap := eap,
                     es_force_authorized_update := True, es_initialize := True \<rparr>;
              sm = eapol_sm_step x c sm;
              sm = eapol_sm_step x c (sm\<lparr> es_initialize := False \<rparr>);
              sm = eact Register_tick sm
          in Some (if x_eloop x (es_trace sm) = 0 then sm\<lparr> es_timer_tick_enabled := True \<rparr> else sm))"


section \<open>Events\<close>

text \<open>Everything that can happen to the state machine between its initialisation and its
  end.  The timers fire at any time; frames have any content.\<close>

datatype eapol_event =
    Ev_tick | Ev_step_timeout | Ev_rx bytes bytes | Ev_tx_eapol_key | Ev_portEnabled bool
  | Ev_portValid bool | Ev_eap_success bool | Ev_eap_fail bool
  | Ev_config "eap_peer_config option" "eapol_config option" | Ev_logoff bool | Ev_cached
  | Ev_pmkid_attempt | Ev_portControl PortControl | Ev_ctrl_response | Ev_pending | Ev_reauth
  | Ev_lower_layer_success | Ev_invalidate

text \<open>\<open>eapol_sm_rx_eapol_not_None\<close>: a frame is read inside its bounds.\<close>

fun eapol_handle :: "eapol_env \<Rightarrow> crypto \<Rightarrow> eapol_event \<Rightarrow> eapol_sm \<Rightarrow> eapol_sm" where
  "eapol_handle x c Ev_tick sm = eapol_port_timers_tick x c sm"
| "eapol_handle x c Ev_step_timeout sm = eapol_sm_step_timeout x c sm"
| "eapol_handle x c (Ev_rx src buf) sm =
     (case eapol_sm_rx_eapol x c src buf sm of None \<Rightarrow> sm | Some (_, sm') \<Rightarrow> sm')"
| "eapol_handle x c Ev_tx_eapol_key sm = eapol_sm_notify_tx_eapol_key sm"
| "eapol_handle x c (Ev_portEnabled b) sm = eapol_sm_notify_portEnabled x c b sm"
| "eapol_handle x c (Ev_portValid b) sm = eapol_sm_notify_portValid x c b sm"
| "eapol_handle x c (Ev_eap_success b) sm = eapol_sm_notify_eap_success x c b sm"
| "eapol_handle x c (Ev_eap_fail b) sm = eapol_sm_notify_eap_fail x c b sm"
| "eapol_handle x c (Ev_config config conf) sm = eapol_sm_notify_config config conf sm"
| "eapol_handle x c (Ev_logoff b) sm = eapol_sm_notify_logoff x c b sm"
| "eapol_handle x c Ev_cached sm = eapol_sm_notify_cached x c sm"
| "eapol_handle x c Ev_pmkid_attempt sm = eapol_sm_notify_pmkid_attempt sm"
| "eapol_handle x c (Ev_portControl p) sm = eapol_sm_notify_portControl x c p sm"
| "eapol_handle x c Ev_ctrl_response sm = eapol_sm_notify_ctrl_response x c sm"
| "eapol_handle x c Ev_pending sm = eapol_sm_notify_pending x c sm"
| "eapol_handle x c Ev_reauth sm = eapol_sm_request_reauth sm"
| "eapol_handle x c Ev_lower_layer_success sm = eapol_sm_notify_lower_layer_success x c False sm"
| "eapol_handle x c Ev_invalidate sm = eapol_sm_invalidate_cached_session x sm"

inductive eapol_reachable :: "eapol_env \<Rightarrow> crypto \<Rightarrow> eapol_sm \<Rightarrow> bool" for x c where
  init: "eapol_sm_init x c tls_ok = Some sm \<Longrightarrow> eapol_reachable x c sm"
| event: "eapol_reachable x c sm \<Longrightarrow> eapol_reachable x c (eapol_handle x c ev sm)"

end
