(* ===== verification/EAPOL_Port.thy ===== *)
theory EAPOL_Port
  imports EAPOL_Supp
begin

text \<open>
  The port of the EAPOL supplicant: in every reachable state its status fits the state
  of SUPP_PAE and what was reported to the rest of the program; it is authorised only
  when it is enabled and valid, or by force.  The locale \<open>eapol_loop\<close> lifts a property
  that the transitions of SUPP_PAE keep to the loop of all state machines.
\<close>


section \<open>What leaves the port alone\<close>

fun last_port :: "eapol_action list \<Rightarrow> bool option" where
  "last_port [] = None"
| "last_port (Port_cb b # tr) = Some b"
| "last_port (_ # tr) = last_port tr"

lemma last_port_Cons: "(\<And>b. a \<noteq> Port_cb b) \<Longrightarrow> last_port (a # tr) = last_port tr"
  by (cases a) auto

lemma last_port_eap: "list_all eap_action as \<Longrightarrow> last_port (as @ tr) = last_port tr"
proof (induction as)
  case (Cons a as)
  then show ?case by (cases a) auto
qed simp

definition port_frame :: "eapol_sm \<Rightarrow> eapol_sm \<Rightarrow> bool" where
  "port_frame sm sm' \<longleftrightarrow>
     es_pae sm' = es_pae sm \<and> es_suppPortStatus sm' = es_suppPortStatus sm \<and>
     es_force_authorized_update sm' = es_force_authorized_update sm \<and>
     es_portEnabled sm' = es_portEnabled sm \<and> es_portControl sm' = es_portControl sm \<and>
     es_sPortMode sm' = es_sPortMode sm \<and> es_initialize sm' = es_initialize sm \<and>
     es_userLogoff sm' = es_userLogoff sm \<and> es_logoffSent sm' = es_logoffSent sm \<and>
     (es_portValid sm \<longrightarrow> es_portValid sm') \<and> (es_eapolEap sm' \<longrightarrow> es_eapolEap sm) \<and>
     last_port (es_trace sm') = last_port (es_trace sm)"

interpretation po: state_frame port_frame
  by unfold_locales (auto simp: port_frame_def)

lemma eap_frame_port: "eap_frame sm sm' \<Longrightarrow> port_frame sm sm'"
  by (elim eap_frameE) (simp add: port_frame_def last_port_eap)

lemma port_frame_enable_tick: "port_frame sm (eapol_enable_timer_tick x sm)"
  by (simp add: port_frame_def eapol_enable_timer_tick_def eact_def Let_def)

lemma eapol_set_wep_key_port: "port_frame sm (eapol_set_wep_key x i k sm)"
  unfolding eapol_set_wep_key_def Let_def by (simp add: port_frame_def eact_def)

lemma eap_notify_lower_layer_success_port: "port_frame sm (eap_notify_lower_layer_success sm)"
  by (simp add: port_frame_def eap_notify_lower_layer_success_def Let_def upd_eap_def)

lemma eapol_key_verify_not_None: "48 \<le> length f \<Longrightarrow> eapol_key_verify c f k plen sm \<noteq> None"
  unfolding eapol_key_verify_def by (auto simp: rd_simps)

lemma eapol_datakey_not_None: "48 + n \<le> length f \<Longrightarrow> eapol_datakey f e el n r \<noteq> None"
  unfolding eapol_datakey_def by (auto simp: rd_simps)

lemma eapol_key_accept_port:
  assumes "4 + plen \<le> length f" "44 \<le> plen" "port_frame s0 sm"
  shows "good (port_frame s0) (eapol_key_accept x c f plen r km sm)"
proof -
  obtain sk ek el where km: "km = (sk, ek, el)" by (cases km)
  have "48 \<le> length f" "48 + (plen - 44) \<le> length f" using assms by linarith+
  then obtain ok dk where *: "eapol_key_verify c f sk plen sm = Some ok"
    "eapol_datakey f ek el (plen - 44) r = Some dk"
    using eapol_key_verify_not_None eapol_datakey_not_None by blast
  have "port_frame s0 (eapol_set_wep_key x i k (sm\<lparr> es_replay_counter_valid := True, es_last_replay_counter := l \<rparr>))" for i k l
    by (rule po.after [OF eapol_set_wep_key_port]) (use assms(3) in \<open>simp add: port_frame_def\<close>)
  with \<open>48 \<le> length f\<close> show ?thesis
    using assms(3) by (simp add: eapol_key_accept_def km * rd_simps split: option.split)
qed

lemma eapol_sm_processKey_port: "good (port_frame sm) (eapol_sm_processKey x c sm)"
proof (cases "es_last_rx_key sm")
  case None
  then show ?thesis by (simp add: eapol_sm_processKey_def po.refl)
next
  case (Some f)
  show ?thesis
  proof (cases "4 + 44 \<le> length f")
    case True
    then obtain l r where l: "WPA_GET_BE16 f 2 = Some l" "WPA_GET_BE16 f 5 = Some r"
      by (simp add: rd_simps)
    have "good (port_frame sm) (eapol_key_accept x c f (unat l) n km (eap_notify_lower_layer_success sm))"
      if "4 + unat l \<le> length f" "44 \<le> unat l" for n km
      using that by (rule eapol_key_accept_port [OF _ _ eap_notify_lower_layer_success_port])
    with Some True l show ?thesis
      by (auto simp: eapol_sm_processKey_def po.refl eap_notify_lower_layer_success_port Let_def
          split: option.split)
  qed (use Some in \<open>simp add: eapol_sm_processKey_def po.refl\<close>)
qed

lemma goodE: "good P r \<Longrightarrow> (\<And>y. r = Some y \<Longrightarrow> P y \<Longrightarrow> Q) \<Longrightarrow> Q"
  by (auto simp: good_def)

lemma sm_KEY_RX_Step_port: "port_frame sm (sm_KEY_RX_Step x c sm)"
proof -
  have rx: "port_frame s (sm_KEY_RX_KEY_RECEIVE_Enter x c g s)" for g s
    using eapol_sm_processKey_port [of "SM_ENTRY_KEY_RX g KEY_RX_KEY_RECEIVE s" x c]
    by (elim goodE) (simp add: sm_KEY_RX_KEY_RECEIVE_Enter_def port_frame_def, simp add: SM_ENTRY_KEY_RX_def)
  have no: "port_frame s (sm_KEY_RX_NO_KEY_RECEIVE_Enter g s)" for g s
    by (simp add: sm_KEY_RX_NO_KEY_RECEIVE_Enter_def SM_ENTRY_KEY_RX_def port_frame_def)
  show ?thesis
    unfolding sm_KEY_RX_Step_def
  proof (rule po.let_state)
    show "port_frame sm (if es_initialize sm \<or> \<not> es_portEnabled sm
        then sm_KEY_RX_NO_KEY_RECEIVE_Enter True sm else sm)"
      by (simp add: no po.refl)
    show "port_frame sm (case es_key_rx t of KEY_RX_UNKNOWN \<Rightarrow> t
         | KEY_RX_NO_KEY_RECEIVE \<Rightarrow> if es_rxKey t then sm_KEY_RX_KEY_RECEIVE_Enter x c False t else t
         | KEY_RX_KEY_RECEIVE \<Rightarrow> if es_rxKey t then sm_KEY_RX_KEY_RECEIVE_Enter x c False t else t)"
      if "port_frame sm t" for t
      using that po.trans [OF that rx] by (simp split: KEY_RX_state.split)
  qed
qed

lemma sm_SUPP_BE_Enter_port:
  "port_frame sm (sm_SUPP_BE_REQUEST_Enter g sm)" "port_frame sm (sm_SUPP_BE_RESPONSE_Enter g sm)"
  "port_frame sm (sm_SUPP_BE_SUCCESS_Enter g sm)" "port_frame sm (sm_SUPP_BE_FAIL_Enter g sm)"
  "port_frame sm (sm_SUPP_BE_TIMEOUT_Enter g sm)" "port_frame sm (sm_SUPP_BE_IDLE_Enter g sm)"
  "port_frame sm (sm_SUPP_BE_INITIALIZE_Enter g sm)" "port_frame sm (sm_SUPP_BE_RECEIVE_Enter x g sm)"
  unfolding sm_SUPP_BE_REQUEST_Enter_def sm_SUPP_BE_RESPONSE_Enter_def sm_SUPP_BE_SUCCESS_Enter_def
    sm_SUPP_BE_FAIL_Enter_def sm_SUPP_BE_TIMEOUT_Enter_def sm_SUPP_BE_IDLE_Enter_def
    sm_SUPP_BE_INITIALIZE_Enter_def sm_SUPP_BE_RECEIVE_Enter_def
  by (simp_all add: port_frame_def SM_ENTRY_SUPP_BE_def Let_def eapol_sm_txSuppRsp_def
      eap_get_eapRespData_def eapol_sm_abortSupp_def eap_sm_abort_def eap_sm_free_key_def upd_eap_def
      eact_def eapol_enable_timer_tick_def split: option.split)

lemma sm_SUPP_BE_Step_port: "port_frame sm (sm_SUPP_BE_Step x sm)"
  unfolding sm_SUPP_BE_Step_def
  by (cases "es_be sm") (simp_all add: sm_SUPP_BE_Enter_port po.refl)

lemma eap_peer_sm_step_port: "port_frame sm (snd (eap_peer_sm_step x sm))"
  by (rule eap_frame_port [OF eap_peer_sm_step_frame [OF ef.refl]])



section \<open>Invariants of the port\<close>

text \<open>A property of the port that the transitions of SUPP_PAE keep is kept by a step of all
  four state machines.\<close>

lemma port_frame_changed: "port_frame s (t\<lparr> es_changed := b \<rparr>) = port_frame s t"
  by (simp add: port_frame_def)

lemma eapol_sm_round_port: "port_frame (sm_SUPP_PAE_Step x (sm\<lparr> es_changed := False \<rparr>)) (eapol_sm_round x c sm)"
proof -
  let ?a = "sm_SUPP_PAE_Step x (sm\<lparr> es_changed := False \<rparr>)"
  let ?d = "snd (eap_peer_sm_step x (sm_SUPP_BE_Step x (sm_KEY_RX_Step x c ?a)))"
  have d: "port_frame ?a ?d"
    by (rule po.trans [OF po.trans [OF sm_KEY_RX_Step_port sm_SUPP_BE_Step_port] eap_peer_sm_step_port])
  have "eapol_sm_round x c sm \<in> {?d, ?d\<lparr> es_changed := True \<rparr>}"
    by (simp add: eapol_sm_round_def Let_def split_beta)
  then show ?thesis
  proof (elim insertE)
    assume "eapol_sm_round x c sm = ?d\<lparr> es_changed := True \<rparr>"
    then show ?thesis using d by (simp only: port_frame_changed)
  qed (use d in simp_all)
qed

lemma eapol_sm_result_port: "port_frame sm (eapol_sm_result x sm)"
  by (simp add: eapol_sm_result_def Let_def port_frame_def eact_def)

lemma eapol_sm_step_port:
  "port_frame (eapol_sm_rounds x c 100 sm) (eapol_sm_step x c sm)"
proof -
  have "port_frame s (if es_changed s then eact Register_step (eact Cancel_step s) else s)" for s
    by (simp add: port_frame_def eact_def)
  from po.trans [OF this eapol_sm_result_port] show ?thesis
    unfolding eapol_sm_step_def Let_def .
qed

locale eapol_loop =
  fixes P :: "eapol_sm \<Rightarrow> bool" and x :: eapol_env
  assumes pae: "P sm \<Longrightarrow> P (sm_SUPP_PAE_Step x sm)"
    and frame: "P sm \<Longrightarrow> port_frame sm sm' \<Longrightarrow> P sm'"
begin

lemma round: "P sm \<Longrightarrow> P (eapol_sm_round x c sm)"
proof -
  assume "P sm"
  then have "P (sm\<lparr> es_changed := False \<rparr>)" by (rule frame) (simp add: port_frame_def)
  from frame [OF pae [OF this] eapol_sm_round_port] show ?thesis .
qed

lemma rounds: "P sm \<Longrightarrow> P (eapol_sm_rounds x c n sm)"
  by (induction n arbitrary: sm) (simp_all add: round Let_def)

lemma step: "P sm \<Longrightarrow> P (eapol_sm_step x c sm)"
  by (rule frame [OF rounds eapol_sm_step_port])

end

lemma set_port_fields [simp]:
  "es_pae (eapol_sm_set_port_authorized sm) = es_pae sm"
  "es_suppPortStatus (eapol_sm_set_port_authorized sm) = Authorized"
  "es_pae (eapol_sm_set_port_unauthorized sm) = es_pae sm"
  "es_suppPortStatus (eapol_sm_set_port_unauthorized sm) = Unauthorized"
  "es_portEnabled (eapol_sm_set_port_authorized sm) = es_portEnabled sm"
  "es_portEnabled (eapol_sm_set_port_unauthorized sm) = es_portEnabled sm"
  "es_portControl (eapol_sm_set_port_authorized sm) = es_portControl sm"
  "es_portControl (eapol_sm_set_port_unauthorized sm) = es_portControl sm"
  "es_portValid (eapol_sm_set_port_authorized sm) = es_portValid sm"
  "es_portValid (eapol_sm_set_port_unauthorized sm) = es_portValid sm"
  by (simp_all add: eapol_sm_set_port_authorized_def eapol_sm_set_port_unauthorized_def eact_def Let_def)

text \<open>The port callback has reported the status, unless an update is forced.\<close>

definition port_reported :: "eapol_sm \<Rightarrow> bool" where
  "port_reported sm \<longleftrightarrow> es_force_authorized_update sm \<or>
     last_port (es_trace sm) = Some (es_suppPortStatus sm = Authorized)"

lemma set_port_reported:
  assumes "port_reported sm"
  shows "port_reported (eapol_sm_set_port_authorized sm)"
    "port_reported (eapol_sm_set_port_unauthorized sm)"
  using assms unfolding port_reported_def eapol_sm_set_port_authorized_def
    eapol_sm_set_port_unauthorized_def eact_def Let_def
  by (cases "es_suppPortStatus sm"; auto)+

definition port_inv :: "eapol_sm \<Rightarrow> bool" where
  "port_inv sm \<longleftrightarrow>
     (es_pae sm \<in> {SUPP_PAE_DISCONNECTED, SUPP_PAE_LOGOFF, SUPP_PAE_HELD, SUPP_PAE_S_FORCE_UNAUTH} \<longrightarrow>
        es_suppPortStatus sm = Unauthorized) \<and>
     (es_pae sm \<in> {SUPP_PAE_AUTHENTICATED, SUPP_PAE_S_FORCE_AUTH} \<longrightarrow>
        es_suppPortStatus sm = Authorized) \<and>
     port_reported sm"

definition port_same :: "eapol_sm \<Rightarrow> eapol_sm \<Rightarrow> bool" where
  "port_same sm sm' \<longleftrightarrow> es_suppPortStatus sm' = es_suppPortStatus sm \<and>
     es_force_authorized_update sm' = es_force_authorized_update sm \<and>
     last_port (es_trace sm') = last_port (es_trace sm)"

interpretation ps: state_frame port_same
  by unfold_locales (auto simp: port_same_def)

lemma port_same_reported: "port_same sm sm' \<Longrightarrow> port_reported sm' = port_reported sm"
  by (simp add: port_same_def port_reported_def)

lemma port_same_prims:
  "port_same sm (SM_ENTRY_SUPP_PAE g st sm)" "port_same sm (eapol_enable_timer_tick x sm)"
  "port_same sm (eapol_sm_txStart sm)" "port_same sm (eapol_sm_txLogoff sm)"
  "port_same sm (snd (eapol_sm_confirm_auth x sm))"
  by (simp_all add: port_same_def SM_ENTRY_SUPP_PAE_def eapol_enable_timer_tick_def
      eapol_sm_txStart_def eapol_sm_txLogoff_def eapol_sm_confirm_auth_def eact_def Let_def)

lemma pae_tick_fields [simp]:
  "es_pae (eapol_enable_timer_tick x sm) = es_pae sm"
  "es_pae (eapol_sm_txStart sm) = es_pae sm" "es_pae (eapol_sm_txLogoff sm) = es_pae sm"
  "es_pae (SM_ENTRY_SUPP_PAE g st sm) = st"
  by (simp_all add: eapol_enable_timer_tick_def eapol_sm_txStart_def eapol_sm_txLogoff_def
      SM_ENTRY_SUPP_PAE_def eact_def Let_def)

lemma sm_SUPP_PAE_CONNECTING_Enter_same: "port_same sm (sm_SUPP_PAE_CONNECTING_Enter x g sm)"
  unfolding sm_SUPP_PAE_CONNECTING_Enter_def
  by (assumption | rule ps.rules | rule ps.after, rule port_same_prims | (simp add: port_same_def eapol_enable_timer_tick_def eapol_sm_txStart_def eact_def Let_def; fail))+


lemma port_reported_upd [simp]:
  "port_reported (sm\<lparr> es_cb_status := v1 \<rparr>) = port_reported sm"
  "port_reported (sm\<lparr> es_sPortMode := v2 \<rparr>) = port_reported sm"
  "port_reported (sm\<lparr> es_logoffSent := b \<rparr>) = port_reported sm"
  "port_reported (sm\<lparr> es_heldWhile := t \<rparr>) = port_reported sm"
  "port_reported (sm\<lparr> es_startCount := t \<rparr>) = port_reported sm"
  "port_reported (sm\<lparr> es_eapTriggerStart := b \<rparr>) = port_reported sm"
  "port_reported (sm\<lparr> es_suppAbort := b \<rparr>) = port_reported sm"
  "port_reported (sm\<lparr> es_unicast_key_received := b \<rparr>) = port_reported sm"
  "port_reported (sm\<lparr> es_broadcast_key_received := b \<rparr>) = port_reported sm"
  "port_reported (sm\<lparr> es_suppSuccess := b \<rparr>) = port_reported sm"
  "port_reported (sm\<lparr> es_suppFail := b \<rparr>) = port_reported sm"
  "port_reported (sm\<lparr> es_suppTimeout := b \<rparr>) = port_reported sm"
  "port_reported (sm\<lparr> es_keyRun := b \<rparr>) = port_reported sm"
  "port_reported (sm\<lparr> es_keyDone := b \<rparr>) = port_reported sm"
  "port_reported (sm\<lparr> es_suppStart := b \<rparr>) = port_reported sm"
  "port_reported (sm\<lparr> es_eapRestart := b \<rparr>) = port_reported sm"
  "port_reported (sm\<lparr> es_eapSuccess := b \<rparr>) = port_reported sm"
  "port_reported (sm\<lparr> es_altAccept := b \<rparr>) = port_reported sm"
  by (simp_all add: port_reported_def)

lemmas port_reported_prims [simp] = port_same_prims [THEN port_same_reported] set_port_reported
  sm_SUPP_PAE_CONNECTING_Enter_same [THEN port_same_reported]

lemma txLogoff_status [simp]: "es_suppPortStatus (eapol_sm_txLogoff sm) = es_suppPortStatus sm"
  by (simp add: eapol_sm_txLogoff_def eact_def)

lemma sm_SUPP_PAE_CONNECTING_Enter_pae [simp]:
  "es_pae (sm_SUPP_PAE_CONNECTING_Enter x g sm) = SUPP_PAE_CONNECTING"
  by (simp add: sm_SUPP_PAE_CONNECTING_Enter_def Let_def)

lemma confirm_auth_fields [simp]:
  "es_pae (snd (eapol_sm_confirm_auth x sm)) = es_pae sm"
  "es_suppPortStatus (snd (eapol_sm_confirm_auth x sm)) = es_suppPortStatus sm"
  by (simp_all add: eapol_sm_confirm_auth_def eact_def Let_def)

lemma pae_Enter_port_inv:
  assumes "port_inv sm"
  shows "port_inv (sm_SUPP_PAE_LOGOFF_Enter g sm)" "port_inv (sm_SUPP_PAE_DISCONNECTED_Enter g sm)"
    "port_inv (sm_SUPP_PAE_CONNECTING_Enter x g sm)" "port_inv (sm_SUPP_PAE_AUTHENTICATING_Enter g sm)"
    "port_inv (sm_SUPP_PAE_HELD_Enter x g sm)" "port_inv (sm_SUPP_PAE_AUTHENTICATED_Enter g sm)"
    "port_inv (sm_SUPP_PAE_RESTART_Enter x g sm)" "port_inv (sm_SUPP_PAE_S_FORCE_AUTH_Enter g sm)"
    "port_inv (sm_SUPP_PAE_S_FORCE_UNAUTH_Enter g sm)"
  using assms
  by (simp_all add: port_inv_def sm_SUPP_PAE_LOGOFF_Enter_def sm_SUPP_PAE_HELD_Enter_def
        sm_SUPP_PAE_AUTHENTICATED_Enter_def sm_SUPP_PAE_S_FORCE_AUTH_Enter_def
        sm_SUPP_PAE_S_FORCE_UNAUTH_Enter_def sm_SUPP_PAE_DISCONNECTED_Enter_def
        sm_SUPP_PAE_AUTHENTICATING_Enter_def sm_SUPP_PAE_RESTART_Enter_def Let_def split_beta)

lemma port_inv_frame: "port_inv sm \<Longrightarrow> port_frame sm sm' \<Longrightarrow> port_inv sm'"
  by (simp add: port_inv_def port_reported_def port_frame_def)

lemma pae_step_port_inv:
  assumes "port_inv sm"
  shows "port_inv (sm_SUPP_PAE_Step x sm)"
proof -
  have "port_inv (eact Eapol_done_cb (sm\<lparr> es_portValid := True \<rparr>))"
    using assms by (simp add: port_inv_def port_reported_def eact_def)
  then have "port_inv (sm_SUPP_PAE_step_authenticating x sm)"
    using assms unfolding sm_SUPP_PAE_step_authenticating_def Let_def by (simp add: pae_Enter_port_inv)
  then show ?thesis
    using assms unfolding sm_SUPP_PAE_Step_def sm_SUPP_PAE_step_connecting_def Let_def
    by (cases "es_pae sm") (simp_all add: pae_Enter_port_inv)
qed

interpretation pinv: eapol_loop port_inv x for x
  by unfold_locales (rule pae_step_port_inv, assumption, rule port_inv_frame)

text \<open>What the transitions of SUPP_PAE cannot change.\<close>

definition pae_frame :: "eapol_sm \<Rightarrow> eapol_sm \<Rightarrow> bool" where
  "pae_frame sm sm' \<longleftrightarrow> es_portEnabled sm' = es_portEnabled sm \<and>
     es_portControl sm' = es_portControl sm \<and> es_initialize sm' = es_initialize sm \<and>
     es_userLogoff sm' = es_userLogoff sm \<and> (es_portValid sm \<longrightarrow> es_portValid sm')"

interpretation pa: state_frame pae_frame
  by unfold_locales (auto simp: pae_frame_def)

lemma pae_frame_prims:
  "pae_frame sm (SM_ENTRY_SUPP_PAE g st sm)" "pae_frame sm (eapol_enable_timer_tick x sm)"
  "pae_frame sm (eapol_sm_txStart sm)" "pae_frame sm (eapol_sm_txLogoff sm)"
  "pae_frame sm (snd (eapol_sm_confirm_auth x sm))"
  "pae_frame sm (eapol_sm_set_port_authorized sm)" "pae_frame sm (eapol_sm_set_port_unauthorized sm)"
  "pae_frame sm (eact a sm)"
  by (simp_all add: pae_frame_def SM_ENTRY_SUPP_PAE_def eapol_enable_timer_tick_def
      eapol_sm_txStart_def eapol_sm_txLogoff_def eapol_sm_confirm_auth_def
      eapol_sm_set_port_authorized_def eapol_sm_set_port_unauthorized_def eact_def Let_def)

lemma pae_frame_upd:
  assumes "pae_frame s0 sm"
  shows "pae_frame s0 (sm\<lparr> es_cb_status := v1 \<rparr>)" "pae_frame s0 (sm\<lparr> es_sPortMode := v2 \<rparr>)"
  "pae_frame s0 (sm\<lparr> es_logoffSent := b \<rparr>)" "pae_frame s0 (sm\<lparr> es_heldWhile := t \<rparr>)"
  "pae_frame s0 (sm\<lparr> es_startCount := t \<rparr>)" "pae_frame s0 (sm\<lparr> es_startWhen := t \<rparr>)"
  "pae_frame s0 (sm\<lparr> es_eapTriggerStart := b \<rparr>)" "pae_frame s0 (sm\<lparr> es_suppAbort := b \<rparr>)"
  "pae_frame s0 (sm\<lparr> es_unicast_key_received := b \<rparr>)" "pae_frame s0 (sm\<lparr> es_broadcast_key_received := b \<rparr>)"
  "pae_frame s0 (sm\<lparr> es_suppSuccess := b \<rparr>)" "pae_frame s0 (sm\<lparr> es_suppFail := b \<rparr>)"
  "pae_frame s0 (sm\<lparr> es_suppTimeout := b \<rparr>)" "pae_frame s0 (sm\<lparr> es_keyRun := b \<rparr>)"
  "pae_frame s0 (sm\<lparr> es_keyDone := b \<rparr>)" "pae_frame s0 (sm\<lparr> es_suppStart := b \<rparr>)"
  "pae_frame s0 (sm\<lparr> es_eapRestart := b \<rparr>)" "pae_frame s0 (sm\<lparr> es_eapSuccess := b \<rparr>)"
  "pae_frame s0 (sm\<lparr> es_altAccept := b \<rparr>)" "pae_frame s0 (sm\<lparr> es_eapolEap := b \<rparr>)"
  "pae_frame s0 (sm\<lparr> es_portValid := True \<rparr>)"
  using assms by (simp_all add: pae_frame_def)

lemmas pae_frame_rules =
  pa.rules pae_frame_upd pae_frame_prims [THEN pa.trans [rotated]]

lemma pae_Enter_frame:
  assumes "pae_frame s0 sm"
  shows "pae_frame s0 (sm_SUPP_PAE_LOGOFF_Enter g sm)" "pae_frame s0 (sm_SUPP_PAE_DISCONNECTED_Enter g sm)"
    "pae_frame s0 (sm_SUPP_PAE_CONNECTING_Enter x g sm)" "pae_frame s0 (sm_SUPP_PAE_AUTHENTICATING_Enter g sm)"
    "pae_frame s0 (sm_SUPP_PAE_HELD_Enter x g sm)" "pae_frame s0 (sm_SUPP_PAE_AUTHENTICATED_Enter g sm)"
    "pae_frame s0 (sm_SUPP_PAE_RESTART_Enter x g sm)" "pae_frame s0 (sm_SUPP_PAE_S_FORCE_AUTH_Enter g sm)"
    "pae_frame s0 (sm_SUPP_PAE_S_FORCE_UNAUTH_Enter g sm)"
  unfolding sm_SUPP_PAE_LOGOFF_Enter_def sm_SUPP_PAE_HELD_Enter_def sm_SUPP_PAE_CONNECTING_Enter_def
        sm_SUPP_PAE_AUTHENTICATED_Enter_def sm_SUPP_PAE_S_FORCE_AUTH_Enter_def
        sm_SUPP_PAE_S_FORCE_UNAUTH_Enter_def sm_SUPP_PAE_DISCONNECTED_Enter_def
        sm_SUPP_PAE_AUTHENTICATING_Enter_def sm_SUPP_PAE_RESTART_Enter_def
  by (assumption | rule assms pae_frame_rules)+

lemma sm_SUPP_PAE_Step_frame: "pae_frame sm (sm_SUPP_PAE_Step x sm)"
proof -
  have "pae_frame sm (sm_SUPP_PAE_step_authenticating x sm)"
    unfolding sm_SUPP_PAE_step_authenticating_def
    by (assumption | rule pae_Enter_frame pae_frame_rules)+
  then show ?thesis
    unfolding sm_SUPP_PAE_Step_def sm_SUPP_PAE_step_connecting_def Let_def
    by (cases "es_pae sm") (simp_all add: pae_Enter_frame pa.refl)
qed

text \<open>A disabled port is not authorised, from the first round on.\<close>

definition port_off_inv :: "eapol_sm \<Rightarrow> bool" where
  "port_off_inv sm \<longleftrightarrow> (\<not> es_portEnabled sm \<longrightarrow> es_suppPortStatus sm = Unauthorized)"

lemma pae_step_port_off: "port_off_inv (sm_SUPP_PAE_Step x sm)"
proof (cases "es_portEnabled sm")
  case False
  then have "sm_SUPP_PAE_Step x sm = sm_SUPP_PAE_DISCONNECTED_Enter True sm"
    by (simp add: sm_SUPP_PAE_Step_def)
  then show ?thesis by (simp add: port_off_inv_def sm_SUPP_PAE_DISCONNECTED_Enter_def)
next
  case True
  then show ?thesis
    using sm_SUPP_PAE_Step_frame [of sm x] by (simp add: port_off_inv_def pae_frame_def)
qed

interpretation poff: eapol_loop port_off_inv x for x
  by unfold_locales (rule pae_step_port_off, simp add: port_off_inv_def port_frame_def)

lemma eapol_sm_step_port_off: "port_off_inv (eapol_sm_step x c sm)"
proof -
  have "port_off_inv (eapol_sm_round x c sm)"
    by (rule poff.frame [OF pae_step_port_off eapol_sm_round_port])
  then have "port_off_inv (eapol_sm_rounds x c (Suc n) sm)" for n
    using poff.rounds by (simp add: Let_def)
  from this [of 99] have "port_off_inv (eapol_sm_rounds x c 100 sm)"
    by (simp del: eapol_sm_rounds.simps)
  then show ?thesis by (rule poff.frame [OF _ eapol_sm_step_port])
qed

text \<open>A port gets authorised only while it is valid or forced.\<close>

definition port_auth_inv :: "bool \<Rightarrow> eapol_sm \<Rightarrow> bool" where
  "port_auth_inv before sm \<longleftrightarrow> (es_suppPortStatus sm = Authorized \<longrightarrow>
     before \<or> es_portValid sm \<or> es_portControl sm = ForceAuthorized)"

lemma port_auth_inv_frame: "port_auth_inv b sm \<Longrightarrow> port_frame sm sm' \<Longrightarrow> port_auth_inv b sm'"
  by (auto simp: port_auth_inv_def port_frame_def)

lemma port_auth_same:
  "port_auth_inv b sm \<Longrightarrow> port_same sm sm' \<Longrightarrow> pae_frame sm sm' \<Longrightarrow> port_auth_inv b sm'"
  by (auto simp: port_auth_inv_def port_same_def pae_frame_def)

lemma pae_Enter_auth:
  assumes "port_auth_inv b sm"
  shows "port_auth_inv b (sm_SUPP_PAE_LOGOFF_Enter g sm)" "port_auth_inv b (sm_SUPP_PAE_DISCONNECTED_Enter g sm)"
    "port_auth_inv b (sm_SUPP_PAE_CONNECTING_Enter x g sm)" "port_auth_inv b (sm_SUPP_PAE_AUTHENTICATING_Enter g sm)"
    "port_auth_inv b (sm_SUPP_PAE_HELD_Enter x g sm)" "port_auth_inv b (sm_SUPP_PAE_RESTART_Enter x g sm)"
    "port_auth_inv b (sm_SUPP_PAE_S_FORCE_UNAUTH_Enter g sm)"
    "es_portValid sm \<Longrightarrow> port_auth_inv b (sm_SUPP_PAE_AUTHENTICATED_Enter g sm)"
    "es_portControl sm = ForceAuthorized \<Longrightarrow> port_auth_inv b (sm_SUPP_PAE_S_FORCE_AUTH_Enter g sm)"
proof -
  show "port_auth_inv b (sm_SUPP_PAE_CONNECTING_Enter x g sm)"
    by (rule port_auth_same [OF assms sm_SUPP_PAE_CONNECTING_Enter_same pae_Enter_frame(3) [OF pa.refl]])
qed (use assms in \<open>simp_all add: port_auth_inv_def sm_SUPP_PAE_LOGOFF_Enter_def sm_SUPP_PAE_HELD_Enter_def
        sm_SUPP_PAE_AUTHENTICATED_Enter_def sm_SUPP_PAE_S_FORCE_AUTH_Enter_def
        sm_SUPP_PAE_S_FORCE_UNAUTH_Enter_def sm_SUPP_PAE_DISCONNECTED_Enter_def
        sm_SUPP_PAE_AUTHENTICATING_Enter_def sm_SUPP_PAE_RESTART_Enter_def Let_def split_beta
        SM_ENTRY_SUPP_PAE_def eapol_sm_confirm_auth_def eact_def\<close>)

lemma pae_step_auth:
  assumes "port_auth_inv b sm"
  shows "port_auth_inv b (sm_SUPP_PAE_Step x sm)"
proof -
  have "port_auth_inv b (eact Eapol_done_cb (sm\<lparr> es_portValid := True \<rparr>))"
    by (simp add: port_auth_inv_def eact_def)
  then have "port_auth_inv b (sm_SUPP_PAE_step_authenticating x sm)"
    using assms unfolding sm_SUPP_PAE_step_authenticating_def Let_def by (simp add: pae_Enter_auth)
  then show ?thesis
    using assms unfolding sm_SUPP_PAE_Step_def sm_SUPP_PAE_step_connecting_def Let_def
    by (cases "es_pae sm") (simp_all add: pae_Enter_auth)
qed

interpretation pauth: eapol_loop "port_auth_inv b" x for b x
  by unfold_locales (rule pae_step_auth, assumption, rule port_auth_inv_frame)


section \<open>Events\<close>

text \<open>What an event does before the state machines run.\<close>

definition event_pre :: "eapol_sm \<Rightarrow> eapol_sm \<Rightarrow> bool" where
  "event_pre sm s \<longleftrightarrow> (port_inv sm \<longrightarrow> port_inv s) \<and>
     (es_suppPortStatus s = Authorized \<longrightarrow> es_suppPortStatus sm = Authorized)"

definition event_result :: "eapol_env \<Rightarrow> crypto \<Rightarrow> eapol_sm \<Rightarrow> eapol_sm \<Rightarrow> bool" where
  "event_result x c sm sm' \<longleftrightarrow>
     event_pre sm sm' \<and> es_portEnabled sm' = es_portEnabled sm \<or>
     (\<exists>s. event_pre sm s \<and> sm' = eapol_sm_step x c s)"

lemma event_stepI: "event_pre sm s \<Longrightarrow> event_result x c sm (eapol_sm_step x c s)"
  by (auto simp: event_result_def)

lemma event_noneI: "port_frame sm sm' \<Longrightarrow> event_result x c sm sm'"
  by (auto simp: event_result_def event_pre_def port_inv_frame) (simp_all add: port_frame_def)

lemma event_pre_frame: "port_frame sm s \<Longrightarrow> event_pre sm s"
  by (auto simp: event_pre_def port_inv_frame) (simp add: port_frame_def)

lemma eapol_sm_abort_cached_pre: "event_pre sm (eapol_sm_abort_cached x sm)"
proof -
  define s where "s = eapol_sm_set_port_unauthorized
    (sm\<lparr> es_cached_pmk := False, es_pae := SUPP_PAE_CONNECTING \<rparr>)"
  have "port_frame s (eact Aborted_cached_cb (eapol_enable_timer_tick x (s\<lparr> es_startWhen := 3 \<rparr>)))" for s
    by (simp add: port_frame_def eact_def eapol_enable_timer_tick_def Let_def)
  then have s: "port_frame s (eapol_sm_abort_cached x sm)"
    by (simp only: eapol_sm_abort_cached_def s_def Let_def)
  have "port_inv s" if "port_inv sm"
  proof -
    have "port_reported (sm\<lparr> es_cached_pmk := False, es_pae := SUPP_PAE_CONNECTING \<rparr>)"
      using that by (simp add: port_inv_def port_reported_def)
    then show ?thesis by (simp add: port_inv_def s_def)
  qed
  moreover have "es_suppPortStatus (eapol_sm_abort_cached x sm) = Unauthorized"
  proof -
    have "es_suppPortStatus s = Unauthorized" by (simp add: s_def)
    with s show ?thesis by (simp only: port_frame_def)
  qed
  ultimately show ?thesis
    using port_inv_frame [OF _ s] by (simp add: event_pre_def)
qed

lemma port_inv_upd [simp]:
  "port_inv (sm\<lparr> es_eapReqData := v0 \<rparr>) = port_inv sm"
  "port_inv (sm\<lparr> es_eapolEap := v1 \<rparr>) = port_inv sm"
  "port_inv (sm\<lparr> es_last_rx_key := v2 \<rparr>) = port_inv sm"
  "port_inv (sm\<lparr> es_rxKey := v3 \<rparr>) = port_inv sm"
  "port_inv (sm\<lparr> es_portValid := v4 \<rparr>) = port_inv sm"
  "port_inv (sm\<lparr> es_eapSuccess := v5 \<rparr>) = port_inv sm"
  "port_inv (sm\<lparr> es_altAccept := v6 \<rparr>) = port_inv sm"
  "port_inv (sm\<lparr> es_eapFail := v7 \<rparr>) = port_inv sm"
  "port_inv (sm\<lparr> es_altReject := v8 \<rparr>) = port_inv sm"
  "port_inv (sm\<lparr> es_userLogoff := v9 \<rparr>) = port_inv sm"
  "port_inv (sm\<lparr> es_startWhen := v10 \<rparr>) = port_inv sm"
  "port_inv (sm\<lparr> es_cached_pmk := v11 \<rparr>) = port_inv sm"
  "port_inv (sm\<lparr> es_portControl := v12 \<rparr>) = port_inv sm"
  "port_inv (sm\<lparr> es_eapReq := v13 \<rparr>) = port_inv sm"
  "port_inv (sm\<lparr> es_conf := v14 \<rparr>) = port_inv sm"
  "port_inv (sm\<lparr> es_config := v15 \<rparr>) = port_inv sm"
  "port_inv (sm\<lparr> es_eap := v16 \<rparr>) = port_inv sm"
  "port_inv (sm\<lparr> es_dot1xSuppEapolFramesRx := v17 \<rparr>) = port_inv sm"
  "port_inv (sm\<lparr> es_dot1xSuppEapolFramesTx := v18 \<rparr>) = port_inv sm"
  "port_inv (sm\<lparr> es_dot1xSuppInvalidEapolFramesRx := v19 \<rparr>) = port_inv sm"
  "port_inv (sm\<lparr> es_dot1xSuppEapLengthErrorFramesRx := v20 \<rparr>) = port_inv sm"
  "port_inv (sm\<lparr> es_dot1xSuppLastEapolFrameVersion := v21 \<rparr>) = port_inv sm"
  "port_inv (sm\<lparr> es_dot1xSuppLastEapolFrameSource := v22 \<rparr>) = port_inv sm"
  "port_inv (sm\<lparr> es_initialize := v23 \<rparr>) = port_inv sm"
  by (simp_all add: port_inv_def port_reported_def)

lemma port_inv_upd_eap [simp]: "port_inv (upd_eap f sm) = port_inv sm" "es_suppPortStatus (upd_eap f sm) = es_suppPortStatus sm"
  by (simp_all add: upd_eap_def)

lemma eapol_port_timers_tick_result: "event_result x c sm (eapol_port_timers_tick x c sm)"
proof -
  have "port_frame s (if b then let t = eact Register_tick s in
      if x_eloop x (es_trace t) < 0 then t\<lparr> es_timer_tick_enabled := False \<rparr> else t
      else s\<lparr> es_timer_tick_enabled := False \<rparr>)" for s b
    by (simp add: port_frame_def eact_def Let_def)
  moreover have "port_frame sm (sm\<lparr> es_authWhile := t1, es_heldWhile := t2, es_startWhen := t3,
      es_idleWhile := t4 \<rparr>)" for t1 t2 t3 t4
    by (simp add: port_frame_def)
  ultimately show ?thesis
    unfolding eapol_port_timers_tick_def Let_def
    by (intro event_stepI event_pre_frame) (rule po.trans)
qed


lemma event_result_pre:
  assumes "event_result x c s sm'" "port_frame sm s"
  shows "event_result x c sm sm'"
proof -
  have e: "es_portEnabled s = es_portEnabled sm" "es_suppPortStatus s = es_suppPortStatus sm"
    using assms(2) by (simp_all add: port_frame_def)
  have "event_pre sm t" if "event_pre s t" for t
    using that port_inv_frame [OF _ assms(2)] e by (simp add: event_pre_def)
  with assms(1) e show ?thesis by (auto simp: event_result_def)
qed

text \<open>The rules follow the control flow of the receive functions.\<close>

definition rx_ok :: "eapol_env \<Rightarrow> crypto \<Rightarrow> eapol_sm \<Rightarrow> (int \<times> eapol_sm) option \<Rightarrow> bool" where
  "rx_ok x c sm r \<longleftrightarrow> (\<forall>n sm'. r = Some (n, sm') \<longrightarrow> event_result x c sm sm')"

lemma rx_ok_rules:
  "event_result x c sm sm' \<Longrightarrow> rx_ok x c sm (Some (n, sm'))"
  "rx_ok x c sm r \<Longrightarrow> rx_ok x c sm r' \<Longrightarrow> rx_ok x c sm (if b then r else r')"
  "(\<And>v. rx_ok x c sm (f v)) \<Longrightarrow> rx_ok x c sm (Option.bind m f)"
  "(\<And>v. v = t \<Longrightarrow> rx_ok x c sm (f v)) \<Longrightarrow> rx_ok x c sm (Let t f)"
  by (auto simp: rx_ok_def split: bind_splits)

lemma rx_ok_map_rules:
  "event_result x c sm sm' \<Longrightarrow> rx_ok x c sm (map_option (Pair n) (Some sm'))"
  "rx_ok x c sm (map_option f r) \<Longrightarrow> rx_ok x c sm (map_option f r') \<Longrightarrow>
   rx_ok x c sm (map_option f (if b then r else r'))"
  "(\<And>v. rx_ok x c sm (map_option f (g v))) \<Longrightarrow> rx_ok x c sm (map_option f (Option.bind m g))"
  by (auto simp: rx_ok_def split: bind_splits)

lemma event_result_if:
  "event_result x c sm s \<Longrightarrow> event_result x c sm t \<Longrightarrow> event_result x c sm (if b then s else t)"
  by simp

lemma rx_ok_pre: "rx_ok x c s r \<Longrightarrow> port_frame sm s \<Longrightarrow> rx_ok x c sm r"
  using event_result_pre by (auto simp: rx_ok_def)

lemma eapol_rx_eapol_key_ok: "rx_ok x c sm (eapol_rx_eapol_key x c buf plen sm)"
proof -
  have "event_result x c sm (eapol_sm_step x c (sm\<lparr> es_last_rx_key := Some f, es_rxKey := True \<rparr>))" for f
    by (rule event_stepI) (simp add: event_pre_def)
  moreover have "event_result x c sm (sm\<lparr> es_last_rx_key := None \<rparr>)"
    by (rule event_noneI) (simp add: port_frame_def)
  ultimately show ?thesis
    unfolding eapol_rx_eapol_key_def
    by (intro rx_ok_rules event_result_if event_noneI [OF po.refl])
qed

lemma eapol_rx_eap_packet_ok:
  "rx_ok x c sm (map_option (Pair 1) (eapol_rx_eap_packet x c buf plen sm))"
proof -
  define s where "s = (if es_cached_pmk sm then eapol_sm_abort_cached x sm else sm)"
  have s: "event_pre sm s"
    by (simp add: s_def eapol_sm_abort_cached_pre) (simp add: event_pre_def)
  have en: "es_portEnabled s = es_portEnabled sm"
    by (simp add: s_def eapol_sm_abort_cached_def eact_def eapol_enable_timer_tick_def Let_def)
  have "event_result x c sm (eapol_sm_step x c (s\<lparr> es_eapReqData := Some d, es_eapolEap := True \<rparr>))" for d
    by (rule event_stepI) (use s in \<open>simp add: event_pre_def\<close>)
  moreover have "event_result x c sm (s\<lparr> es_eapReqData := None \<rparr>)"
    using s en by (simp add: event_result_def event_pre_def)
  ultimately have *: "event_result x c sm
      (if b then eapol_sm_step x c (s\<lparr> es_eapReqData := Some d, es_eapolEap := True \<rparr>)
       else s\<lparr> es_eapReqData := None \<rparr>)" for b d by simp
  show ?thesis
    unfolding eapol_rx_eap_packet_def s_def [symmetric] Let_def
    by (intro rx_ok_map_rules * event_noneI [OF po.refl])
qed

lemma eapol_sm_rx_eapol_ok: "rx_ok x c sm (eapol_sm_rx_eapol x c src buf sm)"
proof -
  define s1 where "s1 = sm\<lparr> es_dot1xSuppEapolFramesRx := es_dot1xSuppEapolFramesRx sm + 1 \<rparr>"
  define s2 where "s2 v = s1\<lparr> es_dot1xSuppLastEapolFrameVersion := v,
    es_dot1xSuppLastEapolFrameSource := src \<rparr>" for v
  have s2: "port_frame sm (s2 v)" for v by (simp add: s1_def s2_def port_frame_def)
  have "event_result x c sm (s1\<lparr> es_dot1xSuppInvalidEapolFramesRx := n \<rparr>)"
    "event_result x c sm ((s2 v)\<lparr> es_dot1xSuppInvalidEapolFramesRx := n \<rparr>)"
    "event_result x c sm ((s2 v)\<lparr> es_dot1xSuppEapLengthErrorFramesRx := n \<rparr>)" for n v
    by (rule event_noneI, simp add: s1_def s2_def port_frame_def)+
  then show ?thesis
    unfolding eapol_sm_rx_eapol_def s1_def [symmetric] s2_def [symmetric] Let_def
    by (intro rx_ok_rules rx_ok_pre [OF eapol_rx_eapol_key_ok s2] rx_ok_pre [OF eapol_rx_eap_packet_ok s2])
qed

lemma eapol_handle_result: "event_result x c sm (eapol_handle x c ev sm)"
proof (cases ev)
  case Ev_tick
  then show ?thesis by (simp add: eapol_port_timers_tick_result)
next
  case (Ev_rx src buf)
  then show ?thesis
    using eapol_sm_rx_eapol_ok [of x c sm src buf]
    by (simp add: rx_ok_def event_noneI po.refl split: option.split)
next
  case (Ev_config cf conf)
  then show ?thesis
    by (auto simp: eapol_sm_notify_config_def Let_def eap_set_fast_reauth_def eap_set_workaround_def
        eap_set_force_disabled_def eap_set_external_sim_def upd_eap_def port_frame_def
        intro!: event_noneI split: option.split)
next
  case Ev_reauth
  then show ?thesis
    by (auto simp: eapol_sm_request_reauth_def eapol_sm_txStart_def eact_def port_frame_def po.refl
        intro!: event_noneI)
next
  case Ev_invalidate
  then show ?thesis
    by (auto simp: eapol_sm_invalidate_cached_session_def eap_invalidate_cached_session_def
        intro!: event_noneI eap_frame_port eap_deinit_prev_method_frame ef.refl)
next
  case (Ev_portEnabled b)
  have "port_inv (t\<lparr> es_portEnabled := b \<rparr>) = port_inv t"
    "port_inv sm \<Longrightarrow> port_inv (sm\<lparr> es_force_authorized_update := True \<rparr>)" for t
    by (simp_all add: port_inv_def port_reported_def)
  then have "event_pre sm ((if u then sm\<lparr> es_force_authorized_update := True \<rparr> else sm)\<lparr> es_portEnabled := b \<rparr>)" for u
    by (simp add: event_pre_def)
  then show ?thesis
    by (simp only: Ev_portEnabled eapol_handle.simps eapol_sm_notify_portEnabled_def Let_def event_stepI)
next
  case Ev_lower_layer_success
  then show ?thesis
    by (simp add: eapol_sm_notify_lower_layer_success_def event_stepI event_pre_frame
        eap_notify_lower_layer_success_port)
next
  case Ev_pmkid_attempt
  then show ?thesis by (simp add: eapol_sm_notify_pmkid_attempt_def event_noneI port_frame_def)
next
  case Ev_tx_eapol_key
  then show ?thesis by (simp add: eapol_sm_notify_tx_eapol_key_def event_noneI port_frame_def)
next
  case Ev_ctrl_response
  then show ?thesis
    by (simp add: eapol_sm_notify_ctrl_response_def event_noneI po.refl event_stepI event_pre_def)
next
  case Ev_pending
  then show ?thesis
    by (simp add: eapol_sm_notify_pending_def event_noneI po.refl event_stepI event_pre_def)
qed (simp_all add: eapol_sm_step_timeout_def eapol_sm_notify_portValid_def
    eapol_sm_notify_eap_success_def eapol_sm_notify_eap_fail_def eapol_sm_notify_logoff_def
    eapol_sm_notify_cached_def eapol_sm_notify_portControl_def
    eap_notify_success_def event_stepI event_pre_def Let_def)


lemma event_result_port_inv:
  assumes "event_result x c sm sm'" "port_inv sm" "port_off_inv sm"
  shows "port_inv sm' \<and> port_off_inv sm'"
  using assms(1) unfolding event_result_def
proof (elim disjE conjE exE)
  assume "event_pre sm sm'" "es_portEnabled sm' = es_portEnabled sm"
  with assms(2,3) show ?thesis
    unfolding event_pre_def port_off_inv_def by (cases "es_suppPortStatus sm'") auto
next
  fix s assume "event_pre sm s" "sm' = eapol_sm_step x c s"
  with assms(2) show ?thesis
    by (simp add: event_pre_def pinv.step eapol_sm_step_port_off)
qed

lemma eapol_sm_init_port_inv:
  assumes "eapol_sm_init x c tls_ok = Some sm"
  shows "port_inv sm \<and> port_off_inv sm"
proof -
  obtain eap where eap: "eap_peer_sm_init tls_ok = Some eap"
    using assms by (cases "eap_peer_sm_init tls_ok") (simp_all add: eapol_sm_init_def)
  define z where "z = eapol_sm_zero\<lparr> es_portControl := Auto, es_heldPeriod := 60, es_startPeriod := 30,
      es_maxStart := 3, es_authPeriod := 30, es_eap := eap, es_force_authorized_update := True,
      es_initialize := True \<rparr>"
  define t where "t = eapol_sm_step x c ((eapol_sm_step x c z)\<lparr> es_initialize := False \<rparr>)"
  have "sm = (if x_eloop x (es_trace (eact Register_tick t)) = 0
      then (eact Register_tick t)\<lparr> es_timer_tick_enabled := True \<rparr> else eact Register_tick t)"
    using assms by (simp only: eapol_sm_init_def eap option.case z_def t_def Let_def option.inject)
  then have sm: "port_frame t sm" by (simp add: port_frame_def eact_def)
  have "port_inv z" by (simp add: z_def port_inv_def port_reported_def eapol_sm_zero_def)
  then have "port_inv t" unfolding t_def by (intro pinv.step) (simp add: pinv.step)
  moreover have "port_off_inv t" unfolding t_def by (rule eapol_sm_step_port_off)
  ultimately show ?thesis using port_inv_frame [OF _ sm] poff.frame [OF _ sm] by blast
qed

lemma eapol_reachable_port_inv: "eapol_reachable x c sm \<Longrightarrow> port_inv sm \<and> port_off_inv sm"
  by (induction rule: eapol_reachable.induct)
    (auto simp: eapol_sm_init_port_inv event_result_port_inv [OF eapol_handle_result])

text \<open>C11: in every reachable state of the EAPOL supplicant the status of the port fits the
  state of the port access machine, a disabled port is unauthorised, and the last report to
  the rest of the program was the present status, unless a new report is due.\<close>

theorem port_status_consistent:
  assumes "eapol_reachable x c sm"
  shows "(es_pae sm \<in> {SUPP_PAE_DISCONNECTED, SUPP_PAE_LOGOFF, SUPP_PAE_HELD, SUPP_PAE_S_FORCE_UNAUTH} \<longrightarrow>
      es_suppPortStatus sm = Unauthorized) \<and>
    (es_pae sm \<in> {SUPP_PAE_AUTHENTICATED, SUPP_PAE_S_FORCE_AUTH} \<longrightarrow>
      es_suppPortStatus sm = Authorized) \<and>
    (\<not> es_portEnabled sm \<longrightarrow> es_suppPortStatus sm = Unauthorized) \<and>
    (es_force_authorized_update sm \<or>
      last_port (es_trace sm) = Some (es_suppPortStatus sm = Authorized))"
  using eapol_reachable_port_inv [OF assms]
  by (simp add: port_inv_def port_off_inv_def port_reported_def)

lemma eapol_handle_authorized:
  assumes "es_suppPortStatus sm = Unauthorized"
    and "es_suppPortStatus (eapol_handle x c ev sm) = Authorized"
  shows "es_portValid (eapol_handle x c ev sm) \<or>
    es_portControl (eapol_handle x c ev sm) = ForceAuthorized"
proof -
  from eapol_handle_result [of x c sm ev] assms obtain s where
    s: "event_pre sm s" "eapol_handle x c ev sm = eapol_sm_step x c s"
    by (auto simp: event_result_def event_pre_def)
  with assms(1) have "port_auth_inv False s" by (auto simp: event_pre_def port_auth_inv_def)
  from pauth.step [OF this] s assms(2) show ?thesis by (simp add: port_auth_inv_def)
qed

text \<open>C10: whatever happens, the port becomes authorised only if it is valid, that is, the key
  handshake or the IEEE 802.1X key frames completed, or if the configuration forces it.\<close>

theorem port_authorized_needs_valid:
  assumes "es_suppPortStatus sm = Unauthorized"
    and "es_suppPortStatus (eapol_handle x c ev sm) = Authorized"
  shows "es_portValid (eapol_handle x c ev sm) \<or>
    es_portControl (eapol_handle x c ev sm) = ForceAuthorized"
  using assms by (rule eapol_handle_authorized)


section \<open>Completion of the key handshake\<close>

text \<open>With EAP disabled, as for pre-shared keys, the EAP peer only returns to its state
  DISABLED.\<close>

lemma eap_peer_sm_step_disabled:
  assumes "ea_force_disabled (es_eap sm)" "\<not> es_eapRestart sm"
  shows "eap_peer_sm_step x sm = (ea_state (es_eap sm) \<noteq> EAP_DISABLED, snd (eap_peer_sm_step x sm))"
    and "ea_state (es_eap (snd (eap_peer_sm_step x sm))) = EAP_DISABLED"
    and "es_eapSuccess (snd (eap_peer_sm_step x sm)) = es_eapSuccess sm"
    and "es_eapRestart (snd (eap_peer_sm_step x sm)) = False"
    and "es_eapFail (snd (eap_peer_sm_step x sm)) = es_eapFail sm"
proof -
  have fail: "es_eapFail (sm_EAP_DISABLED_Enter x g s) = es_eapFail s" for g s
    by (simp add: sm_EAP_DISABLED_Enter_def eapol_sm_set_idleWhile_def upd_eap_def SM_ENTRY_EAP_def)
  have step: "eap_one_step x s = sm_EAP_DISABLED_Enter x True (upd_eap (\<lambda>e. e\<lparr> ea_changed := False \<rparr>) s)"
    if "ea_force_disabled (es_eap s)" "\<not> es_eapRestart s" for s
    using that by (simp add: eap_one_step_def sm_EAP_Step_def eap_simps)
  let ?t = "eap_one_step x sm" let ?u = "eap_one_step x ?t"
  have t: "ea_force_disabled (es_eap ?t)" "\<not> es_eapRestart ?t" "ea_state (es_eap ?t) = EAP_DISABLED"
    "es_eapSuccess ?t = es_eapSuccess sm" "es_eapFail ?t = es_eapFail sm" "ea_changed (es_eap ?t) \<longleftrightarrow> ea_state (es_eap sm) \<noteq> EAP_DISABLED"
    using step [OF assms] assms by (simp_all add: eap_simps fail)
  have u: "\<not> es_eapRestart ?u" "ea_state (es_eap ?u) = EAP_DISABLED"
    "es_eapSuccess ?u = es_eapSuccess sm" "es_eapFail ?u = es_eapFail sm" "\<not> ea_changed (es_eap ?u)"
    using step [OF t(1,2)] t by (simp_all add: eap_simps fail)
  have r: "eap_peer_sm_step x sm = (if ea_state (es_eap sm) = EAP_DISABLED then (False, ?t) else (True, ?u))"
    using t u by (simp add: eap_peer_sm_step_def eap_peer_sm_loop_unfold [of x False sm]
        eap_peer_sm_loop_unfold [of x True ?t])
  show "eap_peer_sm_step x sm = (ea_state (es_eap sm) \<noteq> EAP_DISABLED, snd (eap_peer_sm_step x sm))"
    "ea_state (es_eap (snd (eap_peer_sm_step x sm))) = EAP_DISABLED"
    "es_eapSuccess (snd (eap_peer_sm_step x sm)) = es_eapSuccess sm"
    "es_eapRestart (snd (eap_peer_sm_step x sm)) = False"
    "es_eapFail (snd (eap_peer_sm_step x sm)) = es_eapFail sm"
    using t u by (simp_all add: r)
qed

text \<open>The port waits for the key handshake: nothing else is pending.\<close>

definition psk_waiting :: "eapol_sm \<Rightarrow> bool" where
  "psk_waiting sm \<longleftrightarrow> es_pae sm = SUPP_PAE_CONNECTING \<and> es_startWhen sm \<noteq> 0 \<and> es_portEnabled sm \<and>
     \<not> es_initialize sm \<and> \<not> es_userLogoff sm \<and> es_portControl sm = Auto \<and> es_sPortMode sm = Auto \<and>
     \<not> es_eapFail sm \<and> \<not> es_eapRestart sm \<and> \<not> es_suppAbort sm \<and> \<not> es_suppStart sm \<and>
     \<not> es_rxKey sm \<and> \<not> es_eapolEap sm \<and> es_be sm = SUPP_BE_IDLE \<and> ea_force_disabled (es_eap sm)"

definition psk_authenticated :: "eapol_sm \<Rightarrow> bool" where
  "psk_authenticated sm \<longleftrightarrow> es_pae sm = SUPP_PAE_AUTHENTICATED \<and> es_suppPortStatus sm = Authorized \<and>
     es_portValid sm \<and> \<not> es_eapolEap sm \<and> es_portEnabled sm \<and> \<not> es_initialize sm \<and>
     \<not> es_userLogoff sm \<and> es_portControl sm = Auto \<and> es_sPortMode sm = Auto \<and>
     \<not> es_force_authorized_update sm \<and> last_port (es_trace sm) = Some True"

lemma psk_authenticated_stable: "psk_authenticated sm \<Longrightarrow> sm_SUPP_PAE_Step x sm = sm"
  by (simp add: psk_authenticated_def sm_SUPP_PAE_Step_def)

interpretation pska: eapol_loop psk_authenticated x for x
  by unfold_locales (simp add: psk_authenticated_stable, auto simp: psk_authenticated_def port_frame_def)

lemma psk_KEY_RX: "\<not> es_initialize sm \<Longrightarrow> es_portEnabled sm \<Longrightarrow> \<not> es_rxKey sm \<Longrightarrow> sm_KEY_RX_Step x c sm = sm"
  by (simp add: sm_KEY_RX_Step_def split: KEY_RX_state.split)

text \<open>First round after the success of EAP was signalled: both PAE and BE move on.\<close>

lemma psk_first_round:
  assumes "psk_waiting sm" "es_portValid sm" "es_eapSuccess sm" "port_reported sm"
    "ea_state (es_eap sm) \<noteq> EAP_DISABLED" and s1_def: "s1 = eapol_sm_round x c sm"
  shows "es_changed s1 \<and> es_pae s1 = SUPP_PAE_AUTHENTICATING \<and> es_eapSuccess s1 \<and> es_portValid s1 \<and>
    es_portEnabled s1 \<and> \<not> es_initialize s1 \<and> \<not> es_userLogoff s1 \<and> es_portControl s1 = Auto \<and>
    es_sPortMode s1 = Auto \<and> \<not> es_eapolEap s1 \<and> port_reported s1"
proof -
  define a where "a = sm_SUPP_PAE_AUTHENTICATING_Enter False (sm\<lparr> es_changed := False \<rparr>)"
  define b where "b = sm_SUPP_BE_SUCCESS_Enter False a"
  have pae: "sm_SUPP_PAE_Step x (sm\<lparr> es_changed := False \<rparr>) = a"
    using assms(1-3) by (simp add: psk_waiting_def sm_SUPP_PAE_Step_def sm_SUPP_PAE_step_connecting_def a_def)
  have key: "sm_KEY_RX_Step x c a = a"
    by (rule psk_KEY_RX) (use assms(1) in \<open>simp_all add: a_def psk_waiting_def
        sm_SUPP_PAE_AUTHENTICATING_Enter_def SM_ENTRY_SUPP_PAE_def\<close>)
  have be: "sm_SUPP_BE_Step x a = b"
    using assms(1,3) by (simp add: a_def b_def psk_waiting_def sm_SUPP_BE_Step_def
        sm_SUPP_PAE_AUTHENTICATING_Enter_def SM_ENTRY_SUPP_PAE_def)
  have eap: "ea_force_disabled (es_eap b)" "\<not> es_eapRestart b" "ea_state (es_eap b) \<noteq> EAP_DISABLED"
    using assms(1,5) by (simp_all add: b_def a_def psk_waiting_def sm_SUPP_BE_SUCCESS_Enter_def
        SM_ENTRY_SUPP_BE_def sm_SUPP_PAE_AUTHENTICATING_Enter_def SM_ENTRY_SUPP_PAE_def Let_def)
  have s1: "s1 = (snd (eap_peer_sm_step x b))\<lparr> es_changed := True \<rparr>"
    unfolding s1_def eapol_sm_round_def pae key be Let_def
    by (subst eap_peer_sm_step_disabled(1) [OF eap(1,2)]) (simp add: eap(3))
  have bf: "es_pae b = SUPP_PAE_AUTHENTICATING" "es_eapSuccess b" "es_portValid b" "es_portEnabled b"
    "\<not> es_initialize b" "\<not> es_userLogoff b" "es_portControl b = Auto" "es_sPortMode b = Auto"
    "\<not> es_eapolEap b" "port_reported b"
    using assms(1-4) by (simp_all add: b_def a_def psk_waiting_def sm_SUPP_BE_SUCCESS_Enter_def
        SM_ENTRY_SUPP_BE_def sm_SUPP_PAE_AUTHENTICATING_Enter_def SM_ENTRY_SUPP_PAE_def Let_def
        port_reported_def)
  have f: "port_frame b (snd (eap_peer_sm_step x b))" by (rule eap_peer_sm_step_port)
  show ?thesis
    using bf f eap_peer_sm_step_disabled(3) [OF eap(1,2), of x]
    unfolding s1 by (auto simp: port_frame_def port_reported_def)
qed

lemma psk_second_round:
  assumes "es_pae sm = SUPP_PAE_AUTHENTICATING" "es_eapSuccess sm" "es_portValid sm"
    "es_portEnabled sm" "\<not> es_initialize sm" "\<not> es_userLogoff sm" "es_portControl sm = Auto"
    "es_sPortMode sm = Auto" "\<not> es_eapolEap sm" "port_reported sm"
  shows "psk_authenticated (eapol_sm_round x c sm)"
proof (rule pska.frame [OF _ eapol_sm_round_port])
  have "sm_SUPP_PAE_Step x (sm\<lparr> es_changed := False \<rparr>) =
      sm_SUPP_PAE_AUTHENTICATED_Enter False (sm\<lparr> es_changed := False \<rparr>)"
    using assms by (simp add: sm_SUPP_PAE_Step_def sm_SUPP_PAE_step_authenticating_def)
  moreover have "psk_authenticated (sm_SUPP_PAE_AUTHENTICATED_Enter False (sm\<lparr> es_changed := False \<rparr>))"
    using assms by (cases "es_suppPortStatus sm")
      (auto simp: psk_authenticated_def sm_SUPP_PAE_AUTHENTICATED_Enter_def SM_ENTRY_SUPP_PAE_def
       eapol_sm_set_port_authorized_def eact_def port_reported_def Let_def)
  ultimately show "psk_authenticated (sm_SUPP_PAE_Step x (sm\<lparr> es_changed := False \<rparr>))" by simp
qed


text \<open>Before that, nothing happens.\<close>

definition psk_idle :: "eapol_sm \<Rightarrow> bool" where
  "psk_idle sm \<longleftrightarrow> psk_waiting sm \<and> \<not> es_eapSuccess sm \<and> es_portValid sm \<and> port_reported sm"

lemma psk_idle_changed: "psk_idle (sm\<lparr> es_changed := b \<rparr>) = psk_idle sm"
  by (simp add: psk_idle_def psk_waiting_def port_reported_def)

lemma psk_idle_eap:
  assumes "psk_idle sm"
  shows "psk_idle (snd (eap_peer_sm_step x sm))"
proof -
  have e: "ea_force_disabled (es_eap sm)" "\<not> es_eapRestart sm" "\<not> es_eapFail sm" "\<not> es_eapSuccess sm"
    using assms by (simp_all add: psk_idle_def psk_waiting_def)
  define t where "t = snd (eap_peer_sm_step x sm)"
  have t: "\<not> es_eapRestart t" "\<not> es_eapFail t" "\<not> es_eapSuccess t"
    using eap_peer_sm_step_disabled [OF e(1,2), of x] e by (simp_all add: t_def)
  have f: "eap_frame sm t" unfolding t_def by (rule eap_peer_sm_step_frame [OF ef.refl])
  have "psk_waiting t"
    using f assms t by (elim eap_frameE) (simp add: psk_idle_def psk_waiting_def)
  moreover have "port_reported t" "es_portValid t"
    using eap_frame_port [OF f] assms by (simp_all add: psk_idle_def port_frame_def port_reported_def)
  ultimately show ?thesis using t by (simp add: psk_idle_def t_def)
qed

lemma psk_idle_round:
  assumes "psk_idle sm"
  shows "psk_idle (eapol_sm_round x c sm)"
proof -
  define s where "s = sm\<lparr> es_changed := False \<rparr>"
  have s: "psk_idle s" using assms by (simp add: s_def psk_idle_changed)
  then have "sm_SUPP_PAE_Step x s = s" "sm_KEY_RX_Step x c s = s" "sm_SUPP_BE_Step x s = s"
    by (simp_all add: psk_idle_def psk_waiting_def sm_SUPP_PAE_Step_def sm_SUPP_PAE_step_connecting_def
        psk_KEY_RX sm_SUPP_BE_Step_def)
  then show ?thesis
    using psk_idle_eap [OF s, of x]
    by (simp add: eapol_sm_round_def s_def [symmetric] split_beta psk_idle_changed)
qed

lemma psk_idle_step: "psk_idle sm \<Longrightarrow> psk_idle (eapol_sm_step x c sm)"
proof -
  assume "psk_idle sm"
  then have "psk_idle (eapol_sm_rounds x c n sm)" for n
    by (induction n arbitrary: sm) (simp_all add: psk_idle_round Let_def)
  moreover have "psk_idle (eapol_sm_result x s)" if "psk_idle s" for s
    using that by (simp add: eapol_sm_result_def Let_def eact_def psk_idle_def psk_waiting_def port_reported_def)
  moreover have "psk_idle (if b then eact Register_step (eact Cancel_step s) else s)" if "psk_idle s" for s b
    using that by (simp add: eact_def psk_idle_def psk_waiting_def port_reported_def)
  ultimately show ?thesis unfolding eapol_sm_step_def Let_def by blast
qed

lemma psk_success_authenticates:
  assumes "psk_idle s"
  shows "psk_authenticated (eapol_sm_notify_eap_success x c True s)"
proof -
  define t where "t = eap_notify_success (s\<lparr> es_eapSuccess := True, es_altAccept := True \<rparr>)"
  have t: "psk_waiting t" "es_portValid t" "es_eapSuccess t" "port_reported t"
    "ea_state (es_eap t) \<noteq> EAP_DISABLED"
    using assms by (simp_all add: t_def psk_idle_def psk_waiting_def eap_notify_success_def upd_eap_def
        port_reported_def)
  define u where "u = eapol_sm_round x c t"
  from psk_first_round [OF t u_def] have u: "es_changed u" "psk_authenticated (eapol_sm_round x c u)"
    by (auto intro!: psk_second_round)
  have "eapol_sm_rounds x c (Suc (Suc n)) t = (if \<not> es_changed (eapol_sm_round x c u)
      then eapol_sm_round x c u else eapol_sm_rounds x c n (eapol_sm_round x c u))" for n
    using u(1) by (simp add: u_def Let_def)
  then have "psk_authenticated (eapol_sm_rounds x c (Suc (Suc 98)) t)"
    using u(2) pska.rounds by presburger
  then have "psk_authenticated (eapol_sm_step x c t)"
    using pska.frame [OF _ eapol_sm_step_port] by (simp del: eapol_sm_rounds.simps)
  then show ?thesis by (simp add: t_def eapol_sm_notify_eap_success_def)
qed

lemma psk_handshake_authenticates:
  assumes "psk_waiting sm" "\<not> es_eapSuccess sm" "port_reported sm"
  shows "psk_authenticated (eapol_sm_notify_eap_success x c True (eapol_sm_notify_portValid x c True sm))"
proof (rule psk_success_authenticates)
  have "psk_idle (sm\<lparr> es_portValid := True \<rparr>)"
    using assms by (simp add: psk_idle_def psk_waiting_def port_reported_def)
  then show "psk_idle (eapol_sm_notify_portValid x c True sm)"
    by (simp add: eapol_sm_notify_portValid_def psk_idle_step)
qed

text \<open>A network with a pre-shared key, shortly after association.\<close>

definition psk_sm0 :: eapol_sm where
  "psk_sm0 = eapol_sm_zero\<lparr> es_pae := SUPP_PAE_CONNECTING, es_startWhen := 2, es_portEnabled := True,
     es_be := SUPP_BE_IDLE, es_force_authorized_update := True,
     es_eap := eap_sm_zero\<lparr> ea_state := EAP_DISABLED, ea_force_disabled := True \<rparr> \<rparr>"

lemma psk_sm0_waiting: "psk_waiting psk_sm0" "\<not> es_eapSuccess psk_sm0" "port_reported psk_sm0"
  "es_suppPortStatus psk_sm0 = Unauthorized"
  by (simp_all add: psk_waiting_def psk_sm0_def eapol_sm_zero_def port_reported_def)

theorem port_authorized_needs_valid_witness:
  "es_portValid (eapol_handle eap_env0 crypto_sample (Ev_eap_success True) (psk_sm0\<lparr> es_portValid := True \<rparr>)) \<or>
   es_portControl (eapol_handle eap_env0 crypto_sample (Ev_eap_success True) (psk_sm0\<lparr> es_portValid := True \<rparr>)) =
     ForceAuthorized"
proof (rule port_authorized_needs_valid)
  show "es_suppPortStatus (psk_sm0\<lparr> es_portValid := True \<rparr>) = Unauthorized"
    by (simp add: psk_sm0_waiting)
  have "psk_idle (psk_sm0\<lparr> es_portValid := True \<rparr>)"
    using psk_sm0_waiting by (simp add: psk_idle_def psk_waiting_def port_reported_def)
  from psk_success_authenticates [OF this]
  show "es_suppPortStatus (eapol_handle eap_env0 crypto_sample (Ev_eap_success True)
      (psk_sm0\<lparr> es_portValid := True \<rparr>)) = Authorized"
    by (simp add: psk_authenticated_def)
qed

lemma eapol_sm_init_Some: "\<exists>sm. eapol_sm_init x c True = Some sm"
  by (simp add: eapol_sm_init_def eap_peer_sm_init_def Let_def)

theorem port_status_consistent_witness:
  "\<exists>sm. eapol_sm_init eap_env0 crypto_sample True = Some sm \<and>
     (es_force_authorized_update sm \<or>
      last_port (es_trace sm) = Some (es_suppPortStatus sm = Authorized))"
proof -
  obtain sm where sm: "eapol_sm_init eap_env0 crypto_sample True = Some sm"
    using eapol_sm_init_Some by blast
  from port_status_consistent [OF eapol_reachable.init [OF this]] sm show ?thesis by blast
qed

end
