(* ===== verification/EAPOL_Key.thy ===== *)
theory EAPOL_Key
  imports EAPOL_Port
begin

text \<open>
  Dynamic WEP keys: an IEEE 802.1X EAPOL-Key frame is accepted only with a growing
  replay counter and a signature made with the key from EAP.
\<close>


section \<open>Dynamic WEP keys\<close>

lemma lower_layer_success_keeps:
  "es_trace (eap_notify_lower_layer_success sm) = es_trace sm"
  "es_portValid (eap_notify_lower_layer_success sm) = es_portValid sm"
  "es_replay_counter_valid (eap_notify_lower_layer_success sm) = es_replay_counter_valid sm"
  "es_last_replay_counter (eap_notify_lower_layer_success sm) = es_last_replay_counter sm"
  "es_last_rx_key (eap_notify_lower_layer_success sm) = es_last_rx_key sm"
  "es_conf (eap_notify_lower_layer_success sm) = es_conf sm"
  by (simp_all add: eap_notify_lower_layer_success_def Let_def upd_eap_def)

lemma eapol_set_wep_key_keeps:
  "es_replay_counter_valid (eapol_set_wep_key x i k sm) = es_replay_counter_valid sm"
  "es_last_replay_counter (eapol_set_wep_key x i k sm) = es_last_replay_counter sm"
  "es_last_rx_key (eapol_set_wep_key x i k sm) = es_last_rx_key sm"
  by (simp_all add: eapol_set_wep_key_def eact_def Let_def)

text \<open>The MAC of the frame is right.  When the library cannot compute HMAC-MD5, the cleared
  signature field is compared with the received one.\<close>

definition wep_frame_signed :: "crypto \<Rightarrow> bytes \<Rightarrow> bytes \<Rightarrow> nat \<Rightarrow> bool" where
  "wep_frame_signed c f sign_key plen \<longleftrightarrow>
     (case hmac_md5_vector c sign_key (take (4 + plen) (overwrite 32 (zeros 16) f)) of
        Some mac \<Rightarrow> slice 32 16 f = mac
      | None \<Rightarrow> slice 32 16 f = zeros 16)"

lemma eapol_key_verify_True:
  assumes "eapol_key_verify c f k plen sm = Some True"
  shows "es_replay_counter_valid sm \<longrightarrow>
      os_memcmp (take 8 (es_last_replay_counter sm)) (slice 7 8 f) < 0"
    and "wep_frame_signed c f k plen"
  using assms by (auto simp: eapol_key_verify_def wep_frame_signed_def rd_slice_def Let_def
      split: if_splits bind_splits option.splits)

lemma eapol_key_accept_changed:
  assumes "eapol_key_accept x c f plen n (sk, ek, el) sm = Some sm'" "sm' \<noteq> sm"
  obtains ki dk where "eapol_key_verify c f sk plen sm = Some True"
    "eapol_datakey f ek el (plen - 44) n = Some (Some dk)"
    "sm' = eapol_set_wep_key x ki dk (sm\<lparr> es_replay_counter_valid := True,
       es_last_replay_counter := overwrite 0 (slice 7 8 f) (es_last_replay_counter sm) \<rparr>)"
proof -
  from assms(1) obtain ok where v: "eapol_key_verify c f sk plen sm = Some ok"
    unfolding eapol_key_accept_def by (auto split: bind_splits)
  with assms have ok by (cases ok) (simp_all add: eapol_key_accept_def)
  with assms(1) v obtain d where d: "eapol_datakey f ek el (plen - 44) n = Some d"
    unfolding eapol_key_accept_def by (auto split: bind_splits)
  with assms v \<open>ok\<close> obtain dk where dk: "d = Some dk"
    by (cases d) (auto simp: eapol_key_accept_def)
  from assms(1) v \<open>ok\<close> d dk obtain rc where "rd_slice f 7 8 = Some rc"
    by (auto simp: eapol_key_accept_def split: bind_splits)
  moreover from this assms(1) v \<open>ok\<close> d dk obtain ki where "rd8 f 31 = Some ki"
    by (auto simp: eapol_key_accept_def split: bind_splits)
  ultimately show thesis
    using that [of dk ki] assms(1) v \<open>ok\<close> d dk
    by (simp add: eapol_key_accept_def rd_slice_def split: if_splits)
qed


lemma eapol_sm_processKey_changed:
  assumes "eapol_sm_processKey x c sm = Some sm'"
    and "es_trace sm' \<noteq> es_trace sm \<or> es_portValid sm' \<noteq> es_portValid sm"
  obtains f plen n sk ek el ki dk where "es_last_rx_key sm = Some f"
    "ec_accept_802_1x_keys (es_conf sm)" "4 + plen \<le> length f" "44 \<le> plen"
    "eapol_key_material (eap_notify_lower_layer_success sm) (x_keydata_uninit x (es_trace sm)) = Some (sk, ek, el)"
    "eapol_key_verify c f sk plen (eap_notify_lower_layer_success sm) = Some True"
    "eapol_datakey f ek el (plen - 44) n = Some (Some dk)"
    "sm' = eapol_set_wep_key x ki dk ((eap_notify_lower_layer_success sm)\<lparr> es_replay_counter_valid := True,
       es_last_replay_counter := overwrite 0 (slice 7 8 f) (es_last_replay_counter sm) \<rparr>)"
proof -
  let ?s = "eap_notify_lower_layer_success sm"
  have ne: "sm' \<noteq> sm" "sm' \<noteq> ?s"
    using assms(2) lower_layer_success_keeps(1,2) [of sm] by auto
  from assms(1) ne(1) obtain f where f: "es_last_rx_key sm = Some f"
    by (cases "es_last_rx_key sm") (simp_all add: eapol_sm_processKey_def)
  have acc: "ec_accept_802_1x_keys (es_conf sm)" "4 + 44 \<le> length f"
    using assms(1) ne(1) f by (auto simp: eapol_sm_processKey_def split: if_splits)
  from acc obtain l r where l: "WPA_GET_BE16 f 2 = Some l" "WPA_GET_BE16 f 5 = Some r"
    by (simp add: rd_simps)
  have len: "4 + unat l \<le> length f" "44 \<le> unat l"
    using assms(1) ne(1) f acc l by (auto simp: eapol_sm_processKey_def Let_def split: if_splits)
  have body: "(case eapol_key_material ?s (x_keydata_uninit x (es_trace ?s)) of None \<Rightarrow> Some ?s
      | Some km \<Rightarrow> eapol_key_accept x c f (unat l) (unat r) km ?s) = Some sm'"
    using assms(1) f acc l len by (simp add: eapol_sm_processKey_def Let_def)
  with ne(2) obtain sk ek el where
    km: "eapol_key_material ?s (x_keydata_uninit x (es_trace ?s)) = Some (sk, ek, el)"
    by (cases "eapol_key_material ?s (x_keydata_uninit x (es_trace ?s))") auto
  with body have "eapol_key_accept x c f (unat l) (unat r) (sk, ek, el) ?s = Some sm'" by simp
  from eapol_key_accept_changed [OF this ne(2)] that [OF f acc(1) len] km show thesis
    unfolding lower_layer_success_keeps by metis
qed

text \<open>C27: an IEEE 802.1X EAPOL-Key frame has an effect on the keys or on the port only if
  such frames are expected, its replay counter is larger than the last one under the same
  master key, and its signature was made with the key that the EAP method derived; its
  counter is then the last one.\<close>

theorem wep_key_needs_signature:
  assumes "eapol_sm_processKey x c sm = Some sm'"
    and "es_trace sm' \<noteq> es_trace sm \<or> es_portValid sm' \<noteq> es_portValid sm"
    and "length (es_last_replay_counter sm) = 16"
  shows "\<exists>f plen sk ek el. es_last_rx_key sm = Some f \<and> ec_accept_802_1x_keys (es_conf sm) \<and>
    4 + plen \<le> length f \<and>
    eapol_key_material (eap_notify_lower_layer_success sm) (x_keydata_uninit x (es_trace sm)) = Some (sk, ek, el) \<and>
    (es_replay_counter_valid sm \<longrightarrow>
       os_memcmp (take 8 (es_last_replay_counter sm)) (slice 7 8 f) < 0) \<and>
    wep_frame_signed c f sk plen \<and>
    es_replay_counter_valid sm' \<and> take 8 (es_last_replay_counter sm') = slice 7 8 f"
proof -
  from assms(1,2) obtain f plen n sk ek el ki dk where *: "es_last_rx_key sm = Some f"
    "ec_accept_802_1x_keys (es_conf sm)" "4 + plen \<le> length f" "44 \<le> plen"
    "eapol_key_material (eap_notify_lower_layer_success sm) (x_keydata_uninit x (es_trace sm)) = Some (sk, ek, el)"
    "eapol_key_verify c f sk plen (eap_notify_lower_layer_success sm) = Some True"
    "sm' = eapol_set_wep_key x ki dk ((eap_notify_lower_layer_success sm)\<lparr> es_replay_counter_valid := True,
       es_last_replay_counter := overwrite 0 (slice 7 8 f) (es_last_replay_counter sm) \<rparr>)"
    by (rule eapol_sm_processKey_changed)
  have "length (slice 7 8 f) = 8" using *(3,4) by (simp add: slice_def)
  then have "take 8 (es_last_replay_counter sm') = slice 7 8 f"
    using assms(3) by (simp add: *(7) eapol_set_wep_key_keeps overwrite_0)
  with * eapol_key_verify_True [OF *(6)] show ?thesis
    by (auto simp: lower_layer_success_keeps eapol_set_wep_key_keeps)
qed

lemma os_memcmp_refl: "os_memcmp xs xs = 0"
  by (induction xs) auto

text \<open>A frame that was accepted is not accepted again.\<close>

theorem wep_key_replay_ignored:
  assumes "eapol_sm_processKey x c sm = Some sm'" "es_trace sm' \<noteq> es_trace sm"
    and "length (es_last_replay_counter sm) = 16"
    and "eapol_sm_processKey x c sm' = Some sm''"
  shows "es_trace sm'' = es_trace sm' \<and> es_portValid sm'' = es_portValid sm'"
proof (rule ccontr)
  assume "\<not> (es_trace sm'' = es_trace sm' \<and> es_portValid sm'' = es_portValid sm')"
  then have ch: "es_trace sm'' \<noteq> es_trace sm' \<or> es_portValid sm'' \<noteq> es_portValid sm'" by blast
  from assms(1) disjI1 [OF assms(2)] obtain f plen n sk ek el ki dk where
    f: "es_last_rx_key sm = Some f" "ec_accept_802_1x_keys (es_conf sm)"
    and l: "4 + plen \<le> length f" "44 \<le> plen"
    and "eapol_key_material (eap_notify_lower_layer_success sm) (x_keydata_uninit x (es_trace sm)) = Some (sk, ek, el)"
    "eapol_key_verify c f sk plen (eap_notify_lower_layer_success sm) = Some True"
    "eapol_datakey f ek el (plen - 44) n = Some (Some dk)"
    and sm': "sm' = eapol_set_wep_key x ki dk ((eap_notify_lower_layer_success sm)\<lparr> es_replay_counter_valid := True,
       es_last_replay_counter := overwrite 0 (slice 7 8 f) (es_last_replay_counter sm) \<rparr>)"
    by (rule eapol_sm_processKey_changed)
  have "length (slice 7 8 f) = 8" using l by (simp add: slice_def)
  then have rc: "es_replay_counter_valid sm'" "take 8 (es_last_replay_counter sm') = slice 7 8 f"
    "es_last_rx_key sm' = Some f"
    using assms(3) f by (simp_all add: sm' eapol_set_wep_key_keeps overwrite_0 lower_layer_success_keeps)
  from assms(4) ch obtain f' plen' n' sk' ek' el' ki' dk' where
    "es_last_rx_key sm' = Some f'" "ec_accept_802_1x_keys (es_conf sm')" "4 + plen' \<le> length f'" "44 \<le> plen'"
    "eapol_key_material (eap_notify_lower_layer_success sm') (x_keydata_uninit x (es_trace sm')) = Some (sk', ek', el')"
    and v: "eapol_key_verify c f' sk' plen' (eap_notify_lower_layer_success sm') = Some True"
    and "eapol_datakey f' ek' el' (plen' - 44) n' = Some (Some dk')"
    "sm'' = eapol_set_wep_key x ki' dk' ((eap_notify_lower_layer_success sm')\<lparr> es_replay_counter_valid := True,
       es_last_replay_counter := overwrite 0 (slice 7 8 f') (es_last_replay_counter sm') \<rparr>)"
    by (rule eapol_sm_processKey_changed)
  from this(1) eapol_key_verify_True(1) [OF v] rc show False
    by (simp add: lower_layer_success_keeps os_memcmp_refl)
qed



text \<open>A frame for a unicast key of five octets, taken from the keying material.\<close>

definition wep_frame0 :: bytes where
  "wep_frame0 = [2, 3, 0, 44, 1, 0, 5] @ [0, 0, 0, 0, 0, 0, 0, 9] @ zeros 16 @ [0x80] @ zeros 16"

definition wep_sm0 :: eapol_sm where
  "wep_sm0 = eapol_sm_zero\<lparr> es_last_rx_key := Some wep_frame0,
     es_conf := (es_conf eapol_sm_zero)\<lparr> ec_accept_802_1x_keys := True, ec_required_keys := 1 \<rparr>,
     es_eap := eap_sm_zero\<lparr> ea_eapKeyAvailable := True, ea_eapKeyData := Some (replicate 64 7) \<rparr> \<rparr>"

lemma wep_sm0_trace:
  "map_option es_trace (eapol_sm_processKey eap_env0 crypto_sample wep_sm0) =
     Some [Eapol_done_cb, Set_wep_key True 0 [7, 7, 7, 7, 7]]"
  by code_simp

lemma wep_sm0_facts: "es_trace wep_sm0 = []" "length (es_last_replay_counter wep_sm0) = 16"
  by (simp_all add: wep_sm0_def eapol_sm_zero_def zeros_def)

theorem wep_key_needs_signature_witness:
  "\<exists>sm'. eapol_sm_processKey eap_env0 crypto_sample wep_sm0 = Some sm' \<and>
     take 8 (es_last_replay_counter sm') = [0, 0, 0, 0, 0, 0, 0, 9]"
proof -
  obtain sm' where sm': "eapol_sm_processKey eap_env0 crypto_sample wep_sm0 = Some sm'"
    "es_trace sm' \<noteq> es_trace wep_sm0"
    using wep_sm0_trace wep_sm0_facts(1) by auto
  have "slice 7 8 wep_frame0 = [0, 0, 0, 0, 0, 0, 0, 9]" "es_last_rx_key wep_sm0 = Some wep_frame0"
    by (simp_all add: slice_def wep_frame0_def wep_sm0_def)
  with wep_key_needs_signature [OF sm'(1) disjI1 [OF sm'(2)] wep_sm0_facts(2)] sm'(1)
  show ?thesis by auto
qed

theorem wep_key_replay_ignored_witness:
  "\<exists>sm'. eapol_sm_processKey eap_env0 crypto_sample wep_sm0 = Some sm' \<and>
     (\<exists>sm''. eapol_sm_processKey eap_env0 crypto_sample sm' = Some sm'' \<and> es_trace sm'' = es_trace sm')"
proof -
  obtain sm' where sm': "eapol_sm_processKey eap_env0 crypto_sample wep_sm0 = Some sm'"
    "es_trace sm' \<noteq> es_trace wep_sm0"
    using wep_sm0_trace wep_sm0_facts(1) by auto
  obtain sm'' where "eapol_sm_processKey eap_env0 crypto_sample sm' = Some sm''"
    using eapol_sm_processKey_port [of sm' eap_env0 crypto_sample] by (auto simp: good_def)
  with wep_key_replay_ignored [OF sm' wep_sm0_facts(2)] sm'(1) show ?thesis by blast
qed



end
