(* ===== verification/WPA_Defs.thy ===== *)
theory WPA_Defs
  imports Prelude
begin

text \<open>
  The bit fields of \<^verbatim>\<open>src/common/defs.h\<close> (ciphers, key management suites,
  protocols), the suite selectors of \<^verbatim>\<open>src/common/wpa_common.h\<close>, the
  classification of key management suites, and the cipher tables of
  \<^verbatim>\<open>src/common/wpa_common.c\<close>: key lengths, suite selectors in both
  directions, cipher selection and the textual cipher lists of the
  configuration file.  A C \<^verbatim>\<open>int\<close> that holds a bit field is a 32-bit word.
\<close>


section \<open>Bit fields and selectors\<close>

abbreviation (input) WPA_CIPHER_NONE :: u32 where "WPA_CIPHER_NONE \<equiv> 0x1"
abbreviation (input) WPA_CIPHER_WEP40 :: u32 where "WPA_CIPHER_WEP40 \<equiv> 0x2"
abbreviation (input) WPA_CIPHER_WEP104 :: u32 where "WPA_CIPHER_WEP104 \<equiv> 0x4"
abbreviation (input) WPA_CIPHER_TKIP :: u32 where "WPA_CIPHER_TKIP \<equiv> 0x8"
abbreviation (input) WPA_CIPHER_CCMP :: u32 where "WPA_CIPHER_CCMP \<equiv> 0x10"
abbreviation (input) WPA_CIPHER_AES_128_CMAC :: u32 where "WPA_CIPHER_AES_128_CMAC \<equiv> 0x20"
abbreviation (input) WPA_CIPHER_GCMP :: u32 where "WPA_CIPHER_GCMP \<equiv> 0x40"
abbreviation (input) WPA_CIPHER_SMS4 :: u32 where "WPA_CIPHER_SMS4 \<equiv> 0x80"
abbreviation (input) WPA_CIPHER_GCMP_256 :: u32 where "WPA_CIPHER_GCMP_256 \<equiv> 0x100"
abbreviation (input) WPA_CIPHER_CCMP_256 :: u32 where "WPA_CIPHER_CCMP_256 \<equiv> 0x200"
abbreviation (input) WPA_CIPHER_BIP_GMAC_128 :: u32 where "WPA_CIPHER_BIP_GMAC_128 \<equiv> 0x800"
abbreviation (input) WPA_CIPHER_BIP_GMAC_256 :: u32 where "WPA_CIPHER_BIP_GMAC_256 \<equiv> 0x1000"
abbreviation (input) WPA_CIPHER_BIP_CMAC_256 :: u32 where "WPA_CIPHER_BIP_CMAC_256 \<equiv> 0x2000"
abbreviation (input) WPA_CIPHER_GTK_NOT_USED :: u32 where "WPA_CIPHER_GTK_NOT_USED \<equiv> 0x4000"

abbreviation (input) WPA_KEY_MGMT_IEEE8021X :: u32 where "WPA_KEY_MGMT_IEEE8021X \<equiv> 0x1"
abbreviation (input) WPA_KEY_MGMT_PSK :: u32 where "WPA_KEY_MGMT_PSK \<equiv> 0x2"
abbreviation (input) WPA_KEY_MGMT_NONE :: u32 where "WPA_KEY_MGMT_NONE \<equiv> 0x4"
abbreviation (input) WPA_KEY_MGMT_IEEE8021X_NO_WPA :: u32 where "WPA_KEY_MGMT_IEEE8021X_NO_WPA \<equiv> 0x8"
abbreviation (input) WPA_KEY_MGMT_WPA_NONE :: u32 where "WPA_KEY_MGMT_WPA_NONE \<equiv> 0x10"
abbreviation (input) WPA_KEY_MGMT_FT_IEEE8021X :: u32 where "WPA_KEY_MGMT_FT_IEEE8021X \<equiv> 0x20"
abbreviation (input) WPA_KEY_MGMT_FT_PSK :: u32 where "WPA_KEY_MGMT_FT_PSK \<equiv> 0x40"
abbreviation (input) WPA_KEY_MGMT_IEEE8021X_SHA256 :: u32 where "WPA_KEY_MGMT_IEEE8021X_SHA256 \<equiv> 0x80"
abbreviation (input) WPA_KEY_MGMT_PSK_SHA256 :: u32 where "WPA_KEY_MGMT_PSK_SHA256 \<equiv> 0x100"
abbreviation (input) WPA_KEY_MGMT_WPS :: u32 where "WPA_KEY_MGMT_WPS \<equiv> 0x200"
abbreviation (input) WPA_KEY_MGMT_SAE :: u32 where "WPA_KEY_MGMT_SAE \<equiv> 0x400"
abbreviation (input) WPA_KEY_MGMT_FT_SAE :: u32 where "WPA_KEY_MGMT_FT_SAE \<equiv> 0x800"
abbreviation (input) WPA_KEY_MGMT_WAPI_PSK :: u32 where "WPA_KEY_MGMT_WAPI_PSK \<equiv> 0x1000"
abbreviation (input) WPA_KEY_MGMT_WAPI_CERT :: u32 where "WPA_KEY_MGMT_WAPI_CERT \<equiv> 0x2000"
abbreviation (input) WPA_KEY_MGMT_CCKM :: u32 where "WPA_KEY_MGMT_CCKM \<equiv> 0x4000"
abbreviation (input) WPA_KEY_MGMT_OSEN :: u32 where "WPA_KEY_MGMT_OSEN \<equiv> 0x8000"
abbreviation (input) WPA_KEY_MGMT_IEEE8021X_SUITE_B :: u32 where "WPA_KEY_MGMT_IEEE8021X_SUITE_B \<equiv> 0x10000"
abbreviation (input) WPA_KEY_MGMT_IEEE8021X_SUITE_B_192 :: u32 where "WPA_KEY_MGMT_IEEE8021X_SUITE_B_192 \<equiv> 0x20000"
abbreviation (input) WPA_KEY_MGMT_FILS_SHA256 :: u32 where "WPA_KEY_MGMT_FILS_SHA256 \<equiv> 0x40000"
abbreviation (input) WPA_KEY_MGMT_FILS_SHA384 :: u32 where "WPA_KEY_MGMT_FILS_SHA384 \<equiv> 0x80000"
abbreviation (input) WPA_KEY_MGMT_FT_FILS_SHA256 :: u32 where "WPA_KEY_MGMT_FT_FILS_SHA256 \<equiv> 0x100000"
abbreviation (input) WPA_KEY_MGMT_FT_FILS_SHA384 :: u32 where "WPA_KEY_MGMT_FT_FILS_SHA384 \<equiv> 0x200000"
abbreviation (input) WPA_KEY_MGMT_OWE :: u32 where "WPA_KEY_MGMT_OWE \<equiv> 0x400000"
abbreviation (input) WPA_KEY_MGMT_DPP :: u32 where "WPA_KEY_MGMT_DPP \<equiv> 0x800000"
abbreviation (input) WPA_KEY_MGMT_FT_IEEE8021X_SHA384 :: u32 where "WPA_KEY_MGMT_FT_IEEE8021X_SHA384 \<equiv> 0x1000000"
abbreviation (input) WPA_KEY_MGMT_PASN :: u32 where "WPA_KEY_MGMT_PASN \<equiv> 0x2000000"

abbreviation (input) WPA_PROTO_WPA :: u32 where "WPA_PROTO_WPA \<equiv> 0x1"
abbreviation (input) WPA_PROTO_RSN :: u32 where "WPA_PROTO_RSN \<equiv> 0x2"
abbreviation (input) WPA_PROTO_WAPI :: u32 where "WPA_PROTO_WAPI \<equiv> 0x4"
abbreviation (input) WPA_PROTO_OSEN :: u32 where "WPA_PROTO_OSEN \<equiv> 0x8"

abbreviation (input) WPA_CIPHER_SUITE_NONE :: u32 where "WPA_CIPHER_SUITE_NONE \<equiv> 0x0050F200"
abbreviation (input) WPA_CIPHER_SUITE_TKIP :: u32 where "WPA_CIPHER_SUITE_TKIP \<equiv> 0x0050F202"
abbreviation (input) WPA_CIPHER_SUITE_CCMP :: u32 where "WPA_CIPHER_SUITE_CCMP \<equiv> 0x0050F204"
abbreviation (input) WPA_AUTH_KEY_MGMT_NONE :: u32 where "WPA_AUTH_KEY_MGMT_NONE \<equiv> 0x0050F200"
abbreviation (input) WPA_AUTH_KEY_MGMT_UNSPEC_802_1X :: u32 where "WPA_AUTH_KEY_MGMT_UNSPEC_802_1X \<equiv> 0x0050F201"
abbreviation (input) WPA_AUTH_KEY_MGMT_PSK_OVER_802_1X :: u32 where "WPA_AUTH_KEY_MGMT_PSK_OVER_802_1X \<equiv> 0x0050F202"
abbreviation (input) WPA_AUTH_KEY_MGMT_CCKM :: u32 where "WPA_AUTH_KEY_MGMT_CCKM \<equiv> 0x00409600"
abbreviation (input) WPA_OUI_TYPE :: u32 where "WPA_OUI_TYPE \<equiv> 0x0050F201"
abbreviation (input) OSEN_IE_VENDOR_TYPE :: u32 where "OSEN_IE_VENDOR_TYPE \<equiv> 0x506F9A12"

abbreviation (input) RSN_CIPHER_SUITE_NONE :: u32 where "RSN_CIPHER_SUITE_NONE \<equiv> 0x000FAC00"
abbreviation (input) RSN_CIPHER_SUITE_WEP40 :: u32 where "RSN_CIPHER_SUITE_WEP40 \<equiv> 0x000FAC01"
abbreviation (input) RSN_CIPHER_SUITE_TKIP :: u32 where "RSN_CIPHER_SUITE_TKIP \<equiv> 0x000FAC02"
abbreviation (input) RSN_CIPHER_SUITE_CCMP :: u32 where "RSN_CIPHER_SUITE_CCMP \<equiv> 0x000FAC04"
abbreviation (input) RSN_CIPHER_SUITE_WEP104 :: u32 where "RSN_CIPHER_SUITE_WEP104 \<equiv> 0x000FAC05"
abbreviation (input) RSN_CIPHER_SUITE_AES_128_CMAC :: u32 where "RSN_CIPHER_SUITE_AES_128_CMAC \<equiv> 0x000FAC06"
abbreviation (input) RSN_CIPHER_SUITE_NO_GROUP_ADDRESSED :: u32 where "RSN_CIPHER_SUITE_NO_GROUP_ADDRESSED \<equiv> 0x000FAC07"
abbreviation (input) RSN_CIPHER_SUITE_GCMP :: u32 where "RSN_CIPHER_SUITE_GCMP \<equiv> 0x000FAC08"
abbreviation (input) RSN_CIPHER_SUITE_GCMP_256 :: u32 where "RSN_CIPHER_SUITE_GCMP_256 \<equiv> 0x000FAC09"
abbreviation (input) RSN_CIPHER_SUITE_CCMP_256 :: u32 where "RSN_CIPHER_SUITE_CCMP_256 \<equiv> 0x000FAC0A"
abbreviation (input) RSN_CIPHER_SUITE_BIP_GMAC_128 :: u32 where "RSN_CIPHER_SUITE_BIP_GMAC_128 \<equiv> 0x000FAC0B"
abbreviation (input) RSN_CIPHER_SUITE_BIP_GMAC_256 :: u32 where "RSN_CIPHER_SUITE_BIP_GMAC_256 \<equiv> 0x000FAC0C"
abbreviation (input) RSN_CIPHER_SUITE_BIP_CMAC_256 :: u32 where "RSN_CIPHER_SUITE_BIP_CMAC_256 \<equiv> 0x000FAC0D"

abbreviation (input) RSN_AUTH_KEY_MGMT_UNSPEC_802_1X :: u32 where "RSN_AUTH_KEY_MGMT_UNSPEC_802_1X \<equiv> 0x000FAC01"
abbreviation (input) RSN_AUTH_KEY_MGMT_PSK_OVER_802_1X :: u32 where "RSN_AUTH_KEY_MGMT_PSK_OVER_802_1X \<equiv> 0x000FAC02"
abbreviation (input) RSN_AUTH_KEY_MGMT_FT_802_1X :: u32 where "RSN_AUTH_KEY_MGMT_FT_802_1X \<equiv> 0x000FAC03"
abbreviation (input) RSN_AUTH_KEY_MGMT_FT_PSK :: u32 where "RSN_AUTH_KEY_MGMT_FT_PSK \<equiv> 0x000FAC04"
abbreviation (input) RSN_AUTH_KEY_MGMT_802_1X_SHA256 :: u32 where "RSN_AUTH_KEY_MGMT_802_1X_SHA256 \<equiv> 0x000FAC05"
abbreviation (input) RSN_AUTH_KEY_MGMT_PSK_SHA256 :: u32 where "RSN_AUTH_KEY_MGMT_PSK_SHA256 \<equiv> 0x000FAC06"
abbreviation (input) RSN_AUTH_KEY_MGMT_SAE :: u32 where "RSN_AUTH_KEY_MGMT_SAE \<equiv> 0x000FAC08"
abbreviation (input) RSN_AUTH_KEY_MGMT_FT_SAE :: u32 where "RSN_AUTH_KEY_MGMT_FT_SAE \<equiv> 0x000FAC09"
abbreviation (input) RSN_AUTH_KEY_MGMT_802_1X_SUITE_B :: u32 where "RSN_AUTH_KEY_MGMT_802_1X_SUITE_B \<equiv> 0x000FAC0B"
abbreviation (input) RSN_AUTH_KEY_MGMT_802_1X_SUITE_B_192 :: u32 where "RSN_AUTH_KEY_MGMT_802_1X_SUITE_B_192 \<equiv> 0x000FAC0C"
abbreviation (input) RSN_AUTH_KEY_MGMT_FT_802_1X_SHA384 :: u32 where "RSN_AUTH_KEY_MGMT_FT_802_1X_SHA384 \<equiv> 0x000FAC0D"
abbreviation (input) RSN_AUTH_KEY_MGMT_FILS_SHA256 :: u32 where "RSN_AUTH_KEY_MGMT_FILS_SHA256 \<equiv> 0x000FAC0E"
abbreviation (input) RSN_AUTH_KEY_MGMT_FILS_SHA384 :: u32 where "RSN_AUTH_KEY_MGMT_FILS_SHA384 \<equiv> 0x000FAC0F"
abbreviation (input) RSN_AUTH_KEY_MGMT_FT_FILS_SHA256 :: u32 where "RSN_AUTH_KEY_MGMT_FT_FILS_SHA256 \<equiv> 0x000FAC10"
abbreviation (input) RSN_AUTH_KEY_MGMT_FT_FILS_SHA384 :: u32 where "RSN_AUTH_KEY_MGMT_FT_FILS_SHA384 \<equiv> 0x000FAC11"
abbreviation (input) RSN_AUTH_KEY_MGMT_OWE :: u32 where "RSN_AUTH_KEY_MGMT_OWE \<equiv> 0x000FAC12"
abbreviation (input) RSN_AUTH_KEY_MGMT_CCKM :: u32 where "RSN_AUTH_KEY_MGMT_CCKM \<equiv> 0x00409600"
abbreviation (input) RSN_AUTH_KEY_MGMT_OSEN :: u32 where "RSN_AUTH_KEY_MGMT_OSEN \<equiv> 0x506F9A01"
abbreviation (input) RSN_AUTH_KEY_MGMT_DPP :: u32 where "RSN_AUTH_KEY_MGMT_DPP \<equiv> 0x506F9A02"

abbreviation (input) RSN_KEY_DATA_GROUPKEY :: u32 where "RSN_KEY_DATA_GROUPKEY \<equiv> 0x000FAC01"
abbreviation (input) RSN_KEY_DATA_MAC_ADDR :: u32 where "RSN_KEY_DATA_MAC_ADDR \<equiv> 0x000FAC03"
abbreviation (input) RSN_KEY_DATA_PMKID :: u32 where "RSN_KEY_DATA_PMKID \<equiv> 0x000FAC04"
abbreviation (input) RSN_KEY_DATA_IGTK :: u32 where "RSN_KEY_DATA_IGTK \<equiv> 0x000FAC09"
abbreviation (input) RSN_KEY_DATA_KEYID :: u32 where "RSN_KEY_DATA_KEYID \<equiv> 0x000FAC0A"
abbreviation (input) RSN_KEY_DATA_OCI :: u32 where "RSN_KEY_DATA_OCI \<equiv> 0x000FAC0D"
abbreviation (input) RSN_KEY_DATA_BIGTK :: u32 where "RSN_KEY_DATA_BIGTK \<equiv> 0x000FAC0E"
abbreviation (input) WFA_KEY_DATA_IP_ADDR_REQ :: u32 where "WFA_KEY_DATA_IP_ADDR_REQ \<equiv> 0x506F9A04"
abbreviation (input) WFA_KEY_DATA_IP_ADDR_ALLOC :: u32 where "WFA_KEY_DATA_IP_ADDR_ALLOC \<equiv> 0x506F9A05"
abbreviation (input) WFA_KEY_DATA_TRANSITION_DISABLE :: u32 where "WFA_KEY_DATA_TRANSITION_DISABLE \<equiv> 0x506F9A20"
abbreviation (input) WFA_KEY_DATA_DPP :: u32 where "WFA_KEY_DATA_DPP \<equiv> 0x506F9A21"


text \<open>RSN capabilities and the key information field of an EAPOL-Key frame.\<close>

abbreviation (input) WPA_CAPABILITY_PREAUTH :: u16 where "WPA_CAPABILITY_PREAUTH \<equiv> 0x1"
abbreviation (input) WPA_CAPABILITY_NO_PAIRWISE :: u16 where "WPA_CAPABILITY_NO_PAIRWISE \<equiv> 0x2"
abbreviation (input) WPA_CAPABILITY_MFPR :: u16 where "WPA_CAPABILITY_MFPR \<equiv> 0x40"
abbreviation (input) WPA_CAPABILITY_MFPC :: u16 where "WPA_CAPABILITY_MFPC \<equiv> 0x80"
abbreviation (input) WPA_CAPABILITY_PEERKEY_ENABLED :: u16 where "WPA_CAPABILITY_PEERKEY_ENABLED \<equiv> 0x200"
abbreviation (input) WPA_CAPABILITY_EXT_KEY_ID_FOR_UNICAST :: u16 where "WPA_CAPABILITY_EXT_KEY_ID_FOR_UNICAST \<equiv> 0x2000"
abbreviation (input) WPA_CAPABILITY_OCVC :: u16 where "WPA_CAPABILITY_OCVC \<equiv> 0x4000"

abbreviation (input) WPA_KEY_INFO_TYPE_MASK :: u16 where "WPA_KEY_INFO_TYPE_MASK \<equiv> 0x7"
abbreviation (input) WPA_KEY_INFO_TYPE_AKM_DEFINED :: u16 where "WPA_KEY_INFO_TYPE_AKM_DEFINED \<equiv> 0x0"
abbreviation (input) WPA_KEY_INFO_TYPE_HMAC_MD5_RC4 :: u16 where "WPA_KEY_INFO_TYPE_HMAC_MD5_RC4 \<equiv> 0x1"
abbreviation (input) WPA_KEY_INFO_TYPE_HMAC_SHA1_AES :: u16 where "WPA_KEY_INFO_TYPE_HMAC_SHA1_AES \<equiv> 0x2"
abbreviation (input) WPA_KEY_INFO_TYPE_AES_128_CMAC :: u16 where "WPA_KEY_INFO_TYPE_AES_128_CMAC \<equiv> 0x3"
abbreviation (input) WPA_KEY_INFO_KEY_TYPE :: u16 where "WPA_KEY_INFO_KEY_TYPE \<equiv> 0x8"
abbreviation (input) WPA_KEY_INFO_KEY_INDEX_MASK :: u16 where "WPA_KEY_INFO_KEY_INDEX_MASK \<equiv> 0x30"
abbreviation (input) WPA_KEY_INFO_INSTALL :: u16 where "WPA_KEY_INFO_INSTALL \<equiv> 0x40"
abbreviation (input) WPA_KEY_INFO_TXRX :: u16 where "WPA_KEY_INFO_TXRX \<equiv> 0x40"
abbreviation (input) WPA_KEY_INFO_ACK :: u16 where "WPA_KEY_INFO_ACK \<equiv> 0x80"
abbreviation (input) WPA_KEY_INFO_MIC :: u16 where "WPA_KEY_INFO_MIC \<equiv> 0x100"
abbreviation (input) WPA_KEY_INFO_SECURE :: u16 where "WPA_KEY_INFO_SECURE \<equiv> 0x200"
abbreviation (input) WPA_KEY_INFO_ERROR :: u16 where "WPA_KEY_INFO_ERROR \<equiv> 0x400"
abbreviation (input) WPA_KEY_INFO_REQUEST :: u16 where "WPA_KEY_INFO_REQUEST \<equiv> 0x800"
abbreviation (input) WPA_KEY_INFO_ENCR_KEY_DATA :: u16 where "WPA_KEY_INFO_ENCR_KEY_DATA \<equiv> 0x1000"
abbreviation (input) WPA_KEY_INFO_SMK_MESSAGE :: u16 where "WPA_KEY_INFO_SMK_MESSAGE \<equiv> 0x2000"

datatype wpa_alg =
    WPA_ALG_NONE | WPA_ALG_WEP | WPA_ALG_TKIP | WPA_ALG_CCMP | WPA_ALG_BIP_CMAC_128
  | WPA_ALG_GCMP | WPA_ALG_SMS4 | WPA_ALG_KRK | WPA_ALG_GCMP_256 | WPA_ALG_CCMP_256
  | WPA_ALG_BIP_GMAC_128 | WPA_ALG_BIP_GMAC_256 | WPA_ALG_BIP_CMAC_256

text \<open>A non-zero intersection of two bit fields, the C condition
  \<^verbatim>\<open>a & b\<close>.\<close>

abbreviation has :: "'a::len word \<Rightarrow> 'a word \<Rightarrow> bool" where
  "has x m \<equiv> x AND m \<noteq> 0"


section \<open>Classes of key management suites\<close>

definition wpa_key_mgmt_wpa_ieee8021x :: "u32 \<Rightarrow> bool" where
  "wpa_key_mgmt_wpa_ieee8021x akm \<longleftrightarrow>
     has akm (WPA_KEY_MGMT_IEEE8021X OR
       WPA_KEY_MGMT_FT_IEEE8021X OR
       WPA_KEY_MGMT_FT_IEEE8021X_SHA384 OR
       WPA_KEY_MGMT_CCKM OR
       WPA_KEY_MGMT_OSEN OR
       WPA_KEY_MGMT_IEEE8021X_SHA256 OR
       WPA_KEY_MGMT_IEEE8021X_SUITE_B OR
       WPA_KEY_MGMT_IEEE8021X_SUITE_B_192 OR
       WPA_KEY_MGMT_FILS_SHA256 OR
       WPA_KEY_MGMT_FILS_SHA384 OR
       WPA_KEY_MGMT_FT_FILS_SHA256 OR
       WPA_KEY_MGMT_FT_FILS_SHA384)"

definition wpa_key_mgmt_wpa_psk_no_sae :: "u32 \<Rightarrow> bool" where
  "wpa_key_mgmt_wpa_psk_no_sae akm \<longleftrightarrow>
     has akm (WPA_KEY_MGMT_PSK OR
       WPA_KEY_MGMT_FT_PSK OR
       WPA_KEY_MGMT_PSK_SHA256)"

definition wpa_key_mgmt_wpa_psk :: "u32 \<Rightarrow> bool" where
  "wpa_key_mgmt_wpa_psk akm \<longleftrightarrow>
     has akm (WPA_KEY_MGMT_PSK OR
       WPA_KEY_MGMT_FT_PSK OR
       WPA_KEY_MGMT_PSK_SHA256 OR
       WPA_KEY_MGMT_SAE OR
       WPA_KEY_MGMT_FT_SAE)"

definition wpa_key_mgmt_ft :: "u32 \<Rightarrow> bool" where
  "wpa_key_mgmt_ft akm \<longleftrightarrow>
     has akm (WPA_KEY_MGMT_FT_PSK OR
       WPA_KEY_MGMT_FT_IEEE8021X OR
       WPA_KEY_MGMT_FT_IEEE8021X_SHA384 OR
       WPA_KEY_MGMT_FT_SAE OR
       WPA_KEY_MGMT_FT_FILS_SHA256 OR
       WPA_KEY_MGMT_FT_FILS_SHA384)"

definition wpa_key_mgmt_sae :: "u32 \<Rightarrow> bool" where
  "wpa_key_mgmt_sae akm \<longleftrightarrow>
     has akm (WPA_KEY_MGMT_SAE OR
       WPA_KEY_MGMT_FT_SAE)"

definition wpa_key_mgmt_fils :: "u32 \<Rightarrow> bool" where
  "wpa_key_mgmt_fils akm \<longleftrightarrow>
     has akm (WPA_KEY_MGMT_FILS_SHA256 OR
       WPA_KEY_MGMT_FILS_SHA384 OR
       WPA_KEY_MGMT_FT_FILS_SHA256 OR
       WPA_KEY_MGMT_FT_FILS_SHA384)"

definition wpa_key_mgmt_sha256 :: "u32 \<Rightarrow> bool" where
  "wpa_key_mgmt_sha256 akm \<longleftrightarrow>
     has akm (WPA_KEY_MGMT_PSK_SHA256 OR
       WPA_KEY_MGMT_IEEE8021X_SHA256 OR
       WPA_KEY_MGMT_SAE OR
       WPA_KEY_MGMT_FT_SAE OR
       WPA_KEY_MGMT_OSEN OR
       WPA_KEY_MGMT_IEEE8021X_SUITE_B OR
       WPA_KEY_MGMT_FILS_SHA256 OR
       WPA_KEY_MGMT_FT_FILS_SHA256)"

definition wpa_key_mgmt_sha384 :: "u32 \<Rightarrow> bool" where
  "wpa_key_mgmt_sha384 akm \<longleftrightarrow>
     has akm (WPA_KEY_MGMT_IEEE8021X_SUITE_B_192 OR
       WPA_KEY_MGMT_FT_IEEE8021X_SHA384 OR
       WPA_KEY_MGMT_FILS_SHA384 OR
       WPA_KEY_MGMT_FT_FILS_SHA384)"

definition wpa_key_mgmt_suite_b :: "u32 \<Rightarrow> bool" where
  "wpa_key_mgmt_suite_b akm \<longleftrightarrow>
     has akm (WPA_KEY_MGMT_IEEE8021X_SUITE_B OR
       WPA_KEY_MGMT_IEEE8021X_SUITE_B_192)"

definition wpa_key_mgmt_wpa :: "u32 \<Rightarrow> bool" where
  "wpa_key_mgmt_wpa akm \<longleftrightarrow>
     wpa_key_mgmt_wpa_ieee8021x akm \<or> wpa_key_mgmt_wpa_psk akm \<or> wpa_key_mgmt_fils akm \<or>
     wpa_key_mgmt_sae akm \<or> akm = WPA_KEY_MGMT_OWE \<or> akm = WPA_KEY_MGMT_DPP"

definition wpa_use_akm_defined :: "u32 \<Rightarrow> bool" where
  "wpa_use_akm_defined akmp \<longleftrightarrow>
     akmp = WPA_KEY_MGMT_OSEN \<or> akmp = WPA_KEY_MGMT_OWE \<or> akmp = WPA_KEY_MGMT_DPP \<or>
     akmp = WPA_KEY_MGMT_FT_IEEE8021X_SHA384 \<or>
     wpa_key_mgmt_sae akmp \<or> wpa_key_mgmt_suite_b akmp \<or> wpa_key_mgmt_fils akmp"

definition wpa_use_cmac :: "u32 \<Rightarrow> bool" where
  "wpa_use_cmac akmp \<longleftrightarrow>
     akmp = WPA_KEY_MGMT_OSEN \<or> akmp = WPA_KEY_MGMT_OWE \<or> akmp = WPA_KEY_MGMT_DPP \<or>
     wpa_key_mgmt_ft akmp \<or> wpa_key_mgmt_sha256 akmp \<or>
     wpa_key_mgmt_sae akmp \<or> wpa_key_mgmt_suite_b akmp"

definition wpa_use_aes_key_wrap :: "u32 \<Rightarrow> bool" where
  "wpa_use_aes_key_wrap akmp \<longleftrightarrow>
     akmp = WPA_KEY_MGMT_OSEN \<or> akmp = WPA_KEY_MGMT_OWE \<or> akmp = WPA_KEY_MGMT_DPP \<or>
     wpa_key_mgmt_ft akmp \<or> wpa_key_mgmt_sha256 akmp \<or>
     wpa_key_mgmt_sae akmp \<or> wpa_key_mgmt_suite_b akmp"

lemmas key_mgmt_defs =
  wpa_key_mgmt_wpa_ieee8021x_def wpa_key_mgmt_wpa_psk_no_sae_def wpa_key_mgmt_wpa_psk_def
  wpa_key_mgmt_ft_def wpa_key_mgmt_sae_def wpa_key_mgmt_fils_def wpa_key_mgmt_sha256_def
  wpa_key_mgmt_sha384_def wpa_key_mgmt_suite_b_def wpa_key_mgmt_wpa_def
  wpa_use_akm_defined_def wpa_use_cmac_def wpa_use_aes_key_wrap_def


section \<open>Lengths\<close>

definition wpa_kck_len :: "u32 \<Rightarrow> nat \<Rightarrow> nat" where
  "wpa_kck_len akmp pmk_len =
     (if akmp = WPA_KEY_MGMT_IEEE8021X_SUITE_B_192 \<or> akmp = WPA_KEY_MGMT_FT_IEEE8021X_SHA384 then 24
      else if akmp = WPA_KEY_MGMT_FILS_SHA256 \<or> akmp = WPA_KEY_MGMT_FT_FILS_SHA256 \<or>
              akmp = WPA_KEY_MGMT_FILS_SHA384 \<or> akmp = WPA_KEY_MGMT_FT_FILS_SHA384 then 0
      else if akmp = WPA_KEY_MGMT_DPP then pmk_len div 2
      else if akmp = WPA_KEY_MGMT_OWE then pmk_len div 2
      else 16)"

definition wpa_kek_len :: "u32 \<Rightarrow> nat \<Rightarrow> nat" where
  "wpa_kek_len akmp pmk_len =
     (if akmp = WPA_KEY_MGMT_FILS_SHA384 \<or> akmp = WPA_KEY_MGMT_FT_FILS_SHA384 then 64
      else if akmp = WPA_KEY_MGMT_IEEE8021X_SUITE_B_192 \<or> akmp = WPA_KEY_MGMT_FILS_SHA256 \<or>
              akmp = WPA_KEY_MGMT_FT_FILS_SHA256 \<or> akmp = WPA_KEY_MGMT_FT_IEEE8021X_SHA384 then 32
      else if akmp = WPA_KEY_MGMT_DPP then (if pmk_len \<le> 32 then 16 else 32)
      else if akmp = WPA_KEY_MGMT_OWE then (if pmk_len \<le> 32 then 16 else 32)
      else 16)"

definition wpa_mic_len :: "u32 \<Rightarrow> nat \<Rightarrow> nat" where
  "wpa_mic_len akmp pmk_len =
     (if akmp = WPA_KEY_MGMT_IEEE8021X_SUITE_B_192 \<or> akmp = WPA_KEY_MGMT_FT_IEEE8021X_SHA384 then 24
      else if akmp = WPA_KEY_MGMT_FILS_SHA256 \<or> akmp = WPA_KEY_MGMT_FILS_SHA384 \<or>
              akmp = WPA_KEY_MGMT_FT_FILS_SHA256 \<or> akmp = WPA_KEY_MGMT_FT_FILS_SHA384 then 0
      else if akmp = WPA_KEY_MGMT_DPP then pmk_len div 2
      else if akmp = WPA_KEY_MGMT_OWE then pmk_len div 2
      else 16)"

definition wpa_cipher_key_len :: "u32 \<Rightarrow> nat" where
  "wpa_cipher_key_len cipher =
     (if cipher = WPA_CIPHER_CCMP_256 \<or> cipher = WPA_CIPHER_GCMP_256 \<or>
         cipher = WPA_CIPHER_BIP_GMAC_256 \<or> cipher = WPA_CIPHER_BIP_CMAC_256 then 32
      else if cipher = WPA_CIPHER_CCMP \<or> cipher = WPA_CIPHER_GCMP \<or>
              cipher = WPA_CIPHER_AES_128_CMAC \<or> cipher = WPA_CIPHER_BIP_GMAC_128 then 16
      else if cipher = WPA_CIPHER_TKIP then 32
      else 0)"

definition wpa_cipher_rsc_len :: "u32 \<Rightarrow> nat" where
  "wpa_cipher_rsc_len cipher =
     (if cipher = WPA_CIPHER_CCMP_256 \<or> cipher = WPA_CIPHER_GCMP_256 \<or> cipher = WPA_CIPHER_CCMP \<or>
         cipher = WPA_CIPHER_GCMP \<or> cipher = WPA_CIPHER_TKIP then 6
      else 0)"

definition wpa_cipher_to_alg :: "u32 \<Rightarrow> wpa_alg" where
  "wpa_cipher_to_alg cipher =
     (if cipher = WPA_CIPHER_CCMP_256 then WPA_ALG_CCMP_256
      else if cipher = WPA_CIPHER_GCMP_256 then WPA_ALG_GCMP_256
      else if cipher = WPA_CIPHER_CCMP then WPA_ALG_CCMP
      else if cipher = WPA_CIPHER_GCMP then WPA_ALG_GCMP
      else if cipher = WPA_CIPHER_TKIP then WPA_ALG_TKIP
      else if cipher = WPA_CIPHER_AES_128_CMAC then WPA_ALG_BIP_CMAC_128
      else if cipher = WPA_CIPHER_BIP_GMAC_128 then WPA_ALG_BIP_GMAC_128
      else if cipher = WPA_CIPHER_BIP_GMAC_256 then WPA_ALG_BIP_GMAC_256
      else if cipher = WPA_CIPHER_BIP_CMAC_256 then WPA_ALG_BIP_CMAC_256
      else WPA_ALG_NONE)"

definition wpa_cipher_valid_pairwise :: "u32 \<Rightarrow> bool" where
  "wpa_cipher_valid_pairwise cipher \<longleftrightarrow>
     cipher = WPA_CIPHER_CCMP_256 \<or> cipher = WPA_CIPHER_GCMP_256 \<or> cipher = WPA_CIPHER_CCMP \<or>
     cipher = WPA_CIPHER_GCMP \<or> cipher = WPA_CIPHER_TKIP"

definition wpa_cipher_valid_group :: "u32 \<Rightarrow> bool" where
  "wpa_cipher_valid_group cipher \<longleftrightarrow>
     wpa_cipher_valid_pairwise cipher \<or> cipher = WPA_CIPHER_GTK_NOT_USED"

definition wpa_cipher_valid_mgmt_group :: "u32 \<Rightarrow> bool" where
  "wpa_cipher_valid_mgmt_group cipher \<longleftrightarrow>
     cipher = WPA_CIPHER_GTK_NOT_USED \<or> cipher = WPA_CIPHER_AES_128_CMAC \<or>
     cipher = WPA_CIPHER_BIP_GMAC_128 \<or> cipher = WPA_CIPHER_BIP_GMAC_256 \<or>
     cipher = WPA_CIPHER_BIP_CMAC_256"

definition wpa_default_rsn_cipher :: "int \<Rightarrow> u32" where
  "wpa_default_rsn_cipher freq = (if freq > 56160 then WPA_CIPHER_GCMP else WPA_CIPHER_CCMP)"


section \<open>Suite selectors\<close>

definition rsn_selector_to_bitfield :: "u32 \<Rightarrow> u32" where
  "rsn_selector_to_bitfield s =
     (if s = RSN_CIPHER_SUITE_NONE then WPA_CIPHER_NONE
      else if s = RSN_CIPHER_SUITE_TKIP then WPA_CIPHER_TKIP
      else if s = RSN_CIPHER_SUITE_CCMP then WPA_CIPHER_CCMP
      else if s = RSN_CIPHER_SUITE_AES_128_CMAC then WPA_CIPHER_AES_128_CMAC
      else if s = RSN_CIPHER_SUITE_GCMP then WPA_CIPHER_GCMP
      else if s = RSN_CIPHER_SUITE_CCMP_256 then WPA_CIPHER_CCMP_256
      else if s = RSN_CIPHER_SUITE_GCMP_256 then WPA_CIPHER_GCMP_256
      else if s = RSN_CIPHER_SUITE_BIP_GMAC_128 then WPA_CIPHER_BIP_GMAC_128
      else if s = RSN_CIPHER_SUITE_BIP_GMAC_256 then WPA_CIPHER_BIP_GMAC_256
      else if s = RSN_CIPHER_SUITE_BIP_CMAC_256 then WPA_CIPHER_BIP_CMAC_256
      else if s = RSN_CIPHER_SUITE_NO_GROUP_ADDRESSED then WPA_CIPHER_GTK_NOT_USED
      else 0)"

definition rsn_key_mgmt_to_bitfield :: "u32 \<Rightarrow> u32" where
  "rsn_key_mgmt_to_bitfield s =
     (if s = RSN_AUTH_KEY_MGMT_UNSPEC_802_1X then WPA_KEY_MGMT_IEEE8021X
      else if s = RSN_AUTH_KEY_MGMT_PSK_OVER_802_1X then WPA_KEY_MGMT_PSK
      else if s = RSN_AUTH_KEY_MGMT_802_1X_SHA256 then WPA_KEY_MGMT_IEEE8021X_SHA256
      else if s = RSN_AUTH_KEY_MGMT_PSK_SHA256 then WPA_KEY_MGMT_PSK_SHA256
      else if s = RSN_AUTH_KEY_MGMT_SAE then WPA_KEY_MGMT_SAE
      else if s = RSN_AUTH_KEY_MGMT_FT_SAE then WPA_KEY_MGMT_FT_SAE
      else if s = RSN_AUTH_KEY_MGMT_802_1X_SUITE_B then WPA_KEY_MGMT_IEEE8021X_SUITE_B
      else if s = RSN_AUTH_KEY_MGMT_802_1X_SUITE_B_192 then WPA_KEY_MGMT_IEEE8021X_SUITE_B_192
      else if s = RSN_AUTH_KEY_MGMT_FILS_SHA256 then WPA_KEY_MGMT_FILS_SHA256
      else if s = RSN_AUTH_KEY_MGMT_FILS_SHA384 then WPA_KEY_MGMT_FILS_SHA384
      else if s = RSN_AUTH_KEY_MGMT_FT_FILS_SHA256 then WPA_KEY_MGMT_FT_FILS_SHA256
      else if s = RSN_AUTH_KEY_MGMT_FT_FILS_SHA384 then WPA_KEY_MGMT_FT_FILS_SHA384
      else if s = RSN_AUTH_KEY_MGMT_OWE then WPA_KEY_MGMT_OWE
      else if s = RSN_AUTH_KEY_MGMT_DPP then WPA_KEY_MGMT_DPP
      else if s = RSN_AUTH_KEY_MGMT_OSEN then WPA_KEY_MGMT_OSEN
      else 0)"

definition wpa_selector_to_bitfield :: "u32 \<Rightarrow> u32" where
  "wpa_selector_to_bitfield s =
     (if s = WPA_CIPHER_SUITE_NONE then WPA_CIPHER_NONE
      else if s = WPA_CIPHER_SUITE_TKIP then WPA_CIPHER_TKIP
      else if s = WPA_CIPHER_SUITE_CCMP then WPA_CIPHER_CCMP
      else 0)"

definition wpa_key_mgmt_to_bitfield :: "u32 \<Rightarrow> u32" where
  "wpa_key_mgmt_to_bitfield s =
     (if s = WPA_AUTH_KEY_MGMT_UNSPEC_802_1X then WPA_KEY_MGMT_IEEE8021X
      else if s = WPA_AUTH_KEY_MGMT_PSK_OVER_802_1X then WPA_KEY_MGMT_PSK
      else if s = WPA_AUTH_KEY_MGMT_NONE then WPA_KEY_MGMT_WPA_NONE
      else 0)"

definition wpa_akm_to_suite :: "u32 \<Rightarrow> u32" where
  "wpa_akm_to_suite akm =
     (if has akm WPA_KEY_MGMT_FT_IEEE8021X_SHA384 then RSN_AUTH_KEY_MGMT_FT_802_1X_SHA384
      else if has akm WPA_KEY_MGMT_FT_IEEE8021X then RSN_AUTH_KEY_MGMT_FT_802_1X
      else if has akm WPA_KEY_MGMT_FT_PSK then RSN_AUTH_KEY_MGMT_FT_PSK
      else if has akm WPA_KEY_MGMT_IEEE8021X_SHA256 then RSN_AUTH_KEY_MGMT_802_1X_SHA256
      else if has akm WPA_KEY_MGMT_IEEE8021X then RSN_AUTH_KEY_MGMT_UNSPEC_802_1X
      else if has akm WPA_KEY_MGMT_PSK_SHA256 then RSN_AUTH_KEY_MGMT_PSK_SHA256
      else if has akm WPA_KEY_MGMT_PSK then RSN_AUTH_KEY_MGMT_PSK_OVER_802_1X
      else if has akm WPA_KEY_MGMT_CCKM then RSN_AUTH_KEY_MGMT_CCKM
      else if has akm WPA_KEY_MGMT_OSEN then RSN_AUTH_KEY_MGMT_OSEN
      else if has akm WPA_KEY_MGMT_IEEE8021X_SUITE_B then RSN_AUTH_KEY_MGMT_802_1X_SUITE_B
      else if has akm WPA_KEY_MGMT_IEEE8021X_SUITE_B_192 then RSN_AUTH_KEY_MGMT_802_1X_SUITE_B_192
      else if has akm WPA_KEY_MGMT_FILS_SHA256 then RSN_AUTH_KEY_MGMT_FILS_SHA256
      else if has akm WPA_KEY_MGMT_FILS_SHA384 then RSN_AUTH_KEY_MGMT_FILS_SHA384
      else if has akm WPA_KEY_MGMT_FT_FILS_SHA256 then RSN_AUTH_KEY_MGMT_FT_FILS_SHA256
      else if has akm WPA_KEY_MGMT_FT_FILS_SHA384 then RSN_AUTH_KEY_MGMT_FT_FILS_SHA384
      else if has akm WPA_KEY_MGMT_SAE then RSN_AUTH_KEY_MGMT_SAE
      else if has akm WPA_KEY_MGMT_FT_SAE then RSN_AUTH_KEY_MGMT_FT_SAE
      else if has akm WPA_KEY_MGMT_OWE then RSN_AUTH_KEY_MGMT_OWE
      else if has akm WPA_KEY_MGMT_DPP then RSN_AUTH_KEY_MGMT_DPP
      else 0)"

definition wpa_cipher_to_suite :: "u32 \<Rightarrow> u32 \<Rightarrow> u32" where
  "wpa_cipher_to_suite proto cipher =
     (if has cipher WPA_CIPHER_CCMP_256 then RSN_CIPHER_SUITE_CCMP_256
      else if has cipher WPA_CIPHER_GCMP_256 then RSN_CIPHER_SUITE_GCMP_256
      else if has cipher WPA_CIPHER_CCMP then (if proto = WPA_PROTO_RSN then RSN_CIPHER_SUITE_CCMP else WPA_CIPHER_SUITE_CCMP)
      else if has cipher WPA_CIPHER_GCMP then RSN_CIPHER_SUITE_GCMP
      else if has cipher WPA_CIPHER_TKIP then (if proto = WPA_PROTO_RSN then RSN_CIPHER_SUITE_TKIP else WPA_CIPHER_SUITE_TKIP)
      else if has cipher WPA_CIPHER_NONE then (if proto = WPA_PROTO_RSN then RSN_CIPHER_SUITE_NONE else WPA_CIPHER_SUITE_NONE)
      else if has cipher WPA_CIPHER_GTK_NOT_USED then RSN_CIPHER_SUITE_NO_GROUP_ADDRESSED
      else if has cipher WPA_CIPHER_AES_128_CMAC then RSN_CIPHER_SUITE_AES_128_CMAC
      else if has cipher WPA_CIPHER_BIP_GMAC_128 then RSN_CIPHER_SUITE_BIP_GMAC_128
      else if has cipher WPA_CIPHER_BIP_GMAC_256 then RSN_CIPHER_SUITE_BIP_GMAC_256
      else if has cipher WPA_CIPHER_BIP_CMAC_256 then RSN_CIPHER_SUITE_BIP_CMAC_256
      else 0)"

text \<open>The suite lists written by \<^verbatim>\<open>rsn_cipher_put_suites\<close> and
  \<^verbatim>\<open>wpa_cipher_put_suites\<close>; their return value is the number of suites
  written.\<close>

definition put_suite :: "bool \<Rightarrow> u32 \<Rightarrow> bytes" where
  "put_suite present suite = (if present then WPA_PUT_BE32 suite else [])"

definition rsn_cipher_put_suites :: "u32 \<Rightarrow> bytes" where
  "rsn_cipher_put_suites ciphers =
     put_suite (has ciphers WPA_CIPHER_CCMP_256) RSN_CIPHER_SUITE_CCMP_256 @
     put_suite (has ciphers WPA_CIPHER_GCMP_256) RSN_CIPHER_SUITE_GCMP_256 @
     put_suite (has ciphers WPA_CIPHER_CCMP) RSN_CIPHER_SUITE_CCMP @
     put_suite (has ciphers WPA_CIPHER_GCMP) RSN_CIPHER_SUITE_GCMP @
     put_suite (has ciphers WPA_CIPHER_TKIP) RSN_CIPHER_SUITE_TKIP @
     put_suite (has ciphers WPA_CIPHER_NONE) RSN_CIPHER_SUITE_NONE"

definition wpa_cipher_put_suites :: "u32 \<Rightarrow> bytes" where
  "wpa_cipher_put_suites ciphers =
     put_suite (has ciphers WPA_CIPHER_CCMP) WPA_CIPHER_SUITE_CCMP @
     put_suite (has ciphers WPA_CIPHER_TKIP) WPA_CIPHER_SUITE_TKIP @
     put_suite (has ciphers WPA_CIPHER_NONE) WPA_CIPHER_SUITE_NONE"

section \<open>Cipher selection\<close>

definition wpa_pick_pairwise_cipher :: "u32 \<Rightarrow> bool \<Rightarrow> u32 option" where
  "wpa_pick_pairwise_cipher ciphers none_allowed =
     (if has ciphers WPA_CIPHER_CCMP_256 then Some WPA_CIPHER_CCMP_256
      else if has ciphers WPA_CIPHER_GCMP_256 then Some WPA_CIPHER_GCMP_256
      else if has ciphers WPA_CIPHER_CCMP then Some WPA_CIPHER_CCMP
      else if has ciphers WPA_CIPHER_GCMP then Some WPA_CIPHER_GCMP
      else if has ciphers WPA_CIPHER_TKIP then Some WPA_CIPHER_TKIP
      else if none_allowed \<and> has ciphers WPA_CIPHER_NONE then Some WPA_CIPHER_NONE
      else None)"

definition wpa_pick_group_cipher :: "u32 \<Rightarrow> u32 option" where
  "wpa_pick_group_cipher ciphers =
     (if has ciphers WPA_CIPHER_CCMP_256 then Some WPA_CIPHER_CCMP_256
      else if has ciphers WPA_CIPHER_GCMP_256 then Some WPA_CIPHER_GCMP_256
      else if has ciphers WPA_CIPHER_CCMP then Some WPA_CIPHER_CCMP
      else if has ciphers WPA_CIPHER_GCMP then Some WPA_CIPHER_GCMP
      else if has ciphers WPA_CIPHER_GTK_NOT_USED then Some WPA_CIPHER_GTK_NOT_USED
      else if has ciphers WPA_CIPHER_TKIP then Some WPA_CIPHER_TKIP
      else None)"

definition wpa_select_ap_group_cipher :: "u32 \<Rightarrow> u32 \<Rightarrow> u32 \<Rightarrow> u32" where
  "wpa_select_ap_group_cipher wpa wpa_pairwise rsn_pairwise =
     (let pairwise = (if has wpa 1 then wpa_pairwise else 0) OR (if has wpa 2 then rsn_pairwise else 0)
      in if has pairwise WPA_CIPHER_TKIP then WPA_CIPHER_TKIP
         else if pairwise AND (WPA_CIPHER_CCMP OR WPA_CIPHER_GCMP) = WPA_CIPHER_GCMP
         then WPA_CIPHER_GCMP
         else if pairwise AND (WPA_CIPHER_GCMP_256 OR WPA_CIPHER_CCMP OR WPA_CIPHER_GCMP)
                 = WPA_CIPHER_GCMP_256 then WPA_CIPHER_GCMP_256
         else if pairwise AND (WPA_CIPHER_CCMP_256 OR WPA_CIPHER_CCMP OR WPA_CIPHER_GCMP)
                 = WPA_CIPHER_CCMP_256 then WPA_CIPHER_CCMP_256
         else WPA_CIPHER_CCMP)"


section \<open>Cipher lists as text\<close>

text \<open>The keyword table of \<^verbatim>\<open>wpa_parse_cipher\<close>.\<close>

definition cipher_keyword :: "string \<Rightarrow> u32 option" where
  "cipher_keyword w =
     (if w = ''CCMP-256'' then Some WPA_CIPHER_CCMP_256
      else if w = ''GCMP-256'' then Some WPA_CIPHER_GCMP_256
      else if w = ''CCMP'' then Some WPA_CIPHER_CCMP
      else if w = ''GCMP'' then Some WPA_CIPHER_GCMP
      else if w = ''TKIP'' then Some WPA_CIPHER_TKIP
      else if w = ''WEP104'' then Some WPA_CIPHER_WEP104
      else if w = ''WEP40'' then Some WPA_CIPHER_WEP40
      else if w = ''NONE'' then Some WPA_CIPHER_NONE
      else if w = ''GTK_NOT_USED'' then Some WPA_CIPHER_GTK_NOT_USED
      else if w = ''AES-128-CMAC'' then Some WPA_CIPHER_AES_128_CMAC
      else if w = ''BIP-GMAC-128'' then Some WPA_CIPHER_BIP_GMAC_128
      else if w = ''BIP-GMAC-256'' then Some WPA_CIPHER_BIP_GMAC_256
      else if w = ''BIP-CMAC-256'' then Some WPA_CIPHER_BIP_CMAC_256
      else None)"

text \<open>The scanner: blanks are skipped, a word runs to the next blank, the loop
  stops at the end of the text or at the first unknown keyword.\<close>

definition is_blank :: "char \<Rightarrow> bool" where
  "is_blank c \<longleftrightarrow> c = CHR '' '' \<or> c = CHR 0x09"

function wpa_parse_cipher_loop :: "string \<Rightarrow> u32 \<Rightarrow> u32 option" where
  "wpa_parse_cipher_loop start val =
     (let start = dropWhile is_blank start
      in if start = [] then Some val
         else let w = takeWhile (\<lambda>c. \<not> is_blank c) start;
                  rest = dropWhile (\<lambda>c. \<not> is_blank c) start
              in case cipher_keyword w of
                   None \<Rightarrow> None
                 | Some c \<Rightarrow>
                     if rest = [] then Some (val OR c)
                     else wpa_parse_cipher_loop (tl rest) (val OR c))"
  by pat_completeness auto
termination
proof (relation "measure (\<lambda>(start, _). length start)", goal_cases)
  case (2 start val x w rest c)
  have "length rest \<le> length x" "length x \<le> length start" "rest \<noteq> []"
    using 2 by (auto simp: length_dropWhile_le)
  then show ?case by (cases rest) auto
qed simp

declare wpa_parse_cipher_loop.simps [simp del]

definition wpa_parse_cipher :: "string \<Rightarrow> u32 option" where
  "wpa_parse_cipher value = wpa_parse_cipher_loop value 0"

text \<open>One guarded \<^verbatim>\<open>os_snprintf\<close> of \<^verbatim>\<open>wpa_write_ciphers\<close>: the text written so
  far, the space left including the terminating null octet, the delimiter.
  \<^const>\<open>None\<close> is the return of \<open>-1\<close> when the text does not fit.\<close>

definition write_cipher :: "nat \<Rightarrow> string \<Rightarrow> bool \<Rightarrow> string \<Rightarrow> string \<Rightarrow> string option" where
  "write_cipher room delim present name out =
     (if present
      then let add = (if out = [] then name else delim @ name)
           in if length add \<ge> room - length out then None else Some (out @ add)
      else Some out)"

definition wpa_write_ciphers :: "nat \<Rightarrow> u32 \<Rightarrow> string \<Rightarrow> string option" where
  "wpa_write_ciphers room ciphers delim = do {
     out \<leftarrow> write_cipher room delim (has ciphers WPA_CIPHER_CCMP_256) ''CCMP-256'' [];
     out \<leftarrow> write_cipher room delim (has ciphers WPA_CIPHER_GCMP_256) ''GCMP-256'' out;
     out \<leftarrow> write_cipher room delim (has ciphers WPA_CIPHER_CCMP) ''CCMP'' out;
     out \<leftarrow> write_cipher room delim (has ciphers WPA_CIPHER_GCMP) ''GCMP'' out;
     out \<leftarrow> write_cipher room delim (has ciphers WPA_CIPHER_TKIP) ''TKIP'' out;
     out \<leftarrow> write_cipher room delim (has ciphers WPA_CIPHER_AES_128_CMAC) ''AES-128-CMAC'' out;
     out \<leftarrow> write_cipher room delim (has ciphers WPA_CIPHER_BIP_GMAC_128) ''BIP-GMAC-128'' out;
     out \<leftarrow> write_cipher room delim (has ciphers WPA_CIPHER_BIP_GMAC_256) ''BIP-GMAC-256'' out;
     out \<leftarrow> write_cipher room delim (has ciphers WPA_CIPHER_BIP_CMAC_256) ''BIP-CMAC-256'' out;
     out \<leftarrow> write_cipher room delim (has ciphers WPA_CIPHER_NONE) ''NONE'' out;
     Some out }"

definition wpa_cipher_txt :: "u32 \<Rightarrow> string" where
  "wpa_cipher_txt cipher =
     (if cipher = WPA_CIPHER_NONE then ''NONE''
      else if cipher = WPA_CIPHER_WEP40 then ''WEP-40''
      else if cipher = WPA_CIPHER_WEP104 then ''WEP-104''
      else if cipher = WPA_CIPHER_TKIP then ''TKIP''
      else if cipher = WPA_CIPHER_CCMP then ''CCMP''
      else if cipher = WPA_CIPHER_CCMP OR WPA_CIPHER_TKIP then ''CCMP+TKIP''
      else if cipher = WPA_CIPHER_GCMP then ''GCMP''
      else if cipher = WPA_CIPHER_GCMP_256 then ''GCMP-256''
      else if cipher = WPA_CIPHER_CCMP_256 then ''CCMP-256''
      else if cipher = WPA_CIPHER_AES_128_CMAC then ''BIP''
      else if cipher = WPA_CIPHER_BIP_GMAC_128 then ''BIP-GMAC-128''
      else if cipher = WPA_CIPHER_BIP_GMAC_256 then ''BIP-GMAC-256''
      else if cipher = WPA_CIPHER_BIP_CMAC_256 then ''BIP-CMAC-256''
      else if cipher = WPA_CIPHER_GTK_NOT_USED then ''GTK_NOT_USED''
      else ''UNKNOWN'')"

definition wpa_key_mgmt_txt :: "u32 \<Rightarrow> u32 \<Rightarrow> string" where
  "wpa_key_mgmt_txt key_mgmt proto =
     (if key_mgmt = WPA_KEY_MGMT_IEEE8021X then (if proto = WPA_PROTO_RSN OR WPA_PROTO_WPA then ''WPA2+WPA/IEEE 802.1X/EAP''
         else if proto = WPA_PROTO_RSN then ''WPA2/IEEE 802.1X/EAP'' else ''WPA/IEEE 802.1X/EAP'')
      else if key_mgmt = WPA_KEY_MGMT_PSK then (if proto = WPA_PROTO_RSN OR WPA_PROTO_WPA then ''WPA2-PSK+WPA-PSK''
         else if proto = WPA_PROTO_RSN then ''WPA2-PSK'' else ''WPA-PSK'')
      else if key_mgmt = WPA_KEY_MGMT_NONE then ''NONE''
      else if key_mgmt = WPA_KEY_MGMT_WPA_NONE then ''WPA-NONE''
      else if key_mgmt = WPA_KEY_MGMT_IEEE8021X_NO_WPA then ''IEEE 802.1X (no WPA)''
      else if key_mgmt = WPA_KEY_MGMT_IEEE8021X_SHA256 then ''WPA2-EAP-SHA256''
      else if key_mgmt = WPA_KEY_MGMT_PSK_SHA256 then ''WPA2-PSK-SHA256''
      else if key_mgmt = WPA_KEY_MGMT_WPS then ''WPS''
      else if key_mgmt = WPA_KEY_MGMT_SAE then ''SAE''
      else if key_mgmt = WPA_KEY_MGMT_FT_SAE then ''FT-SAE''
      else if key_mgmt = WPA_KEY_MGMT_OSEN then ''OSEN''
      else if key_mgmt = WPA_KEY_MGMT_IEEE8021X_SUITE_B then ''WPA2-EAP-SUITE-B''
      else if key_mgmt = WPA_KEY_MGMT_IEEE8021X_SUITE_B_192 then ''WPA2-EAP-SUITE-B-192''
      else if key_mgmt = WPA_KEY_MGMT_FILS_SHA256 then ''FILS-SHA256''
      else if key_mgmt = WPA_KEY_MGMT_FILS_SHA384 then ''FILS-SHA384''
      else if key_mgmt = WPA_KEY_MGMT_FT_FILS_SHA256 then ''FT-FILS-SHA256''
      else if key_mgmt = WPA_KEY_MGMT_FT_FILS_SHA384 then ''FT-FILS-SHA384''
      else if key_mgmt = WPA_KEY_MGMT_OWE then ''OWE''
      else if key_mgmt = WPA_KEY_MGMT_DPP then ''DPP''
      else if key_mgmt = WPA_KEY_MGMT_PASN then ''PASN''
      else ''UNKNOWN'')"


section \<open>Correctness of the tables\<close>

text \<open>Testing one bit of a bit field.\<close>

lemma has_exp_and: "(if has x (2 ^ n) then 2 ^ n else 0) = (x :: u32) AND 2 ^ n"
  by (rule bit_word_eqI) (auto simp: bit_simps and_exp_eq_0_iff_not_bit)

lemma has_cipher_and:
  "(if has x 0x1 then 0x1 else 0) = x AND (0x1 :: u32)"
  "(if has x 0x8 then 0x8 else 0) = x AND (0x8 :: u32)"
  "(if has x 0x10 then 0x10 else 0) = x AND (0x10 :: u32)"
  "(if has x 0x20 then 0x20 else 0) = x AND (0x20 :: u32)"
  "(if has x 0x40 then 0x40 else 0) = x AND (0x40 :: u32)"
  "(if has x 0x100 then 0x100 else 0) = x AND (0x100 :: u32)"
  "(if has x 0x200 then 0x200 else 0) = x AND (0x200 :: u32)"
  "(if has x 0x800 then 0x800 else 0) = x AND (0x800 :: u32)"
  "(if has x 0x1000 then 0x1000 else 0) = x AND (0x1000 :: u32)"
  "(if has x 0x2000 then 0x2000 else 0) = x AND (0x2000 :: u32)"
  using has_exp_and [of x 0] has_exp_and [of x 3] has_exp_and [of x 4] has_exp_and [of x 5]
    has_exp_and [of x 6] has_exp_and [of x 8] has_exp_and [of x 9] has_exp_and [of x 11]
    has_exp_and [of x 12] has_exp_and [of x 13]
  by (simp_all split: if_splits)

lemma group_suite_roundtrip:
  "wpa_cipher_valid_group c \<Longrightarrow> rsn_selector_to_bitfield (wpa_cipher_to_suite WPA_PROTO_RSN c) = c"
  unfolding wpa_cipher_valid_group_def wpa_cipher_valid_pairwise_def
  by (elim disjE; simp add: wpa_cipher_to_suite_def rsn_selector_to_bitfield_def)

lemma mgmt_suite_roundtrip:
  "wpa_cipher_valid_mgmt_group c \<Longrightarrow>
   rsn_selector_to_bitfield (wpa_cipher_to_suite WPA_PROTO_RSN c) = c"
  unfolding wpa_cipher_valid_mgmt_group_def
  by (elim disjE; simp add: wpa_cipher_to_suite_def rsn_selector_to_bitfield_def)

text \<open>Writing a cipher as a suite selector and reading the selector back
  yields the cipher, for every cipher that may protect data or management
  frames of an RSN.\<close>

lemma rsn_cipher_suite_roundtrip:
  "wpa_cipher_valid_group c \<or> wpa_cipher_valid_mgmt_group c \<Longrightarrow>
   rsn_selector_to_bitfield (wpa_cipher_to_suite WPA_PROTO_RSN c) = c"
  using group_suite_roundtrip mgmt_suite_roundtrip by blast

theorem rsn_cipher_suite_roundtrip_witness:
  "wpa_cipher_valid_group WPA_CIPHER_CCMP \<and>
   rsn_selector_to_bitfield (wpa_cipher_to_suite WPA_PROTO_RSN WPA_CIPHER_CCMP) = WPA_CIPHER_CCMP"
  using rsn_cipher_suite_roundtrip [of WPA_CIPHER_CCMP] by (simp add: wpa_cipher_valid_group_def wpa_cipher_valid_pairwise_def)

lemma wpa_cipher_suite_roundtrip:
  "c \<in> {WPA_CIPHER_CCMP, WPA_CIPHER_TKIP, WPA_CIPHER_NONE} \<Longrightarrow>
   wpa_selector_to_bitfield (wpa_cipher_to_suite WPA_PROTO_WPA c) = c"
  unfolding insert_iff
  by (elim disjE; simp add: wpa_cipher_to_suite_def wpa_selector_to_bitfield_def)

text \<open>The pairwise ciphers from the strongest to the weakest.\<close>

definition cipher_preference :: "u32 list" where
  "cipher_preference =
     [WPA_CIPHER_CCMP_256, WPA_CIPHER_GCMP_256, WPA_CIPHER_CCMP, WPA_CIPHER_GCMP, WPA_CIPHER_TKIP]"

lemma wpa_pick_pairwise_cipher_find:
  "wpa_pick_pairwise_cipher ciphers none_allowed =
     (case List.find (has ciphers) cipher_preference of
        Some c \<Rightarrow> Some c
      | None \<Rightarrow> if none_allowed \<and> has ciphers WPA_CIPHER_NONE then Some WPA_CIPHER_NONE else None)"
  by (simp add: wpa_pick_pairwise_cipher_def cipher_preference_def)

lemma find_SomeD:
  "List.find P xs = Some x \<Longrightarrow> \<exists>i < length xs. xs ! i = x \<and> P x \<and> (\<forall>j < i. \<not> P (xs ! j))"
  by (auto simp: find_Some_iff)

lemma key_lengths_le:
  assumes "pmk_len \<le> 64"
  shows "wpa_kck_len akmp pmk_len \<le> 32" "wpa_kek_len akmp pmk_len \<le> 64"
    "wpa_mic_len akmp pmk_len \<le> 32" "wpa_cipher_key_len cipher \<le> 32"
  using assms by (auto simp: wpa_kck_len_def wpa_kek_len_def wpa_mic_len_def wpa_cipher_key_len_def)


section \<open>Printing and parsing cipher lists\<close>

fun join :: "string \<Rightarrow> string list \<Rightarrow> string" where
  "join d [] = []"
| "join d [w] = w"
| "join d (w # v # ws) = w @ d @ join d (v # ws)"

fun write_all :: "nat \<Rightarrow> string \<Rightarrow> (bool \<times> string) list \<Rightarrow> string \<Rightarrow> string option" where
  "write_all room d [] out = Some out"
| "write_all room d ((p, n) # t) out = Option.bind (write_cipher room d p n out) (write_all room d t)"

text \<open>The keywords in the order in which \<^verbatim>\<open>wpa_write_ciphers\<close> emits them.\<close>

definition cipher_names :: "(u32 \<times> string) list" where
  "cipher_names =
     [(WPA_CIPHER_CCMP_256, ''CCMP-256''), (WPA_CIPHER_GCMP_256, ''GCMP-256''),
      (WPA_CIPHER_CCMP, ''CCMP''), (WPA_CIPHER_GCMP, ''GCMP''), (WPA_CIPHER_TKIP, ''TKIP''),
      (WPA_CIPHER_AES_128_CMAC, ''AES-128-CMAC''), (WPA_CIPHER_BIP_GMAC_128, ''BIP-GMAC-128''),
      (WPA_CIPHER_BIP_GMAC_256, ''BIP-GMAC-256''), (WPA_CIPHER_BIP_CMAC_256, ''BIP-CMAC-256''),
      (WPA_CIPHER_NONE, ''NONE'')]"

lemma write_all_Cons:
  "write_all room d ((p, n) # t) = (\<lambda>out. Option.bind (write_cipher room d p n out) (write_all room d t))"
  "write_all room d [] = Some"
  by auto

abbreviation (input) writable_ciphers :: u32 where
  "writable_ciphers \<equiv> 0x3B79"

lemma wpa_write_ciphers_all:
  "wpa_write_ciphers room ciphers d =
     write_all room d (map (\<lambda>(b, n). (has ciphers b, n)) cipher_names) []"
  by (simp add: wpa_write_ciphers_def cipher_names_def write_all_Cons)

lemma join_snoc: "ws \<noteq> [] \<Longrightarrow> join d (ws @ [w]) = join d ws @ d @ w"
  by (induction d ws rule: join.induct) auto

lemma join_eq_Nil: "\<forall>w \<in> set ws. w \<noteq> [] \<Longrightarrow> join d ws = [] \<longleftrightarrow> ws = []"
  by (induction d ws rule: join.induct) auto

lemma write_cipher_join:
  assumes "write_cipher room d p n (join d ws) = Some out" "\<forall>w \<in> set ws. w \<noteq> []"
  shows "out = join d (ws @ (if p then [n] else []))"
  using assms join_eq_Nil [of ws d] join_snoc [of ws d n]
  by (auto simp: write_cipher_def Let_def split: if_splits)

lemma write_all_join:
  assumes "write_all room d t (join d ws) = Some out"
    "\<forall>w \<in> set ws. w \<noteq> []" "\<forall>(p, n) \<in> set t. n \<noteq> []"
  shows "out = join d (ws @ map snd (filter fst t))"
  using assms
proof (induction t arbitrary: ws)
  case (Cons x t)
  obtain p n where x: "x = (p, n)" by fastforce
  from Cons.prems(1) obtain mid where mid: "write_cipher room d p n (join d ws) = Some mid"
    and rest: "write_all room d t mid = Some out"
    by (auto simp: x bind_eq_Some_conv)
  have m: "mid = join d (ws @ (if p then [n] else []))"
    using write_cipher_join [OF mid Cons.prems(2)] .
  show ?case
    using Cons.IH [OF rest [unfolded m]] Cons.prems(2,3) by (auto simp: x split: if_splits)
qed simp

lemma parse_word:
  assumes "cipher_keyword w = Some c" "w \<noteq> []" "\<forall>x \<in> set w. \<not> is_blank x"
  shows "wpa_parse_cipher_loop w v = Some (v OR c)"
    and "wpa_parse_cipher_loop (w @ CHR '' '' # rest) v = wpa_parse_cipher_loop rest (v OR c)"
proof -
  obtain x xs where w: "w = x # xs" using assms(2) by (cases w) auto
  have drop: "dropWhile is_blank w = w" "dropWhile is_blank (w @ r) = w @ r" for r
    using assms(3) by (auto simp: w)
  have tw: "takeWhile (\<lambda>c. \<not> is_blank c) w = w" "dropWhile (\<lambda>c. \<not> is_blank c) w = []"
    using assms(3) by (auto simp: takeWhile_eq_all_conv dropWhile_eq_Nil_conv)
  have tw': "takeWhile (\<lambda>c. \<not> is_blank c) (w @ CHR '' '' # rest) = w"
    "dropWhile (\<lambda>c. \<not> is_blank c) (w @ CHR '' '' # rest) = CHR '' '' # rest"
    using assms(3) by (auto simp: takeWhile_append2 dropWhile_append2 is_blank_def)
  show "wpa_parse_cipher_loop w v = Some (v OR c)"
    using assms(1,2) by (subst wpa_parse_cipher_loop.simps) (simp add: drop tw)
  show "wpa_parse_cipher_loop (w @ CHR '' '' # rest) v = wpa_parse_cipher_loop rest (v OR c)"
    using assms(1,2) by (subst wpa_parse_cipher_loop.simps) (simp add: drop tw' del: dropWhile_append takeWhile_append)
qed

lemma parse_join:
  assumes "\<forall>w \<in> set ws. cipher_keyword w \<noteq> None \<and> w \<noteq> [] \<and> (\<forall>x \<in> set w. \<not> is_blank x)"
  shows "wpa_parse_cipher_loop (join '' '' ws) v =
           Some (fold (\<lambda>w v. v OR the (cipher_keyword w)) ws v)"
  using assms
proof (induction ws arbitrary: v rule: induct_list012)
  case 1
  show ?case by (simp add: wpa_parse_cipher_loop.simps)
next
  case (2 w)
  then show ?case using parse_word(1) [of w] by auto
next
  case (3 w v' ws)
  then obtain c where "cipher_keyword w = Some c" by auto
  with 3 show ?case
    using parse_word(2) [of w c "join '' '' (v' # ws)" v] by simp
qed

lemma fold_present:
  "fold (\<lambda>w v. v OR the (cipher_keyword w)) (map snd (filter fst (map (\<lambda>(b, n). (has c b, n)) t))) v =
   fold (\<lambda>(b, n) v. v OR (if has c b then the (cipher_keyword n) else 0)) t v"
  by (induction t arbitrary: v) auto

lemma fold_cipher_names:
  "fold (\<lambda>(b, n) v. v OR (if has c b then the (cipher_keyword n) else 0)) cipher_names 0
   = c AND writable_ciphers"
  by (simp add: cipher_names_def cipher_keyword_def has_cipher_and
      split del: if_split cong del: if_weak_cong flip: bit.conj_disj_distrib)

lemma cipher_names_ok:
  "\<forall>(b, n) \<in> set cipher_names. cipher_keyword n \<noteq> None \<and> n \<noteq> [] \<and> (\<forall>x \<in> set n. \<not> is_blank x)"
  by (simp add: cipher_names_def cipher_keyword_def is_blank_def)

text \<open>A cipher list written by \<^verbatim>\<open>wpa_write_ciphers\<close> with blanks as
  delimiter is read back by \<^verbatim>\<open>wpa_parse_cipher\<close> as the ciphers that the writer
  knows, whatever else the bit field held.\<close>

theorem wpa_parse_write_ciphers:
  assumes "wpa_write_ciphers room ciphers '' '' = Some out"
  shows "wpa_parse_cipher out = Some (ciphers AND writable_ciphers)"
proof -
  let ?t = "map (\<lambda>(b, n). (has ciphers b, n)) cipher_names"
  let ?ws = "map snd (filter fst ?t)"
  have ok: "\<forall>w \<in> set ?ws. cipher_keyword w \<noteq> None \<and> w \<noteq> [] \<and> (\<forall>x \<in> set w. \<not> is_blank x)"
    using cipher_names_ok by auto
  have "out = join '' '' ?ws"
    using write_all_join [of room "'' ''" ?t "[]" out] assms cipher_names_ok
    by (fastforce simp: wpa_write_ciphers_all)
  then show ?thesis
    using parse_join [OF ok, of 0] by (simp add: wpa_parse_cipher_def fold_present fold_cipher_names)
qed

theorem wpa_parse_write_ciphers_witness:
  "wpa_write_ciphers 64 0x18 '' '' = Some ''CCMP TKIP'' \<and> wpa_parse_cipher ''CCMP TKIP'' = Some 0x18"
  using wpa_parse_write_ciphers [of 64 "0x18" "''CCMP TKIP''"]
  by (simp add: wpa_write_ciphers_def write_cipher_def)

end
