(* ===== verification/WPA_Keys.thy ===== *)
theory WPA_Keys
  imports Crypto WPA_Defs
begin

text \<open>
  The pairwise key hierarchy of \<^verbatim>\<open>src/common/wpa_common.c\<close>: the EAPOL-Key
  MIC (\<^verbatim>\<open>wpa_eapol_key_mic\<close>), the derivation of the pairwise transient key
  (\<^verbatim>\<open>wpa_pmk_to_ptk\<close>) and the PMK identifiers (\<^verbatim>\<open>rsn_pmkid\<close> and its
  Suite B variants).  Key buffers are the fixed arrays of \<^verbatim>\<open>struct wpa_ptk\<close>
  with their length fields beside them.
\<close>

record wpa_ptk =
  kck :: bytes
  kek :: bytes
  tk :: bytes
  kdk :: bytes
  kck_len :: nat
  kek_len :: nat
  tk_len :: nat
  kck2_len :: nat
  kek2_len :: nat
  kdk_len :: nat
  installed :: bool

definition ptk_zero :: wpa_ptk where
  "ptk_zero = \<lparr> kck = zeros 32, kek = zeros 64, tk = zeros 32, kdk = zeros 32,
     kck_len = 0, kek_len = 0, tk_len = 0, kck2_len = 0, kek2_len = 0, kdk_len = 0,
     installed = False \<rparr>"

record wpa_gtk =
  gtk_key :: bytes
  gtk_len :: nat

record wpa_igtk =
  igtk_key :: bytes
  igtk_len :: nat

record wpa_bigtk =
  bigtk_key :: bytes
  bigtk_len :: nat

definition gtk_zero :: wpa_gtk where "gtk_zero = \<lparr> gtk_key = zeros 32, gtk_len = 0 \<rparr>"
definition igtk_zero :: wpa_igtk where "igtk_zero = \<lparr> igtk_key = zeros 32, igtk_len = 0 \<rparr>"
definition bigtk_zero :: wpa_bigtk where "bigtk_zero = \<lparr> bigtk_key = zeros 32, bigtk_len = 0 \<rparr>"


section \<open>EAPOL-Key MIC\<close>

text \<open>The octets written to the MIC field; \<open>key\<close> is the KCK array and
  \<open>key_len\<close> its length.\<close>

definition wpa_eapol_key_mic ::
  "crypto \<Rightarrow> bytes \<Rightarrow> nat \<Rightarrow> u32 \<Rightarrow> u16 \<Rightarrow> bytes \<Rightarrow> bytes option" where
  "wpa_eapol_key_mic c key key_len akmp ver buf =
     (let k = slice 0 key_len key;
          owe_dpp =
            (if key_len = 16 then map_option (take key_len) (hmac_sha256_vector c k buf)
             else if key_len = 24 then map_option (take key_len) (hmac_sha384_vector c k buf)
             else if key_len = 32 then map_option (take key_len) (hmac_sha512_vector c k buf)
             else None)
      in if key_len = 0 then None
         else if ver = WPA_KEY_INFO_TYPE_HMAC_MD5_RC4 then hmac_md5_vector c k buf
         else if ver = WPA_KEY_INFO_TYPE_HMAC_SHA1_AES
         then map_option (take 16) (hmac_sha1_vector c k buf)
         else if ver = WPA_KEY_INFO_TYPE_AES_128_CMAC then omac1_aes_128 c key buf
         else if ver = WPA_KEY_INFO_TYPE_AKM_DEFINED
         then if akmp = WPA_KEY_MGMT_SAE \<or> akmp = WPA_KEY_MGMT_FT_SAE then omac1_aes_128 c key buf
              else if akmp = WPA_KEY_MGMT_OSEN then omac1_aes_128 c key buf
              else if akmp = WPA_KEY_MGMT_IEEE8021X_SUITE_B
              then map_option (take 16) (hmac_sha256_vector c k buf)
              else if akmp = WPA_KEY_MGMT_IEEE8021X_SUITE_B_192
              then map_option (take 24) (hmac_sha384_vector c k buf)
              else if akmp = WPA_KEY_MGMT_OWE then owe_dpp
              else if akmp = WPA_KEY_MGMT_DPP then owe_dpp
              else None
         else None)"


section \<open>Pairwise transient key\<close>

definition ptk_data :: "bytes \<Rightarrow> bytes \<Rightarrow> bytes \<Rightarrow> bytes \<Rightarrow> bytes option \<Rightarrow> bytes" where
  "ptk_data addr1 addr2 nonce1 nonce2 z =
     (if os_memcmp addr1 addr2 < 0 then addr1 @ addr2 else addr2 @ addr1) @
     (if os_memcmp nonce1 nonce2 < 0 then nonce1 @ nonce2 else nonce2 @ nonce1) @
     (case z of None \<Rightarrow> [] | Some z \<Rightarrow> z)"

text \<open>The choice of the PRF, by the (already adjusted) key management suite and
  the PMK length; \<^const>\<open>None\<close> is the return of \<open>-1\<close>.\<close>

definition ptk_prf ::
  "crypto \<Rightarrow> u32 \<Rightarrow> bool \<Rightarrow> bytes \<Rightarrow> string \<Rightarrow> bytes \<Rightarrow> nat \<Rightarrow> bytes option" where
  "ptk_prf c akmp owe_ptk_workaround pmk label data ptk_len =
     (if wpa_key_mgmt_sha384 akmp then sha384_prf c pmk label data ptk_len
      else if wpa_key_mgmt_sha256 akmp then sha256_prf c pmk label data ptk_len
      else if akmp = WPA_KEY_MGMT_OWE \<and> (length pmk = 32 \<or> owe_ptk_workaround)
      then sha256_prf c pmk label data ptk_len
      else if akmp = WPA_KEY_MGMT_OWE \<and> length pmk = 48 then sha384_prf c pmk label data ptk_len
      else if akmp = WPA_KEY_MGMT_OWE \<and> length pmk = 64 then sha512_prf c pmk label data ptk_len
      else if akmp = WPA_KEY_MGMT_OWE then None
      else if akmp = WPA_KEY_MGMT_DPP \<and> length pmk = 32 then sha256_prf c pmk label data ptk_len
      else if akmp = WPA_KEY_MGMT_DPP \<and> length pmk = 48 then sha384_prf c pmk label data ptk_len
      else if akmp = WPA_KEY_MGMT_DPP \<and> length pmk = 64 then sha512_prf c pmk label data ptk_len
      else if akmp = WPA_KEY_MGMT_DPP then None
      else sha1_prf c pmk label data ptk_len)"

text \<open>Copying the derived octets into the arrays of \<^verbatim>\<open>struct wpa_ptk\<close>, whose
  length fields have been set before.\<close>

definition ptk_fill :: "bytes \<Rightarrow> wpa_ptk \<Rightarrow> wpa_ptk" where
  "ptk_fill tmp ptk =
     (let o1 = kck_len ptk; o2 = o1 + kek_len ptk; o3 = o2 + tk_len ptk;
          ptk = ptk\<lparr> kck := overwrite 0 (slice 0 (kck_len ptk) tmp) (kck ptk),
                     kek := overwrite 0 (slice o1 (kek_len ptk) tmp) (kek ptk),
                     tk := overwrite 0 (slice o2 (tk_len ptk) tmp) (tk ptk) \<rparr>;
          ptk = (if kdk_len ptk \<noteq> 0
                 then ptk\<lparr> kdk := overwrite 0 (slice o3 (kdk_len ptk) tmp) (kdk ptk) \<rparr> else ptk)
      in ptk\<lparr> kek2_len := 0, kck2_len := 0 \<rparr>)"

text \<open>The result is the C return value and the updated structure: the length
  fields are already changed when the derivation itself fails.\<close>

definition wpa_pmk_to_ptk ::
  "crypto \<Rightarrow> bytes \<Rightarrow> string \<Rightarrow> bytes \<Rightarrow> bytes \<Rightarrow> bytes \<Rightarrow> bytes \<Rightarrow> wpa_ptk \<Rightarrow> u32 \<Rightarrow> u32 \<Rightarrow>
   bytes option \<Rightarrow> nat \<Rightarrow> int \<times> wpa_ptk" where
  "wpa_pmk_to_ptk c pmk label addr1 addr2 nonce1 nonce2 ptk akmp cipher z kdklen =
     (let owe_ptk_workaround = (akmp = WPA_KEY_MGMT_OWE OR WPA_KEY_MGMT_PSK_SHA256);
          akmp = (if owe_ptk_workaround then WPA_KEY_MGMT_OWE else akmp)
      in if length pmk = 0 then (-1, ptk)
         else if (case z of None \<Rightarrow> 0 | Some z \<Rightarrow> length z) > 66 then (-1, ptk)
         else if kdklen > 32 then (-1, ptk)
         else let ptk = ptk\<lparr> kck_len := wpa_kck_len akmp (length pmk),
                             kek_len := wpa_kek_len akmp (length pmk),
                             tk_len := wpa_cipher_key_len cipher, kdk_len := kdklen \<rparr>
              in if tk_len ptk = 0 then (-1, ptk)
                 else case ptk_prf c akmp owe_ptk_workaround pmk label
                             (ptk_data addr1 addr2 nonce1 nonce2 z)
                             (kck_len ptk + kek_len ptk + tk_len ptk + kdk_len ptk) of
                        None \<Rightarrow> (-1, ptk)
                      | Some tmp \<Rightarrow> (0, ptk_fill tmp ptk))"


section \<open>PMK identifiers\<close>

definition pmkid_data :: "bytes \<Rightarrow> bytes \<Rightarrow> bytes" where
  "pmkid_data aa spa = label_bytes ''PMK Name'' @ aa @ spa"

text \<open>The return values of the MAC functions are ignored: on a failure the
  PMKID is whatever the hash buffer held.\<close>

definition rsn_pmkid :: "crypto \<Rightarrow> bytes \<Rightarrow> bytes \<Rightarrow> bytes \<Rightarrow> u32 \<Rightarrow> bytes" where
  "rsn_pmkid c pmk aa spa akmp =
     (let hash = (if wpa_key_mgmt_sha384 akmp then hmac_sha384_vector c pmk (pmkid_data aa spa)
                  else if wpa_key_mgmt_sha256 akmp then hmac_sha256_vector c pmk (pmkid_data aa spa)
                  else hmac_sha1_vector c pmk (pmkid_data aa spa))
      in slice 0 16 (case hash of None \<Rightarrow> hash_uninit c | Some h \<Rightarrow> h))"

definition rsn_pmkid_suite_b :: "crypto \<Rightarrow> bytes \<Rightarrow> bytes \<Rightarrow> bytes \<Rightarrow> bytes option" where
  "rsn_pmkid_suite_b c k aa spa =
     map_option (slice 0 16) (hmac_sha256_vector c k (pmkid_data aa spa))"

definition rsn_pmkid_suite_b_192 :: "crypto \<Rightarrow> bytes \<Rightarrow> bytes \<Rightarrow> bytes \<Rightarrow> bytes option" where
  "rsn_pmkid_suite_b_192 c k aa spa =
     map_option (slice 0 16) (hmac_sha384_vector c k (pmkid_data aa spa))"


section \<open>Properties\<close>

lemma min_max_bytes_swap:
  assumes "length x = length y"
  shows "(if os_memcmp x y < 0 then x @ y else y @ x) = (if os_memcmp y x < 0 then y @ x else x @ y)"
  using os_memcmp_swap [of x y] os_memcmp_eq_0 [OF assms] by (auto split: if_splits)

lemma ptk_data_symmetric:
  assumes "length a = length b" "length m = length n"
  shows "ptk_data a b m n z = ptk_data b a m n z" "ptk_data a b m n z = ptk_data a b n m z"
  using min_max_bytes_swap [OF assms(1)] min_max_bytes_swap [OF assms(2)]
  by (simp_all add: ptk_data_def)

text \<open>C31: both ends of a link derive the same PTK: exchanging the two
  addresses and exchanging the two nonces does not change the result.\<close>

theorem wpa_pmk_to_ptk_symmetric:
  assumes "length aa = length spa" "length anonce = length snonce"
  shows "wpa_pmk_to_ptk c pmk label aa spa anonce snonce ptk akmp cipher z kl =
         wpa_pmk_to_ptk c pmk label spa aa snonce anonce ptk akmp cipher z kl"
proof -
  have eq: "ptk_data aa spa anonce snonce z = ptk_data spa aa snonce anonce z"
    using ptk_data_symmetric(1) [OF assms, of z] ptk_data_symmetric(2) [OF assms(1)[symmetric] assms(2), of z]
    by simp
  show ?thesis unfolding wpa_pmk_to_ptk_def eq by (rule refl)
qed

theorem wpa_pmk_to_ptk_symmetric_witness:
  "wpa_pmk_to_ptk crypto_sample (zeros 32) ''Pairwise key expansion'' (replicate 6 1) (replicate 6 2)
     (replicate 32 3) (replicate 32 4) ptk_zero WPA_KEY_MGMT_PSK WPA_CIPHER_CCMP None 0 =
   wpa_pmk_to_ptk crypto_sample (zeros 32) ''Pairwise key expansion'' (replicate 6 2) (replicate 6 1)
     (replicate 32 4) (replicate 32 3) ptk_zero WPA_KEY_MGMT_PSK WPA_CIPHER_CCMP None 0"
  by (rule wpa_pmk_to_ptk_symmetric) simp_all

text \<open>The arrays of \<^verbatim>\<open>struct wpa_ptk\<close> have their declared sizes and no length
  field exceeds its array.\<close>

definition ptk_wf :: "wpa_ptk \<Rightarrow> bool" where
  "ptk_wf p \<longleftrightarrow> length (kck p) = 32 \<and> length (kek p) = 64 \<and> length (tk p) = 32 \<and> length (kdk p) = 32 \<and>
     kck_len p \<le> 32 \<and> kek_len p \<le> 64 \<and> tk_len p \<le> 32 \<and> kdk_len p \<le> 32"

lemma ptk_wf_zero [simp]: "ptk_wf ptk_zero"
  by (simp add: ptk_wf_def ptk_zero_def)

lemma ptk_fill_sel [simp]:
  "kck_len (ptk_fill tmp p) = kck_len p" "kek_len (ptk_fill tmp p) = kek_len p"
  "tk_len (ptk_fill tmp p) = tk_len p" "kdk_len (ptk_fill tmp p) = kdk_len p"
  "installed (ptk_fill tmp p) = installed p"
  "length (kck (ptk_fill tmp p)) = length (kck p)" "length (kek (ptk_fill tmp p)) = length (kek p)"
  "length (tk (ptk_fill tmp p)) = length (tk p)" "length (kdk (ptk_fill tmp p)) = length (kdk p)"
  by (simp_all add: ptk_fill_def Let_def)

text \<open>C33: deriving a PTK from a PMK of at most 64 octets never writes beyond
  the arrays of \<^verbatim>\<open>struct wpa_ptk\<close>, whether the derivation succeeds or fails.\<close>

theorem wpa_pmk_to_ptk_wf:
  assumes "ptk_wf ptk" "length pmk \<le> 64"
  shows "ptk_wf (snd (wpa_pmk_to_ptk c pmk label a1 a2 n1 n2 ptk akmp cipher z kl))"
  using assms key_lengths_le [OF assms(2)]
  by (auto simp: wpa_pmk_to_ptk_def Let_def ptk_wf_def split: option.splits)

theorem wpa_pmk_to_ptk_wf_witness:
  "ptk_wf ptk_zero \<and> length (zeros 32 :: bytes) \<le> 64 \<and>
   ptk_wf (snd (wpa_pmk_to_ptk crypto_sample (zeros 32) ''Pairwise key expansion'' (replicate 6 1)
     (replicate 6 2) (replicate 32 3) (replicate 32 4) ptk_zero WPA_KEY_MGMT_PSK WPA_CIPHER_CCMP None 0))"
  using wpa_pmk_to_ptk_wf [of ptk_zero "zeros 32"] by simp

lemma wpa_pmk_to_ptk_installed:
  "installed (snd (wpa_pmk_to_ptk c pmk label a1 a2 n1 n2 ptk akmp cipher z kl)) = installed ptk"
  by (auto simp: wpa_pmk_to_ptk_def Let_def split: option.splits)

lemma wpa_pmk_to_ptk_ret:
  "fst (wpa_pmk_to_ptk c pmk label a1 a2 n1 n2 ptk akmp cipher z kl) \<in> {0, -1}"
  by (auto simp: wpa_pmk_to_ptk_def Let_def split: option.splits)

lemma wpa_pmk_to_ptk_tk_len:
  assumes "wpa_pmk_to_ptk c pmk label a1 a2 n1 n2 ptk akmp cipher z kl = (0, ptk')"
  shows "tk_len ptk' = wpa_cipher_key_len cipher \<and> 0 < tk_len ptk'"
  using assms by (auto simp: wpa_pmk_to_ptk_def Let_def split: option.splits if_splits)

lemma length_ptk_prf:
  assumes "mac_lengths_ok c" "ptk_prf c akmp w pmk label data n = Some out"
  shows "length out = n"
  using assms(2) length_prf [OF assms(1)] by (auto simp: ptk_prf_def split: if_splits)

lemma take_overwrite_slice:
  assumes "n \<le> length dst" "off + n \<le> length xs"
  shows "take n (overwrite 0 (slice off n xs) dst) = slice off n xs"
  using assms by (simp add: overwrite_0)

lemma ptk_fill_parts:
  assumes "ptk_wf p" "length tmp = kck_len p + kek_len p + tk_len p + kdk_len p"
  shows "take (kck_len p) (kck (ptk_fill tmp p)) @ take (kek_len p) (kek (ptk_fill tmp p)) @
         take (tk_len p) (tk (ptk_fill tmp p)) @ take (kdk_len p) (kdk (ptk_fill tmp p)) = tmp"
proof -
  have cat: "slice 0 a xs @ slice a b xs @ slice (a + b) d xs @ slice (a + b + d) e xs
      = take (a + b + d + e) xs" for a b d e and xs :: bytes
    by (simp add: slice_def take_add)
  show ?thesis
    using assms cat [of "kck_len p" tmp "kek_len p" "tk_len p" "kdk_len p"]
    by (auto simp: ptk_fill_def Let_def ptk_wf_def take_overwrite_slice)
qed

text \<open>The KCK, KEK, TK and KDK handed out by a successful derivation are
  consecutive, non-overlapping parts of one PRF output of exactly their total
  length.\<close>

theorem wpa_pmk_to_ptk_partition:
  assumes "wpa_pmk_to_ptk c pmk label a1 a2 n1 n2 ptk akmp cipher z kl = (0, p)"
    and "mac_lengths_ok c" "ptk_wf ptk" "length pmk \<le> 64"
    and "akmp \<noteq> WPA_KEY_MGMT_OWE OR WPA_KEY_MGMT_PSK_SHA256"
  shows "ptk_prf c akmp False pmk label (ptk_data a1 a2 n1 n2 z)
           (kck_len p + kek_len p + tk_len p + kdk_len p) =
         Some (take (kck_len p) (kck p) @ take (kek_len p) (kek p) @ take (tk_len p) (tk p) @
               take (kdk_len p) (kdk p))"
proof -
  define q where "q = ptk\<lparr> kck_len := wpa_kck_len akmp (length pmk),
    kek_len := wpa_kek_len akmp (length pmk), tk_len := wpa_cipher_key_len cipher, kdk_len := kl \<rparr>"
  let ?n = "kck_len q + kek_len q + tk_len q + kdk_len q"
  obtain tmp where tmp: "ptk_prf c akmp False pmk label (ptk_data a1 a2 n1 n2 z) ?n = Some tmp"
    and p: "p = ptk_fill tmp q" and kl: "kl \<le> 32"
    using assms(1,5)
    by (auto simp: wpa_pmk_to_ptk_def q_def Let_def split: option.splits if_splits)
  have wf: "ptk_wf q"
    using assms(3) kl key_lengths_le [OF assms(4)] by (simp add: q_def ptk_wf_def)
  show ?thesis
    using tmp ptk_fill_parts [OF wf length_ptk_prf [OF assms(2) tmp]] by (simp add: p)
qed

theorem wpa_pmk_to_ptk_partition_witness:
  "\<exists>p. wpa_pmk_to_ptk crypto_sample (zeros 32) ''Pairwise key expansion'' (replicate 6 1) (replicate 6 2)
     (replicate 32 3) (replicate 32 4) ptk_zero WPA_KEY_MGMT_PSK WPA_CIPHER_CCMP None 0 = (0, p) \<and>
   ptk_prf crypto_sample WPA_KEY_MGMT_PSK False (zeros 32) ''Pairwise key expansion''
     (ptk_data (replicate 6 1) (replicate 6 2) (replicate 32 3) (replicate 32 4) None)
     (kck_len p + kek_len p + tk_len p + kdk_len p) =
   Some (take (kck_len p) (kck p) @ take (kek_len p) (kek p) @ take (tk_len p) (tk p) @ take (kdk_len p) (kdk p))"
proof -
  let ?r = "wpa_pmk_to_ptk crypto_sample (zeros 32) ''Pairwise key expansion'' (replicate 6 1) (replicate 6 2)
     (replicate 32 3) (replicate 32 4) ptk_zero WPA_KEY_MGMT_PSK WPA_CIPHER_CCMP None 0"
  have "fst ?r = 0"
    by (simp add: wpa_pmk_to_ptk_def ptk_prf_def sha1_prf_def sha1_prf_loop.simps crypto_sample_def Let_def
        wpa_key_mgmt_sha384_def wpa_key_mgmt_sha256_def wpa_kck_len_def wpa_kek_len_def wpa_cipher_key_len_def)
  then have r: "?r = (0, snd ?r)" by (simp add: prod_eq_iff)
  then show ?thesis
    using wpa_pmk_to_ptk_partition [OF r crypto_sample_ok(1) ptk_wf_zero] by auto
qed

end
