(* ===== verification/WPA_Parse.thy ===== *)
theory WPA_Parse
  imports WPA_Defs
begin

text \<open>
  The parsers of \<^verbatim>\<open>src/common/wpa_common.c\<close> for what the access point sends:
  the RSN, OSEN and WPA elements (\<^verbatim>\<open>wpa_parse_wpa_ie_rsn\<close>,
  \<^verbatim>\<open>wpa_parse_wpa_ie_wpa\<close>) and the Key Data field of an EAPOL-Key frame
  (\<^verbatim>\<open>wpa_parse_generic\<close>, \<^verbatim>\<open>wpa_parse_vendor_specific\<close>,
  \<^verbatim>\<open>wpa_parse_kde_ies\<close>).  A parser yields \<open>Some (ret, data)\<close> with the C
  return value; \<^const>\<open>None\<close> is a read outside the buffer.  A pointer into the
  buffer is an offset, a pointer with its length field a pair.
\<close>

abbreviation (input) WLAN_EID_RSN :: byte where "WLAN_EID_RSN \<equiv> 48"
abbreviation (input) WLAN_EID_RSNX :: byte where "WLAN_EID_RSNX \<equiv> 244"
abbreviation (input) WLAN_EID_VENDOR_SPECIFIC :: byte where "WLAN_EID_VENDOR_SPECIFIC \<equiv> 221"
abbreviation (input) WLAN_EID_EXTENSION :: byte where "WLAN_EID_EXTENSION \<equiv> 255"


section \<open>RSN and WPA elements\<close>

record wpa_ie_data =
  proto :: u32
  pairwise_cipher :: u32
  has_pairwise :: bool
  group_cipher :: u32
  has_group :: bool
  key_mgmt :: u32
  capabilities :: u16
  num_pmkid :: nat
  pmkid :: "nat option"
  mgmt_group_cipher :: u32

text \<open>The loops over a suite list: \<open>count\<close> selectors from offset \<open>pos\<close>.\<close>

fun suite_loop :: "(u32 \<Rightarrow> u32) \<Rightarrow> bytes \<Rightarrow> nat \<Rightarrow> nat \<Rightarrow> u32 \<Rightarrow> u32 option" where
  "suite_loop conv buf pos 0 acc = Some acc"
| "suite_loop conv buf pos (Suc n) acc = do {
     s \<leftarrow> WPA_GET_BE32 buf pos;
     suite_loop conv buf (pos + 4) n (acc OR conv s) }"

text \<open>The body of \<^verbatim>\<open>wpa_parse_wpa_ie_rsn\<close>, one definition per field of the
  element, from the last to the first.\<close>

definition rsn_mgmt_group :: "bytes \<Rightarrow> nat \<Rightarrow> nat \<Rightarrow> wpa_ie_data \<Rightarrow> (int \<times> wpa_ie_data) option" where
  "rsn_mgmt_group buf pos left data =
     (if left \<ge> 4
      then do {
        s \<leftarrow> WPA_GET_BE32 buf pos;
        let data = data\<lparr> mgmt_group_cipher := rsn_selector_to_bitfield s \<rparr>
        in Some (if \<not> wpa_cipher_valid_mgmt_group (mgmt_group_cipher data) then (-10, data) else (0, data)) }
      else Some (0, data))"

definition rsn_pmkids :: "bytes \<Rightarrow> nat \<Rightarrow> nat \<Rightarrow> wpa_ie_data \<Rightarrow> (int \<times> wpa_ie_data) option" where
  "rsn_pmkids buf pos left data =
     (if left \<ge> 2
      then do {
        n \<leftarrow> WPA_GET_LE16 buf pos;
        let pos = pos + 2; left = left - 2; num = unat n
        in if num > left div 16 then Some (-9, data\<lparr> num_pmkid := 0 \<rparr>)
           else rsn_mgmt_group buf (pos + num * 16) (left - num * 16)
                  (data\<lparr> num_pmkid := num, pmkid := Some pos \<rparr>) }
      else rsn_mgmt_group buf pos left data)"

definition rsn_capabilities :: "bytes \<Rightarrow> nat \<Rightarrow> nat \<Rightarrow> wpa_ie_data \<Rightarrow> (int \<times> wpa_ie_data) option" where
  "rsn_capabilities buf pos left data =
     (if left \<ge> 2
      then do {
        c \<leftarrow> WPA_GET_LE16 buf pos;
        rsn_pmkids buf (pos + 2) (left - 2) (data\<lparr> capabilities := c \<rparr>) }
      else rsn_pmkids buf pos left data)"

definition rsn_key_mgmt :: "bytes \<Rightarrow> nat \<Rightarrow> nat \<Rightarrow> wpa_ie_data \<Rightarrow> (int \<times> wpa_ie_data) option" where
  "rsn_key_mgmt buf pos left data =
     (if left \<ge> 2
      then do {
        n \<leftarrow> WPA_GET_LE16 buf pos;
        let data = data\<lparr> key_mgmt := 0 \<rparr>; count = unat n; pos = pos + 2; left = left - 2
        in if count = 0 \<or> count > left div 4 then Some (-6, data)
           else do {
             km \<leftarrow> suite_loop rsn_key_mgmt_to_bitfield buf pos count 0;
             rsn_capabilities buf (pos + 4 * count) (left - 4 * count) (data\<lparr> key_mgmt := km \<rparr>) } }
      else if left = 1 then Some (-7, data)
      else rsn_capabilities buf pos left data)"

definition rsn_pairwise :: "bytes \<Rightarrow> nat \<Rightarrow> nat \<Rightarrow> wpa_ie_data \<Rightarrow> (int \<times> wpa_ie_data) option" where
  "rsn_pairwise buf pos left data =
     (if left \<ge> 2
      then do {
        n \<leftarrow> WPA_GET_LE16 buf pos;
        let data = data\<lparr> pairwise_cipher := 0 \<rparr>; count = unat n; pos = pos + 2; left = left - 2
        in if count = 0 \<or> count > left div 4 then Some (-4, data)
           else do {
             pc \<leftarrow> suite_loop rsn_selector_to_bitfield buf pos count 0;
             let data = data\<lparr> has_pairwise := True, pairwise_cipher := pc \<rparr>
             in if has pc WPA_CIPHER_AES_128_CMAC then Some (-1, data)
                else rsn_key_mgmt buf (pos + 4 * count) (left - 4 * count) data } }
      else if left = 1 then Some (-5, data)
      else rsn_key_mgmt buf pos left data)"

definition rsn_group :: "bytes \<Rightarrow> nat \<Rightarrow> nat \<Rightarrow> wpa_ie_data \<Rightarrow> (int \<times> wpa_ie_data) option" where
  "rsn_group buf pos left data =
     (if left \<ge> 4
      then do {
        s \<leftarrow> WPA_GET_BE32 buf pos;
        let data = data\<lparr> group_cipher := rsn_selector_to_bitfield s, has_group := True \<rparr>
        in if \<not> wpa_cipher_valid_group (group_cipher data) then Some (-1, data)
           else rsn_pairwise buf (pos + 4) (left - 4) data }
      else if left > 0 then Some (-3, data)
      else rsn_pairwise buf pos left data)"

definition rsn_ie_default :: wpa_ie_data where
  "rsn_ie_default = \<lparr> proto = WPA_PROTO_RSN, pairwise_cipher = WPA_CIPHER_CCMP, has_pairwise = False,
     group_cipher = WPA_CIPHER_CCMP, has_group = False, key_mgmt = WPA_KEY_MGMT_IEEE8021X,
     capabilities = 0, num_pmkid = 0, pmkid = None, mgmt_group_cipher = WPA_CIPHER_AES_128_CMAC \<rparr>"

definition rsn_is_osen :: "bytes \<Rightarrow> bool option" where
  "rsn_is_osen buf =
     (if length buf \<ge> 6
      then do {
        l \<leftarrow> rd8 buf 1;
        if unat l \<ge> 4 \<and> unat l = length buf - 2
        then do { t \<leftarrow> WPA_GET_BE32 buf 2; Some (t = OSEN_IE_VENDOR_TYPE) }
        else Some False }
      else Some False)"

definition wpa_parse_wpa_ie_rsn :: "bytes \<Rightarrow> (int \<times> wpa_ie_data) option" where
  "wpa_parse_wpa_ie_rsn rsn_ie =
     (let data = rsn_ie_default; len = length rsn_ie
      in if len = 0 then Some (-1, data)
         else if len < 4 then Some (-1, data)
         else if_rd (rsn_is_osen rsn_ie)
           (rsn_group rsn_ie 6 (len - 6)
              (data\<lparr> group_cipher := WPA_CIPHER_GTK_NOT_USED, has_group := True,
                     key_mgmt := WPA_KEY_MGMT_OSEN, proto := WPA_PROTO_OSEN \<rparr>))
           (do {
              id \<leftarrow> rd8 rsn_ie 0; l \<leftarrow> rd8 rsn_ie 1; v \<leftarrow> WPA_GET_LE16 rsn_ie 2;
              if id \<noteq> WLAN_EID_RSN \<or> unat l \<noteq> len - 2 \<or> v \<noteq> 1 then Some (-2, data)
              else rsn_group rsn_ie 4 (len - 4) data }))"

text \<open>The WPA (version 1) element.\<close>

definition wpa_ie_default :: wpa_ie_data where
  "wpa_ie_default = \<lparr> proto = WPA_PROTO_WPA, pairwise_cipher = WPA_CIPHER_TKIP, has_pairwise = False,
     group_cipher = WPA_CIPHER_TKIP, has_group = False, key_mgmt = WPA_KEY_MGMT_IEEE8021X,
     capabilities = 0, num_pmkid = 0, pmkid = None, mgmt_group_cipher = 0 \<rparr>"

definition wpa1_capabilities :: "bytes \<Rightarrow> nat \<Rightarrow> nat \<Rightarrow> wpa_ie_data \<Rightarrow> (int \<times> wpa_ie_data) option" where
  "wpa1_capabilities buf pos left data =
     (if left \<ge> 2
      then do { c \<leftarrow> WPA_GET_LE16 buf pos; Some (0, data\<lparr> capabilities := c \<rparr>) }
      else Some (0, data))"

definition wpa1_key_mgmt :: "bytes \<Rightarrow> nat \<Rightarrow> nat \<Rightarrow> wpa_ie_data \<Rightarrow> (int \<times> wpa_ie_data) option" where
  "wpa1_key_mgmt buf pos left data =
     (if left \<ge> 2
      then do {
        n \<leftarrow> WPA_GET_LE16 buf pos;
        let data = data\<lparr> key_mgmt := 0 \<rparr>; count = unat n; pos = pos + 2; left = left - 2
        in if count = 0 \<or> count > left div 4 then Some (-6, data)
           else do {
             km \<leftarrow> suite_loop wpa_key_mgmt_to_bitfield buf pos count 0;
             wpa1_capabilities buf (pos + 4 * count) (left - 4 * count) (data\<lparr> key_mgmt := km \<rparr>) } }
      else if left = 1 then Some (-7, data)
      else wpa1_capabilities buf pos left data)"

definition wpa1_pairwise :: "bytes \<Rightarrow> nat \<Rightarrow> nat \<Rightarrow> wpa_ie_data \<Rightarrow> (int \<times> wpa_ie_data) option" where
  "wpa1_pairwise buf pos left data =
     (if left \<ge> 2
      then do {
        n \<leftarrow> WPA_GET_LE16 buf pos;
        let data = data\<lparr> pairwise_cipher := 0 \<rparr>; count = unat n; pos = pos + 2; left = left - 2
        in if count = 0 \<or> count > left div 4 then Some (-4, data)
           else do {
             pc \<leftarrow> suite_loop wpa_selector_to_bitfield buf pos count 0;
             wpa1_key_mgmt buf (pos + 4 * count) (left - 4 * count) (data\<lparr> pairwise_cipher := pc \<rparr>) } }
      else if left = 1 then Some (-5, data)
      else wpa1_key_mgmt buf pos left data)"

definition wpa_parse_wpa_ie_wpa :: "bytes \<Rightarrow> (int \<times> wpa_ie_data) option" where
  "wpa_parse_wpa_ie_wpa wpa_ie =
     (let data = wpa_ie_default; len = length wpa_ie
      in if len < 8 then Some (-1, data)
         else do {
           id \<leftarrow> rd8 wpa_ie 0; l \<leftarrow> rd8 wpa_ie 1; oui \<leftarrow> WPA_GET_BE32 wpa_ie 2; v \<leftarrow> WPA_GET_LE16 wpa_ie 6;
           if id \<noteq> WLAN_EID_VENDOR_SPECIFIC \<or> unat l \<noteq> len - 2 \<or> oui \<noteq> WPA_OUI_TYPE \<or> v \<noteq> 1
           then Some (-2, data)
           else if len - 8 \<ge> 4
           then do {
             s \<leftarrow> WPA_GET_BE32 wpa_ie 8;
             wpa1_pairwise wpa_ie 12 (len - 12) (data\<lparr> group_cipher := wpa_selector_to_bitfield s \<rparr>) }
           else if len - 8 > 0 then Some (-3, data)
           else wpa1_pairwise wpa_ie 8 (len - 8) data })"

text \<open>\<^verbatim>\<open>wpa_parse_wpa_ie\<close> of \<^verbatim>\<open>rsn_supp/wpa_ie.c\<close>: the element itself selects the
  parser.\<close>

definition wpa_parse_wpa_ie :: "bytes \<Rightarrow> (int \<times> wpa_ie_data) option" where
  "wpa_parse_wpa_ie ie =
     if_rd (if length ie \<ge> 1 then do { id \<leftarrow> rd8 ie 0; Some (id = WLAN_EID_RSN) } else Some False)
       (wpa_parse_wpa_ie_rsn ie)
       (if_rd (if length ie \<ge> 6
               then do { id \<leftarrow> rd8 ie 0;
                         if id = WLAN_EID_VENDOR_SPECIFIC
                         then do { l \<leftarrow> rd8 ie 1;
                                   if unat l \<ge> 4
                                   then do { t \<leftarrow> WPA_GET_BE32 ie 2; Some (t = OSEN_IE_VENDOR_TYPE) }
                                   else Some False }
                         else Some False }
               else Some False)
          (wpa_parse_wpa_ie_rsn ie) (wpa_parse_wpa_ie_wpa ie))"

text \<open>\<^verbatim>\<open>wpa_compare_rsn_ie\<close>; without Fast BSS Transition only identical elements
  match.\<close>

definition wpa_compare_rsn_ie :: "bytes option \<Rightarrow> bytes option \<Rightarrow> int" where
  "wpa_compare_rsn_ie ie1 ie2 =
     (case (ie1, ie2) of
        (Some a, Some b) \<Rightarrow> if a = b then 0 else -1
      | _ \<Rightarrow> -1)"


section \<open>Key Data of an EAPOL-Key frame\<close>

type_synonym span = "nat \<times> nat"

record wpa_eapol_ie_parse =
  ie_wpa_ie :: "span option"
  ie_rsn_ie :: "span option"
  ie_pmkid :: "nat option"
  ie_key_id :: "nat option"
  ie_gtk :: "span option"
  ie_mac_addr :: "span option"
  ie_igtk :: "span option"
  ie_bigtk :: "span option"
  ie_mdie :: "span option"
  ie_ftie :: "span option"
  ie_ip_addr_req :: "nat option"
  ie_ip_addr_alloc :: "nat option"
  ie_transition_disable :: "span option"
  ie_dpp_kde :: "span option"
  ie_oci :: "span option"
  ie_osen :: "span option"
  ie_rsnxe :: "span option"
  ie_reassoc_deadline :: "nat option"
  ie_key_lifetime :: "nat option"
  ie_lnkid :: "span option"
  ie_ext_capab :: "span option"
  ie_supp_rates :: "span option"
  ie_ext_supp_rates :: "span option"
  ie_ht_capabilities :: "nat option"
  ie_vht_capabilities :: "nat option"
  ie_he_capabilities :: "span option"
  ie_he_6ghz_capabilities :: "nat option"
  ie_supp_channels :: "span option"
  ie_supp_oper_classes :: "span option"
  ie_qosinfo :: byte
  ie_aid :: u16
  ie_wmm :: "span option"

definition ie_none :: wpa_eapol_ie_parse where
  "ie_none = \<lparr> ie_wpa_ie = None,
     ie_rsn_ie = None,
     ie_pmkid = None,
     ie_key_id = None,
     ie_gtk = None,
     ie_mac_addr = None,
     ie_igtk = None,
     ie_bigtk = None,
     ie_mdie = None,
     ie_ftie = None,
     ie_ip_addr_req = None,
     ie_ip_addr_alloc = None,
     ie_transition_disable = None,
     ie_dpp_kde = None,
     ie_oci = None,
     ie_osen = None,
     ie_rsnxe = None,
     ie_reassoc_deadline = None,
     ie_key_lifetime = None,
     ie_lnkid = None,
     ie_ext_capab = None,
     ie_supp_rates = None,
     ie_ext_supp_rates = None,
     ie_ht_capabilities = None,
     ie_vht_capabilities = None,
     ie_he_capabilities = None,
     ie_he_6ghz_capabilities = None,
     ie_supp_channels = None,
     ie_supp_oper_classes = None,
     ie_qosinfo = 0, ie_aid = 0, ie_wmm = None \<rparr>"

text \<open>The condition \<^verbatim>\<open>guard && RSN_SELECTOR_GET (pos + 2) == sel\<close>.\<close>

definition kde_is :: "bytes \<Rightarrow> nat \<Rightarrow> bool \<Rightarrow> u32 \<Rightarrow> bool option" where
  "kde_is buf pos guard sel =
     (if guard then map_option (\<lambda>s. s = sel) (WPA_GET_BE32 buf (pos + 2)) else Some False)"

text \<open>The first test of \<^verbatim>\<open>wpa_parse_generic\<close>: a WPA element of version 1.\<close>

definition kde_is_wpa :: "bytes \<Rightarrow> nat \<Rightarrow> nat \<Rightarrow> bool option" where
  "kde_is_wpa buf pos l =
     if_rd (kde_is buf pos (l \<ge> 6) WPA_OUI_TYPE)
       (do { a \<leftarrow> rd8 buf (pos + 6);
             if a = 1 then do { b \<leftarrow> rd8 buf (pos + 7); Some (b = 0) } else Some False })
       (Some False)"

definition wpa_parse_generic ::
  "bytes \<Rightarrow> nat \<Rightarrow> wpa_eapol_ie_parse \<Rightarrow> (int \<times> wpa_eapol_ie_parse) option" where
  "wpa_parse_generic buf pos ie = do {
     lb \<leftarrow> rd8 buf (pos + 1);
     let l = unat lb; body = Some (pos + 6, l - 4)
     in if l = 0 then Some (1, ie)
        else if_rd (kde_is_wpa buf pos l)
          (Some (0, ie\<lparr> ie_wpa_ie := Some (pos, l + 2) \<rparr>))
        (if_rd (kde_is buf pos (l \<ge> 4) OSEN_IE_VENDOR_TYPE)
          (Some (0, ie\<lparr> ie_osen := Some (pos, l + 2) \<rparr>))
        (if_rd (kde_is buf pos (l \<ge> 4 + 16) RSN_KEY_DATA_PMKID)
          (Some (0, ie\<lparr> ie_pmkid := Some (pos + 6) \<rparr>))
        (if_rd (kde_is buf pos (l \<ge> 4 + 2) RSN_KEY_DATA_KEYID)
          (Some (0, ie\<lparr> ie_key_id := Some (pos + 6) \<rparr>))
        (if_rd (kde_is buf pos (l > 4 + 2) RSN_KEY_DATA_GROUPKEY)
          (Some (0, ie\<lparr> ie_gtk := body \<rparr>))
        (if_rd (kde_is buf pos (l > 4 + 2) RSN_KEY_DATA_MAC_ADDR)
          (Some (0, ie\<lparr> ie_mac_addr := body \<rparr>))
        (if_rd (kde_is buf pos (l > 4 + 2) RSN_KEY_DATA_IGTK)
          (Some (0, ie\<lparr> ie_igtk := body \<rparr>))
        (if_rd (kde_is buf pos (l > 4 + 2) RSN_KEY_DATA_BIGTK)
          (Some (0, ie\<lparr> ie_bigtk := body \<rparr>))
        (if_rd (kde_is buf pos (l \<ge> 4 + 1) WFA_KEY_DATA_IP_ADDR_REQ)
          (Some (0, ie\<lparr> ie_ip_addr_req := Some (pos + 6) \<rparr>))
        (if_rd (kde_is buf pos (l \<ge> 4 + 3 * 4) WFA_KEY_DATA_IP_ADDR_ALLOC)
          (Some (0, ie\<lparr> ie_ip_addr_alloc := Some (pos + 6) \<rparr>))
        (if_rd (kde_is buf pos (l > 4 + 2) RSN_KEY_DATA_OCI)
          (Some (0, ie\<lparr> ie_oci := body \<rparr>))
        (if_rd (kde_is buf pos (l \<ge> 4 + 1) WFA_KEY_DATA_TRANSITION_DISABLE)
          (Some (0, ie\<lparr> ie_transition_disable := body \<rparr>))
        (if_rd (kde_is buf pos (l \<ge> 4 + 2) WFA_KEY_DATA_DPP)
          (Some (0, ie\<lparr> ie_dpp_kde := body \<rparr>))
        (Some (2, ie)))))))))))))) }"

definition wpa_parse_vendor_specific ::
  "bytes \<Rightarrow> nat \<Rightarrow> wpa_eapol_ie_parse \<Rightarrow> wpa_eapol_ie_parse option" where
  "wpa_parse_vendor_specific buf pos ie = do {
     lb \<leftarrow> rd8 buf (pos + 1);
     if unat lb < 4 then Some ie
     else do {
       oui \<leftarrow> WPA_GET_BE24 buf (pos + 2);
       if oui = 0x0050F2
       then do {
         t \<leftarrow> rd8 buf (pos + 5);
         if t = 2 \<and> unat lb > 4
         then do {
           st \<leftarrow> rd8 buf (pos + 6);
           Some (if st = 0 then ie\<lparr> ie_wmm := Some (pos + 2, unat lb) \<rparr>
                 else if st = 1 then ie\<lparr> ie_wmm := Some (pos + 2, unat lb) \<rparr>
                 else ie) }
         else Some ie }
       else Some ie } }"

text \<open>The element at \<open>pos\<close>, whose identifier is \<open>eid\<close> and whose length octet is
  \<open>l\<close>; the flag of the result says that the end mark was found.\<close>

definition kde_element ::
  "bytes \<Rightarrow> nat \<Rightarrow> byte \<Rightarrow> nat \<Rightarrow> wpa_eapol_ie_parse \<Rightarrow> (bool \<times> wpa_eapol_ie_parse) option" where
  "kde_element buf pos eid l ie =
     (let whole = Some (pos, l + 2); go = (\<lambda>ie. Some (False, ie))
      in if eid = WLAN_EID_RSN then go (ie\<lparr> ie_rsn_ie := whole \<rparr>)
         else if eid = WLAN_EID_RSNX then go (ie\<lparr> ie_rsnxe := whole \<rparr>)
         else if eid = 54 then go (ie\<lparr> ie_mdie := whole \<rparr>)
         else if eid = 55 then go (ie\<lparr> ie_ftie := whole \<rparr>)
         else if eid = 56 \<and> l \<ge> 5
         then do {
           t \<leftarrow> rd8 buf (pos + 2);
           go (if t = 1 then ie\<lparr> ie_reassoc_deadline := Some pos \<rparr>
               else if t = 2 then ie\<lparr> ie_key_lifetime := Some pos \<rparr>
               else ie) }
         else if eid = 101 then go (if l \<ge> 18 then ie\<lparr> ie_lnkid := whole \<rparr> else ie)
         else if eid = 127 then go (ie\<lparr> ie_ext_capab := whole \<rparr>)
         else if eid = 1 then go (ie\<lparr> ie_supp_rates := whole \<rparr>)
         else if eid = 50 then go (ie\<lparr> ie_ext_supp_rates := whole \<rparr>)
         else if eid = 45 \<and> l \<ge> 26 then go (ie\<lparr> ie_ht_capabilities := Some (pos + 2) \<rparr>)
         else if eid = 197
         then (if l \<ge> 2
               then do { a \<leftarrow> WPA_GET_LE16 buf (pos + 2); go (ie\<lparr> ie_aid := a AND 0x3FFF \<rparr>) }
               else go ie)
         else if eid = 191 \<and> l \<ge> 12 then go (ie\<lparr> ie_vht_capabilities := Some (pos + 2) \<rparr>)
         else if_rd (if eid = WLAN_EID_EXTENSION \<and> l \<ge> 1 + 17
                     then map_option (\<lambda>e. e = 35) (rd8 buf (pos + 2)) else Some False)
           (go (ie\<lparr> ie_he_capabilities := Some (pos + 3, l - 1) \<rparr>))
         (if_rd (if eid = WLAN_EID_EXTENSION \<and> l \<ge> 1 + 2
                 then map_option (\<lambda>e. e = 59) (rd8 buf (pos + 2)) else Some False)
           (go (ie\<lparr> ie_he_6ghz_capabilities := Some (pos + 3) \<rparr>))
         (if eid = 46 \<and> l \<ge> 1
          then do { q \<leftarrow> rd8 buf (pos + 2); go (ie\<lparr> ie_qosinfo := q \<rparr>) }
          else if eid = 36 then go (ie\<lparr> ie_supp_channels := Some (pos + 2, l) \<rparr>)
          else if eid = 59
          then go (if l \<ge> 2 \<and> l \<le> 253 then ie\<lparr> ie_supp_oper_classes := Some (pos + 2, l) \<rparr> else ie)
          else if eid = WLAN_EID_VENDOR_SPECIFIC
          then do {
            (ret, ie) \<leftarrow> wpa_parse_generic buf pos ie;
            if ret = 1 then Some (True, ie)
            else if ret = 2 then do { ie \<leftarrow> wpa_parse_vendor_specific buf pos ie; go ie }
            else go ie }
          else go ie)))"

function kde_loop :: "bytes \<Rightarrow> nat \<Rightarrow> wpa_eapol_ie_parse \<Rightarrow> (int \<times> wpa_eapol_ie_parse) option" where
  "kde_loop buf pos ie =
     (if length buf - pos > 1
      then do {
        eid \<leftarrow> rd8 buf pos; lb \<leftarrow> rd8 buf (pos + 1);
        if eid = 0xDD \<and> (pos = length buf - 1 \<or> lb = 0) then Some (0, ie)
        else if 2 + unat lb > length buf - pos then Some (-1, ie)
        else do {
          (stop, ie) \<leftarrow> kde_element buf pos eid (unat lb) ie;
          if stop then Some (0, ie) else kde_loop buf (pos + 2 + unat lb) ie } }
      else Some (0, ie))"
  by pat_completeness auto
termination
  by (relation "measure (\<lambda>(buf, pos, _). length buf - pos)") auto

declare kde_loop.simps [simp del]

definition wpa_parse_kde_ies :: "bytes \<Rightarrow> (int \<times> wpa_eapol_ie_parse) option" where
  "wpa_parse_kde_ies buf = kde_loop buf 0 ie_none"


section \<open>The parsers stay inside their buffers\<close>

lemma bind_not_None:
  "m \<noteq> None \<Longrightarrow> (\<And>x. m = Some x \<Longrightarrow> f x \<noteq> None) \<Longrightarrow> Option.bind m f \<noteq> None"
  by (cases m) auto

lemma suite_loop_safe:
  "pos + 4 * n \<le> length buf \<Longrightarrow> suite_loop conv buf pos n acc \<noteq> None"
  by (induction n arbitrary: pos acc) (auto simp: rd_simps)

lemma suite_count_fits:
  "2 \<le> left \<Longrightarrow> \<not> (left - 2) div 4 < n \<Longrightarrow> pos + left = len \<Longrightarrow>
   pos + 2 + 4 * n \<le> len \<and> pos + 2 + 4 * n + (left - 2 - 4 * n) = len" for n left pos len :: nat
  by linarith

text \<open>A stage of a parser is safe when it never reads outside a buffer of which
  \<open>left\<close> octets remain from \<open>pos\<close>.\<close>

definition stage_safe :: "(bytes \<Rightarrow> nat \<Rightarrow> nat \<Rightarrow> 'd \<Rightarrow> 'r option) \<Rightarrow> bool" where
  "stage_safe f \<longleftrightarrow> (\<forall>buf pos left d. pos + left = length buf \<longrightarrow> f buf pos left d \<noteq> None)"

lemma stage_safeD: "stage_safe f \<Longrightarrow> pos + left = length buf \<Longrightarrow> f buf pos left d \<noteq> None"
  by (auto simp: stage_safe_def)

text \<open>The suite list stages share their shape.\<close>

lemma suite_stage_safe:
  assumes "pos + left = length buf" "2 \<le> left"
    and "\<And>n d. 0 < n \<Longrightarrow> n \<le> (left - 2) div 4 \<Longrightarrow>
           k d (pos + 2 + 4 * n) (left - 2 - 4 * n) \<noteq> None"
  shows "Option.bind (WPA_GET_LE16 buf pos) (\<lambda>n.
           if unat n = 0 \<or> unat n > (left - 2) div 4 then Some e
           else Option.bind (suite_loop conv buf (pos + 2) (unat n) 0)
                  (\<lambda>v. k v (pos + 2 + 4 * unat n) (left - 2 - 4 * unat n))) \<noteq> None"
proof (rule bind_not_None)
  show "WPA_GET_LE16 buf pos \<noteq> None"
    using assms(1,2) by (simp add: rd_simps)
next
  fix n
  show "(if unat n = 0 \<or> unat n > (left - 2) div 4 then Some e
         else Option.bind (suite_loop conv buf (pos + 2) (unat n) 0)
                (\<lambda>v. k v (pos + 2 + 4 * unat n) (left - 2 - 4 * unat n))) \<noteq> None"
    using suite_count_fits [OF assms(2) _ assms(1), of "unat n"] assms(3)
      suite_loop_safe [of "pos + 2" "unat n" buf conv 0]
    by (auto intro!: bind_not_None)
qed

lemma rsn_mgmt_group_safe: "stage_safe rsn_mgmt_group"
  by (auto simp: stage_safe_def rsn_mgmt_group_def rd_simps Let_def)

lemma rsn_pmkids_safe: "stage_safe rsn_pmkids"
proof -
  have "p + 2 + n * 16 + (l - 2 - n * 16) = len"
    if "2 \<le> l" "\<not> (l - 2) div 16 < n" "p + l = len" for p l n len :: nat
    using that by linarith
  then show ?thesis
    using stage_safeD [OF rsn_mgmt_group_safe]
    by (auto simp: stage_safe_def rsn_pmkids_def rd_simps Let_def)
qed

lemma rsn_capabilities_safe: "stage_safe rsn_capabilities"
  using stage_safeD [OF rsn_pmkids_safe]
  by (auto simp: stage_safe_def rsn_capabilities_def rd_simps)

lemma stage_safeI:
  "(\<And>buf pos left d. pos + left = length buf \<Longrightarrow> f buf pos left d \<noteq> None) \<Longrightarrow> stage_safe f"
  by (simp add: stage_safe_def)

lemma rsn_key_mgmt_safe: "stage_safe rsn_key_mgmt"
proof (rule stage_safeI)
  fix buf :: bytes and pos left d
  assume fit: "pos + left = length buf"
  consider "2 \<le> left" | "left = 1" | "left = 0" by linarith
  then show "rsn_key_mgmt buf pos left d \<noteq> None"
  proof cases
    case 1
    show ?thesis
      unfolding rsn_key_mgmt_def Let_def if_P [OF 1]
      by (rule suite_stage_safe [OF fit 1,
            where k = "\<lambda>v p l. rsn_capabilities buf p l (d\<lparr> key_mgmt := 0, key_mgmt := v \<rparr>)"])
         (use 1 fit in \<open>auto intro!: stage_safeD [OF rsn_capabilities_safe] simp del: not_None_eq not_Some_eq split_paired_Ex\<close>)
  qed (use fit in \<open>auto simp: rsn_key_mgmt_def intro!: stage_safeD [OF rsn_capabilities_safe] simp del: not_None_eq not_Some_eq split_paired_Ex\<close>)
qed

lemma rsn_pairwise_safe: "stage_safe rsn_pairwise"
proof (rule stage_safeI)
  fix buf :: bytes and pos left d
  assume fit: "pos + left = length buf"
  consider "2 \<le> left" | "left = 1" | "left = 0" by linarith
  then show "rsn_pairwise buf pos left d \<noteq> None"
  proof cases
    case 1
    show ?thesis
      unfolding rsn_pairwise_def Let_def if_P [OF 1]
      by (rule suite_stage_safe [OF fit 1,
            where k = "\<lambda>v p l. if has v WPA_CIPHER_AES_128_CMAC
              then Some (-1, d\<lparr> pairwise_cipher := 0, has_pairwise := True, pairwise_cipher := v \<rparr>)
              else rsn_key_mgmt buf p l (d\<lparr> pairwise_cipher := 0, has_pairwise := True, pairwise_cipher := v \<rparr>)"])
         (use 1 fit in \<open>auto intro!: stage_safeD [OF rsn_key_mgmt_safe] simp del: not_None_eq not_Some_eq split_paired_Ex\<close>)
  qed (use fit in \<open>auto simp: rsn_pairwise_def intro!: stage_safeD [OF rsn_key_mgmt_safe] simp del: not_None_eq not_Some_eq split_paired_Ex\<close>)
qed

lemma rsn_group_safe: "stage_safe rsn_group"
  using stage_safeD [OF rsn_pairwise_safe]
  by (auto simp: stage_safe_def rsn_group_def rd_simps Let_def)

lemma parse_rsn_not_None: "wpa_parse_wpa_ie_rsn rsn_ie \<noteq> None"
proof -
  have "rsn_is_osen rsn_ie \<noteq> None"
    by (auto simp: rsn_is_osen_def rd_simps)
  moreover have "rsn_is_osen rsn_ie = Some True \<Longrightarrow> 6 \<le> length rsn_ie"
    by (auto simp: rsn_is_osen_def split: if_splits)
  ultimately show ?thesis
    using stage_safeD [OF rsn_group_safe, of 4 "length rsn_ie - 4" rsn_ie]
      stage_safeD [OF rsn_group_safe, of 6 "length rsn_ie - 6" rsn_ie]
    by (auto simp: wpa_parse_wpa_ie_rsn_def Let_def rd_simps)
qed

lemma wpa1_capabilities_safe: "stage_safe wpa1_capabilities"
  by (auto simp: stage_safe_def wpa1_capabilities_def rd_simps)

lemma wpa1_key_mgmt_safe: "stage_safe wpa1_key_mgmt"
proof (rule stage_safeI)
  fix buf :: bytes and pos left d
  assume fit: "pos + left = length buf"
  consider "2 \<le> left" | "left = 1" | "left = 0" by linarith
  then show "wpa1_key_mgmt buf pos left d \<noteq> None"
  proof cases
    case 1
    show ?thesis
      unfolding wpa1_key_mgmt_def Let_def if_P [OF 1]
      by (rule suite_stage_safe [OF fit 1,
            where k = "\<lambda>v p l. wpa1_capabilities buf p l (d\<lparr> key_mgmt := 0, key_mgmt := v \<rparr>)"])
         (use 1 fit in \<open>auto intro!: stage_safeD [OF wpa1_capabilities_safe] simp del: not_None_eq not_Some_eq split_paired_Ex\<close>)
  qed (use fit in \<open>auto simp: wpa1_key_mgmt_def intro!: stage_safeD [OF wpa1_capabilities_safe] simp del: not_None_eq not_Some_eq split_paired_Ex\<close>)
qed

lemma wpa1_pairwise_safe: "stage_safe wpa1_pairwise"
proof (rule stage_safeI)
  fix buf :: bytes and pos left d
  assume fit: "pos + left = length buf"
  consider "2 \<le> left" | "left = 1" | "left = 0" by linarith
  then show "wpa1_pairwise buf pos left d \<noteq> None"
  proof cases
    case 1
    show ?thesis
      unfolding wpa1_pairwise_def Let_def if_P [OF 1]
      by (rule suite_stage_safe [OF fit 1,
            where k = "\<lambda>v p l. wpa1_key_mgmt buf p l (d\<lparr> pairwise_cipher := 0, pairwise_cipher := v \<rparr>)"])
         (use 1 fit in \<open>auto intro!: stage_safeD [OF wpa1_key_mgmt_safe] simp del: not_None_eq not_Some_eq split_paired_Ex\<close>)
  qed (use fit in \<open>auto simp: wpa1_pairwise_def intro!: stage_safeD [OF wpa1_key_mgmt_safe] simp del: not_None_eq not_Some_eq split_paired_Ex\<close>)
qed

lemma parse_wpa_not_None: "wpa_parse_wpa_ie_wpa wpa_ie \<noteq> None"
proof (cases "length wpa_ie < 8")
  case False
  then have "wpa_ie \<noteq> []" by auto
  then show ?thesis
    using False stage_safeD [OF wpa1_pairwise_safe, of 8 "length wpa_ie - 8" wpa_ie]
      stage_safeD [OF wpa1_pairwise_safe, of 12 "length wpa_ie - 12" wpa_ie]
    by (auto simp: wpa_parse_wpa_ie_wpa_def Let_def rd_simps)
qed (simp add: wpa_parse_wpa_ie_wpa_def)

lemma parse_ie_not_None: "wpa_parse_wpa_ie ie \<noteq> None"
  using parse_rsn_not_None [of ie] parse_wpa_not_None [of ie]
  by (cases "ie = []") (auto simp: wpa_parse_wpa_ie_def rd_simps)

text \<open>C34: parsing a WPA, RSN or OSEN element never reads outside the element,
  for any octet string an access point may send.\<close>

theorem wpa_parse_wpa_ie_safe: "wpa_parse_wpa_ie ie \<noteq> None"
  by (rule parse_ie_not_None)


text \<open>Pointers of the parsed Key Data, and the octets behind them, lie in the
  buffer of \<open>n\<close> octets; \<open>m\<close> is the least number of octets the code may use
  behind the pointer.\<close>

definition span_in :: "nat \<Rightarrow> nat \<Rightarrow> span option \<Rightarrow> bool" where
  "span_in n m sp \<longleftrightarrow> (case sp of None \<Rightarrow> True | Some (off, l) \<Rightarrow> off + l \<le> n \<and> m \<le> l)"

definition ptr_in :: "nat \<Rightarrow> nat \<Rightarrow> nat option \<Rightarrow> bool" where
  "ptr_in n m q \<longleftrightarrow> (case q of None \<Rightarrow> True | Some off \<Rightarrow> off + m \<le> n)"

lemma span_in_simps [simp]:
  "span_in n m None" "span_in n m (Some (off, l)) \<longleftrightarrow> off + l \<le> n \<and> m \<le> l"
  "ptr_in n m None" "ptr_in n m (Some off) \<longleftrightarrow> off + m \<le> n"
  by (simp_all add: span_in_def ptr_in_def)

definition kde_in :: "nat \<Rightarrow> wpa_eapol_ie_parse \<Rightarrow> bool" where
  "kde_in n ie \<longleftrightarrow>
     span_in n 8 (ie_wpa_ie ie) \<and>
     span_in n 2 (ie_rsn_ie ie) \<and>
     span_in n 3 (ie_gtk ie) \<and>
     span_in n 3 (ie_mac_addr ie) \<and>
     span_in n 3 (ie_igtk ie) \<and>
     span_in n 3 (ie_bigtk ie) \<and>
     span_in n 2 (ie_mdie ie) \<and>
     span_in n 2 (ie_ftie ie) \<and>
     span_in n 1 (ie_transition_disable ie) \<and>
     span_in n 2 (ie_dpp_kde ie) \<and>
     span_in n 3 (ie_oci ie) \<and>
     span_in n 6 (ie_osen ie) \<and>
     span_in n 2 (ie_rsnxe ie) \<and>
     span_in n 20 (ie_lnkid ie) \<and>
     span_in n 2 (ie_ext_capab ie) \<and>
     span_in n 2 (ie_supp_rates ie) \<and>
     span_in n 2 (ie_ext_supp_rates ie) \<and>
     span_in n 17 (ie_he_capabilities ie) \<and>
     span_in n 0 (ie_supp_channels ie) \<and>
     span_in n 2 (ie_supp_oper_classes ie) \<and>
     span_in n 5 (ie_wmm ie) \<and>
     ptr_in n 16 (ie_pmkid ie) \<and>
     ptr_in n 2 (ie_key_id ie) \<and>
     ptr_in n 1 (ie_ip_addr_req ie) \<and>
     ptr_in n 12 (ie_ip_addr_alloc ie) \<and>
     ptr_in n 7 (ie_reassoc_deadline ie) \<and>
     ptr_in n 7 (ie_key_lifetime ie) \<and>
     ptr_in n 26 (ie_ht_capabilities ie) \<and>
     ptr_in n 12 (ie_vht_capabilities ie) \<and>
     ptr_in n 2 (ie_he_6ghz_capabilities ie)"

lemma kde_in_none [simp]: "kde_in n ie_none"
  by (simp add: kde_in_def ie_none_def)

lemma good_kde_is:
  assumes "g \<Longrightarrow> pos + 5 < length buf" "g \<Longrightarrow> good P t" "good P e"
  shows "good P (if_rd (kde_is buf pos g sel) t e)"
  using assms by (auto simp: kde_is_def rd_simps)

lemma good_kde_is_wpa:
  assumes "l \<ge> 6 \<Longrightarrow> pos + 7 < length buf" "l \<ge> 6 \<Longrightarrow> good P t" "good P e"
  shows "good P (if_rd (kde_is_wpa buf pos l) t e)"
  using assms by (auto simp: kde_is_wpa_def kde_is_def rd_simps if_rd_def)

lemma wpa_parse_generic_good:
  assumes "pos + 2 + unat (buf ! (pos + 1)) \<le> length buf" "kde_in (length buf) ie"
  shows "good (\<lambda>(ret, ie'). kde_in (length buf) ie') (wpa_parse_generic buf pos ie)"
proof -
  have rd: "rd8 buf (pos + 1) = Some (buf ! (pos + 1))"
    using assms(1) by (simp add: rd_simps)
  show ?thesis
    unfolding wpa_parse_generic_def rd Let_def bind.bind_lunit
    by (intro good_if good_kde_is good_kde_is_wpa)
       (use assms in \<open>simp_all add: kde_in_def\<close>)
qed

lemma wpa_parse_vendor_specific_good:
  assumes "pos + 2 + unat (buf ! (pos + 1)) \<le> length buf" "kde_in (length buf) ie"
  shows "good (kde_in (length buf)) (wpa_parse_vendor_specific buf pos ie)"
  using assms by (auto simp: wpa_parse_vendor_specific_def rd_simps kde_in_def)

lemma kde_element_good:
  assumes "pos + 2 + unat (buf ! (pos + 1)) \<le> length buf" "kde_in (length buf) ie"
  shows "good (\<lambda>(stop, ie'). kde_in (length buf) ie')
           (kde_element buf pos eid (unat (buf ! (pos + 1))) ie)"
proof -
  let ?n = "length buf" and ?l = "unat (buf ! (pos + 1))"
  have rd: "rd8 buf (pos + 2) = Some (buf ! (pos + 2))" if "1 \<le> ?l"
    using that assms(1) by (simp add: rd_simps)
  have le: "WPA_GET_LE16 buf (pos + 2) \<noteq> None" if "2 \<le> ?l"
    using that assms(1) by (simp add: rd_simps)
  have vendor: "good (\<lambda>(stop, ie'). kde_in ?n ie')
      (Option.bind (wpa_parse_generic buf pos ie)
         (\<lambda>(ret, ie). if ret = 1 then Some (True, ie)
           else if ret = 2 then Option.bind (wpa_parse_vendor_specific buf pos ie) (\<lambda>ie. Some (False, ie))
           else Some (False, ie)))"
    by (rule good_bind [OF wpa_parse_generic_good [OF assms]])
       (auto intro!: good_bind [OF wpa_parse_vendor_specific_good [OF assms(1)]])
  show ?thesis
    unfolding kde_element_def Let_def
    by (intro good_if good_if_rd_guard)
       (use assms vendor rd le in \<open>auto simp: kde_in_def\<close>)
qed

lemma kde_loop_good:
  assumes "kde_in (length buf) ie"
  shows "good (\<lambda>(ret, ie'). ret \<in> {0, -1} \<and> kde_in (length buf) ie') (kde_loop buf pos ie)"
  using assms
proof (induction buf pos ie rule: kde_loop.induct)
  case (1 buf pos ie)
  let ?l = "unat (buf ! (pos + 1))"
  show ?case
  proof (cases "length buf - pos > 1 \<and> \<not> 2 + ?l > length buf - pos")
    case True
    then have fit: "pos + 2 + ?l \<le> length buf" by linarith
    then have rd: "rd8 buf pos = Some (buf ! pos)" "rd8 buf (pos + 1) = Some (buf ! (pos + 1))"
      by (simp_all add: rd_simps)
    obtain stop ie' where el: "kde_element buf pos (buf ! pos) ?l ie = Some (stop, ie')"
      and ok: "kde_in (length buf) ie'"
      using kde_element_good [OF fit 1(2), of "buf ! pos"] by (auto simp: good_def)
    show ?thesis
      using 1 True ok
      by (subst kde_loop.simps) (auto simp: rd [simplified] el [simplified])
  next
    case False
    then show ?thesis
      using 1(2) by (subst kde_loop.simps) (auto simp: rd_simps not_less)
  qed
qed

text \<open>C21: parsing the Key Data field of an EAPOL-Key frame terminates, never
  reads outside the field, and every pointer it hands out (GTK, IGTK, BIGTK,
  PMKID, elements, \<dots>) has the octets behind it that its consumers use, for
  any octet string an access point may send.\<close>

theorem wpa_parse_kde_ies_in_bounds:
  "\<exists>ret ie. wpa_parse_kde_ies buf = Some (ret, ie) \<and> ret \<in> {0, -1} \<and> kde_in (length buf) ie"
  using kde_loop_good [of buf ie_none 0] by (auto simp: wpa_parse_kde_ies_def good_def)

end
