(* ===== verification/WPA_SM.thy ===== *)
theory WPA_SM
  imports WPA_Keys WPA_Parse
begin

text \<open>
  The state of the WPA supplicant: \<^verbatim>\<open>struct wpa_sm\<close> of
  \<^verbatim>\<open>src/rsn_supp/wpa_i.h\<close> (the fields of the modelled build configuration)
  with the PMKSA cache of \<^verbatim>\<open>src/rsn_supp/pmksa_cache.c\<close> inside it, and the
  interface of the state machine to the rest of the program.

  Every callback of \<^verbatim>\<open>struct wpa_sm_ctx\<close>, every notification of the EAPOL
  state machine and every timer operation is an \<open>action\<close>, recorded in
  \<open>sm_trace\<close> with the most recent one first.  What the callbacks, the driver,
  the clock, the random number generator and the allocator answer is given by
  an \<open>env\<close>, whose answers may depend on everything that happened before.
\<close>


section \<open>Actions and environment\<close>

datatype wpa_states =
    WPA_DISCONNECTED | WPA_INTERFACE_DISABLED | WPA_INACTIVE | WPA_SCANNING | WPA_AUTHENTICATING
  | WPA_ASSOCIATING | WPA_ASSOCIATED | WPA_4WAY_HANDSHAKE | WPA_GROUP_HANDSHAKE | WPA_COMPLETED

datatype timer = Pmksa_cache_expire | Pmksa_cache_reauth | Wpa_sm_rekey_ptk | Wpa_sm_start_preauth

abbreviation (input) KEY_FLAG_MODIFY :: u32 where "KEY_FLAG_MODIFY \<equiv> 0x1"
abbreviation (input) KEY_FLAG_DEFAULT :: u32 where "KEY_FLAG_DEFAULT \<equiv> 0x2"
abbreviation (input) KEY_FLAG_RX :: u32 where "KEY_FLAG_RX \<equiv> 0x4"
abbreviation (input) KEY_FLAG_TX :: u32 where "KEY_FLAG_TX \<equiv> 0x8"
abbreviation (input) KEY_FLAG_RX_TX :: u32 where "KEY_FLAG_RX_TX \<equiv> 0xC"
abbreviation (input) KEY_FLAG_GROUP :: u32 where "KEY_FLAG_GROUP \<equiv> 0x10"
abbreviation (input) KEY_FLAG_PAIRWISE :: u32 where "KEY_FLAG_PAIRWISE \<equiv> 0x20"
abbreviation (input) KEY_FLAG_GROUP_RX :: u32 where "KEY_FLAG_GROUP_RX \<equiv> 0x14"
abbreviation (input) KEY_FLAG_GROUP_RX_TX_DEFAULT :: u32 where "KEY_FLAG_GROUP_RX_TX_DEFAULT \<equiv> 0x1E"
abbreviation (input) KEY_FLAG_PAIRWISE_RX_TX_MODIFY :: u32 where "KEY_FLAG_PAIRWISE_RX_TX_MODIFY \<equiv> 0x2D"

abbreviation (input) ETH_P_EAPOL :: u16 where "ETH_P_EAPOL \<equiv> 0x888E"
abbreviation (input) WLAN_REASON_UNSPECIFIED :: u16 where "WLAN_REASON_UNSPECIFIED \<equiv> 1"
abbreviation (input) WLAN_REASON_IE_IN_4WAY_DIFFERS :: u16 where "WLAN_REASON_IE_IN_4WAY_DIFFERS \<equiv> 17"

datatype action =
    Set_state wpa_states
  | Deauthenticate u16
  | Reconnect
  | Set_key wpa_alg "bytes option" nat bool bytes bytes u32
  | Ether_send bytes u16 bytes
  | Random_get_bytes nat
  | Add_pmkid "nat option" bytes bytes "bytes option" bytes u32 byte u32
  | Remove_pmkid "nat option" bytes bytes "bytes option"
  | Cancel_auth_timeout
  | Mlme_setprotection bytes nat
  | Set_rekey_offload bytes bytes bytes
  | Key_mgmt_set_pmk bytes
  | Transition_disable byte
  | Store_ptk bytes u32 u32 wpa_ptk
  | Timer_cancel timer
  | Timer_register timer int
  | Eapol_notify_tx_eapol_key
  | Eapol_notify_portValid bool
  | Eapol_notify_eap_success bool
  | Eapol_notify_eap_fail bool
  | Eapol_notify_cached
  | Eapol_notify_lower_layer_success
  | Eapol_request_reauth
  | Rsn_preauth_deinit

record env =
  e_ret :: "action list \<Rightarrow> int"
  e_now :: "action list \<Rightarrow> int"
  e_random :: "action list \<Rightarrow> bytes option"
  e_bssid :: "action list \<Rightarrow> bytes option"
  e_state :: "action list \<Rightarrow> wpa_states"
  e_network_ctx :: "action list \<Rightarrow> bool"
  e_beacon_ie :: "action list \<Rightarrow> (bytes option \<times> bytes option \<times> bytes option) option"
  e_eapol_key :: "action list \<Rightarrow> nat \<Rightarrow> bytes option"
  e_alloc :: "action list \<Rightarrow> bool"
  e_eapol_version :: byte


section \<open>PMKSA cache entries\<close>

text \<open>\<open>pe_id\<close> is the identity (the address) of an entry; the FILS cache
  identifier and its flag are one option.\<close>

record pmksa_entry =
  pe_id :: nat
  pe_pmkid :: bytes
  pe_pmk :: bytes
  pe_pmk_len :: nat
  pe_expiration :: int
  pe_akmp :: u32
  pe_aa :: bytes
  pe_fils_cache_id :: "bytes option"
  pe_reauth_time :: int
  pe_network_ctx :: "nat option"
  pe_opportunistic :: bool
  pe_external :: bool


section \<open>The state machine structure\<close>

record wpa_sm =
  sm_pmk :: bytes
  sm_pmk_len :: nat
  sm_ptk :: wpa_ptk
  sm_tptk :: wpa_ptk
  sm_ptk_set :: bool
  sm_tptk_set :: bool
  sm_msg_3_of_4_ok :: bool
  sm_snonce :: bytes
  sm_anonce :: bytes
  sm_renew_snonce :: bool
  sm_rx_replay_counter :: bytes
  sm_rx_replay_counter_set :: bool
  sm_request_counter :: bytes
  sm_gtk :: wpa_gtk
  sm_gtk_wnm_sleep :: wpa_gtk
  sm_igtk :: wpa_igtk
  sm_igtk_wnm_sleep :: wpa_igtk
  sm_bigtk :: wpa_bigtk
  sm_bigtk_wnm_sleep :: wpa_bigtk
  sm_eapol :: bool
  sm_pmksa :: "pmksa_entry list"
  sm_pmksa_count :: int
  sm_pmksa_unlinked :: "pmksa_entry list"
  sm_pmksa_next_id :: nat
  sm_cur_pmksa :: "nat option"
  sm_pmksa_candidates :: "bytes list"
  sm_preauth_bssid :: bytes
  sm_fast_reauth :: bool
  sm_network_ctx :: "nat option"
  sm_allowed_pairwise_cipher :: u32
  sm_proactive_key_caching :: bool
  sm_eap_workaround :: bool
  sm_ssid :: bytes
  sm_ssid_len :: nat
  sm_wpa_ptk_rekey :: nat
  sm_wpa_deny_ptk0_rekey :: bool
  sm_p2p :: bool
  sm_wpa_rsc_relaxation :: bool
  sm_owe_ptk_workaround :: bool
  sm_beacon_prot :: bool
  sm_ext_key_id :: bool
  sm_use_ext_key_id :: bool
  sm_keyidx_active :: nat
  sm_force_kdk_derivation :: bool
  sm_own_addr :: bytes
  sm_bssid :: bytes
  sm_dot11RSNAConfigPMKLifetime :: u32
  sm_dot11RSNAConfigPMKReauthThreshold :: u32
  sm_dot11RSNAConfigSATimeout :: u32
  sm_dot11RSNA4WayHandshakeFailures :: u32
  sm_proto :: u32
  sm_pairwise_cipher :: u32
  sm_group_cipher :: u32
  sm_key_mgmt :: u32
  sm_mgmt_group_cipher :: u32
  sm_rsn_enabled :: bool
  sm_mfp :: nat
  sm_ocv :: bool
  sm_sae_pwe :: nat
  sm_sae_pk :: bool
  sm_secure_ltf :: bool
  sm_secure_rtt :: bool
  sm_prot_range_neg :: bool
  sm_assoc_wpa_ie :: "bytes option"
  sm_assoc_rsnxe :: "bytes option"
  sm_ap_wpa_ie :: "bytes option"
  sm_ap_rsn_ie :: "bytes option"
  sm_ap_rsnxe :: "bytes option"
  sm_p2p_ip_addr :: bytes
  sm_owe_ecdh :: "nat option"
  sm_owe_group :: u16
  sm_trace :: "action list"

definition act :: "action \<Rightarrow> wpa_sm \<Rightarrow> wpa_sm" where
  "act a sm = sm\<lparr> sm_trace := a # sm_trace sm \<rparr>"

text \<open>A callback with a result: the action is recorded, the environment
  answers.\<close>

definition call :: "env \<Rightarrow> action \<Rightarrow> wpa_sm \<Rightarrow> int \<times> wpa_sm" where
  "call e a sm = (let sm = act a sm in (e_ret e (sm_trace sm), sm))"

definition wpa_sm_zero :: wpa_sm where
  "wpa_sm_zero = \<lparr>
     sm_pmk = zeros 64, sm_pmk_len = 0, sm_ptk = ptk_zero, sm_tptk = ptk_zero,
     sm_ptk_set = False, sm_tptk_set = False, sm_msg_3_of_4_ok = False,
     sm_snonce = zeros 32, sm_anonce = zeros 32, sm_renew_snonce = False,
     sm_rx_replay_counter = zeros 8, sm_rx_replay_counter_set = False, sm_request_counter = zeros 8,
     sm_gtk = gtk_zero, sm_gtk_wnm_sleep = gtk_zero, sm_igtk = igtk_zero,
     sm_igtk_wnm_sleep = igtk_zero, sm_bigtk = bigtk_zero, sm_bigtk_wnm_sleep = bigtk_zero,
     sm_eapol = False, sm_pmksa = [], sm_pmksa_count = 0, sm_pmksa_unlinked = [],
     sm_pmksa_next_id = 0, sm_cur_pmksa = None, sm_pmksa_candidates = [],
     sm_preauth_bssid = zeros 6, sm_fast_reauth = False, sm_network_ctx = None,
     sm_allowed_pairwise_cipher = 0, sm_proactive_key_caching = False, sm_eap_workaround = False,
     sm_ssid = zeros 32, sm_ssid_len = 0, sm_wpa_ptk_rekey = 0, sm_wpa_deny_ptk0_rekey = False,
     sm_p2p = False, sm_wpa_rsc_relaxation = False, sm_owe_ptk_workaround = False,
     sm_beacon_prot = False, sm_ext_key_id = False, sm_use_ext_key_id = False, sm_keyidx_active = 0,
     sm_force_kdk_derivation = False, sm_own_addr = zeros 6, sm_bssid = zeros 6,
     sm_dot11RSNAConfigPMKLifetime = 0, sm_dot11RSNAConfigPMKReauthThreshold = 0,
     sm_dot11RSNAConfigSATimeout = 0, sm_dot11RSNA4WayHandshakeFailures = 0,
     sm_proto = 0, sm_pairwise_cipher = 0, sm_group_cipher = 0, sm_key_mgmt = 0,
     sm_mgmt_group_cipher = 0, sm_rsn_enabled = False, sm_mfp = 0, sm_ocv = False, sm_sae_pwe = 0,
     sm_sae_pk = False, sm_secure_ltf = False, sm_secure_rtt = False, sm_prot_range_neg = False,
     sm_assoc_wpa_ie = None, sm_assoc_rsnxe = None, sm_ap_wpa_ie = None, sm_ap_rsn_ie = None,
     sm_ap_rsnxe = None, sm_p2p_ip_addr = zeros 12,
     sm_owe_ecdh = None, sm_owe_group = 0, sm_trace = [] \<rparr>"

text \<open>\<^verbatim>\<open>wpa_sm_init\<close>, when the allocations succeed.\<close>

definition wpa_sm_init :: wpa_sm where
  "wpa_sm_init = wpa_sm_zero\<lparr>
     sm_renew_snonce := True,
     sm_dot11RSNAConfigPMKLifetime := 43200,
     sm_dot11RSNAConfigPMKReauthThreshold := 70,
     sm_dot11RSNAConfigSATimeout := 60 \<rparr>"

text \<open>An environment in which everything succeeds, for concrete runs.\<close>

definition env_sample :: env where
  "env_sample = \<lparr> e_ret = (\<lambda>tr. 0), e_now = (\<lambda>tr. 0), e_random = (\<lambda>tr. Some (replicate 32 1)),
     e_bssid = (\<lambda>tr. Some (replicate 6 2)), e_state = (\<lambda>tr. WPA_ASSOCIATED), e_network_ctx = (\<lambda>tr. True),
     e_beacon_ie = (\<lambda>tr. None), e_eapol_key = (\<lambda>tr n. None), e_alloc = (\<lambda>tr. True),
     e_eapol_version = 2 \<rparr>"

end
