(* ===== verification/WPA_IE.thy ===== *)
theory WPA_IE
  imports WPA_SM
begin

text \<open>
  Generation of the WPA, RSN and OSEN elements of the supplicant
  (\<^verbatim>\<open>src/rsn_supp/wpa_ie.c\<close>), and the round trip with the parsers: what the
  supplicant announces is what an RSN parser reads.  \<^const>\<open>None\<close> is the return
  of \<open>-1\<close>.
\<close>

text \<open>The entry behind \<^verbatim>\<open>sm->cur_pmksa\<close>: linked in the cache, or unlinked but
  not yet freed.\<close>

definition pmksa_deref :: "wpa_sm \<Rightarrow> nat \<Rightarrow> pmksa_entry option" where
  "pmksa_deref sm i = List.find (\<lambda>en. pe_id en = i) (sm_pmksa sm @ sm_pmksa_unlinked sm)"

definition cur_pmksa_entry :: "wpa_sm \<Rightarrow> pmksa_entry option" where
  "cur_pmksa_entry sm = Option.bind (sm_cur_pmksa sm) (pmksa_deref sm)"

definition wpa_gen_wpa_ie_wpa :: "nat \<Rightarrow> u32 \<Rightarrow> u32 \<Rightarrow> u32 \<Rightarrow> bytes option" where
  "wpa_gen_wpa_ie_wpa wpa_ie_len pw gr akm =
     (if wpa_ie_len < 8 + 4 + 2 + 4 + 2 + 4 then None
      else let gs = wpa_cipher_to_suite WPA_PROTO_WPA gr
      in if gs = 0 then None
      else let ps = wpa_cipher_to_suite WPA_PROTO_WPA pw
      in if ps = 0 \<or> (\<not> wpa_cipher_valid_pairwise pw \<and> pw \<noteq> WPA_CIPHER_NONE) then None
      else do {
        ks \<leftarrow> (if akm = WPA_KEY_MGMT_IEEE8021X then Some WPA_AUTH_KEY_MGMT_UNSPEC_802_1X
              else if akm = WPA_KEY_MGMT_PSK then Some WPA_AUTH_KEY_MGMT_PSK_OVER_802_1X
              else if akm = WPA_KEY_MGMT_WPA_NONE then Some WPA_AUTH_KEY_MGMT_NONE
              else if akm = WPA_KEY_MGMT_CCKM then Some WPA_AUTH_KEY_MGMT_CCKM
              else None);
        let body = WPA_PUT_BE32 WPA_OUI_TYPE @ WPA_PUT_LE16 1 @ WPA_PUT_BE32 gs @
                   [1, 0] @ WPA_PUT_BE32 ps @ [1, 0] @ WPA_PUT_BE32 ks
        in Some (WLAN_EID_VENDOR_SPECIFIC # of_nat (length body) # body) })"

definition rsn_supp_capab :: "wpa_sm \<Rightarrow> u16" where
  "rsn_supp_capab sm =
     (if sm_mfp sm \<noteq> 0 then WPA_CAPABILITY_MFPC else 0) OR
     (if sm_mfp sm = 2 then WPA_CAPABILITY_MFPR else 0) OR
     (if sm_ocv sm then WPA_CAPABILITY_OCVC else 0) OR
     (if sm_ext_key_id sm then WPA_CAPABILITY_EXT_KEY_ID_FOR_UNICAST else 0)"

definition rsn_akm_suite :: "u32 \<Rightarrow> u32 option" where
  "rsn_akm_suite akm =
     (if akm = WPA_KEY_MGMT_IEEE8021X then Some RSN_AUTH_KEY_MGMT_UNSPEC_802_1X
      else if akm = WPA_KEY_MGMT_PSK then Some RSN_AUTH_KEY_MGMT_PSK_OVER_802_1X
      else if akm = WPA_KEY_MGMT_CCKM then Some RSN_AUTH_KEY_MGMT_CCKM
      else if akm = WPA_KEY_MGMT_IEEE8021X_SHA256 then Some RSN_AUTH_KEY_MGMT_802_1X_SHA256
      else if akm = WPA_KEY_MGMT_PSK_SHA256 then Some RSN_AUTH_KEY_MGMT_PSK_SHA256
      else if akm = WPA_KEY_MGMT_SAE then Some RSN_AUTH_KEY_MGMT_SAE
      else if akm = WPA_KEY_MGMT_FT_SAE then Some RSN_AUTH_KEY_MGMT_FT_SAE
      else if akm = WPA_KEY_MGMT_IEEE8021X_SUITE_B_192 then Some RSN_AUTH_KEY_MGMT_802_1X_SUITE_B_192
      else if akm = WPA_KEY_MGMT_IEEE8021X_SUITE_B then Some RSN_AUTH_KEY_MGMT_802_1X_SUITE_B
      else if has akm WPA_KEY_MGMT_OWE then Some RSN_AUTH_KEY_MGMT_OWE
      else if has akm WPA_KEY_MGMT_DPP then Some RSN_AUTH_KEY_MGMT_DPP
      else if has akm WPA_KEY_MGMT_OSEN then Some RSN_AUTH_KEY_MGMT_OSEN
      else None)"

text \<open>The length check at the start does not count the management group
  cipher, and the count of zero PMKIDs before it, which are written at the
  end.\<close>

definition wpa_gen_wpa_ie_rsn :: "nat \<Rightarrow> u32 \<Rightarrow> u32 \<Rightarrow> u32 \<Rightarrow> u32 \<Rightarrow> wpa_sm \<Rightarrow> bytes option" where
  "wpa_gen_wpa_ie_rsn rsn_ie_len pw gr akm mgmt_group sm =
     (let cur = cur_pmksa_entry sm
      in if rsn_ie_len < 4 + 4 + 2 + 4 + 2 + 4 + 2 + (if cur \<noteq> None then 2 + 16 else 0) then None
      else let gs = wpa_cipher_to_suite WPA_PROTO_RSN gr
      in if gs = 0 then None
      else let ps = wpa_cipher_to_suite WPA_PROTO_RSN pw
      in if ps = 0 \<or> (\<not> wpa_cipher_valid_pairwise pw \<and> pw \<noteq> WPA_CIPHER_NONE) then None
      else do {
        ks \<leftarrow> rsn_akm_suite akm;
        let pmkids = (case cur of Some en \<Rightarrow> [1, 0] @ slice 0 16 (pe_pmkid en) | None \<Rightarrow> []);
            mgmt = (if wpa_cipher_valid_mgmt_group mgmt_group
                    then (if cur = None then WPA_PUT_LE16 0 else []) @
                         WPA_PUT_BE32 (wpa_cipher_to_suite WPA_PROTO_RSN mgmt_group)
                    else []);
            body = WPA_PUT_LE16 1 @ WPA_PUT_BE32 gs @ [1, 0] @ WPA_PUT_BE32 ps @
                   [1, 0] @ WPA_PUT_BE32 ks @ WPA_PUT_LE16 (rsn_supp_capab sm) @ pmkids @ mgmt
        in Some (WLAN_EID_RSN # of_nat (length body) # body) })"

definition wpa_gen_wpa_ie_osen :: "nat \<Rightarrow> u32 \<Rightarrow> u32 \<Rightarrow> u32 \<Rightarrow> bytes option" where
  "wpa_gen_wpa_ie_osen wpa_ie_len pw gr akm =
     (if wpa_ie_len < 2 + 4 + 4 + 2 + 4 + 2 + 4 then None
      else let gs = wpa_cipher_to_suite WPA_PROTO_RSN gr
      in if gs = 0 then None
      else let ps = wpa_cipher_to_suite WPA_PROTO_RSN pw
      in if ps = 0 \<or> (\<not> wpa_cipher_valid_pairwise pw \<and> pw \<noteq> WPA_CIPHER_NONE) then None
      else let body = [0x50, 0x6F, 0x9A, 0x12] @ WPA_PUT_BE32 gs @ WPA_PUT_LE16 1 @
                      WPA_PUT_BE32 ps @ WPA_PUT_LE16 1 @ WPA_PUT_BE32 RSN_AUTH_KEY_MGMT_OSEN
           in Some (WLAN_EID_VENDOR_SPECIFIC # of_nat (length body) # body))"

definition wpa_gen_wpa_ie :: "wpa_sm \<Rightarrow> nat \<Rightarrow> bytes option" where
  "wpa_gen_wpa_ie sm wpa_ie_len =
     (if sm_proto sm = WPA_PROTO_RSN
      then wpa_gen_wpa_ie_rsn wpa_ie_len (sm_pairwise_cipher sm) (sm_group_cipher sm)
             (sm_key_mgmt sm) (sm_mgmt_group_cipher sm) sm
      else if sm_proto sm = WPA_PROTO_OSEN
      then wpa_gen_wpa_ie_osen wpa_ie_len (sm_pairwise_cipher sm) (sm_group_cipher sm) (sm_key_mgmt sm)
      else wpa_gen_wpa_ie_wpa wpa_ie_len (sm_pairwise_cipher sm) (sm_group_cipher sm) (sm_key_mgmt sm))"

text \<open>The RSN extension element; the empty octet string is the return of \<open>0\<close>.
  The bits are \<^verbatim>\<open>WLAN_RSNX_CAPAB_SAE_H2E\<close> (5), \<^verbatim>\<open>SECURE_LTF\<close> (8),
  \<^verbatim>\<open>SECURE_RTT\<close> (9) and \<^verbatim>\<open>PROT_RANGE_NEG\<close> (10).\<close>

definition wpa_gen_rsnxe :: "wpa_sm \<Rightarrow> nat \<Rightarrow> bytes option" where
  "wpa_gen_rsnxe sm rsnxe_len =
     (let capab = ((if wpa_key_mgmt_sae (sm_key_mgmt sm) \<and>
                       (sm_sae_pwe sm = 1 \<or> sm_sae_pwe sm = 2 \<or> sm_sae_pk sm) then 0x20 else 0) OR
                   (if sm_secure_ltf sm then 0x100 else 0) OR
                   (if sm_secure_rtt sm then 0x200 else 0) OR
                   (if sm_prot_range_neg sm then 0x400 else 0)) :: u16;
          flen = (if has capab 0xFF00 then 2 else 1) :: nat
      in if capab = 0 then Some []
         else if rsnxe_len < 2 + flen then None
         else let capab = capab OR of_nat (flen - 1)
              in Some ([WLAN_EID_RSNX, of_nat flen, ucast (capab AND 0xFF)] @
                       (if drop_bit 8 capab \<noteq> 0 then [ucast (drop_bit 8 capab)] else [])))"


section \<open>Round trip\<close>

lemma OSEN_be32: "(OSEN_IE_VENDOR_TYPE :: u32) = be32 0x50 0x6F 0x9A 0x12"
  by (simp add: be32_def)

lemma be16_one: "be16 0 1 = 1" "be16 0 0 = 0"
  by (simp_all add: be16_def)

lemma suite_loop_one:
  "suite_loop conv buf pos 1 0 = map_option conv (WPA_GET_BE32 buf pos)"
  by (cases "WPA_GET_BE32 buf pos") auto

text \<open>The fixed part of an RSN element with one suite of each kind.\<close>

definition rsn_fixed :: "byte \<Rightarrow> u32 \<Rightarrow> u32 \<Rightarrow> u32 \<Rightarrow> u16 \<Rightarrow> bytes \<Rightarrow> bytes" where
  "rsn_fixed l gs ps ks cap tail =
     WLAN_EID_RSN # l # WPA_PUT_LE16 1 @ WPA_PUT_BE32 gs @ [1, 0] @ WPA_PUT_BE32 ps @
     [1, 0] @ WPA_PUT_BE32 ks @ WPA_PUT_LE16 cap @ tail"

lemmas put_defs = WPA_PUT_BE32_def WPA_PUT_LE16_def WPA_PUT_BE16_def
lemmas get_defs = WPA_GET_BE32_def WPA_GET_LE16_def WPA_GET_BE16_def

lemma length_rsn_fixed [simp]: "length (rsn_fixed l gs ps ks cap tail) = 22 + length tail"
  by (simp add: rsn_fixed_def)

lemma rsn_fixed_reads:
  "rd8 (rsn_fixed l gs ps ks cap tail) 0 = Some WLAN_EID_RSN"
  "rd8 (rsn_fixed l gs ps ks cap tail) 1 = Some l"
  "WPA_GET_LE16 (rsn_fixed l gs ps ks cap tail) 2 = Some 1"
  "WPA_GET_BE32 (rsn_fixed l gs ps ks cap tail) 4 = Some gs"
  "WPA_GET_LE16 (rsn_fixed l gs ps ks cap tail) 8 = Some 1"
  "WPA_GET_BE32 (rsn_fixed l gs ps ks cap tail) 10 = Some ps"
  "WPA_GET_LE16 (rsn_fixed l gs ps ks cap tail) 14 = Some 1"
  "WPA_GET_BE32 (rsn_fixed l gs ps ks cap tail) 16 = Some ks"
  "WPA_GET_LE16 (rsn_fixed l gs ps ks cap tail) 20 = Some cap"
  by (simp_all add: rsn_fixed_def put_defs get_defs be16_one)

lemma rsn_fixed_tail:
  assumes "22 \<le> i"
  shows "WPA_GET_LE16 (rsn_fixed l gs ps ks cap tail) i = WPA_GET_LE16 tail (i - 22)"
    and "WPA_GET_BE32 (rsn_fixed l gs ps ks cap tail) i = WPA_GET_BE32 tail (i - 22)"
proof -
  have split: "rsn_fixed l gs ps ks cap tail = rsn_fixed l gs ps ks cap [] @ tail"
    by (simp add: rsn_fixed_def)
  show "WPA_GET_LE16 (rsn_fixed l gs ps ks cap tail) i = WPA_GET_LE16 tail (i - 22)"
    "WPA_GET_BE32 (rsn_fixed l gs ps ks cap tail) i = WPA_GET_BE32 tail (i - 22)"
    using assms by (subst split, simp add: WPA_GET_skip)+
qed

lemma rsn_fixed_not_osen: "rsn_is_osen (rsn_fixed l gs ps ks cap tail) = Some False"
proof -
  have "WPA_GET_BE32 (rsn_fixed l gs ps ks cap tail) 2 =
      Some (be32 1 0 (ucast (drop_bit 24 gs)) (ucast (drop_bit 16 gs)))"
    by (simp add: rsn_fixed_def put_defs get_defs)
  then show ?thesis
    by (simp add: rsn_is_osen_def rsn_fixed_reads(2) OSEN_be32 del: One_nat_def)
qed

lemma parse_rsn_fixed:
  assumes "unat l = 20 + length tail"
    and "wpa_cipher_valid_group (rsn_selector_to_bitfield gs)"
    and "\<not> has (rsn_selector_to_bitfield ps) WPA_CIPHER_AES_128_CMAC"
  shows "wpa_parse_wpa_ie_rsn (rsn_fixed l gs ps ks cap tail) =
    rsn_pmkids (rsn_fixed l gs ps ks cap tail) 22 (length tail)
      (rsn_ie_default\<lparr> group_cipher := rsn_selector_to_bitfield gs, has_group := True,
         has_pairwise := True, pairwise_cipher := rsn_selector_to_bitfield ps,
         key_mgmt := rsn_key_mgmt_to_bitfield ks, capabilities := cap \<rparr>)"
  using assms div_greater_zero_iff [of "12 + length tail" 4] div_greater_zero_iff [of "6 + length tail" 4]
  by (simp add: wpa_parse_wpa_ie_rsn_def Let_def rsn_fixed_not_osen rsn_fixed_reads rsn_group_def
      rsn_pairwise_def rsn_key_mgmt_def rsn_capabilities_def suite_loop_one del: One_nat_def)

text \<open>The optional part: a list of PMKIDs and a management group cipher.\<close>

lemma parse_rsn_tail_empty:
  "rsn_pmkids (rsn_fixed l gs ps ks cap []) 22 0 d = Some (0, d)"
  by (simp add: rsn_pmkids_def rsn_mgmt_group_def)

lemma parse_rsn_tail_mgmt:
  assumes "wpa_cipher_valid_mgmt_group (rsn_selector_to_bitfield ms)"
  shows "rsn_pmkids (rsn_fixed l gs ps ks cap (WPA_PUT_LE16 0 @ WPA_PUT_BE32 ms)) 22 6 d =
    Some (0, d\<lparr> num_pmkid := 0, pmkid := Some 24, mgmt_group_cipher := rsn_selector_to_bitfield ms \<rparr>)"
proof -
  have "WPA_GET_LE16 (WPA_PUT_LE16 0 @ WPA_PUT_BE32 ms) 0 = Some 0"
    "WPA_GET_BE32 (WPA_PUT_LE16 0 @ WPA_PUT_BE32 ms) 2 = Some ms"
    by (simp_all add: put_defs get_defs be16_one)
  then show ?thesis
    using assms by (simp add: rsn_pmkids_def rsn_mgmt_group_def rsn_fixed_tail Let_def)
qed

lemma parse_rsn_tail_pmkid:
  assumes "length pm = 16"
  shows "rsn_pmkids (rsn_fixed l gs ps ks cap ([1, 0] @ pm)) 22 18 d =
    Some (0, d\<lparr> num_pmkid := 1, pmkid := Some 24 \<rparr>)"
proof -
  have "WPA_GET_LE16 ([1, 0] @ pm) 0 = Some 1"
    by (simp add: get_defs be16_one)
  then show ?thesis
    by (simp add: rsn_pmkids_def rsn_mgmt_group_def rsn_fixed_tail Let_def)
qed

lemma parse_rsn_tail_pmkid_mgmt:
  assumes "length pm = 16" "wpa_cipher_valid_mgmt_group (rsn_selector_to_bitfield ms)"
  shows "rsn_pmkids (rsn_fixed l gs ps ks cap ([1, 0] @ pm @ WPA_PUT_BE32 ms)) 22 22 d =
    Some (0, d\<lparr> num_pmkid := 1, pmkid := Some 24,
                mgmt_group_cipher := rsn_selector_to_bitfield ms \<rparr>)"
proof -
  have "WPA_GET_LE16 ([1, 0] @ pm @ WPA_PUT_BE32 ms) 0 = Some 1"
    by (simp add: get_defs be16_one)
  moreover have "WPA_GET_BE32 ([1, 0] @ pm @ WPA_PUT_BE32 ms) 18 = Some ms"
    using WPA_GET_BE32_PUT [of 18 "[1, 0] @ pm" ms "[]"] assms(1) by simp
  ultimately show ?thesis
    using assms(2) by (simp add: rsn_pmkids_def rsn_mgmt_group_def rsn_fixed_tail Let_def)
qed

text \<open>The key management suites that both the generator and the parser of an
  RSN element know.\<close>

definition rsn_common_akm :: "u32 \<Rightarrow> bool" where
  "rsn_common_akm akm \<longleftrightarrow> akm \<in> {WPA_KEY_MGMT_IEEE8021X, WPA_KEY_MGMT_PSK,
     WPA_KEY_MGMT_IEEE8021X_SHA256, WPA_KEY_MGMT_PSK_SHA256, WPA_KEY_MGMT_SAE, WPA_KEY_MGMT_FT_SAE,
     WPA_KEY_MGMT_IEEE8021X_SUITE_B_192, WPA_KEY_MGMT_IEEE8021X_SUITE_B, WPA_KEY_MGMT_OWE,
     WPA_KEY_MGMT_DPP, WPA_KEY_MGMT_OSEN}"

lemma rsn_akm_roundtrip:
  assumes "rsn_common_akm akm"
  shows "\<exists>ks. rsn_akm_suite akm = Some ks \<and> rsn_key_mgmt_to_bitfield ks = akm"
  using assms unfolding rsn_common_akm_def insert_iff empty_iff
  by (elim disjE; simp add: rsn_akm_suite_def rsn_key_mgmt_to_bitfield_def)

lemma rsn_pw_roundtrip:
  assumes "wpa_cipher_valid_pairwise pw \<or> pw = WPA_CIPHER_NONE"
  shows "rsn_selector_to_bitfield (wpa_cipher_to_suite WPA_PROTO_RSN pw) = pw \<and>
    \<not> has pw WPA_CIPHER_AES_128_CMAC"
  using assms unfolding wpa_cipher_valid_pairwise_def
  by (elim disjE; simp add: wpa_cipher_to_suite_def rsn_selector_to_bitfield_def)

text \<open>What the supplicant announces is what the other side reads.\<close>

definition rsn_ie_describes :: "wpa_ie_data \<Rightarrow> bytes \<Rightarrow> wpa_sm \<Rightarrow> bool" where
  "rsn_ie_describes d ie sm \<longleftrightarrow>
     proto d = WPA_PROTO_RSN \<and> group_cipher d = sm_group_cipher sm \<and>
     pairwise_cipher d = sm_pairwise_cipher sm \<and> key_mgmt d = sm_key_mgmt sm \<and>
     capabilities d = rsn_supp_capab sm \<and>
     mgmt_group_cipher d =
       (if wpa_cipher_valid_mgmt_group (sm_mgmt_group_cipher sm) then sm_mgmt_group_cipher sm
        else WPA_CIPHER_AES_128_CMAC) \<and>
     (case cur_pmksa_entry sm of
        None \<Rightarrow> num_pmkid d = 0
      | Some en \<Rightarrow> num_pmkid d = 1 \<and> (\<exists>off. pmkid d = Some off \<and> slice off 16 ie = pe_pmkid en))"

text \<open>The optional part of the generated element.\<close>

definition rsn_tail :: "wpa_sm \<Rightarrow> bytes" where
  "rsn_tail sm =
     (let mg = sm_mgmt_group_cipher sm; ms = WPA_PUT_BE32 (wpa_cipher_to_suite WPA_PROTO_RSN mg)
      in case cur_pmksa_entry sm of
           Some en \<Rightarrow> [1, 0] @ slice 0 16 (pe_pmkid en) @
             (if wpa_cipher_valid_mgmt_group mg then ms else [])
         | None \<Rightarrow> if wpa_cipher_valid_mgmt_group mg then WPA_PUT_LE16 0 @ ms else [])"

lemma gen_rsn_fixed:
  assumes "wpa_gen_wpa_ie sm n = Some ie" "sm_proto sm = WPA_PROTO_RSN"
  shows "\<exists>ks. rsn_akm_suite (sm_key_mgmt sm) = Some ks \<and>
    (wpa_cipher_valid_pairwise (sm_pairwise_cipher sm) \<or> sm_pairwise_cipher sm = WPA_CIPHER_NONE) \<and>
    ie = rsn_fixed (of_nat (20 + length (rsn_tail sm)))
           (wpa_cipher_to_suite WPA_PROTO_RSN (sm_group_cipher sm))
           (wpa_cipher_to_suite WPA_PROTO_RSN (sm_pairwise_cipher sm)) ks (rsn_supp_capab sm) (rsn_tail sm)"
  using assms
  by (cases "cur_pmksa_entry sm")
     (auto simp: wpa_gen_wpa_ie_def wpa_gen_wpa_ie_rsn_def Let_def rsn_fixed_def rsn_tail_def
        bind_eq_Some_conv split: if_splits)

lemma rsn_tail_parsed:
  assumes "\<And>en. cur_pmksa_entry sm = Some en \<Longrightarrow> length (pe_pmkid en) = 16"
  shows "length (rsn_tail sm) \<le> 22"
    and "\<exists>off. rsn_pmkids (rsn_fixed l gs ps ks cap (rsn_tail sm)) 22 (length (rsn_tail sm)) d =
      Some (0, d\<lparr> num_pmkid := (if cur_pmksa_entry sm = None \<and>
                    \<not> wpa_cipher_valid_mgmt_group (sm_mgmt_group_cipher sm) then num_pmkid d
                  else if cur_pmksa_entry sm = None then 0 else 1),
        pmkid := off,
        mgmt_group_cipher := (if wpa_cipher_valid_mgmt_group (sm_mgmt_group_cipher sm)
          then sm_mgmt_group_cipher sm else mgmt_group_cipher d) \<rparr>) \<and>
      (cur_pmksa_entry sm \<noteq> None \<longrightarrow> off = Some 24)"
proof -
  let ?mg = "sm_mgmt_group_cipher sm"
  have ms: "wpa_cipher_valid_mgmt_group ?mg \<Longrightarrow>
      rsn_selector_to_bitfield (wpa_cipher_to_suite WPA_PROTO_RSN ?mg) = ?mg"
    by (rule mgmt_suite_roundtrip)
  note pm = assms
  show "length (rsn_tail sm) \<le> 22"
    by (auto simp: rsn_tail_def Let_def pm split: option.splits)
  show "\<exists>off. rsn_pmkids (rsn_fixed l gs ps ks cap (rsn_tail sm)) 22 (length (rsn_tail sm)) d =
      Some (0, d\<lparr> num_pmkid := (if cur_pmksa_entry sm = None \<and>
                    \<not> wpa_cipher_valid_mgmt_group (sm_mgmt_group_cipher sm) then num_pmkid d
                  else if cur_pmksa_entry sm = None then 0 else 1),
        pmkid := off,
        mgmt_group_cipher := (if wpa_cipher_valid_mgmt_group (sm_mgmt_group_cipher sm)
          then sm_mgmt_group_cipher sm else mgmt_group_cipher d) \<rparr>) \<and>
      (cur_pmksa_entry sm \<noteq> None \<longrightarrow> off = Some 24)"
  proof (cases "cur_pmksa_entry sm")
    case None
    then show ?thesis
      using ms parse_rsn_tail_empty [of l gs ps ks cap d]
        parse_rsn_tail_mgmt [of "wpa_cipher_to_suite WPA_PROTO_RSN ?mg" l gs ps ks cap d]
      by (cases "wpa_cipher_valid_mgmt_group ?mg")
         (auto simp: rsn_tail_def Let_def intro: exI [of _ "pmkid d"])
  next
    case (Some en)
    then show ?thesis
      using ms parse_rsn_tail_pmkid [of "pe_pmkid en" l gs ps ks cap d] pm [OF Some]
        parse_rsn_tail_pmkid_mgmt [of "pe_pmkid en" "wpa_cipher_to_suite WPA_PROTO_RSN ?mg" l gs ps ks cap d]
      by (cases "wpa_cipher_valid_mgmt_group ?mg") (auto simp: rsn_tail_def Let_def)
  qed
qed

lemma rsn_fixed_pmkid:
  assumes "cur_pmksa_entry sm = Some en" "length (pe_pmkid en) = 16"
  shows "slice 24 16 (rsn_fixed l gs ps ks cap (rsn_tail sm)) = pe_pmkid en"
  using assms by (simp add: rsn_fixed_def rsn_tail_def Let_def slice_def put_defs)

text \<open>C23: an RSN element generated by the supplicant is parsed successfully,
  and the parsed ciphers, key management suite, capabilities, management group
  cipher and PMKID are the ones of the state machine.\<close>

theorem wpa_gen_parse_rsn_ie:
  assumes gen: "wpa_gen_wpa_ie sm n = Some ie" and rsn: "sm_proto sm = WPA_PROTO_RSN"
    and gr: "wpa_cipher_valid_group (sm_group_cipher sm)" and akm: "rsn_common_akm (sm_key_mgmt sm)"
    and pm: "\<And>en. cur_pmksa_entry sm = Some en \<Longrightarrow> length (pe_pmkid en) = 16"
  shows "\<exists>d. wpa_parse_wpa_ie ie = Some (0, d) \<and> rsn_ie_describes d ie sm"
proof -
  let ?gs = "wpa_cipher_to_suite WPA_PROTO_RSN (sm_group_cipher sm)"
  let ?ps = "wpa_cipher_to_suite WPA_PROTO_RSN (sm_pairwise_cipher sm)"
  let ?l = "of_nat (20 + length (rsn_tail sm)) :: byte"
  obtain ks where ks: "rsn_akm_suite (sm_key_mgmt sm) = Some ks"
    and pw: "wpa_cipher_valid_pairwise (sm_pairwise_cipher sm) \<or> sm_pairwise_cipher sm = WPA_CIPHER_NONE"
    and ie: "ie = rsn_fixed ?l ?gs ?ps ks (rsn_supp_capab sm) (rsn_tail sm)"
    using gen_rsn_fixed [OF gen rsn] by blast
  have l: "unat ?l = 20 + length (rsn_tail sm)"
    using rsn_tail_parsed(1) [of sm, OF pm] unfolding unsigned_of_nat by (simp add: take_bit_nat_eq_self)
  have gs: "rsn_selector_to_bitfield ?gs = sm_group_cipher sm"
    using gr by (rule group_suite_roundtrip)
  have ps: "rsn_selector_to_bitfield ?ps = sm_pairwise_cipher sm"
    "\<not> has (rsn_selector_to_bitfield ?ps) WPA_CIPHER_AES_128_CMAC"
    using rsn_pw_roundtrip [OF pw] by auto
  let ?d = "rsn_ie_default\<lparr> group_cipher := sm_group_cipher sm, has_group := True, has_pairwise := True,
    pairwise_cipher := sm_pairwise_cipher sm, key_mgmt := sm_key_mgmt sm,
    capabilities := rsn_supp_capab sm \<rparr>"
  have akm': "rsn_key_mgmt_to_bitfield ks = sm_key_mgmt sm"
    using rsn_akm_roundtrip [OF akm] ks by simp
  obtain off where parsed: "rsn_pmkids ie 22 (length (rsn_tail sm)) ?d =
      Some (0, ?d\<lparr> num_pmkid := (if cur_pmksa_entry sm = None \<and>
                    \<not> wpa_cipher_valid_mgmt_group (sm_mgmt_group_cipher sm) then num_pmkid ?d
                  else if cur_pmksa_entry sm = None then 0 else 1),
        pmkid := off,
        mgmt_group_cipher := (if wpa_cipher_valid_mgmt_group (sm_mgmt_group_cipher sm)
          then sm_mgmt_group_cipher sm else mgmt_group_cipher ?d) \<rparr>)"
    and off: "cur_pmksa_entry sm \<noteq> None \<longrightarrow> off = Some 24"
    using rsn_tail_parsed(2) [of sm, OF pm, of ?l ?gs ?ps ks "rsn_supp_capab sm" ?d]
    unfolding ie by blast
  have "wpa_parse_wpa_ie ie = rsn_pmkids ie 22 (length (rsn_tail sm)) ?d"
    using parse_rsn_fixed [OF l _ ps(2), of ?gs ks "rsn_supp_capab sm"] gr
    by (simp add: wpa_parse_wpa_ie_def ie gs ps(1) akm' rsn_fixed_reads)
  then show ?thesis
    using parsed off rsn_fixed_pmkid [OF _ pm]
    by (cases "cur_pmksa_entry sm") (simp_all add: rsn_ie_describes_def rsn_ie_default_def ie)
qed

definition sm_rsn_sample :: wpa_sm where
  "sm_rsn_sample = wpa_sm_init\<lparr> sm_proto := WPA_PROTO_RSN, sm_pairwise_cipher := WPA_CIPHER_CCMP,
     sm_group_cipher := WPA_CIPHER_CCMP, sm_key_mgmt := WPA_KEY_MGMT_SAE,
     sm_mgmt_group_cipher := WPA_CIPHER_AES_128_CMAC \<rparr>"

lemma sm_rsn_sample_sel [simp]:
  "sm_proto sm_rsn_sample = WPA_PROTO_RSN" "sm_group_cipher sm_rsn_sample = WPA_CIPHER_CCMP"
  "sm_key_mgmt sm_rsn_sample = WPA_KEY_MGMT_SAE" "cur_pmksa_entry sm_rsn_sample = None"
  by (simp_all add: sm_rsn_sample_def wpa_sm_init_def wpa_sm_zero_def cur_pmksa_entry_def)

lemma gen_rsn_sample: "\<exists>ie. wpa_gen_wpa_ie sm_rsn_sample 22 = Some ie \<and> length ie = 28"
  by (simp add: sm_rsn_sample_def wpa_gen_wpa_ie_def wpa_gen_wpa_ie_rsn_def cur_pmksa_entry_def Let_def
          wpa_sm_init_def wpa_sm_zero_def wpa_cipher_to_suite_def rsn_akm_suite_def
          wpa_cipher_valid_pairwise_def wpa_cipher_valid_mgmt_group_def)

theorem wpa_gen_parse_rsn_ie_witness:
  "\<exists>ie d. wpa_gen_wpa_ie sm_rsn_sample 22 = Some ie \<and> wpa_parse_wpa_ie ie = Some (0, d) \<and>
     rsn_ie_describes d ie sm_rsn_sample"
  using gen_rsn_sample wpa_gen_parse_rsn_ie [of sm_rsn_sample 22]
  by (auto simp: wpa_cipher_valid_group_def wpa_cipher_valid_pairwise_def rsn_common_akm_def)

text \<open>C40: the length check of the RSN element generator is six octets too
  lenient: whatever it writes exceeds the buffer by at most six octets, and
  with a buffer of 22 octets, a management group cipher and no cached PMK it
  writes 28.\<close>

theorem wpa_gen_rsn_ie_length:
  "(\<forall>sm n ie. sm_proto sm = WPA_PROTO_RSN \<longrightarrow> wpa_gen_wpa_ie sm n = Some ie \<longrightarrow> length ie \<le> n + 6) \<and>
   (\<exists>sm ie. wpa_gen_wpa_ie sm 22 = Some ie \<and> length ie = 28)"
proof (intro conjI allI impI)
  fix sm :: wpa_sm and n ie
  assume "sm_proto sm = WPA_PROTO_RSN" "wpa_gen_wpa_ie sm n = Some ie"
  then show "length ie \<le> n + 6"
    by (auto simp: wpa_gen_wpa_ie_def wpa_gen_wpa_ie_rsn_def Let_def bind_eq_Some_conv
        split: if_splits option.splits)
next
  show "\<exists>sm ie. wpa_gen_wpa_ie sm 22 = Some ie \<and> length ie = 28"
    by (rule exI [of _ "wpa_sm_init\<lparr> sm_proto := WPA_PROTO_RSN, sm_pairwise_cipher := WPA_CIPHER_CCMP,
          sm_group_cipher := WPA_CIPHER_CCMP, sm_key_mgmt := WPA_KEY_MGMT_SAE,
          sm_mgmt_group_cipher := WPA_CIPHER_AES_128_CMAC \<rparr>"])
       (simp add: wpa_gen_wpa_ie_def wpa_gen_wpa_ie_rsn_def cur_pmksa_entry_def Let_def
          wpa_sm_init_def wpa_sm_zero_def wpa_cipher_to_suite_def rsn_akm_suite_def
          wpa_cipher_valid_pairwise_def wpa_cipher_valid_mgmt_group_def)
qed

theorem wpa_gen_rsn_ie_length_witness:
  "\<exists>ie. wpa_gen_wpa_ie sm_rsn_sample 22 = Some ie \<and> length ie = 28 \<and> length ie \<le> 22 + 6"
  using gen_rsn_sample conjunct1 [OF wpa_gen_rsn_ie_length] by auto

end
