(* ===== verification/PMKSA_Cache.thy ===== *)
theory PMKSA_Cache
  imports WPA_IE "HOL-Library.Multiset"
begin

text \<open>
  The PMKSA cache of \<^verbatim>\<open>src/rsn_supp/pmksa_cache.c\<close> with the two callbacks of
  \<^verbatim>\<open>wpa.c\<close> that it is initialised with.  The singly linked list of the source
  is a list; an entry has an identity, so that \<^verbatim>\<open>sm->cur_pmksa\<close> is a pointer
  and \<open>sm_pmksa_unlinked\<close> holds the entries that are out of the list but not yet
  freed.  \<open>now\<close> is \<^verbatim>\<open>os_get_reltime\<close> in seconds.
\<close>

datatype pmksa_free_reason = PMKSA_FREE | PMKSA_REPLACE | PMKSA_EXPIRE

definition pmksa_cache_max_entries :: int where
  "pmksa_cache_max_entries = 32"

definition pmk_of :: "pmksa_entry \<Rightarrow> bytes" where
  "pmk_of en = slice 0 (pe_pmk_len en) (pe_pmk en)"

definition pmksa_unlink :: "pmksa_entry \<Rightarrow> wpa_sm \<Rightarrow> wpa_sm" where
  "pmksa_unlink en sm = sm\<lparr>
     sm_pmksa := filter (\<lambda>x. pe_id x \<noteq> pe_id en) (sm_pmksa sm),
     sm_pmksa_unlinked := en # sm_pmksa_unlinked sm \<rparr>"

definition pmksa_cache_clear_current :: "wpa_sm \<Rightarrow> wpa_sm" where
  "pmksa_cache_clear_current sm = sm\<lparr> sm_cur_pmksa := None \<rparr>"

definition pmksa_cache_get_current :: "wpa_sm \<Rightarrow> nat option" where
  "pmksa_cache_get_current sm = sm_cur_pmksa sm"

definition wpa_sm_pmksa_is_current_cb :: "pmksa_entry \<Rightarrow> wpa_sm \<Rightarrow> bool" where
  "wpa_sm_pmksa_is_current_cb en sm \<longleftrightarrow> sm_cur_pmksa sm = Some (pe_id en)"

definition wpa_sm_pmksa_free_cb :: "pmksa_entry \<Rightarrow> pmksa_free_reason \<Rightarrow> wpa_sm \<Rightarrow> wpa_sm" where
  "wpa_sm_pmksa_free_cb en reason sm =
     (let was_cur = (sm_cur_pmksa sm = Some (pe_id en));
          sm = (if was_cur then pmksa_cache_clear_current sm else sm);
          deauth1 = (was_cur \<and> reason \<noteq> PMKSA_REPLACE);
          expired = (reason = PMKSA_EXPIRE \<and> sm_pmk_len sm = pe_pmk_len en \<and>
                     slice 0 (sm_pmk_len sm) (sm_pmk sm) = slice 0 (sm_pmk_len sm) (pe_pmk en));
          sm = (if expired then pmksa_cache_clear_current sm else sm)
      in if deauth1 \<or> expired
         then act (Deauthenticate WLAN_REASON_UNSPECIFIED)
                (sm\<lparr> sm_pmk_len := 0, sm_pmk := zeros 64 \<rparr>)
         else sm)"

definition pmksa_cache_free_entry :: "pmksa_entry \<Rightarrow> pmksa_free_reason \<Rightarrow> wpa_sm \<Rightarrow> wpa_sm" where
  "pmksa_cache_free_entry en reason sm =
     (let sm = act (Remove_pmkid (pe_network_ctx en) (pe_aa en) (pe_pmkid en) (pe_fils_cache_id en)) sm;
          sm = sm\<lparr> sm_pmksa_count := sm_pmksa_count sm - 1 \<rparr>;
          sm = wpa_sm_pmksa_free_cb en reason sm
      in sm\<lparr> sm_pmksa_unlinked := filter (\<lambda>x. pe_id x \<noteq> pe_id en) (sm_pmksa_unlinked sm) \<rparr>)"

text \<open>A \<^verbatim>\<open>NULL\<close> argument matches everything.\<close>

definition pmksa_matches ::
  "bytes option \<Rightarrow> bytes option \<Rightarrow> nat option \<Rightarrow> u32 \<Rightarrow> pmksa_entry \<Rightarrow> bool" where
  "pmksa_matches aa pid ctx akmp en \<longleftrightarrow>
     (aa = None \<or> aa = Some (pe_aa en)) \<and> (pid = None \<or> pid = Some (pe_pmkid en)) \<and>
     (akmp = 0 \<or> akmp = pe_akmp en) \<and> (ctx = None \<or> ctx = pe_network_ctx en)"

definition pmksa_cache_get ::
  "wpa_sm \<Rightarrow> bytes option \<Rightarrow> bytes option \<Rightarrow> nat option \<Rightarrow> u32 \<Rightarrow> pmksa_entry option" where
  "pmksa_cache_get sm aa pid ctx akmp = List.find (pmksa_matches aa pid ctx akmp) (sm_pmksa sm)"

text \<open>The reauthentication timer is set from the entry that expires first, not
  from the current entry.\<close>

definition pmksa_cache_set_expiration :: "env \<Rightarrow> wpa_sm \<Rightarrow> wpa_sm" where
  "pmksa_cache_set_expiration e sm =
     (let sm = act (Timer_cancel Pmksa_cache_reauth) (act (Timer_cancel Pmksa_cache_expire) sm)
      in case sm_pmksa sm of
           [] \<Rightarrow> sm
         | h # rest \<Rightarrow>
             let now = e_now e (sm_trace sm);
                 sec = pe_expiration h - now;
                 sec = (if sec < 0
                        then (if wpa_key_mgmt_sae (pe_akmp h) \<and> wpa_sm_pmksa_is_current_cb h sm
                              then (case rest of
                                      [] \<Rightarrow> 600
                                    | n # _ \<Rightarrow> (let s = pe_expiration n - now
                                               in if s < 0 then 0 else if s > 600 then 600 else s))
                              else 0)
                        else sec);
                 sm = act (Timer_register Pmksa_cache_expire (sec + 1)) sm;
                 entry = (case sm_cur_pmksa sm of
                            Some i \<Rightarrow> pmksa_deref sm i
                          | None \<Rightarrow> pmksa_cache_get sm (Some (sm_bssid sm)) None None 0)
             in case entry of
                  None \<Rightarrow> sm
                | Some en \<Rightarrow>
                    if \<not> wpa_key_mgmt_sae (pe_akmp en)
                    then act (Timer_register Pmksa_cache_reauth (max 0 (pe_reauth_time h - now))) sm
                    else sm)"

text \<open>The loop of \<^verbatim>\<open>pmksa_cache_expire\<close> over the rest of the list.\<close>

fun expire_loop :: "int \<Rightarrow> pmksa_entry list \<Rightarrow> wpa_sm \<Rightarrow> wpa_sm" where
  "expire_loop now [] sm = sm"
| "expire_loop now (en # rest) sm =
     (if pe_expiration en \<le> now
      then if wpa_key_mgmt_sae (pe_akmp en) \<and> wpa_sm_pmksa_is_current_cb en sm
           then expire_loop now rest sm
           else expire_loop now rest (pmksa_cache_free_entry en PMKSA_EXPIRE (pmksa_unlink en sm))
      else sm)"

definition pmksa_cache_expire :: "env \<Rightarrow> wpa_sm \<Rightarrow> wpa_sm" where
  "pmksa_cache_expire e sm =
     pmksa_cache_set_expiration e (expire_loop (e_now e (sm_trace sm)) (sm_pmksa sm) sm)"

definition pmksa_cache_reauth :: "wpa_sm \<Rightarrow> wpa_sm" where
  "pmksa_cache_reauth sm = act Eapol_request_reauth (sm\<lparr> sm_cur_pmksa := None \<rparr>)"

definition flush_matches :: "nat option \<Rightarrow> bytes option \<Rightarrow> bool \<Rightarrow> pmksa_entry \<Rightarrow> bool" where
  "flush_matches ctx pmk external_only en \<longleftrightarrow>
     (pe_network_ctx en = ctx \<or> ctx = None) \<and>
     (case pmk of None \<Rightarrow> True
      | Some k \<Rightarrow> length k = pe_pmk_len en \<and> k = slice 0 (length k) (pe_pmk en)) \<and>
     (external_only \<longrightarrow> pe_external en)"

fun flush_loop :: "(pmksa_entry \<Rightarrow> bool) \<Rightarrow> pmksa_entry list \<Rightarrow> nat \<times> wpa_sm \<Rightarrow> nat \<times> wpa_sm" where
  "flush_loop p [] st = st"
| "flush_loop p (en # rest) (removed, sm) =
     (if p en
      then flush_loop p rest (removed + 1, pmksa_cache_free_entry en PMKSA_FREE (pmksa_unlink en sm))
      else flush_loop p rest (removed, sm))"

definition pmksa_cache_flush :: "env \<Rightarrow> nat option \<Rightarrow> bytes option \<Rightarrow> bool \<Rightarrow> wpa_sm \<Rightarrow> wpa_sm" where
  "pmksa_cache_flush e ctx pmk external_only sm =
     (let (removed, sm) = flush_loop (flush_matches ctx pmk external_only) (sm_pmksa sm) (0, sm)
      in if removed > 0 then pmksa_cache_set_expiration e sm else sm)"

text \<open>The second half of \<^verbatim>\<open>pmksa_cache_add_entry\<close>: make room, then insert in the
  order of the expiration times.\<close>

definition pmksa_make_room :: "wpa_sm \<Rightarrow> wpa_sm" where
  "pmksa_make_room sm =
     (case sm_pmksa sm of
        [] \<Rightarrow> sm
      | h # rest \<Rightarrow>
          if sm_pmksa_count sm \<ge> pmksa_cache_max_entries
          then if sm_cur_pmksa sm = Some (pe_id h)
               then (case rest of
                       [] \<Rightarrow> sm
                     | n # _ \<Rightarrow> pmksa_cache_free_entry n PMKSA_FREE (pmksa_unlink n sm))
               else pmksa_cache_free_entry h PMKSA_FREE (pmksa_unlink h sm)
          else sm)"

definition insert_by_expiration :: "pmksa_entry \<Rightarrow> pmksa_entry list \<Rightarrow> pmksa_entry list" where
  "insert_by_expiration en l =
     (let p = (\<lambda>x. pe_expiration x \<le> pe_expiration en) in takeWhile p l @ [en] @ dropWhile p l)"

definition pmksa_insert :: "env \<Rightarrow> pmksa_entry \<Rightarrow> wpa_sm \<Rightarrow> wpa_sm" where
  "pmksa_insert e en sm =
     (let at_head = (case sm_pmksa sm of [] \<Rightarrow> True | h # _ \<Rightarrow> pe_expiration h > pe_expiration en);
          sm = sm\<lparr> sm_pmksa := insert_by_expiration en (sm_pmksa sm) \<rparr>;
          sm = (if at_head then pmksa_cache_set_expiration e sm else sm);
          sm = sm\<lparr> sm_pmksa_count := sm_pmksa_count sm + 1 \<rparr>
      in act (Add_pmkid (pe_network_ctx en) (pe_aa en) (pe_pmkid en) (pe_fils_cache_id en) (pmk_of en)
                (sm_dot11RSNAConfigPMKLifetime sm) (ucast (sm_dot11RSNAConfigPMKReauthThreshold sm))
                (pe_akmp en)) sm)"

text \<open>The result is the entry that is in the cache now: the new one or an
  identical older one, which is kept.\<close>

text \<open>The entry \<open>pos\<close> is replaced: it goes, and with it the entries of its PMK.\<close>

definition pmksa_replaced :: "env \<Rightarrow> nat option \<Rightarrow> pmksa_entry \<Rightarrow> wpa_sm \<Rightarrow> wpa_sm" where
  "pmksa_replaced e ctx pos sm =
     pmksa_cache_free_entry pos PMKSA_REPLACE
       (if \<not> pe_opportunistic pos
        then pmksa_cache_flush e ctx (Some (pmk_of pos)) False (pmksa_unlink pos sm)
        else pmksa_unlink pos sm)"

definition pmksa_cache_add_entry :: "env \<Rightarrow> pmksa_entry \<Rightarrow> wpa_sm \<Rightarrow> nat \<times> wpa_sm" where
  "pmksa_cache_add_entry e en sm =
     (case List.find (\<lambda>pos. pe_aa en = pe_aa pos) (sm_pmksa sm) of
        None \<Rightarrow> (pe_id en, pmksa_insert e en (pmksa_make_room sm))
      | Some pos \<Rightarrow>
          if pe_pmk_len pos = pe_pmk_len en \<and>
             slice 0 (pe_pmk_len en) (pe_pmk pos) = slice 0 (pe_pmk_len en) (pe_pmk en) \<and>
             pe_pmkid pos = pe_pmkid en
          then (pe_id pos, sm)
          else (pe_id en, pmksa_insert e en
                  (pmksa_make_room (pmksa_replaced e (pe_network_ctx en) pos sm))))"

definition pmksa_new_entry ::
  "env \<Rightarrow> crypto \<Rightarrow> bytes \<Rightarrow> bytes option \<Rightarrow> bytes option \<Rightarrow> bytes \<Rightarrow> bytes \<Rightarrow> nat option \<Rightarrow> u32 \<Rightarrow>
   bytes option \<Rightarrow> wpa_sm \<Rightarrow> pmksa_entry" where
  "pmksa_new_entry e c pmk pid kck_opt aa spa ctx akmp cache_id sm =
     (let id = (case pid of
           Some p \<Rightarrow> slice 0 16 p
         | None \<Rightarrow>
             if akmp = WPA_KEY_MGMT_IEEE8021X_SUITE_B_192
             then (case rsn_pmkid_suite_b_192 c (case kck_opt of None \<Rightarrow> [] | Some k \<Rightarrow> k) aa spa of
                     Some p \<Rightarrow> p | None \<Rightarrow> zeros 16)
             else if wpa_key_mgmt_suite_b akmp
             then (case rsn_pmkid_suite_b c (case kck_opt of None \<Rightarrow> [] | Some k \<Rightarrow> k) aa spa of
                     Some p \<Rightarrow> p | None \<Rightarrow> zeros 16)
             else rsn_pmkid c pmk aa spa akmp);
          now = e_now e (sm_trace sm);
          lt = sm_dot11RSNAConfigPMKLifetime sm
      in \<lparr> pe_id = sm_pmksa_next_id sm, pe_pmkid = id, pe_pmk = overwrite 0 pmk (zeros 64),
           pe_pmk_len = length pmk, pe_expiration = now + uint lt, pe_akmp = akmp, pe_aa = aa,
           pe_fils_cache_id = cache_id,
           pe_reauth_time = now + uint (lt * sm_dot11RSNAConfigPMKReauthThreshold sm div 100),
           pe_network_ctx = ctx, pe_opportunistic = False, pe_external = False \<rparr>)"

definition pmksa_cache_add ::
  "env \<Rightarrow> crypto \<Rightarrow> bytes \<Rightarrow> bytes option \<Rightarrow> bytes option \<Rightarrow> bytes \<Rightarrow> bytes \<Rightarrow> nat option \<Rightarrow> u32 \<Rightarrow>
   bytes option \<Rightarrow> wpa_sm \<Rightarrow> nat option \<times> wpa_sm" where
  "pmksa_cache_add e c pmk pid kck_opt aa spa ctx akmp cache_id sm =
     (if length pmk > 64 then (None, sm)
      else if wpa_key_mgmt_suite_b akmp \<and> kck_opt = None then (None, sm)
      else if \<not> e_alloc e (sm_trace sm) then (None, sm)
      else let en = pmksa_new_entry e c pmk pid kck_opt aa spa ctx akmp cache_id sm;
               (i, sm) = pmksa_cache_add_entry e en
                           (sm\<lparr> sm_pmksa_next_id := sm_pmksa_next_id sm + 1 \<rparr>)
           in (Some i, sm))"


text \<open>Changing an entry in place through a pointer to it.\<close>

definition pmksa_update :: "nat \<Rightarrow> (pmksa_entry \<Rightarrow> pmksa_entry) \<Rightarrow> wpa_sm \<Rightarrow> wpa_sm" where
  "pmksa_update i f sm =
     sm\<lparr> sm_pmksa := map (\<lambda>en. if pe_id en = i then f en else en) (sm_pmksa sm) \<rparr>"

text \<open>The clone keeps the times of the old entry; the list is not reordered.\<close>

definition pmksa_cache_clone_entry ::
  "env \<Rightarrow> crypto \<Rightarrow> pmksa_entry \<Rightarrow> bytes \<Rightarrow> wpa_sm \<Rightarrow> nat option \<times> wpa_sm" where
  "pmksa_cache_clone_entry e c old aa sm =
     (let pid = (if wpa_key_mgmt_sae (pe_akmp old) \<or> wpa_key_mgmt_fils (pe_akmp old)
                 then Some (pe_pmkid old) else None);
          (r, sm) = pmksa_cache_add e c (pmk_of old) pid None aa (sm_own_addr sm)
                      (pe_network_ctx old) (pe_akmp old) (pe_fils_cache_id old) sm
      in case r of
           None \<Rightarrow> (None, sm)
         | Some i \<Rightarrow> (Some i, pmksa_update i (\<lambda>en. en\<lparr> pe_expiration := pe_expiration old,
                        pe_reauth_time := pe_reauth_time old, pe_opportunistic := True \<rparr>) sm))"

fun opportunistic_loop ::
  "env \<Rightarrow> crypto \<Rightarrow> nat option \<Rightarrow> bytes \<Rightarrow> u32 \<Rightarrow> pmksa_entry list \<Rightarrow> wpa_sm \<Rightarrow> nat option \<times> wpa_sm" where
  "opportunistic_loop e c ctx aa akmp [] sm = (None, sm)"
| "opportunistic_loop e c ctx aa akmp (en # rest) sm =
     (if pe_network_ctx en = ctx \<and> (akmp = 0 \<or> pe_akmp en = akmp)
      then if wpa_key_mgmt_sae (pe_akmp en) \<and> pe_reauth_time en < e_now e (sm_trace sm)
           then opportunistic_loop e c ctx aa akmp rest sm
           else pmksa_cache_clone_entry e c en aa sm
      else opportunistic_loop e c ctx aa akmp rest sm)"

definition pmksa_cache_get_opportunistic ::
  "env \<Rightarrow> crypto \<Rightarrow> nat option \<Rightarrow> bytes \<Rightarrow> u32 \<Rightarrow> wpa_sm \<Rightarrow> nat option \<times> wpa_sm" where
  "pmksa_cache_get_opportunistic e c ctx aa akmp sm =
     (if ctx = None then (None, sm) else opportunistic_loop e c ctx aa akmp (sm_pmksa sm) sm)"

definition pmksa_cache_get_fils_cache_id :: "wpa_sm \<Rightarrow> nat option \<Rightarrow> bytes \<Rightarrow> pmksa_entry option" where
  "pmksa_cache_get_fils_cache_id sm ctx cache_id =
     List.find (\<lambda>en. ctx = pe_network_ctx en \<and> pe_fils_cache_id en = Some cache_id) (sm_pmksa sm)"

definition pmksa_cache_set_current ::
  "env \<Rightarrow> crypto \<Rightarrow> bytes option \<Rightarrow> bytes option \<Rightarrow> nat option \<Rightarrow> bool \<Rightarrow> bytes option \<Rightarrow> u32 \<Rightarrow> wpa_sm
   \<Rightarrow> int \<times> wpa_sm" where
  "pmksa_cache_set_current e c pid bssid ctx try_opportunistic fils_cache_id akmp sm =
     (let sm = sm\<lparr> sm_cur_pmksa := None \<rparr>;
          sm = (if pid \<noteq> None
                then sm\<lparr> sm_cur_pmksa := map_option pe_id (pmksa_cache_get sm None pid ctx akmp) \<rparr>
                else sm);
          sm = (if sm_cur_pmksa sm = None \<and> bssid \<noteq> None
                then sm\<lparr> sm_cur_pmksa := map_option pe_id (pmksa_cache_get sm bssid None ctx akmp) \<rparr>
                else sm);
          sm = (case bssid of
                  Some b \<Rightarrow>
                    if sm_cur_pmksa sm = None \<and> try_opportunistic
                    then (let (r, sm) = pmksa_cache_get_opportunistic e c ctx b akmp sm
                          in sm\<lparr> sm_cur_pmksa := r \<rparr>)
                    else sm
                | None \<Rightarrow> sm);
          sm = (case fils_cache_id of
                  Some f \<Rightarrow>
                    if sm_cur_pmksa sm = None
                    then sm\<lparr> sm_cur_pmksa := map_option pe_id (pmksa_cache_get_fils_cache_id sm ctx f) \<rparr>
                    else sm
                | None \<Rightarrow> sm)
      in case cur_pmksa_entry sm of
           None \<Rightarrow> (-1, sm)
         | Some en \<Rightarrow>
             if wpa_key_mgmt_sae (pe_akmp en) \<and> pe_reauth_time en < e_now e (sm_trace sm)
             then (-1, sm\<lparr> sm_cur_pmksa := None \<rparr>)
             else (0, sm))"

definition pmksa_cache_head :: "wpa_sm \<Rightarrow> pmksa_entry option" where
  "pmksa_cache_head sm = (case sm_pmksa sm of [] \<Rightarrow> None | h # _ \<Rightarrow> Some h)"

text \<open>The remaining life time is a 32-bit and the threshold an 8-bit
  number.\<close>

fun reconfig_loop :: "int \<Rightarrow> pmksa_entry list \<Rightarrow> wpa_sm \<Rightarrow> wpa_sm" where
  "reconfig_loop now [] sm = sm"
| "reconfig_loop now (en # rest) sm =
     (if pe_expiration en - now < 1 \<or> pe_reauth_time en - now < 1 then reconfig_loop now rest sm
      else let life_time = word_of_int (pe_expiration en - now) :: u32;
               thr = word_of_int ((pe_reauth_time en - now) * 100 div uint life_time) :: byte
           in if thr = 0 then reconfig_loop now rest sm
              else reconfig_loop now rest
                     (act (Add_pmkid (pe_network_ctx en) (pe_aa en) (pe_pmkid en) (pe_fils_cache_id en)
                             (pmk_of en) life_time thr (pe_akmp en)) sm))"

definition pmksa_cache_reconfig :: "env \<Rightarrow> wpa_sm \<Rightarrow> wpa_sm" where
  "pmksa_cache_reconfig e sm =
     (if sm_pmksa sm = [] then sm else reconfig_loop (e_now e (sm_trace sm)) (sm_pmksa sm) sm)"

section \<open>Users of the cache in the state machine\<close>

definition wpa_sm_set_pmk_from_pmksa :: "wpa_sm \<Rightarrow> wpa_sm" where
  "wpa_sm_set_pmk_from_pmksa sm =
     (case cur_pmksa_entry sm of
        Some en \<Rightarrow> sm\<lparr> sm_pmk_len := pe_pmk_len en,
                      sm_pmk := overwrite 0 (pmk_of en) (sm_pmk sm) \<rparr>
      | None \<Rightarrow> sm\<lparr> sm_pmk_len := 0, sm_pmk := zeros 64 \<rparr>)"

definition wpa_sm_set_pmk ::
  "env \<Rightarrow> crypto \<Rightarrow> bytes \<Rightarrow> bytes option \<Rightarrow> bytes option \<Rightarrow> wpa_sm \<Rightarrow> wpa_sm" where
  "wpa_sm_set_pmk e c pmk pid bssid sm =
     (let sm = sm\<lparr> sm_pmk_len := length pmk, sm_pmk := overwrite 0 pmk (sm_pmk sm) \<rparr>
      in case bssid of
           None \<Rightarrow> sm
         | Some b \<Rightarrow>
             (let (r, sm) = pmksa_cache_add e c pmk pid None b (sm_own_addr sm) (sm_network_ctx sm)
                              (sm_key_mgmt sm) None sm
              in sm\<lparr> sm_cur_pmksa := r \<rparr>))"

definition wpa_sm_aborted_cached :: "wpa_sm \<Rightarrow> wpa_sm" where
  "wpa_sm_aborted_cached sm = sm\<lparr> sm_cur_pmksa := None \<rparr>"

definition wpa_sm_aborted_external_cached :: "wpa_sm \<Rightarrow> wpa_sm" where
  "wpa_sm_aborted_external_cached sm =
     (case cur_pmksa_entry sm of
        Some en \<Rightarrow> if pe_external en then sm\<lparr> sm_cur_pmksa := None \<rparr> else sm
      | None \<Rightarrow> sm)"


section \<open>Invariant\<close>

definition pmksa_live :: "wpa_sm \<Rightarrow> pmksa_entry list" where
  "pmksa_live sm = sm_pmksa sm @ sm_pmksa_unlinked sm"

definition entry_wf :: "pmksa_entry \<Rightarrow> bool" where
  "entry_wf en \<longleftrightarrow> length (pe_pmk en) = 64 \<and> pe_pmk_len en \<le> 64"

text \<open>Identities are unique and allocated, the current entry is live (no
  dangling pointer), the counter counts the live entries, no authenticator has
  two entries.\<close>

definition pmksa_inv :: "wpa_sm \<Rightarrow> bool" where
  "pmksa_inv sm \<longleftrightarrow>
     distinct (map pe_id (pmksa_live sm)) \<and>
     (\<forall>en \<in> set (pmksa_live sm). pe_id en < sm_pmksa_next_id sm \<and> entry_wf en) \<and>
     (\<forall>i. sm_cur_pmksa sm = Some i \<longrightarrow> i \<in> pe_id ` set (pmksa_live sm)) \<and>
     sm_pmksa_count sm = int (length (pmksa_live sm)) \<and>
     distinct (map pe_aa (sm_pmksa sm))"

text \<open>Between operations nothing is unlinked and the cache is bounded.\<close>

definition pmksa_ok :: "wpa_sm \<Rightarrow> bool" where
  "pmksa_ok sm \<longleftrightarrow> pmksa_inv sm \<and> sm_pmksa_unlinked sm = [] \<and> length (sm_pmksa sm) \<le> 32"

lemma act_sel [simp]:
  "sm_pmksa (act a sm) = sm_pmksa sm" "sm_pmksa_unlinked (act a sm) = sm_pmksa_unlinked sm"
  "sm_pmksa_count (act a sm) = sm_pmksa_count sm" "sm_cur_pmksa (act a sm) = sm_cur_pmksa sm"
  "sm_pmksa_next_id (act a sm) = sm_pmksa_next_id sm" "sm_trace (act a sm) = a # sm_trace sm"
  "sm_bssid (act a sm) = sm_bssid sm" "sm_pmk (act a sm) = sm_pmk sm"
  "sm_pmk_len (act a sm) = sm_pmk_len sm"
  by (simp_all add: act_def)

lemma pmksa_inv_cong:
  assumes "sm_pmksa sm' = sm_pmksa sm" "sm_pmksa_unlinked sm' = sm_pmksa_unlinked sm"
    "sm_pmksa_count sm' = sm_pmksa_count sm" "sm_cur_pmksa sm' \<in> {sm_cur_pmksa sm, None}"
    "sm_pmksa_next_id sm' = sm_pmksa_next_id sm"
  shows "pmksa_inv sm \<Longrightarrow> pmksa_inv sm'"
  using assms by (auto simp: pmksa_inv_def pmksa_live_def)

lemma pmksa_ok_cong:
  assumes "sm_pmksa sm' = sm_pmksa sm" "sm_pmksa_unlinked sm' = sm_pmksa_unlinked sm"
    "sm_pmksa_count sm' = sm_pmksa_count sm" "sm_cur_pmksa sm' \<in> {sm_cur_pmksa sm, None}"
    "sm_pmksa_next_id sm' = sm_pmksa_next_id sm"
  shows "pmksa_ok sm \<Longrightarrow> pmksa_ok sm'"
  using assms pmksa_inv_cong [of sm' sm] by (auto simp: pmksa_ok_def)

text \<open>Code that only performs actions.\<close>

definition only_acts :: "wpa_sm \<Rightarrow> wpa_sm \<Rightarrow> bool" where
  "only_acts sm sm' \<longleftrightarrow> (\<exists>t. sm' = sm\<lparr> sm_trace := t @ sm_trace sm \<rparr>)"

lemma only_acts_refl [intro, simp]: "only_acts sm sm"
  unfolding only_acts_def by (rule exI [of _ "[]"]) simp

lemma only_acts_act: "only_acts sm sm' \<Longrightarrow> only_acts sm (act a sm')"
  by (auto simp: only_acts_def act_def intro: exI [of _ "a # _"])

lemma only_acts_sel:
  assumes "only_acts sm sm'"
  shows "sm_pmksa sm' = sm_pmksa sm" "sm_pmksa_unlinked sm' = sm_pmksa_unlinked sm"
    "sm_pmksa_count sm' = sm_pmksa_count sm" "sm_cur_pmksa sm' = sm_cur_pmksa sm"
    "sm_pmksa_next_id sm' = sm_pmksa_next_id sm"
  using assms by (auto simp: only_acts_def)

lemma only_acts_control:
  "only_acts sm a \<Longrightarrow> only_acts sm b \<Longrightarrow> only_acts sm (if c then a else b)"
  "only_acts sm a \<Longrightarrow> (\<And>x. only_acts sm (f x)) \<Longrightarrow> only_acts sm (case_option a f opt)"
  "only_acts sm a \<Longrightarrow> (\<And>x xs. only_acts sm (g x xs)) \<Longrightarrow> only_acts sm (case_list a g l)"
  by (auto split: option.splits list.splits)

lemma set_expiration_acts: "only_acts sm (pmksa_cache_set_expiration e sm)"
  unfolding pmksa_cache_set_expiration_def Let_def
  by (intro only_acts_control only_acts_act only_acts_refl)

lemmas set_expiration_sel [simp] = only_acts_sel [OF set_expiration_acts]


section \<open>Removing entries\<close>

lemma free_cb_sel [simp]:
  "sm_pmksa (wpa_sm_pmksa_free_cb en r sm) = sm_pmksa sm"
  "sm_pmksa_unlinked (wpa_sm_pmksa_free_cb en r sm) = sm_pmksa_unlinked sm"
  "sm_pmksa_count (wpa_sm_pmksa_free_cb en r sm) = sm_pmksa_count sm"
  "sm_pmksa_next_id (wpa_sm_pmksa_free_cb en r sm) = sm_pmksa_next_id sm"
  by (simp_all add: wpa_sm_pmksa_free_cb_def pmksa_cache_clear_current_def Let_def)

lemma free_cb_cur:
  "sm_cur_pmksa (wpa_sm_pmksa_free_cb en r sm) = sm_cur_pmksa sm \<and> sm_cur_pmksa sm \<noteq> Some (pe_id en) \<or>
   sm_cur_pmksa (wpa_sm_pmksa_free_cb en r sm) = None"
  by (simp add: wpa_sm_pmksa_free_cb_def pmksa_cache_clear_current_def Let_def)

lemma free_entry_sel [simp]:
  "sm_pmksa (pmksa_cache_free_entry en r sm) = sm_pmksa sm"
  "sm_pmksa_unlinked (pmksa_cache_free_entry en r sm) =
     filter (\<lambda>x. pe_id x \<noteq> pe_id en) (sm_pmksa_unlinked sm)"
  "sm_pmksa_count (pmksa_cache_free_entry en r sm) = sm_pmksa_count sm - 1"
  "sm_pmksa_next_id (pmksa_cache_free_entry en r sm) = sm_pmksa_next_id sm"
  by (simp_all add: pmksa_cache_free_entry_def Let_def)

lemma free_entry_cur:
  "sm_cur_pmksa (pmksa_cache_free_entry en r sm) = sm_cur_pmksa sm \<and> sm_cur_pmksa sm \<noteq> Some (pe_id en) \<or>
   sm_cur_pmksa (pmksa_cache_free_entry en r sm) = None"
  using free_cb_cur [of en r "(act (Remove_pmkid (pe_network_ctx en) (pe_aa en) (pe_pmkid en)
    (pe_fils_cache_id en)) sm)\<lparr> sm_pmksa_count := sm_pmksa_count sm - 1 \<rparr>"]
  by (simp add: pmksa_cache_free_entry_def Let_def)

lemma unlink_sel [simp]:
  "sm_pmksa (pmksa_unlink en sm) = filter (\<lambda>x. pe_id x \<noteq> pe_id en) (sm_pmksa sm)"
  "sm_pmksa_unlinked (pmksa_unlink en sm) = en # sm_pmksa_unlinked sm"
  "sm_pmksa_count (pmksa_unlink en sm) = sm_pmksa_count sm"
  "sm_pmksa_next_id (pmksa_unlink en sm) = sm_pmksa_next_id sm"
  "sm_cur_pmksa (pmksa_unlink en sm) = sm_cur_pmksa sm"
  by (simp_all add: pmksa_unlink_def)

lemma length_filter_id:
  "distinct (map f l) \<Longrightarrow> x \<in> set l \<Longrightarrow> Suc (length (filter (\<lambda>y. f y \<noteq> f x) l)) = length l"
proof (induction l)
  case (Cons a l)
  show ?case
  proof (cases "x = a")
    case True
    then have "filter (\<lambda>y. f y \<noteq> f x) l = l"
      using Cons.prems by (auto simp: filter_id_conv image_iff)
    then show ?thesis using True by simp
  next
    case False
    then show ?thesis using Cons by auto
  qed
qed simp

lemma set_filter_id:
  "distinct (map f l) \<Longrightarrow> x \<in> set l \<Longrightarrow> set (filter (\<lambda>y. f y \<noteq> f x) l) = set l - {x}"
  by (auto simp: distinct_map inj_on_def)

lemma distinct_map_filterI: "distinct (map f l) \<Longrightarrow> distinct (map f (filter p l))"
  by (simp add: distinct_map_filter)

lemma unlink_inv:
  assumes "pmksa_inv sm" "en \<in> set (sm_pmksa sm)"
  shows "pmksa_inv (pmksa_unlink en sm)"
proof -
  have d: "distinct (map pe_id (sm_pmksa sm))"
    using assms(1) by (auto simp: pmksa_inv_def pmksa_live_def)
  show ?thesis
    using assms length_filter_id [OF d assms(2)] set_filter_id [OF d assms(2)]
      distinct_map_filterI [OF d, of "\<lambda>x. pe_id x \<noteq> pe_id en"]
      distinct_map_filterI [of pe_aa "sm_pmksa sm" "\<lambda>x. pe_id x \<noteq> pe_id en"]
    by (auto simp: pmksa_inv_def pmksa_live_def image_iff)
qed

lemma free_entry_inv:
  assumes "pmksa_inv sm" "en \<in> set (sm_pmksa_unlinked sm)"
  shows "pmksa_inv (pmksa_cache_free_entry en r sm)"
proof -
  let ?u = "sm_pmksa_unlinked sm"
  have d: "distinct (map pe_id ?u)"
    using assms(1) by (auto simp: pmksa_inv_def pmksa_live_def)
  have cur: "sm_cur_pmksa (pmksa_cache_free_entry en r sm) = Some i \<Longrightarrow>
      i \<in> pe_id ` (set (sm_pmksa sm) \<union> set ?u) \<and> i \<noteq> pe_id en" for i
    using free_entry_cur [of en r sm] assms(1) by (auto simp: pmksa_inv_def pmksa_live_def)
  show ?thesis
    using assms length_filter_id [OF d assms(2)] set_filter_id [OF d assms(2)] cur
      distinct_map_filterI [OF d, of "\<lambda>x. pe_id x \<noteq> pe_id en"]
    by (auto simp: pmksa_inv_def pmksa_live_def image_iff)
qed

text \<open>Unlinking and freeing an entry at once.\<close>

lemma drop_entry:
  assumes "pmksa_inv sm" "en \<in> set (sm_pmksa sm)"
    and sm'_def: "sm' = pmksa_cache_free_entry en r (pmksa_unlink en sm)"
  shows "pmksa_inv sm'" "sm_pmksa sm' = filter (\<lambda>x. pe_id x \<noteq> pe_id en) (sm_pmksa sm)"
    "sm_pmksa_unlinked sm' = sm_pmksa_unlinked sm" "sm_pmksa_next_id sm' = sm_pmksa_next_id sm"
    "sm_cur_pmksa sm' = sm_cur_pmksa sm \<and> sm_cur_pmksa sm \<noteq> Some (pe_id en) \<or> sm_cur_pmksa sm' = None"
proof -
  show "pmksa_inv sm'"
    unfolding sm'_def by (rule free_entry_inv [OF unlink_inv [OF assms(1,2)]]) simp
  show "sm_pmksa_unlinked sm' = sm_pmksa_unlinked sm"
    using assms(1,2) by (auto simp: sm'_def pmksa_inv_def pmksa_live_def filter_id_conv)
qed (use free_entry_cur [of en r "pmksa_unlink en sm"] in \<open>simp_all add: sm'_def\<close>)


lemma flush_loop_spec:
  assumes "pmksa_inv sm" "distinct l" "set l \<subseteq> set (sm_pmksa sm)" "flush_loop p l (n, sm) = (n', sm')"
  shows "pmksa_inv sm' \<and> sm_pmksa sm' = filter (\<lambda>x. \<not> (x \<in> set l \<and> p x)) (sm_pmksa sm) \<and>
    sm_pmksa_unlinked sm' = sm_pmksa_unlinked sm \<and> sm_pmksa_next_id sm' = sm_pmksa_next_id sm \<and>
    sm_cur_pmksa sm' \<in> {sm_cur_pmksa sm, None}"
  using assms
proof (induction l arbitrary: n sm)
  case (Cons en l)
  show ?case
  proof (cases "p en")
    case True
    define sm1 where "sm1 = pmksa_cache_free_entry en PMKSA_FREE (pmksa_unlink en sm)"
    have en: "en \<in> set (sm_pmksa sm)" using Cons.prems(3) by simp
    note drop = drop_entry [OF Cons.prems(1) en sm1_def]
    have d: "distinct (map pe_id (sm_pmksa sm))"
      using Cons.prems(1) by (auto simp: pmksa_inv_def pmksa_live_def)
    have sub: "set l \<subseteq> set (sm_pmksa sm1)"
      using Cons.prems(2,3) set_filter_id [OF d en] by (auto simp: drop(2))
    have id: "x = en" if "x \<in> set (sm_pmksa sm)" "pe_id x = pe_id en" for x
      using d that en by (auto simp: distinct_map inj_on_def)
    have "flush_loop p l (n + 1, sm1) = (n', sm')"
      using Cons.prems(4) True by (simp add: sm1_def)
    from Cons.IH [OF drop(1) _ sub this] Cons.prems(2)
    have IH: "pmksa_inv sm'" "sm_pmksa sm' = filter (\<lambda>x. \<not> (x \<in> set l \<and> p x)) (sm_pmksa sm1)"
      "sm_pmksa_unlinked sm' = sm_pmksa_unlinked sm1" "sm_pmksa_next_id sm' = sm_pmksa_next_id sm1"
      "sm_cur_pmksa sm' \<in> {sm_cur_pmksa sm1, None}"
      by auto
    show ?thesis
      using IH True drop id by (auto simp: intro!: filter_cong)
  next
    case False
    then show ?thesis
      using Cons.IH [OF Cons.prems(1)] Cons.prems by (auto intro!: filter_cong)
  qed
qed auto

lemma pmksa_flush_spec:
  assumes "pmksa_inv sm"
  shows "pmksa_inv (pmksa_cache_flush e ctx pmk ext sm)"
    and "sm_pmksa (pmksa_cache_flush e ctx pmk ext sm) =
           filter (\<lambda>x. \<not> flush_matches ctx pmk ext x) (sm_pmksa sm)"
    and "sm_pmksa_unlinked (pmksa_cache_flush e ctx pmk ext sm) = sm_pmksa_unlinked sm"
    and "sm_pmksa_next_id (pmksa_cache_flush e ctx pmk ext sm) = sm_pmksa_next_id sm"
    and "sm_cur_pmksa (pmksa_cache_flush e ctx pmk ext sm) \<in> {sm_cur_pmksa sm, None}"
proof -
  obtain n sm' where fl: "flush_loop (flush_matches ctx pmk ext) (sm_pmksa sm) (0, sm) = (n, sm')"
    by fastforce
  have "distinct (sm_pmksa sm)"
    using assms by (auto simp: pmksa_inv_def pmksa_live_def distinct_map)
  note spec = flush_loop_spec [OF assms this order_refl fl]
  have "sm_pmksa sm' = filter (\<lambda>x. \<not> flush_matches ctx pmk ext x) (sm_pmksa sm)"
    using spec by (auto intro!: filter_cong)
  moreover have "pmksa_inv (pmksa_cache_set_expiration e sm')"
    using spec pmksa_inv_cong [of "pmksa_cache_set_expiration e sm'" sm'] by auto
  ultimately show "pmksa_inv (pmksa_cache_flush e ctx pmk ext sm)"
    "sm_pmksa (pmksa_cache_flush e ctx pmk ext sm) =
           filter (\<lambda>x. \<not> flush_matches ctx pmk ext x) (sm_pmksa sm)"
    "sm_pmksa_unlinked (pmksa_cache_flush e ctx pmk ext sm) = sm_pmksa_unlinked sm"
    "sm_pmksa_next_id (pmksa_cache_flush e ctx pmk ext sm) = sm_pmksa_next_id sm"
    "sm_cur_pmksa (pmksa_cache_flush e ctx pmk ext sm) \<in> {sm_cur_pmksa sm, None}"
    using spec by (auto simp: pmksa_cache_flush_def fl)
qed

lemma flush_ok: "pmksa_ok sm \<Longrightarrow> pmksa_ok (pmksa_cache_flush e ctx pmk ext sm)"
  using pmksa_flush_spec [of sm e ctx pmk ext]
    order_trans [OF length_filter_le [of "\<lambda>en. \<not> flush_matches ctx pmk ext en" "sm_pmksa sm"]]
  by (simp add: pmksa_ok_def)

text \<open>Flushing removes exactly the entries that match the network, PMK and
  origin given, keeps the order of the rest, and leaves the cache consistent;
  a current entry that was flushed is no longer referenced.\<close>

theorem pmksa_cache_flush_exact:
  assumes "pmksa_ok sm"
  shows "pmksa_ok (pmksa_cache_flush e ctx pmk ext sm) \<and>
    sm_pmksa (pmksa_cache_flush e ctx pmk ext sm) =
      filter (\<lambda>en. \<not> flush_matches ctx pmk ext en) (sm_pmksa sm)"
  using assms flush_ok pmksa_flush_spec(2) by (simp add: pmksa_ok_def)

definition pmksa_entry_sample :: pmksa_entry where
  "pmksa_entry_sample = \<lparr> pe_id = 0, pe_pmkid = replicate 16 9, pe_pmk = replicate 32 7 @ zeros 32, pe_pmk_len = 32,
     pe_expiration = 0, pe_akmp = WPA_KEY_MGMT_IEEE8021X, pe_aa = replicate 6 2, pe_fils_cache_id = None,
     pe_reauth_time = 0, pe_network_ctx = Some 5, pe_opportunistic = False, pe_external = False \<rparr>"

definition sm_pmksa_sample :: wpa_sm where
  "sm_pmksa_sample = wpa_sm_init\<lparr> sm_pmksa := [pmksa_entry_sample], sm_pmksa_count := 1, sm_pmksa_next_id := 1 \<rparr>"

lemma sm_pmksa_sample_ok: "pmksa_ok sm_pmksa_sample" "sm_pmksa sm_pmksa_sample = [pmksa_entry_sample]"
   "sm_cur_pmksa sm_pmksa_sample = None" "sm_trace sm_pmksa_sample = []"
  by (simp_all add: sm_pmksa_sample_def pmksa_ok_def pmksa_inv_def pmksa_live_def pmksa_entry_sample_def
      entry_wf_def wpa_sm_init_def wpa_sm_zero_def)

theorem pmksa_cache_flush_exact_witness:
  "pmksa_ok sm_pmksa_sample \<and> pmksa_ok (pmksa_cache_flush env_sample (Some 5) None False sm_pmksa_sample) \<and>
   sm_pmksa (pmksa_cache_flush env_sample (Some 5) None False sm_pmksa_sample) = []"
  using pmksa_cache_flush_exact [OF sm_pmksa_sample_ok(1), of env_sample "Some 5" None False]
  by (simp add: sm_pmksa_sample_ok flush_matches_def pmksa_entry_sample_def)

lemma expire_loop_spec:
  assumes "pmksa_inv sm" "distinct l" "set l \<subseteq> set (sm_pmksa sm)"
  shows "pmksa_inv (expire_loop now l sm) \<and>
    sm_pmksa_unlinked (expire_loop now l sm) = sm_pmksa_unlinked sm \<and>
    (\<exists>q. sm_pmksa (expire_loop now l sm) = filter q (sm_pmksa sm) \<and>
         (\<forall>x \<in> set (sm_pmksa sm). \<not> q x \<longrightarrow> x \<in> set l \<and> pe_expiration x \<le> now) \<and>
         (sorted (map pe_expiration l) \<longrightarrow>
            (\<forall>x \<in> set l. q x \<longrightarrow> pe_expiration x \<le> now \<longrightarrow> sm_cur_pmksa sm = Some (pe_id x))))"
  using assms
proof (induction l arbitrary: sm)
  case Nil
  then show ?case by (auto intro: exI [of _ "\<lambda>_. True"])
next
  case (Cons en l)
  have en: "en \<in> set (sm_pmksa sm)" using Cons.prems(3) by simp
  have d: "distinct (map pe_id (sm_pmksa sm))"
    using Cons.prems(1) by (auto simp: pmksa_inv_def pmksa_live_def)
  consider (stop) "\<not> pe_expiration en \<le> now"
    | (keep) "pe_expiration en \<le> now" "wpa_key_mgmt_sae (pe_akmp en) \<and> wpa_sm_pmksa_is_current_cb en sm"
    | (drop) "pe_expiration en \<le> now" "\<not> (wpa_key_mgmt_sae (pe_akmp en) \<and> wpa_sm_pmksa_is_current_cb en sm)"
    by blast
  then show ?case
  proof cases
    case stop
    then show ?thesis using Cons.prems(1) by (fastforce intro: exI [of _ "\<lambda>_. True"])
  next
    case keep
    then show ?thesis
      using Cons.IH [OF Cons.prems(1)] Cons.prems(2,3)
      by (fastforce simp: wpa_sm_pmksa_is_current_cb_def)
  next
    case drop
    define sm1 where "sm1 = pmksa_cache_free_entry en PMKSA_EXPIRE (pmksa_unlink en sm)"
    note dr = drop_entry [OF Cons.prems(1) en sm1_def]
    have sub: "set l \<subseteq> set (sm_pmksa sm1)"
      using Cons.prems(2,3) set_filter_id [OF d en] by (auto simp: dr(2))
    from Cons.IH [OF dr(1) _ sub] Cons.prems(2) obtain q where
      IH: "pmksa_inv (expire_loop now l sm1)" "sm_pmksa_unlinked (expire_loop now l sm1) = sm_pmksa_unlinked sm1"
      "sm_pmksa (expire_loop now l sm1) = filter q (sm_pmksa sm1)"
      "\<forall>x \<in> set (sm_pmksa sm1). \<not> q x \<longrightarrow> x \<in> set l \<and> pe_expiration x \<le> now"
      "sorted (map pe_expiration l) \<longrightarrow>
         (\<forall>x \<in> set l. q x \<longrightarrow> pe_expiration x \<le> now \<longrightarrow> sm_cur_pmksa sm1 = Some (pe_id x))"
      by auto
    have loop: "expire_loop now (en # l) sm = expire_loop now l sm1"
      using drop by (auto simp: sm1_def)
    have eq: "x = en" if "x \<in> set (sm_pmksa sm)" "pe_id x = pe_id en" for x
      using d that en by (auto simp: distinct_map inj_on_def)
    let ?q = "\<lambda>x. pe_id x \<noteq> pe_id en \<and> q x"
    have q1: "sm_pmksa (expire_loop now l sm1) = filter ?q (sm_pmksa sm)"
      by (simp add: IH(3) dr(2) conj_commute)
    have q2: "\<forall>x \<in> set (sm_pmksa sm). \<not> ?q x \<longrightarrow> x \<in> set (en # l) \<and> pe_expiration x \<le> now"
      using IH(4) drop(1) eq by (auto simp: dr(2))
    have q3: "sorted (map pe_expiration (en # l)) \<longrightarrow>
        (\<forall>x \<in> set (en # l). ?q x \<longrightarrow> pe_expiration x \<le> now \<longrightarrow> sm_cur_pmksa sm = Some (pe_id x))"
      using IH(5) dr(5) by auto
    show ?thesis
      unfolding loop using IH(1,2) q1 q2 q3 dr(3) by auto
  qed
qed


lemma expire_spec:
  assumes "pmksa_ok sm"
  shows "pmksa_ok (pmksa_cache_expire e sm)"
    and "\<exists>q. sm_pmksa (pmksa_cache_expire e sm) = filter q (sm_pmksa sm) \<and>
      (\<forall>x \<in> set (sm_pmksa sm). \<not> q x \<longrightarrow> pe_expiration x \<le> e_now e (sm_trace sm)) \<and>
      (sorted (map pe_expiration (sm_pmksa sm)) \<longrightarrow> (\<forall>x \<in> set (sm_pmksa sm). q x \<longrightarrow>
         pe_expiration x \<le> e_now e (sm_trace sm) \<longrightarrow> sm_cur_pmksa sm = Some (pe_id x)))"
proof -
  let ?now = "e_now e (sm_trace sm)" and ?l = "sm_pmksa sm"
  have inv: "pmksa_inv sm" using assms(1) by (simp add: pmksa_ok_def)
  then have "distinct ?l" by (auto simp: pmksa_inv_def pmksa_live_def distinct_map)
  from expire_loop_spec [OF inv this order_refl, of ?now] obtain q where
    q: "pmksa_inv (expire_loop ?now ?l sm)" "sm_pmksa_unlinked (expire_loop ?now ?l sm) = []"
      "sm_pmksa (expire_loop ?now ?l sm) = filter q ?l"
      "\<forall>x \<in> set ?l. \<not> q x \<longrightarrow> x \<in> set ?l \<and> pe_expiration x \<le> ?now"
      "sorted (map pe_expiration ?l) \<longrightarrow>
         (\<forall>x \<in> set ?l. q x \<longrightarrow> pe_expiration x \<le> ?now \<longrightarrow> sm_cur_pmksa sm = Some (pe_id x))"
    using assms by (auto simp: pmksa_ok_def)
  have inv': "pmksa_inv (pmksa_cache_expire e sm)"
    unfolding pmksa_cache_expire_def by (rule pmksa_inv_cong [OF _ _ _ _ _ q(1)]) simp_all
  show "pmksa_ok (pmksa_cache_expire e sm)"
    using inv' q(2,3) assms(1) order_trans [OF length_filter_le [of q ?l]]
    by (simp add: pmksa_ok_def pmksa_cache_expire_def)
  have "sm_pmksa (pmksa_cache_expire e sm) = filter q ?l"
    using q(3) by (simp add: pmksa_cache_expire_def)
  then show "\<exists>q. sm_pmksa (pmksa_cache_expire e sm) = filter q ?l \<and>
      (\<forall>x \<in> set ?l. \<not> q x \<longrightarrow> pe_expiration x \<le> ?now) \<and>
      (sorted (map pe_expiration ?l) \<longrightarrow> (\<forall>x \<in> set ?l. q x \<longrightarrow>
         pe_expiration x \<le> ?now \<longrightarrow> sm_cur_pmksa sm = Some (pe_id x)))"
    using q(4,5) by blast
qed

text \<open>The expiration timer removes from a cache ordered by expiration time
  every entry that has expired, except a current SAE entry, and no other; what
  is left is consistent.\<close>

theorem pmksa_cache_expire_exact:
  assumes "pmksa_ok sm" "sorted (map pe_expiration (sm_pmksa sm))"
  shows "pmksa_ok (pmksa_cache_expire e sm) \<and>
    set (sm_pmksa (pmksa_cache_expire e sm)) \<subseteq> set (sm_pmksa sm) \<and>
    (\<forall>en \<in> set (sm_pmksa sm). pe_expiration en > e_now e (sm_trace sm) \<longrightarrow>
       en \<in> set (sm_pmksa (pmksa_cache_expire e sm))) \<and>
    (\<forall>en \<in> set (sm_pmksa (pmksa_cache_expire e sm)).
       pe_expiration en \<le> e_now e (sm_trace sm) \<longrightarrow> sm_cur_pmksa sm = Some (pe_id en))"
proof -
  from expire_spec(2) [OF assms(1), of e] assms(2) obtain q where
    q: "sm_pmksa (pmksa_cache_expire e sm) = filter q (sm_pmksa sm)"
      "\<forall>x \<in> set (sm_pmksa sm). \<not> q x \<longrightarrow> pe_expiration x \<le> e_now e (sm_trace sm)"
      "\<forall>x \<in> set (sm_pmksa sm). q x \<longrightarrow> pe_expiration x \<le> e_now e (sm_trace sm) \<longrightarrow>
         sm_cur_pmksa sm = Some (pe_id x)"
    by blast
  then show ?thesis using expire_spec(1) [OF assms(1), of e] by fastforce
qed

theorem pmksa_cache_expire_exact_witness:
  "pmksa_ok sm_pmksa_sample \<and> sorted (map pe_expiration (sm_pmksa sm_pmksa_sample)) \<and>
   sm_pmksa (pmksa_cache_expire env_sample sm_pmksa_sample) = []"
proof -
  have "\<forall>en \<in> set (sm_pmksa (pmksa_cache_expire env_sample sm_pmksa_sample)). 0 < pe_expiration en"
    using pmksa_cache_expire_exact [OF sm_pmksa_sample_ok(1), of env_sample]
    by (auto simp: sm_pmksa_sample_ok env_sample_def not_le)
  moreover have "set (sm_pmksa (pmksa_cache_expire env_sample sm_pmksa_sample)) \<subseteq> {pmksa_entry_sample}"
    using pmksa_cache_expire_exact [OF sm_pmksa_sample_ok(1), of env_sample] by (simp add: sm_pmksa_sample_ok)
  ultimately show ?thesis
    by (cases "sm_pmksa (pmksa_cache_expire env_sample sm_pmksa_sample)")
       (auto simp: sm_pmksa_sample_ok pmksa_entry_sample_def)
qed


section \<open>Adding entries\<close>

lemma insert_by_expiration_simps [simp]:
  "set (insert_by_expiration en l) = insert en (set l)"
  "length (insert_by_expiration en l) = Suc (length l)"
proof -
  have "set (takeWhile p l) \<union> set (dropWhile p l) = set l" for p
    by (metis set_append takeWhile_dropWhile_id)
  then show "set (insert_by_expiration en l) = insert en (set l)"
    by (auto simp: insert_by_expiration_def Let_def)
  have "length (takeWhile p l) + length (dropWhile p l) = length l" for p
    by (metis length_append takeWhile_dropWhile_id)
  then show "length (insert_by_expiration en l) = Suc (length l)"
    by (simp add: insert_by_expiration_def Let_def)
qed

lemma insert_by_expiration_Cons:
  "insert_by_expiration en (a # l) =
     (if pe_expiration a \<le> pe_expiration en then a # insert_by_expiration en l else en # a # l)"
  by (simp add: insert_by_expiration_def Let_def)

lemma insert_by_expiration_Nil [simp]: "insert_by_expiration en [] = [en]"
  by (simp add: insert_by_expiration_def)

lemma distinct_insert_by_expiration:
  "distinct (map f (insert_by_expiration en l)) \<longleftrightarrow> distinct (map f l) \<and> f en \<notin> f ` set l"
  by (induction l) (auto simp: insert_by_expiration_Cons)

lemma sorted_insert_by_expiration:
  "sorted (map pe_expiration l) \<Longrightarrow> sorted (map pe_expiration (insert_by_expiration en l))"
  by (induction l) (auto simp: insert_by_expiration_Cons)

lemma pmksa_insert_spec:
  assumes "pmksa_inv sm" "pe_id en < sm_pmksa_next_id sm" "entry_wf en"
    "pe_id en \<notin> pe_id ` set (pmksa_live sm)" "pe_aa en \<notin> pe_aa ` set (sm_pmksa sm)"
  shows "pmksa_inv (pmksa_insert e en sm)"
    and "sm_pmksa (pmksa_insert e en sm) = insert_by_expiration en (sm_pmksa sm)"
    and "sm_pmksa_unlinked (pmksa_insert e en sm) = sm_pmksa_unlinked sm"
    and "sm_pmksa_next_id (pmksa_insert e en sm) = sm_pmksa_next_id sm"
    and "sm_cur_pmksa (pmksa_insert e en sm) = sm_cur_pmksa sm"
proof -
  show sel: "sm_pmksa (pmksa_insert e en sm) = insert_by_expiration en (sm_pmksa sm)"
    "sm_pmksa_unlinked (pmksa_insert e en sm) = sm_pmksa_unlinked sm"
    "sm_pmksa_next_id (pmksa_insert e en sm) = sm_pmksa_next_id sm"
    "sm_cur_pmksa (pmksa_insert e en sm) = sm_cur_pmksa sm"
    by (simp_all add: pmksa_insert_def Let_def)
  have "sm_pmksa_count (pmksa_insert e en sm) = sm_pmksa_count sm + 1"
    by (simp add: pmksa_insert_def Let_def)
  then show "pmksa_inv (pmksa_insert e en sm)"
    using assms
    by (auto simp: pmksa_inv_def pmksa_live_def sel distinct_insert_by_expiration)
qed

lemma make_room_cases:
  assumes "pmksa_inv sm" "sm_pmksa_unlinked sm = []"
  obtains (keep) "pmksa_make_room sm = sm" "length (sm_pmksa sm) \<le> 31"
    | (drop) en where "en \<in> set (sm_pmksa sm)" "length (sm_pmksa sm) > 31"
        "pmksa_make_room sm = pmksa_cache_free_entry en PMKSA_FREE (pmksa_unlink en sm)"
proof (cases "length (sm_pmksa sm) \<le> 31")
  case True
  then have "\<not> pmksa_cache_max_entries \<le> sm_pmksa_count sm"
    using assms by (auto simp: pmksa_inv_def pmksa_live_def pmksa_cache_max_entries_def)
  then have "pmksa_make_room sm = sm" by (simp add: pmksa_make_room_def split: list.split)
  with True keep show thesis by blast
next
  case False
  then obtain h n rest where l: "sm_pmksa sm = h # n # rest"
    by (cases "sm_pmksa sm"; cases "tl (sm_pmksa sm)") auto
  have "pmksa_cache_max_entries \<le> sm_pmksa_count sm"
    using False assms by (auto simp: pmksa_inv_def pmksa_live_def pmksa_cache_max_entries_def)
  then show thesis
    using drop [of h] drop [of n] False
    by (cases "sm_cur_pmksa sm = Some (pe_id h)") (simp_all add: pmksa_make_room_def l)
qed

lemma make_room_spec:
  assumes "pmksa_inv sm" "sm_pmksa_unlinked sm = []" "length (sm_pmksa sm) \<le> 32"
  shows "pmksa_inv (pmksa_make_room sm)" "sm_pmksa_unlinked (pmksa_make_room sm) = []"
    "sm_pmksa_next_id (pmksa_make_room sm) = sm_pmksa_next_id sm"
    "length (sm_pmksa (pmksa_make_room sm)) \<le> 31"
    "\<exists>q. sm_pmksa (pmksa_make_room sm) = filter q (sm_pmksa sm)"
proof -
  have d: "distinct (map pe_id (sm_pmksa sm))"
    using assms(1) by (auto simp: pmksa_inv_def pmksa_live_def)
  from assms(1,2) have "pmksa_inv (pmksa_make_room sm) \<and> sm_pmksa_unlinked (pmksa_make_room sm) = [] \<and>
    sm_pmksa_next_id (pmksa_make_room sm) = sm_pmksa_next_id sm \<and>
    length (sm_pmksa (pmksa_make_room sm)) \<le> 31 \<and>
    (\<exists>q. sm_pmksa (pmksa_make_room sm) = filter q (sm_pmksa sm))"
  proof (cases rule: make_room_cases)
    case keep
    then show ?thesis using assms by (auto intro: exI [of _ "\<lambda>_. True"])
  next
    case (drop en)
    note dr = drop_entry [OF assms(1) drop(1,3)]
    show ?thesis
      using dr assms length_filter_id [OF d drop(1)] by (auto simp: dr(2))
  qed
  then show "pmksa_inv (pmksa_make_room sm)" "sm_pmksa_unlinked (pmksa_make_room sm) = []"
    "sm_pmksa_next_id (pmksa_make_room sm) = sm_pmksa_next_id sm"
    "length (sm_pmksa (pmksa_make_room sm)) \<le> 31"
    "\<exists>q. sm_pmksa (pmksa_make_room sm) = filter q (sm_pmksa sm)"
    by blast+
qed

text \<open>Making room and inserting an entry of an authenticator that has none.\<close>

lemma room_insert_spec:
  assumes inv: "pmksa_inv sm" "sm_pmksa_unlinked sm = []" "length (sm_pmksa sm) \<le> 32"
    and en: "pe_id en < sm_pmksa_next_id sm" "entry_wf en" "pe_id en \<notin> pe_id ` set (sm_pmksa sm)"
      "pe_aa en \<notin> pe_aa ` set (sm_pmksa sm)"
    and sm': "sm' = pmksa_insert e en (pmksa_make_room sm)"
  shows "pmksa_ok sm'" "sm_pmksa_next_id sm' = sm_pmksa_next_id sm"
    "\<exists>q. sm_pmksa sm' = insert_by_expiration en (filter q (sm_pmksa sm))"
proof -
  note room = make_room_spec [OF inv]
  obtain q where q: "sm_pmksa (pmksa_make_room sm) = filter q (sm_pmksa sm)" using room(5) by auto
  have "pe_id en \<notin> pe_id ` set (pmksa_live (pmksa_make_room sm))"
    "pe_aa en \<notin> pe_aa ` set (sm_pmksa (pmksa_make_room sm))"
    using en(3,4) room(2) q by (auto simp: pmksa_live_def)
  note ins = pmksa_insert_spec [OF room(1) _ en(2) this, of e]
  show "pmksa_ok sm'" "sm_pmksa_next_id sm' = sm_pmksa_next_id sm"
    using ins room en(1) by (auto simp: sm' pmksa_ok_def)
  show "\<exists>q. sm_pmksa sm' = insert_by_expiration en (filter q (sm_pmksa sm))"
    using ins room en(1) q by (auto simp: sm')
qed

text \<open>What the caller of \<^verbatim>\<open>pmksa_cache_add_entry\<close> gets: the entry that the
  cache now has for the authenticator.\<close>

definition added :: "pmksa_entry \<Rightarrow> nat \<Rightarrow> wpa_sm \<Rightarrow> bool" where
  "added en i sm \<longleftrightarrow> (\<exists>x \<in> set (sm_pmksa sm). pe_id x = i \<and> pe_aa x = pe_aa en \<and>
     pe_pmkid x = pe_pmkid en \<and> pmk_of x = pmk_of en)"

lemma replaced_spec:
  assumes "pmksa_inv sm" "sm_pmksa_unlinked sm = []" "pos \<in> set (sm_pmksa sm)"
  shows "pmksa_inv (pmksa_replaced e ctx pos sm)"
    and "sm_pmksa_unlinked (pmksa_replaced e ctx pos sm) = []"
    and "sm_pmksa_next_id (pmksa_replaced e ctx pos sm) = sm_pmksa_next_id sm"
    and "sm_pmksa (pmksa_replaced e ctx pos sm) =
      filter (\<lambda>x. pe_id x \<noteq> pe_id pos \<and>
        \<not> (\<not> pe_opportunistic pos \<and> flush_matches ctx (Some (pmk_of pos)) False x)) (sm_pmksa sm)"
proof -
  let ?u = "pmksa_unlink pos sm"
  let ?s = "if \<not> pe_opportunistic pos then pmksa_cache_flush e ctx (Some (pmk_of pos)) False ?u else ?u"
  note u = unlink_inv [OF assms(1,3)]
  have s: "pmksa_inv ?s" "sm_pmksa_unlinked ?s = [pos]" "sm_pmksa_next_id ?s = sm_pmksa_next_id sm"
    "sm_pmksa ?s = filter (\<lambda>x. pe_id x \<noteq> pe_id pos \<and>
        \<not> (\<not> pe_opportunistic pos \<and> flush_matches ctx (Some (pmk_of pos)) False x)) (sm_pmksa sm)"
    using pmksa_flush_spec [OF u, of e ctx "Some (pmk_of pos)" False] u assms(2) by (auto simp: conj_commute)
  then show "pmksa_inv (pmksa_replaced e ctx pos sm)"
    and "sm_pmksa_unlinked (pmksa_replaced e ctx pos sm) = []"
    and "sm_pmksa_next_id (pmksa_replaced e ctx pos sm) = sm_pmksa_next_id sm"
    and "sm_pmksa (pmksa_replaced e ctx pos sm) =
      filter (\<lambda>x. pe_id x \<noteq> pe_id pos \<and>
        \<not> (\<not> pe_opportunistic pos \<and> flush_matches ctx (Some (pmk_of pos)) False x)) (sm_pmksa sm)"
    using free_entry_inv [OF s(1)] by (auto simp: pmksa_replaced_def)
qed

lemma add_entry_spec:
  assumes ok: "pmksa_ok sm" and en: "pe_id en < sm_pmksa_next_id sm" "entry_wf en"
      "pe_id en \<notin> pe_id ` set (sm_pmksa sm)"
    and r: "pmksa_cache_add_entry e en sm = (i, sm')"
  shows "pmksa_ok sm' \<and> added en i sm' \<and> sm_pmksa_next_id sm' = sm_pmksa_next_id sm \<and>
    (sorted (map pe_expiration (sm_pmksa sm)) \<longrightarrow> sorted (map pe_expiration (sm_pmksa sm')))"
proof (cases "List.find (\<lambda>pos. pe_aa en = pe_aa pos) (sm_pmksa sm)")
  case None
  then have aa: "pe_aa en \<notin> pe_aa ` set (sm_pmksa sm)" by (auto simp: find_None_iff)
  have sm': "sm' = pmksa_insert e en (pmksa_make_room sm)" and i: "i = pe_id en"
    using r None by (auto simp: pmksa_cache_add_entry_def)
  have inv: "pmksa_inv sm" "sm_pmksa_unlinked sm = []" "length (sm_pmksa sm) \<le> 32"
    using ok by (auto simp: pmksa_ok_def)
  note spec = room_insert_spec [OF inv en aa sm']
  then show ?thesis
    by (auto simp: i added_def intro!: sorted_insert_by_expiration sorted_filter)
next
  case (Some pos)
  then have pos: "pos \<in> set (sm_pmksa sm)" "pe_aa pos = pe_aa en"
    by (auto simp: find_Some_iff)
  have inv: "pmksa_inv sm" "sm_pmksa_unlinked sm = []" "length (sm_pmksa sm) \<le> 32"
    using ok by (auto simp: pmksa_ok_def)
  show ?thesis
  proof (cases "pe_pmk_len pos = pe_pmk_len en \<and>
             slice 0 (pe_pmk_len en) (pe_pmk pos) = slice 0 (pe_pmk_len en) (pe_pmk en) \<and>
             pe_pmkid pos = pe_pmkid en")
    case True
    then have "i = pe_id pos \<and> sm' = sm"
      using r Some by (auto simp: pmksa_cache_add_entry_def)
    then show ?thesis using True pos ok by (auto simp: added_def pmk_of_def)
  next
    case False
    define s2 where "s2 = pmksa_replaced e (pe_network_ctx en) pos sm"
    have res: "i = pe_id en" "sm' = pmksa_insert e en (pmksa_make_room s2)"
      using r Some False unfolding pmksa_cache_add_entry_def s2_def
      by (simp_all split: if_splits)
    note s2 = replaced_spec [OF inv(1,2) pos(1), of e "pe_network_ctx en", folded s2_def]
    have aa: "pe_aa en \<notin> pe_aa ` set (sm_pmksa s2)"
      using inv(1) pos by (auto simp: s2(4) pmksa_inv_def distinct_map inj_on_def)
    have len: "length (sm_pmksa s2) \<le> 32"
      using order_trans [OF length_filter_le inv(3)] by (simp add: s2(4))
    have id: "pe_id en < sm_pmksa_next_id s2" "pe_id en \<notin> pe_id ` set (sm_pmksa s2)"
      using en by (auto simp: s2)
    note spec = room_insert_spec [OF s2(1,2) len id(1) en(2) id(2) aa res(2)]
    show ?thesis
      using spec s2(3,4) by (auto simp: res(1) added_def intro!: sorted_insert_by_expiration sorted_filter)
  qed
qed

lemma pmk_of_new_entry [simp]:
  "length pmk \<le> 64 \<Longrightarrow> pmk_of (pmksa_new_entry e c pmk pid kck_opt aa spa ctx akmp cid sm) = pmk"
  by (simp add: pmk_of_def pmksa_new_entry_def Let_def overwrite_def slice_def)

lemma new_entry_sel [simp]:
  "pe_id (pmksa_new_entry e c pmk pid kck_opt aa spa ctx akmp cid sm) = sm_pmksa_next_id sm"
  "pe_aa (pmksa_new_entry e c pmk pid kck_opt aa spa ctx akmp cid sm) = aa"
  "length pmk \<le> 64 \<Longrightarrow> entry_wf (pmksa_new_entry e c pmk pid kck_opt aa spa ctx akmp cid sm)"
  by (simp_all add: pmksa_new_entry_def Let_def entry_wf_def)

lemma pmksa_add_spec:
  assumes "pmksa_ok sm" "pmksa_cache_add e c pmk pid kck_opt aa spa ctx akmp cid sm = (r, sm')"
  shows "pmksa_ok sm' \<and>
    (case r of None \<Rightarrow> sm' = sm
     | Some i \<Rightarrow> length pmk \<le> 64 \<and>
         added (pmksa_new_entry e c pmk pid kck_opt aa spa ctx akmp cid sm) i sm') \<and>
    (sorted (map pe_expiration (sm_pmksa sm)) \<longrightarrow> sorted (map pe_expiration (sm_pmksa sm')))"
proof (cases r)
  case None
  then have "sm' = sm"
    using assms(2) by (auto simp: pmksa_cache_add_def Let_def split: if_splits prod.splits)
  then show ?thesis using assms(1) None by simp
next
  case (Some i)
  let ?en = "pmksa_new_entry e c pmk pid kck_opt aa spa ctx akmp cid sm"
  let ?sm = "sm\<lparr> sm_pmksa_next_id := sm_pmksa_next_id sm + 1 \<rparr>"
  have len: "length pmk \<le> 64" and add: "pmksa_cache_add_entry e ?en ?sm = (i, sm')"
    using assms(2) Some by (auto simp: pmksa_cache_add_def Let_def split: if_splits prod.splits)
  have ok: "pmksa_ok ?sm" and fresh: "sm_pmksa_next_id sm \<notin> pe_id ` set (sm_pmksa sm)"
    using assms(1) by (auto simp: pmksa_ok_def pmksa_inv_def pmksa_live_def less_Suc_eq)
  from add_entry_spec [OF ok _ _ _ add] len fresh show ?thesis
    by (simp add: Some)
qed

text \<open>In a consistent cache the authenticator determines the entry.\<close>

lemma find_unique: "distinct (map f l) \<Longrightarrow> x \<in> set l \<Longrightarrow> List.find (\<lambda>y. f x = f y) l = Some x"
  by (induction l) (auto simp: image_iff)

lemma pmksa_cache_get_aa:
  assumes "pmksa_inv sm" "x \<in> set (sm_pmksa sm)"
  shows "pmksa_cache_get sm (Some (pe_aa x)) None None 0 = Some x"
proof -
  have "distinct (map pe_aa (sm_pmksa sm))" using assms(1) by (simp add: pmksa_inv_def)
  from find_unique [OF this assms(2)] show ?thesis
    by (simp add: pmksa_cache_get_def pmksa_matches_def [abs_def])
qed

lemma pmksa_deref_live:
  assumes "pmksa_inv sm" "x \<in> set (sm_pmksa sm)"
  shows "pmksa_deref sm (pe_id x) = Some x"
proof -
  have "distinct (map pe_id (pmksa_live sm))" "x \<in> set (pmksa_live sm)"
    using assms by (auto simp: pmksa_inv_def pmksa_live_def)
  from find_unique [OF this] show ?thesis
    by (simp add: pmksa_deref_def pmksa_live_def eq_commute)
qed

lemma pmksa_get_SomeD:
  "pmksa_cache_get sm aa pid ctx akmp = Some x \<Longrightarrow> x \<in> set (sm_pmksa sm) \<and> pmksa_matches aa pid ctx akmp x"
  by (auto simp: pmksa_cache_get_def find_Some_iff)

text \<open>Adding a PMK either changes nothing (no memory, a PMK that does not
  fit, a missing KCK) or returns the entry that a lookup by the authenticator
  finds from then on, with the PMK given.  The cache stays consistent, bounded
  and ordered by expiration time.\<close>

theorem pmksa_cache_add_lookup:
  assumes "pmksa_ok sm" "sorted (map pe_expiration (sm_pmksa sm))"
    "pmksa_cache_add e c pmk pid kck_opt aa spa ctx akmp cid sm = (r, sm')"
  shows "pmksa_ok sm' \<and> sorted (map pe_expiration (sm_pmksa sm')) \<and>
    (r = None \<and> sm' = sm \<or>
     (\<exists>x. r = Some (pe_id x) \<and> pmksa_cache_get sm' (Some aa) None None 0 = Some x \<and> pmk_of x = pmk))"
proof (cases r)
  case None
  then show ?thesis using pmksa_add_spec [OF assms(1,3)] assms(1,2) by simp
next
  case (Some i)
  then obtain x where x: "x \<in> set (sm_pmksa sm')" "pe_id x = i" "pe_aa x = aa" "pmk_of x = pmk"
    using pmksa_add_spec [OF assms(1,3)] by (auto simp: added_def)
  then show ?thesis
    using Some pmksa_add_spec [OF assms(1,3)] assms(2) pmksa_cache_get_aa [of sm' x]
    by (auto simp: pmksa_ok_def)
qed

theorem pmksa_cache_add_lookup_witness:
  "\<exists>r sm'. pmksa_cache_add env_sample crypto_sample (replicate 32 1) None None (replicate 6 3) (replicate 6 4)
       (Some 5) WPA_KEY_MGMT_IEEE8021X None sm_pmksa_sample = (r, sm') \<and> r \<noteq> None \<and> pmksa_ok sm' \<and>
     sorted (map pe_expiration (sm_pmksa sm')) \<and>
     map_option pmk_of (pmksa_cache_get sm' (Some (replicate 6 3)) None None 0) = Some (replicate 32 1)"
proof -
  let ?r = "pmksa_cache_add env_sample crypto_sample (replicate 32 1) None None (replicate 6 3) (replicate 6 4)
       (Some 5) WPA_KEY_MGMT_IEEE8021X None sm_pmksa_sample"
  have "fst ?r \<noteq> None"
    by code_simp
  then obtain i sm' where r: "?r = (Some i, sm')" by (metis not_None_eq prod.collapse)
  show ?thesis
    using pmksa_cache_add_lookup [OF sm_pmksa_sample_ok(1) _ r] by (auto simp: r sm_pmksa_sample_ok(2))
qed


section \<open>Cloning and selecting entries\<close>

lemma pmksa_ok_curI:
  assumes "pmksa_ok sm" "\<And>i. cur = Some i \<Longrightarrow> i \<in> pe_id ` set (sm_pmksa sm)"
  shows "pmksa_ok (sm\<lparr> sm_cur_pmksa := cur \<rparr>)"
  using assms by (auto simp: pmksa_ok_def pmksa_inv_def pmksa_live_def)

lemma pmksa_ok_get_cur:
  "pmksa_ok sm \<Longrightarrow> pmksa_ok (sm\<lparr> sm_cur_pmksa := map_option pe_id (pmksa_cache_get sm aa pid ctx akmp) \<rparr>)"
  by (rule pmksa_ok_curI) (auto dest!: pmksa_get_SomeD)

lemma pmksa_update_ok:
  assumes "pmksa_ok sm" and f: "\<And>en. pe_id (f en) = pe_id en" "\<And>en. pe_aa (f en) = pe_aa en"
    "\<And>en. entry_wf en \<Longrightarrow> entry_wf (f en)"
  shows "pmksa_ok (pmksa_update i f sm)"
proof -
  have "map pe_id (sm_pmksa (pmksa_update i f sm)) = map pe_id (sm_pmksa sm)"
    "map pe_aa (sm_pmksa (pmksa_update i f sm)) = map pe_aa (sm_pmksa sm)"
    using f by (auto simp: pmksa_update_def)
  moreover from this(1) have "pe_id ` set (sm_pmksa (pmksa_update i f sm)) = pe_id ` set (sm_pmksa sm)"
    by (metis set_map)
  moreover have "\<forall>en \<in> set (sm_pmksa (pmksa_update i f sm)). pe_id en < sm_pmksa_next_id sm \<and> entry_wf en"
    using assms by (auto simp: pmksa_update_def pmksa_ok_def pmksa_inv_def pmksa_live_def)
  moreover have "length (sm_pmksa (pmksa_update i f sm)) = length (sm_pmksa sm)"
    by (simp add: pmksa_update_def)
  moreover have "sm_pmksa_unlinked (pmksa_update i f sm) = sm_pmksa_unlinked sm"
    "sm_pmksa_count (pmksa_update i f sm) = sm_pmksa_count sm"
    "sm_cur_pmksa (pmksa_update i f sm) = sm_cur_pmksa sm"
    "sm_pmksa_next_id (pmksa_update i f sm) = sm_pmksa_next_id sm"
    by (simp_all add: pmksa_update_def)
  ultimately show ?thesis
    using assms(1) by (auto simp: pmksa_ok_def pmksa_inv_def pmksa_live_def)
qed

lemma clone_spec:
  assumes "pmksa_ok sm" "pmksa_cache_clone_entry e c old aa sm = (r, sm')"
  shows "pmksa_ok sm' \<and> (\<forall>i. r = Some i \<longrightarrow> (\<exists>x \<in> set (sm_pmksa sm'). pe_id x = i \<and> pe_aa x = aa))"
proof -
  let ?pid = "if wpa_key_mgmt_sae (pe_akmp old) \<or> wpa_key_mgmt_fils (pe_akmp old)
                 then Some (pe_pmkid old) else None"
  let ?f = "\<lambda>en. en\<lparr> pe_expiration := pe_expiration old,
                        pe_reauth_time := pe_reauth_time old, pe_opportunistic := True \<rparr>"
  obtain r1 sm1 where add: "pmksa_cache_add e c (pmk_of old) ?pid None aa (sm_own_addr sm)
                      (pe_network_ctx old) (pe_akmp old) (pe_fils_cache_id old) sm = (r1, sm1)"
    by fastforce
  note spec = pmksa_add_spec [OF assms(1) add]
  show ?thesis
  proof (cases r1)
    case None
    then show ?thesis using assms(2) spec add by (auto simp: pmksa_cache_clone_entry_def Let_def)
  next
    case (Some i)
    then have res: "r = Some i" "sm' = pmksa_update i ?f sm1"
      using assms(2) add by (auto simp: pmksa_cache_clone_entry_def Let_def)
    obtain x where "x \<in> set (sm_pmksa sm1)" "pe_id x = i" "pe_aa x = aa"
      using spec Some by (auto simp: added_def)
    then have "?f x \<in> set (sm_pmksa sm')" "pe_id (?f x) = i" "pe_aa (?f x) = aa"
      by (auto simp: res pmksa_update_def intro: image_eqI [of _ _ x])
    moreover have "pmksa_ok sm'"
      unfolding res using spec by (intro pmksa_update_ok) (auto simp: entry_wf_def)
    ultimately show ?thesis using res(1) by blast
  qed
qed

lemma opportunistic_loop_spec:
  assumes "pmksa_ok sm" "opportunistic_loop e c ctx aa akmp l sm = (r, sm')"
  shows "pmksa_ok sm' \<and> (\<forall>i. r = Some i \<longrightarrow> (\<exists>x \<in> set (sm_pmksa sm'). pe_id x = i \<and> pe_aa x = aa))"
  using assms
proof (induction l)
  case (Cons en l)
  show ?case
    using Cons.prems Cons.IH clone_spec [OF Cons.prems(1), of e c en aa r sm']
    by (simp split: if_splits)
qed simp

text \<open>What a selected entry has to do with the request.\<close>

definition selected :: "bytes option \<Rightarrow> bytes option \<Rightarrow> bytes option \<Rightarrow> wpa_sm \<Rightarrow> bool" where
  "selected pid bssid fils sm \<longleftrightarrow> pmksa_ok sm \<and>
     (\<forall>i. sm_cur_pmksa sm = Some i \<longrightarrow> (\<exists>x \<in> set (sm_pmksa sm). pe_id x = i \<and>
        (pid = Some (pe_pmkid x) \<or> bssid = Some (pe_aa x) \<or> fils \<noteq> None \<and> fils = pe_fils_cache_id x)))"

lemma selected_get:
  assumes "selected pid bssid fils sm"
    and "\<And>x. pmksa_matches a p ctx akmp x \<Longrightarrow> pid = Some (pe_pmkid x) \<or> bssid = Some (pe_aa x)"
  shows "selected pid bssid fils (sm\<lparr> sm_cur_pmksa := map_option pe_id (pmksa_cache_get sm a p ctx akmp) \<rparr>)"
  unfolding selected_def
proof (intro conjI)
  show "pmksa_ok (sm\<lparr> sm_cur_pmksa := map_option pe_id (pmksa_cache_get sm a p ctx akmp) \<rparr>)"
    using assms(1) by (simp add: selected_def pmksa_ok_get_cur)
qed (use assms(2) in \<open>fastforce dest!: pmksa_get_SomeD\<close>)

lemma selected_opportunistic:
  assumes "selected pid (Some b) fils sm" "pmksa_cache_get_opportunistic e c ctx b akmp sm = (r, sm')"
  shows "selected pid (Some b) fils (sm'\<lparr> sm_cur_pmksa := r \<rparr>)"
proof -
  have "pmksa_ok sm' \<and> (\<forall>i. r = Some i \<longrightarrow> (\<exists>x \<in> set (sm_pmksa sm'). pe_id x = i \<and> pe_aa x = b))"
    using assms opportunistic_loop_spec [of sm e c ctx b akmp "sm_pmksa sm" r sm']
    by (auto simp: pmksa_cache_get_opportunistic_def selected_def split: if_splits)
  then show ?thesis
    unfolding selected_def by (auto intro!: pmksa_ok_curI)
qed

lemma selected_fils:
  assumes "selected pid bssid (Some f) sm"
  shows "selected pid bssid (Some f)
    (sm\<lparr> sm_cur_pmksa := map_option pe_id (pmksa_cache_get_fils_cache_id sm ctx f) \<rparr>)"
proof -
  have "x \<in> set (sm_pmksa sm) \<and> pe_fils_cache_id x = Some f"
    if "pmksa_cache_get_fils_cache_id sm ctx f = Some x" for x
    using that by (auto simp: pmksa_cache_get_fils_cache_id_def find_Some_iff)
  then show ?thesis
    using assms unfolding selected_def by (auto intro!: pmksa_ok_curI)
qed

lemma selected_entry:
  assumes "selected pid bssid fils sm" "sm_cur_pmksa sm = Some i"
  shows "\<exists>x. cur_pmksa_entry sm = Some x \<and>
    (pid = Some (pe_pmkid x) \<or> bssid = Some (pe_aa x) \<or> fils \<noteq> None \<and> fils = pe_fils_cache_id x)"
  using assms pmksa_deref_live [of sm] by (fastforce simp: selected_def cur_pmksa_entry_def pmksa_ok_def)

lemma set_current_spec:
  assumes "pmksa_ok sm" "pmksa_cache_set_current e c pid bssid ctx opp fils akmp sm = (r, sm')"
  shows "pmksa_ok sm' \<and> (r = 0 \<longleftrightarrow> sm_cur_pmksa sm' \<noteq> None) \<and>
    (r = 0 \<longrightarrow> (\<exists>x. cur_pmksa_entry sm' = Some x \<and>
       (pid = Some (pe_pmkid x) \<or> bssid = Some (pe_aa x) \<or> fils \<noteq> None \<and> fils = pe_fils_cache_id x) \<and>
       \<not> (wpa_key_mgmt_sae (pe_akmp x) \<and> pe_reauth_time x < e_now e (sm_trace sm'))))"
proof -
  let ?sel = "selected pid bssid fils"
  define s0 where "s0 = sm\<lparr> sm_cur_pmksa := None \<rparr>"
  define s1 where "s1 = (if pid \<noteq> None
     then s0\<lparr> sm_cur_pmksa := map_option pe_id (pmksa_cache_get s0 None pid ctx akmp) \<rparr> else s0)"
  define s2 where "s2 = (if sm_cur_pmksa s1 = None \<and> bssid \<noteq> None
     then s1\<lparr> sm_cur_pmksa := map_option pe_id (pmksa_cache_get s1 bssid None ctx akmp) \<rparr> else s1)"
  define s3 where "s3 = (case bssid of
     Some b \<Rightarrow> if sm_cur_pmksa s2 = None \<and> opp
       then (let (r, sm) = pmksa_cache_get_opportunistic e c ctx b akmp s2 in sm\<lparr> sm_cur_pmksa := r \<rparr>)
       else s2
   | None \<Rightarrow> s2)"
  define s4 where "s4 = (case fils of
     Some f \<Rightarrow> if sm_cur_pmksa s3 = None
       then s3\<lparr> sm_cur_pmksa := map_option pe_id (pmksa_cache_get_fils_cache_id s3 ctx f) \<rparr> else s3
   | None \<Rightarrow> s3)"
  have "?sel s0" using assms(1) by (auto simp: s0_def selected_def intro: pmksa_ok_curI)
  then have "?sel s1" by (auto simp: s1_def pmksa_matches_def intro!: selected_get)
  then have "?sel s2" by (auto simp: s2_def pmksa_matches_def intro!: selected_get)
  then have "?sel s3" by (auto simp: s3_def intro: selected_opportunistic split: option.split prod.split)
  then have sel: "?sel s4" by (auto simp: s4_def intro: selected_fils split: option.split)
  have res: "(r, sm') = (case cur_pmksa_entry s4 of
           None \<Rightarrow> (-1, s4)
         | Some en \<Rightarrow>
             if wpa_key_mgmt_sae (pe_akmp en) \<and> pe_reauth_time en < e_now e (sm_trace s4)
             then (-1, s4\<lparr> sm_cur_pmksa := None \<rparr>)
             else (0, s4))"
    using assms(2) unfolding pmksa_cache_set_current_def Let_def s0_def s1_def s2_def s3_def s4_def
    by (rule sym)
  have ok: "pmksa_ok s4" "pmksa_ok (s4\<lparr> sm_cur_pmksa := None \<rparr>)"
    using sel by (auto simp: selected_def intro!: pmksa_ok_curI)
  show ?thesis
  proof (cases "sm_cur_pmksa s4")
    case None
    then show ?thesis using res ok by (simp add: cur_pmksa_entry_def)
  next
    case (Some i)
    from selected_entry [OF sel this] obtain x where "cur_pmksa_entry s4 = Some x"
      "pid = Some (pe_pmkid x) \<or> bssid = Some (pe_aa x) \<or> fils \<noteq> None \<and> fils = pe_fils_cache_id x"
      by blast
    then show ?thesis using res ok Some by (simp split: if_splits)
  qed
qed

text \<open>Selecting the entry for an association succeeds exactly when an entry
  becomes current; that entry exists in the cache, belongs to the PMKID, the
  authenticator or the FILS cache identifier asked for, and is not an SAE entry
  past its reauthentication time.\<close>

theorem pmksa_cache_set_current_sound:
  assumes "pmksa_ok sm" "pmksa_cache_set_current e c pid bssid ctx opp fils akmp sm = (r, sm')"
  shows "pmksa_ok sm' \<and> (r = 0 \<longleftrightarrow> sm_cur_pmksa sm' \<noteq> None) \<and>
    (r = 0 \<longrightarrow> (\<exists>x. cur_pmksa_entry sm' = Some x \<and>
       (pid = Some (pe_pmkid x) \<or> bssid = Some (pe_aa x) \<or> fils \<noteq> None \<and> fils = pe_fils_cache_id x) \<and>
       \<not> (wpa_key_mgmt_sae (pe_akmp x) \<and> pe_reauth_time x < e_now e (sm_trace sm'))))"
  using set_current_spec [OF assms] .

theorem pmksa_cache_set_current_sound_witness:
  "\<exists>sm' x. pmksa_cache_set_current env_sample crypto_sample None (Some (replicate 6 2)) (Some 5) False None
       WPA_KEY_MGMT_IEEE8021X sm_pmksa_sample = (0, sm') \<and> pmksa_ok sm' \<and>
     cur_pmksa_entry sm' = Some x \<and> pe_aa x = replicate 6 2"
proof -
  let ?r = "pmksa_cache_set_current env_sample crypto_sample None (Some (replicate 6 2)) (Some 5) False None
       WPA_KEY_MGMT_IEEE8021X sm_pmksa_sample"
  have "fst ?r = 0" by code_simp
  then have "?r = (0, snd ?r)" by (simp add: prod_eq_iff)
  then show ?thesis
    using pmksa_cache_set_current_sound [OF sm_pmksa_sample_ok(1), of env_sample crypto_sample None "Some (replicate 6 2)" "Some 5" False None WPA_KEY_MGMT_IEEE8021X 0 "snd ?r"] by auto
qed

lemma set_pmk_ok:
  assumes "pmksa_ok sm"
  shows "pmksa_ok (wpa_sm_set_pmk e c pmk pid bssid sm)"
proof (cases bssid)
  case None
  then show ?thesis
    using pmksa_ok_cong [OF _ _ _ _ _ assms] by (simp add: wpa_sm_set_pmk_def)
next
  case (Some b)
  let ?sm = "sm\<lparr> sm_pmk_len := length pmk, sm_pmk := overwrite 0 pmk (sm_pmk sm) \<rparr>"
  have ok: "pmksa_ok ?sm" by (rule pmksa_ok_cong [OF _ _ _ _ _ assms]) simp_all
  obtain r sm' where add: "pmksa_cache_add e c pmk pid None b (sm_own_addr sm) (sm_network_ctx sm)
      (sm_key_mgmt sm) None ?sm = (r, sm')"
    by fastforce
  have "pmksa_ok (sm'\<lparr> sm_cur_pmksa := r \<rparr>)"
    using pmksa_add_spec [OF ok add] by (intro pmksa_ok_curI) (auto simp: added_def)
  then show ?thesis using add Some by (simp add: wpa_sm_set_pmk_def)
qed

end
