(* ===== verification/PMKSA_Map.thy ===== *)
theory PMKSA_Map
  imports PMKSA_Cache
begin

text \<open>
  What the PMKSA cache promises, as a finite map from authenticators to entries, and the
  proof that the linked list of \<^verbatim>\<open>pmksa_cache.c\<close> implements it: looking up, adding, flushing
  and expiring entries are operations of the map.  The order of the list and the entry
  that has to go when the cache is full are the only things the map does not say.
\<close>

type_synonym pmksa_map = "bytes \<rightharpoonup> pmksa_entry"

definition pmksa_abs :: "wpa_sm \<Rightarrow> pmksa_map" where
  "pmksa_abs sm = map_of (map (\<lambda>en. (pe_aa en, en)) (sm_pmksa sm))"

definition spec_remove :: "(pmksa_entry \<Rightarrow> bool) \<Rightarrow> pmksa_map \<Rightarrow> pmksa_map" where
  "spec_remove P m aa = (case m aa of None \<Rightarrow> None | Some en \<Rightarrow> if P en then None else Some en)"

definition same_pmksa :: "pmksa_entry \<Rightarrow> pmksa_entry \<Rightarrow> bool" where
  "same_pmksa pos en \<longleftrightarrow> pmk_of pos = pmk_of en \<and> pe_pmkid pos = pe_pmkid en"

text \<open>Adding an entry: an identical one is kept; another one for the authenticator is
  replaced, and so are, unless it was opportunistic, all entries of the network with the
  PMK that is no longer valid; an entry for a new authenticator may push out another one
  from a full cache.\<close>

definition spec_add :: "pmksa_entry \<Rightarrow> pmksa_map \<Rightarrow> pmksa_map \<Rightarrow> bool" where
  "spec_add en m m' \<longleftrightarrow>
     (case m (pe_aa en) of
        Some pos \<Rightarrow>
          if same_pmksa pos en then m' = m
          else m' = (if pe_opportunistic pos then m
                     else spec_remove (flush_matches (pe_network_ctx en) (Some (pmk_of pos)) False) m)
                    (pe_aa en \<mapsto> en)
      | None \<Rightarrow>
          if card (dom m) < 32 then m' = m(pe_aa en \<mapsto> en)
          else \<exists>victim \<in> dom m. m' = (m(victim := None))(pe_aa en \<mapsto> en))"


section \<open>Maps of lists with distinct keys\<close>

lemma map_of_key_Some:
  assumes "distinct (map f l)"
  shows "map_of (map (\<lambda>x. (f x, x)) l) k = Some x \<longleftrightarrow> x \<in> set l \<and> f x = k"
  using assms by (induction l) (auto simp: image_iff)

lemma dom_map_of_key: "dom (map_of (map (\<lambda>x. (f x, x)) l)) = f ` set l"
  by (simp add: dom_map_of_conv_image_fst image_image)

lemma map_of_key_filter:
  assumes "distinct (map f l)"
  shows "map_of (map (\<lambda>x. (f x, x)) (filter (\<lambda>x. \<not> P x) l)) =
    (\<lambda>k. case map_of (map (\<lambda>x. (f x, x)) l) k of None \<Rightarrow> None | Some x \<Rightarrow> if P x then None else Some x)"
  using assms
proof (induction l)
  case (Cons y l)
  have "map_of (map (\<lambda>x. (f x, x)) l) (f y) = None"
    using Cons.prems by (auto simp: map_of_eq_None_iff image_iff)
  with Cons show ?case by (auto simp: fun_eq_iff)
qed (simp add: fun_eq_iff)

lemma map_of_key_insert:
  assumes "distinct (map f (xs @ ys))" "f y \<notin> f ` set (xs @ ys)"
  shows "map_of (map (\<lambda>x. (f x, x)) (xs @ [y] @ ys)) = (map_of (map (\<lambda>x. (f x, x)) (xs @ ys)))(f y \<mapsto> y)"
  using assms by (induction xs) (auto simp: fun_upd_twist image_iff)


section \<open>The operations on the abstraction\<close>

lemma pmksa_inv_aa: "pmksa_inv sm \<Longrightarrow> distinct (map pe_aa (sm_pmksa sm))"
  by (simp add: pmksa_inv_def)

lemma pmksa_abs_Some:
  "pmksa_inv sm \<Longrightarrow> pmksa_abs sm aa = Some en \<longleftrightarrow> en \<in> set (sm_pmksa sm) \<and> pe_aa en = aa"
  unfolding pmksa_abs_def by (rule map_of_key_Some) (rule pmksa_inv_aa)

lemma dom_pmksa_abs: "dom (pmksa_abs sm) = pe_aa ` set (sm_pmksa sm)"
  by (simp add: pmksa_abs_def dom_map_of_key)

lemma card_dom_pmksa_abs: "pmksa_inv sm \<Longrightarrow> card (dom (pmksa_abs sm)) = length (sm_pmksa sm)"
  using distinct_card [OF pmksa_inv_aa [of sm]] by (simp add: dom_pmksa_abs)

lemma pmksa_abs_filter:
  "pmksa_inv sm \<Longrightarrow> sm_pmksa sm' = filter (\<lambda>x. \<not> P x) (sm_pmksa sm) \<Longrightarrow>
    pmksa_abs sm' = spec_remove P (pmksa_abs sm)"
  by (auto simp: pmksa_abs_def map_of_key_filter [OF pmksa_inv_aa] spec_remove_def [abs_def])

lemma pmksa_abs_get:
  assumes "pmksa_inv sm"
  shows "pmksa_cache_get sm (Some aa) None None 0 = pmksa_abs sm aa"
proof (cases "pmksa_abs sm aa")
  case None
  then have "aa \<notin> pe_aa ` set (sm_pmksa sm)" using dom_pmksa_abs [of sm] by blast
  then show ?thesis
    using None by (auto simp: pmksa_cache_get_def pmksa_matches_def find_None_iff)
next
  case (Some en)
  then show ?thesis using pmksa_cache_get_aa [OF assms, of en] pmksa_abs_Some [OF assms, of aa en] by simp
qed

lemma pmksa_abs_insert:
  assumes "pmksa_inv sm" "pe_aa en \<notin> pe_aa ` set (sm_pmksa sm)"
  shows "pmksa_abs (pmksa_insert e en sm) = (pmksa_abs sm)(pe_aa en \<mapsto> en)"
proof -
  let ?p = "\<lambda>x. pe_expiration x \<le> pe_expiration en" and ?l = "sm_pmksa sm"
  have "distinct (map pe_aa (takeWhile ?p ?l @ dropWhile ?p ?l))"
    using pmksa_inv_aa [OF assms(1)] by simp
  moreover have "pe_aa en \<notin> pe_aa ` set (takeWhile ?p ?l @ dropWhile ?p ?l)"
    using assms(2) by simp
  ultimately have "map_of (map (\<lambda>x. (pe_aa x, x)) (insert_by_expiration en ?l)) =
      (map_of (map (\<lambda>x. (pe_aa x, x)) ?l))(pe_aa en \<mapsto> en)"
    using map_of_key_insert [of pe_aa "takeWhile ?p ?l" "dropWhile ?p ?l" en]
    by (simp add: insert_by_expiration_def Let_def)
  then show ?thesis by (simp add: pmksa_abs_def pmksa_insert_def Let_def)
qed

text \<open>Removing one entry, found by its identity, removes its authenticator.\<close>

lemma pmksa_abs_drop:
  assumes "pmksa_inv sm" "en \<in> set (sm_pmksa sm)"
    and "sm_pmksa sm' = filter (\<lambda>x. pe_id x \<noteq> pe_id en) (sm_pmksa sm)"
  shows "pmksa_abs sm' = (pmksa_abs sm)(pe_aa en := None)"
proof
  fix aa
  have "pmksa_abs sm' = spec_remove (\<lambda>x. pe_id x = pe_id en) (pmksa_abs sm)"
    using assms(1,3) by (rule pmksa_abs_filter)
  moreover have "x = en" if "x \<in> set (sm_pmksa sm)" "pe_id x = pe_id en \<or> pe_aa x = pe_aa en" for x
    using assms(1,2) that by (auto simp: pmksa_inv_def pmksa_live_def distinct_map inj_on_def)
  ultimately show "pmksa_abs sm' aa = ((pmksa_abs sm)(pe_aa en := None)) aa"
    using assms(2) pmksa_abs_Some [OF assms(1), of aa]
    by (cases "pmksa_abs sm aa") (auto simp: spec_remove_def)
qed

lemma pmksa_abs_make_room:
  assumes "pmksa_inv sm" "sm_pmksa_unlinked sm = []"
  shows "if card (dom (pmksa_abs sm)) < 32 then pmksa_abs (pmksa_make_room sm) = pmksa_abs sm
    else \<exists>victim \<in> dom (pmksa_abs sm). pmksa_abs (pmksa_make_room sm) = (pmksa_abs sm)(victim := None)"
  using assms
proof (cases rule: make_room_cases)
  case keep
  then show ?thesis using card_dom_pmksa_abs [OF assms(1)] by simp
next
  case (drop en)
  show ?thesis
    using card_dom_pmksa_abs [OF assms(1)] drop(1,2)
      pmksa_abs_drop [OF assms(1) drop(1) drop_entry(2) [OF assms(1) drop(1,3)]]
    by (auto simp: dom_pmksa_abs)
qed

lemma same_pmksa_iff:
  assumes "entry_wf pos" "entry_wf en"
  shows "same_pmksa pos en \<longleftrightarrow> pe_pmk_len pos = pe_pmk_len en \<and>
    slice 0 (pe_pmk_len en) (pe_pmk pos) = slice 0 (pe_pmk_len en) (pe_pmk en) \<and> pe_pmkid pos = pe_pmkid en"
proof -
  have "length (pmk_of pos) = pe_pmk_len pos" "length (pmk_of en) = pe_pmk_len en"
    using assms by (simp_all add: pmk_of_def entry_wf_def slice_def)
  then have "pmk_of pos = pmk_of en \<Longrightarrow> pe_pmk_len pos = pe_pmk_len en" by metis
  then show ?thesis by (auto simp: same_pmksa_def pmk_of_def)
qed

lemma pmksa_abs_room_insert:
  assumes "pmksa_inv sm" "sm_pmksa_unlinked sm = []" "length (sm_pmksa sm) \<le> 32"
    and "pe_aa en \<notin> pe_aa ` set (sm_pmksa sm)"
  shows "if card (dom (pmksa_abs sm)) < 32
    then pmksa_abs (pmksa_insert e en (pmksa_make_room sm)) = (pmksa_abs sm)(pe_aa en \<mapsto> en)
    else \<exists>victim \<in> dom (pmksa_abs sm). pmksa_abs (pmksa_insert e en (pmksa_make_room sm)) =
      ((pmksa_abs sm)(victim := None))(pe_aa en \<mapsto> en)"
proof -
  note room = make_room_spec [OF assms(1-3)]
  then have "pe_aa en \<notin> pe_aa ` set (sm_pmksa (pmksa_make_room sm))" using assms(4) by auto
  from pmksa_abs_insert [OF room(1) this, of e] pmksa_abs_make_room [OF assms(1,2)]
  show ?thesis by (auto split: if_splits)
qed

lemma pmksa_abs_replaced:
  assumes "pmksa_inv sm" "sm_pmksa_unlinked sm = []" "pos \<in> set (sm_pmksa sm)"
  shows "(pmksa_abs (pmksa_replaced e ctx pos sm))(pe_aa pos \<mapsto> en) =
    (if pe_opportunistic pos then pmksa_abs sm
     else spec_remove (flush_matches ctx (Some (pmk_of pos)) False) (pmksa_abs sm))(pe_aa pos \<mapsto> en)"
proof -
  let ?P = "\<lambda>x. pe_id x = pe_id pos \<or> \<not> pe_opportunistic pos \<and> flush_matches ctx (Some (pmk_of pos)) False x"
  have "sm_pmksa (pmksa_replaced e ctx pos sm) = filter (\<lambda>x. \<not> ?P x) (sm_pmksa sm)"
    using replaced_spec(4) [OF assms, of e ctx] by (auto intro!: filter_cong)
  then have *: "pmksa_abs (pmksa_replaced e ctx pos sm) = spec_remove ?P (pmksa_abs sm)"
    by (rule pmksa_abs_filter [OF assms(1)])
  have id: "pe_id x = pe_id pos \<longleftrightarrow> pe_aa x = pe_aa pos" if "x \<in> set (sm_pmksa sm)" for x
    using assms(1,3) that by (auto simp: pmksa_inv_def pmksa_live_def distinct_map inj_on_def)
  have "spec_remove ?P (pmksa_abs sm) aa = (if pe_opportunistic pos then pmksa_abs sm
     else spec_remove (flush_matches ctx (Some (pmk_of pos)) False) (pmksa_abs sm)) aa"
    if "aa \<noteq> pe_aa pos" for aa
  proof (cases "pmksa_abs sm aa")
    case (Some x)
    then have "pe_id x \<noteq> pe_id pos" using that id [of x] pmksa_abs_Some [OF assms(1), of aa x] by auto
    then show ?thesis using Some by (simp add: spec_remove_def)
  qed (simp add: spec_remove_def)
  then show ?thesis by (auto simp: * fun_eq_iff)
qed

lemma pmksa_abs_add_entry:
  assumes ok: "pmksa_ok sm" and wf: "entry_wf en"
    and r: "pmksa_cache_add_entry e en sm = (i, sm')"
  shows "spec_add en (pmksa_abs sm) (pmksa_abs sm')"
proof -
  have inv: "pmksa_inv sm" "sm_pmksa_unlinked sm = []" "length (sm_pmksa sm) \<le> 32"
    using ok by (auto simp: pmksa_ok_def)
  have find: "List.find (\<lambda>pos. pe_aa en = pe_aa pos) (sm_pmksa sm) = pmksa_abs sm (pe_aa en)"
    using pmksa_abs_get [OF inv(1), of "pe_aa en"]
    by (simp add: pmksa_cache_get_def pmksa_matches_def [abs_def])
  show ?thesis
  proof (cases "pmksa_abs sm (pe_aa en)")
    case None
    then have "pe_aa en \<notin> pe_aa ` set (sm_pmksa sm)" using dom_pmksa_abs [of sm] by blast
    from pmksa_abs_room_insert [OF inv this, of e] None r find show ?thesis
      by (simp add: spec_add_def pmksa_cache_add_entry_def split: if_splits)
  next
    case (Some pos)
    then have pos: "pos \<in> set (sm_pmksa sm)" "pe_aa pos = pe_aa en"
      by (auto simp: pmksa_abs_Some [OF inv(1)])
    have "entry_wf pos" using inv(1) pos(1) by (auto simp: pmksa_inv_def pmksa_live_def)
    note same = same_pmksa_iff [OF this wf]
    show ?thesis
    proof (cases "same_pmksa pos en")
      case True
      then show ?thesis
        using r Some find by (simp add: spec_add_def pmksa_cache_add_entry_def same)
    next
      case False
      define s2 where "s2 = pmksa_replaced e (pe_network_ctx en) pos sm"
      have sm': "sm' = pmksa_insert e en (pmksa_make_room s2)"
        using r Some find False unfolding pmksa_cache_add_entry_def s2_def same
        by (simp split: if_splits)
      note s2 = replaced_spec [OF inv(1,2) pos(1), of e "pe_network_ctx en", folded s2_def]
      have "length (sm_pmksa s2) < length (sm_pmksa sm)"
        unfolding s2(4) using pos(1) by (auto intro: length_filter_less)
      then have len: "length (sm_pmksa s2) < 32" using inv(3) by simp
      have aa: "pe_aa en \<notin> pe_aa ` set (sm_pmksa s2)"
        using inv(1) pos by (auto simp: s2(4) pmksa_inv_def distinct_map inj_on_def)
      have "pmksa_abs sm' = (pmksa_abs s2)(pe_aa en \<mapsto> en)"
        using pmksa_abs_room_insert [OF s2(1,2) less_imp_le [OF len] aa, of e] len
          card_dom_pmksa_abs [OF s2(1)] by (simp add: sm')
      then show ?thesis
        using pmksa_abs_replaced [OF inv(1,2) pos(1), of e "pe_network_ctx en" en] Some False pos(2)
        by (simp add: spec_add_def s2_def)
    qed
  qed
qed

lemma pmksa_abs_add:
  assumes "pmksa_ok sm" "pmksa_cache_add e c pmk pid kck_opt aa spa ctx akmp cid sm = (Some i, sm')"
  shows "spec_add (pmksa_new_entry e c pmk pid kck_opt aa spa ctx akmp cid sm) (pmksa_abs sm) (pmksa_abs sm')"
proof -
  let ?sm = "sm\<lparr> sm_pmksa_next_id := sm_pmksa_next_id sm + 1 \<rparr>"
  have "pmksa_ok ?sm" using assms(1) by (auto simp: pmksa_ok_def pmksa_inv_def pmksa_live_def less_Suc_eq)
  moreover have "length pmk \<le> 64" "pmksa_cache_add_entry e
      (pmksa_new_entry e c pmk pid kck_opt aa spa ctx akmp cid sm) ?sm = (i, sm')"
    using assms(2) by (auto simp: pmksa_cache_add_def Let_def split: if_splits prod.splits)
  moreover have "pmksa_abs ?sm = pmksa_abs sm" by (simp add: pmksa_abs_def)
  ultimately show ?thesis using pmksa_abs_add_entry [of ?sm _ e i sm'] by simp
qed

lemma pmksa_abs_expire:
  assumes "pmksa_ok sm" "sorted (map pe_expiration (sm_pmksa sm))"
  shows "\<exists>kept. (\<forall>x. kept x \<longrightarrow> sm_cur_pmksa sm = Some (pe_id x)) \<and>
    pmksa_abs (pmksa_cache_expire e sm) =
      spec_remove (\<lambda>x. pe_expiration x \<le> e_now e (sm_trace sm) \<and> \<not> kept x) (pmksa_abs sm)"
proof -
  from expire_spec(2) [OF assms(1), of e] assms(2) obtain q where
    q: "sm_pmksa (pmksa_cache_expire e sm) = filter q (sm_pmksa sm)"
      "\<forall>x \<in> set (sm_pmksa sm). \<not> q x \<longrightarrow> pe_expiration x \<le> e_now e (sm_trace sm)"
      "\<forall>x \<in> set (sm_pmksa sm). q x \<longrightarrow> pe_expiration x \<le> e_now e (sm_trace sm) \<longrightarrow>
         sm_cur_pmksa sm = Some (pe_id x)"
    by blast
  let ?kept = "\<lambda>x. sm_cur_pmksa sm = Some (pe_id x) \<and> q x"
  have "sm_pmksa (pmksa_cache_expire e sm) =
      filter (\<lambda>x. \<not> (pe_expiration x \<le> e_now e (sm_trace sm) \<and> \<not> ?kept x)) (sm_pmksa sm)"
    unfolding q(1) using q(2,3) by (auto intro!: filter_cong)
  from pmksa_abs_filter [OF _ this] assms(1) show ?thesis
    by (intro exI [of _ ?kept]) (simp add: pmksa_ok_def)
qed



end
