(* ===== verification/WPA_TX.thy ===== *)
theory WPA_TX
  imports PMKSA_Cache
begin

text \<open>
  EAPOL-Key frames of \<^verbatim>\<open>src/rsn_supp/wpa.c\<close>: access to the fields of a received
  frame, and the functions that build and send a frame
  (\<^verbatim>\<open>wpa_eapol_key_send\<close>, \<^verbatim>\<open>wpa_sm_key_request\<close>, \<^verbatim>\<open>wpa_supplicant_send_2_of_4\<close>,
  \<^verbatim>\<open>_4_of_4\<close>, \<^verbatim>\<open>_2_of_2\<close>), with the buffer allocation of
  \<^verbatim>\<open>wpa_supplicant/wpas_glue.c\<close> behind \<^verbatim>\<open>wpa_sm_alloc_eapol\<close>.
\<close>


section \<open>Layout of an EAPOL-Key frame\<close>

abbreviation (input) EAPOL_KEY_TYPE_RSN :: byte where "EAPOL_KEY_TYPE_RSN \<equiv> 2"
abbreviation (input) EAPOL_KEY_TYPE_WPA :: byte where "EAPOL_KEY_TYPE_WPA \<equiv> 254"
abbreviation (input) IEEE802_1X_TYPE_EAPOL_START :: byte where "IEEE802_1X_TYPE_EAPOL_START \<equiv> 1"
abbreviation (input) IEEE802_1X_TYPE_EAPOL_KEY :: byte where "IEEE802_1X_TYPE_EAPOL_KEY \<equiv> 3"

text \<open>The four octets of \<^verbatim>\<open>struct ieee802_1x_hdr\<close> and the 77 of
  \<^verbatim>\<open>struct wpa_eapol_key\<close>; the MIC follows at offset 81, then the two octets of
  the Key Data Length and the Key Data.  The length of a frame is checked before
  the fields are read.\<close>

definition octet :: "bytes \<Rightarrow> nat \<Rightarrow> byte" where
  "octet f i = (if i < length f then f ! i else 0)"

definition get_be16 :: "bytes \<Rightarrow> nat \<Rightarrow> u16" where
  "get_be16 f i = be16 (octet f i) (octet f (i + 1))"

definition key_type :: "bytes \<Rightarrow> byte" where "key_type f = octet f 4"
definition key_info :: "bytes \<Rightarrow> u16" where "key_info f = get_be16 f 5"
definition key_length :: "bytes \<Rightarrow> bytes" where "key_length f = slice 7 2 f"
definition replay_counter :: "bytes \<Rightarrow> bytes" where "replay_counter f = slice 9 8 f"
definition key_nonce :: "bytes \<Rightarrow> bytes" where "key_nonce f = slice 17 32 f"
definition key_iv :: "bytes \<Rightarrow> bytes" where "key_iv f = slice 49 16 f"
definition key_rsc :: "bytes \<Rightarrow> bytes" where "key_rsc f = slice 65 8 f"

abbreviation (input) mic_offset :: nat where "mic_offset \<equiv> 81"


section \<open>Sending\<close>

definition is_zero_ether_addr :: "bytes \<Rightarrow> bool" where
  "is_zero_ether_addr a \<longleftrightarrow> a = zeros 6"

text \<open>The notifications to the EAPOL state machine do nothing without one.\<close>

definition eapol_notify :: "action \<Rightarrow> wpa_sm \<Rightarrow> wpa_sm" where
  "eapol_notify a sm = (if sm_eapol sm then act a sm else sm)"

definition wpa_alloc_eapol :: "env \<Rightarrow> byte \<Rightarrow> u16 \<Rightarrow> wpa_sm \<Rightarrow> bytes option" where
  "wpa_alloc_eapol e typ data_len sm =
     (if e_alloc e (sm_trace sm)
      then Some ([e_eapol_version e, typ] @ WPA_PUT_BE16 data_len @ zeros (unat data_len))
      else None)"

definition wpa_eapol_key_send ::
  "env \<Rightarrow> crypto \<Rightarrow> wpa_ptk option \<Rightarrow> u16 \<Rightarrow> bytes \<Rightarrow> u16 \<Rightarrow> bytes \<Rightarrow> nat option \<Rightarrow> wpa_sm \<Rightarrow> int \<times> wpa_sm" where
  "wpa_eapol_key_send e c ptk ver dest eproto msg key_mic sm =
     (let mic_len = wpa_mic_len (sm_key_mgmt sm) (sm_pmk_len sm);
          (dest, sm) = (if is_zero_ether_addr dest \<and> is_zero_ether_addr (sm_bssid sm)
                        then (case e_bssid e (sm_trace sm) of
                                Some b \<Rightarrow> (b, sm\<lparr> sm_bssid := b \<rparr>)
                              | None \<Rightarrow> (dest, sm))
                        else (dest, sm));
          msg = (case key_mic of
                   None \<Rightarrow> Some msg
                 | Some off \<Rightarrow>
                     (case ptk of
                        None \<Rightarrow> None
                      | Some p \<Rightarrow>
                          if kck_len p = 0 then None
                          else map_option (\<lambda>mic. overwrite off mic msg)
                                 (wpa_eapol_key_mic c (kck p) (kck_len p) (sm_key_mgmt sm) ver msg)))
      in if mic_len = 0 then (-1, sm)
         else case msg of
                None \<Rightarrow> (-1, sm)
              | Some msg \<Rightarrow>
                  (let (ret, sm) = call e (Ether_send dest eproto msg) sm
                   in (ret, eapol_notify Eapol_notify_tx_eapol_key sm)))"

text \<open>The fields that every reply sets in the zeroed buffer; the offset of the
  MIC is \<open>mic_offset\<close> in all of them.\<close>

definition reply_type :: "wpa_sm \<Rightarrow> byte" where
  "reply_type sm = (if sm_proto sm = WPA_PROTO_RSN \<or> sm_proto sm = WPA_PROTO_OSEN
                    then EAPOL_KEY_TYPE_RSN else EAPOL_KEY_TYPE_WPA)"

definition reply_key_length :: "bytes \<Rightarrow> wpa_sm \<Rightarrow> bytes" where
  "reply_key_length f sm = (if sm_proto sm = WPA_PROTO_RSN \<or> sm_proto sm = WPA_PROTO_OSEN
                            then [0, 0] else key_length f)"

definition eapol_key_fill ::
  "byte \<Rightarrow> u16 \<Rightarrow> bytes \<Rightarrow> bytes \<Rightarrow> nat \<Rightarrow> bytes \<Rightarrow> bytes \<Rightarrow> bytes" where
  "eapol_key_fill typ info key_len counter mic_len key_data rbuf =
     (let rbuf = overwrite 4 [typ] rbuf;
          rbuf = overwrite 5 (WPA_PUT_BE16 info) rbuf;
          rbuf = overwrite 7 key_len rbuf;
          rbuf = overwrite 9 counter rbuf;
          rbuf = overwrite (mic_offset + mic_len) (WPA_PUT_BE16 (of_nat (length key_data))) rbuf
      in overwrite (mic_offset + mic_len + 2) key_data rbuf)"

definition wpa_supplicant_send_2_of_4 ::
  "env \<Rightarrow> crypto \<Rightarrow> bytes \<Rightarrow> bytes \<Rightarrow> u16 \<Rightarrow> bytes \<Rightarrow> bytes option \<Rightarrow> wpa_ptk \<Rightarrow> wpa_sm \<Rightarrow> int \<times> wpa_sm" where
  "wpa_supplicant_send_2_of_4 e c dst key ver nonce wpa_ie ptk sm =
     (case wpa_ie of
        None \<Rightarrow> (-1, sm)
      | Some ie \<Rightarrow>
          let mic_len = wpa_mic_len (sm_key_mgmt sm) (sm_pmk_len sm);
              hdrlen = 77 + mic_len + 2
          in case wpa_alloc_eapol e IEEE802_1X_TYPE_EAPOL_KEY (of_nat (hdrlen + length ie)) sm of
               None \<Rightarrow> (-1, sm)
             | Some rbuf \<Rightarrow>
                 let info = ver OR WPA_KEY_INFO_KEY_TYPE;
                     info = info OR (if mic_len \<noteq> 0 then WPA_KEY_INFO_MIC else WPA_KEY_INFO_ENCR_KEY_DATA);
                     rbuf = eapol_key_fill (reply_type sm) info (reply_key_length key sm)
                              (replay_counter key) mic_len ie rbuf;
                     rbuf = overwrite 17 (slice 0 32 nonce) rbuf
                 in wpa_eapol_key_send e c (Some ptk) ver dst ETH_P_EAPOL rbuf (Some mic_offset) sm)"

definition wpa_supplicant_send_4_of_4 ::
  "env \<Rightarrow> crypto \<Rightarrow> bytes \<Rightarrow> bytes \<Rightarrow> u16 \<Rightarrow> u16 \<Rightarrow> wpa_ptk \<Rightarrow> wpa_sm \<Rightarrow> int \<times> wpa_sm" where
  "wpa_supplicant_send_4_of_4 e c dst key ver info ptk sm =
     (let mic_len = wpa_mic_len (sm_key_mgmt sm) (sm_pmk_len sm);
          hdrlen = 77 + mic_len + 2
      in case wpa_alloc_eapol e IEEE802_1X_TYPE_EAPOL_KEY (of_nat hdrlen) sm of
           None \<Rightarrow> (-1, sm)
         | Some rbuf \<Rightarrow>
             let info = info AND WPA_KEY_INFO_SECURE;
                 info = info OR ver OR WPA_KEY_INFO_KEY_TYPE;
                 info = info OR (if mic_len \<noteq> 0 then WPA_KEY_INFO_MIC else WPA_KEY_INFO_ENCR_KEY_DATA);
                 rbuf = eapol_key_fill (reply_type sm) info (reply_key_length key sm)
                          (replay_counter key) mic_len [] rbuf
             in wpa_eapol_key_send e c (Some ptk) ver dst ETH_P_EAPOL rbuf (Some mic_offset) sm)"

definition wpa_supplicant_send_2_of_2 ::
  "env \<Rightarrow> crypto \<Rightarrow> bytes \<Rightarrow> u16 \<Rightarrow> u16 \<Rightarrow> wpa_sm \<Rightarrow> int \<times> wpa_sm" where
  "wpa_supplicant_send_2_of_2 e c key ver info sm =
     (let mic_len = wpa_mic_len (sm_key_mgmt sm) (sm_pmk_len sm);
          hdrlen = 77 + mic_len + 2
      in case wpa_alloc_eapol e IEEE802_1X_TYPE_EAPOL_KEY (of_nat hdrlen) sm of
           None \<Rightarrow> (-1, sm)
         | Some rbuf \<Rightarrow>
             let info = info AND WPA_KEY_INFO_KEY_INDEX_MASK;
                 info = info OR ver OR WPA_KEY_INFO_SECURE;
                 info = info OR (if mic_len \<noteq> 0 then WPA_KEY_INFO_MIC else WPA_KEY_INFO_ENCR_KEY_DATA);
                 rbuf = eapol_key_fill (reply_type sm) info (reply_key_length key sm)
                          (replay_counter key) mic_len [] rbuf
             in wpa_eapol_key_send e c (Some (sm_ptk sm)) ver (sm_bssid sm) ETH_P_EAPOL rbuf
                  (Some mic_offset) sm)"

text \<open>\<^verbatim>\<open>inc_byte_array\<close> of \<^verbatim>\<open>src/utils/common.c\<close>, from the last octet backwards.\<close>

fun inc_octets :: "bytes \<Rightarrow> bytes" where
  "inc_octets [] = []"
| "inc_octets (b # bs) = (if b + 1 \<noteq> 0 then (b + 1) # bs else 0 # inc_octets bs)"

definition inc_byte_array :: "bytes \<Rightarrow> bytes" where
  "inc_byte_array counter = rev (inc_octets (rev counter))"

definition request_version :: "wpa_sm \<Rightarrow> u16" where
  "request_version sm =
     (if wpa_use_akm_defined (sm_key_mgmt sm) then WPA_KEY_INFO_TYPE_AKM_DEFINED
      else if wpa_key_mgmt_ft (sm_key_mgmt sm) \<or> wpa_key_mgmt_sha256 (sm_key_mgmt sm)
      then WPA_KEY_INFO_TYPE_AES_128_CMAC
      else if sm_pairwise_cipher sm \<noteq> WPA_CIPHER_TKIP then WPA_KEY_INFO_TYPE_HMAC_SHA1_AES
      else WPA_KEY_INFO_TYPE_HMAC_MD5_RC4)"

definition wpa_sm_key_request :: "env \<Rightarrow> crypto \<Rightarrow> bool \<Rightarrow> bool \<Rightarrow> wpa_sm \<Rightarrow> wpa_sm" where
  "wpa_sm_key_request e c err pairwise_key sm =
     (if pairwise_key \<and> sm_wpa_deny_ptk0_rekey sm \<and> \<not> sm_use_ext_key_id sm \<and>
         e_state e (sm_trace sm) = WPA_COMPLETED
      then act Reconnect sm
      else let ver = request_version sm
      in case e_bssid e (sm_trace sm) of
           None \<Rightarrow> sm
         | Some bssid \<Rightarrow>
             let mic_len = wpa_mic_len (sm_key_mgmt sm) (sm_pmk_len sm);
                 hdrlen = 77 + mic_len + 2
             in case wpa_alloc_eapol e IEEE802_1X_TYPE_EAPOL_KEY (of_nat hdrlen) sm of
                  None \<Rightarrow> sm
                | Some rbuf \<Rightarrow>
                    let info = WPA_KEY_INFO_REQUEST OR ver;
                        info = (if sm_ptk_set sm then info OR WPA_KEY_INFO_SECURE else info);
                        info = (if sm_ptk_set sm \<and> mic_len \<noteq> 0 then info OR WPA_KEY_INFO_MIC else info);
                        info = (if err then info OR WPA_KEY_INFO_ERROR else info);
                        info = (if pairwise_key then info OR WPA_KEY_INFO_KEY_TYPE else info);
                        rbuf = eapol_key_fill (reply_type sm) info [0, 0] (sm_request_counter sm)
                                 mic_len [] rbuf;
                        sm = sm\<lparr> sm_request_counter := inc_byte_array (sm_request_counter sm) \<rparr>;
                        key_mic = (if has info WPA_KEY_INFO_MIC then Some mic_offset else None)
                    in snd (wpa_eapol_key_send e c (Some (sm_ptk sm)) ver bssid ETH_P_EAPOL rbuf key_mic sm))"

definition wpa_sm_rekey_ptk :: "env \<Rightarrow> crypto \<Rightarrow> wpa_sm \<Rightarrow> wpa_sm" where
  "wpa_sm_rekey_ptk e c sm = wpa_sm_key_request e c False True sm"

end
