(* ===== verification/WPA_Install.thy ===== *)
theory WPA_Install
  imports WPA_TX
begin

text \<open>
  Installing keys, from \<^verbatim>\<open>src/rsn_supp/wpa.c\<close>: the pairwise key
  (\<^verbatim>\<open>wpa_supplicant_install_ptk\<close>), the group keys of the three kinds
  (\<^verbatim>\<open>_install_gtk\<close>, \<^verbatim>\<open>_install_igtk\<close>, \<^verbatim>\<open>_install_bigtk\<close>) and what follows the
  end of a key handshake (\<^verbatim>\<open>wpa_supplicant_key_neg_complete\<close>).  A key goes to the
  driver as a \<open>Set_key\<close> action.
\<close>

definition null_rsc :: bytes where "null_rsc = zeros 8"

definition broadcast_ether_addr :: bytes where "broadcast_ether_addr = replicate 6 0xff"

definition wpa_sm_set_key ::
  "env \<Rightarrow> wpa_alg \<Rightarrow> bytes option \<Rightarrow> nat \<Rightarrow> bool \<Rightarrow> bytes \<Rightarrow> bytes \<Rightarrow> u32 \<Rightarrow> wpa_sm \<Rightarrow> int \<times> wpa_sm" where
  "wpa_sm_set_key e alg addr keyidx set_tx seq key key_flag sm =
     call e (Set_key alg addr keyidx set_tx seq key key_flag) sm"

definition wpa_supplicant_install_ptk :: "env \<Rightarrow> bytes \<Rightarrow> u32 \<Rightarrow> wpa_sm \<Rightarrow> int \<times> wpa_sm" where
  "wpa_supplicant_install_ptk e key key_flag sm =
     (if installed (sm_ptk sm) then (0, sm)
      else if sm_pairwise_cipher sm = WPA_CIPHER_NONE then (0, sm)
      else if \<not> wpa_cipher_valid_pairwise (sm_pairwise_cipher sm) then (-1, sm)
      else let alg = wpa_cipher_to_alg (sm_pairwise_cipher sm);
               keylen = wpa_cipher_key_len (sm_pairwise_cipher sm)
      in if keylen = 0 \<or> keylen \<noteq> tk_len (sm_ptk sm) then (-1, sm)
      else let rsclen = wpa_cipher_rsc_len (sm_pairwise_cipher sm);
               rsc = (if sm_proto sm = WPA_PROTO_RSN \<or> sm_proto sm = WPA_PROTO_OSEN
                      then null_rsc else key_rsc key);
               (r, sm) = wpa_sm_set_key e alg (Some (sm_bssid sm)) (sm_keyidx_active sm) True
                           (slice 0 rsclen rsc) (slice 0 keylen (tk (sm_ptk sm)))
                           (KEY_FLAG_PAIRWISE OR key_flag) sm
      in if r < 0 then (-1, sm)
      else let sm = act (Store_ptk (sm_bssid sm) (sm_pairwise_cipher sm)
                           (sm_dot11RSNAConfigPMKLifetime sm) (sm_ptk sm)) sm;
               sm = sm\<lparr> sm_ptk := (sm_ptk sm)\<lparr> tk := zeros 32, tk_len := 0, installed := True \<rparr> \<rparr>;
               sm = (if sm_wpa_ptk_rekey sm \<noteq> 0
                     then act (Timer_register Wpa_sm_rekey_ptk (int (sm_wpa_ptk_rekey sm)))
                            (act (Timer_cancel Wpa_sm_rekey_ptk) sm)
                     else sm)
           in (0, sm))"

definition wpa_supplicant_activate_ptk :: "env \<Rightarrow> wpa_sm \<Rightarrow> int \<times> wpa_sm" where
  "wpa_supplicant_activate_ptk e sm =
     (let (r, sm) = wpa_sm_set_key e WPA_ALG_NONE (Some (sm_bssid sm)) (sm_keyidx_active sm) False
                      [] [] KEY_FLAG_PAIRWISE_RX_TX_MODIFY sm
      in (if r < 0 then -1 else 0, sm))"

text \<open>The receive sequence counter length and the algorithm, or \<^const>\<open>None\<close> for
  the result \<open>-1\<close>.\<close>

definition wpa_supplicant_check_group_cipher :: "u32 \<Rightarrow> nat \<Rightarrow> nat \<Rightarrow> (nat \<times> wpa_alg) option" where
  "wpa_supplicant_check_group_cipher gcipher keylen maxkeylen =
     (let alg = wpa_cipher_to_alg gcipher
      in if alg = WPA_ALG_NONE then None
         else let klen = wpa_cipher_key_len gcipher
              in if keylen \<noteq> klen \<or> maxkeylen < klen then None
                 else Some (wpa_cipher_rsc_len gcipher, alg))"

record wpa_gtk_data =
  gd_alg :: wpa_alg
  gd_tx :: bool
  gd_key_rsc_len :: nat
  gd_keyidx :: nat
  gd_gtk :: bytes
  gd_gtk_len :: nat

definition gd_zero :: wpa_gtk_data where
  "gd_zero = \<lparr> gd_alg = WPA_ALG_NONE, gd_tx = False, gd_key_rsc_len = 0, gd_keyidx = 0,
               gd_gtk = zeros 32, gd_gtk_len = 0 \<rparr>"

text \<open>The test for a key that is already in use.\<close>

definition gtk_in_use :: "wpa_gtk_data \<Rightarrow> wpa_sm \<Rightarrow> bool" where
  "gtk_in_use gd sm \<longleftrightarrow>
     (gtk_len (sm_gtk sm) = gd_gtk_len gd \<and>
      slice 0 (gd_gtk_len gd) (gtk_key (sm_gtk sm)) = slice 0 (gd_gtk_len gd) (gd_gtk gd)) \<or>
     (gtk_len (sm_gtk_wnm_sleep sm) = gd_gtk_len gd \<and>
      slice 0 (gd_gtk_len gd) (gtk_key (sm_gtk_wnm_sleep sm)) = slice 0 (gd_gtk_len gd) (gd_gtk gd))"

definition wpa_supplicant_install_gtk ::
  "env \<Rightarrow> wpa_gtk_data \<Rightarrow> bytes \<Rightarrow> bool \<Rightarrow> wpa_sm \<Rightarrow> int \<times> wpa_sm" where
  "wpa_supplicant_install_gtk e gd rsc wnm_sleep sm =
     (if gtk_in_use gd sm then (0, sm)
      else let gtk = (if sm_group_cipher sm = WPA_CIPHER_TKIP
                      then slice 0 16 (gd_gtk gd) @ slice 24 8 (gd_gtk gd) @ slice 16 8 (gd_gtk gd)
                      else gd_gtk gd);
               (r, sm) =
                 (if sm_pairwise_cipher sm = WPA_CIPHER_NONE
                  then wpa_sm_set_key e (gd_alg gd) None (gd_keyidx gd) True
                         (slice 0 (gd_key_rsc_len gd) rsc) (slice 0 (gd_gtk_len gd) gtk)
                         KEY_FLAG_GROUP_RX_TX_DEFAULT sm
                  else wpa_sm_set_key e (gd_alg gd) (Some broadcast_ether_addr) (gd_keyidx gd) (gd_tx gd)
                         (slice 0 (gd_key_rsc_len gd) rsc) (slice 0 (gd_gtk_len gd) gtk)
                         KEY_FLAG_GROUP_RX sm)
      in if r < 0 then (-1, sm)
      else if wnm_sleep
      then (0, sm\<lparr> sm_gtk_wnm_sleep := \<lparr> gtk_key = overwrite 0 (slice 0 (gd_gtk_len gd) (gd_gtk gd))
                                            (gtk_key (sm_gtk_wnm_sleep sm)),
                                          gtk_len = gd_gtk_len gd \<rparr> \<rparr>)
      else (0, sm\<lparr> sm_gtk := \<lparr> gtk_key = overwrite 0 (slice 0 (gd_gtk_len gd) (gd_gtk gd))
                                  (gtk_key (sm_gtk sm)),
                                gtk_len = gd_gtk_len gd \<rparr> \<rparr>))"

definition wpa_supplicant_gtk_tx_bit_workaround :: "wpa_sm \<Rightarrow> bool \<Rightarrow> bool" where
  "wpa_supplicant_gtk_tx_bit_workaround sm tx =
     (if tx \<and> sm_pairwise_cipher sm \<noteq> WPA_CIPHER_NONE then False else tx)"

definition wpa_supplicant_rsc_relaxation :: "wpa_sm \<Rightarrow> bytes \<Rightarrow> bool" where
  "wpa_supplicant_rsc_relaxation sm rsc =
     (if \<not> sm_wpa_rsc_relaxation sm then False
      else wpa_cipher_rsc_len (sm_group_cipher sm) = 6 \<and>
           (octet rsc 5 \<noteq> 0 \<and> octet rsc 0 = 0 \<or> octet rsc 6 \<noteq> 0 \<or> octet rsc 7 \<noteq> 0))"

text \<open>\<open>gtk\<close> is the content of the GTK KDE: the key identifier and flags, a
  reserved octet and the key.\<close>

definition wpa_supplicant_pairwise_gtk :: "env \<Rightarrow> bytes \<Rightarrow> bytes \<Rightarrow> wpa_sm \<Rightarrow> int \<times> wpa_sm" where
  "wpa_supplicant_pairwise_gtk e key gtk sm =
     (if length gtk < 2 \<or> length gtk - 2 > 32 then (-1, sm)
      else let keyidx = unat (octet gtk 0 AND 3);
               tx = wpa_supplicant_gtk_tx_bit_workaround sm (has (octet gtk 0) 4);
               k = drop 2 gtk;
               gd = gd_zero\<lparr> gd_keyidx := keyidx, gd_tx := tx, gd_gtk := overwrite 0 k (zeros 32),
                             gd_gtk_len := length k \<rparr>;
               rsc = (if wpa_supplicant_rsc_relaxation sm (key_rsc key) then null_rsc else key_rsc key)
      in if sm_group_cipher sm = WPA_CIPHER_GTK_NOT_USED then (0, sm)
         else case wpa_supplicant_check_group_cipher (sm_group_cipher sm) (length k) (length k) of
                None \<Rightarrow> (-1, sm)
              | Some (rsc_len, alg) \<Rightarrow>
                  let (r, sm) = wpa_supplicant_install_gtk e
                                  (gd\<lparr> gd_key_rsc_len := rsc_len, gd_alg := alg \<rparr>) rsc False sm
                  in (if r \<noteq> 0 then -1 else 0, sm))"

text \<open>\<open>kde\<close> is the content of the IGTK or BIGTK KDE: two octets of key
  identifier, six of packet number, the key.\<close>

definition get_le16 :: "bytes \<Rightarrow> nat \<Rightarrow> u16" where
  "get_le16 f i = be16 (octet f (i + 1)) (octet f i)"

definition igtk_in_use :: "bytes \<Rightarrow> wpa_sm \<Rightarrow> bool" where
  "igtk_in_use k sm \<longleftrightarrow>
     (igtk_len (sm_igtk sm) = length k \<and> slice 0 (length k) (igtk_key (sm_igtk sm)) = k) \<or>
     (igtk_len (sm_igtk_wnm_sleep sm) = length k \<and>
      slice 0 (length k) (igtk_key (sm_igtk_wnm_sleep sm)) = k)"

definition wpa_supplicant_install_igtk :: "env \<Rightarrow> bytes \<Rightarrow> bool \<Rightarrow> wpa_sm \<Rightarrow> int \<times> wpa_sm" where
  "wpa_supplicant_install_igtk e kde wnm_sleep sm =
     (let len = wpa_cipher_key_len (sm_mgmt_group_cipher sm);
          keyidx = get_le16 kde 0;
          k = slice 8 len kde
      in if igtk_in_use k sm then (0, sm)
      else if keyidx > 4095 then (-1, sm)
      else let (r, sm) = wpa_sm_set_key e (wpa_cipher_to_alg (sm_mgmt_group_cipher sm))
                           (Some broadcast_ether_addr) (unat keyidx) False (slice 2 6 kde) k
                           KEY_FLAG_GROUP_RX sm
      in if r < 0 \<and> \<not> (keyidx = 0x0400 \<or> keyidx = 0x0500) then (-1, sm)
      else if wnm_sleep
      then (0, sm\<lparr> sm_igtk_wnm_sleep := \<lparr> igtk_key = overwrite 0 k (igtk_key (sm_igtk_wnm_sleep sm)),
                                           igtk_len = len \<rparr> \<rparr>)
      else (0, sm\<lparr> sm_igtk := \<lparr> igtk_key = overwrite 0 k (igtk_key (sm_igtk sm)), igtk_len = len \<rparr> \<rparr>))"

definition bigtk_in_use :: "bytes \<Rightarrow> wpa_sm \<Rightarrow> bool" where
  "bigtk_in_use k sm \<longleftrightarrow>
     (bigtk_len (sm_bigtk sm) = length k \<and> slice 0 (length k) (bigtk_key (sm_bigtk sm)) = k) \<or>
     (bigtk_len (sm_bigtk_wnm_sleep sm) = length k \<and>
      slice 0 (length k) (bigtk_key (sm_bigtk_wnm_sleep sm)) = k)"

definition wpa_supplicant_install_bigtk :: "env \<Rightarrow> bytes \<Rightarrow> bool \<Rightarrow> wpa_sm \<Rightarrow> int \<times> wpa_sm" where
  "wpa_supplicant_install_bigtk e kde wnm_sleep sm =
     (let len = wpa_cipher_key_len (sm_mgmt_group_cipher sm);
          keyidx = get_le16 kde 0;
          k = slice 8 len kde
      in if bigtk_in_use k sm then (0, sm)
      else if keyidx < 6 \<or> keyidx > 7 then (-1, sm)
      else let (r, sm) = wpa_sm_set_key e (wpa_cipher_to_alg (sm_mgmt_group_cipher sm))
                           (Some broadcast_ether_addr) (unat keyidx) False (slice 2 6 kde) k
                           KEY_FLAG_GROUP_RX sm
      in if r < 0 then (-1, sm)
      else if wnm_sleep
      then (0, sm\<lparr> sm_bigtk_wnm_sleep := \<lparr> bigtk_key = overwrite 0 k (bigtk_key (sm_bigtk_wnm_sleep sm)),
                                            bigtk_len = len \<rparr> \<rparr>)
      else (0, sm\<lparr> sm_bigtk := \<lparr> bigtk_key = overwrite 0 k (bigtk_key (sm_bigtk sm)),
                                  bigtk_len = len \<rparr> \<rparr>))"

text \<open>The content of an element of the Key Data, given as offset and length.\<close>

definition part :: "bytes \<Rightarrow> span \<Rightarrow> bytes" where
  "part kd s = slice (fst s) (snd s) kd"

definition ieee80211w_set_keys ::
  "env \<Rightarrow> bytes \<Rightarrow> wpa_eapol_ie_parse \<Rightarrow> wpa_sm \<Rightarrow> int \<times> wpa_sm" where
  "ieee80211w_set_keys e kd ie sm =
     (if \<not> wpa_cipher_valid_mgmt_group (sm_mgmt_group_cipher sm) \<or>
         sm_mgmt_group_cipher sm = WPA_CIPHER_GTK_NOT_USED then (0, sm)
      else let len = wpa_cipher_key_len (sm_mgmt_group_cipher sm);
               (r, sm) = (case ie_igtk ie of
                            None \<Rightarrow> (0, sm)
                          | Some s \<Rightarrow> if snd s \<noteq> 8 + len then (-1, sm)
                                      else wpa_supplicant_install_igtk e (part kd s) False sm)
      in if r < 0 then (-1, sm)
      else case ie_bigtk ie of
             None \<Rightarrow> (0, sm)
           | Some s \<Rightarrow>
               if \<not> sm_beacon_prot sm then (0, sm)
               else if snd s \<noteq> 8 + len then (-1, sm)
               else let (r, sm) = wpa_supplicant_install_bigtk e (part kd s) False sm
                    in (if r < 0 then -1 else 0, sm))"

definition wpa_supplicant_key_neg_complete :: "env \<Rightarrow> bytes \<Rightarrow> bool \<Rightarrow> wpa_sm \<Rightarrow> wpa_sm" where
  "wpa_supplicant_key_neg_complete e addr secure sm =
     (let sm = act (Set_state WPA_COMPLETED) (act Cancel_auth_timeout sm);
          sm = (if secure
                then let sm = eapol_notify (Eapol_notify_portValid True)
                                (act (Mlme_setprotection addr 3) sm);
                         sm = (if wpa_key_mgmt_wpa_psk (sm_key_mgmt sm) \<or>
                                  sm_key_mgmt sm = WPA_KEY_MGMT_DPP \<or> sm_key_mgmt sm = WPA_KEY_MGMT_OWE
                               then eapol_notify (Eapol_notify_eap_success True) sm else sm)
                     in (if sm_pmksa_candidates sm \<noteq> []
                         then act (Timer_register Wpa_sm_start_preauth 1) sm else sm)
                else sm)
      in case sm_cur_pmksa sm of
           None \<Rightarrow> sm
         | Some i \<Rightarrow> pmksa_update i (\<lambda>en. en\<lparr> pe_opportunistic := False \<rparr>) sm)"

definition wpa_sm_set_rekey_offload :: "wpa_sm \<Rightarrow> wpa_sm" where
  "wpa_sm_set_rekey_offload sm =
     act (Set_rekey_offload (slice 0 (kek_len (sm_ptk sm)) (kek (sm_ptk sm)))
            (slice 0 (kck_len (sm_ptk sm)) (kck (sm_ptk sm))) (sm_rx_replay_counter sm)) sm"

end
