(* ===== verification/WPA_Handshake.thy ===== *)
theory WPA_Handshake
  imports WPA_Install
begin

text \<open>
  The 4-way handshake and the group key handshake of \<^verbatim>\<open>src/rsn_supp/wpa.c\<close>:
  the receive function \<^verbatim>\<open>wpa_sm_rx_eapol\<close> with the verification of the MIC and
  the decryption of the Key Data, and the handlers of the messages 1/4, 3/4 and
  1/2.
\<close>


section \<open>The pairwise master key\<close>

text \<open>The end of \<^verbatim>\<open>wpa_supplicant_get_pmk\<close>: when PMKSA caching was aborted, an
  EAPOL-Start triggers a full EAP authentication.\<close>

definition get_pmk_finish :: "env \<Rightarrow> bool \<Rightarrow> wpa_sm \<Rightarrow> int \<times> wpa_sm" where
  "get_pmk_finish e abort_cached sm =
     (if abort_cached \<and> wpa_key_mgmt_wpa_ieee8021x (sm_key_mgmt sm) \<and>
         \<not> wpa_key_mgmt_suite_b (sm_key_mgmt sm) \<and> \<not> wpa_key_mgmt_ft (sm_key_mgmt sm) \<and>
         sm_key_mgmt sm \<noteq> WPA_KEY_MGMT_OSEN
      then case wpa_alloc_eapol e IEEE802_1X_TYPE_EAPOL_START 0 sm of
             None \<Rightarrow> (-1, sm)
           | Some buf \<Rightarrow>
               (let sm = eapol_notify (Eapol_notify_eap_fail True) sm;
                    sm = eapol_notify (Eapol_notify_eap_fail False) sm;
                    (_, sm) = call e (Ether_send (sm_bssid sm) ETH_P_EAPOL buf) sm
                in (-2, sm))
      else (0, sm))"

text \<open>\<^verbatim>\<open>eapol_sm_get_key\<close>, with the second attempt for the 16-octet key of LEAP.\<close>

definition eapol_pmk :: "env \<Rightarrow> wpa_sm \<Rightarrow> (nat \<times> bytes) option" where
  "eapol_pmk e sm =
     (let pmk_len = (if wpa_key_mgmt_sha384 (sm_key_mgmt sm) then 48 else 32)
      in case e_eapol_key e (sm_trace sm) pmk_len of
           Some k \<Rightarrow> Some (pmk_len, k)
         | None \<Rightarrow> if pmk_len = 32 then map_option (\<lambda>k. (16, k)) (e_eapol_key e (sm_trace sm) 16)
                   else None)"

definition cache_eapol_pmk :: "env \<Rightarrow> crypto \<Rightarrow> bytes \<Rightarrow> wpa_sm \<Rightarrow> nat option \<times> wpa_sm" where
  "cache_eapol_pmk e c src_addr sm =
     (if sm_proto sm = WPA_PROTO_RSN \<and> \<not> wpa_key_mgmt_suite_b (sm_key_mgmt sm) \<and>
         \<not> wpa_key_mgmt_ft (sm_key_mgmt sm)
      then pmksa_cache_add e c (slice 0 (sm_pmk_len sm) (sm_pmk sm)) None None src_addr
             (sm_own_addr sm) (sm_network_ctx sm) (sm_key_mgmt sm) None sm
      else (None, sm))"

definition get_pmk_eapol ::
  "env \<Rightarrow> crypto \<Rightarrow> bytes \<Rightarrow> bytes option \<Rightarrow> bool \<Rightarrow> wpa_sm \<Rightarrow> int \<times> wpa_sm" where
  "get_pmk_eapol e c src_addr pid abort_cached sm =
     (case eapol_pmk e sm of
        Some (pmk_len, k) \<Rightarrow>
          let sm = sm\<lparr> sm_pmk := overwrite 0 k (sm_pmk sm), sm_pmk_len := pmk_len \<rparr>;
              sm = act (Key_mgmt_set_pmk (slice 0 pmk_len (sm_pmk sm))) sm;
              (sa, sm) = cache_eapol_pmk e c src_addr sm
          in if sm_cur_pmksa sm = None \<and> pid \<noteq> None \<and>
                pmksa_cache_get sm (Some src_addr) pid None 0 \<noteq> None
             then get_pmk_finish e False (sm\<lparr> sm_cur_pmksa := sa \<rparr>)
             else if sa \<noteq> None \<and> sm_cur_pmksa sm = None \<and> pid \<noteq> None then (-1, sm)
             else get_pmk_finish e abort_cached
                    (if sm_cur_pmksa sm = None then sm\<lparr> sm_cur_pmksa := sa \<rparr> else sm)
      | None \<Rightarrow>
          if sm_cur_pmksa sm \<noteq> None then get_pmk_finish e True (sm\<lparr> sm_cur_pmksa := None \<rparr>)
          else if \<not> abort_cached then (-1, sm)
          else get_pmk_finish e abort_cached sm)"

definition wpa_supplicant_get_pmk ::
  "env \<Rightarrow> crypto \<Rightarrow> bytes \<Rightarrow> bytes option \<Rightarrow> wpa_sm \<Rightarrow> int \<times> wpa_sm" where
  "wpa_supplicant_get_pmk e c src_addr pid sm =
     (let (abort_cached, sm) =
            (if pid \<noteq> None \<and> sm_cur_pmksa sm = None
             then (case pmksa_cache_get sm (Some src_addr) pid None 0 of
                     Some en \<Rightarrow> (False, sm\<lparr> sm_cur_pmksa := Some (pe_id en) \<rparr>)
                   | None \<Rightarrow> (True, sm))
             else (False, sm))
      in if pid \<noteq> None \<and> sm_cur_pmksa sm \<noteq> None \<and> pid = map_option pe_pmkid (cur_pmksa_entry sm)
         then get_pmk_finish e abort_cached
                (eapol_notify Eapol_notify_cached (wpa_sm_set_pmk_from_pmksa sm))
         else if wpa_key_mgmt_wpa_ieee8021x (sm_key_mgmt sm) \<and> sm_eapol sm
         then get_pmk_eapol e c src_addr pid abort_cached sm
         else get_pmk_finish e abort_cached sm)"


section \<open>Message 1/4\<close>

fun rsnx_capabs :: "bytes \<Rightarrow> nat \<Rightarrow> u32" where
  "rsnx_capabs [] i = 0"
| "rsnx_capabs (b # bs) i = push_bit (8 * i) (ucast b) OR rsnx_capabs bs (i + 1)"

text \<open>\<^verbatim>\<open>src/common/ieee802_11_common.c\<close>; \<open>rsnxe\<close> is the content of the
  element.\<close>

definition ieee802_11_rsnx_capab_len :: "bytes option \<Rightarrow> nat \<Rightarrow> bool" where
  "ieee802_11_rsnx_capab_len rsnxe capab =
     (case rsnxe of
        None \<Rightarrow> False
      | Some x \<Rightarrow>
          if x = [] then False
          else let flen = unat (octet x 0 AND 0x0f) + 1
               in if flen > length x then False
                  else bit (rsnx_capabs (take (min 4 flen) x) 0) capab)"

definition ieee802_11_rsnx_capab :: "bytes option \<Rightarrow> nat \<Rightarrow> bool" where
  "ieee802_11_rsnx_capab rsnxe capab =
     ieee802_11_rsnx_capab_len (map_option (\<lambda>x. slice 2 (unat (octet x 1)) x) rsnxe) capab"

definition wpa_derive_ptk :: "crypto \<Rightarrow> bytes \<Rightarrow> wpa_ptk \<Rightarrow> wpa_sm \<Rightarrow> int \<times> wpa_ptk" where
  "wpa_derive_ptk c key ptk sm =
     (let akmp = (if sm_owe_ptk_workaround sm \<and> sm_key_mgmt sm = WPA_KEY_MGMT_OWE \<and> sm_pmk_len sm > 32
                  then sm_key_mgmt sm OR WPA_KEY_MGMT_PSK_SHA256 else sm_key_mgmt sm);
          klen = (if sm_force_kdk_derivation sm \<or>
                     (sm_secure_ltf sm \<and> ieee802_11_rsnx_capab (sm_ap_rsnxe sm) 8)
                  then 32 else 0)
      in wpa_pmk_to_ptk c (slice 0 (sm_pmk_len sm) (sm_pmk sm)) ''Pairwise key expansion''
           (sm_own_addr sm) (sm_bssid sm) (sm_snonce sm) (key_nonce key) ptk akmp
           (sm_pairwise_cipher sm) None klen)"

definition swap_mic_keys :: "wpa_ptk \<Rightarrow> wpa_ptk" where
  "swap_mic_keys p = p\<lparr> tk := slice 0 16 (tk p) @ slice 24 8 (tk p) @ slice 16 8 (tk p) \<rparr>"

text \<open>The parser makes no access outside the Key Data, so its result is always
  defined.\<close>

definition wpa_supplicant_parse_ies :: "bytes \<Rightarrow> int \<times> wpa_eapol_ie_parse" where
  "wpa_supplicant_parse_ies kd = the (wpa_parse_kde_ies kd)"

definition deauth_failed :: "wpa_sm \<Rightarrow> wpa_sm" where
  "deauth_failed sm = act (Deauthenticate WLAN_REASON_UNSPECIFIED) sm"

text \<open>The Key Data of message 2/4: the own element, the RSN extension element and
  the request for an IP address.\<close>

definition kde_2_of_4 :: "wpa_sm \<Rightarrow> bytes" where
  "kde_2_of_4 sm =
     (case sm_assoc_wpa_ie sm of None \<Rightarrow> [] | Some ie \<Rightarrow> ie) @
     (case sm_assoc_rsnxe sm of None \<Rightarrow> [] | Some x \<Rightarrow> x) @
     (if sm_p2p sm then [0xdd, 5] @ WPA_PUT_BE32 WFA_KEY_DATA_IP_ADDR_REQ @ [0x01] else [])"

definition renew_snonce_step :: "env \<Rightarrow> wpa_sm \<Rightarrow> int \<times> wpa_sm" where
  "renew_snonce_step e sm =
     (if sm_renew_snonce sm
      then let sm = act (Random_get_bytes 32) sm
           in case e_random e (sm_trace sm) of
                None \<Rightarrow> (-1, sm)
              | Some b \<Rightarrow> (0, sm\<lparr> sm_snonce := b, sm_renew_snonce := False \<rparr>)
      else (0, sm))"

definition wpa_supplicant_process_1_of_4 ::
  "env \<Rightarrow> crypto \<Rightarrow> bytes \<Rightarrow> bytes \<Rightarrow> u16 \<Rightarrow> bytes \<Rightarrow> wpa_sm \<Rightarrow> wpa_sm" where
  "wpa_supplicant_process_1_of_4 e c src_addr key ver kd sm =
     (if \<not> e_network_ctx e (sm_trace sm) then sm
      else if sm_wpa_deny_ptk0_rekey sm \<and> \<not> sm_use_ext_key_id sm \<and> e_state e (sm_trace sm) = WPA_COMPLETED
      then act Reconnect sm
      else let sm = act (Set_state WPA_4WAY_HANDSHAKE) sm;
               (pr, ie) = (if sm_proto sm = WPA_PROTO_RSN \<or> sm_proto sm = WPA_PROTO_OSEN
                           then wpa_supplicant_parse_ies kd else (0, ie_none))
      in if pr < 0 then deauth_failed sm
      else let (res, sm) = wpa_supplicant_get_pmk e c src_addr
                             (map_option (\<lambda>off. slice off 16 kd) (ie_pmkid ie)) sm
      in if res = -2 then sm
      else if res \<noteq> 0 then deauth_failed sm
      else let (rnd, sm) = renew_snonce_step e sm
      in if rnd < 0 then deauth_failed sm
      else let (d, ptk) = wpa_derive_ptk c key (sm_tptk sm) sm
      in if d < 0 then deauth_failed (sm\<lparr> sm_tptk := ptk \<rparr>)
      else let ptk = (if sm_pairwise_cipher sm = WPA_CIPHER_TKIP then swap_mic_keys ptk else ptk);
               sm = sm\<lparr> sm_tptk := ptk, sm_tptk_set := True \<rparr>
      in if \<not> e_alloc e (sm_trace sm) then deauth_failed sm
      else let (snd_ret, sm) = wpa_supplicant_send_2_of_4 e c (sm_bssid sm) key ver (sm_snonce sm)
                                 (Some (kde_2_of_4 sm)) ptk sm
      in if snd_ret < 0 then deauth_failed sm
      else sm\<lparr> sm_anonce := key_nonce key \<rparr>)"


section \<open>Message 3/4\<close>

definition wpa_handle_ext_key_id :: "bytes \<Rightarrow> wpa_eapol_ie_parse \<Rightarrow> wpa_sm \<Rightarrow> int \<times> wpa_sm" where
  "wpa_handle_ext_key_id kd ie sm =
     (if sm_ext_key_id sm
      then case ie_key_id ie of
             None \<Rightarrow> (if sm_use_ext_key_id sm then -1 else 0, sm\<lparr> sm_keyidx_active := 0 \<rparr>)
           | Some off \<Rightarrow>
               let key_id = octet kd off AND 3
               in if key_id > 1 then (-1, sm)
                  else (0, sm\<lparr> sm_keyidx_active := unat key_id, sm_use_ext_key_id := True \<rparr>)
      else if (case ie_key_id ie of None \<Rightarrow> False | Some off \<Rightarrow> octet kd off AND 3 \<noteq> 0) then (-1, sm)
      else (0, sm\<lparr> sm_keyidx_active := 0, sm_use_ext_key_id := False \<rparr>))"

definition wpa_report_ie_mismatch :: "wpa_sm \<Rightarrow> wpa_sm" where
  "wpa_report_ie_mismatch sm = act (Deauthenticate WLAN_REASON_IE_IN_4WAY_DIFFERS) sm"

text \<open>The comparison of the elements in message 3/4 with those of the Beacon or
  Probe Response frame; \<open>wi\<close>, \<open>ri\<close> and \<open>xi\<close> are the elements in the message.\<close>

definition ie_mismatch :: "bytes option \<Rightarrow> bytes option \<Rightarrow> wpa_sm \<Rightarrow> bool" where
  "ie_mismatch wi ri sm \<longleftrightarrow>
     (wi \<noteq> None \<and> sm_ap_wpa_ie sm \<noteq> None \<and> wi \<noteq> sm_ap_wpa_ie sm) \<or>
     (ri \<noteq> None \<and> sm_ap_rsn_ie sm \<noteq> None \<and> wpa_compare_rsn_ie (sm_ap_rsn_ie sm) ri \<noteq> 0)"

definition wpa_supplicant_validate_ie :: "env \<Rightarrow> bytes \<Rightarrow> wpa_eapol_ie_parse \<Rightarrow> wpa_sm \<Rightarrow> int \<times> wpa_sm" where
  "wpa_supplicant_validate_ie e kd ie sm =
     (let wi = map_option (part kd) (ie_wpa_ie ie);
          ri = map_option (part kd) (ie_rsn_ie ie);
          xi = map_option (part kd) (ie_rsnxe ie);
          (found, sm) = (if sm_ap_wpa_ie sm = None \<and> sm_ap_rsn_ie sm = None
                         then (case e_beacon_ie e (sm_trace sm) of
                                 None \<Rightarrow> (False, sm)
                               | Some (w, r, x) \<Rightarrow>
                                   (True, sm\<lparr> sm_ap_wpa_ie := w, sm_ap_rsn_ie := r, sm_ap_rsnxe := x \<rparr>))
                         else (True, sm))
      in if \<not> found then (-1, sm)
      else if wi = None \<and> ri = None \<and> (sm_ap_wpa_ie sm \<noteq> None \<or> sm_ap_rsn_ie sm \<noteq> None)
      then (-1, wpa_report_ie_mismatch sm)
      else if ie_mismatch wi ri sm then (-1, wpa_report_ie_mismatch sm)
      else if sm_proto sm = WPA_PROTO_WPA \<and> ri \<noteq> None \<and> sm_ap_rsn_ie sm = None \<and> sm_rsn_enabled sm
      then (-1, wpa_report_ie_mismatch sm)
      else if sm_proto sm = WPA_PROTO_RSN \<and> sm_ap_rsnxe sm \<noteq> xi
      then (-1, act (Deauthenticate WLAN_REASON_IE_IN_4WAY_DIFFERS) sm)
      else (0, sm))"

text \<open>The PMKSA entry of a Suite B suite can only be made once the KCK is
  known.\<close>

definition suite_b_cache_pmk :: "env \<Rightarrow> crypto \<Rightarrow> wpa_sm \<Rightarrow> wpa_sm" where
  "suite_b_cache_pmk e c sm =
     (if sm_proto sm = WPA_PROTO_RSN \<and> wpa_key_mgmt_suite_b (sm_key_mgmt sm) \<and> sm_cur_pmksa sm = None
      then (let (sa, sm) = pmksa_cache_add e c (slice 0 (sm_pmk_len sm) (sm_pmk sm)) None
                             (Some (slice 0 (kck_len (sm_ptk sm)) (kck (sm_ptk sm))))
                             (sm_bssid sm) (sm_own_addr sm) (sm_network_ctx sm)
                             (sm_key_mgmt sm) None sm
            in if sm_cur_pmksa sm = None then sm\<lparr> sm_cur_pmksa := sa \<rparr> else sm)
      else sm)"

text \<open>The second half of \<^verbatim>\<open>wpa_supplicant_process_3_of_4\<close>, after message 4/4 was
  sent.\<close>

definition process_3_of_4_finish ::
  "env \<Rightarrow> crypto \<Rightarrow> bytes \<Rightarrow> u16 \<Rightarrow> bytes \<Rightarrow> wpa_eapol_ie_parse \<Rightarrow> wpa_sm \<Rightarrow> wpa_sm" where
  "process_3_of_4_finish e c key info kd ie sm =
     (let sm = sm\<lparr> sm_renew_snonce := True \<rparr>;
          (res, sm) = (if has info WPA_KEY_INFO_INSTALL
                       then (if sm_use_ext_key_id sm then wpa_supplicant_activate_ptk e sm
                             else wpa_supplicant_install_ptk e key KEY_FLAG_RX_TX sm)
                       else (0, sm))
      in if res \<noteq> 0 then deauth_failed sm
      else let sm = (if has info WPA_KEY_INFO_SECURE
                     then eapol_notify (Eapol_notify_portValid True)
                            (act (Mlme_setprotection (sm_bssid sm) 1) sm)
                     else sm);
               sm = act (Set_state WPA_GROUP_HANDSHAKE) sm;
               (g, sm) = (if sm_group_cipher sm = WPA_CIPHER_GTK_NOT_USED then (0, sm)
                          else case ie_gtk ie of
                                 None \<Rightarrow> (if sm_proto sm = WPA_PROTO_RSN then -1 else 0, sm)
                               | Some s \<Rightarrow> wpa_supplicant_pairwise_gtk e key (part kd s) sm)
      in if g < 0 then deauth_failed sm
      else let (w, sm) = ieee80211w_set_keys e kd ie sm
      in if w < 0 then deauth_failed sm
      else let sm = (if sm_group_cipher sm = WPA_CIPHER_GTK_NOT_USED \<or> ie_gtk ie \<noteq> None
                     then wpa_supplicant_key_neg_complete e (sm_bssid sm) (has info WPA_KEY_INFO_SECURE) sm
                     else sm);
               sm = (if ie_gtk ie \<noteq> None then wpa_sm_set_rekey_offload sm else sm);
               sm = suite_b_cache_pmk e c sm;
               sm = (case ie_transition_disable ie of
                       None \<Rightarrow> sm
                     | Some s \<Rightarrow> act (Transition_disable (octet (part kd s) 0)) sm)
           in sm\<lparr> sm_msg_3_of_4_ok := True \<rparr>)"

definition wpa_supplicant_process_3_of_4 ::
  "env \<Rightarrow> crypto \<Rightarrow> bytes \<Rightarrow> u16 \<Rightarrow> bytes \<Rightarrow> wpa_sm \<Rightarrow> wpa_sm" where
  "wpa_supplicant_process_3_of_4 e c key ver kd sm =
     (let sm = act (Set_state WPA_4WAY_HANDSHAKE) sm;
          info = key_info key;
          (pr, ie) = wpa_supplicant_parse_ies kd
      in if pr < 0 then deauth_failed sm
      else if ie_gtk ie \<noteq> None \<and> \<not> has info WPA_KEY_INFO_ENCR_KEY_DATA then deauth_failed sm
      else if ie_igtk ie \<noteq> None \<and> \<not> has info WPA_KEY_INFO_ENCR_KEY_DATA then deauth_failed sm
      else if (case ie_igtk ie of
                 None \<Rightarrow> False
               | Some s \<Rightarrow> sm_mgmt_group_cipher sm \<noteq> WPA_CIPHER_GTK_NOT_USED \<and>
                           wpa_cipher_valid_mgmt_group (sm_mgmt_group_cipher sm) \<and>
                           snd s \<noteq> 8 + wpa_cipher_key_len (sm_mgmt_group_cipher sm))
      then deauth_failed sm
      else let (v, sm) = wpa_supplicant_validate_ie e kd ie sm
      in if v < 0 then deauth_failed sm
      else let (x, sm) = wpa_handle_ext_key_id kd ie sm
      in if x \<noteq> 0 then deauth_failed sm
      else if sm_anonce sm \<noteq> key_nonce key then deauth_failed sm
      else if unat (get_be16 key 7) \<noteq> wpa_cipher_key_len (sm_pairwise_cipher sm) then deauth_failed sm
      else let sm = (case ie_ip_addr_alloc ie of
                       None \<Rightarrow> sm
                     | Some off \<Rightarrow> sm\<lparr> sm_p2p_ip_addr := slice off 12 kd \<rparr>);
               (inst, sm) = (if sm_use_ext_key_id sm then wpa_supplicant_install_ptk e key KEY_FLAG_RX sm
                             else (0, sm))
      in if inst \<noteq> 0 then deauth_failed sm
      else let (s4, sm) = wpa_supplicant_send_4_of_4 e c (sm_bssid sm) key ver info (sm_ptk sm) sm
      in if s4 < 0 then deauth_failed sm
      else process_3_of_4_finish e c key info kd ie sm)"


section \<open>Message 1/2 of the group key handshake\<close>

text \<open>\<^const>\<open>None\<close> is the result \<open>-1\<close>.\<close>

definition wpa_supplicant_process_1_of_2_rsn ::
  "env \<Rightarrow> bytes \<Rightarrow> u16 \<Rightarrow> wpa_sm \<Rightarrow> wpa_gtk_data option \<times> wpa_sm" where
  "wpa_supplicant_process_1_of_2_rsn e kd info sm =
     (let (pr, ie) = wpa_supplicant_parse_ies kd
      in if pr < 0 then (None, sm)
      else case ie_gtk ie of
             None \<Rightarrow> (None, sm)
           | Some s \<Rightarrow>
               if \<not> has info WPA_KEY_INFO_ENCR_KEY_DATA then (None, sm)
               else let gtk = part kd s; glen = length gtk - 2
               in if length gtk < 2 then (None, sm)
               else if glen > 32 then (None, sm)
               else case wpa_supplicant_check_group_cipher (sm_group_cipher sm) glen glen of
                      None \<Rightarrow> (None, sm)
                    | Some (rsc_len, alg) \<Rightarrow>
                        let gd = \<lparr> gd_alg = alg,
                                   gd_tx = wpa_supplicant_gtk_tx_bit_workaround sm (has (octet gtk 0) 4),
                                   gd_key_rsc_len = rsc_len, gd_keyidx = unat (octet gtk 0 AND 3),
                                   gd_gtk = overwrite 0 (drop 2 gtk) (zeros 32), gd_gtk_len = glen \<rparr>;
                            (_, sm) = ieee80211w_set_keys e kd ie sm
                        in (Some gd, sm))"

text \<open>The key that the Key Data field of a WPA version 1 frame carries.\<close>

definition wpa1_group_key :: "crypto \<Rightarrow> bytes \<Rightarrow> u16 \<Rightarrow> bytes \<Rightarrow> nat \<Rightarrow> wpa_sm \<Rightarrow> bytes option" where
  "wpa1_group_key c key ver kd maxkeylen sm =
     (if ver = WPA_KEY_INFO_TYPE_HMAC_MD5_RC4 \<and> kek_len (sm_ptk sm) = 16
      then if length kd > 32 then None
           else Some (rc4_skip (key_iv key @ slice 0 16 (kek (sm_ptk sm))) 256 kd)
      else if ver = WPA_KEY_INFO_TYPE_HMAC_SHA1_AES
      then if maxkeylen mod 8 \<noteq> 0 then None
           else if maxkeylen > 32 then None
           else aes_unwrap c (slice 0 (kek_len (sm_ptk sm)) (kek (sm_ptk sm))) (maxkeylen div 8) kd
      else None)"

definition wpa_supplicant_process_1_of_2_wpa ::
  "crypto \<Rightarrow> bytes \<Rightarrow> bytes \<Rightarrow> u16 \<Rightarrow> u16 \<Rightarrow> wpa_sm \<Rightarrow> wpa_gtk_data option" where
  "wpa_supplicant_process_1_of_2_wpa c key kd info ver sm =
     (let glen = unat (get_be16 key 7)
      in if ver = WPA_KEY_INFO_TYPE_HMAC_SHA1_AES \<and> length kd < 8 then None
      else let maxkeylen = (if ver = WPA_KEY_INFO_TYPE_HMAC_SHA1_AES then length kd - 8 else length kd)
      in if glen > maxkeylen then None
      else case wpa_supplicant_check_group_cipher (sm_group_cipher sm) glen maxkeylen of
             None \<Rightarrow> None
           | Some (rsc_len, alg) \<Rightarrow>
               map_option (\<lambda>k. \<lparr> gd_alg = alg,
                   gd_tx = wpa_supplicant_gtk_tx_bit_workaround sm (has info WPA_KEY_INFO_TXRX),
                   gd_key_rsc_len = rsc_len,
                   gd_keyidx = unat (drop_bit 4 (info AND WPA_KEY_INFO_KEY_INDEX_MASK)),
                   gd_gtk = overwrite 0 k (zeros 32), gd_gtk_len = glen \<rparr>)
                 (wpa1_group_key c key ver kd maxkeylen sm))"

definition wpa_supplicant_process_1_of_2 ::
  "env \<Rightarrow> crypto \<Rightarrow> bytes \<Rightarrow> bytes \<Rightarrow> u16 \<Rightarrow> wpa_sm \<Rightarrow> wpa_sm" where
  "wpa_supplicant_process_1_of_2 e c key kd ver sm =
     (if \<not> sm_msg_3_of_4_ok sm then deauth_failed sm
      else let rekey = (e_state e (sm_trace sm) = WPA_COMPLETED);
               info = key_info key;
               (gd, sm) = (if sm_proto sm = WPA_PROTO_RSN \<or> sm_proto sm = WPA_PROTO_OSEN
                           then wpa_supplicant_process_1_of_2_rsn e kd info sm
                           else (wpa_supplicant_process_1_of_2_wpa c key kd info ver sm, sm));
               sm = act (Set_state WPA_GROUP_HANDSHAKE) sm
      in case gd of
           None \<Rightarrow> deauth_failed sm
         | Some gd \<Rightarrow>
             let rsc = (if wpa_supplicant_rsc_relaxation sm (key_rsc key) then null_rsc else key_rsc key);
                 (inst, sm) = wpa_supplicant_install_gtk e gd rsc False sm
             in if inst \<noteq> 0 then deauth_failed sm
             else let (s2, sm) = wpa_supplicant_send_2_of_2 e c key ver info sm
             in if s2 < 0 then deauth_failed sm
             else let sm = (if rekey then act (Set_state WPA_COMPLETED) (act Cancel_auth_timeout sm)
                            else wpa_supplicant_key_neg_complete e (sm_bssid sm)
                                   (has info WPA_KEY_INFO_SECURE) sm)
                  in wpa_sm_set_rekey_offload sm)"


section \<open>Receiving an EAPOL-Key frame\<close>

text \<open>One attempt at the MIC: the field is cleared, the MIC is computed in place
  and compared with the received one.  The frame is changed by it.\<close>

definition mic_attempt :: "crypto \<Rightarrow> wpa_ptk \<Rightarrow> u32 \<Rightarrow> u16 \<Rightarrow> nat \<Rightarrow> bytes \<Rightarrow> bytes \<Rightarrow> bool \<times> bytes" where
  "mic_attempt c ptk akmp ver mic_len mic f =
     (let f = overwrite mic_offset (zeros mic_len) f
      in case wpa_eapol_key_mic c (kck ptk) (kck_len ptk) akmp ver f of
           None \<Rightarrow> (False, f)
         | Some m \<Rightarrow> (let f = overwrite mic_offset m f in (slice mic_offset mic_len f = mic, f)))"

definition wpa_supplicant_verify_eapol_key_mic ::
  "crypto \<Rightarrow> u16 \<Rightarrow> bytes \<Rightarrow> wpa_sm \<Rightarrow> int \<times> wpa_sm" where
  "wpa_supplicant_verify_eapol_key_mic c ver f sm =
     (let mic_len = wpa_mic_len (sm_key_mgmt sm) (sm_pmk_len sm);
          mic = slice mic_offset mic_len f;
          accept = (\<lambda>sm. (0, sm\<lparr> sm_rx_replay_counter := replay_counter f, sm_rx_replay_counter_set := True \<rparr>));
          (ok, f) = (if sm_tptk_set sm then mic_attempt c (sm_tptk sm) (sm_key_mgmt sm) ver mic_len mic f
                     else (False, f))
      in if ok
         then accept (sm\<lparr> sm_tptk_set := False, sm_ptk_set := True, sm_ptk := sm_tptk sm,
                          sm_tptk := ptk_zero, sm_renew_snonce := True \<rparr>)
         else if sm_ptk_set sm
         then if fst (mic_attempt c (sm_ptk sm) (sm_key_mgmt sm) ver mic_len mic f)
              then accept sm else (-1, sm)
         else (-1, sm))"

text \<open>The decrypted Key Data, or \<^const>\<open>None\<close> for the result \<open>-1\<close>.\<close>

definition wpa_supplicant_decrypt_key_data ::
  "env \<Rightarrow> crypto \<Rightarrow> bytes \<Rightarrow> u16 \<Rightarrow> bytes \<Rightarrow> wpa_sm \<Rightarrow> bytes option" where
  "wpa_supplicant_decrypt_key_data e c key ver kd sm =
     (if \<not> sm_ptk_set sm then None
      else if ver = WPA_KEY_INFO_TYPE_HMAC_MD5_RC4 \<and> kek_len (sm_ptk sm) = 16
      then Some (rc4_skip (key_iv key @ slice 0 16 (kek (sm_ptk sm))) 256 kd)
      else if ver = WPA_KEY_INFO_TYPE_HMAC_SHA1_AES \<or> ver = WPA_KEY_INFO_TYPE_AES_128_CMAC \<or>
              wpa_use_aes_key_wrap (sm_key_mgmt sm)
      then if length kd < 8 \<or> length kd mod 8 \<noteq> 0 then None
           else if \<not> e_alloc e (sm_trace sm) then None
           else aes_unwrap c (slice 0 (kek_len (sm_ptk sm)) (kek (sm_ptk sm))) ((length kd - 8) div 8) kd
      else None)"

text \<open>The checks of the frame format: the return value, or the copy of the
  frame, the length of the MIC and the Key Data.\<close>

definition rx_header :: "env \<Rightarrow> bytes \<Rightarrow> wpa_sm \<Rightarrow> int + bytes \<times> nat \<times> bytes" where
  "rx_header e buf sm =
     (let pmk_len = (if sm_pmk_len sm = 0
                     then (case cur_pmksa_entry sm of Some en \<Rightarrow> pe_pmk_len en | None \<Rightarrow> 0)
                     else sm_pmk_len sm);
          mic_len = wpa_mic_len (sm_key_mgmt sm) pmk_len;
          keyhdrlen = 77 + mic_len + 2
      in if length buf < 4 + keyhdrlen then Inl 0
      else let plen = unat (get_be16 buf 2)
      in if octet buf 1 \<noteq> IEEE802_1X_TYPE_EAPOL_KEY then Inl 0
      else if plen > length buf - 4 \<or> plen < keyhdrlen then Inl 0
      else if \<not> e_alloc e (sm_trace sm) then Inl (-1)
      else let f = take (plen + 4) buf
      in if key_type f \<noteq> EAPOL_KEY_TYPE_WPA \<and> key_type f \<noteq> EAPOL_KEY_TYPE_RSN then Inl 0
      else let key_data_len = unat (get_be16 f (mic_offset + mic_len))
      in if key_data_len > plen - keyhdrlen then Inl (-1)
      else Inr (f, mic_len, slice (mic_offset + mic_len + 2) key_data_len f))"

text \<open>The checks of the descriptor version.\<close>

definition rx_version_ok :: "u16 \<Rightarrow> wpa_sm \<Rightarrow> bool" where
  "rx_version_ok info sm =
     (let ver = info AND WPA_KEY_INFO_TYPE_MASK;
          akm_defined = wpa_use_akm_defined (sm_key_mgmt sm)
      in if ver \<noteq> WPA_KEY_INFO_TYPE_HMAC_MD5_RC4 \<and> ver \<noteq> WPA_KEY_INFO_TYPE_AES_128_CMAC \<and>
            ver \<noteq> WPA_KEY_INFO_TYPE_HMAC_SHA1_AES \<and> \<not> akm_defined then False
      else if akm_defined \<and> ver \<noteq> WPA_KEY_INFO_TYPE_AKM_DEFINED then False
      else if wpa_key_mgmt_sha256 (sm_key_mgmt sm)
      then ver = WPA_KEY_INFO_TYPE_AES_128_CMAC \<or> akm_defined
      else if sm_pairwise_cipher sm = WPA_CIPHER_CCMP \<and> \<not> akm_defined \<and>
              ver \<noteq> WPA_KEY_INFO_TYPE_HMAC_SHA1_AES
      then (sm_group_cipher sm \<noteq> WPA_CIPHER_CCMP \<and> \<not> has info WPA_KEY_INFO_KEY_TYPE) \<or>
           ver = WPA_KEY_INFO_TYPE_AES_128_CMAC
      else if sm_pairwise_cipher sm = WPA_CIPHER_GCMP \<and> \<not> akm_defined \<and>
              ver \<noteq> WPA_KEY_INFO_TYPE_HMAC_SHA1_AES
      then False
      else True)"

definition rx_replayed :: "bytes \<Rightarrow> wpa_sm \<Rightarrow> bool" where
  "rx_replayed f sm \<longleftrightarrow>
     sm_rx_replay_counter_set sm \<and> os_memcmp (replay_counter f) (sm_rx_replay_counter sm) \<le> 0"

text \<open>The choice of the handler by the Key Info field.\<close>

definition rx_dispatch ::
  "env \<Rightarrow> crypto \<Rightarrow> bytes \<Rightarrow> bytes \<Rightarrow> nat \<Rightarrow> bytes \<Rightarrow> wpa_sm \<Rightarrow> int \<times> wpa_sm" where
  "rx_dispatch e c src_addr f mic_len kd sm =
     (let info = key_info f; ver = info AND WPA_KEY_INFO_TYPE_MASK
      in if has info WPA_KEY_INFO_KEY_TYPE
         then if has info WPA_KEY_INFO_KEY_INDEX_MASK then (-1, sm)
              else if has info (WPA_KEY_INFO_MIC OR WPA_KEY_INFO_ENCR_KEY_DATA)
              then (1, wpa_supplicant_process_3_of_4 e c f ver kd sm)
              else (1, wpa_supplicant_process_1_of_4 e c src_addr f ver kd sm)
         else if mic_len \<noteq> 0 \<and> has info WPA_KEY_INFO_MIC \<or>
                 mic_len = 0 \<and> has info WPA_KEY_INFO_ENCR_KEY_DATA
         then (1, wpa_supplicant_process_1_of_2 e c f kd ver sm)
         else (1, sm))"

definition wpa_sm_rx_eapol :: "env \<Rightarrow> crypto \<Rightarrow> bytes \<Rightarrow> bytes \<Rightarrow> wpa_sm \<Rightarrow> int \<times> wpa_sm" where
  "wpa_sm_rx_eapol e c src_addr buf sm =
     (case rx_header e buf sm of
        Inl ret \<Rightarrow> (ret, sm)
      | Inr (f, mic_len, kd) \<Rightarrow>
          let sm = eapol_notify Eapol_notify_lower_layer_success sm;
              info = key_info f;
              ver = info AND WPA_KEY_INFO_TYPE_MASK
          in if \<not> rx_version_ok info sm then (-1, sm)
          else if rx_replayed f sm then (-1, sm)
          else if has info WPA_KEY_INFO_SMK_MESSAGE then (-1, sm)
          else if \<not> has info WPA_KEY_INFO_ACK then (-1, sm)
          else if has info WPA_KEY_INFO_REQUEST then (-1, sm)
          else let (mic, sm) = (if has info WPA_KEY_INFO_MIC
                                then wpa_supplicant_verify_eapol_key_mic c ver f sm else (0, sm))
          in if mic \<noteq> 0 then (-1, sm)
          else if (sm_proto sm = WPA_PROTO_RSN \<or> sm_proto sm = WPA_PROTO_OSEN) \<and>
                  has info WPA_KEY_INFO_ENCR_KEY_DATA \<and> mic_len \<noteq> 0
          then if \<not> has info WPA_KEY_INFO_MIC then (-1, sm)
               else case wpa_supplicant_decrypt_key_data e c f ver kd sm of
                      None \<Rightarrow> (-1, sm)
                    | Some kd \<Rightarrow> rx_dispatch e c src_addr f mic_len kd sm
          else rx_dispatch e c src_addr f mic_len kd sm)"

end
