(* ===== verification/WPA_Control.thy ===== *)
theory WPA_Control
  imports WPA_Handshake
begin

text \<open>
  The rest of the interface of \<^verbatim>\<open>src/rsn_supp/wpa.c\<close>: association and
  disassociation, configuration and parameters, the information elements of both
  sides, keys of the WNM sleep mode, and the events that drive the state
  machine as one step function \<open>wpa_exec\<close> with its reachable states.
\<close>


section \<open>Association\<close>

text \<open>Pre-authentication itself is not modelled; ending it clears the address of
  its target.\<close>

definition rsn_preauth_deinit :: "wpa_sm \<Rightarrow> wpa_sm" where
  "rsn_preauth_deinit sm = act Rsn_preauth_deinit (sm\<lparr> sm_preauth_bssid := zeros 6 \<rparr>)"

definition wpa_sm_notify_assoc :: "bytes \<Rightarrow> wpa_sm \<Rightarrow> wpa_sm" where
  "wpa_sm_notify_assoc bssid sm =
     (let sm = sm\<lparr> sm_bssid := bssid, sm_rx_replay_counter := zeros 8,
                   sm_rx_replay_counter_set := False, sm_renew_snonce := True \<rparr>;
          sm = (if sm_preauth_bssid sm = bssid then rsn_preauth_deinit sm else sm);
          sm = sm\<lparr> sm_ptk_set := False, sm_ptk := ptk_zero, sm_tptk_set := False, sm_tptk := ptk_zero,
                   sm_gtk := gtk_zero, sm_gtk_wnm_sleep := gtk_zero,
                   sm_igtk := igtk_zero, sm_igtk_wnm_sleep := igtk_zero \<rparr>
      in sm\<lparr> sm_p2p_ip_addr := zeros 12, sm_keyidx_active := 0 \<rparr>)"

definition wpa_sm_drop_sa :: "wpa_sm \<Rightarrow> wpa_sm" where
  "wpa_sm_drop_sa sm =
     sm\<lparr> sm_ptk_set := False, sm_tptk_set := False, sm_pmk_len := 0, sm_pmk := zeros 64,
         sm_ptk := ptk_zero, sm_tptk := ptk_zero, sm_gtk := gtk_zero, sm_gtk_wnm_sleep := gtk_zero,
         sm_igtk := igtk_zero, sm_igtk_wnm_sleep := igtk_zero \<rparr>"

definition wpa_sm_notify_disassoc :: "env \<Rightarrow> wpa_sm \<Rightarrow> wpa_sm" where
  "wpa_sm_notify_disassoc e sm =
     (let sm = act (Timer_cancel Wpa_sm_rekey_ptk) (act (Timer_cancel Wpa_sm_start_preauth) sm);
          sm = pmksa_cache_clear_current (rsn_preauth_deinit sm);
          sm = (if e_state e (sm_trace sm) = WPA_4WAY_HANDSHAKE
                then sm\<lparr> sm_dot11RSNA4WayHandshakeFailures := sm_dot11RSNA4WayHandshakeFailures sm + 1 \<rparr>
                else sm);
          sm = wpa_sm_drop_sa sm
      in sm\<lparr> sm_keyidx_active := 0, sm_msg_3_of_4_ok := False, sm_bssid := zeros 6 \<rparr>)"


section \<open>Configuration\<close>

record rsn_supp_config =
  rc_network_ctx :: "nat option"
  rc_allowed_pairwise_cipher :: u32
  rc_proactive_key_caching :: bool
  rc_eap_workaround :: bool
  rc_ssid :: "bytes option"
  rc_wpa_ptk_rekey :: nat
  rc_p2p :: bool
  rc_wpa_rsc_relaxation :: bool
  rc_owe_ptk_workaround :: bool
  rc_beacon_prot :: bool
  rc_force_kdk_derivation :: bool

definition wpa_sm_set_config :: "rsn_supp_config option \<Rightarrow> wpa_sm \<Rightarrow> wpa_sm" where
  "wpa_sm_set_config config sm =
     (case config of
        Some cf \<Rightarrow>
          let sm = sm\<lparr> sm_network_ctx := rc_network_ctx cf,
                       sm_allowed_pairwise_cipher := rc_allowed_pairwise_cipher cf,
                       sm_proactive_key_caching := rc_proactive_key_caching cf,
                       sm_eap_workaround := rc_eap_workaround cf \<rparr>;
              sm = (case rc_ssid cf of
                      Some s \<Rightarrow> sm\<lparr> sm_ssid := overwrite 0 s (sm_ssid sm), sm_ssid_len := length s \<rparr>
                    | None \<Rightarrow> sm\<lparr> sm_ssid_len := 0 \<rparr>)
          in sm\<lparr> sm_wpa_ptk_rekey := rc_wpa_ptk_rekey cf, sm_p2p := rc_p2p cf,
                 sm_wpa_rsc_relaxation := rc_wpa_rsc_relaxation cf,
                 sm_owe_ptk_workaround := rc_owe_ptk_workaround cf,
                 sm_force_kdk_derivation := rc_force_kdk_derivation cf,
                 sm_beacon_prot := rc_beacon_prot cf \<rparr>
      | None \<Rightarrow>
          sm\<lparr> sm_network_ctx := None, sm_allowed_pairwise_cipher := 0, sm_proactive_key_caching := False,
              sm_eap_workaround := False, sm_ssid_len := 0, sm_wpa_ptk_rekey := 0, sm_p2p := False,
              sm_wpa_rsc_relaxation := False, sm_owe_ptk_workaround := False, sm_beacon_prot := False,
              sm_force_kdk_derivation := False \<rparr>)"

datatype wpa_sm_conf_params =
    RSNA_PMK_LIFETIME | RSNA_PMK_REAUTH_THRESHOLD | RSNA_SA_TIMEOUT
  | WPA_PARAM_PROTO | WPA_PARAM_PAIRWISE | WPA_PARAM_GROUP | WPA_PARAM_KEY_MGMT | WPA_PARAM_MGMT_GROUP
  | WPA_PARAM_RSN_ENABLED | WPA_PARAM_MFP | WPA_PARAM_OCV | WPA_PARAM_SAE_PWE | WPA_PARAM_SAE_PK
  | WPA_PARAM_DENY_PTK0_REKEY | WPA_PARAM_EXT_KEY_ID | WPA_PARAM_USE_EXT_KEY_ID
  | WPA_PARAM_FT_RSNXE_USED | WPA_PARAM_DPP_PFS | WPA_PARAM_OCI_FREQ_EAPOL
  | WPA_PARAM_OCI_FREQ_EAPOL_G2 | WPA_PARAM_OCI_FREQ_FT_ASSOC | WPA_PARAM_OCI_FREQ_FILS_ASSOC

text \<open>Parameters of features outside the modelled configuration are accepted
  and ignored.\<close>

fun wpa_sm_set_param :: "wpa_sm_conf_params \<Rightarrow> u32 \<Rightarrow> wpa_sm \<Rightarrow> int \<times> wpa_sm" where
  "wpa_sm_set_param RSNA_PMK_LIFETIME v sm =
     (if v > 0 then (0, sm\<lparr> sm_dot11RSNAConfigPMKLifetime := v \<rparr>) else (-1, sm))"
| "wpa_sm_set_param RSNA_PMK_REAUTH_THRESHOLD v sm =
     (if v > 0 \<and> v \<le> 100 then (0, sm\<lparr> sm_dot11RSNAConfigPMKReauthThreshold := v \<rparr>) else (-1, sm))"
| "wpa_sm_set_param RSNA_SA_TIMEOUT v sm =
     (if v > 0 then (0, sm\<lparr> sm_dot11RSNAConfigSATimeout := v \<rparr>) else (-1, sm))"
| "wpa_sm_set_param WPA_PARAM_PROTO v sm = (0, sm\<lparr> sm_proto := v \<rparr>)"
| "wpa_sm_set_param WPA_PARAM_PAIRWISE v sm = (0, sm\<lparr> sm_pairwise_cipher := v \<rparr>)"
| "wpa_sm_set_param WPA_PARAM_GROUP v sm = (0, sm\<lparr> sm_group_cipher := v \<rparr>)"
| "wpa_sm_set_param WPA_PARAM_KEY_MGMT v sm = (0, sm\<lparr> sm_key_mgmt := v \<rparr>)"
| "wpa_sm_set_param WPA_PARAM_MGMT_GROUP v sm = (0, sm\<lparr> sm_mgmt_group_cipher := v \<rparr>)"
| "wpa_sm_set_param WPA_PARAM_RSN_ENABLED v sm = (0, sm\<lparr> sm_rsn_enabled := (v \<noteq> 0) \<rparr>)"
| "wpa_sm_set_param WPA_PARAM_MFP v sm = (0, sm\<lparr> sm_mfp := unat v \<rparr>)"
| "wpa_sm_set_param WPA_PARAM_OCV v sm = (0, sm\<lparr> sm_ocv := (v \<noteq> 0) \<rparr>)"
| "wpa_sm_set_param WPA_PARAM_SAE_PWE v sm = (0, sm\<lparr> sm_sae_pwe := unat v \<rparr>)"
| "wpa_sm_set_param WPA_PARAM_SAE_PK v sm = (0, sm\<lparr> sm_sae_pk := (v \<noteq> 0) \<rparr>)"
| "wpa_sm_set_param WPA_PARAM_DENY_PTK0_REKEY v sm = (0, sm\<lparr> sm_wpa_deny_ptk0_rekey := (v \<noteq> 0) \<rparr>)"
| "wpa_sm_set_param WPA_PARAM_EXT_KEY_ID v sm = (0, sm\<lparr> sm_ext_key_id := (v \<noteq> 0) \<rparr>)"
| "wpa_sm_set_param WPA_PARAM_USE_EXT_KEY_ID v sm = (0, sm\<lparr> sm_use_ext_key_id := (v \<noteq> 0) \<rparr>)"
| "wpa_sm_set_param p v sm = (0, sm)"

definition wpa_sm_set_own_addr :: "bytes \<Rightarrow> wpa_sm \<Rightarrow> wpa_sm" where
  "wpa_sm_set_own_addr addr sm = sm\<lparr> sm_own_addr := addr \<rparr>"

definition wpa_sm_set_eapol :: "bool \<Rightarrow> wpa_sm \<Rightarrow> wpa_sm" where
  "wpa_sm_set_eapol eapol sm = sm\<lparr> sm_eapol := eapol \<rparr>"


section \<open>Information elements\<close>

text \<open>What a setter stores for the element given: nothing for a missing or empty
  element, a copy otherwise; without memory nothing is stored and the result is
  \<open>-1\<close>.\<close>

definition ie_copy :: "env \<Rightarrow> bytes option \<Rightarrow> wpa_sm \<Rightarrow> int \<times> bytes option" where
  "ie_copy e ie sm =
     (case ie of
        None \<Rightarrow> (0, None)
      | Some x \<Rightarrow> if x = [] then (0, None)
                  else if e_alloc e (sm_trace sm) then (0, Some x) else (-1, None))"

definition wpa_sm_set_assoc_wpa_ie :: "env \<Rightarrow> bytes option \<Rightarrow> wpa_sm \<Rightarrow> int \<times> wpa_sm" where
  "wpa_sm_set_assoc_wpa_ie e ie sm = (let (r, v) = ie_copy e ie sm in (r, sm\<lparr> sm_assoc_wpa_ie := v \<rparr>))"

definition wpa_sm_set_assoc_rsnxe :: "env \<Rightarrow> bytes option \<Rightarrow> wpa_sm \<Rightarrow> int \<times> wpa_sm" where
  "wpa_sm_set_assoc_rsnxe e ie sm = (let (r, v) = ie_copy e ie sm in (r, sm\<lparr> sm_assoc_rsnxe := v \<rparr>))"

definition wpa_sm_set_ap_wpa_ie :: "env \<Rightarrow> bytes option \<Rightarrow> wpa_sm \<Rightarrow> int \<times> wpa_sm" where
  "wpa_sm_set_ap_wpa_ie e ie sm = (let (r, v) = ie_copy e ie sm in (r, sm\<lparr> sm_ap_wpa_ie := v \<rparr>))"

definition wpa_sm_set_ap_rsn_ie :: "env \<Rightarrow> bytes option \<Rightarrow> wpa_sm \<Rightarrow> int \<times> wpa_sm" where
  "wpa_sm_set_ap_rsn_ie e ie sm = (let (r, v) = ie_copy e ie sm in (r, sm\<lparr> sm_ap_rsn_ie := v \<rparr>))"

definition wpa_sm_set_ap_rsnxe :: "env \<Rightarrow> bytes option \<Rightarrow> wpa_sm \<Rightarrow> int \<times> wpa_sm" where
  "wpa_sm_set_ap_rsnxe e ie sm = (let (r, v) = ie_copy e ie sm in (r, sm\<lparr> sm_ap_rsnxe := v \<rparr>))"

text \<open>The default elements; the result is the element written to the buffer of
  the given size, or \<^const>\<open>None\<close> for \<open>-1\<close>.\<close>

definition wpa_sm_set_assoc_wpa_ie_default :: "env \<Rightarrow> nat \<Rightarrow> wpa_sm \<Rightarrow> bytes option \<times> wpa_sm" where
  "wpa_sm_set_assoc_wpa_ie_default e wpa_ie_len sm =
     (case wpa_gen_wpa_ie sm wpa_ie_len of
        None \<Rightarrow> (None, sm)
      | Some ie \<Rightarrow>
          if sm_assoc_wpa_ie sm = None
          then if e_alloc e (sm_trace sm) then (Some ie, sm\<lparr> sm_assoc_wpa_ie := Some ie \<rparr>) else (None, sm)
          else (Some ie, sm))"

definition wpa_sm_set_assoc_rsnxe_default :: "env \<Rightarrow> nat \<Rightarrow> wpa_sm \<Rightarrow> bytes option \<times> wpa_sm" where
  "wpa_sm_set_assoc_rsnxe_default e rsnxe_len sm =
     (case wpa_gen_rsnxe sm rsnxe_len of
        None \<Rightarrow> (None, sm)
      | Some x \<Rightarrow>
          if sm_assoc_rsnxe sm \<noteq> None then (Some x, sm)
          else if x \<noteq> []
          then if e_alloc e (sm_trace sm) then (Some x, sm\<lparr> sm_assoc_rsnxe := Some x \<rparr>) else (None, sm)
          else (Some x, sm))"

definition ap_rsn_capabilities :: "wpa_sm \<Rightarrow> u16 option" where
  "ap_rsn_capabilities sm =
     (case sm_ap_rsn_ie sm of
        None \<Rightarrow> None
      | Some ie \<Rightarrow> (case the (wpa_parse_wpa_ie_rsn ie) of
                      (r, d) \<Rightarrow> if r \<ge> 0 then Some (capabilities d) else None))"

definition wpa_sm_pmf_enabled :: "wpa_sm \<Rightarrow> bool" where
  "wpa_sm_pmf_enabled sm =
     (if sm_mfp sm = 0 then False
      else case ap_rsn_capabilities sm of
             None \<Rightarrow> False
           | Some cap \<Rightarrow> has cap (WPA_CAPABILITY_MFPR OR WPA_CAPABILITY_MFPC))"

definition wpa_sm_ocv_enabled :: "wpa_sm \<Rightarrow> bool" where
  "wpa_sm_ocv_enabled sm =
     (if \<not> sm_ocv sm then False
      else case ap_rsn_capabilities sm of None \<Rightarrow> False | Some cap \<Rightarrow> has cap WPA_CAPABILITY_OCVC)"

definition wpa_sm_parse_own_wpa_ie :: "wpa_sm \<Rightarrow> int + wpa_ie_data" where
  "wpa_sm_parse_own_wpa_ie sm =
     (case sm_assoc_wpa_ie sm of
        None \<Rightarrow> Inl (-1)
      | Some ie \<Rightarrow> (case the (wpa_parse_wpa_ie ie) of (r, d) \<Rightarrow> if r \<noteq> 0 then Inl (-2) else Inr d))"


section \<open>Keys and counters from elsewhere\<close>

definition wpa_sm_pmksa_cache_add ::
  "env \<Rightarrow> crypto \<Rightarrow> bytes \<Rightarrow> bytes option \<Rightarrow> bytes \<Rightarrow> bytes option \<Rightarrow> wpa_sm \<Rightarrow> wpa_sm" where
  "wpa_sm_pmksa_cache_add e c pmk pid bssid fils_cache_id sm =
     (let (r, sm) = pmksa_cache_add e c pmk pid None bssid (sm_own_addr sm) (sm_network_ctx sm)
                      (sm_key_mgmt sm) fils_cache_id sm
      in sm\<lparr> sm_cur_pmksa := r \<rparr>)"

definition wpa_sm_update_replay_ctr :: "bytes \<Rightarrow> wpa_sm \<Rightarrow> wpa_sm" where
  "wpa_sm_update_replay_ctr ctr sm = sm\<lparr> sm_rx_replay_counter := ctr \<rparr>"

definition wpa_sm_set_rx_replay_ctr :: "bytes option \<Rightarrow> wpa_sm \<Rightarrow> wpa_sm" where
  "wpa_sm_set_rx_replay_ctr ctr sm =
     (case ctr of
        None \<Rightarrow> sm
      | Some x \<Rightarrow> sm\<lparr> sm_rx_replay_counter := x, sm_rx_replay_counter_set := True \<rparr>)"

definition wpa_sm_set_ptk_kck_kek :: "bytes option \<Rightarrow> bytes option \<Rightarrow> wpa_sm \<Rightarrow> wpa_sm" where
  "wpa_sm_set_ptk_kck_kek ptk_kck ptk_kek sm =
     (let p = sm_ptk sm;
          p = (case ptk_kck of
                 None \<Rightarrow> p
               | Some k \<Rightarrow> if length k \<le> 32 then p\<lparr> kck := overwrite 0 k (kck p), kck_len := length k \<rparr> else p);
          p = (case ptk_kek of
                 None \<Rightarrow> p
               | Some k \<Rightarrow> if length k \<le> 64 then p\<lparr> kek := overwrite 0 k (kek p), kek_len := length k \<rparr> else p)
      in sm\<lparr> sm_ptk := p, sm_ptk_set := True \<rparr>)"

text \<open>Key elements of a WNM sleep mode response; \<open>buf\<close> is the subelement.\<close>

definition wpa_wnmsleep_install_key :: "env \<Rightarrow> byte \<Rightarrow> bytes \<Rightarrow> wpa_sm \<Rightarrow> int \<times> wpa_sm" where
  "wpa_wnmsleep_install_key e subelem_id buf sm =
     (if subelem_id = 0
      then let keylen = wpa_cipher_key_len (sm_group_cipher sm);
               alg = wpa_cipher_to_alg (sm_group_cipher sm)
           in if alg = WPA_ALG_NONE then (-1, sm)
           else let keyinfo = get_le16 buf 2
           in if keylen \<noteq> unat (octet buf 4) then (-1, sm)
           else let gd = \<lparr> gd_alg = alg,
                           gd_tx = wpa_supplicant_gtk_tx_bit_workaround sm (has keyinfo WPA_KEY_INFO_TXRX),
                           gd_key_rsc_len = wpa_cipher_rsc_len (sm_group_cipher sm),
                           gd_keyidx = unat (keyinfo AND 3),
                           gd_gtk = overwrite 0 (slice 13 keylen buf) (zeros 32), gd_gtk_len = keylen \<rparr>;
                    (r, sm) = wpa_supplicant_install_gtk e gd (drop 5 buf) True sm
                in (if r \<noteq> 0 then -1 else 0, sm)
      else if subelem_id = 1
      then let (r, sm) = wpa_supplicant_install_igtk e (drop 2 buf) True sm in (if r < 0 then -1 else 0, sm)
      else if subelem_id = 2
      then if sm_beacon_prot sm
           then let (r, sm) = wpa_supplicant_install_bigtk e (drop 2 buf) True sm
                in (if r < 0 then -1 else 0, sm)
           else (0, sm)
      else (-1, sm))"


section \<open>The state machine as a whole\<close>

datatype wpa_event =
    Rx_eapol bytes bytes
  | Notify_assoc bytes
  | Notify_disassoc
  | Drop_sa
  | Set_pmk bytes "bytes option" "bytes option"
  | Set_pmk_from_pmksa
  | Set_current "bytes option" "bytes option" "nat option" bool "bytes option" u32
  | Aborted_cached
  | Aborted_external_cached
  | Pmksa_flush "nat option" bool
  | Pmksa_add bytes "bytes option" bytes "bytes option"
  | Pmksa_add_entry pmksa_entry
  | Pmksa_reconfig
  | Expire_timeout
  | Reauth_timeout
  | Rekey_timeout
  | Key_request bool bool
  | Set_param wpa_sm_conf_params u32
  | Set_config "rsn_supp_config option"
  | Set_own_addr bytes
  | Set_eapol bool
  | Set_assoc_wpa_ie "bytes option"
  | Set_assoc_wpa_ie_default nat
  | Set_assoc_rsnxe "bytes option"
  | Set_assoc_rsnxe_default nat
  | Set_ap_wpa_ie "bytes option"
  | Set_ap_rsn_ie "bytes option"
  | Set_ap_rsnxe "bytes option"
  | Update_replay_ctr bytes
  | Set_rx_replay_ctr "bytes option"
  | Set_ptk_kck_kek "bytes option" "bytes option"
  | Wnmsleep_install_key byte bytes

text \<open>An entry that another part of the program adds is a new object with a PMK
  that fits its array.\<close>

fun wpa_exec :: "env \<Rightarrow> crypto \<Rightarrow> wpa_event \<Rightarrow> wpa_sm \<Rightarrow> wpa_sm" where
  "wpa_exec e c (Rx_eapol src buf) sm = snd (wpa_sm_rx_eapol e c src buf sm)"
| "wpa_exec e c (Notify_assoc bssid) sm = wpa_sm_notify_assoc bssid sm"
| "wpa_exec e c Notify_disassoc sm = wpa_sm_notify_disassoc e sm"
| "wpa_exec e c Drop_sa sm = wpa_sm_drop_sa sm"
| "wpa_exec e c (Set_pmk pmk pid bssid) sm = wpa_sm_set_pmk e c pmk pid bssid sm"
| "wpa_exec e c Set_pmk_from_pmksa sm = wpa_sm_set_pmk_from_pmksa sm"
| "wpa_exec e c (Set_current pid bssid ctx opp fils akmp) sm =
     snd (pmksa_cache_set_current e c pid bssid ctx opp fils akmp sm)"
| "wpa_exec e c Aborted_cached sm = wpa_sm_aborted_cached sm"
| "wpa_exec e c Aborted_external_cached sm = wpa_sm_aborted_external_cached sm"
| "wpa_exec e c (Pmksa_flush ctx ext) sm = pmksa_cache_flush e ctx None ext sm"
| "wpa_exec e c (Pmksa_add pmk pid bssid fils) sm = wpa_sm_pmksa_cache_add e c pmk pid bssid fils sm"
| "wpa_exec e c (Pmksa_add_entry en) sm =
     (if length (pe_pmk en) = 64 \<and> pe_pmk_len en \<le> 64
      then snd (pmksa_cache_add_entry e (en\<lparr> pe_id := sm_pmksa_next_id sm \<rparr>)
                  (sm\<lparr> sm_pmksa_next_id := sm_pmksa_next_id sm + 1 \<rparr>))
      else sm)"
| "wpa_exec e c Pmksa_reconfig sm = pmksa_cache_reconfig e sm"
| "wpa_exec e c Expire_timeout sm = pmksa_cache_expire e sm"
| "wpa_exec e c Reauth_timeout sm = pmksa_cache_reauth sm"
| "wpa_exec e c Rekey_timeout sm = wpa_sm_rekey_ptk e c sm"
| "wpa_exec e c (Key_request err pw) sm = wpa_sm_key_request e c err pw sm"
| "wpa_exec e c (Set_param p v) sm = snd (wpa_sm_set_param p v sm)"
| "wpa_exec e c (Set_config cf) sm = wpa_sm_set_config cf sm"
| "wpa_exec e c (Set_own_addr addr) sm = wpa_sm_set_own_addr addr sm"
| "wpa_exec e c (Set_eapol b) sm = wpa_sm_set_eapol b sm"
| "wpa_exec e c (Set_assoc_wpa_ie ie) sm = snd (wpa_sm_set_assoc_wpa_ie e ie sm)"
| "wpa_exec e c (Set_assoc_wpa_ie_default n) sm = snd (wpa_sm_set_assoc_wpa_ie_default e n sm)"
| "wpa_exec e c (Set_assoc_rsnxe ie) sm = snd (wpa_sm_set_assoc_rsnxe e ie sm)"
| "wpa_exec e c (Set_assoc_rsnxe_default n) sm = snd (wpa_sm_set_assoc_rsnxe_default e n sm)"
| "wpa_exec e c (Set_ap_wpa_ie ie) sm = snd (wpa_sm_set_ap_wpa_ie e ie sm)"
| "wpa_exec e c (Set_ap_rsn_ie ie) sm = snd (wpa_sm_set_ap_rsn_ie e ie sm)"
| "wpa_exec e c (Set_ap_rsnxe ie) sm = snd (wpa_sm_set_ap_rsnxe e ie sm)"
| "wpa_exec e c (Update_replay_ctr x) sm = wpa_sm_update_replay_ctr x sm"
| "wpa_exec e c (Set_rx_replay_ctr x) sm = wpa_sm_set_rx_replay_ctr x sm"
| "wpa_exec e c (Set_ptk_kck_kek a b) sm = wpa_sm_set_ptk_kck_kek a b sm"
| "wpa_exec e c (Wnmsleep_install_key i buf) sm = snd (wpa_wnmsleep_install_key e i buf sm)"

inductive wpa_reachable :: "env \<Rightarrow> crypto \<Rightarrow> wpa_sm \<Rightarrow> bool" for e c where
  init: "wpa_reachable e c wpa_sm_init"
| step: "wpa_reachable e c sm \<Longrightarrow> wpa_reachable e c (wpa_exec e c ev sm)"

end
