(* ===== verification/WPA_Frame.thy ===== *)
theory WPA_Frame
  imports WPA_Control
begin

text \<open>
  The functions of the key handshakes as clients of the frames they run in.  A
  locale of this theory names what a relation between states has to allow (an
  action, a change of a field outside the core of the state, the acquisition of
  the PMK, the installation of a key), and proves once, for every such relation,
  that the functions of \<^verbatim>\<open>wpa.c\<close> keep it.  The properties are interpretations.
\<close>

section \<open>Actions and the core of the state\<close>

fun is_set_key :: "action \<Rightarrow> bool" where
  "is_set_key (Set_key alg addr idx tx seq k fl) = True"
| "is_set_key _ = False"

fun is_random :: "action \<Rightarrow> bool" where
  "is_random (Random_get_bytes n) = True"
| "is_random _ = False"

text \<open>The notification that opens the controlled port.\<close>

fun is_port_valid :: "action \<Rightarrow> bool" where
  "is_port_valid (Eapol_notify_portValid b) = b"
| "is_port_valid _ = False"

abbreviation plain_action :: "action \<Rightarrow> bool" where
  "plain_action a \<equiv> \<not> is_set_key a \<and> \<not> is_random a \<and> \<not> is_port_valid a"

text \<open>A new pairwise key for the driver, as opposed to a group key or the
  activation of an installed pairwise key.\<close>

fun is_ptk_install :: "action \<Rightarrow> bool" where
  "is_ptk_install (Set_key alg addr idx tx seq k fl) \<longleftrightarrow> has fl KEY_FLAG_PAIRWISE \<and> \<not> has fl KEY_FLAG_MODIFY"
| "is_ptk_install _ = False"

text \<open>The fields that the properties are about; the others may change freely.\<close>

definition key_core :: "wpa_sm \<Rightarrow> _" where
  "key_core sm = (sm_ptk sm, sm_tptk_set sm, sm_renew_snonce sm, sm_rx_replay_counter sm,
     sm_rx_replay_counter_set sm, sm_proto sm, sm_key_mgmt sm)"

definition cache_core :: "wpa_sm \<Rightarrow> _" where
  "cache_core sm = (sm_pmksa sm, sm_pmksa_unlinked sm, sm_pmksa_count sm, sm_pmksa_next_id sm, sm_cur_pmksa sm)"

definition core :: "wpa_sm \<Rightarrow> _" where
  "core sm = (key_core sm, cache_core sm, sm_trace sm)"

lemmas core_defs = core_def key_core_def cache_core_def


section \<open>Sending\<close>

locale tx_frame = state_frame R for R :: "wpa_sm \<Rightarrow> wpa_sm \<Rightarrow> bool" +
  assumes plain: "R s t \<Longrightarrow> plain_action a \<Longrightarrow> R s (act a t)"
    and fields: "R s t \<Longrightarrow> core u = core t \<Longrightarrow> R s u"
begin

lemma eapol_notify: "R s t \<Longrightarrow> plain_action a \<Longrightarrow> R s (eapol_notify a t)"
  by (simp add: eapol_notify_def plain)

lemma call: "R s t \<Longrightarrow> plain_action a \<Longrightarrow> R s (snd (call e a t))"
  by (simp add: call_def plain)

lemma key_send: "R s t \<Longrightarrow> R s (snd (wpa_eapol_key_send e c ptk ver dest pr msg mic t))"
  unfolding wpa_eapol_key_send_def
  by (rule rules call eapol_notify | assumption | (erule fields, simp add: core_defs; fail) | (simp; fail))+

lemma send_2_of_4: "R s t \<Longrightarrow> R s (snd (wpa_supplicant_send_2_of_4 e c dst f ver nonce ie ptk t))"
  unfolding wpa_supplicant_send_2_of_4_def by (rule rules key_send | assumption)+

lemma send_4_of_4: "R s t \<Longrightarrow> R s (snd (wpa_supplicant_send_4_of_4 e c dst f ver info ptk t))"
  unfolding wpa_supplicant_send_4_of_4_def by (rule rules key_send | assumption)+

lemma send_2_of_2: "R s t \<Longrightarrow> R s (snd (wpa_supplicant_send_2_of_2 e c f ver info t))"
  unfolding wpa_supplicant_send_2_of_2_def by (rule rules key_send | assumption)+

lemma key_request: "R s t \<Longrightarrow> R s (wpa_sm_key_request e c err pw t)"
  unfolding wpa_sm_key_request_def
  by (rule rules key_send plain | assumption | (erule fields, simp add: core_defs; fail) | (simp; fail))+

lemma get_pmk_finish: "R s t \<Longrightarrow> R s (snd (get_pmk_finish e ab t))"
  unfolding get_pmk_finish_def by (rule rules call eapol_notify | assumption | (simp; fail))+

end


section \<open>Message 1/4\<close>

locale msg1_frame = tx_frame R for R +
  fixes e :: env
  assumes get_pmk: "R s t \<Longrightarrow> R s (snd (wpa_supplicant_get_pmk e c src pid t))"
    and renew_snonce: "R s t \<Longrightarrow> R s (snd (renew_snonce_step e t))"
    and tptk_set: "R s t \<Longrightarrow> \<not> sm_renew_snonce t \<Longrightarrow> R s (t\<lparr> sm_tptk := p, sm_tptk_set := True \<rparr>)"
begin

lemma failed: "R s t \<Longrightarrow> R s (deauth_failed t)"
  by (simp add: deauth_failed_def plain)

lemma renewed: "renew_snonce_step e t = (r, u) \<Longrightarrow> \<not> r < 0 \<Longrightarrow> \<not> sm_renew_snonce u"
  by (auto simp: renew_snonce_step_def Let_def split: if_splits option.splits)

lemma process_1_of_4: "R s t \<Longrightarrow> R s (wpa_supplicant_process_1_of_4 e c src f ver kd t)"
  unfolding wpa_supplicant_process_1_of_4_def
  by (rule rules get_pmk renew_snonce send_2_of_4 failed plain | assumption
      | (rule tptk_set, assumption, erule renewed, assumption)
      | (erule fields, simp add: core_defs; fail) | (simp; fail))+

end


section \<open>Installing keys\<close>

locale install_frame = tx_frame R for R +
  fixes e :: env
  assumes other_key: "R s t \<Longrightarrow> is_set_key a \<Longrightarrow> \<not> is_ptk_install a \<Longrightarrow> R s (act a t)"
    and install_ptk: "R s t \<Longrightarrow> fl = KEY_FLAG_RX \<or> fl = KEY_FLAG_RX_TX \<Longrightarrow>
      R s (snd (wpa_supplicant_install_ptk e f fl t))"
begin

lemma set_key:
  "R s t \<Longrightarrow> \<not> is_ptk_install (Set_key alg addr idx tx seq k fl) \<Longrightarrow>
   R s (snd (wpa_sm_set_key e alg addr idx tx seq k fl t))"
  by (simp add: wpa_sm_set_key_def WPA_SM.call_def other_key)

lemma activate_ptk: "R s t \<Longrightarrow> R s (snd (wpa_supplicant_activate_ptk e t))"
  unfolding wpa_supplicant_activate_ptk_def by (rule rules set_key | assumption | (simp; fail))+

lemma install_gtk: "R s t \<Longrightarrow> R s (snd (wpa_supplicant_install_gtk e gd rsc wnm t))"
  unfolding wpa_supplicant_install_gtk_def
  by (rule rules set_key | assumption | (erule fields, simp add: core_defs; fail) | (simp; fail))+

lemma pairwise_gtk: "R s t \<Longrightarrow> R s (snd (wpa_supplicant_pairwise_gtk e f gtk t))"
  unfolding wpa_supplicant_pairwise_gtk_def by (rule rules install_gtk | assumption)+

lemma install_igtk: "R s t \<Longrightarrow> R s (snd (wpa_supplicant_install_igtk e kde wnm t))"
  unfolding wpa_supplicant_install_igtk_def
  by (rule rules set_key | assumption | (erule fields, simp add: core_defs; fail) | (simp; fail))+

lemma install_bigtk: "R s t \<Longrightarrow> R s (snd (wpa_supplicant_install_bigtk e kde wnm t))"
  unfolding wpa_supplicant_install_bigtk_def
  by (rule rules set_key | assumption | (erule fields, simp add: core_defs; fail) | (simp; fail))+

lemma set_mgmt_keys: "R s t \<Longrightarrow> R s (snd (ieee80211w_set_keys e kd ie t))"
  unfolding ieee80211w_set_keys_def by (rule rules install_igtk install_bigtk | assumption)+

lemma wnmsleep_install: "R s t \<Longrightarrow> R s (snd (wpa_wnmsleep_install_key e i buf t))"
  unfolding wpa_wnmsleep_install_key_def
  by (rule rules install_gtk install_igtk install_bigtk | assumption)+

end


section \<open>The handshakes\<close>

locale handshake_frame = msg1_frame R e + install_frame R e for R e +
  assumes renew: "R s t \<Longrightarrow> R s (t\<lparr> sm_renew_snonce := True \<rparr>)"
    and port_valid: "R s t \<Longrightarrow> R s (act (Eapol_notify_portValid True) t)"
    and mark_valid: "R s t \<Longrightarrow> R s (pmksa_update i (\<lambda>en. en\<lparr> pe_opportunistic := False \<rparr>) t)"
    and suite_b: "R s t \<Longrightarrow> R s (suite_b_cache_pmk e c t)"
begin

lemma notify_valid: "R s t \<Longrightarrow> R s (eapol_notify (Eapol_notify_portValid True) t)"
  by (simp add: eapol_notify_def port_valid)

lemma key_neg_complete: "R s t \<Longrightarrow> R s (wpa_supplicant_key_neg_complete e addr sec t)"
  unfolding wpa_supplicant_key_neg_complete_def
  by (rule rules mark_valid notify_valid eapol_notify plain | assumption | (simp; fail))+

lemma rekey_offload: "R s t \<Longrightarrow> R s (wpa_sm_set_rekey_offload t)"
  by (simp add: wpa_sm_set_rekey_offload_def plain)

lemma validate_ie: "R s t \<Longrightarrow> R s (snd (wpa_supplicant_validate_ie e kd ie t))"
  unfolding wpa_supplicant_validate_ie_def wpa_report_ie_mismatch_def
  by (rule rules plain | assumption | (erule fields, simp add: core_defs; fail) | (simp; fail))+

lemma handle_ext_key_id: "R s t \<Longrightarrow> R s (snd (wpa_handle_ext_key_id kd ie t))"
  unfolding wpa_handle_ext_key_id_def
  by (rule rules | assumption | (erule fields, simp add: core_defs; fail))+

lemma process_3_of_4_finish: "R s t \<Longrightarrow> R s (process_3_of_4_finish e c f info kd ie t)"
  unfolding process_3_of_4_finish_def
  by (rule rules renew activate_ptk install_ptk failed notify_valid eapol_notify plain pairwise_gtk set_mgmt_keys
        key_neg_complete rekey_offload suite_b
      | assumption | (erule fields, simp add: core_defs; fail) | (simp; fail))+

lemma process_3_of_4: "R s t \<Longrightarrow> R s (wpa_supplicant_process_3_of_4 e c f ver kd t)"
  unfolding wpa_supplicant_process_3_of_4_def
  by (rule rules plain failed validate_ie handle_ext_key_id install_ptk send_4_of_4 process_3_of_4_finish
      | assumption | (erule fields, simp add: core_defs; fail) | (simp; fail))+

lemma process_1_of_2_rsn: "R s t \<Longrightarrow> R s (snd (wpa_supplicant_process_1_of_2_rsn e kd info t))"
  unfolding wpa_supplicant_process_1_of_2_rsn_def by (rule rules set_mgmt_keys | assumption)+

lemma process_1_of_2: "R s t \<Longrightarrow> R s (wpa_supplicant_process_1_of_2 e c f kd ver t)"
  unfolding wpa_supplicant_process_1_of_2_def
  by (rule rules failed process_1_of_2_rsn plain install_gtk send_2_of_2 key_neg_complete rekey_offload
      | assumption | (simp; fail))+

lemma dispatch: "R s t \<Longrightarrow> R s (snd (rx_dispatch e c src f n kd t))"
  unfolding rx_dispatch_def by (rule rules process_1_of_4 process_3_of_4 process_1_of_2 | assumption)+

end

locale rx_frame = handshake_frame R e for R e +
  assumes verify_mic: "R s t \<Longrightarrow> R s (snd (wpa_supplicant_verify_eapol_key_mic c ver f t))"
begin

lemma rx_eapol:
  assumes "R s t"
  shows "R s (snd (wpa_sm_rx_eapol e c src buf t))"
proof (cases "rx_header e buf t")
  case (Inl ret)
  then show ?thesis using assms by (simp add: wpa_sm_rx_eapol_def)
next
  case (Inr x)
  then obtain f n kd where x: "rx_header e buf t = Inr (f, n, kd)" by (cases x) auto
  show ?thesis
    using assms unfolding wpa_sm_rx_eapol_def x sum.case prod.case
    by - (rule rules eapol_notify verify_mic dispatch | assumption | (simp; fail))+
qed

end


section \<open>Frames that do not look into the PMKSA cache\<close>

text \<open>The operations of the cache leave the rest of the core alone and perform no
  key installation.\<close>

definition cache_only :: "wpa_sm \<Rightarrow> wpa_sm \<Rightarrow> bool" where
  "cache_only s t \<longleftrightarrow> key_core t = key_core s \<and>
     (\<exists>l. sm_trace t = l @ sm_trace s \<and> (\<forall>a \<in> set l. plain_action a))"

interpretation co: state_frame cache_only
proof
  show "cache_only s s" for s by (auto simp: cache_only_def)
  show "cache_only s u" if "cache_only s t" "cache_only t u" for s t u
    using that by (fastforce simp: cache_only_def)
qed

lemma co_act: "cache_only s t \<Longrightarrow> plain_action a \<Longrightarrow> cache_only s (act a t)"
  unfolding cache_only_def by (auto simp: key_core_def act_def intro: exI [of _ "a # _"])

lemma co_fields: "cache_only s t \<Longrightarrow> key_core u = key_core t \<Longrightarrow> sm_trace u = sm_trace t \<Longrightarrow> cache_only s u"
  by (simp add: cache_only_def)

interpretation co: tx_frame cache_only
  by unfold_locales (auto intro: co_act co_fields simp: core_def)

lemma co_only_acts_expiration: "cache_only s t \<Longrightarrow> cache_only s (pmksa_cache_set_expiration e t)"
  unfolding pmksa_cache_set_expiration_def
  by (rule co.rules co_act | assumption | (simp split: list.split; fail)
      | (simp add: Let_def co_act split: list.split option.split; fail))+

lemma co_unlink: "cache_only s t \<Longrightarrow> cache_only s (pmksa_unlink en t)"
  by (rule co_fields) (simp_all add: pmksa_unlink_def key_core_def)

lemma co_free_entry: "cache_only s t \<Longrightarrow> cache_only s (pmksa_cache_free_entry en r t)"
  unfolding pmksa_cache_free_entry_def wpa_sm_pmksa_free_cb_def pmksa_cache_clear_current_def
  by (rule co.rules co_act | assumption | (erule co_fields; simp add: key_core_def; fail) | (simp; fail))+

lemma co_flush_loop: "cache_only s t \<Longrightarrow> cache_only s (snd (flush_loop p l (n, t)))"
  by (induction l arbitrary: n t) (simp_all add: co_unlink co_free_entry)

lemma co_flush: "cache_only s t \<Longrightarrow> cache_only s (pmksa_cache_flush e ctx pmk ext t)"
  unfolding pmksa_cache_flush_def by (rule co.rules co_flush_loop co_only_acts_expiration | assumption)+

lemma co_make_room: "cache_only s t \<Longrightarrow> cache_only s (pmksa_make_room t)"
  by (simp add: pmksa_make_room_def co_unlink co_free_entry split: list.split)

lemma co_insert: "cache_only s t \<Longrightarrow> cache_only s (pmksa_insert e en t)"
  unfolding pmksa_insert_def
  by (rule co.let_value)
     (rule co.rules co_act co_only_acts_expiration | assumption | (erule co_fields; simp add: key_core_def; fail)
      | (simp; fail))+

lemma co_add_entry: "cache_only s t \<Longrightarrow> cache_only s (snd (pmksa_cache_add_entry e en t))"
  unfolding pmksa_cache_add_entry_def pmksa_replaced_def
  by (rule co.rules co_insert co_make_room co_unlink co_flush co_free_entry | assumption)+

lemma co_add: "cache_only s t \<Longrightarrow> cache_only s (snd (pmksa_cache_add e c pmk pid kk aa spa ctx akmp cid t))"
  unfolding pmksa_cache_add_def
  by (rule co.rules co_add_entry | assumption | (erule co_fields; simp add: key_core_def; fail))+

lemma co_update: "cache_only s t \<Longrightarrow> cache_only s (pmksa_update i f t)"
  by (erule co_fields) (simp_all add: pmksa_update_def key_core_def)

lemma co_clone: "cache_only s t \<Longrightarrow> cache_only s (snd (pmksa_cache_clone_entry e c old aa t))"
  unfolding pmksa_cache_clone_entry_def by (rule co.rules co_add co_update | assumption)+

lemma co_opportunistic: "cache_only s t \<Longrightarrow> cache_only s (snd (opportunistic_loop e c ctx aa akmp l t))"
  by (induction l arbitrary: t) (simp_all add: co_clone)

lemma co_set_current:
  "cache_only s t \<Longrightarrow> cache_only s (snd (pmksa_cache_set_current e c pid bssid ctx opp fils akmp t))"
  unfolding pmksa_cache_set_current_def pmksa_cache_get_opportunistic_def
  by (rule co.rules co_opportunistic | assumption | (erule co_fields; simp add: key_core_def; fail))+

lemma co_expire_loop: "cache_only s t \<Longrightarrow> cache_only s (expire_loop now l t)"
  by (induction l arbitrary: t) (simp_all add: co_unlink co_free_entry)

lemma co_expire: "cache_only s t \<Longrightarrow> cache_only s (pmksa_cache_expire e t)"
  by (simp add: pmksa_cache_expire_def co_only_acts_expiration co_expire_loop)

lemma co_reauth: "cache_only s t \<Longrightarrow> cache_only s (pmksa_cache_reauth t)"
  unfolding pmksa_cache_reauth_def
  by (rule co_act | (erule co_fields; simp add: key_core_def; fail) | (simp; fail))+

lemma co_reconfig_loop: "cache_only s t \<Longrightarrow> cache_only s (reconfig_loop now l t)"
  by (induction l arbitrary: t) (simp_all add: Let_def co_act)

lemma co_reconfig: "cache_only s t \<Longrightarrow> cache_only s (pmksa_cache_reconfig e t)"
  by (simp add: pmksa_cache_reconfig_def co_reconfig_loop)

lemma co_set_pmk: "cache_only s t \<Longrightarrow> cache_only s (wpa_sm_set_pmk e c pmk pid bssid t)"
  unfolding wpa_sm_set_pmk_def
  by (rule co.rules co_add | assumption | (erule co_fields; simp add: key_core_def; fail))+

lemma co_set_pmk_from_pmksa: "cache_only s t \<Longrightarrow> cache_only s (wpa_sm_set_pmk_from_pmksa t)"
  unfolding wpa_sm_set_pmk_from_pmksa_def
  by (rule co.rules | assumption | (erule co_fields; simp add: key_core_def; fail))+

lemma co_cache_eapol: "cache_only s t \<Longrightarrow> cache_only s (snd (cache_eapol_pmk e c src t))"
  unfolding cache_eapol_pmk_def by (rule co.rules co_add | assumption)+

lemma co_get_pmk_eapol: "cache_only s t \<Longrightarrow> cache_only s (snd (get_pmk_eapol e c src pid ab t))"
  unfolding get_pmk_eapol_def
  by (rule co.rules co_cache_eapol co.get_pmk_finish co_act | assumption
      | (erule co_fields; simp add: key_core_def; fail) | (simp; fail))+

lemma co_get_pmk: "cache_only s t \<Longrightarrow> cache_only s (snd (wpa_supplicant_get_pmk e c src pid t))"
  unfolding wpa_supplicant_get_pmk_def
  by (rule co.rules co.get_pmk_finish co_get_pmk_eapol co.eapol_notify co_set_pmk_from_pmksa | assumption
      | (erule co_fields; simp add: key_core_def; fail) | (simp; fail))+

lemma co_suite_b: "cache_only s t \<Longrightarrow> cache_only s (suite_b_cache_pmk e c t)"
  unfolding suite_b_cache_pmk_def
  by (rule co.rules co_add | assumption | (erule co_fields; simp add: key_core_def; fail))+

text \<open>A relation that allows everything the cache does is a frame of the sending
  functions, and of the acquisition of the PMK.\<close>

locale key_frame = state_frame R for R :: "wpa_sm \<Rightarrow> wpa_sm \<Rightarrow> bool" +
  assumes cache: "R s t \<Longrightarrow> cache_only t u \<Longrightarrow> R s u"
begin

lemma through: "(\<And>x. cache_only x t \<Longrightarrow> cache_only x u) \<Longrightarrow> R s t \<Longrightarrow> R s u"
  by (blast intro: cache co.refl)

end

sublocale key_frame \<subseteq> tx_frame
  by unfold_locales (auto intro: cache co_act [OF co.refl] co_fields [OF co.refl] simp: core_def)

locale key_msg1_frame = key_frame R for R +
  fixes e :: env
  assumes draw_snonce: "R s t \<Longrightarrow> R s (snd (renew_snonce_step e t))"
    and accept_tptk: "R s t \<Longrightarrow> \<not> sm_renew_snonce t \<Longrightarrow> R s (t\<lparr> sm_tptk := p, sm_tptk_set := True \<rparr>)"

sublocale key_msg1_frame \<subseteq> msg1_frame R e
  by unfold_locales (auto intro: through co_get_pmk draw_snonce accept_tptk)

locale key_handshake_frame = key_msg1_frame R e + install_frame R e for R e +
  assumes renew_later: "R s t \<Longrightarrow> R s (t\<lparr> sm_renew_snonce := True \<rparr>)"
    and opens_port: "R s t \<Longrightarrow> R s (act (Eapol_notify_portValid True) t)"

sublocale key_handshake_frame \<subseteq> handshake_frame R e
  by unfold_locales (auto intro: renew_later opens_port through co_update co_suite_b)

end
