(* ===== verification/WPA_Safety.thy ===== *)
theory WPA_Safety
  imports WPA_Frame
begin

text \<open>
  Properties of the key handshakes in every reachable state and for every
  received frame: the PMKSA cache stays consistent, a pairwise key is installed
  at most once for every SNonce drawn, the replay counter only grows, keys are
  installed only from authenticated frames.  The parts that quantify over the
  whole code are interpretations of the locales of \<open>WPA_Frame\<close>.
\<close>


section \<open>No reinstallation of the pairwise key\<close>

text \<open>Successful installations of a pairwise key, and successful draws of an
  SNonce, in a trace.\<close>

fun ptk_installs :: "env \<Rightarrow> action list \<Rightarrow> nat" where
  "ptk_installs e [] = 0"
| "ptk_installs e (a # tr) = of_bool (is_ptk_install a \<and> 0 \<le> e_ret e (a # tr)) + ptk_installs e tr"

fun snonce_draws :: "env \<Rightarrow> action list \<Rightarrow> nat" where
  "snonce_draws e [] = 0"
| "snonce_draws e (a # tr) = of_bool (is_random a \<and> e_random e (a # tr) \<noteq> None) + snonce_draws e tr"

text \<open>What may still be installed without drawing a new SNonce: the key of the
  handshake in progress, and a key that was confirmed but not installed yet.\<close>

definition install_credit :: "wpa_sm \<Rightarrow> nat" where
  "install_credit sm = of_bool (sm_tptk_set sm \<or> \<not> sm_renew_snonce sm) +
     of_bool (\<not> installed (sm_ptk sm) \<and> tk_len (sm_ptk sm) > 0)"

definition install_inv :: "env \<Rightarrow> wpa_sm \<Rightarrow> bool" where
  "install_inv e sm \<longleftrightarrow>
     ptk_installs e (sm_trace sm) + install_credit sm \<le> snonce_draws e (sm_trace sm)"

definition keeps_install :: "env \<Rightarrow> wpa_sm \<Rightarrow> wpa_sm \<Rightarrow> bool" where
  "keeps_install e s t \<longleftrightarrow> (install_inv e s \<longrightarrow> install_inv e t)"

lemma plain_installs: "\<forall>a \<in> set l. plain_action a \<Longrightarrow> ptk_installs e (l @ tr) = ptk_installs e tr"
  by (induction l) (auto elim: is_ptk_install.elims)

lemma plain_draws: "\<forall>a \<in> set l. plain_action a \<Longrightarrow> snonce_draws e (l @ tr) = snonce_draws e tr"
  by (induction l) auto

lemma install_ptk_inv:
  assumes inv: "install_inv e sm" and fl: "fl = KEY_FLAG_RX \<or> fl = KEY_FLAG_RX_TX"
  shows "install_inv e (snd (wpa_supplicant_install_ptk e f fl sm))"
proof (cases "installed (sm_ptk sm) \<or> sm_pairwise_cipher sm = WPA_CIPHER_NONE \<or>
    \<not> wpa_cipher_valid_pairwise (sm_pairwise_cipher sm) \<or>
    wpa_cipher_key_len (sm_pairwise_cipher sm) = 0 \<or>
    wpa_cipher_key_len (sm_pairwise_cipher sm) \<noteq> tk_len (sm_ptk sm)")
  case True
  then show ?thesis
    using inv by (auto simp: wpa_supplicant_install_ptk_def)
next
  case False
  then have pend: "\<not> installed (sm_ptk sm)" "tk_len (sm_ptk sm) > 0" by auto
  show ?thesis
    using False inv pend fl
    by (auto simp: wpa_supplicant_install_ptk_def Let_def wpa_sm_set_key_def call_def act_def
        install_inv_def install_credit_def)
qed

interpretation ki: state_frame "keeps_install e"
  by unfold_locales (auto simp: keeps_install_def)

lemma renew_snonce_inv: "install_inv e sm \<Longrightarrow> install_inv e (snd (renew_snonce_step e sm))"
  by (auto simp: renew_snonce_step_def Let_def install_inv_def install_credit_def act_def split: option.split)


lemma install_inv_cong:
  assumes "ptk_installs e (sm_trace u) = ptk_installs e (sm_trace t)"
    "snonce_draws e (sm_trace u) = snonce_draws e (sm_trace t)" "sm_ptk u = sm_ptk t"
    "sm_tptk_set u = sm_tptk_set t" "sm_renew_snonce u = sm_renew_snonce t"
  shows "install_inv e u = install_inv e t"
  unfolding install_inv_def install_credit_def assms ..

lemma keeps_install_cache:
  assumes "keeps_install e s t" "cache_only t u"
  shows "keeps_install e s u"
proof -
  obtain l where l: "sm_trace u = l @ sm_trace t" "\<forall>a \<in> set l. plain_action a"
    and kc: "sm_ptk u = sm_ptk t" "sm_tptk_set u = sm_tptk_set t" "sm_renew_snonce u = sm_renew_snonce t"
    using assms(2) unfolding cache_only_def key_core_def prod.inject by blast
  have "install_inv e u = install_inv e t"
    by (rule install_inv_cong) (simp_all only: l(1) kc plain_installs [OF l(2)] plain_draws [OF l(2)])
  then show ?thesis using assms(1) by (simp add: keeps_install_def)
qed

interpretation ki: key_frame "keeps_install e"
  by unfold_locales (rule keeps_install_cache)

lemma keeps_install_tptk:
  "keeps_install e s t \<Longrightarrow> \<not> sm_renew_snonce t \<Longrightarrow> keeps_install e s (t\<lparr> sm_tptk := p, sm_tptk_set := True \<rparr>)"
  by (simp add: keeps_install_def install_inv_def install_credit_def)

interpretation ki: key_msg1_frame "keeps_install e" e
proof
  show "keeps_install e s (snd (renew_snonce_step e t))" if "keeps_install e s t" for s t
    using that renew_snonce_inv by (auto simp: keeps_install_def)
qed (rule keeps_install_tptk)

lemma keeps_install_other_key:
  assumes "keeps_install e s t" "is_set_key a" "\<not> is_ptk_install a"
  shows "keeps_install e s (act a t)"
proof -
  have "\<not> is_random a" using assms(2) by (cases a) simp_all
  then have "install_inv e (act a t) = install_inv e t"
    using assms(3) by (intro install_inv_cong) (simp_all add: act_def)
  then show ?thesis using assms(1) by (simp add: keeps_install_def)
qed

interpretation ki: install_frame "keeps_install e" e
proof
  show "keeps_install e s (snd (wpa_supplicant_install_ptk e f fl t))"
    if "keeps_install e s t" "fl = KEY_FLAG_RX \<or> fl = KEY_FLAG_RX_TX" for s t f fl
    using that install_ptk_inv by (auto simp: keeps_install_def)
qed (rule keeps_install_other_key)

lemma install_inv_mono:
  assumes "install_inv e t" "sm_trace u = sm_trace t" "install_credit u \<le> install_credit t"
  shows "install_inv e u"
  using assms by (simp add: install_inv_def)

interpretation ki: key_handshake_frame "keeps_install e" e
proof
  show "keeps_install e s (t\<lparr> sm_renew_snonce := True \<rparr>)" if "keeps_install e s t" for s t
    using that install_inv_mono [of e t "t\<lparr> sm_renew_snonce := True \<rparr>"]
    by (simp add: keeps_install_def install_credit_def)
  show "keeps_install e s (act (Eapol_notify_portValid True) t)" if "keeps_install e s t" for s t
    using that install_inv_cong [of e "act (Eapol_notify_portValid True) t" t]
    by (simp add: keeps_install_def act_def)
qed

text \<open>The outcomes of the verification of a MIC.\<close>

definition accept_counter :: "bytes \<Rightarrow> wpa_sm \<Rightarrow> wpa_sm" where
  "accept_counter f sm = sm\<lparr> sm_rx_replay_counter := replay_counter f, sm_rx_replay_counter_set := True \<rparr>"

definition promote_tptk :: "wpa_sm \<Rightarrow> wpa_sm" where
  "promote_tptk sm = sm\<lparr> sm_tptk_set := False, sm_ptk_set := True, sm_ptk := sm_tptk sm,
                         sm_tptk := ptk_zero, sm_renew_snonce := True \<rparr>"

definition mic_valid :: "crypto \<Rightarrow> wpa_ptk \<Rightarrow> u16 \<Rightarrow> bytes \<Rightarrow> bytes \<Rightarrow> wpa_sm \<Rightarrow> bool" where
  "mic_valid c ptk ver rcvd f sm \<longleftrightarrow>
     fst (mic_attempt c ptk (sm_key_mgmt sm) ver (wpa_mic_len (sm_key_mgmt sm) (sm_pmk_len sm))
            (slice mic_offset (wpa_mic_len (sm_key_mgmt sm) (sm_pmk_len sm)) rcvd) f)"

lemma verify_mic_cases:
  assumes "wpa_supplicant_verify_eapol_key_mic c ver f sm = (r, sm')"
  obtains (bad) "r = -1" "sm' = sm"
  | (tptk) "r = 0" "sm_tptk_set sm" "mic_valid c (sm_tptk sm) ver f f sm"
      "sm' = accept_counter f (promote_tptk sm)"
  | (ptk) f' where "r = 0" "sm_ptk_set sm" "mic_valid c (sm_ptk sm) ver f f' sm" "sm' = accept_counter f sm"
      "f' = f \<and> \<not> sm_tptk_set sm \<or> sm_tptk_set sm \<and>
        f' = snd (mic_attempt c (sm_tptk sm) (sm_key_mgmt sm) ver (wpa_mic_len (sm_key_mgmt sm) (sm_pmk_len sm))
            (slice mic_offset (wpa_mic_len (sm_key_mgmt sm) (sm_pmk_len sm)) f) f)"
proof -
  let ?n = "wpa_mic_len (sm_key_mgmt sm) (sm_pmk_len sm)"
  let ?a = "mic_attempt c (sm_tptk sm) (sm_key_mgmt sm) ver ?n (slice mic_offset ?n f) f"
  define first where "first = (if sm_tptk_set sm then ?a else (False, f))"
  show thesis
  proof (cases "fst first")
    case True
    then show thesis
      using assms tptk
      by (auto simp: first_def mic_valid_def wpa_supplicant_verify_eapol_key_mic_def Let_def accept_counter_def
          promote_tptk_def split: if_splits prod.splits)
  next
    case False
    then have "(r, sm') = (if sm_ptk_set sm \<and> mic_valid c (sm_ptk sm) ver f (snd first) sm
        then (0, accept_counter f sm) else (-1, sm))"
      using assms
      by (auto simp: first_def mic_valid_def wpa_supplicant_verify_eapol_key_mic_def Let_def accept_counter_def
          split: if_splits prod.splits)
    then show thesis
      using bad ptk [of "snd first"] by (cases "sm_tptk_set sm") (auto simp: first_def split: if_splits)
  qed
qed

lemma verify_mic_inv:
  assumes "install_inv e sm"
  shows "install_inv e (snd (wpa_supplicant_verify_eapol_key_mic c ver f sm))"
proof -
  obtain r sm' where v: "wpa_supplicant_verify_eapol_key_mic c ver f sm = (r, sm')" by fastforce
  then have "install_inv e sm'"
  proof (cases rule: verify_mic_cases)
    case bad
    then show ?thesis using assms by simp
  next
    case tptk
    then show ?thesis
      by (intro install_inv_mono [OF assms])
         (simp_all add: accept_counter_def promote_tptk_def install_credit_def)
  next
    case (ptk f')
    then show ?thesis
      by (intro install_inv_mono [OF assms]) (simp_all add: accept_counter_def install_credit_def)
  qed
  then show ?thesis using v by simp
qed

interpretation ki: rx_frame "keeps_install e" e
  by unfold_locales (simp add: keeps_install_def verify_mic_inv)

text \<open>Events that leave the keys alone.\<close>

lemma same_keys_inv:
  assumes "install_inv e t" "sm_trace u = sm_trace t" "sm_ptk u = sm_ptk t" "sm_tptk_set u = sm_tptk_set t"
    "sm_renew_snonce u = sm_renew_snonce t"
  shows "install_inv e u"
  using assms(1) install_inv_cong [of e u t] assms(2-) by simp

lemma cache_only_inv: "cache_only t u \<Longrightarrow> install_inv e t \<Longrightarrow> install_inv e u"
  using ki.cache [OF ki.refl, of t u e] by (simp add: keeps_install_def)

lemma set_param_same_keys:
  "sm_trace (snd (wpa_sm_set_param p v sm)) = sm_trace sm"
  "sm_ptk (snd (wpa_sm_set_param p v sm)) = sm_ptk sm"
  "sm_tptk_set (snd (wpa_sm_set_param p v sm)) = sm_tptk_set sm"
  "sm_renew_snonce (snd (wpa_sm_set_param p v sm)) = sm_renew_snonce sm"
  by (cases p; simp)+

lemma set_config_same_keys:
  "sm_trace (wpa_sm_set_config cf sm) = sm_trace sm" "sm_ptk (wpa_sm_set_config cf sm) = sm_ptk sm"
  "sm_tptk_set (wpa_sm_set_config cf sm) = sm_tptk_set sm"
  "sm_renew_snonce (wpa_sm_set_config cf sm) = sm_renew_snonce sm"
  by (simp_all add: wpa_sm_set_config_def Let_def split: option.split)

lemma notify_assoc_inv:
  assumes "install_inv e sm"
  shows "install_inv e (wpa_sm_notify_assoc bssid sm)"
proof -
  have "install_credit (wpa_sm_notify_assoc bssid sm) = 0"
    by (simp add: wpa_sm_notify_assoc_def Let_def install_credit_def ptk_zero_def rsn_preauth_deinit_def act_def)
  moreover have "sm_trace (wpa_sm_notify_assoc bssid sm) = sm_trace sm \<or>
      sm_trace (wpa_sm_notify_assoc bssid sm) = Rsn_preauth_deinit # sm_trace sm"
    by (simp add: wpa_sm_notify_assoc_def Let_def rsn_preauth_deinit_def act_def)
  ultimately show ?thesis using assms by (auto simp: install_inv_def)
qed

lemma drop_sa_inv: "install_inv e sm \<Longrightarrow> install_inv e (wpa_sm_drop_sa sm)"
  by (erule install_inv_mono) (simp_all add: wpa_sm_drop_sa_def install_credit_def ptk_zero_def)

lemma notify_disassoc_inv:
  assumes "install_inv e sm"
  shows "install_inv e (wpa_sm_notify_disassoc e sm)"
proof -
  define s1 where "s1 = pmksa_cache_clear_current (rsn_preauth_deinit (act (Timer_cancel Wpa_sm_rekey_ptk)
     (act (Timer_cancel Wpa_sm_start_preauth) sm)))"
  have "install_inv e s1"
    using assms by (simp add: s1_def pmksa_cache_clear_current_def rsn_preauth_deinit_def act_def
        install_inv_def install_credit_def)
  then have "install_inv e (wpa_sm_drop_sa (if e_state e (sm_trace s1) = WPA_4WAY_HANDSHAKE
      then s1\<lparr> sm_dot11RSNA4WayHandshakeFailures := sm_dot11RSNA4WayHandshakeFailures s1 + 1 \<rparr> else s1))"
    by (intro drop_sa_inv) (auto elim: same_keys_inv)
  then show ?thesis
    unfolding wpa_sm_notify_disassoc_def Let_def s1_def [symmetric] by (rule same_keys_inv) simp_all
qed

lemma kck_kek_inv: "install_inv e sm \<Longrightarrow> install_inv e (wpa_sm_set_ptk_kck_kek a b sm)"
  by (erule install_inv_mono)
     (simp_all add: wpa_sm_set_ptk_kck_kek_def Let_def install_credit_def split: option.split)

lemma ie_setters_inv:
  assumes "install_inv e sm"
  shows "install_inv e (snd (wpa_sm_set_assoc_wpa_ie e' ie sm))"
    "install_inv e (snd (wpa_sm_set_assoc_wpa_ie_default e' n sm))"
    "install_inv e (snd (wpa_sm_set_assoc_rsnxe e' ie sm))"
    "install_inv e (snd (wpa_sm_set_assoc_rsnxe_default e' n sm))"
    "install_inv e (snd (wpa_sm_set_ap_wpa_ie e' ie sm))"
    "install_inv e (snd (wpa_sm_set_ap_rsn_ie e' ie sm))"
    "install_inv e (snd (wpa_sm_set_ap_rsnxe e' ie sm))"
  by (rule same_keys_inv [OF assms];
      simp add: wpa_sm_set_assoc_wpa_ie_def wpa_sm_set_assoc_wpa_ie_default_def wpa_sm_set_assoc_rsnxe_def
        wpa_sm_set_assoc_rsnxe_default_def wpa_sm_set_ap_wpa_ie_def wpa_sm_set_ap_rsn_ie_def
        wpa_sm_set_ap_rsnxe_def split_beta Let_def split: option.split)+

lemma co_pmksa_add: "cache_only s t \<Longrightarrow> cache_only s (wpa_sm_pmksa_cache_add e c pmk pid bs fils t)"
  unfolding wpa_sm_pmksa_cache_add_def
  by (rule co.rules co_add | assumption | (erule co_fields; simp add: key_core_def; fail))+

lemma cache_events_inv:
  assumes "install_inv e sm"
  shows "install_inv e (wpa_sm_set_pmk e c pmk pid bssid sm)"
    "install_inv e (wpa_sm_set_pmk_from_pmksa sm)"
    "install_inv e (snd (pmksa_cache_set_current e c pid bssid ctx opp fils akmp sm))"
    "install_inv e (pmksa_cache_flush e ctx pm ext sm)"
    "install_inv e (wpa_sm_pmksa_cache_add e c pmk pid bs fils sm)"
    "install_inv e (pmksa_cache_reconfig e sm)" "install_inv e (pmksa_cache_expire e sm)"
    "install_inv e (pmksa_cache_reauth sm)"
    "install_inv e (snd (pmksa_cache_add_entry e en sm))"
  by (rule cache_only_inv [OF _ assms],
      rule co_set_pmk co_set_pmk_from_pmksa co_set_current co_flush co_pmksa_add co_reconfig co_expire co_reauth
        co_add_entry, rule co.refl)+

lemma exec_install_inv: "install_inv e sm \<Longrightarrow> install_inv e (wpa_exec e c ev sm)"
proof (cases ev)
  case (Rx_eapol src buf)
  assume "install_inv e sm"
  then show ?thesis
    using Rx_eapol ki.rx_eapol [OF ki.refl, of e sm c src buf] by (simp add: keeps_install_def)
next
  case (Rekey_timeout)
  assume "install_inv e sm"
  then show ?thesis
    using Rekey_timeout ki.key_request [OF ki.refl, of e sm e c False True]
    by (simp add: keeps_install_def wpa_sm_rekey_ptk_def)
next
  case (Key_request err pw)
  assume "install_inv e sm"
  then show ?thesis
    using Key_request ki.key_request [OF ki.refl, of e sm e c err pw] by (simp add: keeps_install_def)
next
  case (Wnmsleep_install_key i buf)
  assume "install_inv e sm"
  then show ?thesis
    using Wnmsleep_install_key ki.wnmsleep_install [OF ki.refl, of e sm i buf] by (simp add: keeps_install_def)
next
  case (Pmksa_add_entry en)
  assume inv: "install_inv e sm"
  then have "install_inv e (sm\<lparr> sm_pmksa_next_id := sm_pmksa_next_id sm + 1 \<rparr>)"
    by (rule same_keys_inv) simp_all
  then show ?thesis using Pmksa_add_entry inv cache_events_inv(9) by simp
qed (simp_all add: notify_assoc_inv notify_disassoc_inv drop_sa_inv kck_kek_inv ie_setters_inv
    cache_events_inv same_keys_inv [OF _ set_param_same_keys] same_keys_inv [OF _ set_config_same_keys],
    (erule same_keys_inv; simp add: wpa_sm_aborted_cached_def wpa_sm_aborted_external_cached_def
       wpa_sm_set_own_addr_def wpa_sm_set_eapol_def wpa_sm_update_replay_ctr_def wpa_sm_set_rx_replay_ctr_def
       split: option.split)+)

text \<open>C1: key reinstallation is impossible: whatever frames, notifications and
  timeouts the state machine gets, the number of pairwise keys that were
  installed in the driver never exceeds the number of SNonces that were drawn.
  A retransmitted message 3/4, in particular, installs nothing.\<close>

theorem ptk_installed_once_per_snonce:
  assumes "wpa_reachable e c sm"
  shows "ptk_installs e (sm_trace sm) \<le> snonce_draws e (sm_trace sm)"
proof -
  have "install_inv e sm"
    using assms
  proof (induction rule: wpa_reachable.induct)
    case init
    show ?case by (simp add: install_inv_def install_credit_def wpa_sm_init_def wpa_sm_zero_def ptk_zero_def)
  next
    case (step sm ev)
    then show ?case by (simp add: exec_install_inv)
  qed
  then show ?thesis by (simp add: install_inv_def)
qed


section \<open>The PMKSA cache in the handshakes\<close>

definition keeps_pmksa :: "wpa_sm \<Rightarrow> wpa_sm \<Rightarrow> bool" where
  "keeps_pmksa s t \<longleftrightarrow> (pmksa_ok s \<longrightarrow> pmksa_ok t)"

lemma same_cache_ok: "cache_core u = cache_core t \<Longrightarrow> pmksa_ok t \<Longrightarrow> pmksa_ok u"
  by (rule pmksa_ok_cong [of u t]) (simp_all add: cache_core_def)

interpretation kp: state_frame keeps_pmksa
  by unfold_locales (auto simp: keeps_pmksa_def)

lemma kp_cache: "keeps_pmksa s t \<Longrightarrow> cache_core u = cache_core t \<Longrightarrow> keeps_pmksa s u"
  using same_cache_ok by (auto simp: keeps_pmksa_def)

lemma cache_core_act [simp]: "cache_core (act a t) = cache_core t"
  by (simp add: cache_core_def)

interpretation kp: tx_frame keeps_pmksa
  by unfold_locales (auto elim: kp_cache simp: core_def)

lemma kp_add: "keeps_pmksa s t \<Longrightarrow> keeps_pmksa s (snd (pmksa_cache_add e c pmk pid kk aa spa ctx akmp cid t))"
  using pmksa_add_spec [OF _ prod.collapse [symmetric], of t e c pmk pid kk aa spa ctx akmp cid]
  by (simp add: keeps_pmksa_def)

lemma kp_add_cur:
  assumes "keeps_pmksa s t" "pmksa_cache_add e c pmk pid kk aa spa ctx akmp cid t = (sa, u)"
  shows "keeps_pmksa s (u\<lparr> sm_cur_pmksa := sa \<rparr>)"
proof -
  have "pmksa_ok (u\<lparr> sm_cur_pmksa := sa \<rparr>)" if "pmksa_ok t"
    using pmksa_add_spec [OF that assms(2)] by (intro pmksa_ok_curI) (auto simp: added_def)
  then show ?thesis using assms(1) by (simp add: keeps_pmksa_def)
qed

lemma kp_no_cur: "keeps_pmksa s t \<Longrightarrow> keeps_pmksa s (t\<lparr> sm_cur_pmksa := None \<rparr>)"
  by (auto simp: keeps_pmksa_def intro: pmksa_ok_curI)

lemma kp_get_cur:
  assumes "keeps_pmksa s t" "pmksa_cache_get t aa pid ctx akmp = Some en"
  shows "keeps_pmksa s (t\<lparr> sm_cur_pmksa := Some (pe_id en) \<rparr>)"
  using assms pmksa_ok_get_cur [of t aa pid ctx akmp] by (simp add: keeps_pmksa_def)

lemma kp_update_opp: "keeps_pmksa s t \<Longrightarrow> keeps_pmksa s (pmksa_update i (\<lambda>en. en\<lparr> pe_opportunistic := b \<rparr>) t)"
  unfolding keeps_pmksa_def by (auto intro!: pmksa_update_ok simp: entry_wf_def)

lemma kp_suite_b: "keeps_pmksa s t \<Longrightarrow> keeps_pmksa s (suite_b_cache_pmk e c t)"
  unfolding suite_b_cache_pmk_def by (rule kp.rules kp_add | assumption | (rule kp_add_cur, assumption, assumption))+

lemma kp_set_pmk_from_pmksa: "keeps_pmksa s t \<Longrightarrow> keeps_pmksa s (wpa_sm_set_pmk_from_pmksa t)"
  unfolding wpa_sm_set_pmk_from_pmksa_def
  by (rule kp.rules | assumption | (erule kp_cache; simp add: cache_core_def; fail))+

lemma kp_cache_eapol: "keeps_pmksa s t \<Longrightarrow> keeps_pmksa s (snd (cache_eapol_pmk e c src t))"
  unfolding cache_eapol_pmk_def by (rule kp.rules kp_add | assumption)+

lemma kp_cache_eapol_cur:
  assumes "keeps_pmksa s t" "cache_eapol_pmk e c src t = (sa, u)"
  shows "keeps_pmksa s (u\<lparr> sm_cur_pmksa := sa \<rparr>)"
  using assms kp_add_cur [OF assms(1)] kp_no_cur [OF assms(1)]
  by (auto simp: cache_eapol_pmk_def split: if_splits)

lemma kp_get_pmk_eapol: "keeps_pmksa s t \<Longrightarrow> keeps_pmksa s (snd (get_pmk_eapol e c src pid ab t))"
  unfolding get_pmk_eapol_def
  by (rule kp.rules kp_cache_eapol kp.get_pmk_finish kp.plain kp_no_cur | assumption
      | (rule kp_cache_eapol_cur, assumption, assumption)
      | (erule kp_cache; simp add: cache_core_def; fail) | (simp; fail))+

lemma kp_get_pmk: "keeps_pmksa s t \<Longrightarrow> keeps_pmksa s (snd (wpa_supplicant_get_pmk e c src pid t))"
  unfolding wpa_supplicant_get_pmk_def
  by (rule kp.rules kp.get_pmk_finish kp_get_pmk_eapol kp.eapol_notify kp_set_pmk_from_pmksa | assumption
      | (rule kp_get_cur, assumption, assumption) | (simp; fail))+

interpretation kp: rx_frame keeps_pmksa e
proof
  show "keeps_pmksa s (snd (renew_snonce_step e t))" if "keeps_pmksa s t" for s t
    using that unfolding renew_snonce_step_def
    by - (rule kp.rules | assumption | (erule kp_cache; simp add: cache_core_def; fail))+
  show "keeps_pmksa s (snd (wpa_supplicant_install_ptk e f fl t))" if "keeps_pmksa s t" for s t f fl
    using that unfolding wpa_supplicant_install_ptk_def wpa_sm_set_key_def call_def
    by - (rule kp.rules | assumption | (erule kp_cache; simp add: cache_core_def; fail))+
  show "keeps_pmksa s (snd (wpa_supplicant_verify_eapol_key_mic c ver f t))" if "keeps_pmksa s t" for s t c ver f
    using that unfolding wpa_supplicant_verify_eapol_key_mic_def
    by - (rule kp.rules | assumption | (erule kp_cache; simp add: cache_core_def; fail))+
qed (auto elim: kp_cache intro: kp_get_pmk kp_update_opp kp_suite_b simp: cache_core_def)

lemma exec_pmksa_ok:
  assumes ok: "pmksa_ok sm"
  shows "pmksa_ok (wpa_exec e c ev sm)"
proof (cases ev)
  case (Rx_eapol src buf)
  then show ?thesis
    using ok kp.rx_eapol [OF kp.refl, of sm e c src buf] by (simp add: keeps_pmksa_def)
next
  case Rekey_timeout
  then show ?thesis
    using ok kp.key_request [OF kp.refl, of sm e c False True]
    by (simp add: keeps_pmksa_def wpa_sm_rekey_ptk_def)
next
  case (Key_request err pw)
  then show ?thesis
    using ok kp.key_request [OF kp.refl, of sm e c err pw] by (simp add: keeps_pmksa_def)
next
  case (Wnmsleep_install_key i buf)
  then show ?thesis
    using ok kp.wnmsleep_install [OF kp.refl, of sm e i buf] by (simp add: keeps_pmksa_def)
next
  case (Set_current pid bssid ctx opp fils akmp)
  then show ?thesis
    using set_current_spec [OF ok prod.collapse [symmetric], of e c pid bssid ctx opp fils akmp] by simp
next
  case (Pmksa_add pmk pid bssid fils)
  let ?r = "pmksa_cache_add e c pmk pid None bssid (sm_own_addr sm) (sm_network_ctx sm) (sm_key_mgmt sm) fils sm"
  have "keeps_pmksa sm ((snd ?r)\<lparr> sm_cur_pmksa := fst ?r \<rparr>)"
    by (rule kp_add_cur [OF kp.refl prod.collapse [symmetric]])
  then show ?thesis
    using Pmksa_add ok by (simp add: keeps_pmksa_def wpa_sm_pmksa_cache_add_def split_beta)
next
  case (Pmksa_add_entry en)
  let ?sm = "sm\<lparr> sm_pmksa_next_id := sm_pmksa_next_id sm + 1 \<rparr>" and ?en = "en\<lparr> pe_id := sm_pmksa_next_id sm \<rparr>"
  have "pmksa_ok ?sm" "sm_pmksa_next_id sm \<notin> pe_id ` set (sm_pmksa sm)"
    using ok by (auto simp: pmksa_ok_def pmksa_inv_def pmksa_live_def less_Suc_eq)
  then show ?thesis
    using Pmksa_add_entry ok add_entry_spec [OF _ _ _ _ prod.collapse [symmetric], of ?sm ?en e]
    by (simp add: entry_wf_def)
next
  case Pmksa_reconfig
  have "cache_core (reconfig_loop now l t) = cache_core t" for now l t
    by (induction l arbitrary: t) (simp_all add: Let_def)
  then show ?thesis
    using Pmksa_reconfig ok same_cache_ok [of "reconfig_loop (e_now e (sm_trace sm)) (sm_pmksa sm) sm" sm]
    by (simp add: pmksa_cache_reconfig_def)
next
  case (Set_param p v)
  have "cache_core (snd (wpa_sm_set_param p v sm)) = cache_core sm"
    by (cases p) (simp_all add: cache_core_def)
  then show ?thesis using Set_param ok same_cache_ok by simp
next
  case Notify_disassoc
  then show ?thesis
    using ok
    by (auto simp: wpa_sm_notify_disassoc_def Let_def wpa_sm_drop_sa_def pmksa_cache_clear_current_def
        rsn_preauth_deinit_def intro: pmksa_ok_cong [of _ sm])
qed (use ok in \<open>simp_all add: set_pmk_ok flush_ok expire_spec\<close>,
    (rule pmksa_ok_cong [OF _ _ _ _ _ ok];
      simp add: wpa_sm_notify_assoc_def Let_def rsn_preauth_deinit_def wpa_sm_drop_sa_def
        wpa_sm_set_pmk_from_pmksa_def wpa_sm_aborted_cached_def wpa_sm_aborted_external_cached_def
        pmksa_cache_reauth_def wpa_sm_set_config_def wpa_sm_set_own_addr_def wpa_sm_set_eapol_def
        wpa_sm_set_assoc_wpa_ie_def wpa_sm_set_assoc_wpa_ie_default_def wpa_sm_set_assoc_rsnxe_def
        wpa_sm_set_assoc_rsnxe_default_def wpa_sm_set_ap_wpa_ie_def wpa_sm_set_ap_rsn_ie_def
        wpa_sm_set_ap_rsnxe_def wpa_sm_update_replay_ctr_def wpa_sm_set_rx_replay_ctr_def
        wpa_sm_set_ptk_kck_kek_def split_beta split: option.split)+)

text \<open>C4: in every reachable state the PMKSA cache is consistent: at most 32
  entries, one per authenticator, the counter counts them, nothing that was
  unlinked is left unfreed, and the pointer to the current entry is not
  dangling.\<close>

theorem pmksa_cache_always_ok:
  assumes "wpa_reachable e c sm"
  shows "pmksa_ok sm \<and> (sm_cur_pmksa sm \<noteq> None \<longrightarrow> cur_pmksa_entry sm \<noteq> None)"
proof -
  have ok: "pmksa_ok sm"
    using assms
  proof (induction rule: wpa_reachable.induct)
    case init
    show ?case by (simp add: pmksa_ok_def pmksa_inv_def pmksa_live_def wpa_sm_init_def wpa_sm_zero_def)
  next
    case (step sm ev)
    then show ?case by (simp add: exec_pmksa_ok)
  qed
  moreover have "cur_pmksa_entry sm \<noteq> None" if "sm_cur_pmksa sm = Some i" for i
    using that ok pmksa_deref_live [of sm]
    by (fastforce simp: pmksa_ok_def pmksa_inv_def pmksa_live_def cur_pmksa_entry_def)
  ultimately show ?thesis by auto
qed


section \<open>Replay counter\<close>

definition same_counter :: "wpa_sm \<Rightarrow> wpa_sm \<Rightarrow> bool" where
  "same_counter s t \<longleftrightarrow> sm_rx_replay_counter t = sm_rx_replay_counter s \<and>
     sm_rx_replay_counter_set t = sm_rx_replay_counter_set s"

interpretation sc: key_frame same_counter
  by unfold_locales (auto simp: same_counter_def cache_only_def key_core_def)

lemma sc_act [simp]: "same_counter s (act a t) = same_counter s t"
  by (simp add: same_counter_def act_def)

interpretation sc: key_handshake_frame same_counter e
proof
  show "same_counter s (snd (renew_snonce_step e t))" if "same_counter s t" for s t
    using that unfolding renew_snonce_step_def
    by - (rule sc.rules | assumption | (simp add: same_counter_def act_def; fail))+
  show "same_counter s (snd (wpa_supplicant_install_ptk e f fl t))" if "same_counter s t" for s t f fl
    using that unfolding wpa_supplicant_install_ptk_def wpa_sm_set_key_def call_def
    by - (rule sc.rules | assumption | (simp add: same_counter_def act_def; fail))+
qed (simp_all add: same_counter_def act_def)

text \<open>What becomes of a received frame: it is ignored, or its checks succeed and
  it is dispatched to a handler, unless its Key Data cannot be decrypted.\<close>

abbreviation (input) rsn_proto :: "wpa_sm \<Rightarrow> bool" where
  "rsn_proto sm \<equiv> sm_proto sm = WPA_PROTO_RSN \<or> sm_proto sm = WPA_PROTO_OSEN"

lemma notify_sel [simp]:
  "sm_rx_replay_counter (eapol_notify a sm) = sm_rx_replay_counter sm"
  "sm_rx_replay_counter_set (eapol_notify a sm) = sm_rx_replay_counter_set sm"
  "sm_proto (eapol_notify a sm) = sm_proto sm" "sm_key_mgmt (eapol_notify a sm) = sm_key_mgmt sm"
  "sm_pmk_len (eapol_notify a sm) = sm_pmk_len sm" "sm_ptk (eapol_notify a sm) = sm_ptk sm"
  "sm_tptk (eapol_notify a sm) = sm_tptk sm" "sm_tptk_set (eapol_notify a sm) = sm_tptk_set sm"
  "sm_ptk_set (eapol_notify a sm) = sm_ptk_set sm"
  by (simp_all add: eapol_notify_def act_def)

lemma rx_eapol_cases:
  assumes rx: "wpa_sm_rx_eapol e c src buf sm = (r, sm')"
  obtains (ignored) "sm' = sm \<or> sm' = eapol_notify Eapol_notify_lower_layer_success sm"
  | (checked) f n kd s1 s2 where
      "rx_header e buf sm = Inr (f, n, kd)" "s1 = eapol_notify Eapol_notify_lower_layer_success sm"
      "\<not> rx_replayed f s1" "rx_version_ok (key_info f) s1"
      "if has (key_info f) WPA_KEY_INFO_MIC
       then wpa_supplicant_verify_eapol_key_mic c (key_info f AND WPA_KEY_INFO_TYPE_MASK) f s1 = (0, s2)
       else s2 = s1"
      "sm' = s2 \<or> (\<exists>kd'. rx_dispatch e c src f n kd' s2 = (r, sm') \<and>
         (rsn_proto s2 \<and> has (key_info f) WPA_KEY_INFO_ENCR_KEY_DATA \<and> n \<noteq> 0 \<longrightarrow>
            has (key_info f) WPA_KEY_INFO_MIC))"
proof (cases "rx_header e buf sm")
  case (Inl ret)
  then show thesis using rx ignored by (simp add: wpa_sm_rx_eapol_def)
next
  case (Inr x)
  obtain f n kd where hd: "rx_header e buf sm = Inr (f, n, kd)" using Inr by (cases x) auto
  define s1 where "s1 = eapol_notify Eapol_notify_lower_layer_success sm"
  let ?info = "key_info f"
  obtain m s2 where ms2: "(if has ?info WPA_KEY_INFO_MIC
      then wpa_supplicant_verify_eapol_key_mic c (?info AND WPA_KEY_INFO_TYPE_MASK) f s1 else (0, s1)) = (m, s2)"
    by fastforce
  note unf = rx [unfolded wpa_sm_rx_eapol_def hd sum.case prod.case Let_def s1_def [symmetric] ms2]
  show thesis
  proof (cases "rx_version_ok ?info s1 \<and> \<not> rx_replayed f s1 \<and> \<not> has ?info WPA_KEY_INFO_SMK_MESSAGE \<and>
      has ?info WPA_KEY_INFO_ACK \<and> \<not> has ?info WPA_KEY_INFO_REQUEST")
    case False
    then have "sm' = s1" using unf by (auto split: if_splits)
    then show thesis using ignored s1_def by blast
  next
    case ok: True
    show thesis
    proof (cases "m = 0")
      case False
      then have "has ?info WPA_KEY_INFO_MIC" "sm' = s2" using ms2 ok unf by (auto split: if_splits)
      moreover from this ms2 False have "s2 = s1"
        by (auto elim!: verify_mic_cases)
      ultimately show thesis using ignored s1_def by blast
    next
      case True
      have "if has ?info WPA_KEY_INFO_MIC
        then wpa_supplicant_verify_eapol_key_mic c (?info AND WPA_KEY_INFO_TYPE_MASK) f s1 = (0, s2) else s2 = s1"
        using ms2 True by (auto split: if_splits)
      moreover have "sm' = s2 \<or> (\<exists>kd'. rx_dispatch e c src f n kd' s2 = (r, sm') \<and>
         (rsn_proto s2 \<and> has ?info WPA_KEY_INFO_ENCR_KEY_DATA \<and> n \<noteq> 0 \<longrightarrow> has ?info WPA_KEY_INFO_MIC))"
        using unf True ok by (auto split: if_splits option.splits)
      ultimately show thesis using checked hd s1_def ok by blast
    qed
  qed
qed



section \<open>Authenticity\<close>

text \<open>The documented sizes of the results of the cryptographic library.\<close>

definition crypto_sizes_ok :: "crypto \<Rightarrow> bool" where
  "crypto_sizes_ok c \<longleftrightarrow> mac_lengths_ok c \<and>
     (\<forall>k enc b. aes_encrypt_init c k = Some enc \<longrightarrow> length (enc b) = 16)"

text \<open>The key management suites with a MIC whose length does not depend on the
  PMK.\<close>

definition fixed_mic :: "u32 \<Rightarrow> bool" where
  "fixed_mic akmp \<longleftrightarrow> akmp \<noteq> WPA_KEY_MGMT_OWE \<and> akmp \<noteq> WPA_KEY_MGMT_DPP \<and>
     akmp \<notin> {WPA_KEY_MGMT_FILS_SHA256, WPA_KEY_MGMT_FILS_SHA384,
              WPA_KEY_MGMT_FT_FILS_SHA256, WPA_KEY_MGMT_FT_FILS_SHA384}"

lemma fixed_mic_len: "fixed_mic akmp \<Longrightarrow> wpa_mic_len akmp n = wpa_mic_len akmp m \<and> wpa_mic_len akmp n \<ge> 16"
  by (simp add: fixed_mic_def wpa_mic_len_def)

lemma length_omac1:
  assumes "crypto_sizes_ok c" "omac1_aes_128 c k d = Some m"
  shows "length m = 16"
  using assms
  by (auto simp: omac1_aes_128_def omac1_aes_vector_def crypto_sizes_ok_def Let_def split_beta
      split: option.splits)

text \<open>The descriptor version decides the algorithm; with the version that the
  receive function insists on, the MIC has the length of the field.\<close>

lemma length_eapol_key_mic:
  assumes "crypto_sizes_ok c" "fixed_mic akmp" "wpa_eapol_key_mic c k kl akmp ver buf = Some m"
    and ver: "wpa_use_akm_defined akmp \<longrightarrow> ver = WPA_KEY_INFO_TYPE_AKM_DEFINED"
  shows "length m = wpa_mic_len akmp n"
proof -
  have ml: "mac_lengths_ok c" using assms(1) by (simp add: crypto_sizes_ok_def)
  note len = mac_lengths_okD [OF ml] length_omac1 [OF assms(1)]
  have sb: "akmp = WPA_KEY_MGMT_IEEE8021X_SUITE_B_192 \<or> akmp = WPA_KEY_MGMT_FT_IEEE8021X_SHA384 \<Longrightarrow>
      ver = WPA_KEY_INFO_TYPE_AKM_DEFINED"
    using ver by (auto simp: wpa_use_akm_defined_def wpa_key_mgmt_suite_b_def)
  show ?thesis
    using assms(2,3) sb
    by (auto simp: wpa_eapol_key_mic_def wpa_mic_len_def fixed_mic_def Let_def len
        dest: len split: if_splits)
qed

lemma overwrite_twice:
  "length a = length b \<Longrightarrow> overwrite off a (overwrite off b xs) = overwrite off a xs"
  by (cases "off + length b \<le> length xs"; cases "off \<le> length xs")
     (auto simp: overwrite_def min_def simp flip: length_0_conv)

text \<open>The MIC field of the frame holds the MIC of the frame with the field
  cleared, under the KCK of the given key.\<close>

definition authentic :: "crypto \<Rightarrow> wpa_ptk \<Rightarrow> bytes \<Rightarrow> wpa_sm \<Rightarrow> bool" where
  "authentic c ptk f sm \<longleftrightarrow>
     (let n = wpa_mic_len (sm_key_mgmt sm) (sm_pmk_len sm)
      in wpa_eapol_key_mic c (kck ptk) (kck_len ptk) (sm_key_mgmt sm)
           (key_info f AND WPA_KEY_INFO_TYPE_MASK) (overwrite mic_offset (zeros n) f) =
         Some (slice mic_offset n f))"

lemma mic_valid_authentic:
  assumes c: "crypto_sizes_ok c" "fixed_mic (sm_key_mgmt sm)"
      "wpa_use_akm_defined (sm_key_mgmt sm) \<longrightarrow> ver = WPA_KEY_INFO_TYPE_AKM_DEFINED"
    and ver: "ver = key_info f AND WPA_KEY_INFO_TYPE_MASK"
    and f': "overwrite mic_offset (zeros (wpa_mic_len (sm_key_mgmt sm) (sm_pmk_len sm))) f' =
             overwrite mic_offset (zeros (wpa_mic_len (sm_key_mgmt sm) (sm_pmk_len sm))) f"
    and len: "mic_offset + wpa_mic_len (sm_key_mgmt sm) (sm_pmk_len sm) \<le> length f"
    and valid: "mic_valid c ptk ver f f' sm"
  shows "authentic c ptk f sm"
proof -
  let ?n = "wpa_mic_len (sm_key_mgmt sm) (sm_pmk_len sm)"
  let ?f0 = "overwrite mic_offset (zeros ?n) f"
  from valid obtain m where
    m: "wpa_eapol_key_mic c (kck ptk) (kck_len ptk) (sm_key_mgmt sm) ver ?f0 = Some m"
      "slice mic_offset ?n (overwrite mic_offset m ?f0) = slice mic_offset ?n f"
    by (auto simp: mic_valid_def mic_attempt_def Let_def f' split: option.splits)
  have lm: "length m = ?n" by (rule length_eapol_key_mic [OF c(1,2) m(1) c(3)])
  then have "slice mic_offset ?n (overwrite mic_offset m ?f0) = m"
    using slice_overwrite_same [of mic_offset m ?f0] len by simp
  then show ?thesis using m by (simp add: authentic_def Let_def ver)
qed

text \<open>A failed attempt with the temporary key does not disturb the second
  attempt.\<close>

lemma mic_attempt_scratch:
  assumes "crypto_sizes_ok c" "fixed_mic akmp"
    "wpa_use_akm_defined akmp \<longrightarrow> ver = WPA_KEY_INFO_TYPE_AKM_DEFINED" "n = wpa_mic_len akmp pl"
  shows "overwrite mic_offset (zeros n) (snd (mic_attempt c ptk akmp ver n mic f)) =
         overwrite mic_offset (zeros n) f"
  using length_eapol_key_mic [OF assms(1,2) _ assms(3)] assms(4)
  by (auto simp: mic_attempt_def Let_def overwrite_twice split: option.split)

lemma rx_header_bounds:
  assumes "rx_header e buf sm = Inr (f, n, kd)"
  shows "mic_offset + n + 2 + length kd \<le> length f" "n = wpa_mic_len (sm_key_mgmt sm)
     (if sm_pmk_len sm = 0 then (case cur_pmksa_entry sm of Some en \<Rightarrow> pe_pmk_len en | None \<Rightarrow> 0)
      else sm_pmk_len sm)"
    "f = take (unat (get_be16 buf 2) + 4) buf" "length f = unat (get_be16 buf 2) + 4"
  using assms unfolding rx_header_def Let_def by (auto split: if_splits)

definition set_keys :: "action list \<Rightarrow> action list" where
  "set_keys tr = filter is_set_key tr"

text \<open>The actions that have to be authenticated: keys for the driver, and the notification
  that opens the controlled port.\<close>

definition secured :: "action list \<Rightarrow> action list" where
  "secured tr = filter (\<lambda>a. is_set_key a \<or> is_port_valid a) tr"

lemma set_keys_secured: "set_keys tr = filter is_set_key (secured tr)"
  by (auto simp: set_keys_def secured_def intro: filter_cong)

definition same_secured :: "wpa_sm \<Rightarrow> wpa_sm \<Rightarrow> bool" where
  "same_secured s t \<longleftrightarrow> secured (sm_trace t) = secured (sm_trace s)"

lemma plain_secured: "\<forall>a \<in> set l. plain_action a \<Longrightarrow> secured (l @ tr) = secured tr"
  by (simp add: secured_def filter_empty_conv)

interpretation sk: key_frame same_secured
  by unfold_locales (auto simp: same_secured_def cache_only_def plain_secured)

interpretation sk: key_msg1_frame same_secured e
proof
  show "same_secured s (snd (renew_snonce_step e t))" if "same_secured s t" for s t
    using that unfolding renew_snonce_step_def
    by - (rule sk.rules | assumption | (simp add: same_secured_def secured_def act_def; fail))+
qed (simp add: same_secured_def)

lemma notify_lower_layer: "same_secured sm (eapol_notify Eapol_notify_lower_layer_success sm)"
  by (rule sk.eapol_notify [OF sk.refl]) simp

text \<open>Without a MIC a frame of an RSN association reaches no handler that installs
  keys.\<close>

lemma dispatch_without_mic:
  assumes "\<not> has (key_info f) WPA_KEY_INFO_MIC" "n \<noteq> 0" "\<not> has (key_info f) WPA_KEY_INFO_ENCR_KEY_DATA"
  shows "same_secured s (snd (rx_dispatch e c src f n kd s))"
proof -
  have "\<not> has (key_info f) (WPA_KEY_INFO_MIC OR WPA_KEY_INFO_ENCR_KEY_DATA)"
    using assms(1,3) bit.conj_disj_distrib [of "key_info f" WPA_KEY_INFO_MIC WPA_KEY_INFO_ENCR_KEY_DATA]
    by simp
  then show ?thesis
    using assms(1,2) sk.process_1_of_4 [OF sk.refl, of s e c src f] sk.refl
    by (simp add: rx_dispatch_def Let_def)
qed

lemma secured_from_authentic_frame:
  assumes "rsn_proto sm" "fixed_mic (sm_key_mgmt sm)" "crypto_sizes_ok c"
    and rx: "wpa_sm_rx_eapol e c src buf sm = (r, sm')"
    and keys: "secured (sm_trace sm') \<noteq> secured (sm_trace sm)"
  shows "\<exists>f n kd ptk. rx_header e buf sm = Inr (f, n, kd) \<and> has (key_info f) WPA_KEY_INFO_MIC \<and>
    \<not> rx_replayed f sm \<and>
    (sm_tptk_set sm \<and> ptk = sm_tptk sm \<or> sm_ptk_set sm \<and> ptk = sm_ptk sm) \<and> authentic c ptk f sm"
  using rx
proof (cases rule: rx_eapol_cases)
  case ignored
  then show ?thesis
    using keys notify_lower_layer [of sm] by (auto simp: same_secured_def)
next
  case (checked f n kd s1 s2)
  let ?ver = "key_info f AND WPA_KEY_INFO_TYPE_MASK" and ?n = "wpa_mic_len (sm_key_mgmt sm) (sm_pmk_len sm)"
  have n: "n = ?n" "16 \<le> n"
    using rx_header_bounds(2) [OF checked(1)] fixed_mic_len [OF assms(2)] by auto
  have s1: "same_secured sm s1" by (simp add: checked(2) notify_lower_layer)
  have same: "mic_valid c p ver f f' s1 = mic_valid c p ver f f' sm" for p ver f f'
    by (simp add: checked(2) mic_valid_def)
  have mic: "has (key_info f) WPA_KEY_INFO_MIC"
  proof (rule ccontr)
    assume no: "\<not> has (key_info f) WPA_KEY_INFO_MIC"
    then have "s2 = s1" using checked(5) by simp
    moreover have "rsn_proto s2" using assms(1) \<open>s2 = s1\<close> checked(2) by simp
    moreover have "same_secured s2 sm'"
    proof (cases "sm' = s2")
      case False
      then obtain kd' where d: "rx_dispatch e c src f n kd' s2 = (r, sm')"
        and enc: "\<not> has (key_info f) WPA_KEY_INFO_ENCR_KEY_DATA"
        using checked(6) no n(2) \<open>rsn_proto s2\<close> by auto
      show ?thesis using dispatch_without_mic [OF no _ enc, of n s2 e c src kd'] d n(2) by simp
    qed (simp add: sk.refl)
    ultimately have "same_secured s1 sm'" by simp
    then show False using keys s1 by (simp add: same_secured_def)
  qed
  have ver: "wpa_use_akm_defined (sm_key_mgmt sm) \<longrightarrow> ?ver = WPA_KEY_INFO_TYPE_AKM_DEFINED"
    using checked(2,4) by (auto simp: rx_version_ok_def Let_def split: if_splits)
  have len: "mic_offset + ?n \<le> length f" using rx_header_bounds(1) [OF checked(1)] n by simp
  note auth = mic_valid_authentic [OF assms(3,2) ver refl _ len]
  have "wpa_supplicant_verify_eapol_key_mic c ?ver f s1 = (0, s2)" using checked(5) mic by simp
  then obtain p where p: "sm_tptk_set sm \<and> p = sm_tptk sm \<or> sm_ptk_set sm \<and> p = sm_ptk sm"
    "authentic c p f sm"
  proof (cases rule: verify_mic_cases)
    case tptk
    then show thesis using that [of "sm_tptk sm"] auth [OF refl] same checked(2) by simp
  next
    case (ptk f')
    have "overwrite mic_offset (zeros ?n) f' = overwrite mic_offset (zeros ?n) f"
      using ptk(5) mic_attempt_scratch [OF assms(3,2) ver refl] by (auto simp: checked(2))
    then show thesis using that [of "sm_ptk sm"] auth ptk(2,3) same checked(2) by simp
  qed simp
  then show ?thesis using checked(1,3) mic by (auto simp: rx_replayed_def checked(2))
qed



section \<open>Group keys\<close>

lemma slice_overwrite_prefix: "length k \<le> length a \<Longrightarrow> slice 0 (length k) (overwrite 0 k a) = k"
  using slice_overwrite_same [of 0 k a] by simp


text \<open>The same for the keys that protect group-addressed management frames
  and Beacon frames.\<close>

theorem igtk_bigtk_not_reinstalled:
  assumes "length (igtk_key (sm_igtk sm)) = 32" "length (bigtk_key (sm_bigtk sm)) = 32"
    "length kde = 8 + wpa_cipher_key_len (sm_mgmt_group_cipher sm)"
    and igtk: "wpa_supplicant_install_igtk e kde False sm = (0, sm1)"
    and bigtk: "wpa_supplicant_install_bigtk e kde False sm = (0, sm2)"
  shows "wpa_supplicant_install_igtk e kde wnm sm1 = (0, sm1) \<and>
         wpa_supplicant_install_bigtk e kde wnm sm2 = (0, sm2)"
proof -
  let ?n = "wpa_cipher_key_len (sm_mgmt_group_cipher sm)"
  let ?k = "slice 8 ?n kde"
  have k: "length ?k = ?n" "?n \<le> 32" using assms(3) by (simp_all add: wpa_cipher_key_len_def)
  have "sm_mgmt_group_cipher sm1 = sm_mgmt_group_cipher sm \<and> igtk_in_use ?k sm1"
  proof (cases "igtk_in_use ?k sm")
    case True
    then show ?thesis using igtk by (simp add: wpa_supplicant_install_igtk_def)
  next
    case False
    then have "igtk_len (sm_igtk sm1) = ?n \<and> igtk_key (sm_igtk sm1) = overwrite 0 ?k (igtk_key (sm_igtk sm)) \<and>
        sm_mgmt_group_cipher sm1 = sm_mgmt_group_cipher sm"
      using igtk
      by (auto simp: wpa_supplicant_install_igtk_def Let_def wpa_sm_set_key_def call_def act_def split: if_splits)
    then show ?thesis
      using slice_overwrite_prefix [of ?k "igtk_key (sm_igtk sm)"] k assms(1) by (simp add: igtk_in_use_def)
  qed
  moreover have "sm_mgmt_group_cipher sm2 = sm_mgmt_group_cipher sm \<and> bigtk_in_use ?k sm2"
  proof (cases "bigtk_in_use ?k sm")
    case True
    then show ?thesis using bigtk by (simp add: wpa_supplicant_install_bigtk_def)
  next
    case False
    then have "bigtk_len (sm_bigtk sm2) = ?n \<and> bigtk_key (sm_bigtk sm2) = overwrite 0 ?k (bigtk_key (sm_bigtk sm)) \<and>
        sm_mgmt_group_cipher sm2 = sm_mgmt_group_cipher sm"
      using bigtk
      by (auto simp: wpa_supplicant_install_bigtk_def Let_def wpa_sm_set_key_def call_def act_def split: if_splits)
    then show ?thesis
      using slice_overwrite_prefix [of ?k "bigtk_key (sm_bigtk sm)"] k assms(2) by (simp add: bigtk_in_use_def)
  qed
  ultimately show ?thesis by (simp add: wpa_supplicant_install_igtk_def wpa_supplicant_install_bigtk_def Let_def)
qed

lemma notify_assoc_sel:
  "sm_gtk (wpa_sm_notify_assoc bssid sm) = gtk_zero" "sm_igtk (wpa_sm_notify_assoc bssid sm) = igtk_zero"
  "sm_bigtk (wpa_sm_notify_assoc bssid sm) = sm_bigtk sm"
  "sm_bigtk_wnm_sleep (wpa_sm_notify_assoc bssid sm) = sm_bigtk_wnm_sleep sm"
  "sm_mgmt_group_cipher (wpa_sm_notify_assoc bssid sm) = sm_mgmt_group_cipher sm"
  by (simp_all add: wpa_sm_notify_assoc_def Let_def rsn_preauth_deinit_def act_def)

text \<open>C39: a new association forgets the group keys of the old one, except the key
  that protects Beacon frames: when the new access point delivers the same BIGTK,
  it is taken for a reinstallation and does not reach the driver.\<close>

theorem bigtk_survives_association:
  assumes "bigtk_in_use (slice 8 (wpa_cipher_key_len (sm_mgmt_group_cipher sm)) kde) sm"
  shows "sm_gtk (wpa_sm_notify_assoc bssid sm) = gtk_zero \<and> sm_igtk (wpa_sm_notify_assoc bssid sm) = igtk_zero \<and>
    wpa_supplicant_install_bigtk e kde False (wpa_sm_notify_assoc bssid sm) =
      (0, wpa_sm_notify_assoc bssid sm)"
  using assms notify_assoc_sel [of bssid sm]
  by (simp add: wpa_supplicant_install_bigtk_def Let_def bigtk_in_use_def)


section \<open>Message 3/4 against the Beacon\<close>

lemma failed_trace: "sm_trace (deauth_failed sm) = Deauthenticate WLAN_REASON_UNSPECIFIED # sm_trace sm"
  by (simp add: deauth_failed_def)

lemma validate_mismatch:
  assumes "sm_ap_rsn_ie sm = Some ap" "ie_rsn_ie ie = Some sp" "part kd sp \<noteq> ap"
  shows "wpa_supplicant_validate_ie e kd ie sm = (-1, act (Deauthenticate WLAN_REASON_IE_IN_4WAY_DIFFERS) sm)"
  using assms
  by (simp add: wpa_supplicant_validate_ie_def wpa_report_ie_mismatch_def ie_mismatch_def wpa_compare_rsn_ie_def)

text \<open>C28: an RSN element in message 3/4 that differs from the one in the Beacon or
  Probe Response frames ends the connection: whatever else the message has, no
  key is installed and the state machine deauthenticates.\<close>

theorem rsn_ie_mismatch_rejected:
  assumes "wpa_supplicant_parse_ies kd = (pr, ie)" "sm_ap_rsn_ie sm = Some ap" "ie_rsn_ie ie = Some sp"
    "part kd sp \<noteq> ap"
  shows "hd (sm_trace (wpa_supplicant_process_3_of_4 e c f ver kd sm)) =
           Deauthenticate WLAN_REASON_UNSPECIFIED \<and>
    set_keys (sm_trace (wpa_supplicant_process_3_of_4 e c f ver kd sm)) = set_keys (sm_trace sm) \<and>
    sm_ptk (wpa_supplicant_process_3_of_4 e c f ver kd sm) = sm_ptk sm"
proof -
  let ?s = "act (Set_state WPA_4WAY_HANDSHAKE) sm"
  have "sm_ap_rsn_ie ?s = Some ap" using assms(2) by (simp add: act_def)
  note val = validate_mismatch [OF this assms(3,4), of e]
  have "wpa_supplicant_process_3_of_4 e c f ver kd sm \<in>
      {deauth_failed ?s, deauth_failed (act (Deauthenticate WLAN_REASON_IE_IN_4WAY_DIFFERS) ?s)}"
    unfolding wpa_supplicant_process_3_of_4_def Let_def assms(1) prod.case val
    by simp
  then show ?thesis
    by (auto simp: failed_trace set_keys_def) (simp_all add: deauth_failed_def act_def)
qed

end
