(* ===== verification/EAPOL_Valid.thy ===== *)
theory EAPOL_Valid
  imports EAPOL_Port
begin

text \<open>
  The port becomes valid only when somebody says so: in a network that does not use IEEE
  802.1X key frames, as with WPA and RSN, the EAPOL state machines never set
  \<^verbatim>\<open>portValid\<close> themselves.  Besides, reception of a frame never reads outside of it.
\<close>

section \<open>Reception\<close>

lemma eapol_rx_plen_bound:
  assumes "plen \<le> length buf - 4" "4 \<le> length buf"
  shows "\<exists>n. eapol_rx_plen sm buf typ plen = Some n \<and> plen \<le> n \<and> n \<le> length buf - 4"
  using assms by (auto simp: eapol_rx_plen_def rd_simps)

lemma eapol_sm_rx_eapol_not_None: "eapol_sm_rx_eapol x c src buf sm \<noteq> None"
proof (cases "length buf < 4")
  case False
  then have "0 < length buf" by linarith
  then have "rd8 buf 0 = Some (buf ! 0)" by (rule rd8_Some)
  with False obtain v t l where h: "rd8 buf 0 = Some v" "rd8 buf 1 = Some t" "WPA_GET_BE16 buf 2 = Some l"
    by (simp add: rd_simps)
  show ?thesis
  proof (cases "unat l > length buf - 4")
    case fits: False
    define s where "s = sm\<lparr> es_dot1xSuppEapolFramesRx := es_dot1xSuppEapolFramesRx sm + 1,
      es_dot1xSuppLastEapolFrameVersion := v, es_dot1xSuppLastEapolFrameSource := src \<rparr>"
    obtain n where n: "eapol_rx_plen s buf t (unat l) = Some n" "n \<le> length buf - 4"
      using eapol_rx_plen_bound [of "unat l" buf s t] fits False by auto
    have "eapol_rx_eap_packet x c buf n s \<noteq> None"
      using n(2) False by (auto simp: eapol_rx_eap_packet_def rd_simps Let_def)
    moreover have "eapol_rx_eapol_key x c buf n s \<noteq> None"
      using n(2) False by (auto simp: eapol_rx_eapol_key_def rd_simps Let_def)
    ultimately show ?thesis
      using False fits h n(1) by (simp add: eapol_sm_rx_eapol_def Let_def s_def)
  qed (use False h in \<open>simp add: eapol_sm_rx_eapol_def Let_def\<close>)
qed (simp add: eapol_sm_rx_eapol_def Let_def)


section \<open>Who makes the port valid\<close>

definition valid_frame :: "eapol_sm \<Rightarrow> eapol_sm \<Rightarrow> bool" where
  "valid_frame sm sm' \<longleftrightarrow> (\<not> ec_accept_802_1x_keys (es_conf sm) \<longrightarrow>
     es_conf sm' = es_conf sm \<and> es_portControl sm' = es_portControl sm \<and> es_portValid sm' = es_portValid sm)"

interpretation vf: state_frame valid_frame
  by unfold_locales (auto simp: valid_frame_def)

lemma valid_frame_same:
  "valid_frame s0 sm \<Longrightarrow> es_conf sm' = es_conf sm \<Longrightarrow> es_portControl sm' = es_portControl sm \<Longrightarrow>
   es_portValid sm' = es_portValid sm \<Longrightarrow> valid_frame s0 sm'"
  by (simp add: valid_frame_def)

lemma eap_frame_valid: "eap_frame sm sm' \<Longrightarrow> valid_frame sm sm'"
  by (rule valid_frame_same [OF vf.refl]) (rule eap_frame_fields, assumption)+

lemma valid_prims:
  "valid_frame sm (SM_ENTRY_SUPP_PAE g st sm)" "valid_frame sm (SM_ENTRY_KEY_RX g kst sm)"
  "valid_frame sm (eapol_enable_timer_tick x sm)"
  "valid_frame sm (eapol_sm_txStart sm)" "valid_frame sm (eapol_sm_txLogoff sm)"
  "valid_frame sm (snd (eapol_sm_confirm_auth x sm))"
  "valid_frame sm (eapol_sm_set_port_authorized sm)" "valid_frame sm (eapol_sm_set_port_unauthorized sm)"
  "valid_frame sm (eact a sm)" "valid_frame sm (upd_eap f sm)"
  "valid_frame sm (eapol_sm_result x sm)" "valid_frame sm (eap_notify_lower_layer_success sm)"
  "valid_frame sm (eap_notify_success sm)"
  by (simp_all add: valid_frame_def SM_ENTRY_SUPP_PAE_def SM_ENTRY_KEY_RX_def eapol_enable_timer_tick_def
      eapol_sm_txStart_def eapol_sm_txLogoff_def eapol_sm_confirm_auth_def eap_notify_success_def
      eapol_sm_set_port_authorized_def eapol_sm_set_port_unauthorized_def eact_def Let_def upd_eap_def
      eapol_sm_result_def eap_notify_lower_layer_success_def)

lemma valid_upd:
  assumes "valid_frame s0 sm"
  shows "valid_frame s0 (sm\<lparr> es_cb_status := v1 \<rparr>)" "valid_frame s0 (sm\<lparr> es_sPortMode := v2 \<rparr>)"
  "valid_frame s0 (sm\<lparr> es_logoffSent := b \<rparr>)" "valid_frame s0 (sm\<lparr> es_heldWhile := t \<rparr>)"
  "valid_frame s0 (sm\<lparr> es_startCount := t \<rparr>)" "valid_frame s0 (sm\<lparr> es_startWhen := t \<rparr>)"
  "valid_frame s0 (sm\<lparr> es_eapTriggerStart := b \<rparr>)" "valid_frame s0 (sm\<lparr> es_suppAbort := b \<rparr>)"
  "valid_frame s0 (sm\<lparr> es_unicast_key_received := b \<rparr>)" "valid_frame s0 (sm\<lparr> es_broadcast_key_received := b \<rparr>)"
  "valid_frame s0 (sm\<lparr> es_suppSuccess := b \<rparr>)" "valid_frame s0 (sm\<lparr> es_suppFail := b \<rparr>)"
  "valid_frame s0 (sm\<lparr> es_suppTimeout := b \<rparr>)" "valid_frame s0 (sm\<lparr> es_keyRun := b \<rparr>)"
  "valid_frame s0 (sm\<lparr> es_keyDone := b \<rparr>)" "valid_frame s0 (sm\<lparr> es_suppStart := b \<rparr>)"
  "valid_frame s0 (sm\<lparr> es_eapRestart := b \<rparr>)" "valid_frame s0 (sm\<lparr> es_eapSuccess := b \<rparr>)"
  "valid_frame s0 (sm\<lparr> es_altAccept := b \<rparr>)" "valid_frame s0 (sm\<lparr> es_eapolEap := b \<rparr>)"
  "valid_frame s0 (sm\<lparr> es_rxKey := b \<rparr>)" "valid_frame s0 (sm\<lparr> es_changed := b \<rparr>)"
  "valid_frame s0 (sm\<lparr> es_altReject := b \<rparr>)" "valid_frame s0 (sm\<lparr> es_eapFail := b \<rparr>)"
  "valid_frame s0 (sm\<lparr> es_eapReq := b \<rparr>)" "valid_frame s0 (sm\<lparr> es_userLogoff := b \<rparr>)"
  "valid_frame s0 (sm\<lparr> es_cached_pmk := b \<rparr>)" "valid_frame s0 (sm\<lparr> es_pae := st \<rparr>)"
  "valid_frame s0 (sm\<lparr> es_force_authorized_update := b \<rparr>)" "valid_frame s0 (sm\<lparr> es_portEnabled := b \<rparr>)"
  "valid_frame s0 (sm\<lparr> es_initialize := b \<rparr>)" "valid_frame s0 (sm\<lparr> es_timer_tick_enabled := b \<rparr>)"
  "valid_frame s0 (sm\<lparr> es_authWhile := t \<rparr>)" "valid_frame s0 (sm\<lparr> es_idleWhile := t \<rparr>)"
  "valid_frame s0 (sm\<lparr> es_eapReqData := d \<rparr>)" "valid_frame s0 (sm\<lparr> es_last_rx_key := d \<rparr>)"
  "valid_frame s0 (sm\<lparr> es_config := cf \<rparr>)"
  "valid_frame s0 (sm\<lparr> es_dot1xSuppEapolFramesRx := n \<rparr>)" "valid_frame s0 (sm\<lparr> es_dot1xSuppEapolFramesTx := n \<rparr>)"
  "valid_frame s0 (sm\<lparr> es_dot1xSuppInvalidEapolFramesRx := n \<rparr>)"
  "valid_frame s0 (sm\<lparr> es_dot1xSuppEapLengthErrorFramesRx := n \<rparr>)"
  "valid_frame s0 (sm\<lparr> es_dot1xSuppLastEapolFrameVersion := v \<rparr>)"
  "valid_frame s0 (sm\<lparr> es_dot1xSuppLastEapolFrameSource := src \<rparr>)"
  using assms by (simp_all add: valid_frame_def)

lemmas valid_rules = vf.rules valid_upd valid_prims [THEN vf.trans [rotated]]

lemma valid_pae_Enter:
  assumes "valid_frame s0 sm"
  shows "valid_frame s0 (sm_SUPP_PAE_LOGOFF_Enter g sm)" "valid_frame s0 (sm_SUPP_PAE_DISCONNECTED_Enter g sm)"
    "valid_frame s0 (sm_SUPP_PAE_CONNECTING_Enter x g sm)" "valid_frame s0 (sm_SUPP_PAE_AUTHENTICATING_Enter g sm)"
    "valid_frame s0 (sm_SUPP_PAE_HELD_Enter x g sm)" "valid_frame s0 (sm_SUPP_PAE_AUTHENTICATED_Enter g sm)"
    "valid_frame s0 (sm_SUPP_PAE_RESTART_Enter x g sm)" "valid_frame s0 (sm_SUPP_PAE_S_FORCE_AUTH_Enter g sm)"
    "valid_frame s0 (sm_SUPP_PAE_S_FORCE_UNAUTH_Enter g sm)"
  unfolding sm_SUPP_PAE_LOGOFF_Enter_def sm_SUPP_PAE_HELD_Enter_def sm_SUPP_PAE_CONNECTING_Enter_def
        sm_SUPP_PAE_AUTHENTICATED_Enter_def sm_SUPP_PAE_S_FORCE_AUTH_Enter_def
        sm_SUPP_PAE_S_FORCE_UNAUTH_Enter_def sm_SUPP_PAE_DISCONNECTED_Enter_def
        sm_SUPP_PAE_AUTHENTICATING_Enter_def sm_SUPP_PAE_RESTART_Enter_def
  by (assumption | rule assms valid_rules)+

lemma sm_SUPP_PAE_Step_valid: "valid_frame sm (sm_SUPP_PAE_Step x sm)"
proof -
  have "valid_frame sm (if es_eapSuccess sm \<and> \<not> es_portValid sm \<and> ec_accept_802_1x_keys (es_conf sm) \<and>
      ec_required_keys (es_conf sm) = 0 then eact Eapol_done_cb (sm\<lparr> es_portValid := True \<rparr>) else sm)"
    by (simp add: valid_frame_def)
  then have "valid_frame sm (sm_SUPP_PAE_step_authenticating x sm)"
    unfolding sm_SUPP_PAE_step_authenticating_def
    by (rule vf.let_state) (assumption | rule valid_pae_Enter valid_rules)+
  then show ?thesis
    unfolding sm_SUPP_PAE_Step_def sm_SUPP_PAE_step_connecting_def Let_def
    by (cases "es_pae sm") (simp_all add: valid_pae_Enter vf.refl)
qed

lemma eapol_sm_processKey_valid: "eapol_sm_processKey x c sm = Some sm' \<Longrightarrow> valid_frame sm sm'"
  by (auto simp: valid_frame_def eapol_sm_processKey_def split: option.splits)

lemma sm_KEY_RX_Step_valid: "valid_frame sm (sm_KEY_RX_Step x c sm)"
proof -
  have rx: "valid_frame s (sm_KEY_RX_KEY_RECEIVE_Enter x c g s)" for g s
    using eapol_sm_processKey_port [of "SM_ENTRY_KEY_RX g KEY_RX_KEY_RECEIVE s" x c]
  proof (elim goodE)
    fix y assume y: "eapol_sm_processKey x c (SM_ENTRY_KEY_RX g KEY_RX_KEY_RECEIVE s) = Some y"
    from vf.trans [OF valid_prims(2) eapol_sm_processKey_valid [OF y]] y
    show ?thesis by (simp add: sm_KEY_RX_KEY_RECEIVE_Enter_def valid_upd)
  qed
  have no: "valid_frame s (sm_KEY_RX_NO_KEY_RECEIVE_Enter g s)" for g s
    unfolding sm_KEY_RX_NO_KEY_RECEIVE_Enter_def by (rule valid_rules)+
  show ?thesis
    unfolding sm_KEY_RX_Step_def
  proof (rule vf.let_state)
    show "valid_frame sm (if es_initialize sm \<or> \<not> es_portEnabled sm
        then sm_KEY_RX_NO_KEY_RECEIVE_Enter True sm else sm)"
      by (simp add: no vf.refl)
    show "valid_frame sm (case es_key_rx t of KEY_RX_UNKNOWN \<Rightarrow> t
         | KEY_RX_NO_KEY_RECEIVE \<Rightarrow> if es_rxKey t then sm_KEY_RX_KEY_RECEIVE_Enter x c False t else t
         | KEY_RX_KEY_RECEIVE \<Rightarrow> if es_rxKey t then sm_KEY_RX_KEY_RECEIVE_Enter x c False t else t)"
      if "valid_frame sm t" for t
      using that vf.trans [OF that rx] by (simp split: KEY_RX_state.split)
  qed
qed

lemma valid_be_Enter:
  "valid_frame sm (sm_SUPP_BE_REQUEST_Enter g sm)" "valid_frame sm (sm_SUPP_BE_RESPONSE_Enter g sm)"
  "valid_frame sm (sm_SUPP_BE_SUCCESS_Enter g sm)" "valid_frame sm (sm_SUPP_BE_FAIL_Enter g sm)"
  "valid_frame sm (sm_SUPP_BE_TIMEOUT_Enter g sm)" "valid_frame sm (sm_SUPP_BE_IDLE_Enter g sm)"
  "valid_frame sm (sm_SUPP_BE_INITIALIZE_Enter g sm)" "valid_frame sm (sm_SUPP_BE_RECEIVE_Enter x g sm)"
  unfolding sm_SUPP_BE_REQUEST_Enter_def sm_SUPP_BE_RESPONSE_Enter_def sm_SUPP_BE_SUCCESS_Enter_def
    sm_SUPP_BE_FAIL_Enter_def sm_SUPP_BE_TIMEOUT_Enter_def sm_SUPP_BE_IDLE_Enter_def
    sm_SUPP_BE_INITIALIZE_Enter_def sm_SUPP_BE_RECEIVE_Enter_def
  by (simp_all add: valid_frame_def SM_ENTRY_SUPP_BE_def Let_def eapol_sm_txSuppRsp_def
      eap_get_eapRespData_def eapol_sm_abortSupp_def eap_sm_abort_def eap_sm_free_key_def upd_eap_def
      eact_def eapol_enable_timer_tick_def split: option.split)

lemma sm_SUPP_BE_Step_valid: "valid_frame sm (sm_SUPP_BE_Step x sm)"
  unfolding sm_SUPP_BE_Step_def
  by (cases "es_be sm") (simp_all add: valid_be_Enter vf.refl)

lemma eapol_sm_round_valid: "valid_frame sm (eapol_sm_round x c sm)"
proof -
  let ?a = "sm_SUPP_PAE_Step x (sm\<lparr> es_changed := False \<rparr>)"
  let ?d = "snd (eap_peer_sm_step x (sm_SUPP_BE_Step x (sm_KEY_RX_Step x c ?a)))"
  have "valid_frame sm ?a" by (rule vf.trans [OF valid_upd(22) [OF vf.refl] sm_SUPP_PAE_Step_valid])
  then have d: "valid_frame sm ?d"
    by (rule vf.trans [OF vf.trans [OF vf.trans [OF _ sm_KEY_RX_Step_valid] sm_SUPP_BE_Step_valid]
        eap_frame_valid [OF eap_peer_sm_step_frame [OF ef.refl]]])
  have "eapol_sm_round x c sm \<in> {?d, ?d\<lparr> es_changed := True \<rparr>}"
    by (simp add: eapol_sm_round_def Let_def split_beta)
  then show ?thesis using d valid_upd(22) [OF d, of True] by (elim insertE) simp_all
qed

lemma eapol_sm_step_valid: "valid_frame sm (eapol_sm_step x c sm)"
proof -
  have "valid_frame sm (eapol_sm_rounds x c n sm)" for n
  proof (induction n arbitrary: sm)
    case (Suc n)
    then show ?case using eapol_sm_round_valid vf.trans by (simp add: Let_def) blast
  qed (simp add: vf.refl)
  then show ?thesis
    unfolding eapol_sm_step_def by (rule vf.let_state) (assumption | rule valid_rules)+
qed

text \<open>The events other than the notification about the port itself, a change of the
  configuration that turns key frames on, and a change of the port control.\<close>

fun keeps_port :: "eapol_event \<Rightarrow> bool" where
  "keeps_port (Ev_portValid b) \<longleftrightarrow> \<not> b"
| "keeps_port (Ev_config cf conf) \<longleftrightarrow> (case conf of None \<Rightarrow> True | Some c \<Rightarrow> \<not> ec_accept_802_1x_keys c)"
| "keeps_port (Ev_portControl p) \<longleftrightarrow> p \<noteq> ForceAuthorized"
| "keeps_port _ \<longleftrightarrow> True"

text \<open>Nothing lets the port open: it is not valid, not forced, and key frames are not used.\<close>

definition port_shut :: "eapol_sm \<Rightarrow> bool" where
  "port_shut sm \<longleftrightarrow> \<not> ec_accept_802_1x_keys (es_conf sm) \<and> es_portControl sm \<noteq> ForceAuthorized \<and>
     \<not> es_portValid sm"

lemma port_shut_frame: "port_shut sm \<Longrightarrow> valid_frame sm sm' \<Longrightarrow> port_shut sm'"
  by (simp add: port_shut_def valid_frame_def)

lemma eapol_sm_rx_eapol_valid:
  assumes "eapol_sm_rx_eapol x c src buf sm = Some (n, sm')"
  shows "valid_frame sm sm'"
proof -
  have step: "valid_frame s (eapol_sm_step x c t)" if "valid_frame s t" for s t
    using that eapol_sm_step_valid by (rule vf.trans)
  have cached: "valid_frame s (if b then eapol_sm_abort_cached x t else t)" if "valid_frame s t" for s t b
    using that unfolding eapol_sm_abort_cached_def by - (assumption | rule valid_rules)+
  have eap: "valid_frame s t" if "eapol_rx_eap_packet x c buf n s = Some t" for s t n
  proof -
    define u where "u = (if es_cached_pmk s then eapol_sm_abort_cached x s else s)"
    have u: "valid_frame s (u\<lparr> es_eapReqData := d \<rparr>)" for d
      unfolding u_def by (intro valid_upd cached vf.refl)
    from that show ?thesis
      unfolding eapol_rx_eap_packet_def u_def [symmetric] Let_def
      by (auto simp: vf.refl u step [OF valid_upd(20) [OF u]] split: bind_splits if_splits)
  qed
  have key: "valid_frame s t" if "eapol_rx_eapol_key x c buf n s = Some (r, t)" for s t n r
    using that step [OF valid_upd(21) [OF valid_upd(36) [OF vf.refl]]] valid_upd(36) [OF vf.refl]
    by (auto simp: eapol_rx_eapol_key_def vf.refl split: bind_splits if_splits)
  have count: "valid_frame s (s\<lparr> es_dot1xSuppEapolFramesRx := a, es_dot1xSuppLastEapolFrameVersion := v,
      es_dot1xSuppLastEapolFrameSource := src \<rparr>)"
    "valid_frame s (s\<lparr> es_dot1xSuppEapolFramesRx := a, es_dot1xSuppInvalidEapolFramesRx := v' \<rparr>)"
    "valid_frame s (s\<lparr> es_dot1xSuppEapolFramesRx := a, es_dot1xSuppLastEapolFrameVersion := v,
      es_dot1xSuppLastEapolFrameSource := src, es_dot1xSuppEapLengthErrorFramesRx := v' \<rparr>)"
    "valid_frame s (s\<lparr> es_dot1xSuppEapolFramesRx := a, es_dot1xSuppLastEapolFrameVersion := v,
      es_dot1xSuppLastEapolFrameSource := src, es_dot1xSuppInvalidEapolFramesRx := v' \<rparr>)" for s a v v'
    by (simp_all add: valid_frame_def)
  show ?thesis
    using assms unfolding eapol_sm_rx_eapol_def Let_def
    by (auto simp: count split: bind_splits if_splits dest!: eap key intro: vf.trans [OF count(1)])
qed

lemma eapol_handle_shut:
  assumes "port_shut sm" "keeps_port ev"
  shows "port_shut (eapol_handle x c ev sm)"
proof (cases ev)
  case (Ev_rx src buf)
  obtain n sm' where "eapol_sm_rx_eapol x c src buf sm = Some (n, sm')"
    using eapol_sm_rx_eapol_not_None [of x c src buf sm] by auto
  from eapol_sm_rx_eapol_valid [OF this] this show ?thesis
    using assms(1) Ev_rx by (auto intro: port_shut_frame)
next
  case (Ev_config cf conf)
  then show ?thesis
    using assms by (auto simp: port_shut_def eapol_sm_notify_config_def Let_def eap_set_fast_reauth_def
        eap_set_workaround_def eap_set_force_disabled_def eap_set_external_sim_def upd_eap_def
        split: option.splits)
next
  case (Ev_portValid b)
  then have "port_shut (sm\<lparr> es_portValid := b \<rparr>)" using assms by (simp add: port_shut_def)
  from port_shut_frame [OF this eapol_sm_step_valid] show ?thesis
    using Ev_portValid by (simp add: eapol_sm_notify_portValid_def)
next
  case (Ev_portControl p)
  then have "port_shut (sm\<lparr> es_portControl := p \<rparr>)" using assms by (simp add: port_shut_def)
  from port_shut_frame [OF this eapol_sm_step_valid] show ?thesis
    using Ev_portControl by (simp add: eapol_sm_notify_portControl_def)
next
  case Ev_invalidate
  have "valid_frame sm (eapol_handle x c ev sm)"
    unfolding Ev_invalidate eapol_handle.simps eapol_sm_invalidate_cached_session_def
      eap_invalidate_cached_session_def
    by (auto intro!: eap_frame_valid eap_deinit_prev_method_frame ef.refl)
  then show ?thesis by (rule port_shut_frame [OF assms(1)])
qed (rule port_shut_frame [OF assms(1)],
  simp only: eapol_handle.simps eapol_port_timers_tick_def eapol_sm_step_timeout_def
    eapol_sm_notify_tx_eapol_key_def eapol_sm_notify_portEnabled_def eapol_sm_notify_eap_success_def
    eapol_sm_notify_eap_fail_def eapol_sm_notify_logoff_def eapol_sm_notify_cached_def
    eapol_sm_notify_pmkid_attempt_def eapol_sm_notify_ctrl_response_def eapol_sm_notify_pending_def
    eapol_sm_request_reauth_def eapol_sm_notify_lower_layer_success_def,
  (assumption | rule valid_rules vf.trans [OF _ eapol_sm_step_valid])+)+

lemma eapol_handle_closed:
  assumes "port_shut sm" "es_suppPortStatus sm = Unauthorized" "keeps_port ev"
  shows "es_suppPortStatus (eapol_handle x c ev sm) = Unauthorized"
proof (rule ccontr)
  assume "es_suppPortStatus (eapol_handle x c ev sm) \<noteq> Unauthorized"
  then have "es_suppPortStatus (eapol_handle x c ev sm) = Authorized"
    by (cases "es_suppPortStatus (eapol_handle x c ev sm)") simp_all
  from eapol_handle_authorized [OF assms(2) this] eapol_handle_shut [OF assms(1,3), of x c]
  show False by (simp add: port_shut_def)
qed

lemma eapol_sm_init_closed:
  assumes "eapol_sm_init x c tls_ok = Some sm"
  shows "port_shut sm \<and> es_suppPortStatus sm = Unauthorized"
proof -
  obtain eap where eap: "eap_peer_sm_init tls_ok = Some eap"
    using assms by (cases "eap_peer_sm_init tls_ok") (simp_all add: eapol_sm_init_def)
  define z where "z = eapol_sm_zero\<lparr> es_portControl := Auto, es_heldPeriod := 60, es_startPeriod := 30,
    es_maxStart := 3, es_authPeriod := 30, es_eap := eap, es_force_authorized_update := True,
    es_initialize := True \<rparr>"
  have z: "port_shut z" "port_auth_inv False z"
    by (simp_all add: z_def port_shut_def port_auth_inv_def eapol_sm_zero_def)
  define a where "a = (eapol_sm_step x c z)\<lparr> es_initialize := False \<rparr>"
  have a: "port_shut a" "port_auth_inv False a"
    using port_shut_frame [OF z(1) eapol_sm_step_valid, of x c] pauth.step [OF z(2), of x c]
    by (simp_all add: a_def port_shut_def port_auth_inv_def)
  define b where "b = eapol_sm_step x c a"
  have b: "port_shut b" "port_auth_inv False b"
    unfolding b_def by (rule port_shut_frame [OF a(1) eapol_sm_step_valid], rule pauth.step [OF a(2)])
  have "sm = (let t = eact Register_tick b in if x_eloop x (es_trace t) = 0
      then t\<lparr> es_timer_tick_enabled := True \<rparr> else t)"
    using assms unfolding eapol_sm_init_def eap option.case Let_def z_def [symmetric] a_def [symmetric]
      b_def [symmetric] by simp
  with b have "port_shut sm" "es_suppPortStatus sm \<noteq> Authorized"
    by (simp_all add: port_shut_def port_auth_inv_def eact_def Let_def)
  then show ?thesis by (cases "es_suppPortStatus sm") simp_all
qed

end
