(* ===== verification/Network.thy ===== *)
theory Network
  imports WPA_Control EAPOL_Supp
begin

text \<open>
  The data of the connection manager: network profiles (\<^verbatim>\<open>struct wpa_ssid\<close>), scan results
  (\<^verbatim>\<open>struct wpa_bss\<close>, with the access to their elements of \<^verbatim>\<open>bss.c\<close>), the state of the
  interface (\<^verbatim>\<open>struct wpa_supplicant\<close>), and the list of access points that are ignored for a
  while after a failure (\<^verbatim>\<open>bssid_ignore.c\<close>).
\<close>

unbundle bit_operations_syntax

type_synonym u64 = "64 word"


section \<open>Time\<close>

record os_reltime =
  rt_sec :: int
  rt_usec :: int

definition os_reltime_before :: "os_reltime \<Rightarrow> os_reltime \<Rightarrow> bool" where
  "os_reltime_before a b \<longleftrightarrow> rt_sec a < rt_sec b \<or> rt_sec a = rt_sec b \<and> rt_usec a < rt_usec b"

definition os_reltime_sub :: "os_reltime \<Rightarrow> os_reltime \<Rightarrow> os_reltime" where
  "os_reltime_sub a b =
     (let sec = rt_sec a - rt_sec b; usec = rt_usec a - rt_usec b
      in if usec < 0 then \<lparr> rt_sec = sec - 1, rt_usec = usec + 1000000 \<rparr>
         else \<lparr> rt_sec = sec, rt_usec = usec \<rparr>)"

definition os_reltime_expired :: "os_reltime \<Rightarrow> os_reltime \<Rightarrow> int \<Rightarrow> bool" where
  "os_reltime_expired now ts timeout_secs \<longleftrightarrow>
     (let age = os_reltime_sub now ts
      in rt_sec age > timeout_secs \<or> rt_sec age = timeout_secs \<and> rt_usec age > 0)"


section \<open>Elements\<close>

abbreviation (input) WLAN_EID_SUPP_RATES :: byte where "WLAN_EID_SUPP_RATES \<equiv> 1"
abbreviation (input) WLAN_EID_EXT_SUPP_RATES :: byte where "WLAN_EID_EXT_SUPP_RATES \<equiv> 50"
abbreviation (input) WPA_IE_VENDOR_TYPE :: u32 where "WPA_IE_VENDOR_TYPE \<equiv> 0x0050F201"
abbreviation (input) WPS_IE_VENDOR_TYPE :: u32 where "WPS_IE_VENDOR_TYPE \<equiv> 0x0050F204"
abbreviation (input) P2P_IE_VENDOR_TYPE :: u32 where "P2P_IE_VENDOR_TYPE \<equiv> 0x506F9A09"
abbreviation (input) OWE_IE_VENDOR_TYPE :: u32 where "OWE_IE_VENDOR_TYPE \<equiv> 0x506F9A1C"

text \<open>The loop \<^verbatim>\<open>for_each_element\<close> up to the first element that satisfies \<open>P\<close>; it ends at an
  element that does not fit in the buffer.  A pointer to an element is modelled by the
  octets of the element.\<close>

fun find_element :: "(byte \<Rightarrow> bytes \<Rightarrow> bool) \<Rightarrow> bytes \<Rightarrow> bytes option" where
  "find_element P (eid # len # rest) =
     (if length rest < unat len then None
      else if P eid (take (unat len) rest) then Some (eid # len # take (unat len) rest)
      else find_element P (drop (unat len) rest))"
| "find_element P _ = None"

definition get_ie :: "bytes \<Rightarrow> byte \<Rightarrow> bytes option" where
  "get_ie ies eid = find_element (\<lambda>i d. i = eid) ies"

definition is_vendor :: "u32 \<Rightarrow> byte \<Rightarrow> bytes \<Rightarrow> bool" where
  "is_vendor vendor_type i d \<longleftrightarrow>
     i = WLAN_EID_VENDOR_SPECIFIC \<and> length d \<ge> 4 \<and> WPA_GET_BE32 d 0 = Some vendor_type"

definition get_vendor_ie :: "bytes \<Rightarrow> u32 \<Rightarrow> bytes option" where
  "get_vendor_ie ies vendor_type = find_element (is_vendor vendor_type) ies"

text \<open>The payloads of all elements of a vendor type.\<close>

fun vendor_payloads :: "u32 \<Rightarrow> bytes \<Rightarrow> bytes" where
  "vendor_payloads t (eid # len # rest) =
     (if length rest < unat len then []
      else (if is_vendor t eid (take (unat len) rest) then drop 4 (take (unat len) rest) else []) @
           vendor_payloads t (drop (unat len) rest))"
| "vendor_payloads t _ = []"

lemma find_element_wf:
  assumes "find_element P ies = Some e"
  obtains eid len d pre post where "e = eid # len # d" "length d = unat len" "P eid d" "ies = pre @ e @ post"
  using assms
proof (induction P ies arbitrary: thesis rule: find_element.induct)
  case (1 P eid len rest)
  show ?case
  proof (cases "P eid (take (unat len) rest)")
    case True
    then have "e = eid # len # take (unat len) rest" "length (take (unat len) rest) = unat len"
      "eid # len # rest = [] @ e @ drop (unat len) rest"
      using "1.prems"(2) by (auto split: if_splits)
    then show ?thesis using "1.prems"(1) True by blast
  next
    case False
    then have le: "\<not> length rest < unat len" and fe: "find_element P (drop (unat len) rest) = Some e"
      using "1.prems"(2) by (auto split: if_splits)
    obtain eid' len' d pre post where *: "e = eid' # len' # d" "length d = unat len'" "P eid' d"
      "drop (unat len) rest = pre @ e @ post"
      using "1.IH" [OF le False _ fe] by blast
    have "eid # len # rest = (eid # len # take (unat len) rest @ pre) @ e @ post"
      using *(4) append_take_drop_id [of "unat len" rest] by simp
    then show ?thesis using "1.prems"(1) *(1-3) by blast
  qed
qed simp_all

lemma get_ie_wf:
  assumes "get_ie ies eid = Some e"
  obtains len d where "e = eid # len # d" "length d = unat len"
  using find_element_wf [OF assms [unfolded get_ie_def]] by metis

lemma get_vendor_ie_wf:
  assumes "get_vendor_ie ies t = Some e"
  obtains len d where "e = WLAN_EID_VENDOR_SPECIFIC # len # d" "length d = unat len" "length d \<ge> 4"
  using find_element_wf [OF assms [unfolded get_vendor_ie_def]] unfolding is_vendor_def by metis


section \<open>Scan results\<close>

abbreviation (input) IEEE80211_CAP_ESS :: u16 where "IEEE80211_CAP_ESS \<equiv> 0x1"
abbreviation (input) IEEE80211_CAP_IBSS :: u16 where "IEEE80211_CAP_IBSS \<equiv> 0x2"
abbreviation (input) IEEE80211_CAP_PRIVACY :: u16 where "IEEE80211_CAP_PRIVACY \<equiv> 0x10"
abbreviation (input) IEEE80211_CAP_DMG_MASK :: u16 where "IEEE80211_CAP_DMG_MASK \<equiv> 0x3"
abbreviation (input) IEEE80211_CAP_DMG_PBSS :: u16 where "IEEE80211_CAP_DMG_PBSS \<equiv> 0x2"
abbreviation (input) IEEE80211_CAP_DMG_AP :: u16 where "IEEE80211_CAP_DMG_AP \<equiv> 0x3"
abbreviation (input) WPA_BSS_OWE_TRANSITION :: u32 where "WPA_BSS_OWE_TRANSITION \<equiv> 0x80"

text \<open>A BSS entry; \<open>bs_ies\<close> and \<open>bs_beacon_ies\<close> are the two parts of the array \<^verbatim>\<open>ies\<close>, and the
  length of \<open>bs_ssid\<close> is \<^verbatim>\<open>ssid_len\<close>.\<close>

record wpa_bss =
  bs_id :: nat
  bs_flags :: u32
  bs_bssid :: bytes
  bs_ssid :: bytes
  bs_freq :: int
  bs_caps :: u16
  bs_last_update :: os_reltime
  bs_ies :: bytes
  bs_beacon_ies :: bytes

definition wpa_bss_get_ie :: "wpa_bss \<Rightarrow> byte \<Rightarrow> bytes option" where
  "wpa_bss_get_ie bss ie = get_ie (bs_ies bss) ie"

definition wpa_bss_get_vendor_ie :: "wpa_bss \<Rightarrow> u32 \<Rightarrow> bytes option" where
  "wpa_bss_get_vendor_ie bss vendor_type = find_element (is_vendor vendor_type) (bs_ies bss)"

definition wpa_bss_get_vendor_ie_beacon :: "wpa_bss \<Rightarrow> u32 \<Rightarrow> bytes option" where
  "wpa_bss_get_vendor_ie_beacon bss vendor_type =
     (if bs_beacon_ies bss = [] then None else find_element (is_vendor vendor_type) (bs_beacon_ies bss))"

definition wpa_bss_get_vendor_ie_multi :: "wpa_bss \<Rightarrow> u32 \<Rightarrow> bytes option" where
  "wpa_bss_get_vendor_ie_multi bss vendor_type =
     (let buf = vendor_payloads vendor_type (bs_ies bss) in if buf = [] then None else Some buf)"

definition bss_is_dmg :: "wpa_bss \<Rightarrow> bool" where
  "bss_is_dmg bss \<longleftrightarrow> bs_freq bss > 45000"

definition bss_is_pbss :: "wpa_bss \<Rightarrow> bool" where
  "bss_is_pbss bss \<longleftrightarrow> bss_is_dmg bss \<and> bs_caps bss AND IEEE80211_CAP_DMG_MASK = IEEE80211_CAP_DMG_PBSS"

definition bss_is_ess :: "wpa_bss \<Rightarrow> bool" where
  "bss_is_ess bss \<longleftrightarrow>
     (if bss_is_dmg bss then bs_caps bss AND IEEE80211_CAP_DMG_MASK = IEEE80211_CAP_DMG_AP
      else bs_caps bss AND (IEEE80211_CAP_ESS OR IEEE80211_CAP_IBSS) = IEEE80211_CAP_ESS)"


section \<open>Network profiles\<close>

datatype wpas_mode = WPAS_MODE_INFRA | WPAS_MODE_IBSS | WPAS_MODE_AP | WPAS_MODE_P2P_GO
  | WPAS_MODE_P2P_GROUP_FORMATION | WPAS_MODE_MESH

datatype mfp_options = NO_MGMT_FRAME_PROTECTION | MGMT_FRAME_PROTECTION_OPTIONAL
  | MGMT_FRAME_PROTECTION_REQUIRED | MGMT_FRAME_PROTECTION_DEFAULT

datatype ptk0_rekey = PTK0_REKEY_ALLOW_ALWAYS | PTK0_REKEY_ALLOW_LOCAL_OK | PTK0_REKEY_ALLOW_NEVER

text \<open>The fields of \<^verbatim>\<open>struct wpa_ssid\<close> that selection and association use.  Where the code only
  asks whether a string is set, the field is a truth value.  The length of \<open>ss_ssid\<close> is
  \<^verbatim>\<open>ssid_len\<close>; the address lists are pairs of an address and a mask.\<close>

record wpa_ssid =
  ss_id :: nat
  ss_priority :: int
  ss_ssid :: bytes
  ss_bssid :: bytes
  ss_bssid_set :: bool
  ss_bssid_ignore :: "(bytes \<times> bytes) list"
  ss_bssid_accept :: "(bytes \<times> bytes) list"
  ss_psk :: bytes
  ss_psk_set :: bool
  ss_passphrase :: "bytes option"
  ss_ext_psk :: bool
  ss_mem_only_psk :: bool
  ss_sae_password :: bool
  ss_sae_password_id :: bool
  ss_pairwise_cipher :: u32
  ss_group_cipher :: u32
  ss_group_mgmt_cipher :: u32
  ss_key_mgmt :: u32
  ss_proto :: u32
  ss_ieee80211w :: mfp_options
  ss_eapol_flags :: u32
  ss_eap_workaround :: bool
  ss_eap :: eap_peer_config
  ss_wep_key_len :: "nat list"
  ss_wep_tx_keyidx :: nat
  ss_mode :: wpas_mode
  ss_pbss :: int
  ss_disabled :: bool
  ss_disabled_until :: os_reltime
  ss_auth_failures :: u32
  ss_mixed_cell :: bool
  ss_freq_list :: "int list option"
  ss_owe_only :: bool
  ss_owe_transition_bss_select_count :: int
  ss_p2p_group :: bool
  ss_go_p2p_dev_addr :: bytes
  ss_dpp_configured :: bool
  ss_was_recently_reconfigured :: bool
  ss_wpa_deny_ptk0_rekey :: ptk0_rekey
  ss_proactive_key_caching :: int


section \<open>The interface\<close>

datatype hostapd_hw_mode = HOSTAPD_MODE_IEEE80211B | HOSTAPD_MODE_IEEE80211G | HOSTAPD_MODE_IEEE80211A
  | HOSTAPD_MODE_IEEE80211AD | HOSTAPD_MODE_IEEE80211ANY

text \<open>A band of the hardware: its channels with their flags, rates in units of 100 kbit/s, and
  the first octet of the HT and VHT rate sets.\<close>

record hostapd_hw_modes =
  hm_mode :: hostapd_hw_mode
  hm_channels :: "(int \<times> u32) list"
  hm_rates :: "int list"
  hm_flags :: u32
  hm_mcs_set0 :: byte
  hm_vht_mcs_set0 :: byte

record wpa_bssid_ignore =
  bi_bssid :: bytes
  bi_count :: int
  bi_timeout_secs :: int
  bi_start :: os_reltime

text \<open>The fields of \<^verbatim>\<open>struct wpa_supplicant\<close>, and of the configuration it points to, that the
  modelled functions use.  Networks and scan results are lists of records with identities; a
  pointer to one of them is its identity.  \<open>ws_pssid\<close> has the networks of each priority, as the
  chains of \<^verbatim>\<open>conf->pssid\<close>.  \<open>ws_auth_timer\<close> is the delay of the timer for the
  authentication, if it is registered.\<close>

record wpa_supplicant =
  ws_wpa :: wpa_sm
  ws_eapol :: eapol_sm
  ws_ssids :: "wpa_ssid list"
  ws_pssid :: "nat list list"
  ws_current_ssid :: "nat option"
  ws_next_ssid :: "nat option"
  ws_bss :: "wpa_bss list"
  ws_last_scan_res :: "nat list"
  ws_scan_min_time :: os_reltime
  ws_scan_runs :: int
  ws_wps_pin_start_time :: os_reltime
  ws_bssid_ignore :: "wpa_bssid_ignore list"
  ws_bssid_ignore_cleared :: bool
  ws_owe_transition_select :: bool
  ws_owe_transition_search :: bool
  ws_disallow_aps_bssid :: "bytes list"
  ws_disallow_aps_ssid :: "bytes list"
  ws_bssid_filter :: "bytes list option"
  ws_hw_modes :: "hostapd_hw_modes list option"
  ws_p2p_mgmt :: bool
  ws_p2p_in_provisioning :: bool
  ws_show_group_started :: bool
  ws_auto_interworking :: bool
  ws_drv_capa_known :: bool
  ws_drv_enc :: u32
  ws_drv_flags :: u64
  ws_pmf :: mfp_options
  ws_sae_pwe :: int
  ws_extended_key_id :: bool
  ws_okc :: bool
  ws_ap_scan :: int
  ws_fast_reauth :: bool
  ws_external_sim :: bool
  ws_wpa_state :: wpa_states
  ws_bssid :: bytes
  ws_key_mgmt :: u32
  ws_wpa_proto :: u32
  ws_pairwise_cipher :: u32
  ws_group_cipher :: u32
  ws_mgmt_group_cipher :: u32
  ws_rsnxe :: bytes
  ws_ap_ies_from_associnfo :: bool
  ws_deny_ptk0_rekey :: bool
  ws_own_disconnect_req :: bool
  ws_last_eapol_matches_bssid :: bool
  ws_pending_eapol_rx :: "bytes option"
  ws_pending_eapol_rx_time :: os_reltime
  ws_pending_eapol_rx_src :: bytes
  ws_eapol_received :: u32
  ws_countermeasures :: bool
  ws_last_eapol_src :: bytes
  ws_last_auth_timeout_sec :: int
  ws_auth_timer :: "int option"

abbreviation (input) WPA_DRIVER_FLAGS_WIRED :: u64 where "WPA_DRIVER_FLAGS_WIRED \<equiv> 0x10"
abbreviation (input) WPA_DRIVER_FLAGS_SAE :: u64 where "WPA_DRIVER_FLAGS_SAE \<equiv> 0x02000000"
abbreviation (input) WPA_DRIVER_FLAGS_4WAY_HANDSHAKE_PSK :: u64 where
  "WPA_DRIVER_FLAGS_4WAY_HANDSHAKE_PSK \<equiv> 0x0200000000000000"
abbreviation (input) WPA_DRIVER_FLAGS_SAFE_PTK0_REKEYS :: u64 where
  "WPA_DRIVER_FLAGS_SAFE_PTK0_REKEYS \<equiv> 0x2000000000000000"
abbreviation (input) WPA_DRIVER_FLAGS_EXTENDED_KEY_ID :: u64 where
  "WPA_DRIVER_FLAGS_EXTENDED_KEY_ID \<equiv> 0x8000000000000000"

text \<open>What comes from elsewhere: the environments of the state machines, the clock (which does
  not advance during a call), random numbers, memory, what the WPS and P2P code read in the
  elements of a BSS, the WPS element, and the content of a local array that was not written.\<close>

record conn_env =
  y_env :: env
  y_eapol :: eapol_env
  y_crypto :: crypto
  y_now :: os_reltime
  y_random :: u32
  y_alloc :: bool
  y_wps_pin_unauthorized :: bool
  y_wps20 :: bool
  y_wps_is_selected_pbc_registrar :: "bytes \<Rightarrow> bool"
  y_wps_is_addr_authorized :: "bytes \<Rightarrow> bool"
  y_wps_ssid_wildcard_ok :: "wpa_ssid \<Rightarrow> wpa_bss \<Rightarrow> bool"
  y_p2p_dev_addr :: "bytes \<Rightarrow> bytes option"
  y_wps_assoc_req_ie :: "bytes option"
  y_psk_uninit :: bytes

definition ssid_of :: "wpa_supplicant \<Rightarrow> nat \<Rightarrow> wpa_ssid option" where
  "ssid_of s i = List.find (\<lambda>x. ss_id x = i) (ws_ssids s)"

definition bss_of :: "wpa_supplicant \<Rightarrow> nat \<Rightarrow> wpa_bss option" where
  "bss_of s i = List.find (\<lambda>x. bs_id x = i) (ws_bss s)"

definition upd_ssid :: "nat \<Rightarrow> (wpa_ssid \<Rightarrow> wpa_ssid) \<Rightarrow> wpa_supplicant \<Rightarrow> wpa_supplicant" where
  "upd_ssid i f s = s\<lparr> ws_ssids := map (\<lambda>x. if ss_id x = i then f x else x) (ws_ssids s) \<rparr>"

definition upd_bss :: "nat \<Rightarrow> (wpa_bss \<Rightarrow> wpa_bss) \<Rightarrow> wpa_supplicant \<Rightarrow> wpa_supplicant" where
  "upd_bss i f s = s\<lparr> ws_bss := map (\<lambda>x. if bs_id x = i then f x else x) (ws_bss s) \<rparr>"


section \<open>The list of ignored access points\<close>

definition wpa_bssid_ignore_clear :: "wpa_supplicant \<Rightarrow> wpa_supplicant" where
  "wpa_bssid_ignore_clear s = s\<lparr> ws_bssid_ignore := [] \<rparr>"

definition wpa_bssid_ignore_update :: "conn_env \<Rightarrow> wpa_supplicant \<Rightarrow> wpa_supplicant" where
  "wpa_bssid_ignore_update y s = s\<lparr> ws_bssid_ignore :=
     filter (\<lambda>e. \<not> os_reltime_expired (y_now y) (bi_start e) (bi_timeout_secs e + 3600)) (ws_bssid_ignore s) \<rparr>"

definition current_reconfigured :: "wpa_supplicant \<Rightarrow> nat option" where
  "current_reconfigured s =
     (case ws_current_ssid s of
        None \<Rightarrow> None
      | Some i \<Rightarrow> (case ssid_of s i of
                     None \<Rightarrow> None
                   | Some ssid \<Rightarrow> if ss_was_recently_reconfigured ssid then Some i else None))"

definition wpa_bssid_ignore_get ::
  "conn_env \<Rightarrow> bytes \<Rightarrow> wpa_supplicant \<Rightarrow> wpa_bssid_ignore option \<times> wpa_supplicant" where
  "wpa_bssid_ignore_get y bssid s =
     (case current_reconfigured s of
        Some i \<Rightarrow> (None, upd_ssid i (\<lambda>x. x\<lparr> ss_was_recently_reconfigured := False \<rparr>) (wpa_bssid_ignore_clear s))
      | None \<Rightarrow> let s = wpa_bssid_ignore_update y s
                in (List.find (\<lambda>e. bi_bssid e = bssid) (ws_bssid_ignore s), s))"

definition ignore_timeout :: "int \<Rightarrow> int" where
  "ignore_timeout n =
     (if n > 5 then 1800 else if n = 5 then 600 else if n = 4 then 120
      else if n = 3 then 60 else 10)"

definition upd_ignore :: "bytes \<Rightarrow> (wpa_bssid_ignore \<Rightarrow> wpa_bssid_ignore) \<Rightarrow> wpa_bssid_ignore list \<Rightarrow>
  wpa_bssid_ignore list" where
  "upd_ignore bssid f l =
     (case dropWhile (\<lambda>e. bi_bssid e \<noteq> bssid) l of
        [] \<Rightarrow> l
      | e # r \<Rightarrow> takeWhile (\<lambda>e. bi_bssid e \<noteq> bssid) l @ f e # r)"

definition wpa_bssid_ignore_add :: "conn_env \<Rightarrow> bytes \<Rightarrow> wpa_supplicant \<Rightarrow> int \<times> wpa_supplicant" where
  "wpa_bssid_ignore_add y bssid s =
     (let (e, s) = wpa_bssid_ignore_get y bssid s
      in case e of
           Some e \<Rightarrow>
             let n = bi_count e + 1
             in (n, s\<lparr> ws_bssid_ignore := upd_ignore bssid (\<lambda>e. e\<lparr> bi_start := y_now y, bi_count := n,
                                              bi_timeout_secs := ignore_timeout n \<rparr>) (ws_bssid_ignore s) \<rparr>)
         | None \<Rightarrow>
             if y_alloc y
             then (1, s\<lparr> ws_bssid_ignore := \<lparr> bi_bssid = bssid, bi_count = 1, bi_timeout_secs = 10,
                                              bi_start = y_now y \<rparr> # ws_bssid_ignore s \<rparr>)
             else (-1, s))"

definition wpa_bssid_ignore_del :: "bytes \<Rightarrow> wpa_supplicant \<Rightarrow> int \<times> wpa_supplicant" where
  "wpa_bssid_ignore_del bssid s =
     (case dropWhile (\<lambda>e. bi_bssid e \<noteq> bssid) (ws_bssid_ignore s) of
        [] \<Rightarrow> (-1, s)
      | e # r \<Rightarrow> (0, s\<lparr> ws_bssid_ignore := takeWhile (\<lambda>e. bi_bssid e \<noteq> bssid) (ws_bssid_ignore s) @ r \<rparr>))"

definition wpa_bssid_ignore_is_listed :: "conn_env \<Rightarrow> bytes \<Rightarrow> wpa_supplicant \<Rightarrow> int \<times> wpa_supplicant" where
  "wpa_bssid_ignore_is_listed y bssid s =
     (let (e, s) = wpa_bssid_ignore_get y bssid s
      in case e of
           None \<Rightarrow> (0, s)
         | Some e \<Rightarrow> if os_reltime_expired (y_now y) (bi_start e) (bi_timeout_secs e) then (0, s)
                     else (bi_count e, s))"

end
