(* ===== verification/Supplicant.thy ===== *)
theory Supplicant
  imports WPA_Safety EAPOL_Valid Network
begin

text \<open>
  The WPA and EAPOL state machines of a station together: the calls of the one to the
  other, and the two functions of the connection manager (\<^verbatim>\<open>wpa_supplicant.c\<close>) that set up
  the EAPOL state machine for a network and hand received EAPOL frames to the machines.
  Everything else that the connection manager does is an event that may happen at any
  time.
\<close>

section \<open>Calls between the state machines\<close>

fun eapol_call :: "action \<Rightarrow> eapol_event option" where
  "eapol_call Eapol_notify_tx_eapol_key = Some Ev_tx_eapol_key"
| "eapol_call (Eapol_notify_portValid b) = Some (Ev_portValid b)"
| "eapol_call (Eapol_notify_eap_success b) = Some (Ev_eap_success b)"
| "eapol_call (Eapol_notify_eap_fail b) = Some (Ev_eap_fail b)"
| "eapol_call Eapol_notify_cached = Some Ev_cached"
| "eapol_call Eapol_notify_lower_layer_success = Some Ev_lower_layer_success"
| "eapol_call Eapol_request_reauth = Some Ev_reauth"
| "eapol_call _ = None"

definition new_actions :: "'a list \<Rightarrow> 'a list \<Rightarrow> 'a list" where
  "new_actions old new = take (length new - length old) new"

text \<open>The newest action is the first of a trace.\<close>

definition deliver :: "eapol_env \<Rightarrow> crypto \<Rightarrow> action list \<Rightarrow> eapol_sm \<Rightarrow> eapol_sm" where
  "deliver x c as p = fold (eapol_handle x c) (List.map_filter eapol_call (rev as)) p"

definition call_wpa :: "conn_env \<Rightarrow> wpa_event \<Rightarrow> wpa_supplicant \<Rightarrow> wpa_supplicant" where
  "call_wpa y ev s =
     (let w = wpa_exec (y_env y) (y_crypto y) ev (ws_wpa s)
      in s\<lparr> ws_wpa := w,
            ws_eapol := deliver (y_eapol y) (y_crypto y)
                          (new_actions (sm_trace (ws_wpa s)) (sm_trace w)) (ws_eapol s) \<rparr>)"

text \<open>The callback \<^verbatim>\<open>aborted_cached\<close> of the EAPOL state machine goes to the WPA state
  machine (\<^verbatim>\<open>wpa_supplicant_aborted_cached\<close>).\<close>

definition wpa_supplicant_aborted_cached :: "wpa_supplicant \<Rightarrow> wpa_supplicant" where
  "wpa_supplicant_aborted_cached s = s\<lparr> ws_wpa := wpa_sm_aborted_cached (ws_wpa s) \<rparr>"

definition set_eapol :: "eapol_sm \<Rightarrow> wpa_supplicant \<Rightarrow> wpa_supplicant" where
  "set_eapol p s =
     (let s' = s\<lparr> ws_eapol := p \<rparr>
      in if Aborted_cached_cb \<in> set (new_actions (es_trace (ws_eapol s)) (es_trace p))
         then wpa_supplicant_aborted_cached s' else s')"

definition call_eapol :: "conn_env \<Rightarrow> eapol_event \<Rightarrow> wpa_supplicant \<Rightarrow> wpa_supplicant" where
  "call_eapol y ev s = set_eapol (eapol_handle (y_eapol y) (y_crypto y) ev (ws_eapol s)) s"


section \<open>Connection manager\<close>

abbreviation (input) EAPOL_FLAG_REQUIRE_KEY_UNICAST :: u32 where "EAPOL_FLAG_REQUIRE_KEY_UNICAST \<equiv> 1"
abbreviation (input) EAPOL_FLAG_REQUIRE_KEY_BROADCAST :: u32 where "EAPOL_FLAG_REQUIRE_KEY_BROADCAST \<equiv> 2"
abbreviation (input) EAPOL_LOCAL_WPS_IN_USE :: u32 where "EAPOL_LOCAL_WPS_IN_USE \<equiv> 1"

definition eapol_config_of :: "conn_env \<Rightarrow> wpa_ssid \<Rightarrow> wpa_supplicant \<Rightarrow> eapol_config" where
  "eapol_config_of y ssid s =
     (let km = ws_key_mgmt s;
          no_wpa = (km = WPA_KEY_MGMT_IEEE8021X_NO_WPA);
          required = or (if and (ss_eapol_flags ssid) EAPOL_FLAG_REQUIRE_KEY_UNICAST \<noteq> 0
                         then EAPOL_REQUIRE_KEY_UNICAST else 0)
                        (if and (ss_eapol_flags ssid) EAPOL_FLAG_REQUIRE_KEY_BROADCAST \<noteq> 0
                         then EAPOL_REQUIRE_KEY_BROADCAST else 0)
      in \<lparr> ec_accept_802_1x_keys = no_wpa,
           ec_required_keys = (if no_wpa \<and> \<not> has (ws_drv_flags s) WPA_DRIVER_FLAGS_WIRED then required else 0),
           ec_fast_reauth = ws_fast_reauth s,
           ec_workaround = ss_eap_workaround ssid,
           ec_eap_disabled = (\<not> wpa_key_mgmt_wpa_ieee8021x km \<and> \<not> no_wpa \<and> km \<noteq> WPA_KEY_MGMT_WPS),
           ec_external_sim = ws_external_sim s,
           ec_wps = (if km = WPA_KEY_MGMT_WPS
                     then or EAPOL_LOCAL_WPS_IN_USE (if y_wps20 y then EAPOL_PEER_IS_WPS20_AP else 0)
                     else 0) \<rparr>)"

definition wpa_supplicant_initiate_eapol :: "conn_env \<Rightarrow> wpa_ssid \<Rightarrow> wpa_supplicant \<Rightarrow> wpa_supplicant" where
  "wpa_supplicant_initiate_eapol y ssid s =
     (let s = call_eapol y (Ev_eap_success False) s;
          s = call_eapol y (Ev_eap_fail False) s;
          s = (if ws_key_mgmt s = WPA_KEY_MGMT_NONE \<or> ws_key_mgmt s = WPA_KEY_MGMT_WPA_NONE
               then call_eapol y (Ev_portControl ForceAuthorized) s
               else call_eapol y (Ev_portControl Auto) s)
      in call_eapol y (Ev_config (Some (ss_eap ssid)) (Some (eapol_config_of y ssid s))) s)"

definition wpa_supplicant_req_auth_timeout :: "int \<Rightarrow> wpa_supplicant \<Rightarrow> wpa_supplicant" where
  "wpa_supplicant_req_auth_timeout sec s =
     (if ws_ap_scan s = 0 \<and> has (ws_drv_flags s) WPA_DRIVER_FLAGS_WIRED then s else s\<lparr> ws_last_auth_timeout_sec := sec, ws_auth_timer := Some sec \<rparr>)"

definition associated :: "wpa_states \<Rightarrow> bool" where
  "associated st \<longleftrightarrow> st \<in> {WPA_ASSOCIATED, WPA_4WAY_HANDSHAKE, WPA_GROUP_HANDSHAKE, WPA_COMPLETED}"

text \<open>The first frame of an association starts the timer for its authentication.\<close>

definition rx_auth_timeout :: "conn_env \<Rightarrow> wpa_supplicant \<Rightarrow> wpa_supplicant" where
  "rx_auth_timeout y s =
     (if ws_eapol_received s = 0 \<and>
         (\<not> has (ws_drv_flags s) WPA_DRIVER_FLAGS_4WAY_HANDSHAKE_PSK \<or> \<not> wpa_key_mgmt_wpa_psk (ws_key_mgmt s) \<or>
          ws_wpa_state s \<noteq> WPA_COMPLETED) \<and>
         (case ws_current_ssid s of None \<Rightarrow> True | Some i \<Rightarrow> map_option ss_mode (ssid_of s i) \<noteq> Some WPAS_MODE_IBSS)
      then wpa_supplicant_req_auth_timeout
             (if y_wps_pin_unauthorized y then 10
              else if wpa_key_mgmt_wpa_ieee8021x (ws_key_mgmt s) \<or>
                      ws_key_mgmt s = WPA_KEY_MGMT_IEEE8021X_NO_WPA \<or> ws_key_mgmt s = WPA_KEY_MGMT_WPS
              then 70 else 10) s
      else s)"

definition rx_to_wpa :: "conn_env \<Rightarrow> bytes \<Rightarrow> bytes \<Rightarrow> wpa_supplicant \<Rightarrow> wpa_supplicant" where
  "rx_to_wpa y src buf s =
     (if \<not> has (ws_drv_flags s) WPA_DRIVER_FLAGS_4WAY_HANDSHAKE_PSK then call_wpa y (Rx_eapol src buf) s
      else if wpa_key_mgmt_wpa_ieee8021x (ws_key_mgmt s) then call_eapol y (Ev_portValid True) s
      else s)"

text \<open>Where the authentication is in progress the frame goes to the EAPOL state machine first.\<close>

definition rx_authentication :: "conn_env \<Rightarrow> bytes \<Rightarrow> bytes \<Rightarrow> wpa_supplicant \<Rightarrow> wpa_supplicant" where
  "rx_authentication y src buf s =
     (case eapol_sm_rx_eapol (y_eapol y) (y_crypto y) src buf (ws_eapol s) of
        None \<Rightarrow> s
      | Some (r, p) \<Rightarrow> if r > 0 then set_eapol p s else rx_to_wpa y src buf (set_eapol p s))"

definition wpa_supplicant_rx_eapol :: "conn_env \<Rightarrow> bytes \<Rightarrow> bytes \<Rightarrow> wpa_supplicant \<Rightarrow> wpa_supplicant" where
  "wpa_supplicant_rx_eapol y src buf s =
     (if ws_own_disconnect_req s then s
      else if \<not> associated (ws_wpa_state s) \<or> ws_last_eapol_matches_bssid s \<and> src \<noteq> ws_bssid s
      then if y_alloc y
           then s\<lparr> ws_pending_eapol_rx := Some buf, ws_pending_eapol_rx_time := y_now y,
                   ws_pending_eapol_rx_src := src \<rparr>
           else s\<lparr> ws_pending_eapol_rx := None \<rparr>
      else let s = s\<lparr> ws_last_eapol_matches_bssid := (src = ws_bssid s) \<rparr>
      in if ws_key_mgmt s = WPA_KEY_MGMT_NONE then s
      else let s = rx_auth_timeout y s;
               s = s\<lparr> ws_eapol_received := ws_eapol_received s + 1 \<rparr>
      in if ws_countermeasures s then s
      else let s = s\<lparr> ws_last_eapol_src := src \<rparr>
      in if wpa_key_mgmt_wpa_psk (ws_key_mgmt s) \<or> ws_key_mgmt s = WPA_KEY_MGMT_OWE \<or>
            ws_key_mgmt s = WPA_KEY_MGMT_DPP
         then rx_to_wpa y src buf s
         else rx_authentication y src buf s)"


section \<open>Runs\<close>

text \<open>A network with WPA or RSN security and a driver that leaves the handshake to the
  program.\<close>

definition wpa_network :: "wpa_supplicant \<Rightarrow> bool" where
  "wpa_network s \<longleftrightarrow> \<not> has (ws_drv_flags s) WPA_DRIVER_FLAGS_4WAY_HANDSHAKE_PSK \<and>
     ws_key_mgmt s \<notin> {WPA_KEY_MGMT_NONE, WPA_KEY_MGMT_WPA_NONE, WPA_KEY_MGMT_IEEE8021X_NO_WPA}"

text \<open>The connection manager may change its own fields at any time, call the WPA state
  machine, and call the EAPOL state machine except to declare the port valid or forced.\<close>

inductive ws_reachable :: "conn_env \<Rightarrow> wpa_supplicant \<Rightarrow> bool" for y where
  start: "eapol_sm_init (y_eapol y) (y_crypto y) tls_ok = Some (ws_eapol s) \<Longrightarrow> ws_wpa s = wpa_sm_init \<Longrightarrow>
    wpa_network s \<Longrightarrow> ws_reachable y s"
| manager: "ws_reachable y s \<Longrightarrow> ws_wpa s' = ws_wpa s \<Longrightarrow> ws_eapol s' = ws_eapol s \<Longrightarrow> wpa_network s' \<Longrightarrow>
    ws_reachable y s'"
| initiate: "ws_reachable y s \<Longrightarrow> ws_reachable y (wpa_supplicant_initiate_eapol y ssid s)"
| receive: "ws_reachable y s \<Longrightarrow> ws_reachable y (wpa_supplicant_rx_eapol y src buf s)"
| wpa: "ws_reachable y s \<Longrightarrow> ws_reachable y (call_wpa y ev s)"
| eapol: "ws_reachable y s \<Longrightarrow> keeps_port ev' \<Longrightarrow> ws_reachable y (call_eapol y ev' s)"



section \<open>What the WPA state machine adds to its trace\<close>

definition adds :: "(action \<Rightarrow> bool) \<Rightarrow> wpa_sm \<Rightarrow> wpa_sm \<Rightarrow> bool" where
  "adds P s t \<longleftrightarrow> (\<exists>l. sm_trace t = l @ sm_trace s \<and> (\<forall>a \<in> set l. P a))"

lemma adds_refl: "adds P s s"
  by (simp add: adds_def)

lemma adds_trans: "adds P s t \<Longrightarrow> adds P t u \<Longrightarrow> adds P s u"
  by (fastforce simp: adds_def)

lemma adds_act: "adds P s t \<Longrightarrow> P a \<Longrightarrow> adds P s (act a t)"
  by (rule adds_trans) (auto simp: adds_def act_def)

lemma adds_same: "adds P s t \<Longrightarrow> sm_trace u = sm_trace t \<Longrightarrow> adds P s u"
  by (simp add: adds_def)

lemma adds_cache:
  assumes "adds P s t" "cache_only t u" "\<And>a. plain_action a \<Longrightarrow> P a"
  shows "adds P s u"
  using assms(1) by (rule adds_trans) (use assms(2,3) in \<open>auto simp: adds_def cache_only_def\<close>)

abbreviation any_action :: "action \<Rightarrow> bool" where
  "any_action \<equiv> \<lambda>_. True"

abbreviation quiet_action :: "action \<Rightarrow> bool" where
  "quiet_action \<equiv> \<lambda>a. \<not> is_port_valid a"

interpretation an: key_frame "adds any_action"
  by unfold_locales (rule adds_refl, erule adds_trans, assumption, erule adds_cache, assumption, simp)

interpretation qu: key_frame "adds quiet_action"
  by unfold_locales (rule adds_refl, erule adds_trans, assumption, erule adds_cache, assumption, simp)

lemma adds_install_ptk:
  assumes "adds P s t" "\<And>a. \<not> is_port_valid a \<Longrightarrow> P a"
  shows "adds P s (snd (wpa_supplicant_install_ptk e f fl t))"
proof (rule adds_trans [OF assms(1)])
  show "adds P t (snd (wpa_supplicant_install_ptk e f fl t))"
    using assms(2) unfolding wpa_supplicant_install_ptk_def wpa_sm_set_key_def call_def Let_def
    by (auto simp: adds_def act_def)
qed

interpretation qu: install_frame "adds quiet_action" e
proof
  have "\<not> is_port_valid a" if "is_set_key a" for a using that by (cases a) simp_all
  then show "adds quiet_action s (act a t)" if "adds quiet_action s t" "is_set_key a" for s t a
    using that by (blast intro: adds_act)
  show "adds quiet_action s (snd (wpa_supplicant_install_ptk e f fl t))" if "adds quiet_action s t" for s t f fl
    using that by (rule adds_install_ptk)
qed

interpretation an: key_handshake_frame "adds any_action" e
proof
  show "adds any_action s (snd (renew_snonce_step e t))" if "adds any_action s t" for s t
    using that unfolding renew_snonce_step_def
    by - (rule an.rules | assumption | (erule adds_trans, simp add: adds_def act_def; fail))+
  show "adds any_action s (snd (wpa_supplicant_install_ptk e f fl t))" if "adds any_action s t" for s t f fl
    using that by (rule adds_install_ptk) simp
qed (auto intro: adds_act elim: adds_same)

lemma rx_eapol_adds: "adds any_action sm (snd (wpa_sm_rx_eapol e c src buf sm))"
proof -
  obtain r sm' where rx: "wpa_sm_rx_eapol e c src buf sm = (r, sm')" by fastforce
  then have "adds any_action sm sm'"
  proof (cases rule: rx_eapol_cases)
    case ignored
    then show ?thesis by (auto simp: adds_def eapol_notify_def act_def)
  next
    case (checked f n kd s1 s2)
    have s1: "adds any_action sm s1" unfolding checked(2) by (rule an.eapol_notify [OF an.refl]) simp
    have "adds any_action s1 s2"
      using checked(5) by (auto simp: adds_def accept_counter_def promote_tptk_def split: if_splits elim!: verify_mic_cases)
    with s1 have s2: "adds any_action sm s2" by (rule adds_trans)
    from checked(6) show ?thesis
    proof (elim disjE exE conjE)
      fix kd' assume "rx_dispatch e c src f n kd' s2 = (r, sm')"
      with an.dispatch [OF s2, of e c src f n kd'] show ?thesis by simp
    qed (simp add: s2)
  qed
  then show ?thesis by (simp add: rx)
qed

lemma cache_events_quiet:
  "adds quiet_action sm (wpa_sm_set_pmk e c pmk pid bssid sm)"
  "adds quiet_action sm (wpa_sm_set_pmk_from_pmksa sm)"
  "adds quiet_action sm (snd (pmksa_cache_set_current e c pid bssid ctx opp fils akmp sm))"
  "adds quiet_action sm (pmksa_cache_flush e ctx pm ext sm)"
  "adds quiet_action sm (wpa_sm_pmksa_cache_add e c pmk pid bs fils sm)"
  "adds quiet_action sm (pmksa_cache_reconfig e sm)" "adds quiet_action sm (pmksa_cache_expire e sm)"
  "adds quiet_action sm (pmksa_cache_reauth sm)"
  "adds quiet_action sm (snd (pmksa_cache_add_entry e en sm))"
  by (rule qu.cache [OF qu.refl],
      rule co_set_pmk co_set_pmk_from_pmksa co_set_current co_flush co_pmksa_add co_reconfig co_expire co_reauth
        co_add_entry, rule co.refl)+

text \<open>Only a received frame can open the port.\<close>

lemma exec_quiet:
  assumes "\<And>src buf. ev \<noteq> Rx_eapol src buf"
  shows "adds quiet_action sm (wpa_exec e c ev sm)"
proof (cases ev)
  case (Rx_eapol src buf)
  then show ?thesis using assms by blast
next
  case (Pmksa_add_entry en)
  then show ?thesis
    using cache_events_quiet(9) [of "sm\<lparr> sm_pmksa_next_id := sm_pmksa_next_id sm + 1 \<rparr>" e
        "en\<lparr> pe_id := sm_pmksa_next_id sm \<rparr>"]
    by (simp add: adds_def)
next
  case (Set_param p v)
  then show ?thesis by (simp add: adds_def set_param_same_keys)
next
  case (Set_config cf)
  then show ?thesis by (simp add: adds_def set_config_same_keys)
next
  case Rekey_timeout
  then show ?thesis by (simp add: wpa_sm_rekey_ptk_def qu.key_request [OF qu.refl])
next
  case (Key_request err pw)
  then show ?thesis by (simp add: qu.key_request [OF qu.refl])
next
  case (Wnmsleep_install_key i buf)
  then show ?thesis by (simp add: qu.wnmsleep_install [OF qu.refl])
next
  case (Notify_assoc bssid)
  then show ?thesis by (simp add: adds_def wpa_sm_notify_assoc_def Let_def rsn_preauth_deinit_def act_def)
next
  case Notify_disassoc
  then show ?thesis
    by (simp add: adds_def wpa_sm_notify_disassoc_def Let_def rsn_preauth_deinit_def act_def
        pmksa_cache_clear_current_def wpa_sm_drop_sa_def)
qed (simp_all add: cache_events_quiet, simp_all add: adds_def wpa_sm_drop_sa_def wpa_sm_aborted_cached_def
    wpa_sm_aborted_external_cached_def wpa_sm_set_own_addr_def wpa_sm_set_eapol_def
    wpa_sm_update_replay_ctr_def wpa_sm_set_rx_replay_ctr_def wpa_sm_set_ptk_kck_kek_def
    wpa_sm_set_assoc_wpa_ie_def wpa_sm_set_assoc_wpa_ie_default_def wpa_sm_set_assoc_rsnxe_def
    wpa_sm_set_assoc_rsnxe_default_def wpa_sm_set_ap_wpa_ie_def wpa_sm_set_ap_rsn_ie_def
    wpa_sm_set_ap_rsnxe_def split_beta Let_def split: option.split)

lemma exec_adds: "adds any_action sm (wpa_exec e c ev sm)"
proof (cases "\<exists>src buf. ev = Rx_eapol src buf")
  case True
  then show ?thesis using rx_eapol_adds by auto
next
  case False
  then have "adds quiet_action sm (wpa_exec e c ev sm)" by (intro exec_quiet) blast
  then show ?thesis by (auto simp: adds_def)
qed

lemma fold_adds: "adds any_action sm (fold (wpa_exec e c) evs sm)"
  by (induction evs arbitrary: sm) (auto intro: adds_refl adds_trans [OF exec_adds])

end
