(* ===== verification/WPA_Messages.thy ===== *)
theory WPA_Messages
  imports WPA_Safety
begin

text \<open>
  The contents of the EAPOL-Key frames that the supplicant sends, and the parts
  of the handshakes that an outside observer can rely on: the replies echo the
  replay counter of the request and carry a valid MIC, the request counter
  counts, encrypted Key Data decrypts to what the authenticator wrapped.
\<close>


section \<open>Fields of a frame under construction\<close>

lemma slice_overwrite_before:
  assumes "off + n \<le> off'" "off' \<le> length xs"
  shows "slice off n (overwrite off' a xs) = slice off n xs"
  using assms by (simp add: slice_def overwrite_def min_def take_drop)

lemma slice_overwrite_after:
  assumes "off' + length a \<le> off" "off' + length a \<le> length xs"
  shows "slice off n (overwrite off' a xs) = slice off n xs"
  using assms by (simp add: slice_def overwrite_def)

lemma get_be16_slice:
  assumes "slice i 2 f = WPA_PUT_BE16 v"
  shows "get_be16 f i = v"
proof -
  have "length (slice i 2 f) = 2" by (simp only: assms) (simp add: WPA_PUT_BE16_def)
  then have len: "i + 1 < length f" by (simp add: min_def split: if_splits)
  then have "drop i f = f ! i # f ! (i + 1) # drop (i + 2) f"
    by (simp add: Cons_nth_drop_Suc)
  then have "WPA_PUT_BE16 v = [f ! i, f ! (i + 1)]"
    using assms by (simp add: slice_def numeral_2_eq_2)
  then show ?thesis
    using len be16_PUT [of v] by (simp add: get_be16_def octet_def WPA_PUT_BE16_def)
qed

lemma slice_zeros: "off + k \<le> m \<Longrightarrow> slice off k (zeros m) = zeros k"
  by (simp add: slice_def zeros_def)

text \<open>The zeroed buffer of a reply.\<close>

lemma alloc_eapol_length:
  "wpa_alloc_eapol e typ dl sm = Some rbuf \<Longrightarrow> length rbuf = 4 + unat dl"
  by (auto simp: wpa_alloc_eapol_def WPA_PUT_BE16_def split: if_splits)

lemma eapol_key_fill_fields:
  assumes "length rbuf = 83 + n + length kd" "length kl = 2" "length ctr = 8"
    and f: "f = eapol_key_fill typ info kl ctr n kd rbuf"
  shows "length f = length rbuf" "slice 5 2 f = WPA_PUT_BE16 info" "slice 7 2 f = kl" "slice 9 8 f = ctr"
    "slice (81 + n) 2 f = WPA_PUT_BE16 (of_nat (length kd))" "slice (83 + n) (length kd) f = kd"
proof -
  have l2: "length (WPA_PUT_BE16 v) = 2" for v by (simp add: WPA_PUT_BE16_def)
  show "length f = length rbuf" by (simp add: f eapol_key_fill_def Let_def)
  have same: "slice off (length a) (overwrite off a xs) = a" if "off + length a \<le> length xs" for off a and xs :: bytes
    using slice_overwrite_same [OF that] .
  show "slice 5 2 f = WPA_PUT_BE16 info"
    using assms(1-3) same [of 5 "WPA_PUT_BE16 info"]
    by (simp add: f eapol_key_fill_def Let_def slice_overwrite_before l2)
  show "slice 7 2 f = kl" "slice 9 8 f = ctr"
    using assms(1-3) same [of 7 kl] same [of 9 ctr]
    by (simp_all add: f eapol_key_fill_def Let_def slice_overwrite_before l2)
  show "slice (81 + n) 2 f = WPA_PUT_BE16 (of_nat (length kd))"
    using assms(1-3) same [of "81 + n" "WPA_PUT_BE16 (of_nat (length kd))"]
    by (simp add: f eapol_key_fill_def Let_def slice_overwrite_before l2)
  show "slice (83 + n) (length kd) f = kd"
    using assms(1-3) same [of "83 + n" kd]
    by (simp add: f eapol_key_fill_def Let_def l2 add.commute)
qed


section \<open>Sent frames\<close>

text \<open>What \<^verbatim>\<open>wpa_eapol_key_send\<close> does with a frame that gets a MIC: nothing goes
  out, or the frame with the MIC of the frame in the MIC field.\<close>

definition sends :: "env \<Rightarrow> wpa_sm \<Rightarrow> wpa_sm \<Rightarrow> bytes \<Rightarrow> bool" where
  "sends e sm sm' msg \<longleftrightarrow> (\<exists>d. sm_trace sm' =
     (if sm_eapol sm then [Eapol_notify_tx_eapol_key] else []) @ Ether_send d ETH_P_EAPOL msg # sm_trace sm)"

lemma key_send_mic:
  assumes "wpa_eapol_key_send e c (Some p) ver dst ETH_P_EAPOL msg (Some mic_offset) sm = (r, sm')"
  shows "r = -1 \<and> sm_trace sm' = sm_trace sm \<or>
    (\<exists>m. wpa_eapol_key_mic c (kck p) (kck_len p) (sm_key_mgmt sm) ver msg = Some m \<and>
         sends e sm sm' (overwrite mic_offset m msg))"
proof -
  let ?bssid = "is_zero_ether_addr dst \<and> is_zero_ether_addr (sm_bssid sm)"
  let ?mic = "wpa_eapol_key_mic c (kck p) (kck_len p) (sm_key_mgmt sm) ver msg"
  show ?thesis
    using assms
    by (cases ?mic; cases ?bssid; cases "e_bssid e (sm_trace sm)")
       (auto simp: wpa_eapol_key_send_def Let_def call_def act_def eapol_notify_def sends_def split: if_splits)
qed

text \<open>A reply under construction: its MIC field is still zero.\<close>

lemma sent_frame_authentic:
  assumes c: "crypto_sizes_ok c" "fixed_mic (sm_key_mgmt sm)"
      "wpa_use_akm_defined (sm_key_mgmt sm) \<longrightarrow> ver = WPA_KEY_INFO_TYPE_AKM_DEFINED"
    and n: "n = wpa_mic_len (sm_key_mgmt sm) (sm_pmk_len sm)"
    and msg: "81 + n \<le> length msg" "slice 81 n msg = zeros n"
    and ver: "key_info msg AND WPA_KEY_INFO_TYPE_MASK = ver"
    and m: "wpa_eapol_key_mic c (kck p) (kck_len p) (sm_key_mgmt sm) ver msg = Some m"
    and f: "f = overwrite mic_offset m msg"
  shows "authentic c p f sm" "off + k \<le> 81 \<Longrightarrow> slice off k f = slice off k msg"
    "81 + n \<le> off \<Longrightarrow> slice off k f = slice off k msg" "key_info f = key_info msg"
proof -
  have lm: "length m = n" unfolding n by (rule length_eapol_key_mic [OF c(1,2) m c(3)])
  show before: "slice off k f = slice off k msg" if "off + k \<le> 81" for off k
    using that msg(1) by (simp add: f slice_overwrite_before)
  show "slice off k f = slice off k msg" if "81 + n \<le> off"
    using that msg(1) lm by (simp add: f slice_overwrite_after)
  have oct: "octet f i = octet msg i" if "i < 81" for i
    using that msg(1) by (simp add: octet_def f overwrite_def nth_append)
  then show ki: "key_info f = key_info msg" by (simp add: key_info_def get_be16_def)
  have "overwrite 81 (zeros n) f = overwrite 81 (zeros n) msg"
    using lm by (simp add: f overwrite_twice)
  also have "\<dots> = msg"
  proof -
    have "msg = take 81 msg @ slice 81 n msg @ drop (81 + n) msg"
      by (simp add: slice_def) (metis add.commute append_take_drop_id drop_drop)
    then show ?thesis using msg by (simp add: overwrite_def)
  qed
  finally have z: "overwrite 81 (zeros n) f = msg" .
  have "slice 81 n f = m" using slice_overwrite_same [of 81 m msg] lm msg(1) by (simp add: f)
  then show "authentic c p f sm" using m z ki ver by (simp add: authentic_def Let_def flip: n)
qed

lemma fill_mic_zero:
  assumes "wpa_alloc_eapol e typ (of_nat (79 + n + length kd)) sm = Some rbuf"
    "79 + n + length kd < 65536" "length kl = 2" "length ctr = 8"
  shows "slice 81 n (eapol_key_fill t info kl ctr n kd rbuf) = zeros n" "length rbuf = 83 + n + length kd"
proof -
  have u: "unat (of_nat (79 + n + length kd) :: u16) = 79 + n + length kd"
    using assms(2) by (simp only: unsigned_of_nat) (simp add: take_bit_nat_eq_self)
  show len: "length rbuf = 83 + n + length kd" using alloc_eapol_length [OF assms(1)] u by simp
  obtain h where h: "rbuf = h @ zeros (79 + n + length kd)" "length h = 4"
    using assms(1) u by (auto simp: wpa_alloc_eapol_def WPA_PUT_BE16_def split: if_splits)
  then have "slice 81 n rbuf = slice 77 n (zeros (79 + n + length kd))"
    by simp
  also have "\<dots> = zeros n" by (rule slice_zeros) simp
  finally have z: "slice 81 n rbuf = zeros n" .
  have l2: "length (WPA_PUT_BE16 v) = 2" for v by (simp add: WPA_PUT_BE16_def)
  show "slice 81 n (eapol_key_fill t info kl ctr n kd rbuf) = zeros n"
    using len assms(3,4) z
    by (simp add: eapol_key_fill_def Let_def slice_overwrite_before slice_overwrite_after l2)
qed

lemma reply_key_length_2: "9 \<le> length key \<Longrightarrow> length (reply_key_length key sm) = 2"
  by (simp add: reply_key_length_def key_length_def)

lemma version_bits:
  fixes ver :: u16
  assumes "ver AND WPA_KEY_INFO_TYPE_MASK = ver"
  shows "((ver OR WPA_KEY_INFO_KEY_TYPE) OR WPA_KEY_INFO_MIC) AND WPA_KEY_INFO_TYPE_MASK = ver"
  using assms by (simp add: bit.conj_disj_distrib2)

text \<open>C29: message 2/4, when it goes out, answers the message it was given: it has
  the replay counter of that message, the supplicant's nonce, the own element as
  Key Data, the Key Info of a pairwise message with a MIC, and a MIC that is valid
  under the key that both ends are about to share.\<close>

theorem msg_2_of_4_content:
  assumes c: "crypto_sizes_ok c" "fixed_mic (sm_key_mgmt sm)"
      "wpa_use_akm_defined (sm_key_mgmt sm) \<longrightarrow> ver = WPA_KEY_INFO_TYPE_AKM_DEFINED"
    and ver: "ver AND WPA_KEY_INFO_TYPE_MASK = ver"
    and len: "81 \<le> length key" "length nonce = 32" "length ie < 60000"
    and send: "wpa_supplicant_send_2_of_4 e c dst key ver nonce (Some ie) ptk sm = (r, sm')"
  shows "r = -1 \<and> sm_trace sm' = sm_trace sm \<or>
    (\<exists>msg. sends e sm sm' msg \<and> authentic c ptk msg sm \<and>
       key_info msg = (ver OR WPA_KEY_INFO_KEY_TYPE) OR WPA_KEY_INFO_MIC \<and>
       replay_counter msg = replay_counter key \<and> key_nonce msg = nonce \<and>
       slice (83 + wpa_mic_len (sm_key_mgmt sm) (sm_pmk_len sm)) (length ie) msg = ie)"
proof -
  define n where "n = wpa_mic_len (sm_key_mgmt sm) (sm_pmk_len sm)"
  have n: "16 \<le> n" "n \<le> 24"
    using fixed_mic_len [OF c(2)] c(2) by (auto simp: n_def wpa_mic_len_def fixed_mic_def)
  let ?info = "(ver OR WPA_KEY_INFO_KEY_TYPE) OR WPA_KEY_INFO_MIC"
  show ?thesis
  proof (cases "wpa_alloc_eapol e IEEE802_1X_TYPE_EAPOL_KEY (of_nat (79 + n + length ie)) sm")
    case None
    then show ?thesis
      using send by (simp add: wpa_supplicant_send_2_of_4_def Let_def flip: n_def)
  next
    case (Some rbuf)
    have sz: "79 + n + length ie < 65536" using n(2) len(3) by simp
    have kl: "length (reply_key_length key sm) = 2" "length (replay_counter key) = 8"
      using len(1) by (simp_all add: reply_key_length_2 replay_counter_def)
    define m0 where "m0 = eapol_key_fill (reply_type sm) ?info (reply_key_length key sm) (replay_counter key) n ie rbuf"
    define msg where "msg = overwrite 17 nonce m0"
    note z = fill_mic_zero [OF Some sz kl]
    note fl = eapol_key_fill_fields [OF z(2) kl m0_def]
    have fields: "length msg = 83 + n + length ie" "slice 81 n msg = zeros n" "slice 5 2 msg = WPA_PUT_BE16 ?info"
      "slice 9 8 msg = replay_counter key" "slice 17 32 msg = nonce" "slice (83 + n) (length ie) msg = ie"
      using z fl len(2) slice_overwrite_same [of 17 nonce m0]
      by (simp_all add: msg_def slice_overwrite_before slice_overwrite_after m0_def)
    have ki: "key_info msg = ?info" using get_be16_slice [OF fields(3)] by (simp add: key_info_def)
    have "wpa_eapol_key_send e c (Some ptk) ver dst ETH_P_EAPOL msg (Some mic_offset) sm = (r, sm')"
      using send Some n(1) len(2)
      by (simp add: wpa_supplicant_send_2_of_4_def Let_def msg_def m0_def flip: n_def)
    from key_send_mic [OF this] show ?thesis
    proof (elim disjE exE conjE)
      fix m
      assume m: "wpa_eapol_key_mic c (kck ptk) (kck_len ptk) (sm_key_mgmt sm) ver msg = Some m"
        and s: "sends e sm sm' (overwrite mic_offset m msg)"
      have vb: "key_info msg AND WPA_KEY_INFO_TYPE_MASK = ver" unfolding ki by (rule version_bits [OF ver])
      note a = sent_frame_authentic [OF c n_def _ fields(2) vb m refl]
      show ?thesis
        using a s ki fields by (intro disjI2 exI [of _ "overwrite mic_offset m msg"])
          (simp add: replay_counter_def key_nonce_def flip: n_def)
    qed simp
  qed
qed


section \<open>Counters and encrypted data\<close>

text \<open>The number that an octet string stands for, most significant octet
  first.\<close>

fun octets_value :: "bytes \<Rightarrow> nat" where
  "octets_value [] = 0"
| "octets_value (b # bs) = unat b * 256 ^ length bs + octets_value bs"

lemma octets_value_snoc: "octets_value (bs @ [b]) = octets_value bs * 256 + unat b"
  by (induction bs) (auto simp: algebra_simps)

lemma octets_value_less: "octets_value bs < 256 ^ length bs"
proof (induction bs)
  case (Cons b bs)
  have "unat b \<le> 255" using unsigned_less [of b, where 'a = nat] by simp
  then have "unat b * 256 ^ length bs \<le> 255 * 256 ^ length bs" by (rule mult_right_mono) simp
  moreover have "octets_value (b # bs) < unat b * 256 ^ length bs + 256 ^ length bs" using Cons by simp
  ultimately have "octets_value (b # bs) < 255 * 256 ^ length bs + 256 ^ length bs" by linarith
  then show ?case by simp
qed simp

lemma inc_octets_value:
  "octets_value (rev (inc_octets bs)) = (octets_value (rev bs) + 1) mod 256 ^ length bs"
proof (induction bs)
  case (Cons b bs)
  show ?case
  proof (cases "b + 1 = 0")
    case True
    then have "b = - 1" by (simp add: eq_neg_iff_add_eq_0)
    then have b: "unat b = 255" by (simp add: unsigned_minus_1_eq_mask mask_eq_exp_minus_1)
    have "octets_value (rev (inc_octets (b # bs))) = 256 * ((octets_value (rev bs) + 1) mod 256 ^ length bs)"
      using True Cons by (simp add: octets_value_snoc)
    also have "\<dots> = (256 * (octets_value (rev bs) + 1)) mod (256 * 256 ^ length bs)"
      by (rule mult_mod_right)
    finally show ?thesis using b by (simp add: octets_value_snoc algebra_simps)
  next
    case False
    then have b: "unat (b + 1) = unat b + 1" using unatSuc [of b] by (simp add: add.commute)
    have "octets_value (rev (b # bs)) + 1 < 256 ^ length (b # bs)"
      using octets_value_less [of "rev bs @ [b + 1]"] b by (simp add: octets_value_snoc)
    then show ?thesis using False b by (simp add: octets_value_snoc)
  qed
qed simp

text \<open>The counter of the key requests counts: incrementing the octet array
  adds one to the number it stands for, modulo the size of the array.\<close>

theorem inc_byte_array_value:
  "octets_value (inc_byte_array counter) = (octets_value counter + 1) mod 256 ^ length counter"
  using inc_octets_value [of "rev counter"] by (simp add: inc_byte_array_def)

text \<open>C30: Key Data that the authenticator wrapped with the KEK of the pairwise key
  decrypts to what was wrapped; with the RC4 descriptor version, to what was
  enciphered with the same initialisation vector.\<close>

theorem key_data_decrypts:
  assumes "sm_ptk_set sm" "e_alloc e (sm_trace sm)" "length kd = 8 * n"
    "aes_inverse c (slice 0 (kek_len (sm_ptk sm)) (kek (sm_ptk sm)))"
  shows "(\<exists>w. aes_wrap c (slice 0 (kek_len (sm_ptk sm)) (kek (sm_ptk sm))) n kd = Some w \<and>
           wpa_supplicant_decrypt_key_data e c f WPA_KEY_INFO_TYPE_HMAC_SHA1_AES w sm = Some kd \<and>
           wpa_supplicant_decrypt_key_data e c f WPA_KEY_INFO_TYPE_AES_128_CMAC w sm = Some kd) \<and>
    (kek_len (sm_ptk sm) = 16 \<longrightarrow>
       wpa_supplicant_decrypt_key_data e c f WPA_KEY_INFO_TYPE_HMAC_MD5_RC4
         (rc4_skip (key_iv f @ slice 0 16 (kek (sm_ptk sm))) 256 kd) sm = Some kd)"
proof -
  obtain w where "aes_wrap c (slice 0 (kek_len (sm_ptk sm)) (kek (sm_ptk sm))) n kd = Some w"
    "length w = 8 * n + 8" "aes_unwrap c (slice 0 (kek_len (sm_ptk sm)) (kek (sm_ptk sm))) n w = Some kd"
    using aes_unwrap_wrap [OF assms(4,3)] by blast
  then show ?thesis
    using assms(1,2) rc4_skip_involution by (auto simp: wpa_supplicant_decrypt_key_data_def)
qed


section \<open>Format checks\<close>

text \<open>C22: a frame is processed only if every field that the handlers read lies
  inside the received octets: the header, the 77 octets of the EAPOL-Key
  descriptor, the MIC, the length of the Key Data and all of the Key Data.\<close>

theorem rx_header_in_bounds:
  assumes "rx_header e buf sm = Inr (f, n, kd)"
  shows "length f \<le> length buf \<and> f = take (length f) buf \<and> 83 + n + length kd \<le> length f \<and>
    kd = slice (83 + n) (length kd) f \<and> length kd = unat (get_be16 f (81 + n)) \<and>
    (key_type f = EAPOL_KEY_TYPE_RSN \<or> key_type f = EAPOL_KEY_TYPE_WPA)"
  using assms unfolding rx_header_def Let_def by (auto split: if_splits simp: slice_def)

end
