(* ===== verification/WPA_Runs.thy ===== *)
theory WPA_Runs
  imports WPA_Messages
begin

text \<open>
  Concrete runs of the state machine with the cryptographic library of
  \<^const>\<open>crypto_sample\<close> and the environment \<^const>\<open>env_sample\<close>: an access point that
  sends message 1/4, message 3/4 and its retransmission.  The theorems of the other
  theories are applied to the states of these runs.
\<close>

unbundle bit_operations_syntax


section \<open>The path of an accepted message 3/4\<close>

lemma rx_eapol_decrypted:
  assumes "rx_header e buf sm = Inr (f, n, kd)" "n \<noteq> 0"
    and t: "t = eapol_notify Eapol_notify_lower_layer_success sm"
    and "rx_version_ok (key_info f) t" "\<not> rx_replayed f t"
    "(has (key_info f) WPA_KEY_INFO_ACK \<and> has (key_info f) WPA_KEY_INFO_MIC) \<and>
     has (key_info f) WPA_KEY_INFO_ENCR_KEY_DATA \<and> \<not> has (key_info f) WPA_KEY_INFO_SMK_MESSAGE \<and>
     \<not> has (key_info f) WPA_KEY_INFO_REQUEST"
    "rsn_proto s1"
    "wpa_supplicant_verify_eapol_key_mic c (key_info f AND WPA_KEY_INFO_TYPE_MASK) f t = (0, s1)"
    "wpa_supplicant_decrypt_key_data e c f (key_info f AND WPA_KEY_INFO_TYPE_MASK) kd s1 = Some kd'"
  shows "wpa_sm_rx_eapol e c src buf sm = rx_dispatch e c src f n kd' s1"
  using assms(1,2,4-) unfolding wpa_sm_rx_eapol_def t [symmetric] by simp

lemma rx_dispatch_3_of_4:
  assumes "has (key_info f) WPA_KEY_INFO_KEY_TYPE" "\<not> has (key_info f) WPA_KEY_INFO_KEY_INDEX_MASK"
    "has (key_info f) (WPA_KEY_INFO_MIC OR WPA_KEY_INFO_ENCR_KEY_DATA)"
  shows "rx_dispatch e c src f n kd sm = (1, wpa_supplicant_process_3_of_4 e c f (key_info f AND WPA_KEY_INFO_TYPE_MASK) kd sm)"
  using assms by (simp add: rx_dispatch_def Let_def)

lemma process_3_of_4_accepted:
  assumes "wpa_supplicant_parse_ies kd = (0, ie)" "has (key_info f) WPA_KEY_INFO_ENCR_KEY_DATA" "ie_igtk ie = None"
    "wpa_supplicant_validate_ie e kd ie (act (Set_state WPA_4WAY_HANDSHAKE) sm) = (0, s1)"
    "wpa_handle_ext_key_id kd ie s1 = (0, s2)" "sm_anonce s2 = key_nonce f"
    "unat (get_be16 f 7) = wpa_cipher_key_len (sm_pairwise_cipher s2)" "ie_ip_addr_alloc ie = None"
    "\<not> sm_use_ext_key_id s2"
    "wpa_supplicant_send_4_of_4 e c (sm_bssid s2) f ver (key_info f) (sm_ptk s2) s2 = (0, s3)"
  shows "wpa_supplicant_process_3_of_4 e c f ver kd sm = process_3_of_4_finish e c f (key_info f) kd ie s3"
  using assms unfolding wpa_supplicant_process_3_of_4_def Let_def by simp


section \<open>Sample messages\<close>

definition msg_sample :: "u16 \<Rightarrow> byte \<Rightarrow> bytes \<Rightarrow> bytes" where
  "msg_sample info counter kd = [2, 3] @ WPA_PUT_BE16 (of_nat (95 + length kd)) @ [2] @ WPA_PUT_BE16 info @ [0, 16] @
     replicate 7 0 @ [counter] @ replicate 32 6 @ zeros 32 @ zeros 16 @ WPA_PUT_BE16 (of_nat (length kd)) @ kd"

definition kd_sample :: bytes where
  "kd_sample = [48, 2, 1, 0, 0xdd, 0, 0, 0]"

definition msg3_sample :: "byte \<Rightarrow> bytes" where
  "msg3_sample i = msg_sample 0x13ca i (the (aes_wrap crypto_sample (zeros 16) 1 kd_sample))"

definition sm_hs_sample :: wpa_sm where
  "sm_hs_sample = wpa_sm_init\<lparr> sm_proto := WPA_PROTO_RSN, sm_pairwise_cipher := WPA_CIPHER_CCMP,
     sm_group_cipher := WPA_CIPHER_GTK_NOT_USED, sm_key_mgmt := WPA_KEY_MGMT_PSK, sm_pmk_len := 32,
     sm_ap_rsn_ie := Some [48, 2, 1, 0], sm_bssid := replicate 6 2, sm_own_addr := replicate 6 1,
     sm_tptk := ptk_zero\<lparr> kck_len := 16, kek_len := 16, tk_len := 16 \<rparr>, sm_tptk_set := True,
     sm_anonce := replicate 32 6, sm_rx_replay_counter_set := True \<rparr>"

definition hs_verified :: "byte \<Rightarrow> wpa_sm \<Rightarrow> wpa_sm" where
  "hs_verified i sm = snd (wpa_supplicant_verify_eapol_key_mic crypto_sample 2 (msg3_sample i)
     (eapol_notify Eapol_notify_lower_layer_success sm))"

definition hs_validated :: "byte \<Rightarrow> wpa_sm \<Rightarrow> wpa_sm" where
  "hs_validated i sm = snd (wpa_handle_ext_key_id kd_sample (snd (wpa_supplicant_parse_ies kd_sample))
     (snd (wpa_supplicant_validate_ie env_sample kd_sample (snd (wpa_supplicant_parse_ies kd_sample))
        (act (Set_state WPA_4WAY_HANDSHAKE) (hs_verified i sm)))))"

definition hs_sent :: "byte \<Rightarrow> wpa_sm \<Rightarrow> wpa_sm" where
  "hs_sent i sm = snd (wpa_supplicant_send_4_of_4 env_sample crypto_sample (sm_bssid (hs_validated i sm)) (msg3_sample i) 2 0x13ca
     (sm_ptk (hs_validated i sm)) (hs_validated i sm))"

definition hs_ready :: "byte \<Rightarrow> wpa_sm \<Rightarrow> bool" where
  "hs_ready i sm \<longleftrightarrow>
    (let ie = snd (wpa_supplicant_parse_ies kd_sample); s1 = hs_verified i sm; s2 = hs_validated i sm;
         t = eapol_notify Eapol_notify_lower_layer_success sm in
    (case rx_header env_sample (msg3_sample i) sm of Inl r \<Rightarrow> False 
       | Inr (f, n, kd) \<Rightarrow> f = (msg3_sample i) \<and> n = 16 \<and>
           wpa_supplicant_decrypt_key_data env_sample crypto_sample f 2 kd s1 = Some kd_sample) \<and>
     key_info (msg3_sample i) = 0x13ca \<and>
    rx_version_ok 0x13ca t \<and> \<not> rx_replayed (msg3_sample i) t \<and> sm_proto s1 = WPA_PROTO_RSN \<and>
    fst (wpa_supplicant_verify_eapol_key_mic crypto_sample 2 (msg3_sample i) t) = 0 \<and>
    fst (wpa_supplicant_parse_ies kd_sample) = 0 \<and> ie_igtk ie = None \<and> ie_ip_addr_alloc ie = None \<and>
    fst (wpa_supplicant_validate_ie env_sample kd_sample ie (act (Set_state WPA_4WAY_HANDSHAKE) s1)) = 0 \<and>
    fst (wpa_handle_ext_key_id kd_sample ie
      (snd (wpa_supplicant_validate_ie env_sample kd_sample ie (act (Set_state WPA_4WAY_HANDSHAKE) s1)))) = 0 \<and>
    sm_anonce s2 = key_nonce (msg3_sample i) \<and> 
    unat (get_be16 (msg3_sample i) 7) = wpa_cipher_key_len (sm_pairwise_cipher s2) \<and> \<not> sm_use_ext_key_id s2 \<and>
    fst (wpa_supplicant_send_4_of_4 env_sample crypto_sample (sm_bssid s2) (msg3_sample i) 2 0x13ca
      (sm_ptk s2) s2) = 0)"

lemma hs_ready_rx:
  assumes "hs_ready i sm"
  shows "wpa_sm_rx_eapol env_sample crypto_sample src (msg3_sample i) sm =
    (1, process_3_of_4_finish env_sample crypto_sample (msg3_sample i) 0x13ca kd_sample 
          (snd (wpa_supplicant_parse_ies kd_sample)) (hs_sent i sm))"
proof -
  let ?s1 = "hs_verified i sm" and ?ie = "snd (wpa_supplicant_parse_ies kd_sample)"
  have i: "key_info (msg3_sample i) = 0x13ca" using assms by (simp add: hs_ready_def Let_def)
  obtain kd where h: "rx_header env_sample (msg3_sample i) sm = Inr ((msg3_sample i), 16, kd)"
    and d: "wpa_supplicant_decrypt_key_data env_sample crypto_sample (msg3_sample i) 2 kd ?s1 = Some kd_sample"
    using assms by (auto simp: hs_ready_def Let_def split: sum.splits)
  have "wpa_sm_rx_eapol env_sample crypto_sample src (msg3_sample i) sm =
    rx_dispatch env_sample crypto_sample src (msg3_sample i) 16 kd_sample ?s1"
    by (rule rx_eapol_decrypted [OF h _ refl])
       (use assms d in \<open>simp_all add: hs_ready_def Let_def i hs_verified_def prod_eq_iff\<close>)
  also have "\<dots> = (1, wpa_supplicant_process_3_of_4 env_sample crypto_sample (msg3_sample i) 2 kd_sample ?s1)"
    by (simp add: rx_dispatch_3_of_4 i)
  also have "wpa_supplicant_process_3_of_4 env_sample crypto_sample (msg3_sample i) 2 kd_sample ?s1 =
    process_3_of_4_finish env_sample crypto_sample (msg3_sample i) (key_info (msg3_sample i)) kd_sample ?ie (hs_sent i sm)"
    by (rule process_3_of_4_accepted [where ?s1.0 = "snd (wpa_supplicant_validate_ie env_sample kd_sample ?ie
              (act (Set_state WPA_4WAY_HANDSHAKE) ?s1))" and ?s2.0 = "hs_validated i sm"])
       (use assms in \<open>simp_all add: hs_ready_def Let_def i prod_eq_iff, simp_all add: hs_validated_def hs_sent_def\<close>)
  finally show ?thesis by (simp add: i)
qed

lemma crypto_sample_sizes: "crypto_sizes_ok crypto_sample"
  using crypto_sample_ok(1) by (auto simp: crypto_sizes_ok_def crypto_sample_def)

lemma hs_ready_sample: "hs_ready 2 sm_hs_sample"
  by code_simp

definition hs_done :: "byte \<Rightarrow> wpa_sm \<Rightarrow> wpa_sm" where
  "hs_done i sm = process_3_of_4_finish env_sample crypto_sample (msg3_sample i) 0x13ca kd_sample
     (snd (wpa_supplicant_parse_ies kd_sample)) (hs_sent i sm)"

lemma hs_done_sample:
  "sm_rx_replay_counter (hs_done 2 sm_hs_sample) = [0, 0, 0, 0, 0, 0, 0, 2] \<and>
   length (set_keys (sm_trace (hs_done 2 sm_hs_sample))) = 1"
  by code_simp

definition events_sample :: "wpa_event list" where
  "events_sample = [Set_param WPA_PARAM_PROTO WPA_PROTO_RSN, Set_param WPA_PARAM_PAIRWISE WPA_CIPHER_CCMP,
     Set_param WPA_PARAM_GROUP WPA_CIPHER_GTK_NOT_USED, Set_param WPA_PARAM_KEY_MGMT WPA_KEY_MGMT_PSK,
     Set_assoc_wpa_ie (Some [48, 2, 1, 0]), Set_ap_rsn_ie (Some [48, 2, 1, 0]),
     Set_pmk (replicate 32 5) None None, Notify_assoc (replicate 6 2),
     Rx_eapol (replicate 6 2) (msg_sample 0x8a 1 [])]"

definition run_sample :: wpa_sm where
  "run_sample = fold (wpa_exec env_sample crypto_sample) events_sample wpa_sm_init"

lemma run_ready: "hs_ready 2 run_sample"
  by code_simp

lemma run_ready_again: "hs_ready 3 (hs_done 2 run_sample)"
  by code_simp

lemma run_installs: "ptk_installs env_sample (sm_trace (hs_done 3 (hs_done 2 run_sample))) = 1"
  by code_simp


section \<open>WPA version 1 without a MIC\<close>

lemma rx_eapol_plain:
  assumes "rx_header e buf sm = Inr (f, n, kd)" "rx_version_ok (key_info f) sm" "\<not> rx_replayed f sm"
    "has (key_info f) WPA_KEY_INFO_ACK \<and> \<not> has (key_info f) WPA_KEY_INFO_MIC \<and>
     \<not> has (key_info f) WPA_KEY_INFO_SMK_MESSAGE \<and> \<not> has (key_info f) WPA_KEY_INFO_REQUEST"
    "sm_eapol sm = False" "sm_proto sm = WPA_PROTO_WPA"
  shows "wpa_sm_rx_eapol e c src buf sm = rx_dispatch e c src f n kd sm"
  using assms unfolding wpa_sm_rx_eapol_def eapol_notify_def by simp

definition wpa_ie_sample :: bytes where
  "wpa_ie_sample = [0xdd, 6, 0, 0x50, 0xf2, 1, 1, 0]"

definition sm_wpa1_sample :: wpa_sm where
  "sm_wpa1_sample = wpa_sm_init\<lparr> sm_proto := WPA_PROTO_WPA, sm_pairwise_cipher := WPA_CIPHER_CCMP,
     sm_group_cipher := WPA_CIPHER_CCMP, sm_key_mgmt := WPA_KEY_MGMT_PSK, sm_pmk_len := 32,
     sm_ap_wpa_ie := Some wpa_ie_sample, sm_bssid := replicate 6 2, sm_own_addr := replicate 6 1,
     sm_ptk := ptk_zero\<lparr> kck_len := 16, kek_len := 16, installed := True \<rparr>, sm_ptk_set := True,
     sm_msg_3_of_4_ok := True, sm_anonce := replicate 32 6, sm_rx_replay_counter_set := True \<rparr>"

definition forged_kd :: bytes where
  "forged_kd = wpa_ie_sample @ [0xdd, 22, 0, 0x0f, 0xac, 1, 1, 0] @ replicate 16 0x41"

definition forged_msg :: bytes where
  "forged_msg = msg_sample 0x108a 2 forged_kd"

definition forged_ie :: wpa_eapol_ie_parse where
  "forged_ie = snd (wpa_supplicant_parse_ies forged_kd)"

definition forged_valid :: "int \<times> wpa_sm" where
  "forged_valid = wpa_supplicant_validate_ie env_sample forged_kd forged_ie
     (act (Set_state WPA_4WAY_HANDSHAKE) sm_wpa1_sample)"

definition forged_key_id :: "int \<times> wpa_sm" where
  "forged_key_id = wpa_handle_ext_key_id forged_kd forged_ie (snd forged_valid)"

definition forged_sent :: "int \<times> wpa_sm" where
  "forged_sent = wpa_supplicant_send_4_of_4 env_sample crypto_sample (sm_bssid (snd forged_key_id)) forged_msg 2 0x108a
     (sm_ptk (snd forged_key_id)) (snd forged_key_id)"

lemma forged_received:
  "rx_header env_sample forged_msg sm_wpa1_sample = Inr (forged_msg, 16, forged_kd)"
  "key_info forged_msg = 0x108a" "rx_version_ok 0x108a sm_wpa1_sample" "\<not> rx_replayed forged_msg sm_wpa1_sample"
  by code_simp+

lemma forged_parsed:
  "fst (wpa_supplicant_parse_ies forged_kd) = 0" "ie_igtk forged_ie = None" "ie_ip_addr_alloc forged_ie = None"
  "fst forged_valid = 0" "fst forged_key_id = 0" 
  by code_simp+

lemma forged_checked:
  "sm_anonce (snd forged_key_id) = key_nonce forged_msg"
  "unat (get_be16 forged_msg 7) = wpa_cipher_key_len (sm_pairwise_cipher (snd forged_key_id))"
  "\<not> sm_use_ext_key_id (snd forged_key_id)" "fst forged_sent = 0"
  by code_simp+

lemma forged_installed:
  "set_keys (sm_trace (process_3_of_4_finish env_sample crypto_sample forged_msg 0x108a forged_kd forged_ie (snd forged_sent))) =
     [Set_key WPA_ALG_CCMP (Some broadcast_ether_addr) 1 False (zeros 6) (replicate 16 0x41) KEY_FLAG_GROUP_RX]"
  by code_simp



section \<open>The theorems on the runs\<close>

lemma reachable_fold:
  "wpa_reachable e c sm \<Longrightarrow> wpa_reachable e c (fold (wpa_exec e c) evs sm)"
  by (induction evs arbitrary: sm) (auto intro: wpa_reachable.step)

lemma run_reachable: "wpa_reachable env_sample crypto_sample run_sample"
  unfolding run_sample_def by (intro reachable_fold wpa_reachable.init)

lemma hs_done_reachable:
  assumes "wpa_reachable env_sample crypto_sample sm" "hs_ready i sm"
  shows "wpa_reachable env_sample crypto_sample (hs_done i sm)"
  using wpa_reachable.step [OF assms(1), of "Rx_eapol [] (msg3_sample i)"] hs_ready_rx [OF assms(2), of "[]"]
  by (simp add: hs_done_def)

text \<open>After message 1/4, message 3/4 and its retransmission one key was installed.\<close>

theorem ptk_installed_once_per_snonce_witness:
  "\<exists>sm. wpa_reachable env_sample crypto_sample sm \<and> ptk_installs env_sample (sm_trace sm) = 1 \<and>
     1 \<le> snonce_draws env_sample (sm_trace sm)"
proof -
  let ?sm = "hs_done 3 (hs_done 2 run_sample)"
  have r: "wpa_reachable env_sample crypto_sample ?sm"
    by (intro hs_done_reachable run_reachable run_ready run_ready_again)
  show ?thesis
    using ptk_installed_once_per_snonce [OF r] run_installs r by auto
qed

theorem pmksa_cache_always_ok_witness:
  "\<exists>sm. wpa_reachable env_sample crypto_sample sm \<and> sm_pmksa sm \<noteq> [] \<and> pmksa_ok sm"
proof -
  let ?ev = "Pmksa_add (replicate 32 1) None (replicate 6 3) None"
  let ?sm = "wpa_exec env_sample crypto_sample ?ev wpa_sm_init"
  have r: "wpa_reachable env_sample crypto_sample ?sm" by (intro wpa_reachable.intros)
  have "sm_pmksa ?sm \<noteq> []" by code_simp
  then show ?thesis using pmksa_cache_always_ok [OF r] r by blast
qed



definition gd_sample :: wpa_gtk_data where
  "gd_sample = gd_zero\<lparr> gd_alg := WPA_ALG_CCMP, gd_key_rsc_len := 6, gd_keyidx := 1,
     gd_gtk := replicate 16 8 @ zeros 16, gd_gtk_len := 16 \<rparr>"


definition kde_sample :: bytes where
  "kde_sample = [6, 0] @ zeros 6 @ replicate 16 9"

definition sm_pmf_sample :: wpa_sm where
  "sm_pmf_sample = wpa_sm_init\<lparr> sm_mgmt_group_cipher := WPA_CIPHER_AES_128_CMAC \<rparr>"

theorem igtk_bigtk_not_reinstalled_witness:
  "\<exists>sm1 sm2. wpa_supplicant_install_igtk env_sample kde_sample False sm_pmf_sample = (0, sm1) \<and>
     length (sm_trace sm1) = 1 \<and> wpa_supplicant_install_igtk env_sample kde_sample False sm1 = (0, sm1) \<and>
     wpa_supplicant_install_bigtk env_sample kde_sample False sm_pmf_sample = (0, sm2) \<and>
     length (sm_trace sm2) = 1 \<and> wpa_supplicant_install_bigtk env_sample kde_sample False sm2 = (0, sm2)"
proof -
  let ?i = "wpa_supplicant_install_igtk env_sample kde_sample False sm_pmf_sample"
  let ?b = "wpa_supplicant_install_bigtk env_sample kde_sample False sm_pmf_sample"
  have r: "fst ?i = 0 \<and> length (sm_trace (snd ?i)) = 1" "fst ?b = 0 \<and> length (sm_trace (snd ?b)) = 1"
    by code_simp+
  then have i: "?i = (0, snd ?i)" "?b = (0, snd ?b)" by (simp_all add: prod_eq_iff)
  have "length (igtk_key (sm_igtk sm_pmf_sample)) = 32" "length (bigtk_key (sm_bigtk sm_pmf_sample)) = 32"
    "length kde_sample = 8 + wpa_cipher_key_len (sm_mgmt_group_cipher sm_pmf_sample)"
    by code_simp+
  from igtk_bigtk_not_reinstalled [OF this i, of False] r i show ?thesis by blast
qed

theorem bigtk_survives_association_witness:
  "\<exists>sm. bigtk_in_use (slice 8 16 kde_sample) sm \<and> sm_gtk (wpa_sm_notify_assoc (replicate 6 2) sm) = gtk_zero \<and>
     wpa_supplicant_install_bigtk env_sample kde_sample False (wpa_sm_notify_assoc (replicate 6 2) sm) =
       (0, wpa_sm_notify_assoc (replicate 6 2) sm)"
proof -
  let ?sm = "snd (wpa_supplicant_install_bigtk env_sample kde_sample False sm_pmf_sample)"
  have b: "bigtk_in_use (slice 8 16 kde_sample) ?sm" "wpa_cipher_key_len (sm_mgmt_group_cipher ?sm) = 16"
    by code_simp+
  show ?thesis
    using bigtk_survives_association [of ?sm kde_sample "replicate 6 2" env_sample] b by auto
qed

theorem rsn_ie_mismatch_rejected_witness:
  "hd (sm_trace (wpa_supplicant_process_3_of_4 env_sample crypto_sample (msg3_sample 2) 2 kd_sample
        (sm_hs_sample\<lparr> sm_ap_rsn_ie := Some [48, 2, 2, 0] \<rparr>))) = Deauthenticate WLAN_REASON_UNSPECIFIED"
proof -
  obtain pr ie where p: "wpa_supplicant_parse_ies kd_sample = (pr, ie)" by fastforce
  have "ie_rsn_ie (snd (wpa_supplicant_parse_ies kd_sample)) = Some (0, 4)" by code_simp
  then have ie: "ie_rsn_ie ie = Some (0, 4)" by (simp add: p)
  have "part kd_sample (0, 4) \<noteq> [48, 2, 2, 0]" by code_simp
  then show ?thesis
    using rsn_ie_mismatch_rejected [OF p _ ie, of "sm_hs_sample\<lparr> sm_ap_rsn_ie := Some [48, 2, 2, 0] \<rparr>"] by simp
qed

lemma send_2_of_4_sample:
  "case wpa_supplicant_send_2_of_4 env_sample crypto_sample (replicate 6 2) (msg_sample 0x8a 1 []) 2 (replicate 32 3)
     (Some [48, 2, 1, 0]) (sm_tptk sm_hs_sample) sm_hs_sample of (r, sm') \<Rightarrow> r = 0"
  by code_simp

theorem msg_2_of_4_content_witness:
  "\<exists>sm' msg. wpa_supplicant_send_2_of_4 env_sample crypto_sample (replicate 6 2) (msg_sample 0x8a 1 []) 2
       (replicate 32 3) (Some [48, 2, 1, 0]) (sm_tptk sm_hs_sample) sm_hs_sample = (0, sm') \<and>
     sends env_sample sm_hs_sample sm' msg \<and> authentic crypto_sample (sm_tptk sm_hs_sample) msg sm_hs_sample \<and>
     key_nonce msg = replicate 32 3"
proof -
  obtain sm' where s: "wpa_supplicant_send_2_of_4 env_sample crypto_sample (replicate 6 2) (msg_sample 0x8a 1 []) 2
       (replicate 32 3) (Some [48, 2, 1, 0]) (sm_tptk sm_hs_sample) sm_hs_sample = (0, sm')"
    using send_2_of_4_sample by (auto split: prod.splits)
  have sm: "sm_key_mgmt sm_hs_sample = WPA_KEY_MGMT_PSK"
    by (simp add: sm_hs_sample_def wpa_sm_init_def wpa_sm_zero_def)
  have "81 \<le> length (msg_sample 0x8a 1 [])" by code_simp
  with msg_2_of_4_content [OF crypto_sample_sizes, of sm_hs_sample 2 "msg_sample 0x8a 1 []" "replicate 32 3"
      "[48, 2, 1, 0]", OF _ _ _ _ _ _ s] s
  show ?thesis
    by (auto simp: sm fixed_mic_def wpa_use_akm_defined_def wpa_key_mgmt_suite_b_def wpa_key_mgmt_fils_def
        wpa_key_mgmt_sae_def)
qed

theorem key_data_decrypts_witness:
  "\<exists>w. aes_wrap crypto_sample (zeros 16) 1 kd_sample = Some w \<and>
     wpa_supplicant_decrypt_key_data env_sample crypto_sample (msg3_sample 2) WPA_KEY_INFO_TYPE_HMAC_SHA1_AES w
       (hs_done 2 sm_hs_sample) = Some kd_sample"
proof -
  let ?sm = "hs_done 2 sm_hs_sample"
  have "sm_ptk_set ?sm \<and> length kd_sample = 8 * 1 \<and> slice 0 (kek_len (sm_ptk ?sm)) (kek (sm_ptk ?sm)) = zeros 16"
    by code_simp
  moreover have "e_alloc env_sample tr" for tr by (simp add: env_sample_def)
  ultimately show ?thesis
    using key_data_decrypts [of ?sm env_sample kd_sample 1 crypto_sample "msg3_sample 2"] crypto_sample_ok(2) by auto
qed

theorem rx_header_in_bounds_witness:
  "\<exists>f n kd. rx_header env_sample (msg3_sample 2) sm_hs_sample = Inr (f, n, kd) \<and> 83 + n + length kd \<le> length f"
proof -
  obtain f n kd where h: "rx_header env_sample (msg3_sample 2) sm_hs_sample = Inr (f, n, kd)"
    using hs_ready_sample by (auto simp: hs_ready_def Let_def split: sum.splits)
  then show ?thesis using rx_header_in_bounds [OF h] by blast
qed

end
