(* ===== verification/Supplicant_Port.thy ===== *)
theory Supplicant_Port
  imports Supplicant WPA_Runs
begin

text \<open>
  The controlled port of the whole supplicant: it opens only after an authentic message of
  the key handshake was received, and it does open when the handshake of a network with a
  pre-shared key completes.
\<close>

unbundle bit_operations_syntax

section \<open>The frame that opens the port\<close>

definition port_opener :: "env \<Rightarrow> crypto \<Rightarrow> wpa_sm \<Rightarrow> bytes \<Rightarrow> bytes \<Rightarrow> bool" where
  "port_opener e c w src buf \<longleftrightarrow> Eapol_notify_portValid True \<in>
     set (new_actions (sm_trace w) (sm_trace (wpa_exec e c (Rx_eapol src buf) w)))"

definition authentic_frame :: "env \<Rightarrow> crypto \<Rightarrow> wpa_sm \<Rightarrow> bytes \<Rightarrow> bool" where
  "authentic_frame e c w buf \<longleftrightarrow>
     (\<exists>f n kd ptk. rx_header e buf w = Inr (f, n, kd) \<and> has (key_info f) WPA_KEY_INFO_MIC \<and>
        \<not> rx_replayed f w \<and>
        (sm_tptk_set w \<and> ptk = sm_tptk w \<or> sm_ptk_set w \<and> ptk = sm_ptk w) \<and> authentic c ptk f w)"

lemma new_actions_append [simp]: "new_actions l (as @ l) = as"
  by (simp add: new_actions_def)

lemma new_actions_adds:
  assumes "adds P s t" "a \<in> set (new_actions (sm_trace s) (sm_trace t))"
  shows "P a"
  using assms by (auto simp: adds_def)

lemma port_opener_authentic:
  assumes "port_opener e c w src buf" "rsn_proto w" "fixed_mic (sm_key_mgmt w)" "crypto_sizes_ok c"
  shows "authentic_frame e c w buf"
proof -
  obtain r w' where rx: "wpa_sm_rx_eapol e c src buf w = (r, w')" by fastforce
  obtain l where l: "sm_trace w' = l @ sm_trace w"
    using rx_eapol_adds [of w e c src buf] rx by (auto simp: adds_def)
  have "Eapol_notify_portValid True \<in> set l"
    using assms(1) by (simp add: port_opener_def rx l)
  then have "secured l \<noteq> []"
    by (auto simp: secured_def filter_empty_conv intro!: bexI [of _ "Eapol_notify_portValid True"])
  then have "secured (sm_trace w') \<noteq> secured (sm_trace w)" by (simp add: l secured_def)
  from secured_from_authentic_frame [OF assms(2-4) rx this] show ?thesis
    by (auto simp: authentic_frame_def)
qed


section \<open>The port while nothing opens it\<close>

definition closed :: "eapol_sm \<Rightarrow> bool" where
  "closed p \<longleftrightarrow> port_shut p \<and> es_suppPortStatus p = Unauthorized"

lemma closed_handle: "closed p \<Longrightarrow> keeps_port ev \<Longrightarrow> closed (eapol_handle x c ev p)"
  by (simp add: closed_def eapol_handle_shut eapol_handle_closed)

lemma eapol_call_keeps_port: "eapol_call a = Some ev \<Longrightarrow> \<not> is_port_valid a \<Longrightarrow> keeps_port ev"
  by (cases a) auto

lemma closed_deliver:
  assumes "closed p" "\<And>a. a \<in> set as \<Longrightarrow> \<not> is_port_valid a"
  shows "closed (deliver x c as p)"
proof -
  have "closed (fold (eapol_handle x c) evs q)" if "closed q" "\<forall>ev \<in> set evs. keeps_port ev" for evs q
    using that by (induction evs arbitrary: q) (simp_all add: closed_handle)
  moreover have "\<forall>ev \<in> set (List.map_filter eapol_call (rev as)). keeps_port ev"
    using assms(2) eapol_call_keeps_port by (auto simp: map_filter_def)
  ultimately show ?thesis using assms(1) by (simp add: deliver_def)
qed

definition opened :: "conn_env \<Rightarrow> bool" where
  "opened y \<longleftrightarrow> (\<exists>w src buf. wpa_reachable (y_env y) (y_crypto y) w \<and>
     port_opener (y_env y) (y_crypto y) w src buf)"

definition ws_inv :: "conn_env \<Rightarrow> wpa_supplicant \<Rightarrow> bool" where
  "ws_inv y s \<longleftrightarrow> wpa_network s \<and> wpa_reachable (y_env y) (y_crypto y) (ws_wpa s) \<and>
     (closed (ws_eapol s) \<or> opened y)"

lemma call_fields [simp]:
  "wpa_network (call_wpa y ev s) = wpa_network s" "wpa_network (set_eapol p s) = wpa_network s"
  "wpa_network (call_eapol y ev' s) = wpa_network s" "ws_eapol (set_eapol p s) = p"
  "ws_key_mgmt (call_eapol y ev' s) = ws_key_mgmt s"
  by (simp_all add: wpa_network_def call_wpa_def call_eapol_def set_eapol_def
      wpa_supplicant_aborted_cached_def Let_def)

lemma ws_inv_fields:
  "ws_inv y s \<Longrightarrow> ws_wpa s' = ws_wpa s \<Longrightarrow> ws_eapol s' = ws_eapol s \<Longrightarrow> wpa_network s' \<Longrightarrow> ws_inv y s'"
  by (simp add: ws_inv_def)

lemma call_wpa_inv:
  assumes "ws_inv y s"
  shows "ws_inv y (call_wpa y ev s)"
proof -
  let ?w = "wpa_exec (y_env y) (y_crypto y) ev (ws_wpa s)"
  let ?as = "new_actions (sm_trace (ws_wpa s)) (sm_trace ?w)"
  have reach: "wpa_reachable (y_env y) (y_crypto y) ?w"
    using assms by (auto simp: ws_inv_def intro: wpa_reachable.step)
  have "closed (ws_eapol (call_wpa y ev s)) \<or> opened y" if "closed (ws_eapol s)"
  proof (cases "\<exists>a \<in> set ?as. is_port_valid a")
    case False
    then show ?thesis
      using closed_deliver [OF that] by (auto simp: call_wpa_def Let_def)
  next
    case True
    then obtain a where a: "a \<in> set ?as" "is_port_valid a" by blast
    from a(2) have "a = Eapol_notify_portValid True" by (cases a) simp_all
    moreover obtain src buf where "ev = Rx_eapol src buf"
      using new_actions_adds [OF exec_quiet a(1)] a(2) by blast
    ultimately have "port_opener (y_env y) (y_crypto y) (ws_wpa s) src buf"
      using a(1) by (simp add: port_opener_def)
    then show ?thesis using assms by (auto simp: opened_def ws_inv_def)
  qed
  then show ?thesis
    using assms reach by (auto simp: ws_inv_def) (simp_all add: call_wpa_def Let_def)
qed

lemma set_eapol_inv:
  assumes "ws_inv y s" "closed (ws_eapol s) \<Longrightarrow> closed p"
  shows "ws_inv y (set_eapol p s)"
proof -
  have "wpa_reachable (y_env y) (y_crypto y) (wpa_sm_aborted_cached (ws_wpa s))"
    using assms(1) wpa_reachable.step [of "y_env y" "y_crypto y" "ws_wpa s" Aborted_cached]
    by (simp add: ws_inv_def)
  then have "wpa_reachable (y_env y) (y_crypto y) (ws_wpa (set_eapol p s))"
    using assms(1) by (simp add: ws_inv_def set_eapol_def wpa_supplicant_aborted_cached_def Let_def)
  then show ?thesis using assms by (auto simp: ws_inv_def)
qed

lemma call_eapol_inv: "ws_inv y s \<Longrightarrow> keeps_port ev \<Longrightarrow> ws_inv y (call_eapol y ev s)"
  unfolding call_eapol_def by (rule set_eapol_inv) (simp_all add: closed_handle)

lemma initiate_inv:
  assumes "ws_inv y s"
  shows "ws_inv y (wpa_supplicant_initiate_eapol y ssid s)"
proof -
  have "ws_key_mgmt s \<notin> {WPA_KEY_MGMT_NONE, WPA_KEY_MGMT_WPA_NONE, WPA_KEY_MGMT_IEEE8021X_NO_WPA}"
    using assms by (simp add: ws_inv_def wpa_network_def)
  then show ?thesis
    using assms unfolding wpa_supplicant_initiate_eapol_def Let_def
    by (simp add: call_eapol_inv eapol_config_of_def Let_def)
qed

lemma rx_to_wpa_inv: "ws_inv y s \<Longrightarrow> ws_inv y (rx_to_wpa y src buf s)"
  using call_wpa_inv by (simp add: rx_to_wpa_def ws_inv_def wpa_network_def)

lemma rx_timeout_inv: "ws_inv y s \<Longrightarrow> ws_inv y (rx_auth_timeout y s)"
  by (simp add: rx_auth_timeout_def wpa_supplicant_req_auth_timeout_def ws_inv_def wpa_network_def)

lemma rx_authentication_inv:
  assumes "ws_inv y s"
  shows "ws_inv y (rx_authentication y src buf s)"
proof (cases "eapol_sm_rx_eapol (y_eapol y) (y_crypto y) src buf (ws_eapol s)")
  case None
  then show ?thesis by (simp add: rx_authentication_def assms)
next
  case (Some z)
  obtain r p where z: "z = (r, p)" by fastforce
  have "ws_inv y (set_eapol p s)"
    using assms closed_handle [of "ws_eapol s" "Ev_rx src buf" "y_eapol y" "y_crypto y"]
    by (intro set_eapol_inv) (simp_all add: Some z)
  then show ?thesis by (simp add: rx_authentication_def Some z rx_to_wpa_inv)
qed

lemma rx_eapol_inv:
  assumes "ws_inv y s"
  shows "ws_inv y (wpa_supplicant_rx_eapol y src buf s)"
proof -
  have upd: "ws_inv y t \<Longrightarrow> ws_inv y (t\<lparr> ws_last_eapol_matches_bssid := b \<rparr>)"
    "ws_inv y t \<Longrightarrow> ws_inv y (t\<lparr> ws_eapol_received := n \<rparr>)"
    "ws_inv y t \<Longrightarrow> ws_inv y (t\<lparr> ws_last_eapol_src := a \<rparr>)"
    "ws_inv y t \<Longrightarrow> ws_inv y (t\<lparr> ws_pending_eapol_rx := q \<rparr>)"
    "ws_inv y t \<Longrightarrow> ws_inv y (t\<lparr> ws_pending_eapol_rx := q, ws_pending_eapol_rx_time := i,
       ws_pending_eapol_rx_src := a \<rparr>)" for t b n a q i
    by (simp_all add: ws_inv_def wpa_network_def)
  show ?thesis
    unfolding wpa_supplicant_rx_eapol_def Let_def
    using assms by (simp add: upd rx_timeout_inv rx_to_wpa_inv rx_authentication_inv)
qed

lemma ws_reachable_inv: "ws_reachable y s \<Longrightarrow> ws_inv y s"
proof (induction rule: ws_reachable.induct)
  case (start tls_ok s)
  then show ?case
    using eapol_sm_init_closed [OF start(1)] wpa_reachable.init [of "y_env y" "y_crypto y"]
    by (auto simp: ws_inv_def closed_def)
next
  case (manager s s')
  then show ?case by (simp add: ws_inv_def)
qed (simp_all add: initiate_inv rx_eapol_inv call_wpa_inv call_eapol_inv)



section \<open>The port opens when the handshake completes\<close>

lemma key_neg_complete_calls:
  assumes "sm_eapol w"
    and "wpa_key_mgmt_wpa_psk (sm_key_mgmt w) \<or> sm_key_mgmt w = WPA_KEY_MGMT_DPP \<or> sm_key_mgmt w = WPA_KEY_MGMT_OWE"
  shows "List.map_filter eapol_call (rev (new_actions (sm_trace w)
      (sm_trace (wpa_supplicant_key_neg_complete e addr True w)))) = [Ev_portValid True, Ev_eap_success True]"
proof -
  have "\<exists>as. sm_trace (wpa_supplicant_key_neg_complete e addr True w) =
      as @ [Eapol_notify_eap_success True, Eapol_notify_portValid True, Mlme_setprotection addr 3,
        Set_state WPA_COMPLETED, Cancel_auth_timeout] @ sm_trace w \<and>
      (as = [] \<or> as = [Timer_register Wpa_sm_start_preauth 1])"
    using assms
    by (auto simp: wpa_supplicant_key_neg_complete_def Let_def eapol_notify_def act_def pmksa_update_def
        split: option.split)
  then obtain as where as: "sm_trace (wpa_supplicant_key_neg_complete e addr True w) =
      (as @ [Eapol_notify_eap_success True, Eapol_notify_portValid True, Mlme_setprotection addr 3,
        Set_state WPA_COMPLETED, Cancel_auth_timeout]) @ sm_trace w"
      "as = [] \<or> as = [Timer_register Wpa_sm_start_preauth 1]" by auto
  show ?thesis unfolding as(1) new_actions_append using as(2) by (auto simp: map_filter_simps)
qed

text \<open>C9: the completion of the key handshake of a network with a pre-shared key (or SAE, OWE,
  DPP), as the WPA state machine reports it to an EAPOL state machine that waits for it,
  authorises the port, and this is reported.\<close>

theorem handshake_completion_opens_port:
  assumes "sm_eapol w" "psk_waiting p" "\<not> es_eapSuccess p" "port_reported p"
    and "wpa_key_mgmt_wpa_psk (sm_key_mgmt w) \<or> sm_key_mgmt w = WPA_KEY_MGMT_DPP \<or> sm_key_mgmt w = WPA_KEY_MGMT_OWE"
    and "p' = deliver x c (new_actions (sm_trace w)
      (sm_trace (wpa_supplicant_key_neg_complete e addr True w))) p"
  shows "es_suppPortStatus p' = Authorized \<and> es_pae p' = SUPP_PAE_AUTHENTICATED \<and>
    last_port (es_trace p') = Some True"
proof -
  have "p' = eapol_sm_notify_eap_success x c True (eapol_sm_notify_portValid x c True p)"
    by (simp add: assms(6) deliver_def key_neg_complete_calls [OF assms(1,5)])
  then show ?thesis
    using psk_handshake_authenticates [OF assms(2-4), of x c] by (simp add: psk_authenticated_def)
qed

theorem handshake_completion_opens_port_witness:
  "es_suppPortStatus (deliver eap_env0 crypto_sample
     (new_actions (sm_trace (sm_hs_sample\<lparr> sm_eapol := True \<rparr>))
        (sm_trace (wpa_supplicant_key_neg_complete env_sample (replicate 6 2) True
           (sm_hs_sample\<lparr> sm_eapol := True \<rparr>)))) psk_sm0) = Authorized"
proof -
  have "wpa_key_mgmt_wpa_psk (sm_key_mgmt (sm_hs_sample\<lparr> sm_eapol := True \<rparr>))"
    by (simp add: sm_hs_sample_def wpa_key_mgmt_wpa_psk_def)
  then show ?thesis
    using handshake_completion_opens_port [OF _ psk_sm0_waiting(1-3) _ refl,
        of "sm_hs_sample\<lparr> sm_eapol := True \<rparr>" eap_env0 crypto_sample env_sample "replicate 6 2"] by simp
qed

end
