(* ===== verification/Samples.thy ===== *)
theory Samples
  imports Network WPA_Runs
begin

text \<open>
  A concrete station for the applications of the theorems about the connection manager: one
  network with a pre-shared key, one scan result that offers it.
\<close>

definition conn_sample :: conn_env where
  "conn_sample = \<lparr> y_env = env_sample, y_eapol = eap_env0, y_crypto = crypto_sample,
     y_now = \<lparr> rt_sec = 100, rt_usec = 0 \<rparr>, y_random = 0,
     y_alloc = True, y_wps_pin_unauthorized = False, y_wps20 = False,
     y_wps_is_selected_pbc_registrar = \<lambda>_. False, y_wps_is_addr_authorized = \<lambda>_. False,
     y_wps_ssid_wildcard_ok = \<lambda>_ _. False, y_p2p_dev_addr = \<lambda>_. None,
     y_wps_assoc_req_ie = None, y_psk_uninit = zeros 32 \<rparr>"

definition eap_config_sample :: eap_peer_config where
  "eap_config_sample = \<lparr> cf_id = 1, cf_identity = None, cf_anonymous_identity = None, cf_machine_identity = None,
     cf_eap_methods = None, cf_phase1 = None, cf_pcsc = False \<rparr>"

definition ssid_sample :: wpa_ssid where
  "ssid_sample = \<lparr> ss_id = 1, ss_priority = 0, ss_ssid = [97, 98, 99], ss_bssid = zeros 6, ss_bssid_set = False,
     ss_bssid_ignore = [], ss_bssid_accept = [], ss_psk = replicate 32 5, ss_psk_set = True,
     ss_passphrase = None, ss_ext_psk = False, ss_mem_only_psk = False, ss_sae_password = False,
     ss_sae_password_id = False, ss_pairwise_cipher = WPA_CIPHER_CCMP, ss_group_cipher = WPA_CIPHER_CCMP,
     ss_group_mgmt_cipher = 0, ss_key_mgmt = WPA_KEY_MGMT_PSK, ss_proto = WPA_PROTO_RSN,
     ss_ieee80211w = NO_MGMT_FRAME_PROTECTION, ss_eapol_flags = 3, ss_eap_workaround = True,
     ss_eap = eap_config_sample, ss_wep_key_len = [0, 0, 0, 0], ss_wep_tx_keyidx = 0,
     ss_mode = WPAS_MODE_INFRA, ss_pbss = 0, ss_disabled = False,
     ss_disabled_until = \<lparr> rt_sec = 0, rt_usec = 0 \<rparr>, ss_auth_failures = 0, ss_mixed_cell = False,
     ss_freq_list = None, ss_owe_only = False, ss_owe_transition_bss_select_count = 0,
     ss_p2p_group = False, ss_go_p2p_dev_addr = zeros 6, ss_dpp_configured = False,
     ss_was_recently_reconfigured = False, ss_wpa_deny_ptk0_rekey = PTK0_REKEY_ALLOW_ALWAYS,
     ss_proactive_key_caching = -1 \<rparr>"

definition bss_sample :: wpa_bss where
  "bss_sample = \<lparr> bs_id = 7, bs_flags = 0, bs_bssid = replicate 6 2, bs_ssid = [97, 98, 99], bs_freq = 2412,
     bs_caps = 0x11, bs_last_update = \<lparr> rt_sec = 90, rt_usec = 0 \<rparr>,
     bs_ies = [0, 3, 97, 98, 99, 48, 20, 1, 0, 0, 0x0F, 0xAC, 4, 1, 0, 0, 0x0F, 0xAC, 4, 1, 0, 0, 0x0F, 0xAC, 2, 0, 0],
     bs_beacon_ies = [] \<rparr>"

definition ws_sample :: wpa_supplicant where
  "ws_sample = \<lparr> ws_wpa = wpa_sm_init, ws_eapol = the (eapol_sm_init eap_env0 crypto_sample True),
     ws_ssids = [ssid_sample], ws_pssid = [[1]], ws_current_ssid = Some 1, ws_next_ssid = None,
     ws_bss = [bss_sample], ws_last_scan_res = [7], ws_scan_min_time = \<lparr> rt_sec = 80, rt_usec = 0 \<rparr>,
     ws_scan_runs = 1, ws_wps_pin_start_time = \<lparr> rt_sec = 0, rt_usec = 0 \<rparr>,
     ws_bssid_ignore = [], ws_bssid_ignore_cleared = False,
     ws_owe_transition_select = False, ws_owe_transition_search = False,
     ws_disallow_aps_bssid = [], ws_disallow_aps_ssid = [], ws_bssid_filter = None, ws_hw_modes = None,
     ws_p2p_mgmt = False, ws_p2p_in_provisioning = False, ws_show_group_started = False,
     ws_auto_interworking = False, ws_drv_capa_known = True, ws_drv_enc = 0x10C, ws_drv_flags = 0,
     ws_pmf = NO_MGMT_FRAME_PROTECTION, ws_sae_pwe = 0, ws_extended_key_id = False, ws_okc = False, ws_ap_scan = 1,
     ws_fast_reauth = True, ws_external_sim = False, ws_wpa_state = WPA_ASSOCIATED, ws_bssid = replicate 6 2,
     ws_key_mgmt = WPA_KEY_MGMT_PSK, ws_wpa_proto = WPA_PROTO_RSN, ws_pairwise_cipher = WPA_CIPHER_CCMP,
     ws_group_cipher = WPA_CIPHER_CCMP, ws_mgmt_group_cipher = 0, ws_rsnxe = [],
     ws_ap_ies_from_associnfo = False, ws_deny_ptk0_rekey = False, ws_own_disconnect_req = False,
     ws_last_eapol_matches_bssid = False, ws_pending_eapol_rx = None,
     ws_pending_eapol_rx_time = \<lparr> rt_sec = 0, rt_usec = 0 \<rparr>, ws_pending_eapol_rx_src = zeros 6,
     ws_eapol_received = 0, ws_countermeasures = False, ws_last_eapol_src = zeros 6,
     ws_last_auth_timeout_sec = 0, ws_auth_timer = None \<rparr>"

end
