(* ===== verification/Supplicant_Run.thy ===== *)
theory Supplicant_Run
  imports Supplicant_Port Samples
begin

text \<open>
  A run of the whole station that opens the controlled port: the network is selected,
  message 1/4 arrives, the EAPOL state machine is set up for a pre-shared key and sees the
  link, message 3/4 arrives.
\<close>

lemma map_filter_append: "List.map_filter f (xs @ ys) = List.map_filter f xs @ List.map_filter f ys"
  by (simp add: map_filter_def)

lemma deliver_append: "deliver x c (as @ bs) p = deliver x c as (deliver x c bs p)"
  by (simp add: deliver_def map_filter_append)

lemma call_wpa_fold:
  "ws_eapol (fold (call_wpa y) evs s) = deliver (y_eapol y) (y_crypto y)
     (new_actions (sm_trace (ws_wpa s)) (sm_trace (fold (wpa_exec (y_env y) (y_crypto y)) evs (ws_wpa s)))) (ws_eapol s)
   \<and> ws_wpa (fold (call_wpa y) evs s) = fold (wpa_exec (y_env y) (y_crypto y)) evs (ws_wpa s)"
  (is "_ = deliver ?x ?c (new_actions _ (sm_trace (fold ?f _ _))) _ \<and> _")
proof (induction evs arbitrary: s)
  case Nil
  then show ?case by (simp add: new_actions_def deliver_def map_filter_simps)
next
  case (Cons ev evs)
  obtain l where l: "sm_trace (?f ev (ws_wpa s)) = l @ sm_trace (ws_wpa s)"
    using exec_adds [of "ws_wpa s" "y_env y" "y_crypto y" ev] by (auto simp: adds_def)
  obtain l' where l': "sm_trace (fold ?f evs (?f ev (ws_wpa s))) = l' @ sm_trace (?f ev (ws_wpa s))"
    using fold_adds [of "?f ev (ws_wpa s)" "y_env y" "y_crypto y" evs] by (auto simp: adds_def)
  have "new_actions (sm_trace (ws_wpa s)) (l' @ l @ sm_trace (ws_wpa s)) = l' @ l"
    using new_actions_append [of "sm_trace (ws_wpa s)" "l' @ l"] by simp
  then show ?case
    using Cons [of "call_wpa y ev s"] by (simp add: call_wpa_def Let_def l l' deliver_append)
qed

lemma call_wpa_fold_fields:
  "fold (call_wpa y) evs s = s\<lparr> ws_wpa := ws_wpa (fold (call_wpa y) evs s), ws_eapol := ws_eapol (fold (call_wpa y) evs s) \<rparr>"
proof (induction evs arbitrary: s)
  case (Cons ev evs)
  from Cons [of "call_wpa y ev s"] show ?case by (simp add: call_wpa_def Let_def)
qed simp

fun no_abort :: "eapol_env \<Rightarrow> crypto \<Rightarrow> eapol_event list \<Rightarrow> eapol_sm \<Rightarrow> bool" where
  "no_abort x c [] p \<longleftrightarrow> True"
| "no_abort x c (ev # evs) p \<longleftrightarrow>
     Aborted_cached_cb \<notin> set (es_trace (eapol_handle x c ev p)) \<and> no_abort x c evs (eapol_handle x c ev p)"

lemma call_eapol_fold:
  "no_abort (y_eapol y) (y_crypto y) evs (ws_eapol s) \<Longrightarrow> fold (call_eapol y) evs s =
     s\<lparr> ws_eapol := fold (eapol_handle (y_eapol y) (y_crypto y)) evs (ws_eapol s) \<rparr>"
proof (induction evs arbitrary: s)
  case (Cons ev evs)
  let ?p = "eapol_handle (y_eapol y) (y_crypto y) ev (ws_eapol s)"
  have "Aborted_cached_cb \<notin> set (new_actions (es_trace (ws_eapol s)) (es_trace ?p))"
    using Cons.prems by (auto simp: new_actions_def dest: in_set_takeD)
  then have "call_eapol y ev s = s\<lparr> ws_eapol := ?p \<rparr>" by (simp add: call_eapol_def set_eapol_def)
  then show ?case using Cons by simp
qed simp

lemma ws_reachable_fold: "ws_reachable y s \<Longrightarrow> ws_reachable y (fold (call_wpa y) evs s)"
  by (induction evs arbitrary: s) (auto intro: ws_reachable.wpa)

abbreviation wpa_before_3 :: wpa_sm where
  "wpa_before_3 \<equiv> wpa_sm_set_eapol True run_sample"

definition eapol_events_sample :: "eapol_event list" where
  "eapol_events_sample = [Ev_eap_success False, Ev_eap_fail False, Ev_portControl Auto,
     Ev_config (Some eap_config_sample) (Some (eapol_config_of conn_sample ssid_sample ws_sample)), Ev_portEnabled True]"

definition eapol_before_3 :: eapol_sm where
  "eapol_before_3 = fold (eapol_handle eap_env0 crypto_sample) eapol_events_sample (ws_eapol ws_sample)"

definition ws_before_3 :: wpa_supplicant where
  "ws_before_3 = call_eapol conn_sample (Ev_portEnabled True)
     (wpa_supplicant_initiate_eapol conn_sample ssid_sample
        (fold (call_wpa conn_sample) (events_sample @ [Set_eapol True]) ws_sample))"

definition ws_after_3 :: wpa_supplicant where
  "ws_after_3 = wpa_supplicant_rx_eapol conn_sample (replicate 6 2) (msg3_sample 2) ws_before_3"

lemma ss_eap_sample: "ss_eap ssid_sample = eap_config_sample"
  by (simp add: ssid_sample_def)

lemma sample_ready: "hs_ready 2 wpa_before_3"
  by code_simp

lemma sample_no_abort: "no_abort eap_env0 crypto_sample eapol_events_sample (ws_eapol ws_sample)"
  by code_simp

lemma sample_first_calls: "List.map_filter eapol_call (rev (sm_trace wpa_before_3)) = []"
  by code_simp

lemma sample_calls:
  "List.map_filter eapol_call (rev (new_actions (sm_trace wpa_before_3) (sm_trace (hs_done 2 wpa_before_3)))) =
     [Ev_lower_layer_success, Ev_tx_eapol_key, Ev_portValid True, Ev_portValid True, Ev_eap_success True]"
  by code_simp

lemma sample_opens:
  "es_suppPortStatus (fold (eapol_handle eap_env0 crypto_sample)
     [Ev_lower_layer_success, Ev_tx_eapol_key, Ev_portValid True, Ev_portValid True, Ev_eap_success True] eapol_before_3) = Authorized"
  by code_simp

lemma eapol_config_fields:
  "eapol_config_of y ssid (s\<lparr> ws_wpa := w, ws_eapol := p \<rparr>) = eapol_config_of y ssid s"
  "eapol_config_of y ssid (call_eapol y ev s) = eapol_config_of y ssid s"
proof -
  show f: "eapol_config_of y ssid (s\<lparr> ws_wpa := w, ws_eapol := p \<rparr>) = eapol_config_of y ssid s" for w p
    by (simp add: eapol_config_of_def)
  have "call_eapol y ev s = s\<lparr> ws_wpa := ws_wpa (call_eapol y ev s), ws_eapol := ws_eapol (call_eapol y ev s) \<rparr>"
    by (simp add: call_eapol_def set_eapol_def wpa_supplicant_aborted_cached_def Let_def)
  then show "eapol_config_of y ssid (call_eapol y ev s) = eapol_config_of y ssid s" using f by metis
qed

lemma ws_before_3:
  "ws_before_3 = ws_sample\<lparr> ws_wpa := wpa_before_3, ws_eapol := eapol_before_3 \<rparr>"
proof -
  let ?y = conn_sample
  define s where "s = fold (call_wpa conn_sample) (events_sample @ [Set_eapol True]) ws_sample"
  have y: "y_eapol ?y = eap_env0" "y_crypto ?y = crypto_sample" "y_env ?y = env_sample"
    by (simp_all add: conn_sample_def)
  have w: "fold (wpa_exec env_sample crypto_sample) (events_sample @ [Set_eapol True]) (ws_wpa ws_sample) = wpa_before_3"
    by (simp add: run_sample_def ws_sample_def)
  have t: "sm_trace (ws_wpa ws_sample) = []" by code_simp
  have s: "ws_eapol s = ws_eapol ws_sample" "ws_wpa s = wpa_before_3"
    using call_wpa_fold [of ?y "events_sample @ [Set_eapol True]" ws_sample]
    unfolding s_def [symmetric] by (simp_all only: y w t) (simp_all add: new_actions_def deliver_def sample_first_calls)
  then have more: "s = ws_sample\<lparr> ws_wpa := wpa_before_3, ws_eapol := ws_eapol ws_sample \<rparr>"
    using call_wpa_fold_fields [of ?y "events_sample @ [Set_eapol True]" ws_sample] unfolding s_def [symmetric] by simp
  have km: "ws_key_mgmt s = WPA_KEY_MGMT_PSK" by (simp add: more) (simp add: ws_sample_def)
  have config: "eapol_config_of ?y ssid_sample s = eapol_config_of ?y ssid_sample ws_sample"
    unfolding more by (rule eapol_config_fields)
  have "ws_before_3 = fold (call_eapol ?y) eapol_events_sample s"
    unfolding ws_before_3_def s_def [symmetric] wpa_supplicant_initiate_eapol_def eapol_events_sample_def Let_def
    by (simp add: km eapol_config_fields(2) config ss_eap_sample)
  also have "\<dots> = s\<lparr> ws_eapol := eapol_before_3 \<rparr>"
    by (subst call_eapol_fold) (simp_all add: y s sample_no_abort eapol_before_3_def)
  finally show ?thesis by (simp add: more)
qed

lemma ws_after_3:
  "ws_wpa ws_after_3 = hs_done 2 wpa_before_3" "es_suppPortStatus (ws_eapol ws_after_3) = Authorized"
proof -
  have rx: "wpa_exec env_sample crypto_sample (Rx_eapol (replicate 6 2) (msg3_sample 2)) wpa_before_3 =
      hs_done 2 wpa_before_3"
    using hs_ready_rx [OF sample_ready] by (simp add: hs_done_def)
  have after: "ws_after_3 = call_wpa conn_sample (Rx_eapol (replicate 6 2) (msg3_sample 2))
      (ws_before_3\<lparr> ws_last_eapol_matches_bssid := True, ws_last_auth_timeout_sec := 10, ws_auth_timer := Some 10,
         ws_eapol_received := 1, ws_last_eapol_src := replicate 6 2 \<rparr>)"
    unfolding ws_after_3_def ws_before_3
    by (simp add: wpa_supplicant_rx_eapol_def ws_sample_def associated_def rx_auth_timeout_def
        wpa_supplicant_req_auth_timeout_def rx_to_wpa_def wpa_key_mgmt_wpa_psk_def
        wpa_key_mgmt_wpa_ieee8021x_def conn_sample_def ssid_of_def ssid_sample_def)
  show "ws_wpa ws_after_3 = hs_done 2 wpa_before_3" "es_suppPortStatus (ws_eapol ws_after_3) = Authorized"
    unfolding after using sample_opens rx
    by (simp_all add: call_wpa_def ws_before_3 conn_sample_def deliver_def sample_calls del: wpa_exec.simps)
qed

lemma ws_after_3_reachable: "ws_reachable conn_sample ws_after_3"
proof -
  have "eapol_sm_init eap_env0 crypto_sample True = Some (ws_eapol ws_sample)"
    by (simp add: ws_sample_def eapol_sm_init_def eap_peer_sm_init_def Let_def)
  then have "ws_reachable conn_sample ws_sample"
    by (intro ws_reachable.start) (simp_all add: conn_sample_def ws_sample_def wpa_network_def)
  then show ?thesis
    unfolding ws_after_3_def ws_before_3_def
    by (intro ws_reachable.receive ws_reachable.eapol ws_reachable.initiate ws_reachable_fold) simp_all
qed


end
