(* ===== verification/Selection.thy ===== *)
theory Selection
  imports Network
begin

text \<open>
  Network selection (\<^verbatim>\<open>events.c\<close>): which of the configured networks a scan result belongs to,
  and which scan result is used.  A BSS must pass every check of the profile: state of the
  network, SSID and BSSID, security elements, privacy, frequency, rates.
\<close>

unbundle bit_operations_syntax

section \<open>State of a network\<close>

definition wep_key_valid :: "u32 \<Rightarrow> nat \<Rightarrow> bool" where
  "wep_key_valid drv_enc len \<longleftrightarrow>
     len = 0 \<or> len = 5 \<and> has drv_enc 0x1 \<or> len = 13 \<and> has drv_enc 0x2 \<or> len = 16 \<and> has drv_enc 0x10"

definition wpas_network_disabled :: "wpa_supplicant \<Rightarrow> wpa_ssid \<Rightarrow> bool" where
  "wpas_network_disabled s ssid \<longleftrightarrow>
     ws_p2p_mgmt s \<or> ss_disabled ssid \<or>
     \<not> list_all (wep_key_valid (if ws_drv_capa_known s then ws_drv_enc s else -1)) (ss_wep_key_len ssid) \<or>
     wpa_key_mgmt_wpa_psk (ss_key_mgmt ssid) \<and> \<not> ss_psk_set ssid \<and>
       (ss_passphrase ssid = None \<or> ss_ssid ssid \<noteq> []) \<and> \<not> ss_ext_psk ssid \<and>
       \<not> (wpa_key_mgmt_sae (ss_key_mgmt ssid) \<and> ss_sae_password ssid) \<and> \<not> ss_mem_only_psk ssid"

definition wpas_clear_temp_disabled :: "wpa_ssid \<Rightarrow> bool \<Rightarrow> wpa_supplicant \<Rightarrow> wpa_supplicant" where
  "wpas_clear_temp_disabled ssid clear_failures s =
     upd_ssid (ss_id ssid) (\<lambda>x. let x = x\<lparr> ss_disabled_until := \<lparr> rt_sec = 0, rt_usec = 0 \<rparr> \<rparr>
                                in if clear_failures then x\<lparr> ss_auth_failures := 0 \<rparr> else x) s"

definition wpas_temp_disabled :: "conn_env \<Rightarrow> wpa_ssid \<Rightarrow> wpa_supplicant \<Rightarrow> int \<times> wpa_supplicant" where
  "wpas_temp_disabled y ssid s =
     (if rt_sec (ss_disabled_until ssid) = 0 then (0, s)
      else if rt_sec (ss_disabled_until ssid) > rt_sec (y_now y)
      then (rt_sec (ss_disabled_until ssid) - rt_sec (y_now y), s)
      else (0, wpas_clear_temp_disabled ssid False s))"

definition wpa_supplicant_enabled_networks :: "wpa_supplicant \<Rightarrow> nat" where
  "wpa_supplicant_enabled_networks s =
     (if ws_p2p_mgmt s then 0
      else length (filter (\<lambda>x. \<not> wpas_network_disabled s x) (ws_ssids s)) +
           (if ws_auto_interworking s then 1 else 0))"

definition wpas_get_ssid_pmf :: "wpa_supplicant \<Rightarrow> wpa_ssid \<Rightarrow> mfp_options" where
  "wpas_get_ssid_pmf s ssid =
     (if ss_ieee80211w ssid = MGMT_FRAME_PROTECTION_DEFAULT
      then if ws_pmf s = MGMT_FRAME_PROTECTION_OPTIONAL \<and> \<not> has (ws_drv_enc s) 0x100
           then NO_MGMT_FRAME_PROTECTION
           else if ss_key_mgmt ssid AND NOT (WPA_KEY_MGMT_NONE OR WPA_KEY_MGMT_WPS OR WPA_KEY_MGMT_IEEE8021X_NO_WPA) = 0
           then NO_MGMT_FRAME_PROTECTION
           else ws_pmf s
      else ss_ieee80211w ssid)"

text \<open>Repeated authentication failures disable a network for a while.\<close>

definition auth_failed_duration :: "conn_env \<Rightarrow> wpa_ssid \<Rightarrow> int" where
  "auth_failed_duration y ssid =
     (let n = uint (ss_auth_failures ssid);
          dur = (if n > 50 then 300 else if n > 10 then 120 else if n > 5 then 90 else if n > 3 then 60
                 else if n > 2 then 30 else if n > 1 then 20 else 10)
      in if n > 1 \<and> wpa_key_mgmt_wpa_ieee8021x (ss_key_mgmt ssid)
         then dur + uint (y_random y mod (ss_auth_failures ssid * 10)) else dur)"

definition wpas_auth_failed :: "conn_env \<Rightarrow> wpa_supplicant \<Rightarrow> wpa_supplicant" where
  "wpas_auth_failed y s =
     (case ws_current_ssid s of
        None \<Rightarrow> s
      | Some i \<Rightarrow>
          (case ssid_of s i of
             None \<Rightarrow> s
           | Some ssid \<Rightarrow>
               if ss_key_mgmt ssid = WPA_KEY_MGMT_WPS then s
               else let ssid = ssid\<lparr> ss_auth_failures := ss_auth_failures ssid + 1 \<rparr>;
                        s = upd_ssid i (\<lambda>x. x\<lparr> ss_auth_failures := ss_auth_failures x + 1 \<rparr>) s
               in if ss_p2p_group ssid \<and> (ws_p2p_in_provisioning s \<or> ws_show_group_started s) then s
               else let until = rt_sec (y_now y) + auth_failed_duration y ssid
               in if until \<le> rt_sec (ss_disabled_until ssid) then s
                  else upd_ssid i (\<lambda>x. x\<lparr> ss_disabled_until := (ss_disabled_until x)\<lparr> rt_sec := until \<rparr> \<rparr>) s))"


section \<open>Security of a BSS\<close>

definition has_wep_key :: "wpa_ssid \<Rightarrow> bool" where
  "has_wep_key ssid \<longleftrightarrow> list_ex (\<lambda>n. n \<noteq> 0) (ss_wep_key_len ssid)"

definition wpa_supplicant_match_privacy :: "wpa_bss \<Rightarrow> wpa_ssid \<Rightarrow> bool" where
  "wpa_supplicant_match_privacy bss ssid \<longleftrightarrow>
     ss_mixed_cell ssid \<or> has (ss_key_mgmt ssid) WPA_KEY_MGMT_WPS \<or>
     has (ss_key_mgmt ssid) WPA_KEY_MGMT_OWE \<and> \<not> ss_owe_only ssid \<or>
     (let privacy = (has_wep_key ssid \<or>
            has (ss_key_mgmt ssid) WPA_KEY_MGMT_IEEE8021X_NO_WPA \<and> has (ss_eapol_flags ssid) 3 \<or>
            wpa_key_mgmt_wpa (ss_key_mgmt ssid) \<or> has (ss_key_mgmt ssid) WPA_KEY_MGMT_OSEN)
      in has (bs_caps bss) IEEE80211_CAP_PRIVACY \<longleftrightarrow> privacy)"

definition WSC_ID_ENROLLEE :: bytes where
  "WSC_ID_ENROLLEE = map of_char ''WFA-SimpleConfig-Enrollee-1-0''"

definition os_strstr :: "string \<Rightarrow> string \<Rightarrow> bool" where
  "os_strstr haystack needle \<longleftrightarrow>
     list_ex (\<lambda>i. take (length needle) (drop i haystack) = needle) [0..<Suc (length haystack)]"

definition is_wps_enrollee :: "string \<Rightarrow> eap_peer_config \<Rightarrow> bool" where
  "is_wps_enrollee method conf \<longleftrightarrow>
     cf_identity conf = Some WSC_ID_ENROLLEE \<and>
     (case cf_phase1 conf of None \<Rightarrow> False | Some p \<Rightarrow> os_strstr p method)"

definition eap_is_wps_pbc_enrollee :: "eap_peer_config \<Rightarrow> bool" where
  "eap_is_wps_pbc_enrollee conf = is_wps_enrollee ''pbc=1'' conf"

definition eap_is_wps_pin_enrollee :: "eap_peer_config \<Rightarrow> bool" where
  "eap_is_wps_pin_enrollee conf = is_wps_enrollee ''pin='' conf"

definition wpas_wps_ssid_bss_match :: "conn_env \<Rightarrow> wpa_ssid \<Rightarrow> wpa_bss \<Rightarrow> wpa_supplicant \<Rightarrow> int" where
  "wpas_wps_ssid_bss_match y ssid bss s =
     (if \<not> has (ss_key_mgmt ssid) WPA_KEY_MGMT_WPS then -1
      else case wpa_bss_get_vendor_ie_multi bss WPS_IE_VENDOR_TYPE of
        None \<Rightarrow> if eap_is_wps_pbc_enrollee (ss_eap ssid) \<or> eap_is_wps_pin_enrollee (ss_eap ssid) then 0 else -1
      | Some wps_ie \<Rightarrow>
          if eap_is_wps_pbc_enrollee (ss_eap ssid)
          then if y_wps_is_selected_pbc_registrar y wps_ie then 1 else 0
          else if eap_is_wps_pin_enrollee (ss_eap ssid)
          then if y_wps_is_addr_authorized y wps_ie then 1
               else if ws_scan_runs s < 3 \<or> rt_sec (os_reltime_sub (y_now y) (ws_wps_pin_start_time s)) < 5
               then 0 else 1
          else 1)"

definition rsn_defaults :: "wpa_bss \<Rightarrow> wpa_ie_data \<Rightarrow> wpa_ie_data" where
  "rsn_defaults bss ie =
     (let ie = (if has_pairwise ie then ie else ie\<lparr> pairwise_cipher := wpa_default_rsn_cipher (bs_freq bss) \<rparr>)
      in if has_group ie then ie else ie\<lparr> group_cipher := wpa_default_rsn_cipher (bs_freq bss) \<rparr>)"

text \<open>What an element must offer: a cipher of the profile for unicast and for group frames and
  a key management of the profile.\<close>

definition suites_match :: "wpa_ssid \<Rightarrow> wpa_ie_data \<Rightarrow> bool" where
  "suites_match ssid ie \<longleftrightarrow> has (pairwise_cipher ie) (ss_pairwise_cipher ssid) \<and>
     has (group_cipher ie) (ss_group_cipher ssid) \<and> has (key_mgmt ie) (ss_key_mgmt ssid)"

definition rsn_selectable :: "wpa_supplicant \<Rightarrow> wpa_ssid \<Rightarrow> wpa_ie_data \<Rightarrow> bool" where
  "rsn_selectable s ssid ie \<longleftrightarrow>
     (has (proto ie) (ss_proto ssid) \<or> has (ss_proto ssid) WPA_PROTO_OSEN) \<and> suites_match ssid ie \<and>
     (ss_group_mgmt_cipher ssid = 0 \<or> has (mgmt_group_cipher ie) (ss_group_mgmt_cipher ssid)) \<and>
     (has (capabilities ie) WPA_CAPABILITY_MFPC \<or> wpas_get_ssid_pmf s ssid \<noteq> MGMT_FRAME_PROTECTION_REQUIRED) \<and>
     (\<not> has (capabilities ie) WPA_CAPABILITY_MFPR \<or> wpas_get_ssid_pmf s ssid \<noteq> NO_MGMT_FRAME_PROTECTION)"

definition wep_group :: "wpa_ie_data \<Rightarrow> bool" where
  "wep_group ie \<longleftrightarrow> has (group_cipher ie) (WPA_CIPHER_WEP40 OR WPA_CIPHER_WEP104)"

definition wep_ok :: "wpa_ssid \<Rightarrow> bool" where
  "wep_ok ssid \<longleftrightarrow> \<not> wpa_key_mgmt_wpa (ss_key_mgmt ssid) \<and>
     (has (ss_key_mgmt ssid) WPA_KEY_MGMT_NONE \<and> ss_wep_key_len ssid ! ss_wep_tx_keyidx ssid > 0 \<or>
      has (ss_key_mgmt ssid) WPA_KEY_MGMT_IEEE8021X_NO_WPA)"

definition rsn_element_match :: "wpa_supplicant \<Rightarrow> wpa_ssid \<Rightarrow> wpa_bss \<Rightarrow> bytes \<Rightarrow> bool" where
  "rsn_element_match s ssid bss rsn_ie =
     (case the (wpa_parse_wpa_ie rsn_ie) of (r, ie) \<Rightarrow>
        r = 0 \<and> (let ie = rsn_defaults bss ie in wep_ok ssid \<and> wep_group ie \<or> rsn_selectable s ssid ie))"

definition wpa_element_match :: "wpa_ssid \<Rightarrow> bytes \<Rightarrow> bool" where
  "wpa_element_match ssid wpa_ie =
     (case the (wpa_parse_wpa_ie wpa_ie) of (r, ie) \<Rightarrow>
        r = 0 \<and> (wep_ok ssid \<and> wep_group ie \<or> has (proto ie) (ss_proto ssid) \<and> suites_match ssid ie))"

definition wpa_supplicant_ssid_bss_match ::
  "conn_env \<Rightarrow> wpa_ssid \<Rightarrow> wpa_bss \<Rightarrow> wpa_supplicant \<Rightarrow> bool \<times> wpa_supplicant" where
  "wpa_supplicant_ssid_bss_match y ssid bss s =
     (let ret = wpas_wps_ssid_bss_match y ssid bss s;
          km = ss_key_mgmt ssid;
          rsn_ie = wpa_bss_get_ie bss WLAN_EID_RSN;
          wpa_ie = wpa_bss_get_vendor_ie bss WPA_IE_VENDOR_TYPE;
          try_rsn = (has (ss_proto ssid) (WPA_PROTO_RSN OR WPA_PROTO_OSEN) \<and> rsn_ie \<noteq> None);
          try_wpa = (has (ss_proto ssid) WPA_PROTO_WPA \<and> wpa_ie \<noteq> None)
      in if ret \<ge> 0 then (ret \<noteq> 0, s)
      else if try_rsn \<and> rsn_element_match s ssid bss (the rsn_ie) then (True, s)
      else if wpas_get_ssid_pmf s ssid = MGMT_FRAME_PROTECTION_REQUIRED \<and>
              (\<not> has km WPA_KEY_MGMT_OWE \<or> ss_owe_only ssid) then (False, s)
      else if try_wpa \<and> wpa_element_match ssid (the wpa_ie) then (True, s)
      else if has km WPA_KEY_MGMT_IEEE8021X_NO_WPA \<and> wpa_ie = None \<and> rsn_ie = None then (True, s)
      else if has km WPA_KEY_MGMT_OWE \<and> \<not> ss_owe_only ssid \<and> wpa_ie = None \<and> rsn_ie = None
      then if ws_owe_transition_select s \<and> wpa_bss_get_vendor_ie bss OWE_IE_VENDOR_TYPE \<noteq> None \<and>
              ss_owe_transition_bss_select_count ssid + 1 \<le> 5
           then (False, (upd_ssid (ss_id ssid) (\<lambda>x. x\<lparr> ss_owe_transition_bss_select_count :=
                    ss_owe_transition_bss_select_count x + 1 \<rparr>) s)\<lparr> ws_owe_transition_search := True \<rparr>)
           else (True, s)
      else if has (ss_proto ssid) (WPA_PROTO_WPA OR WPA_PROTO_RSN) \<and> wpa_key_mgmt_wpa km \<and>
              \<not> try_rsn \<and> \<not> try_wpa then (False, s)
      else if has km WPA_KEY_MGMT_OSEN \<and> wpa_bss_get_vendor_ie bss OSEN_IE_VENDOR_TYPE \<noteq> None then (True, s)
      else (\<not> wpa_key_mgmt_wpa km, s))"


section \<open>Frequencies, rates and addresses\<close>

definition freq_allowed :: "int list option \<Rightarrow> int \<Rightarrow> bool" where
  "freq_allowed freqs freq =
     (case freqs of None \<Rightarrow> True | Some l \<Rightarrow> list_ex (\<lambda>f. f = freq) (takeWhile (\<lambda>f. f \<noteq> 0) l))"

definition ht_supported :: "hostapd_hw_modes \<Rightarrow> bool" where
  "ht_supported mode \<longleftrightarrow> \<not> has (hm_flags mode) 1 \<or> hm_mcs_set0 mode = 0xFF"

definition vht_supported :: "hostapd_hw_modes \<Rightarrow> bool" where
  "vht_supported mode \<longleftrightarrow> \<not> has (hm_flags mode) 2 \<or> hm_vht_mcs_set0 mode AND 3 \<noteq> 3"

fun rate_mode :: "int \<Rightarrow> hostapd_hw_modes option \<Rightarrow> hostapd_hw_modes list \<Rightarrow> hostapd_hw_modes option" where
  "rate_mode freq mode [] = mode"
| "rate_mode freq mode (m # ms) =
     rate_mode freq (if list_ex (\<lambda>c. fst c = freq) (hm_channels m) \<and>
                        (case mode of None \<Rightarrow> True | Some x \<Rightarrow> hm_mode x \<noteq> HOSTAPD_MODE_IEEE80211G)
                     then Some m else mode) ms"

definition rate_supported :: "wpa_supplicant \<Rightarrow> wpa_ssid \<Rightarrow> hostapd_hw_modes \<Rightarrow> byte \<Rightarrow> bool" where
  "rate_supported s ssid mode rate =
     (let flagged = has rate 0x80; v = rate AND 0x7F
      in if flagged \<and> v = 127 then ht_supported mode
         else if flagged \<and> v = 126 then vht_supported mode
         else if flagged \<and> v = 123
         then \<not> (ws_sae_pwe s = 0 \<and> \<not> ss_sae_password_id ssid \<and> wpa_key_mgmt_sae (ss_key_mgmt ssid))
         else \<not> flagged \<or> list_ex (\<lambda>r. r = uint v * 5) (hm_rates mode))"

definition rate_match :: "wpa_supplicant \<Rightarrow> wpa_ssid \<Rightarrow> wpa_bss \<Rightarrow> bool" where
  "rate_match s ssid bss =
     (if bs_freq bss = 0 then True
      else case ws_hw_modes s of
        None \<Rightarrow> True
      | Some modes \<Rightarrow>
          (case rate_mode (bs_freq bss) None modes of
             None \<Rightarrow> False
           | Some mode \<Rightarrow> list_all (\<lambda>eid. case wpa_bss_get_ie bss eid of
                                           None \<Rightarrow> True
                                         | Some ie \<Rightarrow> list_all (rate_supported s ssid mode) (drop 2 ie))
                                  [WLAN_EID_SUPP_RATES, WLAN_EID_EXT_SUPP_RATES]))"

definition match_mac_mask :: "bytes \<Rightarrow> bytes \<Rightarrow> bytes \<Rightarrow> bool" where
  "match_mac_mask a b msk \<longleftrightarrow>
     map2 (\<lambda>x m. x AND m) (take 6 a) (take 6 msk) = map2 (\<lambda>x m. x AND m) (take 6 b) (take 6 msk)"

definition addr_in_list :: "bytes \<Rightarrow> (bytes \<times> bytes) list \<Rightarrow> bool" where
  "addr_in_list addr list = list_ex (\<lambda>(a, m). match_mac_mask a addr m) list"

definition disallowed_bssid :: "wpa_supplicant \<Rightarrow> bytes \<Rightarrow> bool" where
  "disallowed_bssid s bssid = list_ex (\<lambda>b. b = bssid) (ws_disallow_aps_bssid s)"

definition disallowed_ssid :: "wpa_supplicant \<Rightarrow> bytes \<Rightarrow> bool" where
  "disallowed_ssid s ssid = list_ex (\<lambda>x. x = ssid) (ws_disallow_aps_ssid s)"

fun channel_flag :: "int \<Rightarrow> hostapd_hw_modes list \<Rightarrow> u32 option" where
  "channel_flag freq [] = None"
| "channel_flag freq (m # ms) =
     (case List.find (\<lambda>c. fst c = freq) (hm_channels m) of
        Some c \<Rightarrow> Some (snd c) | None \<Rightarrow> channel_flag freq ms)"

definition disabled_freq :: "wpa_supplicant \<Rightarrow> int \<Rightarrow> bool" where
  "disabled_freq s freq =
     (case ws_hw_modes s of
        None \<Rightarrow> False
      | Some modes \<Rightarrow> modes \<noteq> [] \<and> (case channel_flag freq modes of None \<Rightarrow> True | Some f \<Rightarrow> has f 1))"

definition wpa_supplicant_filter_bssid_match :: "wpa_supplicant \<Rightarrow> bytes \<Rightarrow> bool" where
  "wpa_supplicant_filter_bssid_match s bssid =
     (case ws_bssid_filter s of None \<Rightarrow> True | Some l \<Rightarrow> list_ex (\<lambda>b. b = bssid) l)"


section \<open>OWE transition mode\<close>

text \<open>The BSSID and SSID of the other BSS of a pair, in the transition mode element.\<close>

definition owe_transition_info :: "bytes \<Rightarrow> (bytes \<times> bytes) option" where
  "owe_transition_info owe =
     (let p = drop 6 owe
      in if length p < 7 then None
         else let ssid_len = unat (p ! 6)
         in if length p - 7 < ssid_len \<or> ssid_len > 32 then None
            else Some (take 6 p, slice 7 ssid_len p))"

definition wpa_bss_get_bssid_latest :: "bytes \<Rightarrow> wpa_supplicant \<Rightarrow> wpa_bss option" where
  "wpa_bss_get_bssid_latest bssid s =
     (if \<not> wpa_supplicant_filter_bssid_match s bssid then None
      else fold (\<lambda>bss found. if bs_bssid bss \<noteq> bssid then found
                    else case found of
                           None \<Rightarrow> Some bss
                         | Some f \<Rightarrow> if os_reltime_before (bs_last_update f) (bs_last_update bss)
                                     then Some bss else found) (rev (ws_bss s)) None)"

text \<open>The SSID of the open network that this BSS encrypts, from its own element and, when its
  SSID is hidden, from the element of the open BSS; the result is the SSID to compare.\<close>

definition owe_learn_ssid :: "wpa_bss \<Rightarrow> bytes \<Rightarrow> bytes \<Rightarrow> wpa_supplicant \<Rightarrow> wpa_supplicant" where
  "owe_learn_ssid bss bssid ssid s =
     (case wpa_bss_get_bssid_latest bssid s of
        None \<Rightarrow> s
      | Some open_bss \<Rightarrow>
          if ssid \<noteq> bs_ssid open_bss then s
          else case wpa_bss_get_vendor_ie open_bss OWE_IE_VENDOR_TYPE of
            None \<Rightarrow> s
          | Some owe \<Rightarrow>
              if wpa_bss_get_ie open_bss WLAN_EID_RSN \<noteq> None then s
              else case owe_transition_info owe of
                None \<Rightarrow> s
              | Some (bssid', ssid') \<Rightarrow>
                  if bssid' \<noteq> bs_bssid bss then s
                  else upd_bss (bs_id bss) (\<lambda>x. x\<lparr> bs_ssid := ssid',
                         bs_flags := bs_flags x OR WPA_BSS_OWE_TRANSITION \<rparr>) s)"

definition owe_trans_ssid :: "wpa_bss \<Rightarrow> wpa_supplicant \<Rightarrow> bytes \<times> wpa_supplicant" where
  "owe_trans_ssid bss s =
     (case wpa_bss_get_vendor_ie bss OWE_IE_VENDOR_TYPE of
        None \<Rightarrow> (bs_ssid bss, s)
      | Some owe \<Rightarrow>
          if wpa_bss_get_ie bss WLAN_EID_RSN = None then (bs_ssid bss, s)
          else case owe_transition_info owe of
            None \<Rightarrow> (bs_ssid bss, s)
          | Some (bssid, ssid) \<Rightarrow>
              let s = (if \<not> has (bs_flags bss) WPA_BSS_OWE_TRANSITION \<and>
                          list_ex (\<lambda>x. \<not> wpas_network_disabled s x \<and> ss_ssid x = ssid) (ws_ssids s)
                       then upd_bss (bs_id bss) (\<lambda>x. x\<lparr> bs_flags := bs_flags x OR WPA_BSS_OWE_TRANSITION \<rparr>) s
                       else s)
              in (ssid, if bs_ssid bss \<noteq> [] then s else owe_learn_ssid bss bssid ssid s))"


section \<open>Matching scan results\<close>

definition elem_nonempty :: "bytes option \<Rightarrow> bool" where
  "elem_nonempty ie = (case ie of None \<Rightarrow> False | Some e \<Rightarrow> e ! 1 \<noteq> 0)"

definition bss_has_wpa :: "wpa_bss \<Rightarrow> bool" where
  "bss_has_wpa bss \<longleftrightarrow> elem_nonempty (wpa_bss_get_vendor_ie bss WPA_IE_VENDOR_TYPE) \<or>
     elem_nonempty (wpa_bss_get_ie bss WLAN_EID_RSN)"

definition bss_rsn_osen :: "wpa_bss \<Rightarrow> bool" where
  "bss_rsn_osen bss =
     (case wpa_bss_get_ie bss WLAN_EID_RSN of
        None \<Rightarrow> False
      | Some ie \<Rightarrow> (case the (wpa_parse_wpa_ie_rsn ie) of
                      (r, d) \<Rightarrow> r = 0 \<and> has (key_mgmt d) WPA_KEY_MGMT_OSEN))"

definition rsnxe_capa :: "wpa_bss \<Rightarrow> byte" where
  "rsnxe_capa bss =
     (case wpa_bss_get_ie bss 244 of None \<Rightarrow> 0 | Some ie \<Rightarrow> if ie ! 1 \<ge> 1 then ie ! 2 else 0)"

definition scan_check_ssid :: "conn_env \<Rightarrow> wpa_ssid \<Rightarrow> wpa_bss \<Rightarrow> bool" where
  "scan_check_ssid y ssid bss =
     (let wpa = bss_has_wpa bss;
          c = (wpa \<or> ss_ssid ssid \<noteq> []);
          c = (if wpa \<and> ss_ssid ssid = [] \<and> y_wps_ssid_wildcard_ok y ssid bss then False else c);
          c = (if \<not> wpa \<and> has (ss_key_mgmt ssid) WPA_KEY_MGMT_WPS
               then ss_ssid ssid \<noteq> [] \<or> \<not> y_wps_ssid_wildcard_ok y ssid bss else c)
      in if ss_bssid_set ssid \<and> ss_ssid ssid = [] \<and> bs_bssid bss = ss_bssid ssid then False else c)"

text \<open>The checks of \<^verbatim>\<open>wpa_scan_res_ok\<close> before and after those of the security elements.\<close>

definition scan_res_address_ok :: "conn_env \<Rightarrow> wpa_ssid \<Rightarrow> bytes \<Rightarrow> wpa_bss \<Rightarrow> bool" where
  "scan_res_address_ok y ssid match_ssid bss \<longleftrightarrow>
     (scan_check_ssid y ssid bss \<longrightarrow> match_ssid = ss_ssid ssid) \<and>
     (ss_bssid_set ssid \<longrightarrow> bs_bssid bss = ss_bssid ssid) \<and>
     \<not> (ss_bssid_ignore ssid \<noteq> [] \<and> addr_in_list (bs_bssid bss) (ss_bssid_ignore ssid)) \<and>
     (ss_bssid_accept ssid = [] \<or> addr_in_list (bs_bssid bss) (ss_bssid_accept ssid))"

definition p2p_go_ok :: "conn_env \<Rightarrow> wpa_ssid \<Rightarrow> wpa_bss \<Rightarrow> bool" where
  "p2p_go_ok y ssid bss \<longleftrightarrow>
     (ss_p2p_group ssid \<longrightarrow> wpa_bss_get_vendor_ie bss P2P_IE_VENDOR_TYPE \<noteq> None \<or>
        wpa_bss_get_vendor_ie_beacon bss P2P_IE_VENDOR_TYPE \<noteq> None) \<and>
     (ss_go_p2p_dev_addr ssid \<noteq> zeros 6 \<longrightarrow>
        (case wpa_bss_get_vendor_ie bss P2P_IE_VENDOR_TYPE of
           None \<Rightarrow> False
         | Some _ \<Rightarrow> (case wpa_bss_get_vendor_ie_multi bss P2P_IE_VENDOR_TYPE of
                        None \<Rightarrow> False
                      | Some p2p_ie \<Rightarrow> y_p2p_dev_addr y p2p_ie = Some (ss_go_p2p_dev_addr ssid))))"

definition wpa_sm_pmksa_exists :: "wpa_sm \<Rightarrow> bytes \<Rightarrow> nat \<Rightarrow> bool" where
  "wpa_sm_pmksa_exists sm bssid network_ctx \<longleftrightarrow>
     pmksa_cache_get sm (Some bssid) None (Some network_ctx) 0 \<noteq> None"

definition scan_res_usable :: "conn_env \<Rightarrow> wpa_ssid \<Rightarrow> wpa_bss \<Rightarrow> wpa_supplicant \<Rightarrow> bool" where
  "scan_res_usable y ssid bss s \<longleftrightarrow>
     (let km = ss_key_mgmt ssid; wpa = bss_has_wpa bss;
          osen = (wpa_bss_get_vendor_ie bss OSEN_IE_VENDOR_TYPE \<noteq> None)
      in \<not> (\<not> osen \<and> \<not> wpa \<and> \<not> has km (WPA_KEY_MGMT_NONE OR WPA_KEY_MGMT_WPS OR WPA_KEY_MGMT_OWE OR
              WPA_KEY_MGMT_IEEE8021X_NO_WPA)) \<and>
         \<not> (wpa \<and> \<not> wpa_key_mgmt_wpa km \<and> has_wep_key ssid) \<and>
         \<not> (has km WPA_KEY_MGMT_OSEN \<and> \<not> osen \<and> \<not> bss_rsn_osen bss) \<and>
         wpa_supplicant_match_privacy bss ssid \<and>
         (ss_mode ssid = WPAS_MODE_MESH \<or> bss_is_ess bss \<or> bss_is_pbss bss) \<and>
         (ss_pbss ssid = 2 \<or> ss_pbss ssid = of_bool (bss_is_pbss bss)) \<and>
         freq_allowed (ss_freq_list ssid) (bs_freq bss) \<and>
         rate_match s ssid bss \<and>
         \<not> ((ws_sae_pwe s = 1 \<or> ss_sae_password_id ssid) \<and> ws_sae_pwe s \<noteq> 3 \<and> wpa_key_mgmt_sae km \<and>
            \<not> has (rsnxe_capa bss) 0x20) \<and>
         \<not> (ss_mode ssid = WPAS_MODE_IBSS \<and> \<not> has km (WPA_KEY_MGMT_NONE OR WPA_KEY_MGMT_WPA_NONE)) \<and>
         p2p_go_ok y ssid bss \<and>
         \<not> os_reltime_before (bs_last_update bss) (ws_scan_min_time s) \<and>
         \<not> (has km WPA_KEY_MGMT_DPP \<and> \<not> wpa_sm_pmksa_exists (ws_wpa s) (bs_bssid bss) (ss_id ssid) \<and>
            \<not> ss_dpp_configured ssid) \<and>
         bs_ssid bss \<noteq> [])"

definition wpa_scan_res_ok ::
  "conn_env \<Rightarrow> wpa_ssid \<Rightarrow> bytes \<Rightarrow> wpa_bss \<Rightarrow> int \<Rightarrow> wpa_supplicant \<Rightarrow> bool \<times> wpa_supplicant" where
  "wpa_scan_res_ok y ssid match_ssid bss bssid_ignore_count s =
     (if wpas_network_disabled s ssid then (False, s)
      else let (res, s) = wpas_temp_disabled y ssid s
      in if res > 0 then (False, s)
      else if has (ss_key_mgmt ssid) WPA_KEY_MGMT_WPS \<and> bssid_ignore_count \<noteq> 0 then (False, s)
      else if \<not> scan_res_address_ok y ssid match_ssid bss then (False, s)
      else let (m, s) = wpa_supplicant_ssid_bss_match y ssid bss s
      in (m \<and> scan_res_usable y ssid bss s, s))"

text \<open>The first network of the list that the BSS belongs to.\<close>

fun match_networks ::
  "conn_env \<Rightarrow> bytes \<Rightarrow> wpa_bss \<Rightarrow> int \<Rightarrow> nat list \<Rightarrow> wpa_supplicant \<Rightarrow> nat option \<times> wpa_supplicant" where
  "match_networks y match_ssid bss n [] s = (None, s)"
| "match_networks y match_ssid bss n (i # is) s =
     (case ssid_of s i of
        None \<Rightarrow> match_networks y match_ssid bss n is s
      | Some ssid \<Rightarrow>
          let (ok, s) = wpa_scan_res_ok y ssid match_ssid bss n s
          in if ok then (Some i, s) else match_networks y match_ssid bss n is s)"

definition wpa_scan_res_match ::
  "conn_env \<Rightarrow> nat \<Rightarrow> nat list \<Rightarrow> bool \<Rightarrow> wpa_supplicant \<Rightarrow> nat option \<times> wpa_supplicant" where
  "wpa_scan_res_match y b grp only_first_ssid s =
     (case bss_of s b of
        None \<Rightarrow> (None, s)
      | Some bss \<Rightarrow>
          let (n, s) = wpa_bssid_ignore_is_listed y (bs_bssid bss) s
          in if n \<noteq> 0 \<and> n > (if wpa_supplicant_enabled_networks s = 1 then 0 else 1) then (None, s)
          else let (match_ssid, s) = owe_trans_ssid bss s
          in if match_ssid = [] then (None, s)
          else if disallowed_bssid s (bs_bssid bss) then (None, s)
          else if disallowed_ssid s match_ssid then (None, s)
          else if disabled_freq s (bs_freq bss) then (None, s)
          else match_networks y match_ssid (the (bss_of s b)) n
                 (if only_first_ssid then take 1 grp else grp) s)"

fun select_loop ::
  "conn_env \<Rightarrow> nat list \<Rightarrow> bool \<Rightarrow> nat list \<Rightarrow> wpa_supplicant \<Rightarrow> (nat \<times> nat) option \<times> wpa_supplicant" where
  "select_loop y grp only_first [] s = (None, s)"
| "select_loop y grp only_first (b # bs) s =
     (let s = s\<lparr> ws_owe_transition_select := True \<rparr>;
          (r, s) = wpa_scan_res_match y b grp only_first s;
          s = s\<lparr> ws_owe_transition_select := False \<rparr>
      in case r of
           None \<Rightarrow> select_loop y grp only_first bs s
         | Some i \<Rightarrow> (Some (b, i), s))"

text \<open>The first loop only logs the results for the current network, but the calls have their
  side effects.\<close>

definition wpa_supplicant_select_bss ::
  "conn_env \<Rightarrow> nat list \<Rightarrow> bool \<Rightarrow> wpa_supplicant \<Rightarrow> (nat \<times> nat) option \<times> wpa_supplicant" where
  "wpa_supplicant_select_bss y grp only_first_ssid s =
     (let s = (if ws_current_ssid s \<noteq> None
               then fold (\<lambda>b s. snd (wpa_scan_res_match y b grp only_first_ssid s)) (ws_last_scan_res s) s
               else s)
      in select_loop y grp only_first_ssid (ws_last_scan_res s) s)"

definition ssid_priority :: "wpa_supplicant \<Rightarrow> nat \<Rightarrow> int option" where
  "ssid_priority s i = map_option ss_priority (ssid_of s i)"

fun pick_prio ::
  "conn_env \<Rightarrow> nat option \<Rightarrow> nat list list \<Rightarrow> wpa_supplicant \<Rightarrow> (nat \<times> nat) option \<times> wpa_supplicant" where
  "pick_prio y next_ssid [] s = (None, s)"
| "pick_prio y next_ssid (g # gs) s =
     (let (r, s) = (case next_ssid of
                      Some n \<Rightarrow> if g \<noteq> [] \<and> ssid_priority s n = ssid_priority s (hd g)
                                then wpa_supplicant_select_bss y [n] True s else (None, s)
                    | None \<Rightarrow> (None, s))
      in case r of
           Some x \<Rightarrow> (Some x, s)
         | None \<Rightarrow>
             let (r, s) = wpa_supplicant_select_bss y g False s
             in case r of Some x \<Rightarrow> (Some x, s) | None \<Rightarrow> pick_prio y next_ssid gs s)"

end
