(* ===== verification/Associate.thy ===== *)
theory Associate
  imports Supplicant Selection
begin

text \<open>
  Preparing an association (\<^verbatim>\<open>wpa_supplicant.c\<close>): protocol version, ciphers and key management
  are chosen from what the BSS offers and what the profile allows, and the WPA state machine
  is set up with them, with the elements of the BSS, and with the pre-shared key.
\<close>

unbundle bit_operations_syntax

section \<open>PBKDF2\<close>

fun pbkdf2_rounds :: "crypto \<Rightarrow> bytes \<Rightarrow> nat \<Rightarrow> bytes \<Rightarrow> bytes \<Rightarrow> bytes option" where
  "pbkdf2_rounds c passphrase 0 tmp digest = Some digest"
| "pbkdf2_rounds c passphrase (Suc n) tmp digest =
     (case hmac_sha1_vector c passphrase tmp of
        None \<Rightarrow> None
      | Some tmp2 \<Rightarrow> pbkdf2_rounds c passphrase n tmp2 (map2 (XOR) digest tmp2))"

definition pbkdf2_sha1_f :: "crypto \<Rightarrow> bytes \<Rightarrow> bytes \<Rightarrow> nat \<Rightarrow> u32 \<Rightarrow> bytes option" where
  "pbkdf2_sha1_f c passphrase ssid iterations cnt =
     (case hmac_sha1_vector c passphrase (ssid @ WPA_PUT_BE32 cnt) of
        None \<Rightarrow> None
      | Some tmp \<Rightarrow> pbkdf2_rounds c passphrase (iterations - 1) tmp tmp)"

function pbkdf2_loop :: "crypto \<Rightarrow> bytes \<Rightarrow> bytes \<Rightarrow> nat \<Rightarrow> u32 \<Rightarrow> nat \<Rightarrow> bytes option" where
  "pbkdf2_loop c passphrase ssid iterations cnt left =
     (if left = 0 then Some []
      else case pbkdf2_sha1_f c passphrase ssid iterations (cnt + 1) of
        None \<Rightarrow> None
      | Some digest \<Rightarrow>
          map_option (\<lambda>r. slice 0 (min left 20) digest @ r)
            (pbkdf2_loop c passphrase ssid iterations (cnt + 1) (left - min left 20)))"
  by pat_completeness auto
termination by (relation "measure (\<lambda>(c, p, s, n, cnt, left). left)") auto

declare pbkdf2_loop.simps [simp del]

definition pbkdf2_sha1 :: "crypto \<Rightarrow> bytes \<Rightarrow> bytes \<Rightarrow> nat \<Rightarrow> nat \<Rightarrow> bytes option" where
  "pbkdf2_sha1 c passphrase ssid iterations buflen = pbkdf2_loop c passphrase ssid iterations 0 buflen"


section \<open>Choice of the suites\<close>

definition wpa_parse_ok :: "bytes \<Rightarrow> wpa_ie_data option" where
  "wpa_parse_ok e = (case the (wpa_parse_wpa_ie e) of (r, ie) \<Rightarrow> if r = 0 then Some ie else None)"

definition matching_ie :: "u32 \<Rightarrow> wpa_ssid \<Rightarrow> bytes option \<Rightarrow> (wpa_ie_data \<Rightarrow> wpa_ie_data) \<Rightarrow> wpa_ie_data option" where
  "matching_ie prt ssid elem f =
     (case elem of
        None \<Rightarrow> None
      | Some e \<Rightarrow>
          if \<not> has (ss_proto ssid) prt then None
          else case wpa_parse_ok e of
            None \<Rightarrow> None
          | Some ie \<Rightarrow> if suites_match ssid (f ie) then Some (f ie) else None)"

text \<open>The element of the BSS that is used, with the protocol version.\<close>

definition select_element :: "wpa_ssid \<Rightarrow> wpa_bss \<Rightarrow> (u32 \<times> wpa_ie_data) option" where
  "select_element ssid bss =
     (let bss_wpa = wpa_bss_get_vendor_ie bss WPA_IE_VENDOR_TYPE;
          bss_rsn = wpa_bss_get_ie bss WLAN_EID_RSN;
          bss_osen = wpa_bss_get_vendor_ie bss OSEN_IE_VENDOR_TYPE
      in case matching_ie WPA_PROTO_RSN ssid bss_rsn (rsn_defaults bss) of
           Some ie \<Rightarrow> Some (WPA_PROTO_RSN, ie)
         | None \<Rightarrow>
      case matching_ie WPA_PROTO_WPA ssid bss_wpa id of
           Some ie \<Rightarrow> Some (WPA_PROTO_WPA, ie)
         | None \<Rightarrow>
      case matching_ie WPA_PROTO_OSEN ssid bss_osen id of
           Some ie \<Rightarrow> Some (WPA_PROTO_OSEN, ie)
         | None \<Rightarrow> map_option (\<lambda>ie. (WPA_PROTO_RSN, ie)) (matching_ie WPA_PROTO_OSEN ssid bss_rsn id))"

definition wpa_supplicant_suites_from_ai :: "wpa_supplicant \<Rightarrow> wpa_ssid \<Rightarrow> wpa_ie_data option" where
  "wpa_supplicant_suites_from_ai s ssid =
     (case wpa_sm_parse_own_wpa_ie (ws_wpa s) of
        Inl _ \<Rightarrow> None
      | Inr ie \<Rightarrow>
          if \<not> suites_match ssid ie then None
          else if \<not> has (capabilities ie) WPA_CAPABILITY_MFPC \<and>
                  wpas_get_ssid_pmf s ssid = MGMT_FRAME_PROTECTION_REQUIRED then None
          else Some ie)"

text \<open>Without a BSS the suites are those of the profile.\<close>

definition suites_from_config :: "wpa_ssid \<Rightarrow> wpa_ie_data" where
  "suites_from_config ssid =
     \<lparr> proto = 0, pairwise_cipher = ss_pairwise_cipher ssid, has_pairwise = False,
       group_cipher = ss_group_cipher ssid, has_group = False, key_mgmt = ss_key_mgmt ssid, capabilities = 0,
       num_pmkid = 0, pmkid = None,
       mgmt_group_cipher =
         (if ss_ieee80211w ssid = NO_MGMT_FRAME_PROTECTION then 0
          else if has (ss_group_mgmt_cipher ssid) WPA_CIPHER_BIP_GMAC_256 then WPA_CIPHER_BIP_GMAC_256
          else if has (ss_group_mgmt_cipher ssid) WPA_CIPHER_BIP_CMAC_256 then WPA_CIPHER_BIP_CMAC_256
          else if has (ss_group_mgmt_cipher ssid) WPA_CIPHER_BIP_GMAC_128 then WPA_CIPHER_BIP_GMAC_128
          else WPA_CIPHER_AES_128_CMAC) \<rparr>"

definition select_key_mgmt :: "u32 \<Rightarrow> u32 option" where
  "select_key_mgmt sel =
     (if has sel WPA_KEY_MGMT_IEEE8021X_SUITE_B_192 then Some WPA_KEY_MGMT_IEEE8021X_SUITE_B_192
      else if has sel WPA_KEY_MGMT_IEEE8021X_SUITE_B then Some WPA_KEY_MGMT_IEEE8021X_SUITE_B
      else if has sel WPA_KEY_MGMT_DPP then Some WPA_KEY_MGMT_DPP
      else if has sel WPA_KEY_MGMT_FT_SAE then Some WPA_KEY_MGMT_FT_SAE
      else if has sel WPA_KEY_MGMT_SAE then Some WPA_KEY_MGMT_SAE
      else if has sel WPA_KEY_MGMT_IEEE8021X_SHA256 then Some WPA_KEY_MGMT_IEEE8021X_SHA256
      else if has sel WPA_KEY_MGMT_PSK_SHA256 then Some WPA_KEY_MGMT_PSK_SHA256
      else if has sel WPA_KEY_MGMT_IEEE8021X then Some WPA_KEY_MGMT_IEEE8021X
      else if has sel WPA_KEY_MGMT_PSK then Some WPA_KEY_MGMT_PSK
      else if has sel WPA_KEY_MGMT_WPA_NONE then Some WPA_KEY_MGMT_WPA_NONE
      else if has sel WPA_KEY_MGMT_OSEN then Some WPA_KEY_MGMT_OSEN
      else if has sel WPA_KEY_MGMT_OWE then Some WPA_KEY_MGMT_OWE
      else None)"

text \<open>The key management suites that the BSS and the profile have in common and the driver
  supports.\<close>

definition shared_key_mgmt :: "wpa_supplicant \<Rightarrow> wpa_ssid \<Rightarrow> wpa_ie_data \<Rightarrow> u32" where
  "shared_key_mgmt s ssid ie =
     (let sel = key_mgmt ie AND ss_key_mgmt ssid
      in if has (ws_drv_flags s) WPA_DRIVER_FLAGS_SAE then sel
         else sel AND NOT (WPA_KEY_MGMT_SAE OR WPA_KEY_MGMT_FT_SAE))"

definition set_wpa :: "(wpa_sm \<Rightarrow> wpa_sm) \<Rightarrow> wpa_supplicant \<Rightarrow> wpa_supplicant" where
  "set_wpa f s = s\<lparr> ws_wpa := f (ws_wpa s) \<rparr>"

definition set_param :: "wpa_sm_conf_params \<Rightarrow> u32 \<Rightarrow> wpa_supplicant \<Rightarrow> wpa_supplicant" where
  "set_param p v = set_wpa (\<lambda>sm. snd (wpa_sm_set_param p v sm))"

definition mfp_value :: "mfp_options \<Rightarrow> u32" where
  "mfp_value m = (case m of NO_MGMT_FRAME_PROTECTION \<Rightarrow> 0 | MGMT_FRAME_PROTECTION_OPTIONAL \<Rightarrow> 1
     | MGMT_FRAME_PROTECTION_REQUIRED \<Rightarrow> 2 | MGMT_FRAME_PROTECTION_DEFAULT \<Rightarrow> 3)"

definition wpas_set_mgmt_group_cipher :: "wpa_ssid \<Rightarrow> wpa_ie_data \<Rightarrow> wpa_supplicant \<Rightarrow> wpa_supplicant" where
  "wpas_set_mgmt_group_cipher ssid ie s =
     (let sel = mgmt_group_cipher ie;
          sel = (if ss_group_mgmt_cipher ssid \<noteq> 0 then sel AND ss_group_mgmt_cipher ssid else sel);
          sel = (if wpas_get_ssid_pmf s ssid = NO_MGMT_FRAME_PROTECTION \<or>
                    \<not> has (capabilities ie) WPA_CAPABILITY_MFPC then 0 else sel);
          cipher = (if has sel WPA_CIPHER_AES_128_CMAC then WPA_CIPHER_AES_128_CMAC
                    else if has sel WPA_CIPHER_BIP_GMAC_128 then WPA_CIPHER_BIP_GMAC_128
                    else if has sel WPA_CIPHER_BIP_GMAC_256 then WPA_CIPHER_BIP_GMAC_256
                    else if has sel WPA_CIPHER_BIP_CMAC_256 then WPA_CIPHER_BIP_CMAC_256
                    else 0)
      in set_param WPA_PARAM_MFP (mfp_value (wpas_get_ssid_pmf s ssid))
           (set_param WPA_PARAM_MGMT_GROUP cipher (s\<lparr> ws_mgmt_group_cipher := cipher \<rparr>)))"

definition wep_cipher :: "nat list \<Rightarrow> u32" where
  "wep_cipher lens =
     (case List.find (\<lambda>n. n > 0) lens of
        None \<Rightarrow> WPA_CIPHER_NONE
      | Some n \<Rightarrow> if n > 5 then WPA_CIPHER_WEP104 else WPA_CIPHER_WEP40)"

definition wpa_supplicant_set_non_wpa_policy :: "conn_env \<Rightarrow> wpa_ssid \<Rightarrow> wpa_supplicant \<Rightarrow> wpa_supplicant" where
  "wpa_supplicant_set_non_wpa_policy y ssid s =
     (let e = y_env y;
          km = (if has (ss_key_mgmt ssid) WPA_KEY_MGMT_WPS then WPA_KEY_MGMT_WPS
                else if has (ss_key_mgmt ssid) WPA_KEY_MGMT_IEEE8021X_NO_WPA then WPA_KEY_MGMT_IEEE8021X_NO_WPA
                else WPA_KEY_MGMT_NONE);
          s = s\<lparr> ws_key_mgmt := km \<rparr>;
          s = set_wpa (\<lambda>sm. snd (wpa_sm_set_ap_wpa_ie e None sm)) s;
          s = set_wpa (\<lambda>sm. snd (wpa_sm_set_ap_rsn_ie e None sm)) s;
          s = set_wpa (\<lambda>sm. snd (wpa_sm_set_ap_rsnxe e None sm)) s;
          s = set_wpa (\<lambda>sm. snd (wpa_sm_set_assoc_wpa_ie e None sm)) s;
          s = set_wpa (\<lambda>sm. snd (wpa_sm_set_assoc_rsnxe e None sm)) s;
          cipher = wep_cipher (ss_wep_key_len ssid);
          s = s\<lparr> ws_rsnxe := [], ws_pairwise_cipher := cipher, ws_group_cipher := cipher, ws_mgmt_group_cipher := 0 \<rparr>;
          s = set_param WPA_PARAM_RSN_ENABLED 0 s;
          s = set_param WPA_PARAM_KEY_MGMT (ws_key_mgmt s) s;
          s = set_param WPA_PARAM_PAIRWISE (ws_pairwise_cipher s) s;
          s = set_param WPA_PARAM_GROUP (ws_group_cipher s) s;
          s = set_param WPA_PARAM_MGMT_GROUP (ws_mgmt_group_cipher s) s
      in set_wpa pmksa_cache_clear_current s)"


section \<open>Setting up the WPA state machine\<close>

text \<open>The elements of the BSS; the first failure ends the evaluation.\<close>

definition set_ap_ies :: "conn_env \<Rightarrow> bytes option \<Rightarrow> bytes option \<Rightarrow> bytes option \<Rightarrow> wpa_supplicant \<Rightarrow> bool \<times> wpa_supplicant" where
  "set_ap_ies y bss_wpa bss_rsn bss_rsnx s =
     (let (r, sm) = wpa_sm_set_ap_wpa_ie (y_env y) bss_wpa (ws_wpa s)
      in if r \<noteq> 0 then (False, s\<lparr> ws_wpa := sm \<rparr>)
      else let (r, sm) = wpa_sm_set_ap_rsn_ie (y_env y) bss_rsn sm
      in if r \<noteq> 0 then (False, s\<lparr> ws_wpa := sm \<rparr>)
      else let (r, sm) = wpa_sm_set_ap_rsnxe (y_env y) bss_rsnx sm
      in (r = 0, s\<lparr> ws_wpa := sm \<rparr>))"

definition set_ext_key_id :: "wpa_ssid \<Rightarrow> bool \<Rightarrow> wpa_ie_data \<Rightarrow> wpa_supplicant \<Rightarrow> wpa_supplicant" where
  "set_ext_key_id ssid has_rsn ie s =
     (if ss_mode ssid = WPAS_MODE_INFRA \<and> ws_extended_key_id s \<and> has (ss_proto ssid) WPA_PROTO_RSN \<and>
         has (ss_pairwise_cipher ssid)
           (WPA_CIPHER_CCMP OR WPA_CIPHER_CCMP_256 OR WPA_CIPHER_GCMP OR WPA_CIPHER_GCMP_256) \<and>
         has (ws_drv_flags s) WPA_DRIVER_FLAGS_EXTENDED_KEY_ID
      then let s = set_param WPA_PARAM_EXT_KEY_ID 1 s
           in set_param WPA_PARAM_USE_EXT_KEY_ID
                (if has_rsn \<and> ws_pairwise_cipher s \<noteq> WPA_CIPHER_TKIP \<and>
                    has (capabilities ie) WPA_CAPABILITY_EXT_KEY_ID_FOR_UNICAST then 1 else 0) s
      else set_param WPA_PARAM_USE_EXT_KEY_ID 0 (set_param WPA_PARAM_EXT_KEY_ID 0 s))"

text \<open>The pre-shared key; the result of \<^verbatim>\<open>pbkdf2_sha1\<close> is not checked.\<close>

definition set_psk :: "conn_env \<Rightarrow> wpa_bss option \<Rightarrow> wpa_ssid \<Rightarrow> wpa_supplicant \<Rightarrow> bool \<times> wpa_supplicant" where
  "set_psk y bss ssid s =
     (let sae_only = (\<not> has (ss_key_mgmt ssid) (WPA_KEY_MGMT_PSK OR WPA_KEY_MGMT_FT_PSK OR WPA_KEY_MGMT_PSK_SHA256));
          from_config = (ss_psk_set ssid \<and> \<not> sae_only);
          s = (if from_config then set_wpa (wpa_sm_set_pmk (y_env y) (y_crypto y) (ss_psk ssid) None None) s else s);
          from_sae = (wpa_key_mgmt_sae (ss_key_mgmt ssid) \<and> (ss_sae_password ssid \<or> ss_passphrase ssid \<noteq> None))
      in case (bss, ss_passphrase ssid) of
           (Some b, Some passphrase) \<Rightarrow>
             if ss_bssid_set ssid \<and> ss_ssid ssid = [] \<and> \<not> sae_only
             then let psk = (case pbkdf2_sha1 (y_crypto y) passphrase (bs_ssid b) 4096 32 of
                               Some k \<Rightarrow> k | None \<Rightarrow> y_psk_uninit y)
                  in (True, set_wpa (wpa_sm_set_pmk (y_env y) (y_crypto y) psk None None) s)
             else (from_config \<or> from_sae, s)
         | _ \<Rightarrow> (from_config \<or> from_sae, s))"

definition set_pmk :: "conn_env \<Rightarrow> wpa_bss option \<Rightarrow> wpa_ssid \<Rightarrow> wpa_supplicant \<Rightarrow> bool \<times> wpa_supplicant" where
  "set_pmk y bss ssid s =
     (if ws_key_mgmt s = WPA_KEY_MGMT_DPP then (True, set_wpa wpa_sm_set_pmk_from_pmksa s)
      else if wpa_key_mgmt_wpa_psk (ss_key_mgmt ssid)
      then let (psk_set, s) = set_psk y bss ssid s
           in if psk_set then (True, s) else (False, wpas_auth_failed y s)
      else if ws_key_mgmt s = WPA_KEY_MGMT_OWE then (True, s)
      else (True, set_wpa wpa_sm_set_pmk_from_pmksa s))"

definition set_deny_ptk0_rekey :: "wpa_ssid \<Rightarrow> wpa_supplicant \<Rightarrow> wpa_supplicant" where
  "set_deny_ptk0_rekey ssid s =
     (if ss_mode ssid \<noteq> WPAS_MODE_IBSS \<and> \<not> has (ws_drv_flags s) WPA_DRIVER_FLAGS_WIRED \<and>
         (ss_wpa_deny_ptk0_rekey ssid = PTK0_REKEY_ALLOW_NEVER \<or>
          ss_wpa_deny_ptk0_rekey ssid = PTK0_REKEY_ALLOW_LOCAL_OK \<and>
            \<not> has (ws_drv_flags s) WPA_DRIVER_FLAGS_SAFE_PTK0_REKEYS)
      then set_param WPA_PARAM_DENY_PTK0_REKEY 1 (s\<lparr> ws_deny_ptk0_rekey := True \<rparr>)
      else set_param WPA_PARAM_DENY_PTK0_REKEY 0 (s\<lparr> ws_deny_ptk0_rekey := False \<rparr>))"

text \<open>The part of \<^verbatim>\<open>wpa_supplicant_set_suites\<close> after the choice of the element.  First the
  protocol version, the elements of the BSS, the ciphers and the key management; the
  result is \<^const>\<open>False\<close> for \<open>-1\<close>.\<close>

definition pick_suites :: "wpa_ssid \<Rightarrow> wpa_ie_data \<Rightarrow> wpa_supplicant \<Rightarrow> bool \<times> wpa_supplicant" where
  "pick_suites ssid ie s =
     (case wpa_pick_group_cipher (group_cipher ie AND ss_group_cipher ssid) of
        None \<Rightarrow> (False, s\<lparr> ws_group_cipher := -1 \<rparr>)
      | Some grp \<Rightarrow>
      let s = s\<lparr> ws_group_cipher := grp \<rparr>
      in case wpa_pick_pairwise_cipher (pairwise_cipher ie AND ss_pairwise_cipher ssid) True of
        None \<Rightarrow> (False, s\<lparr> ws_pairwise_cipher := -1 \<rparr>)
      | Some pw \<Rightarrow>
      let s = s\<lparr> ws_pairwise_cipher := pw \<rparr>
      in case select_key_mgmt (shared_key_mgmt s ssid ie) of
        None \<Rightarrow> (False, s)
      | Some km \<Rightarrow>
      let s = s\<lparr> ws_key_mgmt := km \<rparr>;
          s = set_param WPA_PARAM_KEY_MGMT (ws_key_mgmt s) s;
          s = set_param WPA_PARAM_PAIRWISE (ws_pairwise_cipher s) s;
          s = set_param WPA_PARAM_GROUP (ws_group_cipher s) s
      in (has (capabilities ie) WPA_CAPABILITY_MFPC \<or>
            wpas_get_ssid_pmf s ssid \<noteq> MGMT_FRAME_PROTECTION_REQUIRED, s))"

definition choose_suites ::
  "conn_env \<Rightarrow> wpa_bss option \<Rightarrow> wpa_ssid \<Rightarrow> u32 \<Rightarrow> wpa_ie_data \<Rightarrow> wpa_supplicant \<Rightarrow> bool \<times> wpa_supplicant" where
  "choose_suites y bss ssid prt ie s =
     (let bss_wpa = Option.bind bss (\<lambda>b. wpa_bss_get_vendor_ie b WPA_IE_VENDOR_TYPE);
          bss_rsn = Option.bind bss (\<lambda>b. wpa_bss_get_ie b WLAN_EID_RSN);
          bss_rsnx = Option.bind bss (\<lambda>b. wpa_bss_get_ie b WLAN_EID_RSNX);
          s = s\<lparr> ws_wpa_proto := prt \<rparr>;
          s = set_param WPA_PARAM_PROTO prt s;
          s = set_param WPA_PARAM_RSN_ENABLED (of_bool (has (ss_proto ssid) (WPA_PROTO_RSN OR WPA_PROTO_OSEN))) s;
          (ok, s) = (if bss \<noteq> None \<or> \<not> ws_ap_ies_from_associnfo s
                     then set_ap_ies y bss_wpa bss_rsn bss_rsnx s else (True, s))
      in if ok then pick_suites ssid ie s else (False, s))"

text \<open>Then the other parameters, the own elements and the pairwise master key; the result is
  the own element for the association request, or \<^const>\<open>None\<close> for \<open>-1\<close>.\<close>

definition finish_suites ::
  "conn_env \<Rightarrow> wpa_bss option \<Rightarrow> wpa_ssid \<Rightarrow> nat \<Rightarrow> wpa_ie_data \<Rightarrow> wpa_supplicant \<Rightarrow> bytes option \<times> wpa_supplicant" where
  "finish_suites y bss ssid wpa_ie_len ie s =
     (let bss_rsn = Option.bind bss (\<lambda>b. wpa_bss_get_ie b WLAN_EID_RSN);
          s = wpas_set_mgmt_group_cipher ssid ie s;
          sae_pwe = (if ss_sae_password_id ssid \<and> ws_sae_pwe s \<noteq> 3 then 1 else ws_sae_pwe s);
          s = set_param WPA_PARAM_SAE_PWE (word_of_int sae_pwe) s;
          s = set_ext_key_id ssid (bss_rsn \<noteq> None) ie s;
          (own, sm) = wpa_sm_set_assoc_wpa_ie_default (y_env y) wpa_ie_len (ws_wpa s);
          s = s\<lparr> ws_wpa := sm \<rparr>
      in case own of
        None \<Rightarrow> (None, s)
      | Some own \<Rightarrow>
      let (rsnxe, sm) = wpa_sm_set_assoc_rsnxe_default (y_env y) 20 (ws_wpa s);
          s = s\<lparr> ws_wpa := sm \<rparr>
      in case rsnxe of
        None \<Rightarrow> (None, s)
      | Some rsnxe \<Rightarrow>
      let (ok, s) = set_pmk y bss ssid (s\<lparr> ws_rsnxe := rsnxe \<rparr>)
      in if \<not> ok then (None, s) else (Some own, set_deny_ptk0_rekey ssid s))"

definition apply_suites ::
  "conn_env \<Rightarrow> wpa_bss option \<Rightarrow> wpa_ssid \<Rightarrow> nat \<Rightarrow> u32 \<Rightarrow> wpa_ie_data \<Rightarrow> wpa_supplicant \<Rightarrow>
   bytes option \<times> wpa_supplicant" where
  "apply_suites y bss ssid wpa_ie_len prt ie s =
     (let (ok, s) = choose_suites y bss ssid prt ie s
      in if \<not> ok then (None, s) else finish_suites y bss ssid wpa_ie_len ie s)"

definition wpa_supplicant_set_suites ::
  "conn_env \<Rightarrow> wpa_bss option \<Rightarrow> wpa_ssid \<Rightarrow> nat \<Rightarrow> wpa_supplicant \<Rightarrow> bytes option \<times> wpa_supplicant" where
  "wpa_supplicant_set_suites y bss ssid wpa_ie_len s =
     (case bss of
        Some b \<Rightarrow>
          (case select_element ssid b of
             None \<Rightarrow> (None, s)
           | Some (prt, ie) \<Rightarrow> apply_suites y bss ssid wpa_ie_len prt ie s)
      | None \<Rightarrow>
          (case wpa_supplicant_suites_from_ai s ssid of
             Some ie \<Rightarrow> apply_suites y bss ssid wpa_ie_len (proto ie) ie s
           | None \<Rightarrow>
               if has (ss_key_mgmt ssid) WPA_KEY_MGMT_OWE \<and> \<not> ss_owe_only ssid
               then (Some [], (wpa_supplicant_set_non_wpa_policy y ssid s)\<lparr> ws_wpa_proto := 0 \<rparr>)
               else apply_suites y bss ssid wpa_ie_len
                      (if has (ss_proto ssid) WPA_PROTO_OSEN then WPA_PROTO_OSEN
                       else if has (ss_proto ssid) WPA_PROTO_RSN then WPA_PROTO_RSN else WPA_PROTO_WPA)
                      (suites_from_config ssid) s))"

definition wpa_key_mgmt_wpa_any :: "u32 \<Rightarrow> bool" where
  "wpa_key_mgmt_wpa_any akm \<longleftrightarrow> wpa_key_mgmt_wpa akm \<or> has akm WPA_KEY_MGMT_WPA_NONE"

text \<open>The first part of \<^verbatim>\<open>wpas_populate_assoc_ies\<close>: which policy an association uses.\<close>

definition assoc_policy :: "conn_env \<Rightarrow> wpa_bss option \<Rightarrow> wpa_ssid \<Rightarrow> wpa_supplicant \<Rightarrow> bytes option \<times> wpa_supplicant" where
  "assoc_policy y bss ssid s =
     (let km = ss_key_mgmt ssid;
          elem = (case bss of
                    None \<Rightarrow> False
                  | Some b \<Rightarrow> wpa_bss_get_vendor_ie b WPA_IE_VENDOR_TYPE \<noteq> None \<or> wpa_bss_get_ie b WLAN_EID_RSN \<noteq> None);
          osen = (case bss of None \<Rightarrow> False | Some b \<Rightarrow> wpa_bss_get_vendor_ie b OSEN_IE_VENDOR_TYPE \<noteq> None)
      in if \<not> y_alloc y then (None, s)
         else if elem \<and> wpa_key_mgmt_wpa km
         then let okc = ((if ss_proactive_key_caching ssid < 0 then ws_okc s else ss_proactive_key_caching ssid \<noteq> 0) \<and>
                         has (ss_proto ssid) WPA_PROTO_RSN);
                  (r, sm) = pmksa_cache_set_current (y_env y) (y_crypto y) None (map_option bs_bssid bss)
                              (Some (ss_id ssid)) okc None 0 (ws_wpa s);
                  s = s\<lparr> ws_wpa := sm \<rparr>;
                  s = (if r = 0 then call_eapol y Ev_pmkid_attempt s else s)
              in wpa_supplicant_set_suites y bss ssid 500 s
         else if osen \<and> has km WPA_KEY_MGMT_OSEN then wpa_supplicant_set_suites y bss ssid 500 s
         else if has km WPA_KEY_MGMT_IEEE8021X_NO_WPA \<and> bss \<noteq> None \<and> wpa_key_mgmt_wpa_ieee8021x km
         then (Some [], (wpa_supplicant_set_non_wpa_policy y ssid s)\<lparr> ws_wpa_proto := 0 \<rparr>)
         else if wpa_key_mgmt_wpa_any km then wpa_supplicant_set_suites y None ssid 500 s
         else if has km WPA_KEY_MGMT_WPS
         then (Some (case y_wps_assoc_req_ie y of None \<Rightarrow> [] | Some w \<Rightarrow> if length w \<le> 500 then w else []),
               (wpa_supplicant_set_non_wpa_policy y ssid s)\<lparr> ws_wpa_proto := 0 \<rparr>)
         else (Some [], (wpa_supplicant_set_non_wpa_policy y ssid s)\<lparr> ws_wpa_proto := 0 \<rparr>))"

end
