(* ===== verification/Network_Pick.thy ===== *)
theory Network_Pick
  imports Selection
begin

text \<open>
  What selection leaves unchanged, as a locale that is proved once for all relations between
  the states before and after; the choice of a network by priority
  (\<^verbatim>\<open>wpa_supplicant_pick_network\<close>) with the proof that its loop ends; and the priority lists
  of the configuration (\<^verbatim>\<open>config.c\<close>).
\<close>

unbundle bit_operations_syntax

section \<open>What selection may change\<close>

text \<open>Of a network only counters and the time until which it is disabled change, of a BSS only
  flags and a learned SSID.\<close>

definition ss_profile :: "wpa_ssid \<Rightarrow> wpa_ssid" where
  "ss_profile x = x\<lparr> ss_disabled_until := \<lparr> rt_sec = 0, rt_usec = 0 \<rparr>, ss_auth_failures := 0,
     ss_owe_transition_bss_select_count := 0, ss_was_recently_reconfigured := False \<rparr>"

definition bs_static :: "wpa_bss \<Rightarrow> wpa_bss" where
  "bs_static x = x\<lparr> bs_flags := 0, bs_ssid := [] \<rparr>"

locale selection_frame = state_frame R for R :: "wpa_supplicant \<Rightarrow> wpa_supplicant \<Rightarrow> bool" +
  assumes ignore: "R s (s\<lparr> ws_bssid_ignore := filter P (ws_bssid_ignore s) \<rparr>)"
    and ssid: "(\<And>x. ss_profile (f x) = ss_profile x) \<Longrightarrow> R s (upd_ssid i f s)"
    and bss: "(\<And>x. bs_static (g x) = bs_static x) \<Longrightarrow> R s (upd_bss i g s)"
    and owe_select: "R s (s\<lparr> ws_owe_transition_select := b \<rparr>)"
    and owe_search: "R s (s\<lparr> ws_owe_transition_search := b \<rparr>)"
begin

lemma ssid_step: "R s t \<Longrightarrow> (\<And>x. ss_profile (f x) = ss_profile x) \<Longrightarrow> R s (upd_ssid i f t)"
  by (rule trans [OF _ ssid])

lemma bss_step: "R s t \<Longrightarrow> (\<And>x. bs_static (g x) = bs_static x) \<Longrightarrow> R s (upd_bss i g t)"
  by (rule trans [OF _ bss])

lemma temp_disabled: "R s t \<Longrightarrow> R s (snd (wpas_temp_disabled y x t))"
  by (auto simp: wpas_temp_disabled_def wpas_clear_temp_disabled_def Let_def ss_profile_def intro!: ssid_step)

lemma bss_match: "R s t \<Longrightarrow> R s (snd (wpa_supplicant_ssid_bss_match y x b t))"
proof -
  assume t: "R s t"
  have u: "R s ((upd_ssid i (\<lambda>x. x\<lparr> ss_owe_transition_bss_select_count :=
      ss_owe_transition_bss_select_count x + 1 \<rparr>) t)\<lparr> ws_owe_transition_search := True \<rparr>)" for i
    by (rule trans [OF ssid_step [OF t] owe_search]) (simp add: ss_profile_def)
  show ?thesis
    unfolding wpa_supplicant_ssid_bss_match_def Let_def by (intro if_snd pair_snd t u)
qed

lemma res_ok: "R s t \<Longrightarrow> R s (snd (wpa_scan_res_ok y x m b n t))"
  unfolding wpa_scan_res_ok_def by (auto simp: split_beta Let_def intro: temp_disabled bss_match)

lemma match_networks: "R s t \<Longrightarrow> R s (snd (match_networks y m b n l t))"
proof (induction l arbitrary: t)
  case (Cons i l)
  then show ?case by (auto simp: split_beta Let_def res_ok split: option.split)
qed simp

lemma ignore_get: "R s t \<Longrightarrow> R s (snd (wpa_bssid_ignore_get y a t))"
proof -
  assume "R s t"
  then have "R s (t\<lparr> ws_bssid_ignore := filter P (ws_bssid_ignore t) \<rparr>)" for P
    by (rule trans [OF _ ignore])
  from this [of "\<lambda>_. False"] this show ?thesis
    by (auto simp: wpa_bssid_ignore_get_def wpa_bssid_ignore_clear_def wpa_bssid_ignore_update_def Let_def
        ss_profile_def intro!: ssid_step split: option.split)
qed

lemma is_listed: "R s t \<Longrightarrow> R s (snd (wpa_bssid_ignore_is_listed y a t))"
  using ignore_get [of s t y a]
  by (auto simp: wpa_bssid_ignore_is_listed_def split_beta Let_def split: option.split)

lemma owe_learn: "R s t \<Longrightarrow> R s (owe_learn_ssid b a x t)"
  unfolding owe_learn_ssid_def
  by (rule if_state option_state prod_state bss_step | assumption | (simp add: bs_static_def; fail))+

lemma owe_trans: "R s t \<Longrightarrow> R s (snd (owe_trans_ssid b t))"
proof -
  assume t: "R s t"
  have u: "R s (if c then upd_bss i (\<lambda>x. x\<lparr> bs_flags := bs_flags x OR WPA_BSS_OWE_TRANSITION \<rparr>) t else t)" for c i
    using t by (intro if_state bss_step) (simp_all add: bs_static_def)
  show ?thesis
    unfolding owe_trans_ssid_def
    by (rule option_snd if_snd prod_snd pair_snd t let_state_snd [OF u] if_state owe_learn | assumption)+
qed

lemma res_match: "R s t \<Longrightarrow> R s (snd (wpa_scan_res_match y b l o1 t))"
  unfolding wpa_scan_res_match_def
  by (auto simp: split_beta Let_def intro!: match_networks owe_trans is_listed split: option.split)

lemma select_loop: "R s t \<Longrightarrow> R s (snd (select_loop y l o1 bs t))"
proof (induction bs arbitrary: t)
  case (Cons b bs)
  let ?r = "wpa_scan_res_match y b l o1 (t\<lparr> ws_owe_transition_select := True \<rparr>)"
  have "R s (snd ?r)" by (intro res_match trans [OF Cons.prems owe_select])
  then have "R s ((snd ?r)\<lparr> ws_owe_transition_select := False \<rparr>)" by (rule trans [OF _ owe_select])
  then show ?case using Cons.IH by (auto simp: split_beta Let_def split: option.split)
qed simp

lemma select_bss: "R s t \<Longrightarrow> R s (snd (wpa_supplicant_select_bss y l o1 t))"
proof -
  have "R s t \<Longrightarrow> R s (fold (\<lambda>b s. snd (wpa_scan_res_match y b l o1 s)) bs t)" for bs
    by (induction bs arbitrary: t) (simp_all add: res_match)
  then show "R s t \<Longrightarrow> R s (snd (wpa_supplicant_select_bss y l o1 t))"
    unfolding wpa_supplicant_select_bss_def by (auto simp: Let_def intro!: select_loop)
qed

lemma pick_prio: "R s t \<Longrightarrow> R s (snd (pick_prio y n gs t))"
proof (induction gs arbitrary: t)
  case (Cons g gs)
  then show ?case
    using select_bss by (auto simp: split_beta Let_def split: option.split)
qed simp

end

text \<open>The list of ignored access points never grows.\<close>

interpretation ign: selection_frame "\<lambda>s t. length (ws_bssid_ignore t) \<le> length (ws_bssid_ignore s)"
  by unfold_locales (auto simp: upd_ssid_def upd_bss_def)

text \<open>The configuration and the scan results stay as they were, and so does all else that
  decides about a connection.\<close>

definition sel_core :: "wpa_supplicant \<Rightarrow> wpa_supplicant" where
  "sel_core s = s\<lparr> ws_ssids := [], ws_bss := [], ws_bssid_ignore := [], ws_bssid_ignore_cleared := False,
     ws_owe_transition_select := False, ws_owe_transition_search := False, ws_next_ssid := None \<rparr>"

definition config_kept :: "wpa_supplicant \<Rightarrow> wpa_supplicant \<Rightarrow> bool" where
  "config_kept s t \<longleftrightarrow> map ss_profile (ws_ssids t) = map ss_profile (ws_ssids s) \<and>
     map bs_static (ws_bss t) = map bs_static (ws_bss s) \<and> sel_core t = sel_core s"

lemma profile_id: "ss_profile x = ss_profile x' \<Longrightarrow> ss_id x = ss_id x'"
  by (drule arg_cong [of _ _ ss_id]) (simp add: ss_profile_def)

lemma static_id: "bs_static x = bs_static x' \<Longrightarrow> bs_id x = bs_id x'"
  by (drule arg_cong [of _ _ bs_id]) (simp add: bs_static_def)

interpretation cfg: selection_frame config_kept
  by unfold_locales (auto simp: config_kept_def sel_core_def upd_ssid_def upd_bss_def)


section \<open>Choosing a network\<close>

function pick_loop :: "conn_env \<Rightarrow> nat option \<Rightarrow> wpa_supplicant \<Rightarrow> (nat \<times> nat) option \<times> wpa_supplicant" where
  "pick_loop y next_ssid s =
     (let (selected, s') = pick_prio y next_ssid (ws_pssid s) s
      in if selected = None \<and> ws_bssid_ignore s' \<noteq> [] \<and> \<not> ws_countermeasures s'
         then pick_loop y next_ssid ((wpa_bssid_ignore_clear s')\<lparr> ws_bssid_ignore_cleared := True \<rparr>)
         else (selected, s'))"
  by pat_completeness auto
termination
proof (relation "measure (\<lambda>(y, n, s). length (ws_bssid_ignore s))")
  fix y n s x selected s'
  assume *: "x = pick_prio y n (ws_pssid s) s" "(selected, s') = x"
    "selected = None \<and> ws_bssid_ignore s' \<noteq> [] \<and> \<not> ws_countermeasures s'"
  have "length (ws_bssid_ignore s') \<le> length (ws_bssid_ignore s)"
    using ign.pick_prio [of s s y n "ws_pssid s"] *(1,2) by (metis order_refl snd_conv)
  moreover have "0 < length (ws_bssid_ignore s')" using *(3) by simp
  ultimately show "((y, n, (wpa_bssid_ignore_clear s')\<lparr> ws_bssid_ignore_cleared := True \<rparr>), y, n, s)
      \<in> measure (\<lambda>(y, n, s). length (ws_bssid_ignore s))"
    by (auto simp: wpa_bssid_ignore_clear_def)
qed simp

declare pick_loop.simps [simp del]

text \<open>A network whose key is only kept in memory and not known yet is not selected: the
  passphrase is asked for.\<close>

definition key_missing :: "wpa_ssid \<Rightarrow> bool" where
  "key_missing ssid \<longleftrightarrow>
     ss_mem_only_psk ssid \<and> \<not> ss_psk_set ssid \<and> ss_passphrase ssid = None \<and> \<not> ss_ext_psk ssid"

definition wpa_supplicant_pick_network ::
  "conn_env \<Rightarrow> wpa_supplicant \<Rightarrow> (nat \<times> nat) option \<times> wpa_supplicant" where
  "wpa_supplicant_pick_network y s =
     (if ws_last_scan_res s = [] then (None, s)
      else let next_ssid = (case ws_next_ssid s of
                              None \<Rightarrow> None
                            | Some i \<Rightarrow> if ssid_of s i = None then None else Some i);
               (selected, s) = pick_loop y next_ssid (s\<lparr> ws_next_ssid := None \<rparr>)
      in case selected of
           None \<Rightarrow> (None, s)
         | Some (b, i) \<Rightarrow>
             (if (case ssid_of s i of None \<Rightarrow> False | Some ssid \<Rightarrow> key_missing ssid) then None else Some (b, i), s))"


section \<open>Priority lists\<close>

fun prio_append :: "wpa_ssid \<Rightarrow> wpa_ssid list list \<Rightarrow> wpa_ssid list list option" where
  "prio_append ssid [] = None"
| "prio_append ssid (g # gs) =
     (if ss_priority (hd g) = ss_priority ssid then Some ((g @ [ssid]) # gs)
      else map_option (\<lambda>r. g # r) (prio_append ssid gs))"

fun prio_insert :: "wpa_ssid \<Rightarrow> wpa_ssid list list \<Rightarrow> wpa_ssid list list" where
  "prio_insert ssid [] = [[ssid]]"
| "prio_insert ssid (g # gs) =
     (if ss_priority (hd g) < ss_priority ssid then [ssid] # g # gs else g # prio_insert ssid gs)"

definition wpa_config_add_prio_network ::
  "bool \<Rightarrow> wpa_ssid \<Rightarrow> wpa_ssid list list \<Rightarrow> int \<times> wpa_ssid list list" where
  "wpa_config_add_prio_network alloc ssid pssid =
     (case prio_append ssid pssid of
        Some r \<Rightarrow> (0, r)
      | None \<Rightarrow> if alloc then (0, prio_insert ssid pssid) else (-1, pssid))"

fun update_prio_loop :: "bool \<Rightarrow> wpa_ssid list \<Rightarrow> int \<times> wpa_ssid list list \<Rightarrow> int \<times> wpa_ssid list list" where
  "update_prio_loop alloc [] st = st"
| "update_prio_loop alloc (ssid # ssids) (ret, pssid) =
     (let (r, pssid) = wpa_config_add_prio_network alloc ssid pssid
      in update_prio_loop alloc ssids (if r < 0 then -1 else ret, pssid))"

definition wpa_config_update_prio_list :: "bool \<Rightarrow> wpa_ssid list \<Rightarrow> int \<times> wpa_ssid list list" where
  "wpa_config_update_prio_list alloc ssids = update_prio_loop alloc ssids (0, [])"

definition same_prio :: "wpa_ssid list \<Rightarrow> bool" where
  "same_prio g \<longleftrightarrow> g \<noteq> [] \<and> (\<forall>x \<in> set g. ss_priority x = ss_priority (hd g))"

lemma same_prio_snoc: "same_prio g \<Longrightarrow> ss_priority (hd g) = ss_priority x \<Longrightarrow> same_prio (g @ [x])"
  by (auto simp: same_prio_def)

lemma same_prio_single: "same_prio [x]"
  by (simp add: same_prio_def)

definition prio_lists_wf :: "wpa_ssid list list \<Rightarrow> bool" where
  "prio_lists_wf gs \<longleftrightarrow> (\<forall>g \<in> set gs. same_prio g) \<and>
     sorted_wrt (\<lambda>g h. ss_priority (hd g) > ss_priority (hd h)) gs"

definition prio_chain :: "int \<Rightarrow> wpa_ssid list list \<Rightarrow> wpa_ssid list" where
  "prio_chain p gs = concat (filter (\<lambda>g. ss_priority (hd g) = p) gs)"

lemma prio_chain_Cons: "prio_chain p (g # gs) = (if ss_priority (hd g) = p then g else []) @ prio_chain p gs"
  by (simp add: prio_chain_def)

lemma prio_chain_empty: "(\<And>g. g \<in> set gs \<Longrightarrow> ss_priority (hd g) < p) \<Longrightarrow> prio_chain p gs = []"
  by (induction gs) (auto simp: prio_chain_Cons, simp add: prio_chain_def)

lemma prio_lists_wf_Cons:
  "prio_lists_wf (g # gs) \<longleftrightarrow> same_prio g \<and>
     (\<forall>h \<in> set gs. ss_priority (hd h) < ss_priority (hd g)) \<and> prio_lists_wf gs"
  by (auto simp: prio_lists_wf_def)

lemma prio_append_spec:
  assumes "prio_append x gs = Some r" "prio_lists_wf gs"
  shows "prio_lists_wf r \<and> map (\<lambda>g. ss_priority (hd g)) r = map (\<lambda>g. ss_priority (hd g)) gs \<and>
    prio_chain p r = prio_chain p gs @ filter (\<lambda>x. ss_priority x = p) [x]"
  using assms
proof (induction gs arbitrary: r)
  case (Cons g gs)
  show ?case
  proof (cases "ss_priority (hd g) = ss_priority x")
    case True
    have wf: "same_prio g" "\<forall>h \<in> set gs. ss_priority (hd h) < ss_priority (hd g)" "prio_lists_wf gs"
      using Cons.prems(2) by (simp_all add: prio_lists_wf_Cons)
    have ne: "g \<noteq> []" using wf(1) by (simp add: same_prio_def)
    have "prio_chain (ss_priority x) gs = []" using wf(2) True by (intro prio_chain_empty) simp
    then have "prio_chain p ((g @ [x]) # gs) = prio_chain p (g # gs) @ filter (\<lambda>x. ss_priority x = p) [x]"
      using ne True by (cases "ss_priority x = p") (simp_all add: prio_chain_Cons)
    moreover have "prio_lists_wf ((g @ [x]) # gs)"
      using wf(2,3) ne same_prio_snoc [OF wf(1) True] by (simp add: prio_lists_wf_Cons)
    moreover have "r = (g @ [x]) # gs" using Cons.prems(1) True by simp
    ultimately show ?thesis using ne by simp
  next
    case False
    then obtain r' where r': "prio_append x gs = Some r'" "r = g # r'"
      using Cons.prems(1) by auto
    note IH = Cons.IH [OF r'(1)]
    have wf: "prio_lists_wf gs" using Cons.prems(2) by (simp add: prio_lists_wf_Cons)
    have img: "(\<lambda>g. ss_priority (hd g)) ` set r' = (\<lambda>g. ss_priority (hd g)) ` set gs"
      using IH [OF wf] by (metis list.set_map)
    have "\<forall>h \<in> set r'. ss_priority (hd h) < ss_priority (hd g)"
    proof
      fix h assume "h \<in> set r'"
      then obtain k where "k \<in> set gs" "ss_priority (hd h) = ss_priority (hd k)" using img by auto
      then show "ss_priority (hd h) < ss_priority (hd g)" using Cons.prems(2) by (simp add: prio_lists_wf_Cons)
    qed
    then show ?thesis using IH [OF wf] Cons.prems(2) False r'(2) by (simp add: prio_lists_wf_Cons prio_chain_Cons)
  qed
qed simp

lemma prio_insert_spec:
  assumes "prio_append x gs = None" "prio_lists_wf gs"
  shows "prio_lists_wf (prio_insert x gs) \<and> (\<lambda>g. ss_priority (hd g)) ` set (prio_insert x gs) =
      insert (ss_priority x) ((\<lambda>g. ss_priority (hd g)) ` set gs) \<and>
    prio_chain p (prio_insert x gs) = prio_chain p gs @ filter (\<lambda>x. ss_priority x = p) [x]"
  using assms
proof (induction gs)
  case (Cons g gs)
  then have neq: "ss_priority (hd g) \<noteq> ss_priority x" and none: "prio_append x gs = None"
    by (auto split: if_splits)
  show ?case
  proof (cases "ss_priority (hd g) < ss_priority x")
    case True
    have lt: "\<forall>h \<in> set (g # gs). ss_priority (hd h) < ss_priority x"
      using Cons.prems(2) True by (auto simp: prio_lists_wf_Cons)
    then have "prio_chain (ss_priority x) (g # gs) = []" by (intro prio_chain_empty) blast
    then have "prio_chain p ([x] # g # gs) = prio_chain p (g # gs) @ filter (\<lambda>x. ss_priority x = p) [x]"
      by (cases "ss_priority x = p") (simp_all add: prio_chain_Cons [of p "[x]"])
    moreover have "prio_lists_wf ([x] # g # gs)"
      using lt Cons.prems(2) by (simp add: prio_lists_wf_Cons [of "[x]"] same_prio_single)
    ultimately show ?thesis using True by simp
  next
    case False
    note IH = Cons.IH [OF none]
    have wf: "prio_lists_wf gs" using Cons.prems(2) by (simp add: prio_lists_wf_Cons)
    have "\<forall>h \<in> set (prio_insert x gs). ss_priority (hd h) < ss_priority (hd g)"
    proof
      fix h assume "h \<in> set (prio_insert x gs)"
      then have "ss_priority (hd h) \<in> insert (ss_priority x) ((\<lambda>g. ss_priority (hd g)) ` set gs)"
        using IH [OF wf] by blast
      then show "ss_priority (hd h) < ss_priority (hd g)"
        using False neq Cons.prems(2) by (auto simp: prio_lists_wf_Cons)
    qed
    then show ?thesis using IH [OF wf] Cons.prems(2) False by (auto simp: prio_lists_wf_Cons prio_chain_Cons)
  qed
qed (simp add: prio_lists_wf_def prio_chain_def same_prio_single)

lemma add_prio_spec:
  assumes "prio_lists_wf gs" "wpa_config_add_prio_network True x gs = (ret, r)"
  shows "ret = 0 \<and> prio_lists_wf r \<and> prio_chain p r = prio_chain p gs @ filter (\<lambda>x. ss_priority x = p) [x]"
  using assms prio_append_spec [OF _ assms(1), of x] prio_insert_spec [OF _ assms(1), of x]
  by (auto simp: wpa_config_add_prio_network_def split: option.splits)

text \<open>C13: the priority lists have one chain per priority, in decreasing order, and the chain of
  a priority has exactly the networks of this priority, in the order of the configuration.\<close>

theorem prio_lists_correct:
  "\<exists>gs. wpa_config_update_prio_list True ssids = (0, gs) \<and>
     sorted_wrt (\<lambda>g h. ss_priority (hd g) > ss_priority (hd h)) gs \<and> [] \<notin> set gs \<and>
     (\<forall>p. concat (filter (\<lambda>g. ss_priority (hd g) = p) gs) = filter (\<lambda>x. ss_priority x = p) ssids)"
proof -
  have "\<exists>gs'. update_prio_loop True l (0, gs) = (0, gs') \<and> prio_lists_wf gs' \<and>
      (\<forall>p. prio_chain p gs' = prio_chain p gs @ filter (\<lambda>x. ss_priority x = p) l)" if "prio_lists_wf gs" for l gs
    using that
  proof (induction l arbitrary: gs)
    case (Cons x l)
    obtain ret r where r: "wpa_config_add_prio_network True x gs = (ret, r)" by fastforce
    note spec = add_prio_spec [OF Cons.prems r]
    then obtain gs' where "update_prio_loop True l (0, r) = (0, gs')" "prio_lists_wf gs'"
      "\<forall>p. prio_chain p gs' = prio_chain p r @ filter (\<lambda>x. ss_priority x = p) l"
      using Cons.IH [of r] by blast
    then show ?case using spec by (intro exI [of _ gs']) (simp add: r)
  qed simp
  from this [of "[]" ssids] show ?thesis
    by (auto simp: wpa_config_update_prio_list_def prio_lists_wf_def prio_chain_def same_prio_def)
qed

end
