(* ===== verification/Network_Security.thy ===== *)
theory Network_Security
  imports Network_Pick
begin

text \<open>
  Security of network selection: a profile that asks for WPA or RSN only matches a BSS that
  offers it.
\<close>

unbundle bit_operations_syntax

section \<open>The security of a match\<close>

text \<open>A profile that allows no connection without WPA or RSN.\<close>

definition protected_profile :: "wpa_ssid \<Rightarrow> bool" where
  "protected_profile ssid \<longleftrightarrow> wpa_key_mgmt_wpa (ss_key_mgmt ssid) \<and>
     \<not> has (ss_key_mgmt ssid) (WPA_KEY_MGMT_WPS OR WPA_KEY_MGMT_IEEE8021X_NO_WPA OR WPA_KEY_MGMT_OSEN) \<and>
     (has (ss_key_mgmt ssid) WPA_KEY_MGMT_OWE \<longrightarrow> ss_owe_only ssid)"

text \<open>The BSS has an element that offers a protocol version, ciphers and a key management of
  the profile, and management frame protection where the profile requires it.\<close>

definition offers_rsn :: "wpa_supplicant \<Rightarrow> wpa_ssid \<Rightarrow> wpa_bss \<Rightarrow> bool" where
  "offers_rsn s ssid bss \<longleftrightarrow> (\<exists>e ie. wpa_bss_get_ie bss WLAN_EID_RSN = Some e \<and>
     wpa_parse_wpa_ie e = Some (0, ie) \<and> rsn_selectable s ssid (rsn_defaults bss ie))"

definition offers_wpa :: "wpa_supplicant \<Rightarrow> wpa_ssid \<Rightarrow> wpa_bss \<Rightarrow> bool" where
  "offers_wpa s ssid bss \<longleftrightarrow> (\<exists>e ie. wpa_bss_get_vendor_ie bss WPA_IE_VENDOR_TYPE = Some e \<and>
     wpa_parse_wpa_ie e = Some (0, ie) \<and> has (proto ie) (ss_proto ssid) \<and> suites_match ssid ie \<and>
     wpas_get_ssid_pmf s ssid \<noteq> MGMT_FRAME_PROTECTION_REQUIRED)"

lemma has_OR: "has x (a OR b) \<longleftrightarrow> has x a \<or> has x b"
  by (simp add: bit.conj_disj_distrib or_eq_0_iff)

lemma ssid_bss_match_secure:
  assumes "wpa_supplicant_ssid_bss_match y ssid bss s = (True, s')" "protected_profile ssid"
  shows "offers_rsn s ssid bss \<or> offers_wpa s ssid bss"
proof -
  have km: "wpa_key_mgmt_wpa (ss_key_mgmt ssid)" "\<not> has (ss_key_mgmt ssid) WPA_KEY_MGMT_WPS"
    "\<not> has (ss_key_mgmt ssid) WPA_KEY_MGMT_IEEE8021X_NO_WPA" "\<not> has (ss_key_mgmt ssid) WPA_KEY_MGMT_OSEN"
    "has (ss_key_mgmt ssid) WPA_KEY_MGMT_OWE \<Longrightarrow> ss_owe_only ssid"
    using assms(2) unfolding protected_profile_def has_OR by auto
  have wep: "\<not> wep_ok ssid" using km(1) by (simp add: wep_ok_def)
  have wps: "wpas_wps_ssid_bss_match y ssid bss s = -1" using km(2) by (simp add: wpas_wps_ssid_bss_match_def)
  have parse: "\<exists>r d. wpa_parse_wpa_ie e = Some (r, d)" for e using parse_ie_not_None [of e] by auto
  have rsn: "offers_rsn s ssid bss"
    if "wpa_bss_get_ie bss WLAN_EID_RSN = Some e" "rsn_element_match s ssid bss e" for e
    using that parse [of e] wep by (auto simp: rsn_element_match_def offers_rsn_def Let_def)
  have wpa: "offers_wpa s ssid bss"
    if "wpa_bss_get_vendor_ie bss WPA_IE_VENDOR_TYPE = Some e" "wpa_element_match ssid e"
      "wpas_get_ssid_pmf s ssid \<noteq> MGMT_FRAME_PROTECTION_REQUIRED" for e
    using that parse [of e] wep by (auto simp: wpa_element_match_def offers_wpa_def)
  from assms(1) show ?thesis
    unfolding wpa_supplicant_ssid_bss_match_def Let_def wps
    using rsn wpa km by (auto split: if_splits)
qed


section \<open>The chosen network\<close>

text \<open>What does not change during selection decides whether a match is acceptable.\<close>

definition acceptable :: "wpa_supplicant \<Rightarrow> wpa_ssid \<Rightarrow> wpa_bss \<Rightarrow> bool" where
  "acceptable s ssid bss \<longleftrightarrow> (protected_profile ssid \<longrightarrow> offers_rsn s ssid bss \<or> offers_wpa s ssid bss) \<and>
     \<not> wpas_network_disabled s ssid \<and> wpa_supplicant_match_privacy bss ssid \<and>
     (ss_bssid_set ssid \<longrightarrow> bs_bssid bss = ss_bssid ssid) \<and> freq_allowed (ss_freq_list ssid) (bs_freq bss) \<and>
     \<not> disallowed_bssid s (bs_bssid bss)"

lemma profile_sel:
  "ss_key_mgmt (ss_profile x) = ss_key_mgmt x" "ss_proto (ss_profile x) = ss_proto x"
  "ss_pairwise_cipher (ss_profile x) = ss_pairwise_cipher x" "ss_group_cipher (ss_profile x) = ss_group_cipher x"
  "ss_group_mgmt_cipher (ss_profile x) = ss_group_mgmt_cipher x" "ss_ieee80211w (ss_profile x) = ss_ieee80211w x"
  "ss_owe_only (ss_profile x) = ss_owe_only x" "ss_disabled (ss_profile x) = ss_disabled x"
  "ss_ssid (ss_profile x) = ss_ssid x" "ss_bssid_set (ss_profile x) = ss_bssid_set x"
  "ss_bssid (ss_profile x) = ss_bssid x" "ss_freq_list (ss_profile x) = ss_freq_list x"
  "ss_wep_key_len (ss_profile x) = ss_wep_key_len x" "ss_psk_set (ss_profile x) = ss_psk_set x"
  "ss_passphrase (ss_profile x) = ss_passphrase x" "ss_ext_psk (ss_profile x) = ss_ext_psk x"
  "ss_sae_password (ss_profile x) = ss_sae_password x" "ss_mem_only_psk (ss_profile x) = ss_mem_only_psk x"
  "ss_mixed_cell (ss_profile x) = ss_mixed_cell x" "ss_eapol_flags (ss_profile x) = ss_eapol_flags x"
  by (simp_all add: ss_profile_def)

lemma static_sel:
  "bs_bssid (bs_static b) = bs_bssid b" "bs_freq (bs_static b) = bs_freq b" "bs_caps (bs_static b) = bs_caps b"
  "bs_ies (bs_static b) = bs_ies b"
  by (simp_all add: bs_static_def)

lemma core_sel:
  "ws_p2p_mgmt (sel_core s) = ws_p2p_mgmt s" "ws_drv_capa_known (sel_core s) = ws_drv_capa_known s"
  "ws_drv_enc (sel_core s) = ws_drv_enc s" "ws_pmf (sel_core s) = ws_pmf s"
  "ws_disallow_aps_bssid (sel_core s) = ws_disallow_aps_bssid s"
  by (simp_all add: sel_core_def)

lemma acceptable_cong:
  assumes "ss_profile x = ss_profile x'" "bs_static b = bs_static b'" "sel_core s = sel_core s'"
  shows "acceptable s x b = acceptable s' x' b'"
proof -
  have pmf: "wpas_get_ssid_pmf (sel_core s) (ss_profile x) = wpas_get_ssid_pmf s x" for s x
    unfolding wpas_get_ssid_pmf_def profile_sel core_sel ..
  have rsn: "rsn_selectable (sel_core s) (ss_profile x) = rsn_selectable s x" for s x
    unfolding rsn_selectable_def suites_match_def pmf profile_sel ..
  have el: "wpa_bss_get_ie (bs_static b) = wpa_bss_get_ie b" "wpa_bss_get_vendor_ie (bs_static b) = wpa_bss_get_vendor_ie b"
    "rsn_defaults (bs_static b) = rsn_defaults b" for b
    unfolding wpa_bss_get_ie_def wpa_bss_get_vendor_ie_def rsn_defaults_def static_sel by (rule refl)+
  have "offers_rsn (sel_core s) (ss_profile x) (bs_static b) = offers_rsn s x b" for s x b
    unfolding offers_rsn_def rsn el ..
  moreover have "offers_wpa (sel_core s) (ss_profile x) (bs_static b) = offers_wpa s x b" for s x b
    unfolding offers_wpa_def pmf el suites_match_def profile_sel ..
  moreover have "wpas_network_disabled (sel_core s) (ss_profile x) = wpas_network_disabled s x" for s x
    unfolding wpas_network_disabled_def profile_sel core_sel ..
  moreover have "wpa_supplicant_match_privacy (bs_static b) (ss_profile x) = wpa_supplicant_match_privacy b x" for b x
    unfolding wpa_supplicant_match_privacy_def has_wep_key_def profile_sel static_sel ..
  ultimately have "acceptable (sel_core s) (ss_profile x) (bs_static b) = acceptable s x b" for s x b
    unfolding acceptable_def protected_profile_def disallowed_bssid_def profile_sel static_sel core_sel by simp
  then show ?thesis using assms by metis
qed

lemma find_map_eq:
  assumes "map f l = map f l'" "\<And>x x'. f x = f x' \<Longrightarrow> P x = P x'"
  shows "map_option f (List.find P l) = map_option f (List.find P l')"
  using assms(1)
proof (induction l arbitrary: l')
  case (Cons x l)
  then obtain x' r where "l' = x' # r" "f x = f x'" "map f l = map f r" by (auto simp: map_eq_Cons_conv)
  then show ?case using Cons.IH [of r] assms(2) [of x x'] by (cases "P x") simp_all
qed simp

lemma config_kept_find:
  assumes "config_kept s t"
  shows "map_option ss_profile (ssid_of t i) = map_option ss_profile (ssid_of s i)"
    "map_option bs_static (bss_of t b) = map_option bs_static (bss_of s b)"
  using assms unfolding config_kept_def ssid_of_def bss_of_def
  by (auto intro!: find_map_eq dest: profile_id static_id)

text \<open>The BSS \<open>b\<close> and the network \<open>i\<close> are an acceptable choice.\<close>

definition good_choice :: "wpa_supplicant \<Rightarrow> nat \<Rightarrow> nat \<Rightarrow> bool" where
  "good_choice s b i \<longleftrightarrow> (\<exists>ssid bss. ssid_of s i = Some ssid \<and> bss_of s b = Some bss \<and> acceptable s ssid bss)"

lemma good_choice_kept:
  assumes "config_kept s t" "ssid_of t i = Some x" "map_option bs_static (bss_of t b) = Some (bs_static bss)"
    "acceptable u x bss" "sel_core u = sel_core t"
  shows "good_choice s b i"
proof -
  obtain x0 where x0: "ssid_of s i = Some x0" "ss_profile x0 = ss_profile x"
    using config_kept_find(1) [OF assms(1), of i] assms(2) by (cases "ssid_of s i") auto
  obtain b0 where b0: "bss_of s b = Some b0" "bs_static b0 = bs_static bss"
    using config_kept_find(2) [OF assms(1), of b] assms(3) by (cases "bss_of s b") auto
  have "sel_core s = sel_core u" using assms(1,5) by (simp add: config_kept_def)
  then show ?thesis
    using acceptable_cong [OF x0(2) b0(2)] assms(4) x0(1) b0(1) by (auto simp: good_choice_def)
qed

lemma good_choice_trans: "config_kept s t \<Longrightarrow> good_choice t b i \<Longrightarrow> good_choice s b i"
  unfolding good_choice_def [of t] using good_choice_kept [of s t i _ b _ t] by auto

lemma scan_res_ok_acceptable:
  assumes "wpa_scan_res_ok y x m b n s = (True, s')" "\<not> disallowed_bssid s (bs_bssid b)"
  shows "acceptable s x b"
proof -
  obtain r t where t: "wpas_temp_disabled y x s = (r, t)" by fastforce
  have k: "config_kept s t" using cfg.temp_disabled [OF cfg.refl [of s], of y x] t by simp
  have *: "\<not> wpas_network_disabled s x" "scan_res_address_ok y x m b"
    "wpa_supplicant_ssid_bss_match y x b t = (True, s')" "scan_res_usable y x b s'"
    using assms(1) by (auto simp: wpa_scan_res_ok_def t split: if_splits prod.splits)
  have "acceptable t x b \<or> \<not> (\<not> wpas_network_disabled t x \<and> \<not> disallowed_bssid t (bs_bssid b))"
    using ssid_bss_match_secure [OF *(3)] *(2,4)
    by (auto simp: acceptable_def scan_res_address_ok_def scan_res_usable_def Let_def)
  moreover have f: "ws_p2p_mgmt t = ws_p2p_mgmt s" "ws_drv_capa_known t = ws_drv_capa_known s"
    "ws_drv_enc t = ws_drv_enc s" "ws_disallow_aps_bssid t = ws_disallow_aps_bssid s"
    using t by (auto simp: wpas_temp_disabled_def wpas_clear_temp_disabled_def upd_ssid_def split: if_splits)
  have "\<not> wpas_network_disabled t x \<and> \<not> disallowed_bssid t (bs_bssid b)"
    using *(1) assms(2) unfolding wpas_network_disabled_def disallowed_bssid_def f by blast
  ultimately have "acceptable t x b" by blast
  moreover have "sel_core s = sel_core t" using k by (simp add: config_kept_def)
  ultimately show ?thesis using acceptable_cong [OF refl refl] by blast
qed

lemma match_networks_acceptable:
  assumes "match_networks y m b n l s = (Some i, s')" "\<not> disallowed_bssid s (bs_bssid b)"
  shows "\<exists>t x. config_kept s t \<and> ssid_of t i = Some x \<and> acceptable t x b"
  using assms
proof (induction l arbitrary: s)
  case (Cons j l)
  have dis: "\<not> disallowed_bssid t (bs_bssid b)" if "config_kept s t" for t
    using that Cons.prems(2) core_sel(5) [of t] core_sel(5) [of s]
    by (simp add: disallowed_bssid_def config_kept_def)
  show ?case
  proof (cases "ssid_of s j")
    case None
    then show ?thesis using Cons by simp
  next
    case (Some x)
    obtain ok t where ok: "wpa_scan_res_ok y x m b n s = (ok, t)" by fastforce
    have k: "config_kept s t" using cfg.res_ok [OF cfg.refl [of s], of y x m b n] ok by simp
    show ?thesis
    proof (cases ok)
      case True
      then have "i = j" using Cons.prems(1) Some ok by simp
      moreover have "acceptable s x b" using scan_res_ok_acceptable [of y x m b n s t] ok True Cons.prems(2) by simp
      ultimately show ?thesis using Some cfg.refl by blast
    next
      case False
      then have "match_networks y m b n l t = (Some i, s')" using Cons.prems(1) Some ok by simp
      from Cons.IH [OF this dis [OF k]] k show ?thesis using cfg.trans by blast
    qed
  qed
qed simp

lemma scan_res_match_good:
  assumes "wpa_scan_res_match y b l o1 s = (Some i, s')"
  shows "good_choice s b i"
proof -
  obtain bss where bss: "bss_of s b = Some bss"
    using assms by (cases "bss_of s b") (simp_all add: wpa_scan_res_match_def)
  obtain n t where t: "wpa_bssid_ignore_is_listed y (bs_bssid bss) s = (n, t)" by fastforce
  obtain m u where u: "owe_trans_ssid bss t = (m, u)" by fastforce
  have k: "config_kept s u"
    using cfg.owe_trans [OF cfg.is_listed [OF cfg.refl [of s], of y "bs_bssid bss"], of bss] t u by simp
  obtain bss' where bss': "bss_of u b = Some bss'" "bs_static bss' = bs_static bss"
    using config_kept_find(2) [OF k, of b] bss by (cases "bss_of u b") auto
  then have a: "bs_bssid bss' = bs_bssid bss" using static_sel(1) by metis
  have *: "match_networks y m bss' n (if o1 then take 1 l else l) u = (Some i, s')"
    "\<not> disallowed_bssid u (bs_bssid bss')"
    using assms by (auto simp: wpa_scan_res_match_def bss t u bss'(1) a split: if_splits)
  obtain v x where v: "config_kept u v" "ssid_of v i = Some x" "acceptable v x bss'"
    using match_networks_acceptable [OF *] by blast
  have "map_option bs_static (bss_of v b) = Some (bs_static bss')"
    using config_kept_find(2) [OF v(1), of b] bss'(1) by simp
  from good_choice_kept [OF cfg.trans [OF k v(1)] v(2) this v(3) refl] show ?thesis .
qed

lemma select_loop_good:
  assumes "select_loop y l o1 bs s = (Some (b, i), s')"
  shows "b \<in> set bs \<and> good_choice s b i"
  using assms
proof (induction bs arbitrary: s)
  case (Cons c bs)
  define s1 where "s1 = s\<lparr> ws_owe_transition_select := True \<rparr>"
  obtain r t where r: "wpa_scan_res_match y c l o1 s1 = (r, t)" by fastforce
  define t1 where "t1 = t\<lparr> ws_owe_transition_select := False \<rparr>"
  have k: "config_kept s s1" unfolding s1_def by (rule cfg.owe_select)
  have k1: "config_kept s t1"
    using cfg.trans [OF cfg.res_match [OF k, of y c l o1] cfg.owe_select [of _ False]] r by (simp add: t1_def)
  show ?case
  proof (cases r)
    case None
    then have "select_loop y l o1 bs t1 = (Some (b, i), s')"
      using Cons.prems r by (simp add: s1_def [symmetric] t1_def)
    then show ?thesis using Cons.IH good_choice_trans [OF k1] by auto
  next
    case (Some j)
    then have "b = c" "i = j" using Cons.prems r by (auto simp: s1_def [symmetric])
    then show ?thesis using scan_res_match_good r Some good_choice_trans [OF k] by auto
  qed
qed simp

lemma kept_scan_res: "config_kept s t \<Longrightarrow> ws_last_scan_res t = ws_last_scan_res s"
proof -
  have "ws_last_scan_res (sel_core s) = ws_last_scan_res s" for s by (simp add: sel_core_def)
  then show "config_kept s t \<Longrightarrow> ws_last_scan_res t = ws_last_scan_res s" by (metis config_kept_def)
qed

lemma select_bss_good:
  assumes "wpa_supplicant_select_bss y l o1 s = (Some (b, i), s')"
  shows "b \<in> set (ws_last_scan_res s) \<and> good_choice s b i"
proof -
  define t where "t = (if ws_current_ssid s \<noteq> None
    then fold (\<lambda>b s. snd (wpa_scan_res_match y b l o1 s)) (ws_last_scan_res s) s else s)"
  have "config_kept s (fold (\<lambda>b s. snd (wpa_scan_res_match y b l o1 s)) bs u)" if "config_kept s u" for bs u
    using that by (induction bs arbitrary: u) (simp_all add: cfg.res_match)
  then have k: "config_kept s t" by (simp add: t_def cfg.refl)
  have "select_loop y l o1 (ws_last_scan_res t) t = (Some (b, i), s')"
    using assms by (simp add: wpa_supplicant_select_bss_def t_def Let_def)
  from select_loop_good [OF this] show ?thesis
    using good_choice_trans [OF k] kept_scan_res [OF k] by simp
qed

lemma pick_prio_good:
  assumes "pick_prio y n gs s = (Some (b, i), s')"
  shows "b \<in> set (ws_last_scan_res s) \<and> good_choice s b i"
  using assms
proof (induction gs arbitrary: s)
  case (Cons g gs)
  define c where "c = (case n of
      Some k \<Rightarrow> if g \<noteq> [] \<and> ssid_priority s k = ssid_priority s (hd g)
                then wpa_supplicant_select_bss y [k] True s else (None, s)
    | None \<Rightarrow> (None, s))"
  obtain r t where r: "c = (r, t)" by fastforce
  have k: "config_kept s t"
    using cfg.select_bss [OF cfg.refl [of s], of y] cfg.refl [of s] r unfolding c_def
    by (auto split: option.splits if_splits) (metis snd_conv)+
  show ?case
  proof (cases r)
    case (Some x)
    then have "c = (Some (b, i), s')" using Cons.prems r by (simp add: c_def [symmetric])
    then show ?thesis unfolding c_def using select_bss_good by (auto split: option.splits if_splits)
  next
    case None
    obtain r2 u where r2: "wpa_supplicant_select_bss y g False t = (r2, u)" by fastforce
    have k2: "config_kept s u" using cfg.select_bss [OF k, of y g False] r2 by simp
    show ?thesis
    proof (cases r2)
      case (Some x)
      then have "wpa_supplicant_select_bss y g False t = (Some (b, i), s')"
        using Cons.prems r None r2 by (simp add: c_def [symmetric])
      from select_bss_good [OF this] show ?thesis using good_choice_trans [OF k] kept_scan_res [OF k] by simp
    next
      case None': None
      then have "pick_prio y n gs u = (Some (b, i), s')"
        using Cons.prems r None r2 by (simp add: c_def [symmetric])
      from Cons.IH [OF this] show ?thesis using good_choice_trans [OF k2] kept_scan_res [OF k2] by simp
    qed
  qed
qed simp

lemma pick_loop_good:
  assumes "pick_loop y n s = (Some (b, i), s')"
  shows "b \<in> set (ws_last_scan_res s) \<and> good_choice s b i"
  using assms
proof (induction y n s rule: pick_loop.induct)
  case (1 y n s)
  obtain r t where r: "pick_prio y n (ws_pssid s) s = (r, t)" by fastforce
  show ?case
  proof (cases "r = None \<and> ws_bssid_ignore t \<noteq> [] \<and> \<not> ws_countermeasures t")
    case True
    let ?u = "(wpa_bssid_ignore_clear t)\<lparr> ws_bssid_ignore_cleared := True \<rparr>"
    have "config_kept s t" using cfg.pick_prio [OF cfg.refl [of s], of y n "ws_pssid s"] r by simp
    then have k: "config_kept s ?u"
      by (simp add: config_kept_def sel_core_def wpa_bssid_ignore_clear_def)
    have "pick_loop y n ?u = (Some (b, i), s')"
      using "1.prems" r True by (simp add: pick_loop.simps [of y n s])
    then have "b \<in> set (ws_last_scan_res ?u) \<and> good_choice ?u b i"
      using "1.IH" [OF r [symmetric] refl] True by blast
    then show ?thesis using good_choice_trans [OF k] kept_scan_res [OF k] by simp
  next
    case False
    then show ?thesis using "1.prems" r pick_prio_good by (auto simp: pick_loop.simps [of y n s])
  qed
qed

text \<open>C7: the BSS that is chosen for a connection is one of the scan results, and the profile it
  is chosen for is enabled and allows its address, frequency and privacy; and if the profile
  asks for WPA or RSN then the BSS has an element that offers a protocol version, ciphers and
  a key management of the profile, and management frame protection where it is required.\<close>

theorem picked_network_secure:
  assumes "wpa_supplicant_pick_network y s = (Some (b, i), s')"
  shows "b \<in> set (ws_last_scan_res s) \<and>
    (\<exists>ssid bss. ssid_of s i = Some ssid \<and> bss_of s b = Some bss \<and> acceptable s ssid bss)"
proof -
  let ?s = "s\<lparr> ws_next_ssid := None \<rparr>"
  have k: "config_kept s ?s" by (simp add: config_kept_def sel_core_def)
  obtain n where "pick_loop y n ?s = (Some (b, i), s')"
    using assms by (auto simp: wpa_supplicant_pick_network_def Let_def split: if_splits prod.splits option.splits)
  from pick_loop_good [OF this] show ?thesis
    using good_choice_trans [OF k] by (simp add: good_choice_def)
qed

end
