(* ===== verification/Associate_Security.thy ===== *)
theory Associate_Security
  imports Associate Network_Security
begin

text \<open>
  Security of the association: protocol version, ciphers and key management are the ones
  that the BSS and the profile share and that come first in the order of preference, the WPA
  state machine works with exactly these, and it gets the elements of the BSS that the 4-way
  handshake compares.
\<close>

unbundle bit_operations_syntax

section \<open>The negotiated suites\<close>

text \<open>The orders of preference.\<close>

definition key_mgmt_preference :: "u32 list" where
  "key_mgmt_preference =
     [WPA_KEY_MGMT_IEEE8021X_SUITE_B_192, WPA_KEY_MGMT_IEEE8021X_SUITE_B, WPA_KEY_MGMT_DPP,
      WPA_KEY_MGMT_FT_SAE, WPA_KEY_MGMT_SAE, WPA_KEY_MGMT_IEEE8021X_SHA256, WPA_KEY_MGMT_PSK_SHA256,
      WPA_KEY_MGMT_IEEE8021X, WPA_KEY_MGMT_PSK, WPA_KEY_MGMT_WPA_NONE, WPA_KEY_MGMT_OSEN, WPA_KEY_MGMT_OWE]"

definition pairwise_preference :: "u32 list" where
  "pairwise_preference = [WPA_CIPHER_CCMP_256, WPA_CIPHER_GCMP_256, WPA_CIPHER_CCMP, WPA_CIPHER_GCMP,
     WPA_CIPHER_TKIP, WPA_CIPHER_NONE]"

definition group_preference :: "u32 list" where
  "group_preference = [WPA_CIPHER_CCMP_256, WPA_CIPHER_GCMP_256, WPA_CIPHER_CCMP, WPA_CIPHER_GCMP,
     WPA_CIPHER_GTK_NOT_USED, WPA_CIPHER_TKIP]"

text \<open>The first suite in the order of preference that both sides have.\<close>

definition best_suite :: "u32 list \<Rightarrow> u32 \<Rightarrow> u32 \<Rightarrow> bool" where
  "best_suite order common c \<longleftrightarrow> List.find (has common) order = Some c"

lemma picks_find:
  "select_key_mgmt sel = List.find (has sel) key_mgmt_preference"
  "wpa_pick_pairwise_cipher sel True = List.find (has sel) pairwise_preference"
  "wpa_pick_group_cipher sel = List.find (has sel) group_preference"
  by (simp_all only: select_key_mgmt_def wpa_pick_pairwise_cipher_def wpa_pick_group_cipher_def
      key_mgmt_preference_def pairwise_preference_def group_preference_def find.simps simp_thms)

lemma picks_best:
  "select_key_mgmt sel = Some km \<Longrightarrow> best_suite key_mgmt_preference sel km"
  "wpa_pick_pairwise_cipher sel True = Some pw \<Longrightarrow> best_suite pairwise_preference sel pw"
  "wpa_pick_group_cipher sel = Some gr \<Longrightarrow> best_suite group_preference sel gr"
  by (simp_all only: picks_find best_suite_def)

text \<open>The suites of the station, and those of its WPA state machine, with the elements of the
  BSS that the latter has.\<close>

type_synonym suite_view = "(u32 \<times> u32 \<times> u32 \<times> u32) \<times> (u32 \<times> u32 \<times> u32 \<times> u32) \<times>
  (bytes option \<times> bytes option \<times> bytes option)"

definition suite_view :: "wpa_supplicant \<Rightarrow> suite_view" where
  "suite_view s =
     ((ws_wpa_proto s, ws_group_cipher s, ws_pairwise_cipher s, ws_key_mgmt s),
      (sm_proto (ws_wpa s), sm_group_cipher (ws_wpa s), sm_pairwise_cipher (ws_wpa s), sm_key_mgmt (ws_wpa s)),
      (sm_ap_wpa_ie (ws_wpa s), sm_ap_rsn_ie (ws_wpa s), sm_ap_rsnxe (ws_wpa s)))"

text \<open>The outcome: the station and its state machine agree on suites that are the best both
  sides have.\<close>

definition suites_agreed :: "wpa_supplicant \<Rightarrow> wpa_bss \<Rightarrow> wpa_ssid \<Rightarrow> u32 \<Rightarrow> wpa_ie_data \<Rightarrow> suite_view \<Rightarrow> bool" where
  "suites_agreed s bss ssid prt ie v \<longleftrightarrow>
     (case v of ((p, gr, pw, km), sm, ies) \<Rightarrow>
        p = prt \<and> sm = (p, gr, pw, km) \<and>
        best_suite group_preference (group_cipher ie AND ss_group_cipher ssid) gr \<and>
        best_suite pairwise_preference (pairwise_cipher ie AND ss_pairwise_cipher ssid) pw \<and>
        best_suite key_mgmt_preference (shared_key_mgmt s ssid ie) km \<and>
        (wpas_get_ssid_pmf s ssid = MGMT_FRAME_PROTECTION_REQUIRED \<longrightarrow> has (capabilities ie) WPA_CAPABILITY_MFPC) \<and>
        ies = (wpa_bss_get_vendor_ie bss WPA_IE_VENDOR_TYPE, wpa_bss_get_ie bss WLAN_EID_RSN,
               wpa_bss_get_ie bss WLAN_EID_RSNX))"

lemma ie_copy_ok:
  assumes "ie_copy e ie sm = (0, v)" "ie \<noteq> Some []"
  shows "v = ie"
  using assms by (auto simp: ie_copy_def split: option.splits if_splits)

lemma elements_nonempty: "wpa_bss_get_ie b i \<noteq> Some []" "wpa_bss_get_vendor_ie b t \<noteq> Some []"
  using get_ie_wf [of "bs_ies b" i "[]"] get_vendor_ie_wf [of "bs_ies b" t "[]"]
  by (auto simp: wpa_bss_get_ie_def wpa_bss_get_vendor_ie_def get_vendor_ie_def)

lemma set_ap_ies_ok:
  assumes "set_ap_ies y wi ri xi s = (True, s')" "wi \<noteq> Some []" "ri \<noteq> Some []" "xi \<noteq> Some []"
  shows "s' = s\<lparr> ws_wpa := (ws_wpa s)\<lparr> sm_ap_wpa_ie := wi, sm_ap_rsn_ie := ri, sm_ap_rsnxe := xi \<rparr> \<rparr>"
proof -
  obtain r1 v1 where 1: "ie_copy (y_env y) wi (ws_wpa s) = (r1, v1)" by fastforce
  define sm1 where "sm1 = (ws_wpa s)\<lparr> sm_ap_wpa_ie := v1 \<rparr>"
  obtain r2 v2 where 2: "ie_copy (y_env y) ri sm1 = (r2, v2)" by fastforce
  define sm2 where "sm2 = sm1\<lparr> sm_ap_rsn_ie := v2 \<rparr>"
  obtain r3 v3 where 3: "ie_copy (y_env y) xi sm2 = (r3, v3)" by fastforce
  have *: "r1 = 0 \<and> r2 = 0 \<and> r3 = 0 \<and> s' = s\<lparr> ws_wpa := sm2\<lparr> sm_ap_rsnxe := v3 \<rparr> \<rparr>"
    using assms(1) 1 2 3
    by (auto simp: set_ap_ies_def wpa_sm_set_ap_wpa_ie_def wpa_sm_set_ap_rsn_ie_def wpa_sm_set_ap_rsnxe_def
        sm1_def [symmetric] sm2_def [symmetric] Let_def split: if_splits)
  then have "v1 = wi" "v2 = ri" "v3 = xi" using 1 2 3 assms(2-4) ie_copy_ok by blast+
  with * show ?thesis by (simp add: sm1_def sm2_def)
qed

lemma pmf_set_param:
  "wpas_get_ssid_pmf (set_param p v s) x = wpas_get_ssid_pmf s x"
  by (simp add: wpas_get_ssid_pmf_def set_param_def set_wpa_def)

lemma pick_suites_ok:
  assumes "pick_suites ssid ie s = (True, s')"
  obtains gr pw km where
    "best_suite group_preference (group_cipher ie AND ss_group_cipher ssid) gr"
    "best_suite pairwise_preference (pairwise_cipher ie AND ss_pairwise_cipher ssid) pw"
    "best_suite key_mgmt_preference (shared_key_mgmt s ssid ie) km"
    "wpas_get_ssid_pmf s ssid = MGMT_FRAME_PROTECTION_REQUIRED \<longrightarrow> has (capabilities ie) WPA_CAPABILITY_MFPC"
    "s' = s\<lparr> ws_group_cipher := gr, ws_pairwise_cipher := pw, ws_key_mgmt := km,
       ws_wpa := (ws_wpa s)\<lparr> sm_key_mgmt := km, sm_pairwise_cipher := pw, sm_group_cipher := gr \<rparr> \<rparr>"
proof -
  have km: "shared_key_mgmt (s\<lparr> ws_group_cipher := a, ws_pairwise_cipher := b \<rparr>) ssid ie = shared_key_mgmt s ssid ie" for a b
    by (simp add: shared_key_mgmt_def)
  have pmf: "wpas_get_ssid_pmf (s\<lparr> ws_group_cipher := a, ws_pairwise_cipher := b, ws_key_mgmt := k \<rparr>) ssid =
    wpas_get_ssid_pmf s ssid" for a b k
    by (simp add: wpas_get_ssid_pmf_def)
  obtain gr pw k where *: "wpa_pick_group_cipher (group_cipher ie AND ss_group_cipher ssid) = Some gr"
    "wpa_pick_pairwise_cipher (pairwise_cipher ie AND ss_pairwise_cipher ssid) True = Some pw"
    "select_key_mgmt (shared_key_mgmt s ssid ie) = Some k"
    using assms unfolding pick_suites_def Let_def km by (auto split: option.splits)
  have "has (capabilities ie) WPA_CAPABILITY_MFPC \<or> wpas_get_ssid_pmf s ssid \<noteq> MGMT_FRAME_PROTECTION_REQUIRED"
    "s' = s\<lparr> ws_group_cipher := gr, ws_pairwise_cipher := pw, ws_key_mgmt := k,
       ws_wpa := (ws_wpa s)\<lparr> sm_key_mgmt := k, sm_pairwise_cipher := pw, sm_group_cipher := gr \<rparr> \<rparr>"
    using assms unfolding pick_suites_def Let_def km pmf_set_param pmf *
    by (simp_all add: pmf_set_param pmf km * set_param_def set_wpa_def)
  then show ?thesis using that picks_best(1) [OF *(3)] picks_best(2) [OF *(2)] picks_best(3) [OF *(1)] by blast
qed

lemma choose_suites_agreed:
  assumes "choose_suites y (Some b) ssid prt ie s = (True, s')"
  shows "suites_agreed s b ssid prt ie (suite_view s')"
proof -
  let ?wi = "wpa_bss_get_vendor_ie b WPA_IE_VENDOR_TYPE" and ?ri = "wpa_bss_get_ie b WLAN_EID_RSN"
    and ?xi = "wpa_bss_get_ie b WLAN_EID_RSNX"
  define s1 where "s1 = set_param WPA_PARAM_RSN_ENABLED
    (of_bool (has (ss_proto ssid) (WPA_PROTO_RSN OR WPA_PROTO_OSEN)))
    (set_param WPA_PARAM_PROTO prt (s\<lparr> ws_wpa_proto := prt \<rparr>))"
  obtain ok s2 where s2: "set_ap_ies y ?wi ?ri ?xi s1 = (ok, s2)" by fastforce
  then have "choose_suites y (Some b) ssid prt ie s = (if ok then pick_suites ssid ie s2 else (False, s2))"
    by (simp add: choose_suites_def s1_def Let_def)
  then have ok and pk: "pick_suites ssid ie s2 = (True, s')" using assms by (simp_all split: if_splits)
  then have s2': "s2 = s1\<lparr> ws_wpa := (ws_wpa s1)\<lparr> sm_ap_wpa_ie := ?wi, sm_ap_rsn_ie := ?ri, sm_ap_rsnxe := ?xi \<rparr> \<rparr>"
    using set_ap_ies_ok [OF _ elements_nonempty(2,1,1)] s2 by simp
  have k: "shared_key_mgmt s2 ssid ie = shared_key_mgmt s ssid ie" "wpas_get_ssid_pmf s2 ssid = wpas_get_ssid_pmf s ssid"
    "ws_wpa_proto s2 = prt" "sm_proto (ws_wpa s2) = prt"
    "sm_ap_wpa_ie (ws_wpa s2) = ?wi" "sm_ap_rsn_ie (ws_wpa s2) = ?ri" "sm_ap_rsnxe (ws_wpa s2) = ?xi"
    by (simp_all add: s2' s1_def shared_key_mgmt_def wpas_get_ssid_pmf_def set_param_def set_wpa_def)
  from pk show ?thesis
    by (rule pick_suites_ok) (simp add: suites_agreed_def suite_view_def k)
qed


section \<open>The rest of the setup\<close>

lemma view_set_param:
  "p \<in> {WPA_PARAM_MGMT_GROUP, WPA_PARAM_MFP, WPA_PARAM_SAE_PWE, WPA_PARAM_EXT_KEY_ID, WPA_PARAM_USE_EXT_KEY_ID,
     WPA_PARAM_DENY_PTK0_REKEY} \<Longrightarrow> suite_view (set_param p v s) = suite_view s"
  by (auto simp: suite_view_def set_param_def set_wpa_def)

lemma view_mgmt_group: "suite_view (wpas_set_mgmt_group_cipher ssid ie s) = suite_view s"
  by (simp add: wpas_set_mgmt_group_cipher_def Let_def view_set_param) (simp add: suite_view_def)

lemma view_ext_key_id: "suite_view (set_ext_key_id ssid r ie s) = suite_view s"
  by (simp add: set_ext_key_id_def Let_def view_set_param)

lemma view_deny: "suite_view (set_deny_ptk0_rekey ssid s) = suite_view s"
  by (simp add: set_deny_ptk0_rekey_def view_set_param) (simp add: suite_view_def)

lemma view_set_wpa:
  assumes "\<And>sm. (sm_proto (f sm), sm_group_cipher (f sm), sm_pairwise_cipher (f sm), sm_key_mgmt (f sm),
      sm_ap_wpa_ie (f sm), sm_ap_rsn_ie (f sm), sm_ap_rsnxe (f sm)) =
    (sm_proto sm, sm_group_cipher sm, sm_pairwise_cipher sm, sm_key_mgmt sm,
      sm_ap_wpa_ie sm, sm_ap_rsn_ie sm, sm_ap_rsnxe sm)"
  shows "suite_view (set_wpa f s) = suite_view s"
  using assms [of "ws_wpa s"] by (simp add: suite_view_def set_wpa_def)

lemma view_set_pmk:
  "suite_view (set_wpa wpa_sm_set_pmk_from_pmksa s) = suite_view s"
  "suite_view (set_wpa (wpa_sm_set_pmk e c k None None) s) = suite_view s"
  by (auto intro!: view_set_wpa simp: wpa_sm_set_pmk_from_pmksa_def wpa_sm_set_pmk_def Let_def split: option.splits)

lemma set_pmk_view:
  assumes "set_pmk y bss ssid s = (True, s')"
  shows "suite_view s' = suite_view s"
  using assms unfolding set_pmk_def set_psk_def Let_def
  by (auto simp: view_set_pmk split: if_splits option.splits)

lemma own_ie_view:
  "suite_view (s\<lparr> ws_wpa := snd (wpa_sm_set_assoc_wpa_ie_default e n (ws_wpa s)) \<rparr>) = suite_view s"
  "suite_view (s\<lparr> ws_wpa := snd (wpa_sm_set_assoc_rsnxe_default e n (ws_wpa s)), ws_rsnxe := x \<rparr>) = suite_view s"
  by (auto simp: suite_view_def wpa_sm_set_assoc_wpa_ie_default_def wpa_sm_set_assoc_rsnxe_default_def
      split: option.splits)

lemma finish_suites_view:
  assumes "finish_suites y bss ssid n ie s = (Some own, s')"
  shows "suite_view s' = suite_view s"
proof -
  define s1 where "s1 = wpas_set_mgmt_group_cipher ssid ie s"
  define s2 where "s2 = set_ext_key_id ssid (Option.bind bss (\<lambda>b. wpa_bss_get_ie b WLAN_EID_RSN) \<noteq> None) ie
    (set_param WPA_PARAM_SAE_PWE (word_of_int (if ss_sae_password_id ssid \<and> ws_sae_pwe s1 \<noteq> 3 then 1 else ws_sae_pwe s1)) s1)"
  define s3 where "s3 = s2\<lparr> ws_wpa := snd (wpa_sm_set_assoc_wpa_ie_default (y_env y) n (ws_wpa s2)) \<rparr>"
  have v3: "suite_view s3 = suite_view s"
    unfolding s3_def own_ie_view s2_def view_ext_key_id by (simp add: view_set_param s1_def view_mgmt_group)
  obtain x s4 where s4: "set_pmk y bss ssid (s3\<lparr> ws_wpa := snd (wpa_sm_set_assoc_rsnxe_default (y_env y) 20 (ws_wpa s3)),
    ws_rsnxe := x \<rparr>) = (True, s4)" "s' = set_deny_ptk0_rekey ssid s4"
    using assms unfolding finish_suites_def Let_def s1_def [symmetric] s2_def [symmetric]
    by (auto simp: s3_def split: prod.splits option.splits if_splits)
  then show ?thesis using set_pmk_view [OF s4(1)] v3 own_ie_view(2) by (simp add: view_deny)
qed

lemma set_suites_agreed:
  assumes "wpa_supplicant_set_suites y (Some b) ssid n s = (Some own, s')"
  obtains prt ie where "select_element ssid b = Some (prt, ie)" "suites_agreed s b ssid prt ie (suite_view s')"
proof -
  obtain prt ie where e: "select_element ssid b = Some (prt, ie)"
    and a: "apply_suites y (Some b) ssid n prt ie s = (Some own, s')"
    using assms by (auto simp: wpa_supplicant_set_suites_def split: option.splits)
  obtain s1 where s1: "choose_suites y (Some b) ssid prt ie s = (True, s1)"
    and f: "finish_suites y (Some b) ssid n ie s1 = (Some own, s')"
    using a by (auto simp: apply_suites_def split: prod.splits if_splits)
  from that [OF e] choose_suites_agreed [OF s1] finish_suites_view [OF f] show ?thesis by simp
qed


section \<open>From selection to association\<close>

text \<open>The element that is used is one of the BSS; WPA version 1 is used only if the RSN element
  does not fit the profile.\<close>

definition element_chosen :: "wpa_ssid \<Rightarrow> wpa_bss \<Rightarrow> u32 \<Rightarrow> wpa_ie_data \<Rightarrow> bool" where
  "element_chosen ssid bss prt ie \<longleftrightarrow>
     (\<exists>e d. wpa_parse_wpa_ie e = Some (0, d) \<and> (ie = d \<or> ie = rsn_defaults bss d) \<and>
        (prt = WPA_PROTO_RSN \<and> wpa_bss_get_ie bss WLAN_EID_RSN = Some e \<or>
         prt = WPA_PROTO_WPA \<and> wpa_bss_get_vendor_ie bss WPA_IE_VENDOR_TYPE = Some e \<or>
         prt = WPA_PROTO_OSEN \<and> wpa_bss_get_vendor_ie bss OSEN_IE_VENDOR_TYPE = Some e)) \<and>
     suites_match ssid ie \<and> (has (ss_proto ssid) prt \<or> has (ss_proto ssid) WPA_PROTO_OSEN) \<and>
     (prt = WPA_PROTO_WPA \<longrightarrow>
        (\<forall>e d. wpa_bss_get_ie bss WLAN_EID_RSN = Some e \<longrightarrow> wpa_parse_wpa_ie e = Some (0, d) \<longrightarrow>
           has (ss_proto ssid) WPA_PROTO_RSN \<longrightarrow> \<not> suites_match ssid (rsn_defaults bss d)))"

lemma parse_ok_iff: "wpa_parse_ok e = Some d \<longleftrightarrow> wpa_parse_wpa_ie e = Some (0, d)"
  using parse_ie_not_None [of e] by (auto simp: wpa_parse_ok_def split: if_splits)

lemma matching_ie_Some:
  "matching_ie prt ssid elem f = Some ie \<longleftrightarrow>
     (\<exists>e d. elem = Some e \<and> has (ss_proto ssid) prt \<and> wpa_parse_wpa_ie e = Some (0, d) \<and> ie = f d \<and> suites_match ssid ie)"
  by (cases elem) (auto simp: matching_ie_def parse_ok_iff [symmetric] split: option.splits if_splits)

lemma matching_ie_None:
  assumes "matching_ie prt ssid elem f = None"
  shows "elem = Some e \<Longrightarrow> wpa_parse_wpa_ie e = Some (0, d) \<Longrightarrow> has (ss_proto ssid) prt \<Longrightarrow> \<not> suites_match ssid (f d)"
  using assms by (auto simp: matching_ie_def parse_ok_iff [symmetric] split: option.splits if_splits)

lemma select_element_chosen:
  assumes "select_element ssid b = Some (prt, ie)"
  shows "element_chosen ssid b prt ie"
proof -
  let ?r = "matching_ie WPA_PROTO_RSN ssid (wpa_bss_get_ie b WLAN_EID_RSN) (rsn_defaults b)"
  consider "?r = Some ie" "prt = WPA_PROTO_RSN"
    | "?r = None" "matching_ie WPA_PROTO_WPA ssid (wpa_bss_get_vendor_ie b WPA_IE_VENDOR_TYPE) id = Some ie" "prt = WPA_PROTO_WPA"
    | "matching_ie WPA_PROTO_OSEN ssid (wpa_bss_get_vendor_ie b OSEN_IE_VENDOR_TYPE) id = Some ie" "prt = WPA_PROTO_OSEN"
    | "matching_ie WPA_PROTO_OSEN ssid (wpa_bss_get_ie b WLAN_EID_RSN) id = Some ie" "prt = WPA_PROTO_RSN"
    using assms unfolding select_element_def Let_def by (auto split: option.splits)
  then show ?thesis
  proof cases
    case 1
    then show ?thesis unfolding matching_ie_Some by (auto simp: element_chosen_def)
  next
    case 2
    then show ?thesis unfolding matching_ie_Some using matching_ie_None [OF 2(1)]
      by (auto simp: element_chosen_def)
  next
    case 3
    then show ?thesis unfolding matching_ie_Some by (auto simp: element_chosen_def)
  next
    case 4
    then show ?thesis unfolding matching_ie_Some by (auto simp: element_chosen_def)
  qed
qed

lemma pick_loop_kept: "config_kept s0 s \<Longrightarrow> config_kept s0 (snd (pick_loop y n s))"
proof (induction y n s rule: pick_loop.induct)
  case (1 y n s)
  obtain r t where r: "pick_prio y n (ws_pssid s) s = (r, t)" by fastforce
  have t: "config_kept s0 t" using cfg.pick_prio [OF "1.prems", of y n "ws_pssid s"] r by simp
  then have "config_kept s0 ((wpa_bssid_ignore_clear t)\<lparr> ws_bssid_ignore_cleared := True \<rparr>)"
    by (simp add: config_kept_def sel_core_def wpa_bssid_ignore_clear_def)
  with "1.IH" [OF r [symmetric] refl] t show ?case by (auto simp: pick_loop.simps [of y n s] r)
qed

lemma pick_network_acceptable:
  assumes "wpa_supplicant_pick_network y s = (Some (b, i), s1)"
  shows "good_choice s1 b i"
proof -
  let ?s = "s\<lparr> ws_next_ssid := None \<rparr>"
  obtain n where n: "pick_loop y n ?s = (Some (b, i), s1)"
    using assms by (auto simp: wpa_supplicant_pick_network_def Let_def split: if_splits prod.splits option.splits)
  have "config_kept ?s s1" using pick_loop_kept [OF cfg.refl, of ?s y n] n by simp
  then have "config_kept s1 ?s" by (simp add: config_kept_def)
  then show ?thesis using good_choice_trans pick_loop_good [OF n] by blast
qed

lemma pmksa_state_kept:
  "wpas_get_ssid_pmf (call_eapol y ev (s\<lparr> ws_wpa := sm \<rparr>)) ssid = wpas_get_ssid_pmf s ssid"
  "shared_key_mgmt (call_eapol y ev (s\<lparr> ws_wpa := sm \<rparr>)) ssid ie = shared_key_mgmt s ssid ie"
  "wpas_get_ssid_pmf (s\<lparr> ws_wpa := sm \<rparr>) ssid = wpas_get_ssid_pmf s ssid"
  "shared_key_mgmt (s\<lparr> ws_wpa := sm \<rparr>) ssid ie = shared_key_mgmt s ssid ie"
  by (auto simp: wpas_get_ssid_pmf_def shared_key_mgmt_def call_eapol_def set_eapol_def
      wpa_supplicant_aborted_cached_def Let_def)

lemma suites_agreed_cong:
  "wpas_get_ssid_pmf s ssid = wpas_get_ssid_pmf t ssid \<Longrightarrow> shared_key_mgmt s ssid ie = shared_key_mgmt t ssid ie \<Longrightarrow>
   suites_agreed s b ssid prt ie v = suites_agreed t b ssid prt ie v"
  by (simp add: suites_agreed_def)

lemma assoc_policy_agreed:
  assumes "assoc_policy y (Some b) ssid s = (Some own, s')" "protected_profile ssid"
    "offers_rsn s ssid b \<or> offers_wpa s ssid b"
  shows "\<exists>prt ie. element_chosen ssid b prt ie \<and> suites_agreed s b ssid prt ie (suite_view s')"
proof -
  have e: "wpa_bss_get_vendor_ie b WPA_IE_VENDOR_TYPE \<noteq> None \<or> wpa_bss_get_ie b WLAN_EID_RSN \<noteq> None"
    using assms(3) by (auto simp: offers_rsn_def offers_wpa_def)
  define okc where "okc = ((if ss_proactive_key_caching ssid < 0 then ws_okc s else ss_proactive_key_caching ssid \<noteq> 0) \<and>
    has (ss_proto ssid) WPA_PROTO_RSN)"
  obtain r sm where sm: "pmksa_cache_set_current (y_env y) (y_crypto y) None (Some (bs_bssid b)) (Some (ss_id ssid)) okc None 0
    (ws_wpa s) = (r, sm)" by fastforce
  define t where "t = (if r = 0 then call_eapol y Ev_pmkid_attempt (s\<lparr> ws_wpa := sm \<rparr>) else s\<lparr> ws_wpa := sm \<rparr>)"
  have "wpa_supplicant_set_suites y (Some b) ssid 500 t = (Some own, s')"
    using assms(1,2) e sm
    by (simp add: assoc_policy_def protected_profile_def okc_def [symmetric] t_def Let_def split: if_splits)
  then obtain prt ie where "select_element ssid b = Some (prt, ie)" "suites_agreed t b ssid prt ie (suite_view s')"
    by (rule set_suites_agreed)
  moreover have "wpas_get_ssid_pmf t ssid = wpas_get_ssid_pmf s ssid" "shared_key_mgmt t ssid ie = shared_key_mgmt s ssid ie"
    unfolding t_def by (simp_all add: pmksa_state_kept)
  ultimately show ?thesis using select_element_chosen suites_agreed_cong by blast
qed

text \<open>C6: when a network whose profile requires WPA or RSN is selected and its association is
  prepared successfully, then protocol version, ciphers and key management are the most
  preferred ones that an element of the BSS and the profile share, WPA version 1 is used only
  if the RSN element does not fit, management frame protection is offered where it is required,
  and the WPA state machine works with exactly these suites and with the elements of the BSS.\<close>

theorem picked_association_agreed:
  assumes "wpa_supplicant_pick_network y s = (Some (b, i), s1)"
    and "ssid_of s1 i = Some ssid" "bss_of s1 b = Some bss" "protected_profile ssid"
    and "assoc_policy y (Some bss) ssid s1 = (Some own, s2)"
  shows "\<exists>prt ie. element_chosen ssid bss prt ie \<and> suites_agreed s1 bss ssid prt ie (suite_view s2)"
proof -
  have "acceptable s1 ssid bss"
    using pick_network_acceptable [OF assms(1)] assms(2,3) by (auto simp: good_choice_def)
  then show ?thesis using assoc_policy_agreed [OF assms(5,4)] assms(4) by (simp add: acceptable_def)
qed

end
