(* ===== verification/Network_Run.thy ===== *)
theory Network_Run
  imports Network_Security Samples
begin

text \<open>
  The theorems about network selection applied to a concrete station.
\<close>

lemma pick_sample: "fst (wpa_supplicant_pick_network conn_sample ws_sample) = Some (7, 1)"
  by code_simp

theorem picked_network_secure_witness:
  "\<exists>ssid bss. ssid_of ws_sample 1 = Some ssid \<and> bss_of ws_sample 7 = Some bss \<and> acceptable ws_sample ssid bss"
  using picked_network_secure [of conn_sample ws_sample 7 1 "snd (wpa_supplicant_pick_network conn_sample ws_sample)"]
    pick_sample by (auto simp: prod_eq_iff)

end
