(* ===== verification/Associate_Run.thy ===== *)
theory Associate_Run
  imports Associate_Security Network_Run
begin

text \<open>
  The theorems about the association applied to a concrete station, and a profile that is not
  protected although it allows only protected connections.
\<close>

definition picked_sample :: wpa_supplicant where
  "picked_sample = snd (wpa_supplicant_pick_network conn_sample ws_sample)"

lemma picked_sample_found:
  "map_option ss_id (ssid_of picked_sample 1) = Some 1" "map_option bs_id (bss_of picked_sample 7) = Some 7"
  by code_simp+

lemma picked_sample_protected: "map_option protected_profile (ssid_of picked_sample 1) = Some True"
  by code_simp

lemma assoc_sample:
  "fst (assoc_policy conn_sample (bss_of picked_sample 7) (the (ssid_of picked_sample 1)) picked_sample) \<noteq> None"
  by code_simp

theorem picked_association_agreed_witness:
  "\<exists>ssid bss prt ie. ssid_of picked_sample 1 = Some ssid \<and> bss_of picked_sample 7 = Some bss \<and>
     element_chosen ssid bss prt ie \<and>
     suites_agreed picked_sample bss ssid prt ie
       (suite_view (snd (assoc_policy conn_sample (Some bss) ssid picked_sample)))"
proof -
  obtain ssid bss where *: "ssid_of picked_sample 1 = Some ssid" "bss_of picked_sample 7 = Some bss"
    using picked_sample_found by auto
  have p: "wpa_supplicant_pick_network conn_sample ws_sample = (Some (7, 1), picked_sample)"
    using pick_sample by (simp add: picked_sample_def prod_eq_iff)
  obtain own where a: "assoc_policy conn_sample (Some bss) ssid picked_sample =
    (Some own, snd (assoc_policy conn_sample (Some bss) ssid picked_sample))"
    using assoc_sample * by (auto simp: prod_eq_iff)
  have "protected_profile ssid" using picked_sample_protected * by simp
  from picked_association_agreed [OF p * this a] * show ?thesis by blast
qed

text \<open>A profile for OWE and DPP, both of which are RSN, that excludes open networks, and a BSS
  without any security.\<close>

definition ssid_owe_dpp :: wpa_ssid where
  "ssid_owe_dpp = ssid_sample\<lparr> ss_key_mgmt := 0x00C00000, ss_owe_only := True, ss_psk_set := False,
     ss_dpp_configured := True \<rparr>"

definition bss_open :: wpa_bss where
  "bss_open = bss_sample\<lparr> bs_caps := 1, bs_ies := [0, 3, 97, 98, 99] \<rparr>"

definition ws_owe_dpp :: wpa_supplicant where
  "ws_owe_dpp = ws_sample\<lparr> ws_ssids := [ssid_owe_dpp], ws_bss := [bss_open] \<rparr>"


end
