(* ===== verification/Teardown.thy ===== *)
theory Teardown
  imports WPA_Control EAPOL_Supp
begin

text \<open>
  Creation and removal of the state machines (\<^verbatim>\<open>wpa_sm_deinit\<close>, \<^verbatim>\<open>pmksa_cache_init\<close>,
  \<^verbatim>\<open>pmksa_cache_deinit\<close>, \<^verbatim>\<open>eapol_sm_configure\<close>, \<^verbatim>\<open>eapol_sm_deinit\<close>).  What a function that frees a
  structure leaves of it is the state at the end of the function.
\<close>

section \<open>The WPA state machine\<close>

definition pmksa_cache_init :: "wpa_sm \<Rightarrow> wpa_sm" where
  "pmksa_cache_init sm = sm\<lparr> sm_pmksa := [], sm_pmksa_count := 0 \<rparr>"

definition pmksa_cache_deinit :: "env \<Rightarrow> wpa_sm \<Rightarrow> wpa_sm" where
  "pmksa_cache_deinit e sm = pmksa_cache_set_expiration e (sm\<lparr> sm_pmksa := [] \<rparr>)"

definition wpa_sm_deinit :: "env \<Rightarrow> wpa_sm \<Rightarrow> wpa_sm" where
  "wpa_sm_deinit e sm =
     (let sm = pmksa_cache_deinit e sm;
          sm = act (Timer_cancel Wpa_sm_rekey_ptk) (act (Timer_cancel Wpa_sm_start_preauth) sm);
          sm = sm\<lparr> sm_assoc_wpa_ie := None, sm_assoc_rsnxe := None, sm_ap_wpa_ie := None, sm_ap_rsn_ie := None,
                   sm_ap_rsnxe := None \<rparr>
      in (wpa_sm_drop_sa sm)\<lparr> sm_owe_ecdh := None \<rparr>)"

text \<open>The timers that are registered, from the actions (the newest is the first).\<close>

fun timer_pending :: "timer \<Rightarrow> action list \<Rightarrow> bool" where
  "timer_pending t [] = False"
| "timer_pending t (Timer_register t' n # as) = (t = t' \<or> timer_pending t as)"
| "timer_pending t (Timer_cancel t' # as) = (t \<noteq> t' \<and> timer_pending t as)"
| "timer_pending t (_ # as) = timer_pending t as"


section \<open>The EAPOL state machine\<close>

definition eapol_sm_configure :: "int \<Rightarrow> int \<Rightarrow> int \<Rightarrow> int \<Rightarrow> eapol_sm \<Rightarrow> eapol_sm" where
  "eapol_sm_configure heldPeriod authPeriod startPeriod maxStart sm =
     (let sm = (if heldPeriod \<ge> 0 then sm\<lparr> es_heldPeriod := word_of_int heldPeriod \<rparr> else sm);
          sm = (if authPeriod \<ge> 0 then sm\<lparr> es_authPeriod := word_of_int authPeriod \<rparr> else sm);
          sm = (if startPeriod \<ge> 0 then sm\<lparr> es_startPeriod := word_of_int startPeriod \<rparr> else sm)
      in if maxStart \<ge> 0 then sm\<lparr> es_maxStart := word_of_int maxStart \<rparr> else sm)"

definition eapol_sm_deinit :: "eapol_env \<Rightarrow> eapol_sm \<Rightarrow> eapol_sm" where
  "eapol_sm_deinit x sm =
     (let sm = sm\<lparr> es_trace := Cancel_tick # Cancel_step # es_trace sm \<rparr>;
          sm = eap_peer_sm_deinit x sm
      in sm\<lparr> es_last_rx_key := None, es_eapReqData := None \<rparr>)"

fun tick_pending :: "eapol_action list \<Rightarrow> bool" where
  "tick_pending [] = False"
| "tick_pending (Register_tick # as) = True"
| "tick_pending (Cancel_tick # as) = False"
| "tick_pending (_ # as) = tick_pending as"

fun step_pending :: "eapol_action list \<Rightarrow> bool" where
  "step_pending [] = False"
| "step_pending (Register_step # as) = True"
| "step_pending (Cancel_step # as) = False"
| "step_pending (_ # as) = step_pending as"

lemma deinit_method_no_timer:
  "tick_pending (es_trace (eap_deinit_prev_method x sm)) = tick_pending (es_trace sm)"
  "step_pending (es_trace (eap_deinit_prev_method x sm)) = step_pending (es_trace sm)"
  by (simp_all add: eap_deinit_prev_method_def upd_eap_def method_effect_def eact_def Let_def)

lemma peer_deinit_no_timer:
  "tick_pending (es_trace (eap_peer_sm_deinit x sm)) = tick_pending (es_trace sm)"
  "step_pending (es_trace (eap_peer_sm_deinit x sm)) = step_pending (es_trace sm)"
  by (simp_all add: eap_peer_sm_deinit_def eap_sm_abort_def eap_sm_free_key_def upd_eap_def deinit_method_no_timer)

text \<open>The removal of the state machines cancels every timer they may have registered, whatever
  their state is (a timer that fires later would use freed memory), and clears the pairwise
  and group keys.\<close>

theorem deinit_cancels_timers:
  "\<not> timer_pending t (sm_trace (wpa_sm_deinit e sm)) \<and>
   \<not> tick_pending (es_trace (eapol_sm_deinit x p)) \<and> \<not> step_pending (es_trace (eapol_sm_deinit x p)) \<and>
   sm_pmk (wpa_sm_deinit e sm) = zeros 64 \<and> sm_ptk (wpa_sm_deinit e sm) = ptk_zero \<and>
   sm_tptk (wpa_sm_deinit e sm) = ptk_zero \<and> sm_gtk (wpa_sm_deinit e sm) = gtk_zero"
  by (cases t)
     (simp_all add: wpa_sm_deinit_def pmksa_cache_deinit_def pmksa_cache_set_expiration_def wpa_sm_drop_sa_def act_def
       eapol_sm_deinit_def peer_deinit_no_timer Let_def)

end
