(* ===== verification/Const_Time.thy ===== *)
theory Const_Time
  imports Prelude
begin

text \<open>
  The constant-time primitives of \<^verbatim>\<open>src/utils/const_time.h\<close>: comparisons and selections without
  branches, on words of 32 bits (\<^verbatim>\<open>unsigned int\<close>) and octets.  An \<^verbatim>\<open>int\<close> is the word with its
  bits.  The lemmas say what they compute in terms of branches; the proofs about their
  callers use only these.
\<close>

unbundle bit_operations_syntax

section \<open>The primitives\<close>

definition const_time_fill_msb :: "u32 \<Rightarrow> u32" where
  "const_time_fill_msb val = drop_bit 31 val * NOT 0"

definition const_time_is_zero :: "u32 \<Rightarrow> u32" where
  "const_time_is_zero val = const_time_fill_msb (NOT val AND (val - 1))"

definition const_time_eq :: "u32 \<Rightarrow> u32 \<Rightarrow> u32" where
  "const_time_eq a b = const_time_is_zero (a XOR b)"

definition const_time_eq_u8 :: "u32 \<Rightarrow> u32 \<Rightarrow> byte" where
  "const_time_eq_u8 a b = ucast (const_time_eq a b)"

fun eq_bin_loop :: "bytes \<Rightarrow> bytes \<Rightarrow> nat \<Rightarrow> nat \<Rightarrow> byte \<Rightarrow> byte" where
  "eq_bin_loop a b i 0 res = res"
| "eq_bin_loop a b i (Suc n) res = eq_bin_loop a b (i + 1) n (res OR (a ! i XOR b ! i))"

definition const_time_eq_bin :: "bytes \<Rightarrow> bytes \<Rightarrow> nat \<Rightarrow> u32" where
  "const_time_eq_bin a b len = const_time_is_zero (ucast (eq_bin_loop a b 0 len 0))"

definition const_time_select :: "u32 \<Rightarrow> u32 \<Rightarrow> u32 \<Rightarrow> u32" where
  "const_time_select msk true_val false_val = (msk AND true_val) OR (NOT msk AND false_val)"

definition const_time_select_int :: "u32 \<Rightarrow> u32 \<Rightarrow> u32 \<Rightarrow> u32" where
  "const_time_select_int msk true_val false_val = const_time_select msk true_val false_val"

definition const_time_select_u8 :: "byte \<Rightarrow> byte \<Rightarrow> byte \<Rightarrow> byte" where
  "const_time_select_u8 msk true_val false_val =
     ucast (const_time_select (ucast msk) (ucast true_val) (ucast false_val))"

definition const_time_select_bin :: "byte \<Rightarrow> bytes \<Rightarrow> bytes \<Rightarrow> nat \<Rightarrow> bytes" where
  "const_time_select_bin msk true_val false_val len =
     map (\<lambda>i. const_time_select_u8 msk (true_val ! i) (false_val ! i)) [0..<len]"

text \<open>The loop runs from the last octet to the first.\<close>

fun memcmp_loop :: "bytes \<Rightarrow> bytes \<Rightarrow> nat \<Rightarrow> u32 \<Rightarrow> u32" where
  "memcmp_loop a b 0 res = res"
| "memcmp_loop a b (Suc len) res =
     (let diff = ucast (a ! len) - ucast (b ! len);
          msk = const_time_is_zero diff
      in memcmp_loop a b len (const_time_select_int msk res diff))"

definition const_time_memcmp :: "bytes \<Rightarrow> bytes \<Rightarrow> nat \<Rightarrow> u32" where
  "const_time_memcmp a b len = memcmp_loop a b len 0"


section \<open>What they compute\<close>

lemma bit_31_iff: "bit (w :: u32) 31 \<longleftrightarrow> 2 ^ 31 \<le> unat w"
proof -
  have "unat w < 2 ^ 32" using unsigned_less [of w, where ?'a = nat] by simp
  moreover have "bit w 31 \<longleftrightarrow> odd (unat w div 2 ^ 31)"
    using bit_unsigned_iff [of w 31, where ?'a = nat] bit_iff_odd [of "unat w" 31] by simp
  moreover have "unat w div 2 ^ 31 = 1" if "2 ^ 31 \<le> unat w" using calculation(1) that by (intro div_nat_eqI) auto
  ultimately show ?thesis by (cases "unat w < 2 ^ 31") auto
qed

lemma fill_msb_eq [simp]: "const_time_fill_msb w = (if bit w 31 then - 1 else 0)"
proof -
  have "drop_bit 31 w = of_bool (bit w 31)"
  proof (rule bit_word_eqI)
    fix n
    show "bit (drop_bit 31 w) n \<longleftrightarrow> bit (of_bool (bit w 31) :: u32) n"
      using bit_imp_le_length [of w "31 + n"] by (cases n) (auto simp: bit_drop_bit_eq bit_1_iff)
  qed
  then show ?thesis by (simp add: const_time_fill_msb_def)
qed

lemma is_zero_eq [simp]: "const_time_is_zero w = (if w = 0 then - 1 else 0)"
proof (cases "w = 0")
  case False
  have "\<not> bit (w - 1) 31" if "\<not> bit w 31"
  proof -
    have "unat (w - 1) = unat w - 1" using False by (simp add: unat_minus_one)
    then show ?thesis using that by (simp add: bit_31_iff)
  qed
  then show ?thesis using False by (auto simp: const_time_is_zero_def bit_and_iff bit_not_iff)
qed (simp add: const_time_is_zero_def)

lemma ct_eq [simp]: "const_time_eq a b = (if a = b then - 1 else 0)"
  by (auto simp: const_time_eq_def bit_eq_iff bit_xor_iff)


text \<open>The masks: all bits or none.\<close>

lemma select_eq [simp]:
  "const_time_select (- 1) t f = t" "const_time_select 0 t f = f"
  "const_time_select_int (- 1) t f = t" "const_time_select_int 0 t f = f"
  by (simp_all add: const_time_select_def const_time_select_int_def)

lemma octet_ones: "(255 :: byte) = - 1"
  by simp

lemma ucast_ones [simp]: "ucast (- 1 :: u32) = (255 :: byte)"
  unfolding octet_ones by (rule bit_word_eqI) (simp add: bit_simps)

lemma select_u8_eq [simp]: "const_time_select_u8 255 t f = t" "const_time_select_u8 0 t f = f"
  unfolding octet_ones const_time_select_u8_def const_time_select_def
  by (rule bit_word_eqI; simp add: bit_simps)+

lemma eq_u8_eq [simp]: "const_time_eq_u8 a b = (if a = b then 255 else 0)"
  by (simp add: const_time_eq_u8_def)

lemma select_bin_eq [simp]:
  "len \<le> length t \<Longrightarrow> const_time_select_bin 255 t f len = take len t"
  "len \<le> length f \<Longrightarrow> const_time_select_bin 0 t f len = take len f"
  by (auto simp: const_time_select_bin_def intro: nth_equalityI)

lemma length_select_bin [simp]: "length (const_time_select_bin msk t f len) = len"
  by (simp add: const_time_select_bin_def)


lemma unat_octet: "unat (x :: byte) < 256"
  using unsigned_less [of x, where ?'a = nat] by simp

lemma unat_ucast_octet: "unat (ucast (x :: byte) :: u32) = unat x"
  using unat_octet [of x] by (simp add: unsigned_ucast_eq take_bit_nat_eq_self)

lemma ucast_octet_eq [simp]: "ucast (x :: byte) = (ucast y :: u32) \<longleftrightarrow> x = y" "ucast x = (0 :: u32) \<longleftrightarrow> x = 0"
  by (metis unat_ucast_octet unsigned_word_eqI, metis unat_ucast_octet unsigned_word_eqI unsigned_0)

lemma diff_negative: "bit (ucast (x :: byte) - ucast (y :: byte) :: u32) 31 \<longleftrightarrow> x < y"
  using unat_octet [of x] unat_octet [of y]
  by (auto simp: bit_31_iff unat_sub_if' word_less_nat_alt unat_ucast_octet)

lemma os_memcmp_snoc:
  "length xs = length ys \<Longrightarrow>
     os_memcmp (xs @ [x]) (ys @ [y]) = (if xs = ys then os_memcmp [x] [y] else os_memcmp xs ys)"
  by (induction xs ys rule: list_induct2) auto

lemma memcmp_loop_sign:
  assumes "len \<le> length a" "len \<le> length b"
  shows "bit (memcmp_loop a b len res) 31 \<longleftrightarrow>
    (if take len a = take len b then bit res 31 else os_memcmp (take len a) (take len b) < 0)"
  using assms
proof (induction len arbitrary: res)
  case (Suc len)
  have t: "take (Suc len) xs = take len xs @ [xs ! len]" if "Suc len \<le> length xs" for xs :: bytes
    using that by (simp add: take_Suc_conv_app_nth)
  show ?case
    using Suc by (auto simp: t Let_def os_memcmp_snoc diff_negative)
qed simp

lemma memcmp_loop_zero:
  assumes "len \<le> length a" "len \<le> length b"
  shows "memcmp_loop a b len res = 0 \<longleftrightarrow> take len a = take len b \<and> res = 0"
  using assms
proof (induction len arbitrary: res)
  case (Suc len)
  have t: "take (Suc len) xs = take len xs @ [xs ! len]" if "Suc len \<le> length xs" for xs :: bytes
    using that by (simp add: take_Suc_conv_app_nth)
  show ?case using Suc by (auto simp: t Let_def)
qed simp

lemma eq_bin_loop_zero:
  assumes "i + n \<le> length a" "i + n \<le> length b"
  shows "eq_bin_loop a b i n res = 0 \<longleftrightarrow> res = 0 \<and> slice i n a = slice i n b"
  using assms
proof (induction n arbitrary: i res)
  case (Suc n)
  have t: "slice i (Suc n) xs = xs ! i # slice (i + 1) n xs" if "i + Suc n \<le> length xs" for xs :: bytes
    using that by (simp add: slice_def flip: Cons_nth_drop_Suc)
  have "res OR (a ! i XOR b ! i) = 0 \<longleftrightarrow> res = 0 \<and> a ! i = b ! i"
    by (auto simp: bit_eq_iff bit_simps)
  then show ?case using Suc by (auto simp: t)
qed (simp add: slice_def)

lemma fill_msb_memcmp:
  assumes "len \<le> length a" "len \<le> length b"
  shows "const_time_fill_msb (const_time_memcmp a b len) = (if os_memcmp (take len a) (take len b) < 0 then - 1 else 0)"
  using memcmp_loop_sign [OF assms, of 0] assms os_memcmp_eq_0 [of "take len a" "take len b"]
  by (auto simp: const_time_memcmp_def simp del: fill_msb_eq simp add: fill_msb_eq)

text \<open>C32: the constant-time primitives compute what the branches they replace would: a comparison
  of buffers gives all ones exactly for equal contents, the sign of the ordering comparison is
  that of \<^verbatim>\<open>memcmp\<close>, and a selection by the mask of a comparison is the conditional.\<close>

theorem const_time_correct:
  assumes "len \<le> length a" "len \<le> length b"
  shows "const_time_eq_bin a b len = (if take len a = take len b then - 1 else 0) \<and>
    (const_time_memcmp a b len = 0 \<longleftrightarrow> take len a = take len b) \<and>
    const_time_fill_msb (const_time_memcmp a b len) = (if os_memcmp (take len a) (take len b) < 0 then - 1 else 0) \<and>
    const_time_select_bin (const_time_eq_u8 x y) a b len = take len (if x = y then a else b) \<and>
    const_time_select_int (const_time_eq x y) s t = (if x = y then s else t)"
  using assms eq_bin_loop_zero [of 0 len a b 0] memcmp_loop_zero [OF assms, of 0] fill_msb_memcmp [OF assms]
  by (auto simp: const_time_eq_bin_def const_time_memcmp_def slice_def)

theorem const_time_correct_witness:
  "const_time_eq_bin [1, 2] [1, 3] 2 = 0 \<and> const_time_fill_msb (const_time_memcmp [1, 2] [1, 3] 2) = - 1 \<and>
   const_time_select_bin (const_time_eq_u8 7 7) [1, 2] [1, 3] 2 = [1, 2] \<and> const_time_select_int (const_time_eq 7 7) 4 5 = 4"
  using const_time_correct [of 2 "[1, 2]" "[1, 3]" 7 7 4 5] by simp

end
