(* ===== verification/SAE_Lib.thy ===== *)
theory SAE_Lib
  imports Const_Time Crypto "HOL-Library.Monad_Syntax"
begin

text \<open>
  The cryptographic library behind SAE, and \<^verbatim>\<open>src/common/dragonfly.c\<close>.  Big numbers
  are natural numbers; the operations of the library on them and on elliptic curve points are
  the fields of the parameters \<open>curve\<close> and \<open>sae_lib\<close>, named after the functions of
  \<^verbatim>\<open>src/crypto/crypto.h\<close>, with \<^const>\<open>None\<close> for a failure.  Comparisons of big numbers are those
  of the natural numbers.  The draws of \<^verbatim>\<open>crypto_bignum_rand\<close> come from a sequence: the functions
  that draw get the index of the next draw and return the one after.
\<close>

unbundle bit_operations_syntax

section \<open>The library\<close>

text \<open>\<^verbatim>\<open>struct crypto_ec\<close>.  A point is written as its two coordinates.\<close>

record 'p curve =
  cv_prime :: nat
  cv_prime_len :: nat
  cv_prime_len_bits :: nat
  cv_order :: nat
  cv_order_len :: nat
  cv_a :: nat
  cv_b :: nat
  cv_compute_y_sqr :: "nat \<Rightarrow> nat option"
  cv_mul :: "'p \<Rightarrow> nat \<Rightarrow> 'p option"
  cv_add :: "'p \<Rightarrow> 'p \<Rightarrow> 'p option"
  cv_invert :: "'p \<Rightarrow> 'p option"
  cv_is_at_infinity :: "'p \<Rightarrow> bool"
  cv_to_bin :: "'p \<Rightarrow> (bytes \<times> bytes) option"
  cv_from_bin :: "bytes \<Rightarrow> 'p option"
  cv_is_on_curve :: "'p \<Rightarrow> bool"
  cv_cmp :: "'p \<Rightarrow> 'p \<Rightarrow> int"

record dh_group =
  dh_prime :: bytes
  dh_order :: bytes
  dh_safe_prime :: bool

text \<open>\<open>sl_alloc\<close> tells whether the allocation of the named object succeeds, \<open>sl_rand i m\<close> is the
  draw with index \<open>i\<close> below \<open>m\<close>, \<open>sl_random_bytes\<close> is \<^verbatim>\<open>random_get_bytes\<close>.\<close>

record 'p sae_lib =
  sl_ec_init :: "int \<Rightarrow> 'p curve option"
  sl_dh_groups_get :: "int \<Rightarrow> dh_group option"
  sl_alloc :: "string \<Rightarrow> bool"
  sl_rand :: "nat \<Rightarrow> nat \<Rightarrow> nat option"
  sl_random_bytes :: "nat \<Rightarrow> bytes option"
  bn_init_set :: "bytes \<Rightarrow> nat option"
  bn_to_bin :: "nat \<Rightarrow> nat \<Rightarrow> nat \<Rightarrow> bytes option"
  bn_add :: "nat \<Rightarrow> nat \<Rightarrow> nat option"
  bn_sub :: "nat \<Rightarrow> nat \<Rightarrow> nat option"
  bn_mod :: "nat \<Rightarrow> nat \<Rightarrow> nat option"
  bn_div :: "nat \<Rightarrow> nat \<Rightarrow> nat option"
  bn_addmod :: "nat \<Rightarrow> nat \<Rightarrow> nat \<Rightarrow> nat option"
  bn_mulmod :: "nat \<Rightarrow> nat \<Rightarrow> nat \<Rightarrow> nat option"
  bn_sqrmod :: "nat \<Rightarrow> nat \<Rightarrow> nat option"
  bn_exptmod :: "nat \<Rightarrow> nat \<Rightarrow> nat \<Rightarrow> nat option"
  bn_inverse :: "nat \<Rightarrow> nat \<Rightarrow> nat option"
  bn_rshift :: "nat \<Rightarrow> nat \<Rightarrow> nat option"
  bn_legendre :: "nat \<Rightarrow> nat \<Rightarrow> int"


section \<open>Dragonfly\<close>

definition dragonfly_suitable_group :: "int \<Rightarrow> bool \<Rightarrow> bool" where
  "dragonfly_suitable_group g ecc_only \<longleftrightarrow>
     g = 19 \<or> g = 20 \<or> g = 21 \<or> (\<not> ecc_only \<and> (g = 15 \<or> g = 16 \<or> g = 17 \<or> g = 18))"

definition dragonfly_min_pwe_loop_iter :: "int \<Rightarrow> nat" where
  "dragonfly_min_pwe_loop_iter g =
     (if g = 22 \<or> g = 23 \<or> g = 24 then 40
      else if g = 1 \<or> g = 2 \<or> g = 5 \<or> g = 14 \<or> g = 15 \<or> g = 16 \<or> g = 17 \<or> g = 18 then 1
      else 40)"

text \<open>The loop draws until it has a residue and a non-residue; it may run forever, so \<^const>\<open>None\<close> is
  no result.  A failed draw ends it.\<close>

partial_function (option) qr_qnr_loop ::
  "'p sae_lib \<Rightarrow> nat \<Rightarrow> nat \<Rightarrow> nat option \<Rightarrow> nat option \<Rightarrow> (nat option \<times> nat option \<times> nat) option" where
  [code]: "qr_qnr_loop L prime i qr qnr =
     (if qr \<noteq> None \<and> qnr \<noteq> None then Some (qr, qnr, i)
      else if \<not> sl_alloc L ''bignum'' then Some (qr, qnr, i)
      else case sl_rand L i prime of
             None \<Rightarrow> Some (qr, qnr, i + 1)
           | Some t \<Rightarrow>
               let res = bn_legendre L t prime
               in if res = 1 \<and> qr = None then qr_qnr_loop L prime (i + 1) (Some t) qnr
                  else if res = -1 \<and> qnr = None then qr_qnr_loop L prime (i + 1) qr (Some t)
                  else qr_qnr_loop L prime (i + 1) qr qnr)"

definition dragonfly_get_random_qr_qnr :: "'p sae_lib \<Rightarrow> nat \<Rightarrow> nat \<Rightarrow> ((nat \<times> nat) option \<times> nat) option" where
  "dragonfly_get_random_qr_qnr L prime i =
     map_option (\<lambda>(qr, qnr, i). (case (qr, qnr) of (Some a, Some b) \<Rightarrow> Some (a, b) | _ \<Rightarrow> None, i))
       (qr_qnr_loop L prime i None None)"

definition dragonfly_get_rand_1_to_p_1 :: "'p sae_lib \<Rightarrow> nat \<Rightarrow> nat \<Rightarrow> nat option \<times> nat" where
  "dragonfly_get_rand_1_to_p_1 L prime i =
     (if \<not> sl_alloc L ''bignum'' then (None, i)
      else case bn_init_set L [1] of
        None \<Rightarrow> (None, i)
      | Some one \<Rightarrow>
      case bn_sub L prime one of
        None \<Rightarrow> (None, i)
      | Some pm1 \<Rightarrow>
      case sl_rand L i pm1 of
        None \<Rightarrow> (None, i + 1)
      | Some t \<Rightarrow> (bn_add L t one, i + 1))"

text \<open>The result is -1, 0 or 1.\<close>

definition dragonfly_is_quadratic_residue_blind ::
  "'p sae_lib \<Rightarrow> 'p curve \<Rightarrow> bytes \<Rightarrow> bytes \<Rightarrow> nat \<Rightarrow> nat \<Rightarrow> int \<times> nat" where
  "dragonfly_is_quadratic_residue_blind L ec qr qnr val i =
     (let prime = cv_prime ec; prime_len = cv_prime_len ec
      in case dragonfly_get_rand_1_to_p_1 L prime i of
           (None, i) \<Rightarrow> (-1, i)
         | (Some r, i) \<Rightarrow>
      let msk = const_time_is_zero (of_bool (odd r));
          qr_or_qnr_bin = const_time_select_bin (ucast msk) qnr qr prime_len
      in (case do {
             num \<leftarrow> bn_mulmod L val r prime;
             num \<leftarrow> bn_mulmod L num r prime;
             qr_or_qnr \<leftarrow> bn_init_set L qr_or_qnr_bin;
             bn_mulmod L num qr_or_qnr prime
           } of
             None \<Rightarrow> -1
           | Some num \<Rightarrow>
               let check = const_time_select_int msk (- 1) 1;
                   res = bn_legendre L num prime
               in if res = -2 then -1
                  else sint (const_time_select_int (const_time_eq (word_of_int res) check) 1 0), i))"

definition dragonfly_get_rand_2_to_r_1 :: "'p sae_lib \<Rightarrow> nat \<Rightarrow> nat \<Rightarrow> nat option" where
  "dragonfly_get_rand_2_to_r_1 L order i =
     (case sl_rand L i order of None \<Rightarrow> None | Some v \<Rightarrow> if v = 0 \<or> v = 1 then None else Some v)"

text \<open>The attempts that are left are counted down; the result is \<^verbatim>\<open>rand\<close>, \<^verbatim>\<open>mask\<close> and the scalar.\<close>

fun generate_scalar_loop :: "'p sae_lib \<Rightarrow> nat \<Rightarrow> nat \<Rightarrow> nat \<Rightarrow> (nat \<times> nat \<times> nat) option \<times> nat" where
  "generate_scalar_loop L order 0 i = (None, i)"
| "generate_scalar_loop L order (Suc n) i =
     (case dragonfly_get_rand_2_to_r_1 L order i of
        None \<Rightarrow> generate_scalar_loop L order n (i + 1)
      | Some rnd \<Rightarrow>
      case dragonfly_get_rand_2_to_r_1 L order (i + 1) of
        None \<Rightarrow> generate_scalar_loop L order n (i + 2)
      | Some msk \<Rightarrow>
      case do { s \<leftarrow> bn_add L rnd msk; bn_mod L s order } of
        None \<Rightarrow> generate_scalar_loop L order n (i + 2)
      | Some s \<Rightarrow> if s = 0 \<or> s = 1 then generate_scalar_loop L order n (i + 2) else (Some (rnd, msk, s), i + 2))"

definition dragonfly_generate_scalar :: "'p sae_lib \<Rightarrow> nat \<Rightarrow> nat \<Rightarrow> (nat \<times> nat \<times> nat) option \<times> nat" where
  "dragonfly_generate_scalar L order i = generate_scalar_loop L order 100 i"

definition dragonfly_sqrt :: "'p sae_lib \<Rightarrow> 'p curve \<Rightarrow> nat \<Rightarrow> nat option" where
  "dragonfly_sqrt L ec val =
     (let prime = cv_prime ec; prime_len = cv_prime_len ec
      in do {
           prime_bin \<leftarrow> bn_to_bin L prime 66 prime_len;
           if (prime_bin ! (prime_len - 1)) AND 3 \<noteq> 3 \<or> \<not> sl_alloc L ''bignum'' then None
           else do {
             t \<leftarrow> bn_add L prime 1;
             t \<leftarrow> bn_rshift L t 2;
             bn_exptmod L val t prime
           }
         })"


section \<open>What the library promises\<close>

text \<open>The documented results of the operations on big numbers; each may fail.  \<open>octets_nat\<close> is the
  value of octets in network byte order.\<close>

definition octets_nat :: "bytes \<Rightarrow> nat" where
  "octets_nat bs = fold (\<lambda>b n. 256 * n + unat b) bs 0"

definition gives :: "'a option \<Rightarrow> 'a \<Rightarrow> bool" where
  "gives r x \<longleftrightarrow> r = None \<or> r = Some x"

definition bignum_ok :: "'p sae_lib \<Rightarrow> bool" where
  "bignum_ok L \<longleftrightarrow>
     (\<forall>a b m. gives (bn_add L a b) (a + b) \<and> (b \<le> a \<longrightarrow> gives (bn_sub L a b) (a - b)) \<and>
        gives (bn_mod L a m) (a mod m) \<and> gives (bn_div L a b) (a div b) \<and>
        gives (bn_addmod L a b m) ((a + b) mod m) \<and> gives (bn_mulmod L a b m) (a * b mod m) \<and>
        gives (bn_sqrmod L a m) (a * a mod m) \<and> gives (bn_exptmod L a b m) (a ^ b mod m) \<and>
        gives (bn_rshift L a b) (a div 2 ^ b)) \<and>
     (\<forall>bs. gives (bn_init_set L bs) (octets_nat bs)) \<and>
     (\<forall>a len pad bs. bn_to_bin L a len pad = Some bs \<longrightarrow> length bs = pad \<and> octets_nat bs = a) \<and>
     (\<forall>i m v. sl_rand L i m = Some v \<longrightarrow> v < m)"

text \<open>The Legendre symbol modulo an odd prime: multiplicative, and 0 exactly for multiples of
  the prime; -2 is a failure.\<close>

definition legendre_ok :: "'p sae_lib \<Rightarrow> nat \<Rightarrow> (nat \<Rightarrow> int) \<Rightarrow> bool" where
  "legendre_ok L p chi \<longleftrightarrow>
     (\<forall>a. chi a \<in> {-1, 0, 1} \<and> (chi a = 0 \<longleftrightarrow> a mod p = 0) \<and> chi (a mod p) = chi a) \<and>
     (\<forall>a b. chi (a * b) = chi a * chi b) \<and>
     (\<forall>a. bn_legendre L a p = chi a \<or> bn_legendre L a p = -2)"

lemma givesD: "gives r x \<Longrightarrow> r = Some y \<Longrightarrow> y = x"
  by (auto simp: gives_def)

lemma bignum_okD:
  assumes "bignum_ok L"
  shows "bn_add L a b = Some x \<Longrightarrow> x = a + b" "bn_mod L a m = Some x \<Longrightarrow> x = a mod m"
    "bn_sub L a b = Some x \<Longrightarrow> b \<le> a \<Longrightarrow> x = a - b" "bn_mulmod L a b m = Some x \<Longrightarrow> x = a * b mod m"
    "bn_exptmod L a b m = Some x \<Longrightarrow> x = a ^ b mod m" "bn_init_set L bs = Some x \<Longrightarrow> x = octets_nat bs"
    "bn_to_bin L a len pad = Some bs \<Longrightarrow> length bs = pad" "bn_to_bin L a len pad = Some bs \<Longrightarrow> octets_nat bs = a"
    "sl_rand L i m = Some v \<Longrightarrow> v < m"
  using assms unfolding bignum_ok_def by (metis givesD)+

lemma octets_nat_1: "octets_nat [1] = 1"
  by (simp add: octets_nat_def)

lemma rand_1_to_p_1:
  assumes "bignum_ok L" "dragonfly_get_rand_1_to_p_1 L p i = (Some r, j)" "1 < p"
  shows "0 < r \<and> r < p"
  using assms bignum_okD(9) [OF assms(1)]
  by (fastforce simp: dragonfly_get_rand_1_to_p_1_def octets_nat_1 dest!: bignum_okD(1,3,6) [OF assms(1)]
      split: if_splits option.splits)

text \<open>A drawn scalar: the secret and the mask are proper, their sum modulo the order too.\<close>

lemma generate_scalar_ok:
  assumes "bignum_ok L" "generate_scalar_loop L order n i = (Some (rnd, msk, s), j)"
  shows "1 < rnd \<and> rnd < order \<and> 1 < msk \<and> msk < order \<and> s = (rnd + msk) mod order \<and> 1 < s"
  using assms(2)
proof (induction n arbitrary: i)
  case (Suc n)
  have draw: "1 < v \<and> v < order" if "dragonfly_get_rand_2_to_r_1 L order k = Some v" for k v
    using that bignum_okD(9) [OF assms(1)]
    by (auto simp: dragonfly_get_rand_2_to_r_1_def split: option.splits if_splits)
  show ?case
    using Suc.prems Suc.IH draw bignum_okD(1,2) [OF assms(1)]
    by (fastforce split: option.splits if_splits bind_splits)
qed simp

end
