(* ===== verification/Elements.thy ===== *)
theory Elements
  imports WPA_Parse "HOL-Library.Sublist"
begin

text \<open>
  The parser of the elements of management frames (\<^verbatim>\<open>ieee802_11_common.c\<close>), with fragments.
  The structure \<^verbatim>\<open>ieee802_11_elems\<close> has a pointer for each kind of element: here a map from
  the names of its fields to the octets that pointer and length describe.
\<close>

unbundle bit_operations_syntax

section \<open>Data\<close>

abbreviation (input) WLAN_EID_SSID :: byte where "WLAN_EID_SSID \<equiv> 0"
abbreviation (input) WLAN_EID_MIC :: byte where "WLAN_EID_MIC \<equiv> 140"
abbreviation (input) WLAN_EID_MULTI_BAND :: byte where "WLAN_EID_MULTI_BAND \<equiv> 158"
abbreviation (input) WLAN_EID_FRAGMENT :: byte where "WLAN_EID_FRAGMENT \<equiv> 242"
abbreviation (input) WLAN_EID_EXTENSION :: byte where "WLAN_EID_EXTENSION \<equiv> 255"

datatype (plugins only: code) elem_field =
    E_ssid | E_supp_rates | E_ds_params | E_challenge | E_erp_info | E_ext_supp_rates | E_wpa_ie | E_rsn_ie
  | E_rsnxe | E_wmm | E_wmm_tspec | E_wps_ie | E_supp_channels | E_mdie | E_ftie | E_timeout_int
  | E_ht_capabilities | E_ht_operation | E_mesh_config | E_mesh_id | E_peer_mgmt | E_vht_capabilities
  | E_vht_operation | E_vht_opmode_notif | E_vendor_ht_cap | E_vendor_vht | E_p2p | E_wfd | E_link_id
  | E_interworking | E_qos_map_set | E_hs20 | E_ext_capab | E_bss_max_idle_period | E_ssid_list | E_osen | E_mbo
  | E_ampe | E_mic | E_pref_freq_list | E_supp_op_classes | E_rrm_enabled | E_cag_number | E_ap_csn | E_fils_indic
  | E_dils | E_assoc_delay_info | E_fils_req_params | E_fils_key_confirm | E_fils_session | E_fils_hlp
  | E_fils_ip_addr_assign | E_key_delivery | E_wrapped_data | E_fils_pk | E_fils_nonce | E_owe_dh | E_power_capab
  | E_roaming_cons_sel | E_password_id | E_oci | E_multi_ap | E_he_capabilities | E_he_operation
  | E_short_ssid_list | E_he_6ghz_band_cap | E_sae_pk | E_s1g_capab | E_pasn_params

text \<open>A fragment has the identifiers of the element it belongs to.\<close>

record ieee802_11_elems =
  el_field :: "elem_field \<Rightarrow> bytes option"
  el_mb_ies :: "bytes list"
  el_frags :: "(byte \<times> byte \<times> bytes) list"
  el_last_eid :: byte
  el_last_eid_ext :: byte

datatype ParseRes = ParseOK | ParseUnknown | ParseFailed

definition elems_zero :: ieee802_11_elems where
  "elems_zero = \<lparr> el_field = \<lambda>_. None, el_mb_ies = [], el_frags = [], el_last_eid = 0, el_last_eid_ext = 0 \<rparr>"

definition set_field :: "elem_field \<Rightarrow> bytes \<Rightarrow> ieee802_11_elems \<Rightarrow> ieee802_11_elems" where
  "set_field f v e = e\<lparr> el_field := (el_field e)(f := Some v) \<rparr>"


section \<open>Kinds of elements\<close>

text \<open>The elements that are known by their identifier, with the lengths that are accepted;
  an element of another length is ignored.\<close>

definition elem_table :: "(byte \<times> elem_field \<times> (nat \<Rightarrow> bool)) list" where
  "elem_table =
     [(1, E_supp_rates, \<lambda>n. True), (3, E_ds_params, \<lambda>n. n \<ge> 1), (16, E_challenge, \<lambda>n. True),
      (42, E_erp_info, \<lambda>n. n \<ge> 1), (50, E_ext_supp_rates, \<lambda>n. True), (48, E_rsn_ie, \<lambda>n. True),
      (244, E_rsnxe, \<lambda>n. True), (33, E_power_capab, \<lambda>n. n \<ge> 2), (36, E_supp_channels, \<lambda>n. True),
      (54, E_mdie, \<lambda>n. n \<ge> 3), (55, E_ftie, \<lambda>n. n \<ge> 82), (56, E_timeout_int, \<lambda>n. n = 5),
      (45, E_ht_capabilities, \<lambda>n. n \<ge> 26), (61, E_ht_operation, \<lambda>n. n \<ge> 22), (113, E_mesh_config, \<lambda>n. True),
      (114, E_mesh_id, \<lambda>n. True), (117, E_peer_mgmt, \<lambda>n. True), (191, E_vht_capabilities, \<lambda>n. n \<ge> 12),
      (192, E_vht_operation, \<lambda>n. n \<ge> 5), (199, E_vht_opmode_notif, \<lambda>n. n = 1), (101, E_link_id, \<lambda>n. n \<ge> 18),
      (107, E_interworking, \<lambda>n. True), (110, E_qos_map_set, \<lambda>n. n \<ge> 16), (127, E_ext_capab, \<lambda>n. True),
      (90, E_bss_max_idle_period, \<lambda>n. n \<ge> 3), (84, E_ssid_list, \<lambda>n. True), (139, E_ampe, \<lambda>n. True),
      (140, E_mic, \<lambda>n. True), (59, E_supp_op_classes, \<lambda>n. True), (70, E_rrm_enabled, \<lambda>n. True),
      (237, E_cag_number, \<lambda>n. True), (239, E_ap_csn, \<lambda>n. n \<ge> 1), (240, E_fils_indic, \<lambda>n. n \<ge> 2),
      (241, E_dils, \<lambda>n. n \<ge> 2), (217, E_s1g_capab, \<lambda>n. n \<ge> 15)]"

definition ext_table :: "(byte \<times> elem_field \<times> (nat \<Rightarrow> bool)) list" where
  "ext_table =
     [(1, E_assoc_delay_info, \<lambda>n. n = 1), (2, E_fils_req_params, \<lambda>n. n \<ge> 3), (3, E_fils_key_confirm, \<lambda>n. True),
      (4, E_fils_session, \<lambda>n. n = 8), (5, E_fils_hlp, \<lambda>n. n \<ge> 12), (6, E_fils_ip_addr_assign, \<lambda>n. n \<ge> 1),
      (7, E_key_delivery, \<lambda>n. n \<ge> 8), (8, E_wrapped_data, \<lambda>n. True), (12, E_fils_pk, \<lambda>n. n \<ge> 1),
      (13, E_fils_nonce, \<lambda>n. n = 16), (32, E_owe_dh, \<lambda>n. n \<ge> 2), (33, E_password_id, \<lambda>n. True),
      (35, E_he_capabilities, \<lambda>n. True), (36, E_he_operation, \<lambda>n. True), (54, E_oci, \<lambda>n. True),
      (58, E_short_ssid_list, \<lambda>n. True), (59, E_he_6ghz_band_cap, \<lambda>n. n \<ge> 2), (100, E_pasn_params, \<lambda>n. True)]"

text \<open>The field and the value of a vendor specific element.  The result is \<^const>\<open>None\<close> for an
  unknown element (\<open>-1\<close>) and \<open>Some None\<close> for one that is known and not stored.\<close>

definition vendor_field :: "bytes \<Rightarrow> (elem_field \<times> bytes) option option" where
  "vendor_field d =
     (if length d < 4 then None
      else let oui = take 3 d; typ = d ! 3
      in if oui = [0x00, 0x50, 0xF2]
         then if typ = 1 then Some (Some (E_wpa_ie, d))
              else if typ = 2
              then if length d < 5 then None
                   else if d ! 4 = 0 \<or> d ! 4 = 1 then Some (Some (E_wmm, d))
                   else if d ! 4 = 2 then Some (Some (E_wmm_tspec, d)) else None
              else if typ = 4 then Some (Some (E_wps_ie, d)) else None
         else if oui = [0x50, 0x6F, 0x9A]
         then if typ = 9 then Some (Some (E_p2p, d))
              else if typ = 10 then Some (Some (E_wfd, d))
              else if typ = 16 then Some (Some (E_hs20, d))
              else if typ = 18 then Some (Some (E_osen, d))
              else if typ = 22 then Some (Some (E_mbo, d))
              else if typ = 29 then Some (Some (E_roaming_cons_sel, d))
              else if typ = 0x1B then Some (Some (E_multi_ap, d))
              else if typ = 28 then Some None
              else if typ = 0x1E then Some None
              else if typ = 0x1F then Some (Some (E_sae_pk, drop 4 d)) else None
         else if oui = [0x00, 0x90, 0x4C]
         then if typ = 0x33 then Some (Some (E_vendor_ht_cap, d))
              else if typ = 4 \<and> length d > 4 \<and> (d ! 4 = 8 \<or> d ! 4 = 0) then Some (Some (E_vendor_vht, d)) else None
         else if oui = [0x00, 0x13, 0x74]
         then if typ = 0 then Some (Some (E_pref_freq_list, d)) else None
         else None)"


section \<open>The parser\<close>

text \<open>The results of the parts say whether the element is unknown.\<close>

definition ieee802_11_parse_vendor_specific :: "bytes \<Rightarrow> ieee802_11_elems \<Rightarrow> bool \<times> ieee802_11_elems" where
  "ieee802_11_parse_vendor_specific d e =
     (case vendor_field d of
        None \<Rightarrow> (True, e)
      | Some None \<Rightarrow> (False, e)
      | Some (Some (f, v)) \<Rightarrow> (False, set_field f v e))"

definition ieee802_11_parse_extension :: "bytes \<Rightarrow> ieee802_11_elems \<Rightarrow> bool \<times> ieee802_11_elems" where
  "ieee802_11_parse_extension d e =
     (case d of
        [] \<Rightarrow> (True, e)
      | ext_id # v \<Rightarrow>
          let e = e\<lparr> el_last_eid_ext := 0 \<rparr>
          in case map_of ext_table ext_id of
               None \<Rightarrow> (True, e)
             | Some (f, ok) \<Rightarrow>
                 let e = (if ok (length v) then set_field f v e else e)
                 in (False, if length v = 254 then e\<lparr> el_last_eid_ext := ext_id \<rparr> else e))"

definition ieee802_11_parse_fragment :: "bytes \<Rightarrow> ieee802_11_elems \<Rightarrow> ieee802_11_elems" where
  "ieee802_11_parse_fragment d e =
     (if length (el_frags e) \<ge> 3 \<or> el_last_eid e = 0 then e
      else e\<lparr> el_frags := el_frags e @ [(el_last_eid e, el_last_eid_ext e, d)] \<rparr>)"

definition parse_element :: "byte \<Rightarrow> bytes \<Rightarrow> ieee802_11_elems \<Rightarrow> bool \<times> ieee802_11_elems" where
  "parse_element i d e =
     (if i = WLAN_EID_SSID
      then (False, if length d > 32 \<or> el_field e E_ssid \<noteq> None then e else set_field E_ssid d e)
      else if i = 4 \<or> i = 5 then (False, e)
      else if i = WLAN_EID_VENDOR_SPECIFIC then ieee802_11_parse_vendor_specific d e
      else if i = WLAN_EID_MULTI_BAND
      then (False, if length (el_mb_ies e) \<ge> 5 then e else e\<lparr> el_mb_ies := el_mb_ies e @ [d] \<rparr>)
      else if i = WLAN_EID_FRAGMENT then (False, ieee802_11_parse_fragment d e)
      else if i = WLAN_EID_EXTENSION then ieee802_11_parse_extension d e
      else case map_of elem_table i of
             None \<Rightarrow> (True, e)
           | Some (f, ok) \<Rightarrow> (False, if ok (length d) then set_field f d e else e))"

text \<open>The identifier of an element that may have fragments.\<close>

definition note_fragmented :: "byte \<Rightarrow> nat \<Rightarrow> ieee802_11_elems \<Rightarrow> ieee802_11_elems" where
  "note_fragmented i elen e =
     (let e = (if i \<noteq> WLAN_EID_FRAGMENT \<and> elen = 255 then e\<lparr> el_last_eid := i \<rparr> else e)
      in if i = WLAN_EID_EXTENSION \<and> el_last_eid_ext e = 0 then e\<lparr> el_last_eid := 0 \<rparr> else e)"

fun elems_loop :: "bytes \<Rightarrow> bool \<Rightarrow> ieee802_11_elems \<Rightarrow> ParseRes \<times> ieee802_11_elems" where
  "elems_loop (i # len # rest) unknown e =
     (if length rest < unat len then (ParseFailed, e)
      else let (u, e) = parse_element i (take (unat len) rest) e; unknown = (unknown \<or> u)
      in if i = WLAN_EID_MIC then (if unknown then ParseUnknown else ParseOK, e)
      else elems_loop (drop (unat len) rest) unknown (note_fragmented i (unat len) e))"
| "elems_loop [] unknown e = (if unknown then ParseUnknown else ParseOK, e)"
| "elems_loop [x] unknown e = (ParseFailed, e)"

definition ieee802_11_parse_elems :: "bytes option \<Rightarrow> ParseRes \<times> ieee802_11_elems" where
  "ieee802_11_parse_elems start =
     (case start of None \<Rightarrow> (ParseOK, elems_zero) | Some ies \<Rightarrow> elems_loop ies False elems_zero)"

fun ieee802_11_ie_count :: "bytes \<Rightarrow> nat" where
  "ieee802_11_ie_count (i # len # rest) =
     (if length rest < unat len then 0 else 1 + ieee802_11_ie_count (drop (unat len) rest))"
| "ieee802_11_ie_count _ = 0"

text \<open>Fragments are appended to the first part of the element.\<close>

definition ieee802_11_defrag_data :: "ieee802_11_elems \<Rightarrow> byte \<Rightarrow> byte \<Rightarrow> bytes option \<Rightarrow> bytes option" where
  "ieee802_11_defrag_data e eid eid_ext d =
     (case d of
        None \<Rightarrow> None
      | Some v \<Rightarrow>
          if v = [] then None
          else Some (v @ concat (map (\<lambda>(i, x, f). if i = eid \<and> x = eid_ext then f else []) (el_frags e))))"

definition ieee802_11_defrag :: "ieee802_11_elems \<Rightarrow> byte \<Rightarrow> byte \<Rightarrow> bytes option" where
  "ieee802_11_defrag e eid eid_ext =
     (if eid = WLAN_EID_EXTENSION \<and> eid_ext = 5 then ieee802_11_defrag_data e eid eid_ext (el_field e E_fils_hlp)
      else if eid = WLAN_EID_EXTENSION \<and> eid_ext = 8
      then ieee802_11_defrag_data e eid eid_ext (el_field e E_wrapped_data)
      else None)"


section \<open>What the parser finds\<close>

text \<open>The elements of a buffer: up to the first one that does not fit, or up to a MIC element.\<close>

fun elements :: "bytes \<Rightarrow> (byte \<times> bytes) list" where
  "elements (i # len # rest) =
     (if length rest < unat len then []
      else (i, take (unat len) rest) # (if i = WLAN_EID_MIC then [] else elements (drop (unat len) rest)))"
| "elements _ = []"

text \<open>The field that an element sets.\<close>

definition field_value :: "byte \<times> bytes \<Rightarrow> (elem_field \<times> bytes) option" where
  "field_value x =
     (case x of (i, d) \<Rightarrow>
        if i = WLAN_EID_SSID then if length d \<le> 32 then Some (E_ssid, d) else None
        else if i = 4 \<or> i = 5 \<or> i = WLAN_EID_MULTI_BAND \<or> i = WLAN_EID_FRAGMENT then None
        else if i = WLAN_EID_VENDOR_SPECIFIC then Option.bind (vendor_field d) id
        else if i = WLAN_EID_EXTENSION
        then (case d of
                [] \<Rightarrow> None
              | x # v \<Rightarrow> (case map_of ext_table x of Some (f, ok) \<Rightarrow> if ok (length v) then Some (f, v) else None
                         | None \<Rightarrow> None))
        else (case map_of elem_table i of Some (f, ok) \<Rightarrow> if ok (length d) then Some (f, d) else None
              | None \<Rightarrow> None))"

definition values_of :: "elem_field \<Rightarrow> (byte \<times> bytes) list \<Rightarrow> bytes list" where
  "values_of f es = map snd (filter (\<lambda>x. fst x = f) (List.map_filter field_value es))"

text \<open>The first SSID counts, and the last of any other element.\<close>

definition chosen_value :: "elem_field \<Rightarrow> (byte \<times> bytes) list \<Rightarrow> bytes option" where
  "chosen_value f es =
     (let vs = values_of f es in if vs = [] then None else Some (if f = E_ssid then hd vs else last vs))"

lemma values_of_simps:
  "values_of f [] = []"
  "values_of f (x # es) = (case field_value x of Some (g, v) \<Rightarrow> if g = f then [v] else [] | None \<Rightarrow> []) @ values_of f es"
  by (auto simp: values_of_def map_filter_simps split: option.splits)

lemma tables_no_ssid:
  "map_of elem_table i = Some (f, ok) \<Longrightarrow> f \<noteq> E_ssid" "map_of ext_table i = Some (f, ok) \<Longrightarrow> f \<noteq> E_ssid"
  "vendor_field d = Some (Some (f, v)) \<Longrightarrow> f \<noteq> E_ssid"
proof -
  show "map_of elem_table i = Some (f, ok) \<Longrightarrow> f \<noteq> E_ssid"
    by (drule map_of_SomeD) (auto simp: elem_table_def)
  show "map_of ext_table i = Some (f, ok) \<Longrightarrow> f \<noteq> E_ssid"
    by (drule map_of_SomeD) (auto simp: ext_table_def)
  show "vendor_field d = Some (Some (f, v)) \<Longrightarrow> f \<noteq> E_ssid"
    by (auto simp: vendor_field_def Let_def split: if_splits)
qed

lemma field_value_ssid: "field_value (i, d) = Some (E_ssid, v) \<Longrightarrow> i = WLAN_EID_SSID \<and> v = d"
  using tables_no_ssid(1) [of i E_ssid] tables_no_ssid(2) [of "hd d" E_ssid] tables_no_ssid(3) [of d E_ssid]
  by (auto simp: field_value_def bind_eq_Some_conv split: if_splits option.splits list.splits)

text \<open>The elements that do not set a field by themselves.\<close>

lemma parse_element_cases:
  assumes "i \<noteq> WLAN_EID_SSID"
  shows "el_field (snd (parse_element i d e)) =
    (case field_value (i, d) of None \<Rightarrow> el_field e | Some (f, v) \<Rightarrow> (el_field e)(f := Some v))"
proof -
  consider "i = 4 \<or> i = 5 \<or> i = WLAN_EID_MULTI_BAND \<or> i = WLAN_EID_FRAGMENT" | "i = WLAN_EID_VENDOR_SPECIFIC"
    | "i = WLAN_EID_EXTENSION"
    | "i \<noteq> 4" "i \<noteq> 5" "i \<noteq> WLAN_EID_MULTI_BAND" "i \<noteq> WLAN_EID_FRAGMENT" "i \<noteq> WLAN_EID_VENDOR_SPECIFIC" "i \<noteq> WLAN_EID_EXTENSION"
    by blast
  then show ?thesis
  proof cases
    case 1
    then show ?thesis by (auto simp: parse_element_def field_value_def ieee802_11_parse_fragment_def)
  next
    case 2
    then show ?thesis
      by (simp add: parse_element_def field_value_def ieee802_11_parse_vendor_specific_def set_field_def split: option.splits)
  next
    case 3
    then show ?thesis
      by (simp add: parse_element_def field_value_def ieee802_11_parse_extension_def set_field_def Let_def
          split: option.splits list.splits)
  next
    case 4
    then show ?thesis using assms by (simp add: parse_element_def field_value_def set_field_def split: option.splits)
  qed
qed

lemma parse_element_field:
  "el_field (snd (parse_element i d e)) =
     (case field_value (i, d) of
        None \<Rightarrow> el_field e
      | Some (f, v) \<Rightarrow> if f = E_ssid \<and> el_field e E_ssid \<noteq> None then el_field e else (el_field e)(f := Some v))"
proof (cases "i = WLAN_EID_SSID")
  case True
  then show ?thesis by (simp add: parse_element_def field_value_def set_field_def)
next
  case False
  then have "field_value (i, d) \<noteq> Some (E_ssid, v)" for v using field_value_ssid by blast
  then show ?thesis using parse_element_cases [OF False, of d e] by (auto split: option.splits)
qed

lemma note_fragmented_field: "el_field (note_fragmented i n e) = el_field e"
  by (simp add: note_fragmented_def Let_def)

lemma elems_loop_fields:
  "el_field (snd (elems_loop ies u e)) f =
     (if f = E_ssid then (case el_field e E_ssid of Some v \<Rightarrow> Some v | None \<Rightarrow> chosen_value f (elements ies))
      else (case chosen_value f (elements ies) of Some v \<Rightarrow> Some v | None \<Rightarrow> el_field e f))"
proof (induction ies u e rule: elems_loop.induct)
  case (1 i len rest u e)
  show ?case
  proof (cases "length rest < unat len")
    case True
    then show ?thesis by (simp add: chosen_value_def values_of_simps split: option.splits)
  next
    case False
    let ?d = "take (unat len) rest"
    obtain u' e' where p: "parse_element i ?d e = (u', e')" by fastforce
    have fe: "el_field e' = (case field_value (i, ?d) of
        None \<Rightarrow> el_field e
      | Some (f, v) \<Rightarrow> if f = E_ssid \<and> el_field e E_ssid \<noteq> None then el_field e else (el_field e)(f := Some v))"
      using parse_element_field [of i ?d e] p by simp
    show ?thesis
    proof (cases "i = WLAN_EID_MIC")
      case True
      then show ?thesis using False p fe
        by (auto simp: chosen_value_def values_of_simps Let_def split: option.splits)
    next
      case F2: False
      then show ?thesis using False p fe "1.IH" [OF False refl p [symmetric] refl F2]
        by (auto simp: chosen_value_def values_of_simps note_fragmented_field Let_def split: option.splits)
    qed
  qed
qed (auto simp: chosen_value_def values_of_simps split: option.splits)

definition enc_element :: "byte \<times> bytes \<Rightarrow> bytes" where
  "enc_element x = fst x # of_nat (length (snd x)) # snd x"

lemma enc_elements:
  assumes "\<And>i d. (i, d) \<in> set es \<Longrightarrow> length d \<le> 255 \<and> i \<noteq> WLAN_EID_MIC"
  shows "elements (concat (map enc_element es)) = es \<and> fst (elems_loop (concat (map enc_element es)) u e) \<noteq> ParseFailed"
  using assms
proof (induction es arbitrary: u e)
  case (Cons x es)
  obtain i d where x: "x = (i, d)" by fastforce
  have d: "length d \<le> 255" "i \<noteq> WLAN_EID_MIC" using Cons.prems [of i d] x by auto
  then have l: "unat (of_nat (length d) :: byte) = length d"
    unfolding unsigned_of_nat by (simp add: take_bit_nat_eq_self)
  have "fst (elems_loop (concat (map enc_element es)) v e') \<noteq> ParseFailed" for v e'
    using Cons.IH [of v e'] Cons.prems by (meson list.set_intros(2))
  moreover have "elements (concat (map enc_element es)) = es"
    using Cons.IH Cons.prems by (meson list.set_intros(2))
  moreover have "concat (map enc_element (x # es)) = i # of_nat (length d) # d @ concat (map enc_element es)"
    by (simp add: x enc_element_def)
  ultimately show ?case using d l by (simp add: x case_prod_beta Let_def del: concat.simps list.map)
qed simp




section \<open>Bounds\<close>

definition elems_within :: "bytes \<Rightarrow> ieee802_11_elems \<Rightarrow> bool" where
  "elems_within buf e \<longleftrightarrow>
     (\<forall>f v. el_field e f = Some v \<longrightarrow> sublist v buf) \<and>
     length (el_frags e) \<le> 3 \<and> list_all (\<lambda>(i, x, d). sublist d buf) (el_frags e) \<and>
     length (el_mb_ies e) \<le> 5 \<and> list_all (\<lambda>d. sublist d buf) (el_mb_ies e)"

lemma field_value_sublist: "field_value (i, d) = Some (f, v) \<Longrightarrow> sublist v d"
proof -
  have "vendor_field d = Some (Some (f, v)) \<Longrightarrow> v = d \<or> v = drop 4 d"
    by (auto simp: vendor_field_def Let_def split: if_splits)
  then have "field_value (i, d) = Some (f, v) \<Longrightarrow> v = d \<or> v = drop 4 d \<or> v = drop 1 d"
    by (auto simp: field_value_def bind_eq_Some_conv split: if_splits option.splits list.splits)
  then show "field_value (i, d) = Some (f, v) \<Longrightarrow> sublist v d" by auto
qed

lemma parse_element_lists:
  "el_frags (snd (parse_element i d e)) =
     (if i = WLAN_EID_FRAGMENT then el_frags (ieee802_11_parse_fragment d e) else el_frags e)"
  "el_mb_ies (snd (parse_element i d e)) =
     (if i = WLAN_EID_MULTI_BAND \<and> length (el_mb_ies e) < 5 then el_mb_ies e @ [d] else el_mb_ies e)"
  by (simp_all add: parse_element_def set_field_def ieee802_11_parse_vendor_specific_def
      ieee802_11_parse_extension_def ieee802_11_parse_fragment_def Let_def split: option.splits list.splits)

lemma parse_element_within:
  assumes "elems_within buf e" "sublist d buf"
  shows "elems_within buf (snd (parse_element i d e))"
proof -
  have "sublist v buf" if "el_field (snd (parse_element i d e)) f = Some v" for f v
    using that assms field_value_sublist [of i d] sublist_order.order.trans unfolding parse_element_field elems_within_def
    by (fastforce split: option.splits if_splits)
  then show ?thesis
    using assms unfolding elems_within_def parse_element_lists ieee802_11_parse_fragment_def by auto
qed

lemma note_fragmented_within: "elems_within buf (note_fragmented i n e) = elems_within buf e"
  by (simp add: elems_within_def note_fragmented_def Let_def)

lemma elems_loop_within:
  assumes "elems_within buf e" "sublist ies buf"
  shows "elems_within buf (snd (elems_loop ies u e))"
  using assms
proof (induction ies u e rule: elems_loop.induct)
  case (1 i len rest u e)
  obtain u' e' where p: "parse_element i (take (unat len) rest) e = (u', e')" by fastforce
  have r: "sublist rest buf"
    using "1.prems"(2) sublist_order.order.trans [of rest "i # len # rest" buf] by (simp add: sublist_Cons_right)
  then have s: "sublist (take (unat len) rest) buf" "sublist (drop (unat len) rest) buf"
    using sublist_order.order.trans sublist_take sublist_drop by blast+
  have e': "elems_within buf e'" using parse_element_within [OF "1.prems"(1) s(1), of i] p by simp
  then show ?case
    using "1.prems"(1) "1.IH" [OF _ refl p [symmetric] refl _ _ s(2)] p
    by (auto simp: note_fragmented_within Let_def)
qed simp_all


end
