(* ===== verification/OWE.thy ===== *)
theory OWE
  imports Elements WPA_Control
begin

text \<open>
  Opportunistic Wireless Encryption: the Diffie-Hellman exchange in the association frames, on
  the station (\<^verbatim>\<open>owe_build_assoc_req\<close>, \<^verbatim>\<open>owe_process_assoc_resp\<close> of \<^verbatim>\<open>wpa.c\<close>) and on the access
  point (\<^verbatim>\<open>owe_process_assoc_req\<close> and the end of \<^verbatim>\<open>send_assoc_resp\<close> of \<^verbatim>\<open>ap/ieee802_11.c\<close>), with the
  key derivation function of \<^verbatim>\<open>sha256-kdf.c\<close>, \<^verbatim>\<open>sha384-kdf.c\<close> and \<^verbatim>\<open>sha512-kdf.c\<close>.
\<close>

unbundle bit_operations_syntax

section \<open>The key derivation function\<close>

text \<open>\<open>left\<close> is \<^verbatim>\<open>outlen - pos\<close>, \<open>hlen\<close> the length of the MAC.\<close>

function kdf_loop :: "(bytes \<Rightarrow> bytes \<Rightarrow> bytes option) \<Rightarrow> nat \<Rightarrow> bytes \<Rightarrow> bytes \<Rightarrow> bytes \<Rightarrow> byte \<Rightarrow> nat \<Rightarrow> bytes option" where
  "kdf_loop mac hlen secret info T iter left =
     (let clen = min left hlen
      in if left = clen then Some (slice 0 clen T)
         else if iter = 255 then None
         else case mac secret (slice 0 hlen T @ info @ [iter + 1]) of
                None \<Rightarrow> None
              | Some T' \<Rightarrow> map_option ((@) (slice 0 clen T)) (kdf_loop mac hlen secret info T' (iter + 1) (left - clen)))"
  by pat_completeness auto
termination
proof (relation "measure (\<lambda>(mac, hlen, secret, info, T, iter, left). 255 - unat iter)", simp_all)
  fix iter :: byte
  assume "iter \<noteq> 255"
  then have u: "unat iter < 255" using unsigned_less [of iter, where ?'a = nat] unsigned_word_eqI [of iter 255, where ?'a = nat]
    by (cases "unat iter = 255") auto
  then have "unat (iter + 1) = unat iter + 1" by (simp add: unat_word_ariths)
  with u show "255 - unat (iter + 1) < 255 - unat iter" by simp
qed

declare kdf_loop.simps [simp del]

definition hmac_kdf :: "(bytes \<Rightarrow> bytes \<Rightarrow> bytes option) \<Rightarrow> nat \<Rightarrow> bytes \<Rightarrow> bytes option \<Rightarrow> bytes \<Rightarrow> nat \<Rightarrow> bytes option" where
  "hmac_kdf mac hlen secret lbl seed outlen =
     (let info = (case lbl of None \<Rightarrow> [] | Some l \<Rightarrow> l @ [0]) @ seed
      in case mac secret (info @ [1]) of
           None \<Rightarrow> None
         | Some T \<Rightarrow> kdf_loop mac hlen secret info T 1 outlen)"

definition hmac_sha256_kdf :: "crypto \<Rightarrow> bytes \<Rightarrow> bytes option \<Rightarrow> bytes \<Rightarrow> nat \<Rightarrow> bytes option" where
  "hmac_sha256_kdf c = hmac_kdf (hmac_sha256_vector c) 32"

definition hmac_sha384_kdf :: "crypto \<Rightarrow> bytes \<Rightarrow> bytes option \<Rightarrow> bytes \<Rightarrow> nat \<Rightarrow> bytes option" where
  "hmac_sha384_kdf c = hmac_kdf (hmac_sha384_vector c) 48"

definition hmac_sha512_kdf :: "crypto \<Rightarrow> bytes \<Rightarrow> bytes option \<Rightarrow> bytes \<Rightarrow> nat \<Rightarrow> bytes option" where
  "hmac_sha512_kdf c = hmac_kdf (hmac_sha512_vector c) 64"


section \<open>The library\<close>

text \<open>Elliptic curve Diffie-Hellman and the hash functions are those of the cryptographic
  library.  A key pair is a number; \<open>ow_pubkey\<close> is \<^verbatim>\<open>crypto_ecdh_get_pubkey\<close> and
  \<open>ow_set_peerkey\<close> is \<^verbatim>\<open>crypto_ecdh_set_peerkey\<close>, both without the second coordinate.
  What \<^verbatim>\<open>crypto_ecdh_init\<close> returns is an argument of the functions that call it.\<close>

record owe_lib =
  ow_pubkey :: "nat \<Rightarrow> bytes option"
  ow_set_peerkey :: "nat \<Rightarrow> bytes \<Rightarrow> bytes option"
  ow_sha256 :: "bytes \<Rightarrow> bytes option"
  ow_sha384 :: "bytes \<Rightarrow> bytes option"
  ow_sha512 :: "bytes \<Rightarrow> bytes option"

text \<open>What the exchange promises: the two sides compute the same secret, and a public key has the
  length of the prime of its group.\<close>

definition dh_commutes :: "owe_lib \<Rightarrow> bool" where
  "dh_commutes L \<longleftrightarrow> (\<forall>a b pa pb. ow_pubkey L a = Some pa \<longrightarrow> ow_pubkey L b = Some pb \<longrightarrow>
     ow_set_peerkey L a pb = ow_set_peerkey L b pa)"

definition dh_key_length :: "owe_lib \<Rightarrow> nat \<Rightarrow> bool" where
  "dh_key_length L n \<longleftrightarrow> (\<forall>k p. ow_pubkey L k = Some p \<longrightarrow> length p = n)"

definition wpabuf_zeropad :: "bool \<Rightarrow> bytes option \<Rightarrow> nat \<Rightarrow> bytes option" where
  "wpabuf_zeropad alloc buf len =
     (case buf of
        None \<Rightarrow> None
      | Some b \<Rightarrow> if length b \<ge> len then Some b else if alloc then Some (zeros (len - length b) @ b) else None)"

definition owe_prime_len :: "u16 \<Rightarrow> nat option" where
  "owe_prime_len g = (if g = 19 then Some 32 else if g = 20 then Some 48 else if g = 21 then Some 66 else None)"

definition owe_hash_len :: "u16 \<Rightarrow> nat" where
  "owe_hash_len g = (if g = 19 then 32 else if g = 20 then 48 else 64)"

text \<open>The choice of the functions by the group.\<close>

definition owe_hash :: "owe_lib \<Rightarrow> u16 \<Rightarrow> bytes \<Rightarrow> bytes option" where
  "owe_hash L g x = (if g = 19 then ow_sha256 L x else if g = 20 then ow_sha384 L x else ow_sha512 L x)"

definition owe_extract :: "crypto \<Rightarrow> u16 \<Rightarrow> bytes \<Rightarrow> bytes \<Rightarrow> bytes option" where
  "owe_extract c g key data =
     (if g = 19 then hmac_sha256_vector c key data else if g = 20 then hmac_sha384_vector c key data
      else hmac_sha512_vector c key data)"

definition owe_expand :: "crypto \<Rightarrow> u16 \<Rightarrow> bytes \<Rightarrow> bytes option" where
  "owe_expand c g prk =
     (let info = label_bytes ''OWE Key Generation''
      in if g = 19 then hmac_sha256_kdf c (slice 0 32 prk) None info 32
         else if g = 20 then hmac_sha384_kdf c (slice 0 48 prk) None info 48
         else hmac_sha512_kdf c (slice 0 64 prk) None info 64)"

abbreviation (input) WLAN_EID_EXT_OWE_DH_PARAM :: byte where "WLAN_EID_EXT_OWE_DH_PARAM \<equiv> 32"

definition owe_dh_element :: "u16 \<Rightarrow> bytes \<Rightarrow> bytes" where
  "owe_dh_element g pub =
     [WLAN_EID_EXTENSION, of_nat (1 + 2 + length pub), WLAN_EID_EXT_OWE_DH_PARAM] @ WPA_PUT_LE16 g @ pub"


section \<open>The station\<close>

definition owe_build_assoc_req :: "env \<Rightarrow> owe_lib \<Rightarrow> nat option \<Rightarrow> u16 \<Rightarrow> wpa_sm \<Rightarrow> bytes option \<times> wpa_sm" where
  "owe_build_assoc_req e L ecdh g sm =
     (case owe_prime_len g of
        None \<Rightarrow> (None, sm)
      | Some prime_len \<Rightarrow>
      case ecdh of
        None \<Rightarrow> (None, sm\<lparr> sm_owe_ecdh := None \<rparr>)
      | Some k \<Rightarrow>
      let sm = sm\<lparr> sm_owe_ecdh := Some k, sm_owe_group := g \<rparr>; alloc = e_alloc e (sm_trace sm)
      in case wpabuf_zeropad alloc (ow_pubkey L k) prime_len of
           None \<Rightarrow> (None, sm\<lparr> sm_owe_ecdh := None \<rparr>)
         | Some pub \<Rightarrow> if alloc then (Some (owe_dh_element g pub), sm) else (None, sm\<lparr> sm_owe_ecdh := None \<rparr>))"

text \<open>The response confirms the PMKSA that the station offered.\<close>

definition owe_pmksa_confirmed :: "ieee802_11_elems \<Rightarrow> wpa_sm \<Rightarrow> bool" where
  "owe_pmksa_confirmed el sm \<longleftrightarrow>
     (case (cur_pmksa_entry sm, el_field el E_rsn_ie) of
        (Some en, Some d) \<Rightarrow>
          (let rsn = WLAN_EID_RSN # of_nat (length d) # d
           in case the (wpa_parse_wpa_ie_rsn rsn) of (r, data) \<Rightarrow>
                r = 0 \<and> num_pmkid data = 1 \<and>
                (case pmkid data of None \<Rightarrow> False | Some off \<Rightarrow> slice off 16 rsn = pe_pmkid en))
      | _ \<Rightarrow> False)"

definition owe_derive_station :: "env \<Rightarrow> crypto \<Rightarrow> owe_lib \<Rightarrow> bytes \<Rightarrow> bytes \<Rightarrow> u16 \<Rightarrow> nat \<Rightarrow> nat \<Rightarrow> wpa_sm \<Rightarrow> int \<times> wpa_sm" where
  "owe_derive_station e c L bssid peer g k prime_len sm =
     (let alloc = e_alloc e (sm_trace sm)
      in case wpabuf_zeropad alloc (ow_set_peerkey L k peer) prime_len of
        None \<Rightarrow> (-1, sm)
      | Some secret \<Rightarrow>
      case ow_pubkey L k of
        None \<Rightarrow> (-1, sm)
      | Some pub \<Rightarrow>
      case owe_hash L g (pub @ peer) of
        None \<Rightarrow> (-1, sm)
      | Some pid \<Rightarrow>
      case wpabuf_zeropad alloc (Some pub) prime_len of
        None \<Rightarrow> (-1, sm)
      | Some pub \<Rightarrow>
      if \<not> alloc then (-1, sm)
      else case owe_extract c g (pub @ peer @ WPA_PUT_LE16 (sm_owe_group sm)) secret of
        None \<Rightarrow> (-1, sm)
      | Some prk \<Rightarrow>
      case owe_expand c g prk of
        None \<Rightarrow> (-1, sm\<lparr> sm_pmk_len := 0 \<rparr>)
      | Some pmk \<Rightarrow>
          let sm = sm\<lparr> sm_pmk := overwrite 0 pmk (sm_pmk sm), sm_pmk_len := owe_hash_len g \<rparr>
          in (0, snd (pmksa_cache_add e c (slice 0 (owe_hash_len g) (sm_pmk sm)) (Some (slice 0 16 pid)) None bssid
                        (sm_own_addr sm) (sm_network_ctx sm) (sm_key_mgmt sm) None sm)))"

definition owe_process_assoc_resp :: "env \<Rightarrow> crypto \<Rightarrow> owe_lib \<Rightarrow> bytes \<Rightarrow> bytes option \<Rightarrow> wpa_sm \<Rightarrow> int \<times> wpa_sm" where
  "owe_process_assoc_resp e c L bssid resp_ies sm =
     (if resp_ies = None then (-1, sm)
      else let (res, el) = ieee802_11_parse_elems resp_ies
      in if res = ParseFailed then (-1, sm)
      else if owe_pmksa_confirmed el sm then (0, wpa_sm_set_pmk_from_pmksa sm)
      else case el_field el E_owe_dh of
        None \<Rightarrow> (-1, sm)
      | Some dh \<Rightarrow>
      let g = the (WPA_GET_LE16 dh 0)
      in if g \<noteq> sm_owe_group sm then (-1, sm)
      else case sm_owe_ecdh sm of
        None \<Rightarrow> (-1, sm)
      | Some k \<Rightarrow>
      case owe_prime_len g of
        None \<Rightarrow> (-1, sm)
      | Some prime_len \<Rightarrow> owe_derive_station e c L bssid (drop 2 dh) g k prime_len sm)"


section \<open>The access point\<close>

text \<open>The fields of \<^verbatim>\<open>struct sta_info\<close> for OWE, whether the station has a PMKSA, and the calls of
  \<^verbatim>\<open>wpa_auth_pmksa_add2\<close> with PMK and PMKID.\<close>

record owe_sta =
  st_pmksa :: bool
  st_owe_ecdh :: "nat option"
  st_owe_group :: u16
  st_owe_pmk :: "bytes option"
  st_pmksa_added :: "(bytes \<times> bytes) list"

abbreviation (input) WLAN_STATUS_SUCCESS :: u16 where "WLAN_STATUS_SUCCESS \<equiv> 0"
abbreviation (input) WLAN_STATUS_UNSPECIFIED_FAILURE :: u16 where "WLAN_STATUS_UNSPECIFIED_FAILURE \<equiv> 1"
abbreviation (input) WLAN_STATUS_FINITE_CYCLIC_GROUP_NOT_SUPPORTED :: u16 where
  "WLAN_STATUS_FINITE_CYCLIC_GROUP_NOT_SUPPORTED \<equiv> 77"

definition owe_group_supported :: "int list option \<Rightarrow> u16 \<Rightarrow> bool" where
  "owe_group_supported groups g \<longleftrightarrow>
     (g = 19 \<or> g = 20 \<or> g = 21) \<and>
     (case groups of None \<Rightarrow> True | Some l \<Rightarrow> list_ex (\<lambda>x. x = uint g) (takeWhile (\<lambda>x. x > 0) l))"

definition owe_derive_ap :: "bool \<Rightarrow> crypto \<Rightarrow> owe_lib \<Rightarrow> bytes \<Rightarrow> u16 \<Rightarrow> nat \<Rightarrow> nat \<Rightarrow> owe_sta \<Rightarrow> u16 \<times> owe_sta" where
  "owe_derive_ap alloc c L peer g k prime_len st =
     (case wpabuf_zeropad alloc (ow_set_peerkey L k peer) prime_len of
        None \<Rightarrow> (WLAN_STATUS_UNSPECIFIED_FAILURE, st)
      | Some secret \<Rightarrow>
      case ow_pubkey L k of
        None \<Rightarrow> (WLAN_STATUS_UNSPECIFIED_FAILURE, st)
      | Some pub \<Rightarrow>
      case owe_hash L g (peer @ pub) of
        None \<Rightarrow> (WLAN_STATUS_UNSPECIFIED_FAILURE, st)
      | Some pid \<Rightarrow>
      case wpabuf_zeropad alloc (Some pub) prime_len of
        None \<Rightarrow> (WLAN_STATUS_UNSPECIFIED_FAILURE, st)
      | Some pub \<Rightarrow>
      if \<not> alloc then (WLAN_STATUS_UNSPECIFIED_FAILURE, st)
      else case owe_extract c g (peer @ pub @ WPA_PUT_LE16 g) secret of
        None \<Rightarrow> (WLAN_STATUS_UNSPECIFIED_FAILURE, st)
      | Some prk \<Rightarrow>
      case owe_expand c g prk of
        None \<Rightarrow> (WLAN_STATUS_UNSPECIFIED_FAILURE, st\<lparr> st_owe_pmk := None \<rparr>)
      | Some pmk \<Rightarrow> (WLAN_STATUS_SUCCESS,
          st\<lparr> st_owe_pmk := Some pmk, st_pmksa_added := st_pmksa_added st @ [(pmk, slice 0 16 pid)] \<rparr>))"

definition owe_process_assoc_req ::
  "bool \<Rightarrow> crypto \<Rightarrow> owe_lib \<Rightarrow> int list option \<Rightarrow> nat option \<Rightarrow> bytes \<Rightarrow> owe_sta \<Rightarrow> u16 \<times> owe_sta" where
  "owe_process_assoc_req alloc c L groups ecdh dh st =
     (if st_pmksa st then (WLAN_STATUS_SUCCESS, st)
      else let g = the (WPA_GET_LE16 dh 0)
      in if \<not> owe_group_supported groups g then (WLAN_STATUS_FINITE_CYCLIC_GROUP_NOT_SUPPORTED, st)
      else case owe_prime_len g of
        None \<Rightarrow> (WLAN_STATUS_FINITE_CYCLIC_GROUP_NOT_SUPPORTED, st)
      | Some prime_len \<Rightarrow>
      case ecdh of
        None \<Rightarrow> (WLAN_STATUS_FINITE_CYCLIC_GROUP_NOT_SUPPORTED, st\<lparr> st_owe_ecdh := None \<rparr>)
      | Some k \<Rightarrow>
          owe_derive_ap alloc c L (drop 2 dh) g k prime_len (st\<lparr> st_owe_ecdh := Some k, st_owe_group := g \<rparr>))"

text \<open>The element in the response; \<^const>\<open>None\<close> is a failure.  The arguments are
  \<^verbatim>\<open>conf->wpa_key_mgmt\<close>, the status code of the response and the key management of the
  station.\<close>

definition owe_resp_element :: "owe_lib \<Rightarrow> u32 \<Rightarrow> u16 \<Rightarrow> u32 \<Rightarrow> owe_sta \<Rightarrow> bytes option" where
  "owe_resp_element L conf_mgmt status akm st =
     (case st_owe_ecdh st of
        None \<Rightarrow> Some []
      | Some k \<Rightarrow>
          if has conf_mgmt WPA_KEY_MGMT_OWE \<and> status = WLAN_STATUS_SUCCESS \<and> akm = WPA_KEY_MGMT_OWE \<and> \<not> st_pmksa st
          then map_option (owe_dh_element (st_owe_group st)) (ow_pubkey L k)
          else Some [])"


section \<open>Agreement\<close>

lemma zeropad_full: "length b = n \<Longrightarrow> wpabuf_zeropad a (Some b) n = Some b"
  by (simp add: wpabuf_zeropad_def)

lemma owe_prime_len_le: "owe_prime_len g = Some n \<Longrightarrow> n \<le> 66"
  by (auto simp: owe_prime_len_def split: if_splits)

lemma owe_dh_element_enc: "owe_dh_element g pub = enc_element (WLAN_EID_EXTENSION, WLAN_EID_EXT_OWE_DH_PARAM # WPA_PUT_LE16 g @ pub)"
  by (simp add: owe_dh_element_def enc_element_def)

lemma values_of_append: "values_of f (xs @ ys) = values_of f xs @ values_of f ys"
  by (induction xs) (simp_all add: values_of_simps)

text \<open>The receiver of a frame that ends with the element finds group and public key.\<close>

lemma owe_dh_parsed:
  assumes "\<And>i d. (i, d) \<in> set es \<Longrightarrow> length d \<le> 255 \<and> i \<noteq> WLAN_EID_MIC" "length pub \<le> 66"
  shows "fst (ieee802_11_parse_elems (Some (concat (map enc_element es) @ owe_dh_element g pub))) \<noteq> ParseFailed \<and>
    el_field (snd (ieee802_11_parse_elems (Some (concat (map enc_element es) @ owe_dh_element g pub)))) E_owe_dh =
      Some (WPA_PUT_LE16 g @ pub)"
proof -
  let ?x = "(WLAN_EID_EXTENSION, WLAN_EID_EXT_OWE_DH_PARAM # WPA_PUT_LE16 g @ pub)"
  have c: "concat (map enc_element es) @ owe_dh_element g pub = concat (map enc_element (es @ [?x]))"
    by (simp add: owe_dh_element_enc)
  have wf: "length d \<le> 255 \<and> i \<noteq> WLAN_EID_MIC" if "(i, d) \<in> set (es @ [?x])" for i d
    using that assms by auto
  have "field_value ?x = Some (E_owe_dh, WPA_PUT_LE16 g @ pub)"
    by (simp add: field_value_def ext_table_def)
  then have "chosen_value E_owe_dh (es @ [?x]) = Some (WPA_PUT_LE16 g @ pub)"
    by (simp add: chosen_value_def values_of_append values_of_simps)
  then show ?thesis
    using enc_elements [OF wf, of "es @ [?x]" False elems_zero] elems_loop_fields [of "concat (map enc_element (es @ [?x]))" False elems_zero E_owe_dh]
    unfolding c ieee802_11_parse_elems_def option.case by simp
qed

lemma owe_hash_len_cases: "owe_prime_len g = Some n \<Longrightarrow> g = 19 \<or> g = 20 \<or> g = 21"
  by (auto simp: owe_prime_len_def split: if_splits)

lemma owe_expand_length:
  assumes "mac_lengths_ok c" "owe_expand c g prk = Some pmk"
  shows "length pmk = owe_hash_len g"
  using assms unfolding owe_expand_def owe_hash_len_def hmac_sha256_kdf_def hmac_sha384_kdf_def hmac_sha512_kdf_def
    hmac_kdf_def mac_lengths_ok_def kdf_loop.simps [of _ _ _ _ _ 1] Let_def
  by (auto simp: slice_def split: if_splits option.splits)

lemma overwrite_prefix: "length x \<le> length a \<Longrightarrow> slice 0 (length x) (overwrite 0 x a) = x"
  by (simp add: slice_def overwrite_def)


text \<open>A commutative exchange of octets in place of the curve.\<close>

definition owe_lib_sample :: owe_lib where
  "owe_lib_sample = \<lparr>
     ow_pubkey = \<lambda>k. Some (replicate 32 (of_nat k)),
     ow_set_peerkey = \<lambda>k p. Some (map ((*) (of_nat k)) p),
     ow_sha256 = \<lambda>x. Some (slice 16 32 x), ow_sha384 = \<lambda>x. None, ow_sha512 = \<lambda>x. None \<rparr>"

definition owe_sta_sample :: owe_sta where
  "owe_sta_sample = \<lparr> st_pmksa = False, st_owe_ecdh = None, st_owe_group = 0, st_owe_pmk = None, st_pmksa_added = [] \<rparr>"

lemma owe_lib_sample_ok: "dh_commutes owe_lib_sample" "dh_key_length owe_lib_sample (the (owe_prime_len 19))"
  by (auto simp: dh_commutes_def dh_key_length_def owe_lib_sample_def owe_prime_len_def mult.commute)


end
