(* ===== verification/SAE_PWE.thy ===== *)
theory SAE_PWE
  imports SAE_Lib OWE
begin

text \<open>
  Simultaneous authentication of equals, \<^verbatim>\<open>src/common/sae.c\<close>: the data of an exchange, and the
  derivation of the password element, by hunting and pecking and by hashing to an element.
  The build has SHA384 and SHA512, not SAE-PK.
\<close>

unbundle bit_operations_syntax

section \<open>The data of an exchange\<close>

text \<open>\<^verbatim>\<open>struct sae_temporary_data\<close>; \<open>sae_kck\<close> has \<^verbatim>\<open>kck_len\<close> octets, a \<^verbatim>\<open>NULL\<close> pointer is \<^const>\<open>None\<close>.\<close>

record 'p sae_tmp =
  sae_kck :: bytes
  own_commit_scalar :: "nat option"
  own_commit_element_ffc :: "nat option"
  own_commit_element_ecc :: "'p option"
  peer_commit_element_ffc :: "nat option"
  peer_commit_element_ecc :: "'p option"
  pwe_ecc :: "'p option"
  pwe_ffc :: "nat option"
  sae_rand :: "nat option"
  sae_ec :: "'p curve option"
  sae_prime_len :: nat
  sae_order_len :: nat
  sae_dh :: "dh_group option"
  sae_prime :: nat
  sae_order :: nat
  sae_pw_id :: "bytes option"
  own_rejected_groups :: "bytes option"
  peer_rejected_groups :: "bytes option"
  own_addr_higher :: bool

definition sae_tmp_zero :: "'p sae_tmp" where
  "sae_tmp_zero = \<lparr> sae_kck = [], own_commit_scalar = None, own_commit_element_ffc = None,
     own_commit_element_ecc = None, peer_commit_element_ffc = None, peer_commit_element_ecc = None,
     pwe_ecc = None, pwe_ffc = None, sae_rand = None, sae_ec = None, sae_prime_len = 0, sae_order_len = 0,
     sae_dh = None, sae_prime = 0, sae_order = 0, sae_pw_id = None, own_rejected_groups = None,
     peer_rejected_groups = None, own_addr_higher = False \<rparr>"

datatype sae_state = SAE_NOTHING | SAE_COMMITTED | SAE_CONFIRMED | SAE_ACCEPTED

record 'p sae_data =
  sae_state :: sae_state
  sae_send_confirm :: u16
  sae_pmk :: bytes
  sae_pmkid :: bytes
  peer_commit_scalar :: "nat option"
  peer_commit_scalar_accepted :: "nat option"
  sae_group :: int
  sae_sync :: nat
  sae_rc :: u16
  sae_h2e :: bool
  sae_tmp :: "'p sae_tmp option"

definition sae_data_zero :: "'p sae_data" where
  "sae_data_zero = \<lparr> sae_state = SAE_NOTHING, sae_send_confirm = 0, sae_pmk = zeros 32, sae_pmkid = zeros 16,
     peer_commit_scalar = None, peer_commit_scalar_accepted = None, sae_group = 0, sae_sync = 0, sae_rc = 0,
     sae_h2e = False, sae_tmp = None \<rparr>"

definition sae_clear_temp_data :: "'p sae_data \<Rightarrow> 'p sae_data" where
  "sae_clear_temp_data sae = sae\<lparr> sae_tmp := None \<rparr>"

definition sae_clear_data :: "'p sae_data \<Rightarrow> 'p sae_data" where
  "sae_clear_data sae = sae_data_zero"

definition sae_set_group :: "'p sae_lib \<Rightarrow> int \<Rightarrow> 'p sae_data \<Rightarrow> int \<times> 'p sae_data" where
  "sae_set_group L g sae =
     (if \<not> dragonfly_suitable_group g False then (-1, sae)
      else let sae = sae_clear_data sae
      in if \<not> sl_alloc L ''tmp'' then (-1, sae)
      else case sl_ec_init L g of
        Some ec \<Rightarrow>
          (0, sae\<lparr> sae_group := g, sae_tmp := Some (sae_tmp_zero\<lparr> sae_ec := Some ec,
             sae_prime_len := cv_prime_len ec, sae_prime := cv_prime ec,
             sae_order_len := cv_order_len ec, sae_order := cv_order ec \<rparr>) \<rparr>)
      | None \<Rightarrow>
      case sl_dh_groups_get L g of
        None \<Rightarrow> (-1, sae\<lparr> sae_tmp := Some sae_tmp_zero \<rparr>)
      | Some dh \<Rightarrow>
      if length (dh_prime dh) > 512 then (-1, sae_clear_data sae)
      else case bn_init_set L (dh_prime dh) of
        None \<Rightarrow> (-1, sae_clear_data sae)
      | Some p \<Rightarrow>
      case bn_init_set L (dh_order dh) of
        None \<Rightarrow> (-1, sae_clear_data sae)
      | Some r \<Rightarrow>
          (0, sae\<lparr> sae_group := g, sae_tmp := Some (sae_tmp_zero\<lparr> sae_dh := Some dh,
             sae_prime_len := length (dh_prime dh), sae_prime := p,
             sae_order_len := length (dh_order dh), sae_order := r \<rparr>) \<rparr>))"


section \<open>Hunting and pecking\<close>

definition sae_pwd_seed_key :: "bytes \<Rightarrow> bytes \<Rightarrow> bytes" where
  "sae_pwd_seed_key addr1 addr2 = (if os_memcmp addr1 addr2 > 0 then addr1 @ addr2 else addr2 @ addr1)"

definition buf_shift_right :: "bytes \<Rightarrow> nat \<Rightarrow> bytes" where
  "buf_shift_right buf bits =
     map (\<lambda>i. if i = 0 then drop_bit bits (buf ! 0)
              else push_bit (8 - bits) (buf ! (i - 1)) OR drop_bit bits (buf ! i)) [0..<length buf]"

text \<open>The result is -1, 0 or 1, the candidate for the coordinate, and the index of the next draw.
  After a failure the caller does not use the candidate.\<close>

definition pwd_value_ecc :: "crypto \<Rightarrow> 'p curve \<Rightarrow> bytes \<Rightarrow> bytes \<Rightarrow> bytes option" where
  "pwd_value_ecc c ec prime pwd_seed =
     (let bits = cv_prime_len_bits ec
      in map_option (\<lambda>v. if bits mod 8 \<noteq> 0 then buf_shift_right v (8 - bits mod 8) else v)
           (sha256_prf_bits c pwd_seed ''SAE Hunting and Pecking'' prime bits))"

definition sae_test_pwd_seed_ecc ::
  "'p sae_lib \<Rightarrow> crypto \<Rightarrow> 'p curve \<Rightarrow> bytes \<Rightarrow> bytes \<Rightarrow> bytes \<Rightarrow> bytes \<Rightarrow> nat \<Rightarrow> int \<times> bytes \<times> nat" where
  "sae_test_pwd_seed_ecc L c ec pwd_seed prime qr qnr i =
     (case pwd_value_ecc c ec prime pwd_seed of
        None \<Rightarrow> (-1, [], i)
      | Some pwd_value \<Rightarrow>
      let cmp_prime = const_time_memcmp pwd_value prime (cv_prime_len ec);
          in_range = const_time_fill_msb cmp_prime
      in case do { x_cand \<leftarrow> bn_init_set L (slice 0 (cv_prime_len ec) pwd_value); cv_compute_y_sqr ec x_cand } of
           None \<Rightarrow> (-1, pwd_value, i)
         | Some y_sqr \<Rightarrow>
             let (res, i) = dragonfly_is_quadratic_residue_blind L ec qr qnr y_sqr i
             in (if res < 0 then res else sint (const_time_select_int in_range (word_of_int res) 0), pwd_value, i))"

text \<open>The loop; \<^const>\<open>Inl\<close> is the jump to the exit with the result so far, \<^const>\<open>Inr\<close> its end with
  \<^verbatim>\<open>found\<close>, \<^verbatim>\<open>x_bin\<close>, \<^verbatim>\<open>pwd_seed_odd\<close> and \<^verbatim>\<open>res\<close>.\<close>

function pwe_ecc_loop ::
  "'p sae_lib \<Rightarrow> crypto \<Rightarrow> 'p curve \<Rightarrow> bytes \<Rightarrow> bytes \<Rightarrow> bytes \<Rightarrow> nat \<Rightarrow> bytes \<Rightarrow> bytes \<Rightarrow> bytes \<Rightarrow>
   nat \<Rightarrow> byte \<Rightarrow> bytes \<Rightarrow> byte \<Rightarrow> int \<Rightarrow> nat \<Rightarrow> (int + byte \<times> bytes \<times> byte \<times> int) \<times> nat" where
  "pwe_ecc_loop L c ec addrs password stub k prime qr qnr counter found x_bin pwd_seed_odd res i =
     (if \<not> (counter \<le> k \<or> found = 0) \<or> counter > 200 then (Inr (found, x_bin, pwd_seed_odd, res), i)
      else let tmp_password = const_time_select_bin found stub password (length password)
      in case hmac_sha256_vector c addrs (tmp_password @ [of_nat counter]) of
           None \<Rightarrow> (Inr (found, x_bin, pwd_seed_odd, res), i)
         | Some pwd_seed \<Rightarrow>
      let (res, x_cand, i) = sae_test_pwd_seed_ecc L c ec pwd_seed prime qr qnr i
      in if res < 0 then (Inl res, i)
      else let x_bin = const_time_select_bin found x_bin x_cand (cv_prime_len ec);
               pwd_seed_odd = const_time_select_u8 found pwd_seed_odd (pwd_seed ! 31 AND 1);
               found = found OR word_of_int (res * 255)
           in pwe_ecc_loop L c ec addrs password stub k prime qr qnr (counter + 1) found x_bin pwd_seed_odd res i)"
  by pat_completeness auto
termination
  by (relation "measure (\<lambda>(L, c, ec, addrs, password, stub, k, prime, qr, qnr, counter, found, x_bin, odd, res, i). 201 - counter)") auto

declare pwe_ecc_loop.simps [simp del]

text \<open>The point from the coordinate: the two roots, and the choice by the parity.\<close>

definition pwe_ecc_point :: "'p sae_lib \<Rightarrow> 'p curve \<Rightarrow> bytes \<Rightarrow> byte \<Rightarrow> bytes option" where
  "pwe_ecc_point L ec x_bin pwd_seed_odd =
     (let prime_len = cv_prime_len ec
      in do {
           x \<leftarrow> bn_init_set L x_bin;
           y \<leftarrow> cv_compute_y_sqr ec x;
           y \<leftarrow> dragonfly_sqrt L ec y;
           y_bin \<leftarrow> bn_to_bin L y 66 prime_len;
           y \<leftarrow> bn_sub L (cv_prime ec) y;
           ny_bin \<leftarrow> bn_to_bin L y 66 prime_len;
           let is_eq = const_time_eq (ucast pwd_seed_odd) (ucast (y_bin ! (prime_len - 1) AND 1));
           Some (x_bin @ const_time_select_bin (ucast is_eq) y_bin ny_bin prime_len)
         })"

text \<open>\<^const>\<open>None\<close>: the search for the residues does not end.  When the root cannot be computed
  the function returns the result of the last test, which is not negative, and leaves the
  password element as it was.\<close>

definition sae_derive_pwe_ecc ::
  "'p sae_lib \<Rightarrow> crypto \<Rightarrow> int \<Rightarrow> 'p curve \<Rightarrow> bytes \<Rightarrow> bytes \<Rightarrow> bytes \<Rightarrow> nat \<Rightarrow> 'p sae_tmp \<Rightarrow> (int \<times> 'p sae_tmp \<times> nat) option" where
  "sae_derive_pwe_ecc L c g ec addr1 addr2 password i tmp =
     (if \<not> sl_alloc L ''password'' then Some (-1, tmp, i)
      else case sl_random_bytes L (length password) of
        None \<Rightarrow> Some (-1, tmp, i)
      | Some stub \<Rightarrow>
      case bn_to_bin L (sae_prime tmp) 66 (sae_prime_len tmp) of
        None \<Rightarrow> Some (-1, tmp, i)
      | Some prime \<Rightarrow>
      case dragonfly_get_random_qr_qnr L (sae_prime tmp) i of
        None \<Rightarrow> None
      | Some (None, i) \<Rightarrow> Some (-1, tmp, i)
      | Some (Some (qr, qnr), i) \<Rightarrow>
      case (bn_to_bin L qr 66 (sae_prime_len tmp), bn_to_bin L qnr 66 (sae_prime_len tmp)) of
        (Some qr_bin, Some qnr_bin) \<Rightarrow>
          (case pwe_ecc_loop L c ec (sae_pwd_seed_key addr1 addr2) password stub (dragonfly_min_pwe_loop_iter g)
                  prime qr_bin qnr_bin 1 0 (zeros 66) 0 (-1) i of
             (Inl res, i) \<Rightarrow> Some (res, tmp, i)
           | (Inr (found, x_bin, pwd_seed_odd, res), i) \<Rightarrow>
               if found = 0 \<or> bn_init_set L (slice 0 (sae_prime_len tmp) x_bin) = None then Some (-1, tmp, i)
               else case pwe_ecc_point L ec (slice 0 (sae_prime_len tmp) x_bin) pwd_seed_odd of
                      None \<Rightarrow> Some (res, tmp, i)
                    | Some x_y \<Rightarrow>
                        (case cv_from_bin ec x_y of
                           None \<Rightarrow> Some (-1, tmp\<lparr> pwe_ecc := None \<rparr>, i)
                         | Some P \<Rightarrow> Some (res, tmp\<lparr> pwe_ecc := Some P \<rparr>, i)))
      | _ \<Rightarrow> Some (-1, tmp, i))"

text \<open>For finite field groups: the result is -1, 0 or 1 and the candidate.\<close>

definition pwe_exponent :: "'p sae_lib \<Rightarrow> dh_group \<Rightarrow> nat \<Rightarrow> nat \<Rightarrow> nat option" where
  "pwe_exponent L dh prime order =
     (if dh_safe_prime dh then bn_init_set L [2]
      else do { b \<leftarrow> bn_init_set L [1]; b \<leftarrow> bn_sub L prime b; bn_div L b order })"

definition sae_test_pwd_seed_ffc ::
  "'p sae_lib \<Rightarrow> crypto \<Rightarrow> dh_group \<Rightarrow> nat \<Rightarrow> nat \<Rightarrow> bytes \<Rightarrow> int \<times> nat" where
  "sae_test_pwd_seed_ffc L c dh prime order pwd_seed =
     (let prime_len = length (dh_prime dh)
      in case sha256_prf_bits c pwd_seed ''SAE Hunting and Pecking'' (dh_prime dh) (prime_len * 8) of
        None \<Rightarrow> (-1, 0)
      | Some pwd_value \<Rightarrow>
      let pwd_value_valid = ucast (const_time_fill_msb (const_time_memcmp pwd_value (dh_prime dh) prime_len)) :: byte;
          pwd_value = pwd_value[0 := const_time_select_u8 pwd_value_valid (pwd_value ! 0) 0]
      in case do { a \<leftarrow> bn_init_set L pwd_value; b \<leftarrow> pwe_exponent L dh prime order; bn_exptmod L a b prime } of
           None \<Rightarrow> (-1, 0)
         | Some pwe \<Rightarrow>
             let res = const_time_select_u8 pwd_value_valid 1 0;
                 res = const_time_select_u8 (ucast (const_time_is_zero (of_bool (pwe = 0)))) res 0;
                 res = const_time_select_u8 (ucast (const_time_is_zero (of_bool (pwe = 1)))) res 0
             in (uint res, pwe))"

text \<open>The loop gives \<^verbatim>\<open>found\<close> and the selected half of \<^verbatim>\<open>pwe_buf\<close>, which has \<open>plen\<close> octets.\<close>

function pwe_ffc_loop ::
  "'p sae_lib \<Rightarrow> crypto \<Rightarrow> dh_group \<Rightarrow> nat \<Rightarrow> nat \<Rightarrow> bytes \<Rightarrow> bytes \<Rightarrow> nat \<Rightarrow> nat \<Rightarrow> nat \<Rightarrow> byte \<Rightarrow> bytes \<Rightarrow> byte \<times> bytes" where
  "pwe_ffc_loop L c dh prime order addrs password k plen counter found pwe_buf =
     (if \<not> (counter \<le> k \<or> found = 0) \<or> counter > 200 then (found, pwe_buf)
      else case hmac_sha256_vector c addrs (password @ [of_nat counter]) of
        None \<Rightarrow> (found, pwe_buf)
      | Some pwd_seed \<Rightarrow>
      let (res, pwe) = sae_test_pwd_seed_ffc L c dh prime order pwd_seed
      in if res < 0 then (found, pwe_buf)
      else case bn_to_bin L pwe plen plen of
        None \<Rightarrow> (found, pwe_buf)
      | Some cand \<Rightarrow>
          let pwe_buf = const_time_select_bin found pwe_buf cand plen;
              msk = const_time_eq_u8 (word_of_int res) 1;
              found = const_time_select_u8 found found msk
          in pwe_ffc_loop L c dh prime order addrs password k plen (counter + 1) found pwe_buf)"
  by pat_completeness auto
termination
  by (relation "measure (\<lambda>(L, c, dh, prime, order, addrs, password, k, plen, counter, found, buf). 201 - counter)") auto

declare pwe_ffc_loop.simps [simp del]

text \<open>The buffers have eight octets for each octet of the prime.\<close>

definition sae_derive_pwe_ffc ::
  "'p sae_lib \<Rightarrow> crypto \<Rightarrow> int \<Rightarrow> dh_group \<Rightarrow> bytes \<Rightarrow> bytes \<Rightarrow> bytes \<Rightarrow> 'p sae_tmp \<Rightarrow> int \<times> 'p sae_tmp" where
  "sae_derive_pwe_ffc L c g dh addr1 addr2 password tmp =
     (let prime_len = sae_prime_len tmp * 8; tmp = tmp\<lparr> pwe_ffc := None \<rparr>
      in if \<not> sl_alloc L ''pwe_buf'' then (-1, tmp)
      else let (found, pwe_buf) = pwe_ffc_loop L c dh (sae_prime tmp) (sae_order tmp) (sae_pwd_seed_key addr1 addr2) password
                 (dragonfly_min_pwe_loop_iter g) prime_len 1 0 (zeros prime_len)
      in if found = 0 then (-1, tmp)
      else case bn_init_set L pwe_buf of
             None \<Rightarrow> (-1, tmp)
           | Some pwe \<Rightarrow> (0, tmp\<lparr> pwe_ffc := Some pwe \<rparr>))"


section \<open>Hash to element\<close>

definition hkdf_extract :: "crypto \<Rightarrow> nat \<Rightarrow> bytes \<Rightarrow> bytes list \<Rightarrow> bytes option" where
  "hkdf_extract c hash_len salt elems =
     (if hash_len = 32 then hmac_sha256_vector c salt (concat elems)
      else if hash_len = 48 then hmac_sha384_vector c salt (concat elems)
      else if hash_len = 64 then hmac_sha512_vector c salt (concat elems)
      else None)"

definition hkdf_expand :: "crypto \<Rightarrow> nat \<Rightarrow> bytes \<Rightarrow> string \<Rightarrow> nat \<Rightarrow> bytes option" where
  "hkdf_expand c hash_len prk info okm_len =
     (if hash_len = 32 then hmac_sha256_kdf c prk None (label_bytes info) okm_len
      else if hash_len = 48 then hmac_sha384_kdf c prk None (label_bytes info) okm_len
      else if hash_len = 64 then hmac_sha512_kdf c prk None (label_bytes info) okm_len
      else None)"

definition sswu_curve_param :: "int \<Rightarrow> int option" where
  "sswu_curve_param g =
     (if g = 19 then Some (-10) else if g = 20 then Some (-12) else if g = 21 then Some (-4)
      else if g = 25 \<or> g = 29 then Some (-5) else if g = 26 then Some 31 else if g = 28 then Some (-2)
      else if g = 30 then Some 7 else None)"

text \<open>The right side of the equation of the curve, for a coordinate.\<close>

definition sswu_gx :: "'p sae_lib \<Rightarrow> 'p curve \<Rightarrow> nat \<Rightarrow> nat option" where
  "sswu_gx L ec x =
     (let prime = cv_prime ec
      in do {
           t1 \<leftarrow> bn_exptmod L x 3 prime;
           t2 \<leftarrow> bn_mulmod L (cv_a ec) x prime;
           t1 \<leftarrow> bn_addmod L t1 t2 prime;
           bn_addmod L t1 (cv_b ec) prime
         })"

definition select_bn :: "'p sae_lib \<Rightarrow> u32 \<Rightarrow> nat \<Rightarrow> nat \<Rightarrow> nat \<Rightarrow> bytes option" where
  "select_bn L msk a b prime_len =
     do {
       bin1 \<leftarrow> bn_to_bin L a 66 prime_len;
       bin2 \<leftarrow> bn_to_bin L b 66 prime_len;
       Some (const_time_select_bin (ucast msk) bin1 bin2 prime_len)
     }"

definition sswu :: "'p sae_lib \<Rightarrow> 'p curve \<Rightarrow> int \<Rightarrow> nat \<Rightarrow> 'p option" where
  "sswu L ec g u =
     (let prime = cv_prime ec; prime_len = cv_prime_len ec; a = cv_a ec; b = cv_b ec
      in do {
           z_int \<leftarrow> sswu_curve_param g;
           (if sl_alloc L ''bignum'' then Some () else None);
           let z = nat \<bar>z_int\<bar>;
           z \<leftarrow> (if z_int < 0 then bn_sub L prime z else Some z);
           u2 \<leftarrow> bn_sqrmod L u prime;
           t1 \<leftarrow> bn_mulmod L z u2 prime;
           t2 \<leftarrow> bn_sqrmod L t1 prime;
           t1 \<leftarrow> bn_addmod L t1 t2 prime;
           let m_is_zero = const_time_eq (of_bool (t1 = 0)) 1;
           t2 \<leftarrow> bn_sub L prime 2;
           t \<leftarrow> bn_exptmod L t1 t2 prime;
           t1 \<leftarrow> bn_mulmod L z a prime;
           t1 \<leftarrow> bn_inverse L t1 prime;
           x1a \<leftarrow> bn_mulmod L b t1 prime;
           t1 \<leftarrow> bn_sub L prime b;
           t2 \<leftarrow> bn_inverse L a prime;
           t1 \<leftarrow> bn_mulmod L t1 t2 prime;
           t2 \<leftarrow> bn_addmod L 1 t prime;
           x1b \<leftarrow> bn_mulmod L t1 t2 prime;
           bin \<leftarrow> select_bn L m_is_zero x1a x1b prime_len;
           x1 \<leftarrow> bn_init_set L bin;
           gx1 \<leftarrow> sswu_gx L ec x1;
           t1 \<leftarrow> bn_mulmod L z u2 prime;
           x2 \<leftarrow> bn_mulmod L t1 x1 prime;
           gx2 \<leftarrow> sswu_gx L ec x2;
           t1 \<leftarrow> bn_sub L prime 1;
           t1 \<leftarrow> bn_rshift L t1 1;
           t1 \<leftarrow> bn_exptmod L gx1 t1 prime;
           let is_qr = const_time_eq (of_bool (t1 = 0) OR of_bool (t1 = 1)) 1;
           bin \<leftarrow> select_bn L is_qr gx1 gx2 prime_len;
           v \<leftarrow> bn_init_set L bin;
           x_bin \<leftarrow> select_bn L is_qr x1 x2 prime_len;
           y \<leftarrow> dragonfly_sqrt L ec v;
           bin1 \<leftarrow> bn_to_bin L u 66 prime_len;
           bin2 \<leftarrow> bn_to_bin L y 66 prime_len;
           let is_eq = const_time_eq (ucast (bin1 ! (prime_len - 1) AND 1)) (ucast (bin2 ! (prime_len - 1) AND 1));
           t1 \<leftarrow> bn_sub L prime y;
           y_bin \<leftarrow> select_bn L is_eq y t1 prime_len;
           cv_from_bin ec (x_bin @ y_bin)
         })"

definition sae_pwd_seed :: "crypto \<Rightarrow> nat \<Rightarrow> bytes \<Rightarrow> bytes \<Rightarrow> bytes option \<Rightarrow> bytes option" where
  "sae_pwd_seed c hash_len ssid password identifier =
     hkdf_extract c hash_len ssid (password # (case identifier of None \<Rightarrow> [] | Some x \<Rightarrow> [x]))"

definition sae_ecc_prime_len_2_hash_len :: "nat \<Rightarrow> nat" where
  "sae_ecc_prime_len_2_hash_len prime_len = (if prime_len \<le> 32 then 32 else if prime_len \<le> 48 then 48 else 64)"

definition sae_ffc_prime_len_2_hash_len :: "nat \<Rightarrow> nat" where
  "sae_ffc_prime_len_2_hash_len prime_len = (if prime_len \<le> 256 then 32 else if prime_len \<le> 384 then 48 else 64)"

text \<open>One of the two points that are added.\<close>

definition pt_point :: "'p sae_lib \<Rightarrow> crypto \<Rightarrow> 'p curve \<Rightarrow> int \<Rightarrow> nat \<Rightarrow> nat \<Rightarrow> bytes \<Rightarrow> string \<Rightarrow> 'p option" where
  "pt_point L c ec g hash_len pwd_value_len pwd_seed info =
     do {
       pwd_value \<leftarrow> hkdf_expand c hash_len (slice 0 hash_len pwd_seed) info pwd_value_len;
       bn \<leftarrow> bn_init_set L pwd_value;
       bn \<leftarrow> bn_mod L bn (cv_prime ec);
       bn_to_bin L bn 132 (cv_prime_len ec);
       sswu L ec g bn
     }"

definition sae_derive_pt_ecc ::
  "'p sae_lib \<Rightarrow> crypto \<Rightarrow> 'p curve \<Rightarrow> int \<Rightarrow> bytes \<Rightarrow> bytes \<Rightarrow> bytes option \<Rightarrow> 'p option" where
  "sae_derive_pt_ecc L c ec g ssid password identifier =
     (let prime_len = cv_prime_len ec
      in if prime_len > 66 then None
      else let hash_len = sae_ecc_prime_len_2_hash_len prime_len; pwd_value_len = prime_len + (prime_len + 1) div 2
      in do {
           pwd_seed \<leftarrow> sae_pwd_seed c hash_len ssid password identifier;
           p1 \<leftarrow> pt_point L c ec g hash_len pwd_value_len pwd_seed ''SAE Hash to Element u1 P1'';
           p2 \<leftarrow> pt_point L c ec g hash_len pwd_value_len pwd_seed ''SAE Hash to Element u2 P2'';
           if sl_alloc L ''point'' then cv_add ec p1 p2 else None
         })"

definition sae_derive_pt_ffc ::
  "'p sae_lib \<Rightarrow> crypto \<Rightarrow> dh_group \<Rightarrow> bytes \<Rightarrow> bytes \<Rightarrow> bytes option \<Rightarrow> nat option" where
  "sae_derive_pt_ffc L c dh ssid password identifier =
     (let prime_len = length (dh_prime dh); pwd_value_len = prime_len + (prime_len + 1) div 2
      in do {
           prime \<leftarrow> bn_init_set L (dh_prime dh);
           order \<leftarrow> bn_init_set L (dh_order dh);
           (if prime_len > 512 \<or> pwd_value_len > 768 then None else Some ());
           let hash_len = sae_ffc_prime_len_2_hash_len prime_len;
           pwd_seed \<leftarrow> sae_pwd_seed c hash_len ssid password identifier;
           pwd_value \<leftarrow> hkdf_expand c hash_len (slice 0 hash_len pwd_seed) ''SAE Hash to Element'' pwd_value_len;
           bn \<leftarrow> bn_init_set L pwd_value;
           (if sl_alloc L ''bignum'' then Some () else None);
           t \<leftarrow> bn_sub L prime 2;
           bn \<leftarrow> bn_mod L bn t;
           bn \<leftarrow> bn_add L bn 2;
           bn_to_bin L bn 768 prime_len;
           t \<leftarrow> bn_sub L prime 1;
           t \<leftarrow> bn_div L t order;
           bn_exptmod L bn t prime
         })"

text \<open>\<^verbatim>\<open>struct sae_pt\<close>; the list that its field \<^verbatim>\<open>next\<close> makes is a list.\<close>

record 'p sae_pt =
  pt_group :: int
  pt_ec :: "'p curve option"
  pt_ecc_pt :: "'p option"
  pt_dh :: "dh_group option"
  pt_ffc_pt :: "nat option"

definition sae_derive_pt_group ::
  "'p sae_lib \<Rightarrow> crypto \<Rightarrow> int \<Rightarrow> bytes \<Rightarrow> bytes \<Rightarrow> bytes option \<Rightarrow> 'p sae_pt option" where
  "sae_derive_pt_group L c g ssid password identifier =
     (if length ssid > 32 \<or> \<not> sl_alloc L ''pt'' then None
      else case sl_ec_init L g of
        Some ec \<Rightarrow>
          map_option (\<lambda>P. \<lparr> pt_group = g, pt_ec = Some ec, pt_ecc_pt = Some P, pt_dh = None, pt_ffc_pt = None \<rparr>)
            (sae_derive_pt_ecc L c ec g ssid password identifier)
      | None \<Rightarrow>
      case sl_dh_groups_get L g of
        None \<Rightarrow> None
      | Some dh \<Rightarrow>
          map_option (\<lambda>P. \<lparr> pt_group = g, pt_ec = None, pt_ecc_pt = None, pt_dh = Some dh, pt_ffc_pt = Some P \<rparr>)
            (sae_derive_pt_ffc L c dh ssid password identifier))"

definition sae_derive_pt ::
  "'p sae_lib \<Rightarrow> crypto \<Rightarrow> int list option \<Rightarrow> bytes \<Rightarrow> bytes \<Rightarrow> bytes option \<Rightarrow> 'p sae_pt list" where
  "sae_derive_pt L c groups ssid password identifier =
     List.map_filter (\<lambda>g. sae_derive_pt_group L c g ssid password identifier)
       (takeWhile (\<lambda>g. g > 0) (case groups of None \<Rightarrow> [19, 0] | Some l \<Rightarrow> l))"

definition sae_max_min_addr :: "bytes \<Rightarrow> bytes \<Rightarrow> bytes list" where
  "sae_max_min_addr addr1 addr2 = (if os_memcmp addr1 addr2 > 0 then [addr1, addr2] else [addr2, addr1])"

text \<open>The factor from the addresses, between 1 and the order.\<close>

definition pwe_factor :: "'p sae_lib \<Rightarrow> crypto \<Rightarrow> nat \<Rightarrow> nat \<Rightarrow> bytes \<Rightarrow> bytes \<Rightarrow> nat option" where
  "pwe_factor L c hash_len order addr1 addr2 =
     do {
       hash \<leftarrow> hkdf_extract c hash_len (zeros hash_len) (sae_max_min_addr addr1 addr2);
       (if sl_alloc L ''bignum'' then Some () else None);
       val \<leftarrow> bn_init_set L (slice 0 hash_len hash);
       t \<leftarrow> bn_sub L order 1;
       val \<leftarrow> bn_mod L val t;
       bn_add L val 1
     }"

definition sae_derive_pwe_from_pt_ecc ::
  "'p sae_lib \<Rightarrow> crypto \<Rightarrow> 'p curve \<Rightarrow> 'p \<Rightarrow> bytes \<Rightarrow> bytes \<Rightarrow> 'p option" where
  "sae_derive_pwe_from_pt_ecc L c ec ecc_pt addr1 addr2 =
     do {
       cv_to_bin ec ecc_pt;
       val \<leftarrow> pwe_factor L c (sae_ecc_prime_len_2_hash_len (cv_prime_len ec)) (cv_order ec) addr1 addr2;
       (if sl_alloc L ''point'' then Some () else None);
       pwe \<leftarrow> cv_mul ec ecc_pt val;
       cv_to_bin ec pwe;
       Some pwe
     }"

definition sae_derive_pwe_from_pt_ffc ::
  "'p sae_lib \<Rightarrow> crypto \<Rightarrow> dh_group \<Rightarrow> nat \<Rightarrow> bytes \<Rightarrow> bytes \<Rightarrow> nat option" where
  "sae_derive_pwe_from_pt_ffc L c dh ffc_pt addr1 addr2 =
     do {
       prime \<leftarrow> bn_init_set L (dh_prime dh);
       order \<leftarrow> bn_init_set L (dh_order dh);
       val \<leftarrow> pwe_factor L c (sae_ffc_prime_len_2_hash_len (length (dh_prime dh))) order addr1 addr2;
       bn_exptmod L ffc_pt val prime
     }"

end
