(* ===== verification/SAE.thy ===== *)
theory SAE
  imports SAE_PWE
begin

text \<open>
  Simultaneous authentication of equals, \<^verbatim>\<open>src/common/sae.c\<close>: the commit and confirm messages.
  The result of a function that may use a \<^verbatim>\<open>NULL\<close> operand of the library or an octet that was not
  written is \<^const>\<open>None\<close> in that case; otherwise it is the result of the C function.
  A value that the C code leaves unspecified after a failed call stays as it was.
\<close>

unbundle bit_operations_syntax

section \<open>Preparing a commit\<close>

definition sae_derive_commit_element_ecc :: "'p sae_lib \<Rightarrow> 'p curve \<Rightarrow> nat \<Rightarrow> 'p sae_tmp \<Rightarrow> (int \<times> 'p sae_tmp) option" where
  "sae_derive_commit_element_ecc L ec msk tmp =
     (if own_commit_element_ecc tmp = None \<and> \<not> sl_alloc L ''point'' then Some (-1, tmp)
      else case pwe_ecc tmp of
        None \<Rightarrow> None
      | Some P \<Rightarrow>
          (case do { E \<leftarrow> cv_mul ec P msk; cv_invert ec E } of
             None \<Rightarrow> Some (-1, tmp)
           | Some E \<Rightarrow> Some (0, tmp\<lparr> own_commit_element_ecc := Some E \<rparr>)))"

definition sae_derive_commit_element_ffc :: "'p sae_lib \<Rightarrow> nat \<Rightarrow> 'p sae_tmp \<Rightarrow> (int \<times> 'p sae_tmp) option" where
  "sae_derive_commit_element_ffc L msk tmp =
     (if own_commit_element_ffc tmp = None \<and> \<not> sl_alloc L ''bignum'' then Some (-1, tmp)
      else case pwe_ffc tmp of
        None \<Rightarrow> None
      | Some P \<Rightarrow>
          (case do { E \<leftarrow> bn_exptmod L P msk (sae_prime tmp); bn_inverse L E (sae_prime tmp) } of
             None \<Rightarrow> Some (-1, tmp)
           | Some E \<Rightarrow> Some (0, tmp\<lparr> own_commit_element_ffc := Some E \<rparr>)))"

text \<open>A group is a curve or a finite field; without one the order is a \<^verbatim>\<open>NULL\<close> pointer.\<close>

definition sae_derive_commit :: "'p sae_lib \<Rightarrow> nat \<Rightarrow> 'p sae_tmp \<Rightarrow> (int \<times> 'p sae_tmp \<times> nat) option" where
  "sae_derive_commit L i tmp =
     (if \<not> sl_alloc L ''bignum'' then Some (-1, tmp, i)
      else if sae_ec tmp = None \<and> sae_dh tmp = None then None
      else case dragonfly_generate_scalar L (sae_order tmp) i of
        (None, i) \<Rightarrow> Some (-1, tmp, i)
      | (Some (rnd, msk, s), i) \<Rightarrow>
          let tmp = tmp\<lparr> sae_rand := Some rnd, own_commit_scalar := Some s \<rparr>
          in case (case sae_ec tmp of None \<Rightarrow> Some (0, tmp) | Some ec \<Rightarrow> sae_derive_commit_element_ecc L ec msk tmp) of
               None \<Rightarrow> None
             | Some (r, tmp) \<Rightarrow>
                 if r < 0 then Some (-1, tmp, i)
                 else case (if sae_dh tmp = None then Some (0, tmp) else sae_derive_commit_element_ffc L msk tmp) of
                        None \<Rightarrow> None
                      | Some (r, tmp) \<Rightarrow> Some (if r < 0 then -1 else 0, tmp, i))"

definition sae_prepare_commit ::
  "'p sae_lib \<Rightarrow> crypto \<Rightarrow> bytes \<Rightarrow> bytes \<Rightarrow> bytes \<Rightarrow> nat \<Rightarrow> 'p sae_data \<Rightarrow> (int \<times> 'p sae_data \<times> nat) option" where
  "sae_prepare_commit L c addr1 addr2 password i sae =
     (case sae_tmp sae of
        None \<Rightarrow> Some (-1, sae, i)
      | Some tmp \<Rightarrow>
      case (case sae_ec tmp of None \<Rightarrow> Some (0, tmp, i)
            | Some ec \<Rightarrow> sae_derive_pwe_ecc L c (sae_group sae) ec addr1 addr2 password i tmp) of
        None \<Rightarrow> None
      | Some (r, tmp, i) \<Rightarrow>
      if r < 0 then Some (-1, sae\<lparr> sae_tmp := Some tmp \<rparr>, i)
      else let (r, tmp) = (case sae_dh tmp of None \<Rightarrow> (0, tmp)
                           | Some dh \<Rightarrow> sae_derive_pwe_ffc L c (sae_group sae) dh addr1 addr2 password tmp)
      in if r < 0 then Some (-1, sae\<lparr> sae_tmp := Some tmp \<rparr>, i)
      else map_option (\<lambda>(r, tmp, i). (r, sae\<lparr> sae_h2e := False, sae_tmp := Some tmp \<rparr>, i)) (sae_derive_commit L i tmp))"

definition rejected_groups_buf :: "int list \<Rightarrow> bytes" where
  "rejected_groups_buf groups = concat (map (\<lambda>g. WPA_PUT_LE16 (word_of_int g)) (takeWhile (\<lambda>g. g \<noteq> 0) groups))"

definition sae_prepare_commit_pt ::
  "'p sae_lib \<Rightarrow> crypto \<Rightarrow> 'p sae_pt list \<Rightarrow> bytes \<Rightarrow> bytes \<Rightarrow> int list option \<Rightarrow> nat \<Rightarrow> 'p sae_data \<Rightarrow>
   (int \<times> 'p sae_data \<times> nat) option" where
  "sae_prepare_commit_pt L c pts addr1 addr2 rejected_groups i sae =
     (case sae_tmp sae of
        None \<Rightarrow> Some (-1, sae, i)
      | Some tmp \<Rightarrow>
      case List.find (\<lambda>pt. pt_group pt = sae_group sae) pts of
        None \<Rightarrow> Some (-1, sae, i)
      | Some pt \<Rightarrow>
      let tmp = tmp\<lparr> own_addr_higher := os_memcmp addr1 addr2 > 0, own_rejected_groups := None \<rparr>
      in if rejected_groups \<noteq> None \<and> \<not> sl_alloc L ''rejected_groups'' then Some (-1, sae\<lparr> sae_tmp := Some tmp \<rparr>, i)
      else let tmp = tmp\<lparr> own_rejected_groups := map_option rejected_groups_buf rejected_groups \<rparr>;
               pwe = (case (pt_ec pt, pt_ecc_pt pt) of (Some ec, Some P) \<Rightarrow> sae_derive_pwe_from_pt_ecc L c ec P addr1 addr2 | _ \<Rightarrow> None);
               tmp = (if pt_ec pt = None then tmp else tmp\<lparr> pwe_ecc := pwe \<rparr>)
      in if pt_ec pt \<noteq> None \<and> pwe = None then Some (-1, sae\<lparr> sae_tmp := Some tmp \<rparr>, i)
      else let pwe = (case (pt_dh pt, pt_ffc_pt pt) of (Some dh, Some P) \<Rightarrow> sae_derive_pwe_from_pt_ffc L c dh P addr1 addr2 | _ \<Rightarrow> None);
               tmp = (if pt_dh pt = None then tmp else tmp\<lparr> pwe_ffc := pwe \<rparr>)
      in if pt_dh pt \<noteq> None \<and> pwe = None then Some (-1, sae\<lparr> sae_tmp := Some tmp \<rparr>, i)
      else map_option (\<lambda>(r, tmp, i). (r, sae\<lparr> sae_h2e := True, sae_tmp := Some tmp \<rparr>, i)) (sae_derive_commit L i tmp))"


section \<open>The keys\<close>

text \<open>The outer \<^const>\<open>None\<close> is a \<^verbatim>\<open>NULL\<close> operand, the inner one a failure.\<close>

definition sae_derive_k_ecc :: "'p sae_lib \<Rightarrow> 'p curve \<Rightarrow> nat option \<Rightarrow> 'p sae_tmp \<Rightarrow> bytes option option" where
  "sae_derive_k_ecc L ec peer_scalar tmp =
     (if \<not> sl_alloc L ''point'' then Some None
      else case (pwe_ecc tmp, peer_scalar, peer_commit_element_ecc tmp, sae_rand tmp) of
        (Some P, Some s, Some E, Some r) \<Rightarrow>
          Some (do {
            K \<leftarrow> cv_mul ec P s;
            K \<leftarrow> cv_add ec K E;
            K \<leftarrow> cv_mul ec K r;
            if cv_is_at_infinity ec K then None else map_option fst (cv_to_bin ec K)
          })
      | _ \<Rightarrow> None)"

definition sae_derive_k_ffc :: "'p sae_lib \<Rightarrow> nat option \<Rightarrow> 'p sae_tmp \<Rightarrow> bytes option option" where
  "sae_derive_k_ffc L peer_scalar tmp =
     (if \<not> sl_alloc L ''bignum'' then Some None
      else case (pwe_ffc tmp, peer_scalar, peer_commit_element_ffc tmp, sae_rand tmp) of
        (Some P, Some s, Some E, Some r) \<Rightarrow>
          Some (do {
            K \<leftarrow> bn_exptmod L P s (sae_prime tmp);
            K \<leftarrow> bn_mulmod L K E (sae_prime tmp);
            K \<leftarrow> bn_exptmod L K r (sae_prime tmp);
            if K = 1 then None else bn_to_bin L K 512 (sae_prime_len tmp)
          })
      | _ \<Rightarrow> None)"

definition sae_kdf_hash :: "crypto \<Rightarrow> nat \<Rightarrow> bytes \<Rightarrow> string \<Rightarrow> bytes \<Rightarrow> nat \<Rightarrow> bytes option" where
  "sae_kdf_hash c hash_len k lbl ctx out_len =
     (if hash_len = 32 then sha256_prf c (slice 0 hash_len k) lbl ctx out_len
      else if hash_len = 48 then sha384_prf c (slice 0 hash_len k) lbl ctx out_len
      else if hash_len = 64 then sha512_prf c (slice 0 hash_len k) lbl ctx out_len
      else None)"

definition sae_hash_len :: "bool \<Rightarrow> 'p sae_tmp \<Rightarrow> nat" where
  "sae_hash_len h2e tmp =
     (if \<not> h2e then 32
      else if sae_dh tmp \<noteq> None then sae_ffc_prime_len_2_hash_len (sae_prime_len tmp)
      else sae_ecc_prime_len_2_hash_len (sae_prime_len tmp))"

definition buf_or_empty :: "bytes option \<Rightarrow> bytes" where
  "buf_or_empty b = (case b of None \<Rightarrow> [] | Some x \<Rightarrow> x)"

definition sae_salt :: "bool \<Rightarrow> 'p sae_tmp \<Rightarrow> bytes" where
  "sae_salt h2e tmp =
     (if h2e \<and> (own_rejected_groups tmp \<noteq> None \<or> peer_rejected_groups tmp \<noteq> None)
      then let own = buf_or_empty (own_rejected_groups tmp); peer = buf_or_empty (peer_rejected_groups tmp)
           in if own_addr_higher tmp then own @ peer else peer @ own
      else zeros (sae_hash_len h2e tmp))"

definition sae_derive_keys :: "'p sae_lib \<Rightarrow> crypto \<Rightarrow> bytes \<Rightarrow> 'p sae_tmp \<Rightarrow> 'p sae_data \<Rightarrow> (int \<times> 'p sae_data) option" where
  "sae_derive_keys L c k tmp sae =
     (let hash_len = sae_hash_len (sae_h2e sae) tmp
      in if \<not> sl_alloc L ''bignum'' then Some (-1, sae)
      else if sae_h2e sae \<and> (own_rejected_groups tmp \<noteq> None \<or> peer_rejected_groups tmp \<noteq> None) \<and>
              \<not> sl_alloc L ''rejected_groups'' then Some (-1, sae)
      else case hkdf_extract c hash_len (sae_salt (sae_h2e sae) tmp) [slice 0 (sae_prime_len tmp) k] of
        None \<Rightarrow> Some (-1, sae)
      | Some keyseed \<Rightarrow>
      case (own_commit_scalar tmp, peer_commit_scalar sae) of
        (Some s1, Some s2) \<Rightarrow>
          (case do { t \<leftarrow> bn_add L s1 s2; bn_mod L t (sae_order tmp) } of
             None \<Rightarrow> Some (-1, sae)
           | Some t \<Rightarrow>
           case bn_to_bin L t 512 (sae_order_len tmp) of
             None \<Rightarrow> None
           | Some val \<Rightarrow>
           case sae_kdf_hash c hash_len keyseed ''SAE KCK and PMK'' val (hash_len + 32) of
             None \<Rightarrow> Some (-1, sae)
           | Some keys \<Rightarrow>
               Some (0, sae\<lparr> sae_tmp := Some (tmp\<lparr> sae_kck := slice 0 hash_len keys \<rparr>),
                 sae_pmk := slice hash_len 32 keys, sae_pmkid := slice 0 16 val \<rparr>))
      | _ \<Rightarrow> None)"

definition sae_process_commit :: "'p sae_lib \<Rightarrow> crypto \<Rightarrow> 'p sae_data \<Rightarrow> (int \<times> 'p sae_data) option" where
  "sae_process_commit L c sae =
     (case sae_tmp sae of
        None \<Rightarrow> Some (-1, sae)
      | Some tmp \<Rightarrow>
      case (case sae_dh tmp of
              Some dh \<Rightarrow> sae_derive_k_ffc L (peer_commit_scalar sae) tmp
            | None \<Rightarrow> (case sae_ec tmp of Some ec \<Rightarrow> sae_derive_k_ecc L ec (peer_commit_scalar sae) tmp | None \<Rightarrow> None)) of
        None \<Rightarrow> None
      | Some None \<Rightarrow> Some (-1, sae)
      | Some (Some k) \<Rightarrow> sae_derive_keys L c k tmp sae)"


section \<open>The commit message\<close>

abbreviation (input) WLAN_EID_EXT_PASSWORD_IDENTIFIER :: byte where "WLAN_EID_EXT_PASSWORD_IDENTIFIER \<equiv> 33"
abbreviation (input) WLAN_EID_EXT_REJECTED_GROUPS :: byte where "WLAN_EID_EXT_REJECTED_GROUPS \<equiv> 92"
abbreviation (input) WLAN_EID_EXT_ANTI_CLOGGING_TOKEN :: byte where "WLAN_EID_EXT_ANTI_CLOGGING_TOKEN \<equiv> 93"
abbreviation (input) WLAN_STATUS_UNKNOWN_PASSWORD_IDENTIFIER :: u16 where "WLAN_STATUS_UNKNOWN_PASSWORD_IDENTIFIER \<equiv> 123"
abbreviation (input) SAE_SILENTLY_DISCARD :: u16 where "SAE_SILENTLY_DISCARD \<equiv> 65535"

definition ext_element :: "byte \<Rightarrow> bytes option \<Rightarrow> bytes" where
  "ext_element ext_id d = (case d of None \<Rightarrow> [] | Some x \<Rightarrow> [WLAN_EID_EXTENSION, of_nat (1 + length x), ext_id] @ x)"

text \<open>The inner \<^const>\<open>None\<close> is the result -1.\<close>

definition sae_write_commit :: "'p sae_lib \<Rightarrow> bytes option \<Rightarrow> bytes option \<Rightarrow> 'p sae_data \<Rightarrow> bytes option option" where
  "sae_write_commit L token identifier sae =
     (case sae_tmp sae of
        None \<Rightarrow> Some None
      | Some tmp \<Rightarrow>
      case own_commit_scalar tmp of
        None \<Rightarrow> None
      | Some s \<Rightarrow>
      case bn_to_bin L s (sae_prime_len tmp) (sae_prime_len tmp) of
        None \<Rightarrow> Some None
      | Some scalar \<Rightarrow>
      case (case sae_ec tmp of
              Some ec \<Rightarrow> map_option (\<lambda>E. map_option (\<lambda>(x, y). x @ y) (cv_to_bin ec E)) (own_commit_element_ecc tmp)
            | None \<Rightarrow> map_option (\<lambda>E. bn_to_bin L E (sae_prime_len tmp) (sae_prime_len tmp)) (own_commit_element_ffc tmp)) of
        None \<Rightarrow> None
      | Some None \<Rightarrow> Some None
      | Some (Some element) \<Rightarrow> Some (Some (
          WPA_PUT_LE16 (word_of_int (sae_group sae)) @
          (if sae_h2e sae then [] else buf_or_empty token) @ scalar @ element @
          ext_element WLAN_EID_EXT_PASSWORD_IDENTIFIER identifier @
          (if sae_h2e sae then ext_element WLAN_EID_EXT_REJECTED_GROUPS (own_rejected_groups tmp) else []) @
          (if sae_h2e sae then ext_element WLAN_EID_EXT_ANTI_CLOGGING_TOKEN token else []))))"

definition sae_group_allowed :: "'p sae_lib \<Rightarrow> int list option \<Rightarrow> u16 \<Rightarrow> 'p sae_data \<Rightarrow> u16 \<times> 'p sae_data" where
  "sae_group_allowed L allowed_groups g sae =
     (if (case allowed_groups of None \<Rightarrow> False
          | Some l \<Rightarrow> (case dropWhile (\<lambda>x. x > 0 \<and> x \<noteq> uint g) l of [] \<Rightarrow> True | x # _ \<Rightarrow> x \<noteq> uint g))
      then (WLAN_STATUS_FINITE_CYCLIC_GROUP_NOT_SUPPORTED, sae)
      else if sae_state sae = SAE_COMMITTED \<and> uint g \<noteq> sae_group sae then (WLAN_STATUS_FINITE_CYCLIC_GROUP_NOT_SUPPORTED, sae)
      else let (r, sae) = (if uint g \<noteq> sae_group sae then sae_set_group L (uint g) sae else (0, sae))
      in if r < 0 then (WLAN_STATUS_FINITE_CYCLIC_GROUP_NOT_SUPPORTED, sae)
      else case sae_tmp sae of
             None \<Rightarrow> (WLAN_STATUS_UNSPECIFIED_FAILURE, sae)
           | Some tmp \<Rightarrow>
               if sae_dh tmp \<noteq> None \<and> allowed_groups = None then (WLAN_STATUS_FINITE_CYCLIC_GROUP_NOT_SUPPORTED, sae)
               else (WLAN_STATUS_SUCCESS, sae))"

text \<open>The argument \<open>rest\<close> stands for the octets from \<^verbatim>\<open>pos\<close> to \<^verbatim>\<open>end\<close>.\<close>

definition is_ext_elem :: "byte \<Rightarrow> byte \<Rightarrow> bytes \<Rightarrow> bool" where
  "is_ext_elem min_len ext_id rest \<longleftrightarrow>
     length rest \<ge> 3 \<and> rest ! 0 = WLAN_EID_EXTENSION \<and> rest ! 1 \<ge> min_len \<and> length rest - 2 \<ge> unat (rest ! 1) \<and>
     rest ! 2 = ext_id"

definition sae_is_password_id_elem :: "bytes \<Rightarrow> bool" where
  "sae_is_password_id_elem = is_ext_elem 1 WLAN_EID_EXT_PASSWORD_IDENTIFIER"

definition sae_is_rejected_groups_elem :: "bytes \<Rightarrow> bool" where
  "sae_is_rejected_groups_elem = is_ext_elem 2 WLAN_EID_EXT_REJECTED_GROUPS"

definition sae_is_token_container_elem :: "bytes \<Rightarrow> bool" where
  "sae_is_token_container_elem = is_ext_elem 1 WLAN_EID_EXT_ANTI_CLOGGING_TOKEN"

text \<open>The token and the octets after it.\<close>

definition sae_parse_commit_token :: "bool \<Rightarrow> 'p sae_tmp \<Rightarrow> bytes \<Rightarrow> bytes option \<times> bytes" where
  "sae_parse_commit_token h2e tmp rest =
     (if h2e then (None, rest)
      else let scalar_elem_len = (if sae_ec tmp \<noteq> None then 3 else 2) * sae_prime_len tmp
      in if scalar_elem_len \<ge> length rest then (None, rest)
      else let tlen = length rest - scalar_elem_len
      in if tlen < 32 then (None, rest) else (Some (take tlen rest), drop tlen rest))"

definition sae_parse_token_container :: "bytes \<Rightarrow> bytes option" where
  "sae_parse_token_container rest =
     (if sae_is_token_container_elem rest then Some (slice 3 (unat (rest ! 1) - 1) rest) else None)"

definition sae_parse_commit_scalar :: "'p sae_lib \<Rightarrow> bytes \<Rightarrow> 'p sae_tmp \<Rightarrow> 'p sae_data \<Rightarrow> u16 \<times> bytes \<times> 'p sae_data" where
  "sae_parse_commit_scalar L rest tmp sae =
     (if sae_prime_len tmp > length rest then (WLAN_STATUS_UNSPECIFIED_FAILURE, rest, sae)
      else case bn_init_set L (take (sae_prime_len tmp) rest) of
        None \<Rightarrow> (WLAN_STATUS_UNSPECIFIED_FAILURE, rest, sae)
      | Some s \<Rightarrow>
          if sae_state sae = SAE_ACCEPTED \<and> peer_commit_scalar_accepted sae = Some s then (WLAN_STATUS_UNSPECIFIED_FAILURE, rest, sae)
          else if s = 0 \<or> s = 1 \<or> s \<ge> sae_order tmp then (WLAN_STATUS_UNSPECIFIED_FAILURE, rest, sae)
          else (WLAN_STATUS_SUCCESS, drop (sae_prime_len tmp) rest, sae\<lparr> peer_commit_scalar := Some s \<rparr>))"

definition sae_parse_commit_element_ecc :: "'p sae_lib \<Rightarrow> 'p curve \<Rightarrow> bytes \<Rightarrow> 'p sae_tmp \<Rightarrow> u16 \<times> bytes \<times> 'p sae_tmp" where
  "sae_parse_commit_element_ecc L ec rest tmp =
     (let prime_len = sae_prime_len tmp
      in if 2 * prime_len > length rest then (WLAN_STATUS_UNSPECIFIED_FAILURE, rest, tmp)
      else case bn_to_bin L (sae_prime tmp) 66 prime_len of
        None \<Rightarrow> (WLAN_STATUS_UNSPECIFIED_FAILURE, rest, tmp)
      | Some prime \<Rightarrow>
          if os_memcmp (slice 0 prime_len rest) prime \<ge> 0 \<or> os_memcmp (slice prime_len prime_len rest) prime \<ge> 0
          then (WLAN_STATUS_UNSPECIFIED_FAILURE, rest, tmp)
          else let E = cv_from_bin ec (take (2 * prime_len) rest); tmp = tmp\<lparr> peer_commit_element_ecc := E \<rparr>
          in case E of
               None \<Rightarrow> (WLAN_STATUS_UNSPECIFIED_FAILURE, rest, tmp)
             | Some E \<Rightarrow>
                 if \<not> cv_is_on_curve ec E then (WLAN_STATUS_UNSPECIFIED_FAILURE, rest, tmp)
                 else (WLAN_STATUS_SUCCESS, drop (2 * prime_len) rest, tmp))"

definition sae_parse_commit_element_ffc :: "'p sae_lib \<Rightarrow> bytes \<Rightarrow> 'p sae_tmp \<Rightarrow> u16 \<times> bytes \<times> 'p sae_tmp" where
  "sae_parse_commit_element_ffc L rest tmp =
     (let prime_len = sae_prime_len tmp
      in if prime_len > length rest then (WLAN_STATUS_UNSPECIFIED_FAILURE, rest, tmp)
      else let E = bn_init_set L (take prime_len rest); tmp = tmp\<lparr> peer_commit_element_ffc := E \<rparr>
      in case E of
        None \<Rightarrow> (WLAN_STATUS_UNSPECIFIED_FAILURE, rest, tmp)
      | Some E \<Rightarrow>
      case (if sl_alloc L ''bignum'' then do { one \<leftarrow> bn_init_set L [1]; bn_sub L (sae_prime tmp) one } else None) of
        None \<Rightarrow> (WLAN_STATUS_UNSPECIFIED_FAILURE, rest, tmp)
      | Some pm1 \<Rightarrow>
          if E = 0 \<or> E = 1 \<or> E \<ge> pm1 then (WLAN_STATUS_UNSPECIFIED_FAILURE, rest, tmp)
          else if bn_exptmod L E (sae_order tmp) (sae_prime tmp) \<noteq> Some 1 then (WLAN_STATUS_UNSPECIFIED_FAILURE, rest, tmp)
          else (WLAN_STATUS_SUCCESS, drop prime_len rest, tmp))"

definition sae_parse_commit_element :: "'p sae_lib \<Rightarrow> bytes \<Rightarrow> 'p sae_tmp \<Rightarrow> u16 \<times> bytes \<times> 'p sae_tmp" where
  "sae_parse_commit_element L rest tmp =
     (if sae_dh tmp \<noteq> None then sae_parse_commit_element_ffc L rest tmp
      else case sae_ec tmp of
             Some ec \<Rightarrow> sae_parse_commit_element_ecc L ec rest tmp
           | None \<Rightarrow> (WLAN_STATUS_UNSPECIFIED_FAILURE, rest, tmp))"

definition sae_parse_password_identifier :: "'p sae_lib \<Rightarrow> bytes \<Rightarrow> 'p sae_tmp \<Rightarrow> u16 \<times> bytes \<times> 'p sae_tmp" where
  "sae_parse_password_identifier L rest tmp =
     (if \<not> sae_is_password_id_elem rest
      then if sae_pw_id tmp \<noteq> None then (WLAN_STATUS_UNKNOWN_PASSWORD_IDENTIFIER, rest, tmp)
           else (WLAN_STATUS_SUCCESS, rest, tmp)
      else let len = unat (rest ! 1) - 1; ident = slice 3 len rest
      in if (case sae_pw_id tmp of None \<Rightarrow> False
             | Some old \<Rightarrow> len \<noteq> length (takeWhile (\<lambda>b. b \<noteq> 0) old) \<or> take len old \<noteq> ident)
         then (WLAN_STATUS_UNKNOWN_PASSWORD_IDENTIFIER, rest, tmp)
      else if \<not> sl_alloc L ''pw_id'' then (WLAN_STATUS_UNSPECIFIED_FAILURE, rest, tmp\<lparr> sae_pw_id := None \<rparr>)
      else (WLAN_STATUS_SUCCESS, drop (3 + len) rest, tmp\<lparr> sae_pw_id := Some ident \<rparr>))"

definition sae_parse_rejected_groups :: "'p sae_lib \<Rightarrow> bytes \<Rightarrow> 'p sae_tmp \<Rightarrow> u16 \<times> bytes \<times> 'p sae_tmp" where
  "sae_parse_rejected_groups L rest tmp =
     (if \<not> sae_is_rejected_groups_elem rest then (WLAN_STATUS_SUCCESS, rest, tmp)
      else let len = unat (rest ! 1) - 1
      in if \<not> sl_alloc L ''rejected_groups'' then (WLAN_STATUS_UNSPECIFIED_FAILURE, rest, tmp\<lparr> peer_rejected_groups := None \<rparr>)
      else (WLAN_STATUS_SUCCESS, drop (3 + len) rest, tmp\<lparr> peer_rejected_groups := Some (slice 3 len rest) \<rparr>))"

text \<open>The scalar and the element are those that were sent.\<close>

definition sae_reflected :: "'p sae_tmp \<Rightarrow> 'p sae_data \<Rightarrow> bool" where
  "sae_reflected tmp sae \<longleftrightarrow>
     own_commit_scalar tmp \<noteq> None \<and> own_commit_scalar tmp = peer_commit_scalar sae \<and>
     (sae_dh tmp \<noteq> None \<longrightarrow> own_commit_element_ffc tmp \<noteq> None \<and> own_commit_element_ffc tmp = peer_commit_element_ffc tmp) \<and>
     (case sae_ec tmp of
        None \<Rightarrow> True
      | Some ec \<Rightarrow>
          (case (own_commit_element_ecc tmp, peer_commit_element_ecc tmp) of
             (Some a, Some b) \<Rightarrow> cv_cmp ec a b = 0
           | _ \<Rightarrow> False))"

text \<open>The result: status, token and state.\<close>

definition sae_parse_commit ::
  "'p sae_lib \<Rightarrow> bytes \<Rightarrow> int list option \<Rightarrow> bool \<Rightarrow> 'p sae_data \<Rightarrow> u16 \<times> bytes option \<times> 'p sae_data" where
  "sae_parse_commit L data allowed_groups h2e sae =
     (if length data < 2 then (WLAN_STATUS_UNSPECIFIED_FAILURE, None, sae)
      else let (res, sae) = sae_group_allowed L allowed_groups (the (WPA_GET_LE16 data 0)) sae
      in if res \<noteq> WLAN_STATUS_SUCCESS then (res, None, sae)
      else let tmp = the (sae_tmp sae); (token, rest) = sae_parse_commit_token h2e tmp (drop 2 data);
               (res, rest, sae) = sae_parse_commit_scalar L rest tmp sae
      in if res \<noteq> WLAN_STATUS_SUCCESS then (res, token, sae)
      else let (res, rest, tmp) = sae_parse_commit_element L rest tmp
      in if res \<noteq> WLAN_STATUS_SUCCESS then (res, token, sae\<lparr> sae_tmp := Some tmp \<rparr>)
      else let (res, rest, tmp) = sae_parse_password_identifier L rest tmp
      in if res \<noteq> WLAN_STATUS_SUCCESS then (res, token, sae\<lparr> sae_tmp := Some tmp \<rparr>)
      else let (res, rest, tmp) = (if h2e then sae_parse_rejected_groups L rest tmp else (WLAN_STATUS_SUCCESS, rest, tmp))
      in if res \<noteq> WLAN_STATUS_SUCCESS then (res, token, sae\<lparr> sae_tmp := Some tmp \<rparr>)
      else let token = (if h2e then (case sae_parse_token_container rest of None \<Rightarrow> token | Some t \<Rightarrow> Some t) else token);
               sae = sae\<lparr> sae_tmp := Some tmp \<rparr>
      in (if sae_reflected tmp sae then SAE_SILENTLY_DISCARD else WLAN_STATUS_SUCCESS, token, sae))"


section \<open>The confirm message\<close>

definition sae_cn_confirm :: "'p sae_lib \<Rightarrow> crypto \<Rightarrow> 'p sae_tmp \<Rightarrow> bytes \<Rightarrow> nat \<Rightarrow> bytes \<Rightarrow> nat \<Rightarrow> bytes \<Rightarrow> bytes option" where
  "sae_cn_confirm L c tmp sc scalar1 element1 scalar2 element2 =
     do {
       scalar_b1 \<leftarrow> bn_to_bin L scalar1 512 (sae_prime_len tmp);
       scalar_b2 \<leftarrow> bn_to_bin L scalar2 512 (sae_prime_len tmp);
       hkdf_extract c (length (sae_kck tmp)) (sae_kck tmp) [sc, scalar_b1, element1, scalar_b2, element2]
     }"

definition sae_cn_confirm_ecc :: "'p sae_lib \<Rightarrow> crypto \<Rightarrow> 'p curve \<Rightarrow> 'p sae_tmp \<Rightarrow> bytes \<Rightarrow> nat \<Rightarrow> 'p \<Rightarrow> nat \<Rightarrow> 'p \<Rightarrow> bytes option" where
  "sae_cn_confirm_ecc L c ec tmp sc scalar1 element1 scalar2 element2 =
     do {
       (x1, y1) \<leftarrow> cv_to_bin ec element1;
       (x2, y2) \<leftarrow> cv_to_bin ec element2;
       sae_cn_confirm L c tmp sc scalar1 (x1 @ y1) scalar2 (x2 @ y2)
     }"

definition sae_cn_confirm_ffc :: "'p sae_lib \<Rightarrow> crypto \<Rightarrow> 'p sae_tmp \<Rightarrow> bytes \<Rightarrow> nat \<Rightarrow> nat \<Rightarrow> nat \<Rightarrow> nat \<Rightarrow> bytes option" where
  "sae_cn_confirm_ffc L c tmp sc scalar1 element1 scalar2 element2 =
     do {
       e1 \<leftarrow> bn_to_bin L element1 512 (sae_prime_len tmp);
       e2 \<leftarrow> bn_to_bin L element2 512 (sae_prime_len tmp);
       sae_cn_confirm L c tmp sc scalar1 e1 scalar2 e2
     }"

definition sae_write_confirm :: "'p sae_lib \<Rightarrow> crypto \<Rightarrow> 'p sae_data \<Rightarrow> (bytes option \<times> 'p sae_data) option" where
  "sae_write_confirm L c sae =
     (case sae_tmp sae of
        None \<Rightarrow> Some (None, sae)
      | Some tmp \<Rightarrow>
      let sae = (if sae_send_confirm sae < 0xffff then sae\<lparr> sae_send_confirm := sae_send_confirm sae + 1 \<rparr> else sae);
          sc = WPA_PUT_LE16 (sae_send_confirm sae)
      in case (own_commit_scalar tmp, peer_commit_scalar sae) of
           (Some s1, Some s2) \<Rightarrow>
             (case (case sae_ec tmp of
                      Some ec \<Rightarrow> (case (own_commit_element_ecc tmp, peer_commit_element_ecc tmp) of
                                   (Some e1, Some e2) \<Rightarrow> Some (sae_cn_confirm_ecc L c ec tmp sc s1 e1 s2 e2) | _ \<Rightarrow> None)
                    | None \<Rightarrow> (case (own_commit_element_ffc tmp, peer_commit_element_ffc tmp) of
                                 (Some e1, Some e2) \<Rightarrow> Some (sae_cn_confirm_ffc L c tmp sc s1 e1 s2 e2) | _ \<Rightarrow> None)) of
                None \<Rightarrow> None
              | Some None \<Rightarrow> Some (None, sae)
              | Some (Some confirm) \<Rightarrow> Some (Some (sc @ confirm), sae))
         | _ \<Rightarrow> None)"

definition sae_check_confirm :: "'p sae_lib \<Rightarrow> crypto \<Rightarrow> bytes \<Rightarrow> 'p sae_data \<Rightarrow> int" where
  "sae_check_confirm L c data sae =
     (case sae_tmp sae of
        None \<Rightarrow> -1
      | Some tmp \<Rightarrow>
      let hash_len = length (sae_kck tmp)
      in if length data < 2 + hash_len then -1
      else case (peer_commit_scalar sae, own_commit_scalar tmp) of
        (Some s1, Some s2) \<Rightarrow>
          (case (case sae_ec tmp of
                   Some ec \<Rightarrow> (case (peer_commit_element_ecc tmp, own_commit_element_ecc tmp) of
                                (Some e1, Some e2) \<Rightarrow> sae_cn_confirm_ecc L c ec tmp (take 2 data) s1 e1 s2 e2 | _ \<Rightarrow> None)
                 | None \<Rightarrow> (case (peer_commit_element_ffc tmp, own_commit_element_ffc tmp) of
                              (Some e1, Some e2) \<Rightarrow> sae_cn_confirm_ffc L c tmp (take 2 data) s1 e1 s2 e2 | _ \<Rightarrow> None)) of
             None \<Rightarrow> -1
           | Some verifier \<Rightarrow> if slice 0 hash_len verifier = slice 2 hash_len data then 0 else -1)
      | _ \<Rightarrow> -1)"

definition sae_state_txt :: "sae_state \<Rightarrow> string" where
  "sae_state_txt s =
     (case s of SAE_NOTHING \<Rightarrow> ''Nothing'' | SAE_COMMITTED \<Rightarrow> ''Committed''
      | SAE_CONFIRMED \<Rightarrow> ''Confirmed'' | SAE_ACCEPTED \<Rightarrow> ''Accepted'')"

end
