(* ===== verification/SAE_Hunt.thy ===== *)
theory SAE_Hunt
  imports SAE_PWE
begin

text \<open>
  Hunting and pecking finds what a search with branches finds: the first counter whose
  value gives a password element.  The constant-time selections, the stub password and the
  blinding of the residue test do not change the result.
\<close>

section \<open>Octets and their order\<close>

lemma octets_nat_snoc: "octets_nat (xs @ [x]) = 256 * octets_nat xs + unat x"
  by (simp add: octets_nat_def)

lemma octets_nat_less: "octets_nat bs < 256 ^ length bs"
proof (induction bs rule: rev_induct)
  case (snoc x xs)
  have "256 * octets_nat xs + unat x < 256 * (octets_nat xs + 1)" using unat_octet [of x] by simp
  also have "\<dots> \<le> 256 * 256 ^ length xs" using snoc.IH by (simp only: mult_le_mono2 Suc_eq_plus1 [symmetric] Suc_le_eq)
  finally show ?case by (simp add: octets_nat_snoc)
qed (simp add: octets_nat_def)

lemma octets_nat_inj: "length xs = length ys \<Longrightarrow> octets_nat xs = octets_nat ys \<Longrightarrow> xs = ys"
proof (induction xs arbitrary: ys rule: rev_induct)
  case (snoc x xs)
  obtain ys' y where ys: "ys = ys' @ [y]" "length xs = length ys'" using snoc.prems(1) by (cases ys rule: rev_cases) auto
  then have e: "256 * octets_nat xs + unat x = 256 * octets_nat ys' + unat y"
    using snoc.prems(2) by (simp add: octets_nat_snoc)
  have "(256 * a + unat z) div 256 = a \<and> (256 * a + unat z) mod 256 = unat z" for a and z :: byte
    using unat_octet [of z] by simp
  then have "octets_nat xs = octets_nat ys'" "unat x = unat y" using e by metis+
  then show ?case using snoc.IH [OF ys(2)] by (simp add: ys unsigned_word_eqI)
qed simp

lemma memcmp_octets_nat:
  "length xs = length ys \<Longrightarrow> os_memcmp xs ys < 0 \<longleftrightarrow> octets_nat xs < octets_nat ys"
proof (induction xs arbitrary: ys rule: rev_induct)
  case (snoc x xs)
  obtain ys' y where ys: "ys = ys' @ [y]" "length xs = length ys'" using snoc.prems by (cases ys rule: rev_cases) auto
  have b: "unat x < 256" "unat y < 256" by (rule unat_octet)+
  show ?case
  proof (cases "xs = ys'")
    case True
    then show ?thesis by (simp add: ys os_memcmp_snoc octets_nat_snoc word_less_nat_alt)
  next
    case False
    then have "octets_nat xs \<noteq> octets_nat ys'" using octets_nat_inj [OF ys(2)] by blast
    then have "256 * octets_nat xs + unat x < 256 * octets_nat ys' + unat y \<longleftrightarrow> octets_nat xs < octets_nat ys'"
      using b by linarith
    then show ?thesis using snoc.IH [OF ys(2)] False by (simp add: ys os_memcmp_snoc octets_nat_snoc)
  qed
qed (simp add: octets_nat_def)


section \<open>The blinded test\<close>

lemma sint_select: "res \<in> {-1, 0, 1} \<Longrightarrow> check = (if b then - 1 else 1) \<Longrightarrow>
  sint (const_time_select_int (const_time_eq (word_of_int res) check) 1 0) = of_bool (res = (if b then -1 else 1))"
  by auto

text \<open>Multiplying with a square and with a residue or non-residue that is taken into account does
  not change the outcome.\<close>

lemma residue_blind:
  assumes bn: "bignum_ok L" and chi: "legendre_ok L (cv_prime ec) chi" and p: "1 < cv_prime ec"
    and qr: "length qr = cv_prime_len ec" "chi (octets_nat qr) = 1"
    and qnr: "length qnr = cv_prime_len ec" "chi (octets_nat qnr) = -1"
    and r: "dragonfly_is_quadratic_residue_blind L ec qr qnr val i = (res, j)" "0 \<le> res"
  shows "res = of_bool (chi val = 1)"
proof -
  let ?p = "cv_prime ec"
  obtain rnd k where rnd: "dragonfly_get_rand_1_to_p_1 L ?p i = (Some rnd, k)"
    using r by (auto simp: dragonfly_is_quadratic_residue_blind_def Let_def split: prod.splits option.splits)
  have rp: "0 < rnd \<and> rnd < ?p" using rand_1_to_p_1 [OF bn rnd p] .
  have mul: "chi (a * b) = chi a * chi b" and md: "chi (a mod ?p) = chi a" and rng: "chi a \<in> {-1, 0, 1}"
    and lg: "bn_legendre L a ?p = chi a \<or> bn_legendre L a ?p = -2" for a b
    using chi by (auto simp: legendre_ok_def)
  have "chi rnd \<noteq> 0" using chi rp by (simp add: legendre_ok_def)
  then have sq: "chi rnd * chi rnd = 1" using rng [of rnd] by auto
  define msk :: u32 where "msk = (if odd rnd then 0 else - 1)"
  define q where "q = (if odd rnd then qr else qnr)"
  have sel: "const_time_select_bin (ucast msk) qnr qr (cv_prime_len ec) = q"
    using qr(1) qnr(1) select_bin_eq [of "cv_prime_len ec" qnr qr] select_bin_eq(2) [of "cv_prime_len ec" qr qnr]
    by (simp add: msk_def q_def)
  have z: "const_time_is_zero (of_bool (odd rnd)) = msk" by (simp add: msk_def)
  obtain n1 n2 qb num where n: "bn_mulmod L val rnd ?p = Some n1" "bn_mulmod L n1 rnd ?p = Some n2"
    "bn_init_set L q = Some qb" "bn_mulmod L n2 qb ?p = Some num" "bn_legendre L num ?p \<noteq> -2"
    "res = sint (const_time_select_int (const_time_eq (word_of_int (bn_legendre L num ?p)) (const_time_select_int msk (- 1) 1)) 1 0)"
    using r unfolding dragonfly_is_quadratic_residue_blind_def rnd z Let_def prod.case option.case sel
    by (auto split: bind_splits option.splits if_splits)
  have "num = (val * rnd mod ?p * rnd mod ?p) * octets_nat q mod ?p"
    using bignum_okD(4) [OF bn n(1)] bignum_okD(4) [OF bn n(2)] bignum_okD(4) [OF bn n(4)] bignum_okD(6) [OF bn n(3)] by simp
  then have "chi num = chi val * (chi rnd * chi rnd) * chi (octets_nat q)"
    by (simp only: md mul mult.assoc)
  then have c: "chi num = chi val * (if odd rnd then 1 else -1)" using qr(2) qnr(2) sq by (simp add: q_def)
  have "const_time_select_int msk (- 1) 1 = (if even rnd then - 1 else 1)" by (simp add: msk_def)
  then show ?thesis
    using n(5,6) lg [of num] sint_select [OF rng [of num], of _ "even rnd"] c rng [of val] by auto
qed


section \<open>Finite field groups\<close>

text \<open>No call of the library fails for arguments in its domain.\<close>

definition bignum_total :: "'p sae_lib \<Rightarrow> bool" where
  "bignum_total L \<longleftrightarrow>
     (\<forall>a b m. bn_add L a b \<noteq> None \<and> (b \<le> a \<longrightarrow> bn_sub L a b \<noteq> None) \<and> bn_rshift L a b \<noteq> None \<and>
        (0 < m \<longrightarrow> bn_mod L a m \<noteq> None \<and> bn_div L a m \<noteq> None \<and> bn_mulmod L a b m \<noteq> None \<and> bn_exptmod L a b m \<noteq> None)) \<and>
     (\<forall>bs. bn_init_set L bs \<noteq> None) \<and> (\<forall>a len pad. pad \<le> len \<longrightarrow> a < 256 ^ pad \<longrightarrow> bn_to_bin L a len pad \<noteq> None) \<and>
     (\<forall>s. sl_alloc L s) \<and> (\<forall>i m. 0 < m \<longrightarrow> sl_rand L i m \<noteq> None)"

definition hmac_total :: "crypto \<Rightarrow> bool" where
  "hmac_total c \<longleftrightarrow> (\<forall>k d. hmac_sha256_vector c k d \<noteq> None)"

lemma bignum_values:
  assumes "bignum_ok L" "bignum_total L"
  shows "bn_add L a b = Some (a + b)" "b \<le> a \<Longrightarrow> bn_sub L a b = Some (a - b)"
    "bn_rshift L a b = Some (a div 2 ^ b)" "0 < m \<Longrightarrow> bn_mod L a m = Some (a mod m)"
    "0 < m \<Longrightarrow> bn_div L a m = Some (a div m)" "0 < m \<Longrightarrow> bn_mulmod L a b m = Some (a * b mod m)"
    "0 < m \<Longrightarrow> bn_exptmod L a b m = Some (a ^ b mod m)" "bn_init_set L bs = Some (octets_nat bs)"
  using assms unfolding bignum_ok_def bignum_total_def gives_def by metis+

lemma prf_bits_loop_total:
  assumes "\<And>k d. hmac k d \<noteq> None" "0 < n"
  shows "prf_bits_loop hmac n key body counter left \<noteq> None"
proof (induction left arbitrary: counter rule: less_induct)
  case (less left)
  obtain h where "hmac key (WPA_PUT_LE16 counter @ body) = Some h" using assms(1) by blast
  moreover have "prf_bits_loop hmac n key body (counter + 1) (left - n) \<noteq> None" if "0 < left"
    using less.IH [of "left - n"] assms(2) that by simp
  ultimately show ?case by (subst prf_bits_loop.simps) auto
qed

lemma sha256_prf_bits_total: "hmac_total c \<Longrightarrow> sha256_prf_bits c key lbl data bits \<noteq> None"
  using prf_bits_loop_total [of "hmac_sha256_vector c" 32]
  by (auto simp: sha256_prf_bits_def prf_bits_def hmac_total_def)

text \<open>The search with branches.\<close>

definition pwd_seed_of :: "crypto \<Rightarrow> bytes \<Rightarrow> bytes \<Rightarrow> nat \<Rightarrow> bytes" where
  "pwd_seed_of c addrs password n = the (hmac_sha256_vector c addrs (password @ [of_nat n]))"

definition first_candidate :: "(nat \<Rightarrow> 'a option) \<Rightarrow> nat \<Rightarrow> 'a option" where
  "first_candidate cand n = Option.bind (List.find (\<lambda>i. cand i \<noteq> None) [n..<201]) cand"

lemma first_candidate_step:
  assumes "n \<le> 200"
  shows "first_candidate cand n = (case cand n of None \<Rightarrow> first_candidate cand (n + 1) | Some w \<Rightarrow> Some w)"
proof -
  have "[n..<201] = n # [n + 1..<201]" using assms by (simp add: upt_conv_Cons)
  then show ?thesis by (auto simp: first_candidate_def)
qed

lemma first_candidate_end [simp]: "200 < n \<Longrightarrow> first_candidate cand n = None"
  by (simp add: first_candidate_def)

definition ffc_candidate :: "crypto \<Rightarrow> dh_group \<Rightarrow> nat \<Rightarrow> bytes \<Rightarrow> bytes \<Rightarrow> nat \<Rightarrow> nat option" where
  "ffc_candidate c dh order addrs password n =
     (let p = octets_nat (dh_prime dh);
          v = octets_nat (the (sha256_prf_bits c (pwd_seed_of c addrs password n) ''SAE Hunting and Pecking'' (dh_prime dh)
                                 (length (dh_prime dh) * 8)));
          w = v ^ (if dh_safe_prime dh then 2 else (p - 1) div order) mod p
      in if v < p \<and> 1 < w then Some w else None)"

lemma octets_nat_2: "octets_nat [2] = 2"
  by (simp add: octets_nat_def)

lemma pwe_exponent_eq:
  assumes "bignum_ok L" "bignum_total L" "0 < order" "0 < prime"
  shows "pwe_exponent L dh prime order = Some (if dh_safe_prime dh then 2 else (prime - 1) div order)"
  using assms by (simp add: pwe_exponent_def bignum_values octets_nat_1 octets_nat_2)

lemma test_pwd_seed_ffc:
  assumes lib: "bignum_ok L" "bignum_total L" "hmac_total c" "mac_lengths_ok c"
    and p: "p = octets_nat (dh_prime dh)" "1 < p" "0 < order"
  shows "\<exists>w. sae_test_pwd_seed_ffc L c dh p order (pwd_seed_of c addrs password n) =
      (of_bool (ffc_candidate c dh order addrs password n \<noteq> None), w) \<and> w < p \<and>
    (\<forall>x. ffc_candidate c dh order addrs password n = Some x \<longrightarrow> w = x)"
proof -
  let ?seed = "pwd_seed_of c addrs password n"
  obtain v where v: "sha256_prf_bits c ?seed ''SAE Hunting and Pecking'' (dh_prime dh) (length (dh_prime dh) * 8) = Some v"
    using sha256_prf_bits_total [OF lib(3)] by fastforce
  have len: "length v = length (dh_prime dh)"
    using length_prf_bits [of "hmac_sha256_vector c" 32 ?seed _ _ _ v] v mac_lengths_okD(3) [OF lib(4)]
    by (auto simp: sha256_prf_bits_def)
  define ok where "ok \<longleftrightarrow> octets_nat v < p"
  have valid: "const_time_fill_msb (const_time_memcmp v (dh_prime dh) (length (dh_prime dh))) = (if ok then - 1 else 0)"
    unfolding ok_def p(1) using len memcmp_octets_nat [OF len] by (subst fill_msb_memcmp) auto
  define e where "e = (if dh_safe_prime dh then 2 else (p - 1) div order)"
  define w where "w = octets_nat (v[0 := if ok then v ! 0 else 0]) ^ e mod p"
  have ex: "pwe_exponent L dh p order = Some e" using pwe_exponent_eq [OF lib(1,2) p(3)] p(2) by (simp add: e_def)
  have "sae_test_pwd_seed_ffc L c dh p order ?seed = (of_bool (ok \<and> w \<noteq> 0 \<and> w \<noteq> 1), w)"
    using p(2) by (simp add: sae_test_pwd_seed_ffc_def v valid Let_def ex bignum_values [OF lib(1,2)] w_def del: fill_msb_eq)
  moreover have "w < p" using p(2) by (simp add: w_def)
  moreover have "ffc_candidate c dh order addrs password n = (if ok \<and> w \<noteq> 0 \<and> w \<noteq> 1 then Some w else None)"
    unfolding ffc_candidate_def v option.sel p(1) [symmetric] e_def [symmetric] Let_def
    by (cases ok) (auto simp: w_def ok_def)
  ultimately show ?thesis by auto
qed


text \<open>The loop: once found, the element stays; before, the first candidate is taken.\<close>

lemma pwe_ffc_loop_eq:
  assumes lib: "bignum_ok L" "bignum_total L" "hmac_total c" "mac_lengths_ok c"
    and p: "p = octets_nat (dh_prime dh)" "1 < p" "0 < order" "length (dh_prime dh) \<le> plen"
    and st: "found = 0 \<or> found = 255" "length buf = plen"
  shows "\<exists>b. pwe_ffc_loop L c dh p order addrs password k plen n found buf =
    (if found = 0 \<and> first_candidate (ffc_candidate c dh order addrs password) n = None then 0 else 255, b) \<and>
    (found = 255 \<longrightarrow> b = buf) \<and>
    (\<forall>w. found = 0 \<longrightarrow> first_candidate (ffc_candidate c dh order addrs password) n = Some w \<longrightarrow> octets_nat b = w)"
  using st
proof (induction "201 - n" arbitrary: n found buf)
  case 0
  then show ?case by (subst pwe_ffc_loop.simps) auto
next
  case (Suc d)
  let ?cand = "ffc_candidate c dh order addrs password"
  show ?case
  proof (cases "n \<le> k \<or> found = 0")
    case False
    then show ?thesis using Suc.prems by (subst pwe_ffc_loop.simps) auto
  next
    case True
    have n: "n \<le> 200" "d = 201 - (n + 1)" using Suc.hyps(2) by auto
    have seed: "hmac_sha256_vector c addrs (password @ [of_nat n]) = Some (pwd_seed_of c addrs password n)"
      using lib(3) by (auto simp: hmac_total_def pwd_seed_of_def)
    obtain w where w: "sae_test_pwd_seed_ffc L c dh p order (pwd_seed_of c addrs password n) = (of_bool (?cand n \<noteq> None), w)"
      "w < p" "\<And>x. ?cand n = Some x \<Longrightarrow> w = x"
      using test_pwd_seed_ffc [OF lib p(1,2,3)] by blast
    have "w < 256 ^ plen"
      using w(2) octets_nat_less [of "dh_prime dh"] power_increasing [OF p(4), of "256 :: nat"] p(1) by linarith
    then obtain cnd where cnd: "bn_to_bin L w plen plen = Some cnd" using lib(2) unfolding bignum_total_def by blast
    then have cv: "length cnd = plen" "octets_nat cnd = w" using bignum_okD(7,8) [OF lib(1)] by blast+
    define found' buf' where "found' = (if found = 0 then (if ?cand n = None then 0 else 255) else found)"
      and "buf' = (if found = 0 then cnd else buf)"
    have "pwe_ffc_loop L c dh p order addrs password k plen n found buf =
      pwe_ffc_loop L c dh p order addrs password k plen (n + 1) found' buf'"
      using True n Suc.prems cv
      by (subst pwe_ffc_loop.simps) (auto simp: seed w(1) cnd Let_def found'_def buf'_def)
    moreover have "found' = 0 \<or> found' = 255" "length buf' = plen"
      using Suc.prems cv by (auto simp: found'_def buf'_def)
    ultimately show ?thesis
      using Suc.hyps(1) [OF n(2), of found' buf'] first_candidate_step [OF n(1), of ?cand] w(3) cv Suc.prems
      by (auto simp: found'_def buf'_def split: option.splits if_splits)
  qed
qed

theorem pwe_ffc_reference:
  assumes "bignum_ok L" "bignum_total L" "hmac_total c" "mac_lengths_ok c"
    and "sae_prime tmp = octets_nat (dh_prime dh)" "1 < sae_prime tmp" "0 < sae_order tmp"
    "sae_prime_len tmp = length (dh_prime dh)"
  shows "sae_derive_pwe_ffc L c g dh addr1 addr2 password tmp =
    (case first_candidate (ffc_candidate c dh (sae_order tmp) (sae_pwd_seed_key addr1 addr2) password) 1 of
       None \<Rightarrow> (-1, tmp\<lparr> pwe_ffc := None \<rparr>)
     | Some w \<Rightarrow> (0, tmp\<lparr> pwe_ffc := Some w \<rparr>))"
proof -
  have al: "sl_alloc L ''pwe_buf''" using assms(2) by (simp add: bignum_total_def)
  show ?thesis
    using pwe_ffc_loop_eq [OF assms(1-7), where plen = "sae_prime_len tmp * 8" and found = 0 and n = 1
        and buf = "zeros (sae_prime_len tmp * 8)" and addrs = "sae_pwd_seed_key addr1 addr2" and password = password
        and k = "dragonfly_min_pwe_loop_iter g"] assms(8) al bignum_values(8) [OF assms(1,2)]
    by (auto simp: sae_derive_pwe_ffc_def Let_def split: option.splits)
qed


section \<open>Elliptic curve groups\<close>

lemma length_buf_shift_right [simp]: "length (buf_shift_right buf n) = length buf"
  by (simp add: buf_shift_right_def)

lemma qr_qnr_loop_ok:
  assumes lib: "legendre_ok L p chi" "bignum_ok L"
    and r: "qr_qnr_loop L p i qr qnr = Some (Some a, Some b, j)"
    and "\<And>x. qr = Some x \<Longrightarrow> chi x = 1 \<and> x < p" "\<And>x. qnr = Some x \<Longrightarrow> chi x = -1 \<and> x < p"
  shows "chi a = 1 \<and> a < p \<and> chi b = -1 \<and> b < p"
proof -
  define good where "good qr qnr \<longleftrightarrow> (\<forall>x. qr = Some x \<longrightarrow> chi x = 1 \<and> x < p) \<and> (\<forall>x. qnr = Some x \<longrightarrow> chi x = -1 \<and> x < p)" for qr qnr
  have lg: "bn_legendre L t p = chi t \<or> bn_legendre L t p = -2" for t using lib(1) unfolding legendre_ok_def by blast
  have leg: "chi t = 1" if "bn_legendre L t p = 1" for t using lg [of t] that by auto
  have leg': "chi t = -1" if "bn_legendre L t p = -1" for t using lg [of t] that by auto
  have "L = L \<longrightarrow> p = p \<longrightarrow> good qr qnr \<longrightarrow> good (fst (Some a, Some b, j)) (fst (snd (Some a, Some b, j)))"
  proof (rule qr_qnr_loop.raw_induct [OF _ r, where P = "\<lambda>L' p' i qr qnr z. L' = L \<longrightarrow> p' = p \<longrightarrow> good qr qnr \<longrightarrow> good (fst z) (fst (snd z))"],
      intro impI)
    fix f i qr qnr and L' :: "'a sae_lib" and p' and z :: "nat option \<times> nat option \<times> nat"
    assume IH: "\<And>L' p' i qr qnr z. f L' p' i qr qnr = Some z \<Longrightarrow> L' = L \<longrightarrow> p' = p \<longrightarrow> good qr qnr \<longrightarrow> good (fst z) (fst (snd z))"
      and body: "(if qr \<noteq> None \<and> qnr \<noteq> None then Some (qr, qnr, i)
        else if \<not> sl_alloc L' ''bignum'' then Some (qr, qnr, i)
        else case sl_rand L' i p' of None \<Rightarrow> Some (qr, qnr, i + 1)
          | Some t \<Rightarrow> let res = bn_legendre L' t p'
             in if res = 1 \<and> qr = None then f L' p' (i + 1) (Some t) qnr
                else if res = -1 \<and> qnr = None then f L' p' (i + 1) qr (Some t) else f L' p' (i + 1) qr qnr) = Some z"
      and eq: "L' = L" "p' = p" and "good qr qnr"
    consider "fst z = qr" "fst (snd z) = qnr"
      | t where "sl_rand L i p = Some t" "bn_legendre L t p = 1" "f L' p' (i + 1) (Some t) qnr = Some z"
      | t where "sl_rand L i p = Some t" "bn_legendre L t p = -1" "f L' p' (i + 1) qr (Some t) = Some z"
      | "f L' p' (i + 1) qr qnr = Some z"
      using body eq by (auto simp: Let_def split: if_splits option.splits)
    then show "good (fst z) (fst (snd z))"
    proof cases
      case 1
      then show ?thesis using \<open>good qr qnr\<close> by simp
    next
      case (2 t)
      then have "good (Some t) qnr" using \<open>good qr qnr\<close> leg [OF 2(2)] bignum_okD(9) [OF lib(2) 2(1)] by (simp add: good_def)
      then show ?thesis using IH [OF 2(3)] eq by blast
    next
      case (3 t)
      then have "good qr (Some t)" using \<open>good qr qnr\<close> leg' [OF 3(2)] bignum_okD(9) [OF lib(2) 3(1)] by (simp add: good_def)
      then show ?thesis using IH [OF 3(3)] eq by blast
    next
      case 4
      then show ?thesis using IH [OF 4] eq \<open>good qr qnr\<close> by blast
    qed
  qed
  then show ?thesis using assms(4,5) by (simp add: good_def)
qed


text \<open>The search ends if the draws have a residue and a non-residue.\<close>

lemma qr_qnr_loop_ends:
  assumes "\<And>j. sl_rand L j p = Some (d j)" "sl_alloc L ''bignum''"
    and "qr = None \<Longrightarrow> \<exists>j. i \<le> j \<and> j < i + n \<and> bn_legendre L (d j) p = 1"
    and "qnr = None \<Longrightarrow> \<exists>j. i \<le> j \<and> j < i + n \<and> bn_legendre L (d j) p = -1"
  shows "\<exists>a b j. qr_qnr_loop L p i qr qnr = Some (Some a, Some b, j)"
  using assms(3,4)
proof (induction n arbitrary: i qr qnr)
  case 0
  then show ?case by (subst qr_qnr_loop.simps) (cases qr; cases qnr; auto)
next
  case (Suc n)
  show ?case
  proof (cases "qr \<noteq> None \<and> qnr \<noteq> None")
    case True
    then show ?thesis by (subst qr_qnr_loop.simps) auto
  next
    case False
    define l where "l = bn_legendre L (d i) p"
    define qr' qnr' where "qr' = (if l = 1 \<and> qr = None then Some (d i) else qr)"
      and "qnr' = (if \<not> (l = 1 \<and> qr = None) \<and> l = -1 \<and> qnr = None then Some (d i) else qnr)"
    have "qr_qnr_loop L p i qr qnr = qr_qnr_loop L p (i + 1) qr' qnr'"
      using False assms(1,2) by (subst qr_qnr_loop.simps) (auto simp: Let_def l_def qr'_def qnr'_def)
    moreover have "\<exists>j. i + 1 \<le> j \<and> j < i + 1 + n \<and> bn_legendre L (d j) p = 1" if n: "qr' = None"
    proof -
      have "qr = None" "l \<noteq> 1" using n by (auto simp: qr'_def split: if_splits)
      then obtain j where "i \<le> j" "j < i + Suc n" "bn_legendre L (d j) p = 1" using Suc.prems(1) by blast
      then show ?thesis using \<open>l \<noteq> 1\<close> by (intro exI [of _ j]) (cases "i = j", auto simp: l_def)
    qed
    moreover have "\<exists>j. i + 1 \<le> j \<and> j < i + 1 + n \<and> bn_legendre L (d j) p = -1" if n: "qnr' = None"
    proof -
      have "qnr = None" "l \<noteq> -1" using n by (auto simp: qnr'_def split: if_splits)
      then obtain j where "i \<le> j" "j < i + Suc n" "bn_legendre L (d j) p = -1" using Suc.prems(2) by blast
      then show ?thesis using \<open>l \<noteq> -1\<close> by (intro exI [of _ j]) (cases "i = j", auto simp: l_def)
    qed
    ultimately show ?thesis using Suc.IH [of qr' "i + 1" qnr'] by simp
  qed
qed

lemma residue_blind_total:
  assumes "bignum_ok L" "bignum_total L" "legendre_ok L (cv_prime ec) chi" "1 < cv_prime ec"
    "\<And>a. bn_legendre L a (cv_prime ec) \<noteq> -2"
  shows "0 \<le> fst (dragonfly_is_quadratic_residue_blind L ec qr qnr val i)"
proof -
  let ?p = "cv_prime ec"
  obtain t where "sl_rand L i (?p - 1) = Some t" using assms(2,4) unfolding bignum_total_def by fastforce
  moreover have "sl_alloc L ''bignum''" using assms(2) by (simp add: bignum_total_def)
  ultimately have r: "dragonfly_get_rand_1_to_p_1 L ?p i = (Some (t + 1), i + 1)"
    using assms(4) by (simp add: dragonfly_get_rand_1_to_p_1_def bignum_values [OF assms(1,2)] octets_nat_1)
  have p: "0 < ?p" using assms(4) by simp
  show ?thesis
    using assms(5) by (simp add: dragonfly_is_quadratic_residue_blind_def r Let_def bignum_values [OF assms(1,2)]
      bignum_values(6) [OF assms(1,2) p])
qed

text \<open>The assumptions on library and curve: the operations do not fail, \<open>chi\<close> is the Legendre symbol
  modulo the prime.\<close>

definition hunt_ok :: "'p sae_lib \<Rightarrow> crypto \<Rightarrow> 'p curve \<Rightarrow> (nat \<Rightarrow> int) \<Rightarrow> bool" where
  "hunt_ok L c ec chi \<longleftrightarrow>
     bignum_ok L \<and> bignum_total L \<and> hmac_total c \<and> mac_lengths_ok c \<and>
     legendre_ok L (cv_prime ec) chi \<and> (\<forall>a. bn_legendre L a (cv_prime ec) \<noteq> -2) \<and>
     1 < cv_prime ec \<and> cv_prime ec < 256 ^ cv_prime_len ec \<and> cv_prime_len ec \<le> 66 \<and>
     cv_prime_len ec = (cv_prime_len_bits ec + 7) div 8 \<and>
     (\<forall>x. cv_compute_y_sqr ec x \<noteq> None) \<and> (\<forall>n. \<exists>s. sl_random_bytes L n = Some s \<and> length s = n)"

definition ecc_candidate ::
  "crypto \<Rightarrow> 'p curve \<Rightarrow> (nat \<Rightarrow> int) \<Rightarrow> bytes \<Rightarrow> bytes \<Rightarrow> (bytes \<times> byte) option" where
  "ecc_candidate c ec chi prime seed =
     (let x = the (pwd_value_ecc c ec prime seed)
      in if octets_nat x < cv_prime ec \<and> chi (the (cv_compute_y_sqr ec (octets_nat x))) = 1
         then Some (x, seed ! 31 AND 1) else None)"

lemma test_pwd_seed_ecc:
  assumes h: "hunt_ok L c ec chi" and prime: "length prime = cv_prime_len ec" "octets_nat prime = cv_prime ec"
    and qr: "length qr = cv_prime_len ec" "chi (octets_nat qr) = 1"
    and qnr: "length qnr = cv_prime_len ec" "chi (octets_nat qnr) = -1"
  shows "\<exists>x j. sae_test_pwd_seed_ecc L c ec seed prime qr qnr i = (of_bool (ecc_candidate c ec chi prime seed \<noteq> None), x, j) \<and>
    length x = cv_prime_len ec \<and> x = the (pwd_value_ecc c ec prime seed)"
proof -
  have lib: "bignum_ok L" "bignum_total L" "hmac_total c" "mac_lengths_ok c" "legendre_ok L (cv_prime ec) chi"
    "1 < cv_prime ec" "\<And>a. bn_legendre L a (cv_prime ec) \<noteq> -2" using h by (auto simp: hunt_ok_def)
  obtain v where v: "sha256_prf_bits c seed ''SAE Hunting and Pecking'' prime (cv_prime_len_bits ec) = Some v"
    using sha256_prf_bits_total [OF lib(3)] by fastforce
  have "length v = cv_prime_len ec"
    using length_prf_bits [of "hmac_sha256_vector c" 32 seed _ _ _ v] v mac_lengths_okD(3) [OF lib(4)] h
    by (auto simp: sha256_prf_bits_def hunt_ok_def)
  then obtain x where x: "pwd_value_ecc c ec prime seed = Some x" "length x = cv_prime_len ec"
    by (auto simp: pwd_value_ecc_def v Let_def)
  obtain y where y: "cv_compute_y_sqr ec (octets_nat x) = Some y" using h unfolding hunt_ok_def by blast
  obtain res j where b: "dragonfly_is_quadratic_residue_blind L ec qr qnr y i = (res, j)" by fastforce
  have res: "0 \<le> res" using residue_blind_total [OF lib(1,2,5,6,7), of qr qnr y i] b by simp
  have r: "res = of_bool (chi y = 1)" using residue_blind [OF lib(1,5,6) qr qnr b res] .
  have m: "const_time_fill_msb (const_time_memcmp x prime (cv_prime_len ec)) = (if octets_nat x < cv_prime ec then - 1 else 0)"
    using x(2) prime memcmp_octets_nat [of x prime] by (subst fill_msb_memcmp) auto
  have s: "slice 0 (cv_prime_len ec) x = x" using x(2) by (simp add: slice_def)
  show ?thesis
    using m r x(2) by (auto simp: sae_test_pwd_seed_ecc_def x(1) s bignum_values [OF lib(1,2)] y b ecc_candidate_def Let_def
        simp del: fill_msb_eq)
qed


lemma pwe_ecc_loop_eq:
  assumes h: "hunt_ok L c ec chi" and prime: "length prime = cv_prime_len ec" "octets_nat prime = cv_prime ec"
    and qr: "length qr = cv_prime_len ec" "chi (octets_nat qr) = 1"
    and qnr: "length qnr = cv_prime_len ec" "chi (octets_nat qnr) = -1"
    and stub: "length stub = length password"
    and st: "found = 0 \<or> found = 255 \<and> length xb = cv_prime_len ec"
    and cand: "cand = (\<lambda>n. ecc_candidate c ec chi prime (pwd_seed_of c addrs password n))"
  shows "\<exists>x od r j. pwe_ecc_loop L c ec addrs password stub k prime qr qnr n found xb odb res i =
      (Inr (if found = 0 \<and> first_candidate cand n = None then 0 else 255, x, od, r), j) \<and>
    (found = 255 \<longrightarrow> x = xb \<and> od = odb \<and> (0 \<le> res \<longrightarrow> 0 \<le> r)) \<and>
    (\<forall>y. found = 0 \<longrightarrow> first_candidate cand n = Some y \<longrightarrow> (x, od) = y \<and> length x = cv_prime_len ec \<and> 0 \<le> r)"
  using st
proof (induction "201 - n" arbitrary: n found xb odb res i)
  case 0
  then show ?case by (subst pwe_ecc_loop.simps) auto
next
  case (Suc d)
  show ?case
  proof (cases "n \<le> k \<or> found = 0")
    case False
    then show ?thesis using Suc.prems by (subst pwe_ecc_loop.simps) auto
  next
    case True
    have n: "n \<le> 200" "d = 201 - (n + 1)" using Suc.hyps(2) by auto
    define pw where "pw = const_time_select_bin found stub password (length password)"
    define seed where "seed = the (hmac_sha256_vector c addrs (pw @ [of_nat n]))"
    have seed: "hmac_sha256_vector c addrs (pw @ [of_nat n]) = Some seed"
      using h by (auto simp: hunt_ok_def hmac_total_def seed_def)
    have pw: "found = 0 \<Longrightarrow> seed = pwd_seed_of c addrs password n"
      using select_bin_eq(2) [of "length password" password stub] by (simp add: seed_def pw_def pwd_seed_of_def)
    obtain xc j where t: "sae_test_pwd_seed_ecc L c ec seed prime qr qnr i = (of_bool (ecc_candidate c ec chi prime seed \<noteq> None), xc, j)"
      "length xc = cv_prime_len ec" "xc = the (pwd_value_ecc c ec prime seed)"
      using test_pwd_seed_ecc [OF h prime qr qnr] by blast
    define hit where "hit \<longleftrightarrow> ecc_candidate c ec chi prime seed \<noteq> None"
    have t1: "sae_test_pwd_seed_ecc L c ec seed prime qr qnr i = (of_bool hit, xc, j)" using t(1) by (simp only: hit_def)
    define found' where "found' = (if found = 0 then (if hit then 255 else 0) else found)"
    define xb' where "xb' = (if found = 0 then xc else xb)"
    define od' where "od' = (if found = 0 then seed ! 31 AND 1 else odb)"
    have "pwe_ecc_loop L c ec addrs password stub k prime qr qnr n found xb odb res i =
      pwe_ecc_loop L c ec addrs password stub k prime qr qnr (n + 1) found' xb' od' (of_bool hit) j"
      using True n Suc.prems t(2)
      by (subst pwe_ecc_loop.simps)
        (auto simp: seed [unfolded pw_def] t1 Let_def found'_def xb'_def od'_def)
    moreover have "found' = 0 \<or> found' = 255 \<and> length xb' = cv_prime_len ec"
      using Suc.prems t(2) by (auto simp: found'_def xb'_def)
    moreover have "found = 0 \<Longrightarrow> cand n = (if hit then Some (xc, seed ! 31 AND 1) else None)"
      using pw t(3) by (auto simp: cand hit_def ecc_candidate_def Let_def)
    ultimately show ?thesis
      using Suc.hyps(1) [OF n(2), of found' xb' od' "of_bool hit" j] first_candidate_step [OF n(1), of cand] Suc.prems t(2)
      by (auto simp: found'_def xb'_def od'_def split: option.splits if_splits)
  qed
qed


lemma to_bin_values:
  assumes "hunt_ok L c ec chi" "v \<le> cv_prime ec"
  shows "\<exists>b. bn_to_bin L v 66 (cv_prime_len ec) = Some b \<and> length b = cv_prime_len ec \<and> octets_nat b = v"
proof -
  have h: "bignum_ok L" "bignum_total L" "cv_prime_len ec \<le> 66" "v < 256 ^ cv_prime_len ec"
    using assms unfolding hunt_ok_def by auto
  then obtain b where b: "bn_to_bin L v 66 (cv_prime_len ec) = Some b" unfolding bignum_total_def by blast
  then show ?thesis using bignum_okD(7,8) [OF h(1) b] by simp
qed

text \<open>C17: hunting and pecking is the search that the standard describes: the password element comes
  from the first counter up to 200 whose value is below the prime and is the coordinate of a
  point; there is none exactly when the function fails.  Neither the random draws for the
  blinding nor the stub password nor the number of further iterations have an influence.\<close>

theorem pwe_ecc_reference:
  assumes h: "hunt_ok L c ec chi"
    and tmp: "sae_prime tmp = cv_prime ec" "sae_prime_len tmp = cv_prime_len ec"
    and draws: "dragonfly_get_random_qr_qnr L (cv_prime ec) i = Some (Some q, i')"
    and prime: "length prime = cv_prime_len ec" "octets_nat prime = cv_prime ec"
  shows "\<exists>res j. 0 \<le> res \<and> sae_derive_pwe_ecc L c g ec addr1 addr2 password i tmp =
    (case first_candidate (\<lambda>n. ecc_candidate c ec chi prime (pwd_seed_of c (sae_pwd_seed_key addr1 addr2) password n)) 1 of
       None \<Rightarrow> Some (-1, tmp, j)
     | Some (x, par) \<Rightarrow>
         (case pwe_ecc_point L ec x par of
            None \<Rightarrow> Some (res, tmp, j)
          | Some x_y \<Rightarrow> Some (if cv_from_bin ec x_y = None then -1 else res, tmp\<lparr> pwe_ecc := cv_from_bin ec x_y \<rparr>, j)))"
proof -
  let ?addrs = "sae_pwd_seed_key addr1 addr2" and ?plen = "cv_prime_len ec"
  define cand where "cand = (\<lambda>n. ecc_candidate c ec chi prime (pwd_seed_of c ?addrs password n))"
  have lib: "bignum_ok L" "bignum_total L" "legendre_ok L (cv_prime ec) chi" "sl_alloc L ''password''"
    using h by (auto simp: hunt_ok_def bignum_total_def)
  obtain stub where stub: "sl_random_bytes L (length password) = Some stub" "length stub = length password"
    using h unfolding hunt_ok_def by blast
  obtain pr where "bn_to_bin L (cv_prime ec) 66 ?plen = Some pr" "length pr = ?plen" "octets_nat pr = cv_prime ec"
    using to_bin_values [OF h order_refl] by blast
  then have pr: "bn_to_bin L (cv_prime ec) 66 ?plen = Some prime" using octets_nat_inj [of pr prime] prime by simp
  obtain qr qnr where q: "q = (qr, qnr)" by fastforce
  then have "qr_qnr_loop L (cv_prime ec) i None None = Some (Some qr, Some qnr, i')"
    using draws by (auto simp: dragonfly_get_random_qr_qnr_def split: option.splits)
  from qr_qnr_loop_ok [OF lib(3,1) this]
  have qq: "chi qr = 1" "qr < cv_prime ec" "chi qnr = -1" "qnr < cv_prime ec" by simp_all
  obtain qb where qb: "bn_to_bin L qr 66 ?plen = Some qb" "length qb = ?plen" "octets_nat qb = qr"
    using to_bin_values [OF h less_imp_le [OF qq(2)]] by blast
  obtain nb where nb: "bn_to_bin L qnr 66 ?plen = Some nb" "length nb = ?plen" "octets_nat nb = qnr"
    using to_bin_values [OF h less_imp_le [OF qq(4)]] by blast
  have cq: "chi (octets_nat qb) = 1" "chi (octets_nat nb) = -1" using qq qb nb by auto
  have "\<exists>x od r j. pwe_ecc_loop L c ec ?addrs password stub (dragonfly_min_pwe_loop_iter g) prime qb nb 1 0 (zeros 66) 0 (-1) i' =
      (Inr (if first_candidate cand 1 = None then 0 else 255, x, od, r), j) \<and>
    (\<forall>y. first_candidate cand 1 = Some y \<longrightarrow> (x, od) = y \<and> length x = ?plen \<and> 0 \<le> r)"
    using pwe_ecc_loop_eq [OF h prime qb(2) cq(1) nb(2) cq(2) stub(2) _ cand_def, of 0 "zeros 66" "dragonfly_min_pwe_loop_iter g" 1 0 "-1" i']
    by simp
  then obtain x od r j where lp: "pwe_ecc_loop L c ec ?addrs password stub (dragonfly_min_pwe_loop_iter g) prime qb nb 1 0 (zeros 66) 0 (-1) i' =
      (Inr (if first_candidate cand 1 = None then 0 else 255, x, od, r), j)"
    "\<And>y. first_candidate cand 1 = Some y \<Longrightarrow> (x, od) = y \<and> length x = ?plen \<and> 0 \<le> r"
    by blast
  have eq: "sae_derive_pwe_ecc L c g ec addr1 addr2 password i tmp =
    (if first_candidate cand 1 = None then Some (-1, tmp, j)
     else case pwe_ecc_point L ec (slice 0 ?plen x) od of
            None \<Rightarrow> Some (r, tmp, j)
          | Some x_y \<Rightarrow> (case cv_from_bin ec x_y of None \<Rightarrow> Some (-1, tmp\<lparr> pwe_ecc := None \<rparr>, j)
                         | Some P \<Rightarrow> Some (r, tmp\<lparr> pwe_ecc := Some P \<rparr>, j)))"
    by (simp add: sae_derive_pwe_ecc_def lib(4) stub(1) tmp pr draws q qb(1) nb(1) lp(1) [unfolded One_nat_def] bignum_values(8) [OF lib(1,2)])
  show ?thesis
  proof (cases "first_candidate cand 1")
    case None
    then show ?thesis unfolding eq cand_def [symmetric] by (intro exI [of _ 0] exI [of _ j]) simp
  next
    case (Some y)
    with lp(2) have y: "y = (x, od)" "slice 0 ?plen x = x" "0 \<le> r" by (auto simp: slice_def)
    show ?thesis unfolding eq cand_def [symmetric] Some y(1,2)
      by (intro exI [of _ r] exI [of _ j]) (simp add: y(3) split: option.splits)
  qed
qed

end
