(* ===== verification/SAE_Safety.thy ===== *)
theory SAE_Safety
  imports SAE SAE_Hunt
begin

text \<open>
  What an accepted commit message guarantees, and the agreement of two stations that know the
  same password.
\<close>

section \<open>Accepted commits\<close>

lemma set_group_ok:
  "sae_set_group L g sae = (0, sae') \<Longrightarrow> sae_group sae' = g \<and> sae_tmp sae' \<noteq> None \<and> dragonfly_suitable_group g False"
  by (auto simp: sae_set_group_def Let_def split: if_splits option.splits)

lemma set_group_result: "fst (sae_set_group L g sae) = 0 \<or> fst (sae_set_group L g sae) = -1"
  by (auto simp: sae_set_group_def Let_def split: option.splits)

lemma group_allowed_ok:
  assumes "sae_group_allowed L allowed g sae = (WLAN_STATUS_SUCCESS, sae')"
  shows "\<exists>tmp. sae_tmp sae' = Some tmp \<and> sae_group sae' = uint g \<and> (sae_dh tmp \<noteq> None \<longrightarrow> allowed \<noteq> None) \<and>
    (\<forall>l. allowed = Some l \<longrightarrow> uint g \<in> set l) \<and> (sae_group sae = uint g \<longrightarrow> sae' = sae)"
proof -
  have "uint g \<in> set l" if "allowed = Some l" for l
    using assms that set_dropWhileD [of "uint g" "\<lambda>x. x > 0 \<and> x \<noteq> uint g" l]
    by (auto simp: sae_group_allowed_def split: if_splits list.splits)
  moreover obtain r s1 where r: "(if uint g \<noteq> sae_group sae then sae_set_group L (uint g) sae else (0, sae)) = (r, s1)" by fastforce
  moreover have "sae' = s1 \<and> \<not> r < 0 \<and> (\<exists>tmp. sae_tmp s1 = Some tmp \<and> (sae_dh tmp \<noteq> None \<longrightarrow> allowed \<noteq> None))"
    using assms r by (auto simp: sae_group_allowed_def Let_def split: if_splits option.splits list.splits)
  ultimately show ?thesis
    using set_group_ok [of L "uint g" sae s1] set_group_result [of L "uint g" sae] by (auto split: if_splits)
qed

lemma parse_scalar_ok:
  assumes "sae_parse_commit_scalar L rest tmp sae = (WLAN_STATUS_SUCCESS, rest', sae')"
  shows "\<exists>s. sae' = sae\<lparr> peer_commit_scalar := Some s \<rparr> \<and> 1 < s \<and> s < sae_order tmp \<and>
    (sae_state sae = SAE_ACCEPTED \<longrightarrow> peer_commit_scalar_accepted sae \<noteq> Some s)"
  using assms by (auto simp: sae_parse_commit_scalar_def split: if_splits option.splits)

text \<open>A valid element: a point of the curve with coordinates below the prime, or a number in the
  subgroup that the order belongs to.\<close>

definition valid_element :: "'p sae_lib \<Rightarrow> 'p sae_tmp \<Rightarrow> bool" where
  "valid_element L tmp \<longleftrightarrow>
     (if sae_dh tmp \<noteq> None
      then (\<exists>E. peer_commit_element_ffc tmp = Some E \<and> 1 < E \<and> (0 < sae_prime tmp \<longrightarrow> E < sae_prime tmp - 1) \<and>
             bn_exptmod L E (sae_order tmp) (sae_prime tmp) = Some 1)
      else (\<exists>ec E x y. sae_ec tmp = Some ec \<and> peer_commit_element_ecc tmp = Some E \<and> cv_is_on_curve ec E \<and>
             cv_from_bin ec (x @ y) = Some E \<and> octets_nat x < sae_prime tmp \<and> octets_nat y < sae_prime tmp))"

definition same_group :: "'p sae_tmp \<Rightarrow> 'p sae_tmp \<Rightarrow> bool" where
  "same_group s t \<longleftrightarrow> sae_dh t = sae_dh s \<and> sae_ec t = sae_ec s \<and> sae_order t = sae_order s \<and> sae_prime t = sae_prime s"

lemma parse_element_ok:
  assumes bn: "bignum_ok L" and r: "sae_parse_commit_element L rest tmp = (WLAN_STATUS_SUCCESS, rest', tmp')"
  shows "same_group tmp tmp' \<and> valid_element L tmp'"
proof (cases "sae_dh tmp")
  case None
  then obtain ec where ec: "sae_ec tmp = Some ec" and e: "sae_parse_commit_element_ecc L ec rest tmp = (WLAN_STATUS_SUCCESS, rest', tmp')"
    using r by (auto simp: sae_parse_commit_element_def split: option.splits)
  let ?n = "sae_prime_len tmp"
  let ?x = "slice 0 ?n rest" and ?y = "slice ?n ?n rest"
  obtain prime E where p: "2 * ?n \<le> length rest" "bn_to_bin L (sae_prime tmp) 66 ?n = Some prime"
    "os_memcmp ?x prime < 0" "os_memcmp ?y prime < 0" "cv_from_bin ec (take (2 * ?n) rest) = Some E" "cv_is_on_curve ec E"
    "tmp' = tmp\<lparr> peer_commit_element_ecc := Some E \<rparr>"
    using e by (fastforce simp: sae_parse_commit_element_ecc_def Let_def split: if_splits option.splits)
  have "take (2 * ?n) rest = ?x @ ?y" by (simp add: slice_def take_add mult_2 flip: take_add)
  moreover have "length prime = ?n" "octets_nat prime = sae_prime tmp" using bignum_okD(7,8) [OF bn p(2)] .
  ultimately show ?thesis
    using p None ec memcmp_octets_nat [of ?x prime] memcmp_octets_nat [of ?y prime]
    by (auto simp: valid_element_def same_group_def slice_def)
next
  case (Some dh)
  then have e: "sae_parse_commit_element_ffc L rest tmp = (WLAN_STATUS_SUCCESS, rest', tmp')"
    using r by (simp add: sae_parse_commit_element_def)
  obtain E where E: "bn_init_set L (take (sae_prime_len tmp) rest) = Some E"
    using e by (cases "bn_init_set L (take (sae_prime_len tmp) rest)") (auto simp: sae_parse_commit_element_ffc_def Let_def split: if_splits)
  obtain one pm1 where p: "bn_init_set L [1] = Some one" "bn_sub L (sae_prime tmp) one = Some pm1"
    "1 < E" "E < pm1" "bn_exptmod L E (sae_order tmp) (sae_prime tmp) = Some 1" "tmp' = tmp\<lparr> peer_commit_element_ffc := Some E \<rparr>"
    using e unfolding sae_parse_commit_element_ffc_def Let_def E option.case
    by (auto split: if_splits option.splits bind_splits)
  have "one = 1" using bignum_okD(6) [OF bn p(1)] by (simp add: octets_nat_1)
  then have "0 < sae_prime tmp \<Longrightarrow> pm1 = sae_prime tmp - 1" using bignum_okD(3) [OF bn p(2)] by simp
  then show ?thesis using p Some by (auto simp: valid_element_def same_group_def)
qed

lemma valid_element_upd [simp]:
  "valid_element L (tmp\<lparr> sae_pw_id := x \<rparr>) = valid_element L tmp" "same_group tmp (tmp\<lparr> sae_pw_id := x \<rparr>)"
  "valid_element L (tmp\<lparr> peer_rejected_groups := y \<rparr>) = valid_element L tmp" "same_group tmp (tmp\<lparr> peer_rejected_groups := y \<rparr>)"
  "same_group tmp tmp"
  by (simp_all add: valid_element_def same_group_def)

lemma parse_password_identifier_ok:
  "sae_parse_password_identifier L rest tmp = (r, rest', tmp') \<Longrightarrow> valid_element L tmp' = valid_element L tmp \<and> same_group tmp tmp'"
  by (auto simp: sae_parse_password_identifier_def Let_def split: if_splits option.splits)

lemma parse_rejected_groups_ok:
  "sae_parse_rejected_groups L rest tmp = (r, rest', tmp') \<Longrightarrow> valid_element L tmp' = valid_element L tmp \<and> same_group tmp tmp'"
  by (auto simp: sae_parse_rejected_groups_def Let_def split: if_splits)

lemma same_group_trans: "same_group a b \<Longrightarrow> same_group b c \<Longrightarrow> same_group a c"
  by (simp add: same_group_def)

text \<open>C16: a commit message is accepted only if its group is allowed, its scalar lies strictly between 1
  and the order and is not the one of the accepted exchange, its element is a point of the
  curve (or a number of the right subgroup), and it is not our own message sent back.\<close>

theorem sae_commit_accepted:
  assumes bn: "bignum_ok L" and r: "sae_parse_commit L data allowed h2e sae = (WLAN_STATUS_SUCCESS, token, sae')"
  shows "\<exists>tmp s. sae_tmp sae' = Some tmp \<and> peer_commit_scalar sae' = Some s \<and> 1 < s \<and> s < sae_order tmp \<and>
    valid_element L tmp \<and> \<not> sae_reflected tmp sae' \<and>
    (\<forall>l. allowed = Some l \<longrightarrow> uint (the (WPA_GET_LE16 data 0)) \<in> set l) \<and> (sae_dh tmp \<noteq> None \<longrightarrow> allowed \<noteq> None) \<and>
    (sae_state sae = SAE_ACCEPTED \<and> sae_group sae = uint (the (WPA_GET_LE16 data 0)) \<longrightarrow> peer_commit_scalar_accepted sae \<noteq> Some s)"
proof -
  let ?g = "the (WPA_GET_LE16 data 0)"
  obtain res1 sae1 where g: "sae_group_allowed L allowed ?g sae = (res1, sae1)" by fastforce
  then have "res1 = WLAN_STATUS_SUCCESS" using r by (auto simp: sae_parse_commit_def Let_def split: if_splits)
  then have g0: "sae_group_allowed L allowed ?g sae = (WLAN_STATUS_SUCCESS, sae1)" using g by simp
  from group_allowed_ok [OF g0] obtain tmp where tmp: "sae_tmp sae1 = Some tmp" "sae_dh tmp \<noteq> None \<longrightarrow> allowed \<noteq> None"
    "\<forall>l. allowed = Some l \<longrightarrow> uint ?g \<in> set l" "sae_group sae = uint ?g \<longrightarrow> sae1 = sae" by blast
  obtain tok rest where t: "sae_parse_commit_token h2e tmp (drop 2 data) = (tok, rest)" by fastforce
  obtain res2 rest2 sae2 where sc: "sae_parse_commit_scalar L rest tmp sae1 = (res2, rest2, sae2)" by (metis prod_cases3)
  obtain res3 rest3 tmp3 where el: "sae_parse_commit_element L rest2 tmp = (res3, rest3, tmp3)" by (metis prod_cases3)
  obtain res4 rest4 tmp4 where pw: "sae_parse_password_identifier L rest3 tmp3 = (res4, rest4, tmp4)" by (metis prod_cases3)
  obtain res5 rest5 tmp5 where rj: "(if h2e then sae_parse_rejected_groups L rest4 tmp4 else (WLAN_STATUS_SUCCESS, rest4, tmp4)) = (res5, rest5, tmp5)"
    by (metis prod_cases3)
  have all: "res2 = WLAN_STATUS_SUCCESS" "res3 = WLAN_STATUS_SUCCESS" "sae' = sae2\<lparr> sae_tmp := Some tmp5 \<rparr>" "\<not> sae_reflected tmp5 sae'"
    using r g \<open>res1 = _\<close> tmp(1) t sc el pw rj by (auto simp: sae_parse_commit_def Let_def split: if_splits)
  obtain s where s: "sae2 = sae1\<lparr> peer_commit_scalar := Some s \<rparr>" "1 < s" "s < sae_order tmp"
    "sae_state sae1 = SAE_ACCEPTED \<longrightarrow> peer_commit_scalar_accepted sae1 \<noteq> Some s"
    using parse_scalar_ok sc all(1) by blast
  have v: "valid_element L tmp3" "same_group tmp tmp3" using parse_element_ok [OF bn] el all(2) by blast+
  have "valid_element L tmp5 \<and> same_group tmp3 tmp5"
    using v(1) parse_password_identifier_ok [OF pw] parse_rejected_groups_ok [of L rest4 tmp4 res5 rest5 tmp5] rj
    by (auto split: if_splits dest: same_group_trans)
  then have "valid_element L tmp5" "same_group tmp tmp5" using same_group_trans [OF v(2)] by auto
  then show ?thesis using all(3,4) s tmp by (auto simp: same_group_def)
qed

end
