(* ===== verification/SAE_Agree.thy ===== *)
theory SAE_Agree
  imports SAE_Safety
begin

text \<open>
  Two stations that know the same password agree: each accepts the commit and the confirm
  message of the other, and both get the same keys.  The elliptic curve is a cyclic group
  in which the library computes; the password elements come from the hash-to-element method.
\<close>

section \<open>The group\<close>

text \<open>\<open>pt n\<close> is the \<open>n\<close>-fold of the point that the password gives.\<close>

definition curve_group :: "'p curve \<Rightarrow> (nat \<Rightarrow> 'p) \<Rightarrow> bool" where
  "curve_group ec pt \<longleftrightarrow>
     (\<forall>n. pt (n mod cv_order ec) = pt n) \<and>
     (\<forall>m n. cv_mul ec (pt m) n = Some (pt (m * n)) \<and> cv_add ec (pt m) (pt n) = Some (pt (m + n))) \<and>
     (\<forall>m. cv_invert ec (pt m) = Some (pt (m * (cv_order ec - 1)))) \<and>
     (\<forall>n. cv_is_at_infinity ec (pt n) \<longleftrightarrow> n mod cv_order ec = 0) \<and>
     (\<forall>n. n mod cv_order ec \<noteq> 0 \<longrightarrow>
        (\<exists>x y. cv_to_bin ec (pt n) = Some (x, y) \<and> length x = cv_prime_len ec \<and> length y = cv_prime_len ec \<and>
           octets_nat x < cv_prime ec \<and> octets_nat y < cv_prime ec \<and> cv_from_bin ec (x @ y) = Some (pt n)) \<and>
        cv_is_on_curve ec (pt n))"

text \<open>The order is a prime number, of which only this is needed.\<close>

definition prime_order :: "nat \<Rightarrow> bool" where
  "prime_order r \<longleftrightarrow> 1 < r \<and> (\<forall>a b. a * b mod r = 0 \<longrightarrow> a mod r = 0 \<or> b mod r = 0)"

definition curve_sizes :: "'p curve \<Rightarrow> bool" where
  "curve_sizes ec \<longleftrightarrow>
     cv_prime_len ec \<le> 66 \<and> cv_prime ec < 256 ^ cv_prime_len ec \<and> cv_order ec < 256 ^ cv_prime_len ec \<and>
     cv_order ec < 256 ^ cv_order_len ec \<and> cv_order_len ec \<le> 512"

lemma curve_groupD:
  assumes "curve_group ec pt"
  shows "cv_mul ec (pt m) n = Some (pt (m * n))" "cv_add ec (pt m) (pt n) = Some (pt (m + n))"
    "cv_invert ec (pt m) = Some (pt (m * (cv_order ec - 1)))" "cv_is_at_infinity ec (pt n) \<longleftrightarrow> n mod cv_order ec = 0"
    "m mod cv_order ec = n mod cv_order ec \<Longrightarrow> pt m = pt n" "n mod cv_order ec \<noteq> 0 \<Longrightarrow> cv_is_on_curve ec (pt n)"
    "n mod cv_order ec \<noteq> 0 \<Longrightarrow> \<exists>x y. cv_to_bin ec (pt n) = Some (x, y) \<and> length x = cv_prime_len ec \<and> length y = cv_prime_len ec \<and>
       octets_nat x < cv_prime ec \<and> octets_nat y < cv_prime ec \<and> cv_from_bin ec (x @ y) = Some (pt n)"
proof -
  have "\<forall>n. pt (n mod cv_order ec) = pt n" using assms by (simp add: curve_group_def)
  then show "m mod cv_order ec = n mod cv_order ec \<Longrightarrow> pt m = pt n" by metis
qed (use assms in \<open>simp_all add: curve_group_def\<close>)

text \<open>The secret of one station, the scalar and the element of the other.\<close>

lemma dragonfly_secret:
  assumes g: "curve_group ec pt" and r: "0 < cv_order ec"
  shows "do { K \<leftarrow> cv_mul ec (pt v) ((b + m) mod cv_order ec);
              K \<leftarrow> cv_add ec K (pt (v * m * (cv_order ec - 1)));
              cv_mul ec K a } = Some (pt (v * (a * b)))"
proof -
  let ?r = "cv_order ec"
  have "v * (b + m) + v * m * (?r - 1) = v * b + v * m * ?r"
    using r by (cases ?r) (simp_all add: algebra_simps)
  then have "(v * (b + m) + v * m * (?r - 1)) * a = v * (a * b) + ?r * (v * m * a)" by (simp add: algebra_simps)
  then have "(v * (b + m) + v * m * (?r - 1)) * a mod ?r = v * (a * b) mod ?r" by (simp only: mod_mult_self2)
  moreover have "(v * ((b + m) mod ?r) + v * m * (?r - 1)) * a mod ?r = (v * (b + m) + v * m * (?r - 1)) * a mod ?r"
    by (intro mod_mult_cong mod_add_cong refl mod_mod_trivial)
  ultimately have "pt ((v * ((b + m) mod ?r) + v * m * (?r - 1)) * a) = pt (v * (a * b))"
    by (intro curve_groupD(5) [OF g]) simp
  then show ?thesis by (simp add: curve_groupD(1,2) [OF g])
qed

lemma prime_order_mult: "prime_order r \<Longrightarrow> a mod r \<noteq> 0 \<Longrightarrow> b mod r \<noteq> 0 \<Longrightarrow> a * b mod r \<noteq> 0"
  unfolding prime_order_def by metis

lemma proper_mod: "1 < a \<Longrightarrow> a < r \<Longrightarrow> a mod (r :: nat) \<noteq> 0"
  by simp


section \<open>A prepared station\<close>

definition prepared ::
  "'p curve \<Rightarrow> (nat \<Rightarrow> 'p) \<Rightarrow> nat \<Rightarrow> int \<Rightarrow> bytes option \<Rightarrow> bool \<Rightarrow> nat \<Rightarrow> nat \<Rightarrow> 'p sae_tmp \<Rightarrow> 'p sae_data \<Rightarrow> bool" where
  "prepared ec pt v g rej hi rnd msk tmp sae \<longleftrightarrow>
     sae_tmp sae = Some tmp \<and> sae_ec tmp = Some ec \<and> sae_dh tmp = None \<and> sae_prime_len tmp = cv_prime_len ec \<and>
     sae_prime tmp = cv_prime ec \<and> sae_order_len tmp = cv_order_len ec \<and> sae_order tmp = cv_order ec \<and>
     pwe_ecc tmp = Some (pt v) \<and> sae_rand tmp = Some rnd \<and>
     own_commit_scalar tmp = Some ((rnd + msk) mod cv_order ec) \<and>
     own_commit_element_ecc tmp = Some (pt (v * msk * (cv_order ec - 1))) \<and>
     sae_pw_id tmp = None \<and> own_rejected_groups tmp = rej \<and> peer_rejected_groups tmp = None \<and> own_addr_higher tmp = hi \<and>
     sae_group sae = g \<and> sae_h2e sae \<and> peer_commit_scalar_accepted sae = None \<and>
     1 < rnd \<and> rnd < cv_order ec \<and> 1 < msk \<and> msk < cv_order ec \<and> 1 < (rnd + msk) mod cv_order ec"

lemma derive_pt_find:
  assumes "List.find (\<lambda>p. pt_group p = g) (sae_derive_pt L c groups ssid pw ident) = Some p"
  shows "sae_derive_pt_group L c g ssid pw ident = Some p"
proof -
  have "p \<in> set (sae_derive_pt L c groups ssid pw ident)" "pt_group p = g"
    using assms by (auto simp: find_Some_iff)
  then obtain g' where g': "sae_derive_pt_group L c g' ssid pw ident = Some p"
    by (auto simp: sae_derive_pt_def List.map_filter_def)
  then have "pt_group p = g'" by (auto simp: sae_derive_pt_group_def split: if_splits option.splits)
  then show ?thesis using g' \<open>pt_group p = g\<close> by simp
qed

lemma max_min_addr_comm: "length a = length b \<Longrightarrow> sae_max_min_addr a b = sae_max_min_addr b a"
  using os_memcmp_swap [of a b] os_memcmp_eq_0 [of a b] by (auto simp: sae_max_min_addr_def)

lemma pwe_factor_proper:
  assumes "bignum_ok L" "1 < r" "pwe_factor L c n r a b = Some v"
  shows "v mod r \<noteq> 0"
proof -
  obtain h t w where "bn_sub L r 1 = Some t" "bn_mod L h t = Some w" "bn_add L w 1 = Some v"
    using assms(3) by (auto simp: pwe_factor_def split: bind_splits if_splits)
  then have "v = h mod (r - 1) + 1" using bignum_okD(1,2,3) [OF assms(1)] assms(2) by fastforce
  moreover have "h mod (r - 1) < r - 1" using assms(2) by simp
  ultimately show ?thesis by simp
qed

lemma prepare_commit_pt_ok:
  assumes bn: "bignum_ok L" and gr: "curve_group ec pt" and ec: "sl_ec_init L g = Some ec" and r1: "1 < cv_order ec"
    and pw: "sae_derive_pt_ecc L c ec g ssid pw ident = Some (pt 1)"
    and set: "sae_set_group L g s0 = (0, s1)"
    and prep: "sae_prepare_commit_pt L c (sae_derive_pt L c groups ssid pw ident) addr1 addr2 rejected i s1 = Some (0, s2, i')"
  shows "\<exists>v rnd msk tmp. pwe_factor L c (sae_ecc_prime_len_2_hash_len (cv_prime_len ec)) (cv_order ec) addr1 addr2 = Some v \<and>
    prepared ec pt v g (map_option rejected_groups_buf rejected) (os_memcmp addr1 addr2 > 0) rnd msk tmp s2"
proof -
  define t1 where "t1 = sae_tmp_zero\<lparr> sae_ec := Some ec, sae_prime_len := cv_prime_len ec, sae_prime := cv_prime ec,
    sae_order_len := cv_order_len ec, sae_order := cv_order ec \<rparr>"
  have s1: "s1 = sae_data_zero\<lparr> sae_group := g, sae_tmp := Some t1 \<rparr>"
    using set by (auto simp: sae_set_group_def ec Let_def sae_clear_data_def t1_def split: if_splits)
  obtain p where p: "List.find (\<lambda>p. pt_group p = g) (sae_derive_pt L c groups ssid pw ident) = Some p"
    using prep by (cases "List.find (\<lambda>p. pt_group p = g) (sae_derive_pt L c groups ssid pw ident)")
      (auto simp: sae_prepare_commit_pt_def s1 sae_data_zero_def)
  have pp: "pt_ec p = Some ec" "pt_ecc_pt p = Some (pt 1)" "pt_dh p = None"
    using derive_pt_find [OF p] by (auto simp: sae_derive_pt_group_def ec pw split: if_splits)
  define t2 where "t2 = t1\<lparr> own_addr_higher := os_memcmp addr1 addr2 > 0, own_rejected_groups := map_option rejected_groups_buf rejected \<rparr>"
  obtain P where P: "sae_derive_pwe_from_pt_ecc L c ec (pt 1) addr1 addr2 = Some P"
    and dc: "map_option (\<lambda>(r, tmp, i). (r, s1\<lparr> sae_h2e := True, sae_tmp := Some tmp \<rparr>, i)) (sae_derive_commit L i (t2\<lparr> pwe_ecc := Some P \<rparr>)) =
      Some (0, s2, i')"
    using prep p pp by (cases "sae_derive_pwe_from_pt_ecc L c ec (pt 1) addr1 addr2")
      (auto simp: sae_prepare_commit_pt_def s1 sae_data_zero_def t2_def Let_def split: if_splits)
  obtain v where v: "pwe_factor L c (sae_ecc_prime_len_2_hash_len (cv_prime_len ec)) (cv_order ec) addr1 addr2 = Some v" "P = pt v"
    using P by (auto simp: sae_derive_pwe_from_pt_ecc_def curve_groupD(1) [OF gr] split: bind_splits if_splits)
  obtain t3 where t3: "sae_derive_commit L i (t2\<lparr> pwe_ecc := Some (pt v) \<rparr>) = Some (0, t3, i')" "s2 = s1\<lparr> sae_h2e := True, sae_tmp := Some t3 \<rparr>"
    using dc v(2) by auto
  have sel: "sae_ec t2 = Some ec" "sae_dh t2 = None" "sae_order t2 = cv_order ec"
    by (simp_all add: t2_def t1_def sae_tmp_zero_def)
  obtain rnd msk s where d: "dragonfly_generate_scalar L (cv_order ec) i = (Some (rnd, msk, s), i')"
    "t3 = t2\<lparr> pwe_ecc := Some (pt v), sae_rand := Some rnd, own_commit_scalar := Some s,
       own_commit_element_ecc := Some (pt (v * msk * (cv_order ec - 1))) \<rparr>"
    using t3(1) sel by (auto simp: sae_derive_commit_def sae_derive_commit_element_ecc_def curve_groupD(1,3) [OF gr] Let_def
        split: if_splits option.splits prod.splits)
  from generate_scalar_ok [OF bn d(1) [unfolded dragonfly_generate_scalar_def]]
  have "prepared ec pt v g (map_option rejected_groups_buf rejected) (os_memcmp addr1 addr2 > 0) rnd msk t3 s2"
    by (simp add: prepared_def d(2) t3(2) s1 t2_def t1_def sae_tmp_zero_def sae_data_zero_def)
  then show ?thesis using v(1) by blast
qed


section \<open>The commit message on its way\<close>

lemma octet_of_length: "length x \<le> 254 \<Longrightarrow> unat (of_nat (1 + length x) :: byte) = 1 + length x"
  unfolding unsigned_of_nat by (simp add: take_bit_nat_eq_self)

lemma is_ext_elem_ext:
  assumes "length x \<le> 254"
  shows "is_ext_elem m e (ext_element e' (Some x) @ R) \<longleftrightarrow> e' = e \<and> unat m \<le> 1 + length x"
    and "unat ((ext_element e' (Some x) @ R) ! 1) - 1 = length x"
    and "slice 3 (length x) (ext_element e' (Some x) @ R) = x" "drop (3 + length x) (ext_element e' (Some x) @ R) = R"
  using octet_of_length [OF assms]
  by (auto simp: is_ext_elem_def ext_element_def slice_def word_le_nat_alt numeral_eq_Suc)

lemma is_ext_elem_Nil [simp]: "\<not> is_ext_elem m e []"
  by (simp add: is_ext_elem_def)

text \<open>The optional elements and what the receiver makes of them.\<close>

definition commit_elems_ok :: "bytes option \<Rightarrow> bytes option \<Rightarrow> bytes option \<Rightarrow> bool" where
  "commit_elems_ok ident rej token \<longleftrightarrow>
     (\<forall>x. ident = Some x \<longrightarrow> length x \<le> 254) \<and> (\<forall>x. rej = Some x \<longrightarrow> x \<noteq> [] \<and> length x \<le> 254) \<and>
     (\<forall>x. token = Some x \<longrightarrow> length x \<le> 254)"

lemma parse_token_elem:
  "\<forall>x. token = Some x \<longrightarrow> length x \<le> 254 \<Longrightarrow> sae_parse_token_container (ext_element WLAN_EID_EXT_ANTI_CLOGGING_TOKEN token) = token"
proof (cases token)
  case (Some x)
  assume "\<forall>x. token = Some x \<longrightarrow> length x \<le> 254"
  then have x: "length x \<le> 254" using Some by simp
  have "ext_element WLAN_EID_EXT_ANTI_CLOGGING_TOKEN token = ext_element WLAN_EID_EXT_ANTI_CLOGGING_TOKEN (Some x) @ []"
    by (simp add: Some)
  then show ?thesis
    unfolding sae_parse_token_container_def sae_is_token_container_elem_def
    by (simp only: is_ext_elem_ext [OF x]) (simp add: Some)
qed (simp add: sae_parse_token_container_def sae_is_token_container_elem_def ext_element_def)

lemma ext_elem_other:
  assumes "\<forall>x. d = Some x \<longrightarrow> length x \<le> 254" "e' \<noteq> e" "\<not> is_ext_elem m e R"
  shows "\<not> is_ext_elem m e (ext_element e' d @ R)"
  using assms is_ext_elem_ext(1) [of "the d" m e e' R] by (cases d) (auto simp: ext_element_def)

lemma parse_rejected_elem:
  assumes "commit_elems_ok ident rej token" "peer_rejected_groups tmp = None" "sl_alloc L ''rejected_groups''"
  shows "sae_parse_rejected_groups L (ext_element WLAN_EID_EXT_REJECTED_GROUPS rej @ ext_element WLAN_EID_EXT_ANTI_CLOGGING_TOKEN token) tmp =
    (WLAN_STATUS_SUCCESS, ext_element WLAN_EID_EXT_ANTI_CLOGGING_TOKEN token, tmp\<lparr> peer_rejected_groups := rej \<rparr>)"
proof (cases rej)
  case None
  have "\<not> is_ext_elem 2 WLAN_EID_EXT_REJECTED_GROUPS (ext_element WLAN_EID_EXT_ANTI_CLOGGING_TOKEN token @ [])"
    using assms(1) by (intro ext_elem_other) (auto simp: commit_elems_ok_def)
  then show ?thesis using None assms(2)
    by (simp add: sae_parse_rejected_groups_def sae_is_rejected_groups_elem_def ext_element_def [of _ None])
next
  case (Some x)
  then have x: "length x \<le> 254" "2 \<le> 1 + length x" using assms(1) by (cases x; auto simp: commit_elems_ok_def)+
  show ?thesis
    unfolding sae_parse_rejected_groups_def sae_is_rejected_groups_elem_def Some Let_def is_ext_elem_ext [OF x(1)]
    using x(2) assms(3) by simp
qed

lemma parse_ident_elem:
  assumes "commit_elems_ok ident rej token" "sae_pw_id tmp = None" "sl_alloc L ''pw_id''"
    and R: "R = ext_element WLAN_EID_EXT_REJECTED_GROUPS rej @ ext_element WLAN_EID_EXT_ANTI_CLOGGING_TOKEN token"
  shows "sae_parse_password_identifier L (ext_element WLAN_EID_EXT_PASSWORD_IDENTIFIER ident @ R) tmp =
    (WLAN_STATUS_SUCCESS, R, tmp\<lparr> sae_pw_id := ident \<rparr>)"
proof (cases ident)
  case None
  have "\<not> is_ext_elem 1 WLAN_EID_EXT_PASSWORD_IDENTIFIER (ext_element WLAN_EID_EXT_REJECTED_GROUPS rej @ (ext_element WLAN_EID_EXT_ANTI_CLOGGING_TOKEN token @ []))"
    using assms(1) by (intro ext_elem_other) (auto simp: commit_elems_ok_def)
  then show ?thesis using None assms(2) R
    by (simp add: sae_parse_password_identifier_def sae_is_password_id_elem_def ext_element_def [of _ None])
next
  case (Some x)
  then have x: "length x \<le> 254" using assms(1) by (auto simp: commit_elems_ok_def)
  show ?thesis
    unfolding sae_parse_password_identifier_def sae_is_password_id_elem_def Some Let_def is_ext_elem_ext [OF x]
    using assms(2,3) by simp
qed

lemma group_still_allowed:
  assumes "sae_group sae = uint g" "sae_tmp sae = Some tmp" "sae_dh tmp = None"
    and "allowed = None \<or> (\<exists>l. allowed = Some l \<and> uint g \<in> set (takeWhile (\<lambda>x. x > 0) l))"
  shows "sae_group_allowed L allowed g sae = (WLAN_STATUS_SUCCESS, sae)"
proof -
  have "\<exists>t. dropWhile (\<lambda>x. x > 0 \<and> x \<noteq> uint g) l = uint g # t" if "uint g \<in> set (takeWhile (\<lambda>x. x > 0) l)" for l
    using that by (induction l) (auto split: if_splits)
  then show ?thesis using assms by (fastforce simp: sae_group_allowed_def)
qed


text \<open>The assumptions that the rest shares: the library does not fail, the curve is a group of prime
  order.\<close>

definition sae_lib_ok :: "'p sae_lib \<Rightarrow> 'p curve \<Rightarrow> (nat \<Rightarrow> 'p) \<Rightarrow> bool" where
  "sae_lib_ok L ec pt \<longleftrightarrow>
     bignum_ok L \<and> bignum_total L \<and> curve_group ec pt \<and> prime_order (cv_order ec) \<and> curve_sizes ec"

lemma sae_lib_okD:
  assumes "sae_lib_ok L ec pt"
  shows "bignum_ok L" "bignum_total L" "curve_group ec pt" "prime_order (cv_order ec)" "curve_sizes ec" "1 < cv_order ec" "sl_alloc L n"
  using assms by (auto simp: sae_lib_ok_def prime_order_def bignum_total_def)

lemma to_bin_total:
  assumes "sae_lib_ok L ec pt" "v < 256 ^ pad" "pad \<le> len"
  shows "\<exists>b. bn_to_bin L v len pad = Some b \<and> length b = pad \<and> octets_nat b = v"
proof -
  obtain b where "bn_to_bin L v len pad = Some b"
    using sae_lib_okD(2) [OF assms(1)] assms(2,3) unfolding bignum_total_def by blast
  then show ?thesis using bignum_okD(7,8) [OF sae_lib_okD(1) [OF assms(1)]] by blast
qed

lemma element_proper:
  assumes "sae_lib_ok L ec pt" "v mod cv_order ec \<noteq> 0" "prepared ec pt v g rej hi rnd msk tmp sae"
  shows "(v * msk * (cv_order ec - 1)) mod cv_order ec \<noteq> 0"
proof -
  have "1 < msk" "msk < cv_order ec" using assms(3) by (simp_all add: prepared_def)
  then show ?thesis
    using assms(2) sae_lib_okD(6) [OF assms(1)] by (intro prime_order_mult [OF sae_lib_okD(4) [OF assms(1)]]) auto
qed

lemma write_commit_prepared:
  assumes lib: "sae_lib_ok L ec pt" and v: "v mod cv_order ec \<noteq> 0" and p: "prepared ec pt v g rej hi rnd msk tmp sae"
  shows "\<exists>sb x y. length sb = cv_prime_len ec \<and> octets_nat sb = (rnd + msk) mod cv_order ec \<and>
    length x = cv_prime_len ec \<and> length y = cv_prime_len ec \<and> octets_nat x < cv_prime ec \<and> octets_nat y < cv_prime ec \<and>
    cv_from_bin ec (x @ y) = Some (pt (v * msk * (cv_order ec - 1))) \<and> cv_is_on_curve ec (pt (v * msk * (cv_order ec - 1))) \<and>
    sae_write_commit L token ident sae = Some (Some (WPA_PUT_LE16 (word_of_int g) @ sb @ (x @ y) @
      ext_element WLAN_EID_EXT_PASSWORD_IDENTIFIER ident @ ext_element WLAN_EID_EXT_REJECTED_GROUPS rej @
      ext_element WLAN_EID_EXT_ANTI_CLOGGING_TOKEN token))"
proof -
  let ?r = "cv_order ec" and ?E = "pt (v * msk * (cv_order ec - 1))"
  have "(rnd + msk) mod ?r < 256 ^ cv_prime_len ec"
    using sae_lib_okD(5,6) [OF lib] by (auto simp: curve_sizes_def intro: less_trans [OF mod_less_divisor])
  then obtain sb where sb: "bn_to_bin L ((rnd + msk) mod ?r) (cv_prime_len ec) (cv_prime_len ec) = Some sb"
    "length sb = cv_prime_len ec" "octets_nat sb = (rnd + msk) mod ?r" using to_bin_total [OF lib] by blast
  have e: "(v * msk * (?r - 1)) mod ?r \<noteq> 0" using element_proper [OF lib v p] .
  obtain x y where xy: "cv_to_bin ec ?E = Some (x, y)" "length x = cv_prime_len ec" "length y = cv_prime_len ec"
    "octets_nat x < cv_prime ec" "octets_nat y < cv_prime ec" "cv_from_bin ec (x @ y) = Some ?E"
    using curve_groupD(7) [OF sae_lib_okD(3) [OF lib] e] by blast
  have oc: "cv_is_on_curve ec ?E" using curve_groupD(6) [OF sae_lib_okD(3) [OF lib] e] .
  have "sae_write_commit L token ident sae = Some (Some (WPA_PUT_LE16 (word_of_int g) @ sb @ (x @ y) @
      ext_element WLAN_EID_EXT_PASSWORD_IDENTIFIER ident @ ext_element WLAN_EID_EXT_REJECTED_GROUPS rej @
      ext_element WLAN_EID_EXT_ANTI_CLOGGING_TOKEN token))"
    using p sb(1) xy(1) by (simp add: prepared_def sae_write_commit_def)
  then show ?thesis using sb xy oc by blast
qed

text \<open>The receiver: the state has the scalar, the element and the rejected groups of the sender.\<close>

definition received :: "'p \<Rightarrow> bytes option \<Rightarrow> bytes option \<Rightarrow> 'p sae_tmp \<Rightarrow> 'p sae_tmp" where
  "received E ident rej tmp = tmp\<lparr> peer_commit_element_ecc := Some E, sae_pw_id := ident, peer_rejected_groups := rej \<rparr>"

lemma parse_commit_prepared:
  assumes lib: "sae_lib_ok L ec pt" and g: "g = 19 \<or> g = 20 \<or> g = 21"
    and b: "prepared ec pt w g rejb hib rndb mskb tmpb sb"
    and allowed: "allowed = None \<or> (\<exists>l. allowed = Some l \<and> g \<in> set (takeWhile (\<lambda>x. x > 0) l))"
    and el: "commit_elems_ok ident rej token"
    and m: "length sc = cv_prime_len ec" "octets_nat sc = s" "1 < s" "s < cv_order ec" "length x = cv_prime_len ec" "length y = cv_prime_len ec"
      "octets_nat x < cv_prime ec" "octets_nat y < cv_prime ec" "cv_from_bin ec (x @ y) = Some E" "cv_is_on_curve ec E"
    and nr: "\<not> sae_reflected (received E ident rej tmpb) (sb\<lparr> peer_commit_scalar := Some s, sae_tmp := Some (received E ident rej tmpb) \<rparr>)"
  shows "sae_parse_commit L (WPA_PUT_LE16 (word_of_int g) @ sc @ (x @ y) @ ext_element WLAN_EID_EXT_PASSWORD_IDENTIFIER ident @
      ext_element WLAN_EID_EXT_REJECTED_GROUPS rej @ ext_element WLAN_EID_EXT_ANTI_CLOGGING_TOKEN token) allowed True sb =
    (WLAN_STATUS_SUCCESS, token, sb\<lparr> peer_commit_scalar := Some s, sae_tmp := Some (received E ident rej tmpb) \<rparr>)"
proof -
  let ?R1 = "ext_element WLAN_EID_EXT_REJECTED_GROUPS rej @ ext_element WLAN_EID_EXT_ANTI_CLOGGING_TOKEN token"
  let ?R0 = "ext_element WLAN_EID_EXT_PASSWORD_IDENTIFIER ident @ ?R1"
  let ?data = "WPA_PUT_LE16 (word_of_int g) @ sc @ (x @ y) @ ?R0"
  have bp: "sae_tmp sb = Some tmpb" "sae_ec tmpb = Some ec" "sae_dh tmpb = None" "sae_prime_len tmpb = cv_prime_len ec"
    "sae_prime tmpb = cv_prime ec" "sae_order tmpb = cv_order ec" "sae_pw_id tmpb = None" "peer_rejected_groups tmpb = None"
    "sae_group sb = g" "peer_commit_scalar_accepted sb = None"
    using b by (simp_all add: prepared_def)
  have ug: "uint (word_of_int g :: u16) = g" using g by auto
  have g1: "the (WPA_GET_LE16 ?data 0) = word_of_int g" using WPA_GET_LE16_PUT [of 0 "[]" "word_of_int g" "sc @ (x @ y) @ ?R0"] by simp
  have g2: "drop 2 ?data = sc @ (x @ y) @ ?R0" by (simp add: WPA_PUT_LE16_def)
  have ga: "sae_group_allowed L allowed (word_of_int g) sb = (WLAN_STATUS_SUCCESS, sb)"
    using group_still_allowed [of sb "word_of_int g" tmpb allowed L] bp ug allowed by simp
  have scl: "sae_parse_commit_scalar L (sc @ (x @ y) @ ?R0) tmpb sb = (WLAN_STATUS_SUCCESS, (x @ y) @ ?R0, sb\<lparr> peer_commit_scalar := Some s \<rparr>)"
    using m(1-4) bp by (simp add: sae_parse_commit_scalar_def bignum_values(8) [OF sae_lib_okD(1,2) [OF lib]])
  have sz: "cv_prime ec < 256 ^ cv_prime_len ec" "cv_prime_len ec \<le> 66" using sae_lib_okD(5) [OF lib] by (auto simp: curve_sizes_def)
  obtain pr where pr: "bn_to_bin L (cv_prime ec) 66 (cv_prime_len ec) = Some pr" "length pr = cv_prime_len ec" "octets_nat pr = cv_prime ec"
    using to_bin_total [OF lib sz] by blast
  have sl: "slice 0 (cv_prime_len ec) ((x @ y) @ ?R0) = x" "slice (cv_prime_len ec) (cv_prime_len ec) ((x @ y) @ ?R0) = y"
    "take (2 * cv_prime_len ec) ((x @ y) @ ?R0) = x @ y" "drop (2 * cv_prime_len ec) ((x @ y) @ ?R0) = ?R0"
    "\<not> 2 * cv_prime_len ec > length ((x @ y) @ ?R0)"
    using m(5,6) by (simp_all add: slice_def)
  have elm: "sae_parse_commit_element L ((x @ y) @ ?R0) tmpb = (WLAN_STATUS_SUCCESS, ?R0, tmpb\<lparr> peer_commit_element_ecc := Some E \<rparr>)"
    unfolding sae_parse_commit_element_def sae_parse_commit_element_ecc_def Let_def bp
    using m(7-10) pr memcmp_octets_nat [of x pr] memcmp_octets_nat [of y pr] m(5,6)
    by (simp add: sl del: append_assoc)
  have pw: "sae_parse_password_identifier L ?R0 (tmpb\<lparr> peer_commit_element_ecc := Some E \<rparr>) =
    (WLAN_STATUS_SUCCESS, ?R1, tmpb\<lparr> peer_commit_element_ecc := Some E, sae_pw_id := ident \<rparr>)"
    using parse_ident_elem [OF el _ sae_lib_okD(7) [OF lib] refl, of "tmpb\<lparr> peer_commit_element_ecc := Some E \<rparr>"] bp by simp
  have rj: "sae_parse_rejected_groups L ?R1 (tmpb\<lparr> peer_commit_element_ecc := Some E, sae_pw_id := ident \<rparr>) =
    (WLAN_STATUS_SUCCESS, ext_element WLAN_EID_EXT_ANTI_CLOGGING_TOKEN token, received E ident rej tmpb)"
    using parse_rejected_elem [OF el _ sae_lib_okD(7) [OF lib], of "tmpb\<lparr> peer_commit_element_ecc := Some E, sae_pw_id := ident \<rparr>"] bp
    by (simp add: received_def)
  have tk: "sae_parse_token_container (ext_element WLAN_EID_EXT_ANTI_CLOGGING_TOKEN token) = token"
    using parse_token_elem el by (simp add: commit_elems_ok_def)
  have t0: "sae_parse_commit_token True tmpb rest = (None, rest)" for rest by (simp add: sae_parse_commit_token_def)
  show ?thesis
    unfolding sae_parse_commit_def g1 g2 ga Let_def prod.case bp(1) option.sel t0 scl elm pw rj if_True tk
    using nr by (cases token) (simp_all add: WPA_PUT_LE16_def)
qed


section \<open>The keys and the confirm message\<close>

text \<open>The keys as a function of what both stations have.\<close>

definition sae_keys_of :: "crypto \<Rightarrow> nat \<Rightarrow> bytes \<Rightarrow> bytes \<Rightarrow> bytes \<Rightarrow> (bytes \<times> bytes \<times> bytes) option" where
  "sae_keys_of c hash_len salt k val =
     do {
       keyseed \<leftarrow> hkdf_extract c hash_len salt [k];
       keys \<leftarrow> sae_kdf_hash c hash_len keyseed ''SAE KCK and PMK'' val (hash_len + 32);
       Some (slice 0 hash_len keys, slice hash_len 32 keys, slice 0 16 val)
     }"

definition with_keys :: "(bytes \<times> bytes \<times> bytes) option \<Rightarrow> 'p sae_tmp \<Rightarrow> 'p sae_data \<Rightarrow> int \<times> 'p sae_data" where
  "with_keys ks tmp sae =
     (case ks of
        None \<Rightarrow> (-1, sae)
      | Some (ck, pmk, pid) \<Rightarrow> (0, sae\<lparr> sae_tmp := Some (tmp\<lparr> sae_kck := ck \<rparr>), sae_pmk := pmk, sae_pmkid := pid \<rparr>))"

lemma process_commit_prepared:
  assumes lib: "sae_lib_ok L ec pt" and v: "v mod cv_order ec \<noteq> 0"
    and a: "prepared ec pt v g rej hi rnd msk tmp sae" and b: "prepared ec pt v g rejb hib rndb mskb tmpb sb"
    and k: "cv_to_bin ec (pt (v * (rnd * rndb))) = Some (x, y)"
    and val: "bn_to_bin L (((rnd + msk) mod cv_order ec + (rndb + mskb) mod cv_order ec) mod cv_order ec) 512 (cv_order_len ec) = Some val"
    and t_def: "t = received (pt (v * mskb * (cv_order ec - 1))) ident rejb tmp"
  shows "sae_process_commit L c (sae\<lparr> peer_commit_scalar := Some ((rndb + mskb) mod cv_order ec), sae_tmp := Some t \<rparr>) =
    Some (with_keys (sae_keys_of c (sae_hash_len True tmp) (sae_salt True t) (slice 0 (cv_prime_len ec) x) val) t
      (sae\<lparr> peer_commit_scalar := Some ((rndb + mskb) mod cv_order ec), sae_tmp := Some t \<rparr>))"
proof -
  let ?r = "cv_order ec"
  have r0: "0 < ?r" using sae_lib_okD(6) [OF lib] by simp
  have tf: "sae_ec t = Some ec" "sae_dh t = None" "sae_prime_len t = cv_prime_len ec" "sae_order t = ?r" "sae_order_len t = cv_order_len ec"
    "pwe_ecc t = Some (pt v)" "sae_rand t = Some rnd" "own_commit_scalar t = Some ((rnd + msk) mod ?r)"
    "peer_commit_element_ecc t = Some (pt (v * mskb * (?r - 1)))" "sae_hash_len True t = sae_hash_len True tmp" "sae_h2e sae"
    using a by (simp_all add: t_def received_def prepared_def sae_hash_len_def)
  have "rnd mod ?r \<noteq> 0" "rndb mod ?r \<noteq> 0" using a b by (auto simp: prepared_def)
  then have "(v * (rnd * rndb)) mod ?r \<noteq> 0" using v by (intro prime_order_mult [OF sae_lib_okD(4) [OF lib]])
  then have inf: "\<not> cv_is_at_infinity ec (pt (v * (rnd * rndb)))" using curve_groupD(4) [OF sae_lib_okD(3) [OF lib]] by simp
  have kk: "sae_derive_k_ecc L ec (Some ((rndb + mskb) mod ?r)) t = Some (Some x)"
    using dragonfly_secret [OF sae_lib_okD(3) [OF lib] r0, of v rndb mskb rnd] inf k
    by (simp add: sae_derive_k_ecc_def tf sae_lib_okD(7) [OF lib] flip: bind_assoc)
  have bn: "do { u \<leftarrow> bn_add L a b; bn_mod L u ?r } = Some ((a + b) mod ?r)" for a b
    using bignum_values [OF sae_lib_okD(1,2) [OF lib]] r0 by simp
  show ?thesis
    unfolding sae_process_commit_def sae_derive_keys_def sae_keys_of_def with_keys_def
    using kk val by (simp add: tf bn sae_lib_okD(7) [OF lib] Let_def split: bind_splits option.splits)
qed

lemma salt_agrees:
  assumes "prepared ec pt v g reja hia rnda mska ta sa" "prepared ec pt v g rejb hib rndb mskb tb sb" "hib = (\<not> hia)"
  shows "sae_salt True (received E ident rejb ta) = sae_salt True (received E' ident' reja tb)"
    "sae_hash_len True ta = sae_hash_len True tb"
  using assms by (auto simp: sae_salt_def received_def prepared_def sae_hash_len_def Let_def)

lemma keys_lengths:
  assumes "mac_lengths_ok c" "sae_keys_of c n salt k val = Some (ck, pmk, pid)"
  shows "length ck = n \<and> length pmk = 32 \<and> n \<in> {32, 48, 64}"
  using assms(2) length_prf(2,3,4) [OF assms(1)]
  by (auto simp: sae_keys_of_def sae_kdf_hash_def hkdf_extract_def slice_def split: bind_splits if_splits)

text \<open>What one station writes the other accepts.\<close>

lemma confirm_agrees:
  assumes mac: "mac_lengths_ok c" and n: "length ck \<in> {32, 48, 64}"
    and a: "sae_tmp a = Some ta" "sae_ec ta = Some ec" "sae_kck ta = ck" "own_commit_scalar ta = Some s" "peer_commit_scalar a = Some s'"
      "own_commit_element_ecc ta = Some E" "peer_commit_element_ecc ta = Some E'"
    and b: "sae_tmp b = Some tb" "sae_ec tb = Some ec" "sae_kck tb = ck" "own_commit_scalar tb = Some s'" "peer_commit_scalar b = Some s"
      "own_commit_element_ecc tb = Some E'" "peer_commit_element_ecc tb = Some E" "sae_prime_len tb = sae_prime_len ta"
    and w: "sae_write_confirm L c a = Some (Some msg, a')"
  shows "sae_check_confirm L c msg b = 0"
proof -
  define sc where "sc = WPA_PUT_LE16 (if sae_send_confirm a < 0xffff then sae_send_confirm a + 1 else sae_send_confirm a)"
  have l2: "length sc = 2" by (simp add: sc_def)
  obtain cf where cf: "sae_cn_confirm_ecc L c ec ta sc s E s' E' = Some cf" "msg = sc @ cf"
    using w a by (auto simp: sae_write_confirm_def Let_def sc_def split: option.splits if_splits)
  have same: "sae_cn_confirm_ecc L c ec tb sc s E s' E' = Some cf"
    using cf(1) a(3) b(3,8) by (simp add: sae_cn_confirm_ecc_def sae_cn_confirm_def)
  have "length cf = length ck"
    using cf(1) a(3) n mac_lengths_okD [OF mac]
    by (auto simp: sae_cn_confirm_ecc_def sae_cn_confirm_def hkdf_extract_def split: bind_splits if_splits prod.splits)
  then show ?thesis
    using same b cf(2) l2 by (simp add: sae_check_confirm_def Let_def slice_def)
qed


text \<open>The hash functions do not fail.\<close>

definition macs_total :: "crypto \<Rightarrow> bool" where
  "macs_total c \<longleftrightarrow> hmac_total c \<and> (\<forall>k d. hmac_sha384_vector c k d \<noteq> None \<and> hmac_sha512_vector c k d \<noteq> None)"

lemma macs_total_prf:
  assumes "macs_total c" "n \<in> {32, 48, 64}"
  shows "hkdf_extract c n salt es \<noteq> None" "sae_kdf_hash c n k lbl ctx len \<noteq> None"
proof -
  have t: "\<And>k d. hmac_sha256_vector c k d \<noteq> None" "\<And>k d. hmac_sha384_vector c k d \<noteq> None" "\<And>k d. hmac_sha512_vector c k d \<noteq> None"
    using assms(1) by (auto simp: macs_total_def hmac_total_def)
  show "hkdf_extract c n salt es \<noteq> None" using assms(2) t by (auto simp: hkdf_extract_def)
  show "sae_kdf_hash c n k lbl ctx len \<noteq> None"
    using assms(2) prf_bits_loop_total [OF t(1), of 32] prf_bits_loop_total [OF t(2), of 48] prf_bits_loop_total [OF t(3), of 64]
    by (auto simp: sae_kdf_hash_def sha256_prf_def sha384_prf_def sha512_prf_def sha256_prf_bits_def sha384_prf_bits_def
        sha512_prf_bits_def prf_bits_def)
qed

lemma keys_exist:
  assumes "macs_total c" "n \<in> {32, 48, 64}"
  shows "\<exists>ck pmk pid. sae_keys_of c n salt k val = Some (ck, pmk, pid)"
proof -
  obtain seed where seed: "hkdf_extract c n salt [k] = Some seed" using macs_total_prf(1) [OF assms] by blast
  obtain keys where "sae_kdf_hash c n seed ''SAE KCK and PMK'' val (n + 32) = Some keys" using macs_total_prf(2) [OF assms] by blast
  then show ?thesis using seed by (simp add: sae_keys_of_def)
qed

lemma confirm_exists:
  assumes lib: "sae_lib_ok L ec pt" and mac: "macs_total c" and n: "length (sae_kck ta) \<in> {32, 48, 64}"
    and a: "sae_tmp a = Some ta" "sae_ec ta = Some ec" "sae_prime_len ta = cv_prime_len ec"
      "own_commit_scalar ta = Some s" "peer_commit_scalar a = Some s'" "s < cv_order ec" "s' < cv_order ec"
      "own_commit_element_ecc ta = Some (pt m)" "peer_commit_element_ecc ta = Some (pt m')"
    and e: "m mod cv_order ec \<noteq> 0" "m' mod cv_order ec \<noteq> 0"
  shows "\<exists>msg a'. sae_write_confirm L c a = Some (Some msg, a')"
proof -
  have sz: "cv_order ec < 256 ^ cv_prime_len ec" "cv_prime_len ec \<le> 512" using sae_lib_okD(5) [OF lib] by (auto simp: curve_sizes_def)
  obtain b1 b2 where b: "bn_to_bin L s 512 (cv_prime_len ec) = Some b1" "bn_to_bin L s' 512 (cv_prime_len ec) = Some b2"
    using to_bin_total [OF lib _ sz(2)] less_trans [OF a(6) sz(1)] less_trans [OF a(7) sz(1)] by meson
  obtain x y x' y' where p: "cv_to_bin ec (pt m) = Some (x, y)" "cv_to_bin ec (pt m') = Some (x', y')"
    using curve_groupD(7) [OF sae_lib_okD(3) [OF lib]] e by meson
  have "sae_cn_confirm_ecc L c ec ta sc s (pt m) s' (pt m') \<noteq> None" for sc
    using macs_total_prf(1) [OF mac n] by (simp add: sae_cn_confirm_ecc_def sae_cn_confirm_def p a(3) b)
  then obtain c1 c2 where "sae_cn_confirm_ecc L c ec ta (WPA_PUT_LE16 (sae_send_confirm a + 1)) s (pt m) s' (pt m') = Some c1"
    "sae_cn_confirm_ecc L c ec ta (WPA_PUT_LE16 (sae_send_confirm a)) s (pt m) s' (pt m') = Some c2" by blast
  then show ?thesis using a by (auto simp: sae_write_confirm_def Let_def)
qed


section \<open>The exchange\<close>

text \<open>The state after the commit message of the other station.\<close>

definition committed ::
  "'p curve \<Rightarrow> (nat \<Rightarrow> 'p) \<Rightarrow> nat \<Rightarrow> nat \<Rightarrow> nat \<Rightarrow> bytes option \<Rightarrow> bytes option \<Rightarrow> 'p sae_tmp \<Rightarrow> 'p sae_data \<Rightarrow> 'p sae_data" where
  "committed ec pt v rnd msk ident rej tmp sae =
     sae\<lparr> peer_commit_scalar := Some ((rnd + msk) mod cv_order ec),
         sae_tmp := Some (received (pt (v * msk * (cv_order ec - 1))) ident rej tmp) \<rparr>"

lemma commit_delivered:
  assumes lib: "sae_lib_ok L ec pt" and g: "g = 19 \<or> g = 20 \<or> g = 21" and v: "v mod cv_order ec \<noteq> 0"
    and a: "prepared ec pt v g reja hia rnda mska ta sa" and b: "prepared ec pt v g rejb hib rndb mskb tb sb"
    and allowed: "allowed = None \<or> (\<exists>l. allowed = Some l \<and> g \<in> set (takeWhile (\<lambda>x. x > 0) l))"
    and el: "commit_elems_ok ident reja token"
    and ne: "own_commit_scalar ta \<noteq> own_commit_scalar tb"
  shows "\<exists>msg. sae_write_commit L token ident sa = Some (Some msg) \<and>
    sae_parse_commit L msg allowed True sb = (WLAN_STATUS_SUCCESS, token, committed ec pt v rnda mska ident reja tb sb)"
proof -
  let ?s = "(rnda + mska) mod cv_order ec" and ?E = "pt (v * mska * (cv_order ec - 1))"
  obtain sc x y where m: "length sc = cv_prime_len ec" "octets_nat sc = ?s" "length x = cv_prime_len ec" "length y = cv_prime_len ec"
    "octets_nat x < cv_prime ec" "octets_nat y < cv_prime ec" "cv_from_bin ec (x @ y) = Some ?E" "cv_is_on_curve ec ?E"
    "sae_write_commit L token ident sa = Some (Some (WPA_PUT_LE16 (word_of_int g) @ sc @ (x @ y) @
      ext_element WLAN_EID_EXT_PASSWORD_IDENTIFIER ident @ ext_element WLAN_EID_EXT_REJECTED_GROUPS reja @
      ext_element WLAN_EID_EXT_ANTI_CLOGGING_TOKEN token))"
    using write_commit_prepared [OF lib v a, of token ident] by blast
  have s: "1 < ?s" "?s < cv_order ec" "own_commit_scalar ta = Some ?s" using a by (simp_all add: prepared_def)
  have nr: "\<not> sae_reflected (received ?E ident reja tb) (sb\<lparr> peer_commit_scalar := Some ?s, sae_tmp := Some (received ?E ident reja tb) \<rparr>)"
    using ne s(3) by (auto simp: sae_reflected_def received_def)
  show ?thesis
    using m(9) parse_commit_prepared [OF lib g b allowed el m(1,2) s(1,2) m(3-8) nr] by (auto simp: committed_def)
qed

lemma confirm_delivered:
  assumes lib: "sae_lib_ok L ec pt" and mac: "mac_lengths_ok c" "macs_total c" and v: "v mod cv_order ec \<noteq> 0"
    and a: "prepared ec pt v g reja hia rnda mska ta sa" and b: "prepared ec pt v g rejb hib rndb mskb tb sb"
    and n: "length ck \<in> {32, 48, 64}"
    and ks: "with_keys (Some (ck, pmk, pid)) (received (pt (v * mskb * (cv_order ec - 1))) ident rejb ta)
        (committed ec pt v rndb mskb ident rejb ta sa) = (0, a3)"
      "with_keys (Some (ck, pmk, pid)) (received (pt (v * mska * (cv_order ec - 1))) ident reja tb)
        (committed ec pt v rnda mska ident reja tb sb) = (0, b3)"
  shows "\<exists>msg a4. sae_write_confirm L c a3 = Some (Some msg, a4) \<and> sae_check_confirm L c msg b3 = 0"
proof -
  have r: "0 < cv_order ec" using sae_lib_okD(6) [OF lib] by simp
  obtain t3 u3 where t: "sae_tmp a3 = Some t3" "sae_ec t3 = Some ec" "sae_prime_len t3 = cv_prime_len ec" "sae_kck t3 = ck"
      "own_commit_scalar t3 = Some ((rnda + mska) mod cv_order ec)" "peer_commit_scalar a3 = Some ((rndb + mskb) mod cv_order ec)"
      "own_commit_element_ecc t3 = Some (pt (v * mska * (cv_order ec - 1)))" "peer_commit_element_ecc t3 = Some (pt (v * mskb * (cv_order ec - 1)))"
    and u: "sae_tmp b3 = Some u3" "sae_ec u3 = Some ec" "sae_prime_len u3 = cv_prime_len ec" "sae_kck u3 = ck"
      "own_commit_scalar u3 = Some ((rndb + mskb) mod cv_order ec)" "peer_commit_scalar b3 = Some ((rnda + mska) mod cv_order ec)"
      "own_commit_element_ecc u3 = Some (pt (v * mskb * (cv_order ec - 1)))" "peer_commit_element_ecc u3 = Some (pt (v * mska * (cv_order ec - 1)))"
    using ks a b by (auto simp: with_keys_def committed_def received_def prepared_def)
  obtain msg a4 where w: "sae_write_confirm L c a3 = Some (Some msg, a4)"
    using confirm_exists [OF lib mac(2) _ t(1-3,5,6) _ _ t(7,8) element_proper [OF lib v a] element_proper [OF lib v b]] n t(4) r by auto
  have "sae_prime_len u3 = sae_prime_len t3" using t(3) u(3) by simp
  from confirm_agrees [OF mac(1) n t(1,2,4,5,6,7,8) u(1,2,4,5,6,7,8) this w] w show ?thesis by blast
qed


text \<open>Both stations prepared, from the two calls of each.\<close>

lemma stations_prepared:
  assumes lib: "sae_lib_ok L ec pt" and ec: "sl_ec_init L g = Some ec"
    and pw: "sae_derive_pt_ecc L c ec g ssid password ident = Some (pt 1)"
    and addr: "length addr_a = length addr_b" "addr_a \<noteq> addr_b"
    and a: "sae_set_group L g a0 = (0, a1)"
      "sae_prepare_commit_pt L c (sae_derive_pt L c groups_a ssid password ident) addr_a addr_b rejected_a i a1 = Some (0, a, i')"
    and b: "sae_set_group L g b0 = (0, b1)"
      "sae_prepare_commit_pt L c (sae_derive_pt L c groups_b ssid password ident) addr_b addr_a rejected_b j b1 = Some (0, b, j')"
  shows "\<exists>v hi rnda mska ta rndb mskb tb. v mod cv_order ec \<noteq> 0 \<and>
    prepared ec pt v g (map_option rejected_groups_buf rejected_a) hi rnda mska ta a \<and>
    prepared ec pt v g (map_option rejected_groups_buf rejected_b) (\<not> hi) rndb mskb tb b"
proof -
  let ?r = "cv_order ec" and ?hl = "sae_ecc_prime_len_2_hash_len (cv_prime_len ec)"
  note bn = sae_lib_okD(1) [OF lib] and gr = sae_lib_okD(3) [OF lib] and r1 = sae_lib_okD(6) [OF lib]
  obtain v rnda mska ta where va: "pwe_factor L c ?hl ?r addr_a addr_b = Some v"
    and pa: "prepared ec pt v g (map_option rejected_groups_buf rejected_a) (os_memcmp addr_a addr_b > 0) rnda mska ta a"
    using prepare_commit_pt_ok [OF bn gr ec r1 pw a] by blast
  obtain w rndb mskb tb where vb: "pwe_factor L c ?hl ?r addr_b addr_a = Some w"
    and pb: "prepared ec pt w g (map_option rejected_groups_buf rejected_b) (os_memcmp addr_b addr_a > 0) rndb mskb tb b"
    using prepare_commit_pt_ok [OF bn gr ec r1 pw b] by blast
  have "w = v" using va vb max_min_addr_comm [OF addr(1)] by (simp add: pwe_factor_def)
  moreover have "(os_memcmp addr_b addr_a > 0) = (\<not> os_memcmp addr_a addr_b > 0)"
    using os_memcmp_swap [of addr_b addr_a] os_memcmp_eq_0 [of addr_b addr_a] addr by auto
  ultimately have "prepared ec pt v g (map_option rejected_groups_buf rejected_b) (\<not> os_memcmp addr_a addr_b > 0) rndb mskb tb b"
    using pb by simp
  then show ?thesis using pa pwe_factor_proper [OF bn r1 va] by blast
qed

text \<open>C15: two stations that derive the password element from the same password and network name agree.
  Each accepts the commit message of the other, with or without rejected groups, password
  identifier and token; both get the same confirm key, the same PMK of 32 octets and the same
  PMKID; each accepts the confirm message of the other.\<close>

theorem sae_agreement:
  assumes lib: "sae_lib_ok L ec pt" and mac: "mac_lengths_ok c" "macs_total c"
    and g: "g = 19 \<or> g = 20 \<or> g = 21" and ec: "sl_ec_init L g = Some ec"
    and pw: "sae_derive_pt_ecc L c ec g ssid password ident = Some (pt 1)"
    and addr: "length addr_a = length addr_b" "addr_a \<noteq> addr_b"
    and a: "sae_set_group L g a0 = (0, a1)"
      "sae_prepare_commit_pt L c (sae_derive_pt L c groups_a ssid password ident) addr_a addr_b rejected_a i a1 = Some (0, a, i')"
    and b: "sae_set_group L g b0 = (0, b1)"
      "sae_prepare_commit_pt L c (sae_derive_pt L c groups_b ssid password ident) addr_b addr_a rejected_b j b1 = Some (0, b, j')"
    and elems: "commit_elems_ok ident (map_option rejected_groups_buf rejected_a) token_a"
      "commit_elems_ok ident (map_option rejected_groups_buf rejected_b) token_b"
    and allowed_a: "allowed_a = None \<or> (\<exists>l. allowed_a = Some l \<and> g \<in> set (takeWhile (\<lambda>x. x > 0) l))"
    and allowed_b: "allowed_b = None \<or> (\<exists>l. allowed_b = Some l \<and> g \<in> set (takeWhile (\<lambda>x. x > 0) l))"
    and differ: "own_commit_scalar (the (sae_tmp a)) \<noteq> own_commit_scalar (the (sae_tmp b))"
  shows "\<exists>msg_a msg_b a2 b2 a3 b3 ta tb.
    sae_write_commit L token_a ident a = Some (Some msg_a) \<and> sae_write_commit L token_b ident b = Some (Some msg_b) \<and>
    sae_parse_commit L msg_b allowed_a True a = (WLAN_STATUS_SUCCESS, token_b, a2) \<and>
    sae_parse_commit L msg_a allowed_b True b = (WLAN_STATUS_SUCCESS, token_a, b2) \<and>
    sae_process_commit L c a2 = Some (0, a3) \<and> sae_process_commit L c b2 = Some (0, b3) \<and>
    sae_tmp a3 = Some ta \<and> sae_tmp b3 = Some tb \<and> sae_kck ta = sae_kck tb \<and>
    sae_pmk a3 = sae_pmk b3 \<and> length (sae_pmk a3) = 32 \<and> sae_pmkid a3 = sae_pmkid b3 \<and>
    (\<exists>cf a4. sae_write_confirm L c a3 = Some (Some cf, a4) \<and> sae_check_confirm L c cf b3 = 0) \<and>
    (\<exists>cf b4. sae_write_confirm L c b3 = Some (Some cf, b4) \<and> sae_check_confirm L c cf a3 = 0)"
proof -
  let ?r = "cv_order ec" and ?ra = "map_option rejected_groups_buf rejected_a" and ?rb = "map_option rejected_groups_buf rejected_b"
  note gr = sae_lib_okD(3) [OF lib] and r1 = sae_lib_okD(6) [OF lib]
  obtain v hi rnda mska ta rndb mskb tb where v: "v mod ?r \<noteq> 0"
    and pa: "prepared ec pt v g ?ra hi rnda mska ta a" and pb: "prepared ec pt v g ?rb (\<not> hi) rndb mskb tb b"
    using stations_prepared [OF lib ec pw addr a b] by blast
  have ne: "own_commit_scalar ta \<noteq> own_commit_scalar tb" using differ pa pb by (simp add: prepared_def)
  obtain msg_a where ma: "sae_write_commit L token_a ident a = Some (Some msg_a)"
    "sae_parse_commit L msg_a allowed_b True b = (WLAN_STATUS_SUCCESS, token_a, committed ec pt v rnda mska ident ?ra tb b)"
    using commit_delivered [OF lib g v pa pb allowed_b elems(1) ne] by blast
  obtain msg_b where mb: "sae_write_commit L token_b ident b = Some (Some msg_b)"
    "sae_parse_commit L msg_b allowed_a True a = (WLAN_STATUS_SUCCESS, token_b, committed ec pt v rndb mskb ident ?rb ta a)"
    using commit_delivered [OF lib g v pb pa allowed_a elems(2) ne [symmetric]] by blast
  have "v * (rnda * rndb) mod ?r \<noteq> 0"
    using v pa pb by (intro prime_order_mult [OF sae_lib_okD(4) [OF lib]]) (auto simp: prepared_def)
  then obtain x y where xy: "cv_to_bin ec (pt (v * (rnda * rndb))) = Some (x, y)" using curve_groupD(7) [OF gr] by blast
  let ?sum = "((rnda + mska) mod ?r + (rndb + mskb) mod ?r) mod ?r"
  have sz: "?sum < 256 ^ cv_order_len ec" "cv_order_len ec \<le> 512"
    using sae_lib_okD(5) [OF lib] r1 by (auto simp: curve_sizes_def intro: less_trans [OF mod_less_divisor])
  obtain val where val: "bn_to_bin L ?sum 512 (cv_order_len ec) = Some val" using to_bin_total [OF lib sz] by blast
  have n: "sae_hash_len True ta \<in> {32, 48, 64}" using pa by (simp add: prepared_def sae_hash_len_def sae_ecc_prime_len_2_hash_len_def)
  let ?Ta = "received (pt (v * mskb * (?r - 1))) ident ?rb ta" and ?Tb = "received (pt (v * mska * (?r - 1))) ident ?ra tb"
  obtain ck pmk pid where ks: "sae_keys_of c (sae_hash_len True ta) (sae_salt True ?Ta) (slice 0 (cv_prime_len ec) x) val = Some (ck, pmk, pid)"
    using keys_exist [OF mac(2) n] by blast
  have kl: "length ck \<in> {32, 48, 64}" "length pmk = 32" using keys_lengths [OF mac(1) ks] by auto
  have salt: "sae_salt True ?Ta = sae_salt True ?Tb" "sae_hash_len True ta = sae_hash_len True tb"
    by (rule salt_agrees [OF pa pb refl])+
  let ?A = "committed ec pt v rndb mskb ident ?rb ta a" and ?B = "committed ec pt v rnda mska ident ?ra tb b"
  have qa: "sae_process_commit L c ?A = Some (with_keys (Some (ck, pmk, pid)) ?Ta ?A)"
    unfolding ks [symmetric] committed_def using process_commit_prepared [OF lib v pa pb xy val refl] .
  have qb: "sae_process_commit L c ?B = Some (with_keys (Some (ck, pmk, pid)) ?Tb ?B)"
    unfolding ks [symmetric] committed_def salt
    using process_commit_prepared [OF lib v pb pa xy [unfolded mult.commute [of rnda]] val [unfolded add.commute [of "(rnda + mska) mod _"]] refl] .
  obtain a3 b3 where k3: "with_keys (Some (ck, pmk, pid)) ?Ta ?A = (0, a3)" "with_keys (Some (ck, pmk, pid)) ?Tb ?B = (0, b3)"
    by (simp add: with_keys_def)
  then have q: "sae_process_commit L c ?A = Some (0, a3)" "sae_process_commit L c ?B = Some (0, b3)" using qa qb by simp_all
  have "sae_tmp a3 = Some (?Ta\<lparr> sae_kck := ck \<rparr>)" "sae_tmp b3 = Some (?Tb\<lparr> sae_kck := ck \<rparr>)"
    "sae_pmk a3 = pmk" "sae_pmk b3 = pmk" "sae_pmkid a3 = pid" "sae_pmkid b3 = pid"
    using k3 by (auto simp: with_keys_def)
  then have same: "\<exists>ta tb. sae_tmp a3 = Some ta \<and> sae_tmp b3 = Some tb \<and> sae_kck ta = sae_kck tb \<and>
    sae_pmk a3 = sae_pmk b3 \<and> length (sae_pmk a3) = 32 \<and> sae_pmkid a3 = sae_pmkid b3"
    using kl(2) by simp
  show ?thesis
    using ma mb q same confirm_delivered [OF lib mac v pa pb kl(1) k3] confirm_delivered [OF lib mac v pb pa kl(1) k3(2,1)] by blast
qed

end
