(* ===== verification/SAE_Run.thy ===== *)
theory SAE_Run
  imports SAE_Agree
begin

text \<open>
  A concrete library for the applications of the theorems about SAE: the integers modulo 5 in place
  of a curve, with the equation of a curve over the integers modulo 11, and exact big numbers.
\<close>

unbundle bit_operations_syntax

section \<open>Big numbers\<close>

fun nat_octets :: "nat \<Rightarrow> nat \<Rightarrow> bytes" where
  "nat_octets 0 a = []"
| "nat_octets (Suc n) a = nat_octets n (a div 256) @ [of_nat (a mod 256)]"

lemma length_nat_octets [simp]: "length (nat_octets n a) = n"
  by (induction n arbitrary: a) simp_all

lemma octets_nat_octets: "a < 256 ^ n \<Longrightarrow> octets_nat (nat_octets n a) = a"
proof (induction n arbitrary: a)
  case (Suc n)
  have "a div 256 < 256 ^ n" using Suc.prems by (simp add: less_mult_imp_div_less mult.commute)
  moreover have "unat (of_nat (a mod 256) :: byte) = a mod 256"
    unfolding unsigned_of_nat by (simp add: take_bit_nat_eq_self)
  ultimately show ?case using Suc.IH by (simp add: octets_nat_snoc)
qed (simp add: octets_nat_def)

definition curve_sample :: "nat curve" where
  "curve_sample = \<lparr> cv_prime = 11, cv_prime_len = 1, cv_prime_len_bits = 4, cv_order = 5, cv_order_len = 1, cv_a = 1, cv_b = 3,
     cv_compute_y_sqr = \<lambda>x. Some ((x ^ 3 + x + 3) mod 11),
     cv_mul = \<lambda>p n. Some (p * n mod 5), cv_add = \<lambda>p q. Some ((p + q) mod 5), cv_invert = \<lambda>p. Some (p * 4 mod 5),
     cv_is_at_infinity = \<lambda>p. p mod 5 = 0, cv_to_bin = \<lambda>p. Some ([of_nat p], [of_nat p]),
     cv_from_bin = \<lambda>b. (case b of [x, y] \<Rightarrow> Some (unat x mod 5) | _ \<Rightarrow> None),
     cv_is_on_curve = \<lambda>p. p < 5, cv_cmp = \<lambda>p q. int p - int q \<rparr>"

definition chi_sample :: "nat \<Rightarrow> int" where
  "chi_sample a = (let r = a mod 11 in if r = 0 then 0 else if r \<in> {1, 3, 4, 5, 9} then 1 else -1)"

definition sae_lib_sample :: "nat sae_lib" where
  "sae_lib_sample = \<lparr> sl_ec_init = \<lambda>g. if g = 19 then Some curve_sample else None, sl_dh_groups_get = \<lambda>_. None, sl_alloc = \<lambda>_. True,
     sl_rand = \<lambda>i m. if m > 0 then Some ((i div 2 + 2) mod m) else None, sl_random_bytes = \<lambda>n. Some (zeros n),
     bn_init_set = \<lambda>b. Some (octets_nat b),
     bn_to_bin = \<lambda>a len pad. if pad \<le> len \<and> a < 256 ^ pad then Some (nat_octets pad a) else None,
     bn_add = \<lambda>a b. Some (a + b), bn_sub = \<lambda>a b. Some (a - b), bn_mod = \<lambda>a m. Some (a mod m), bn_div = \<lambda>a b. Some (a div b),
     bn_addmod = \<lambda>a b m. Some ((a + b) mod m), bn_mulmod = \<lambda>a b m. Some (a * b mod m), bn_sqrmod = \<lambda>a m. Some (a * a mod m),
     bn_exptmod = \<lambda>a b m. Some (a ^ b mod m), bn_inverse = \<lambda>a m. Some (a ^ (m - 2) mod m), bn_rshift = \<lambda>a b. Some (a div 2 ^ b),
     bn_legendre = \<lambda>a p. chi_sample a \<rparr>"

lemma sae_lib_sample_ok: "bignum_ok sae_lib_sample" "bignum_total sae_lib_sample"
  by (auto simp: bignum_ok_def bignum_total_def gives_def sae_lib_sample_def octets_nat_octets split: if_splits)

lemma chi_sample_mult: "chi_sample (a * b) = chi_sample a * chi_sample b"
proof -
  have "\<forall>x\<in>set [0..<11]. \<forall>y\<in>set [0..<11]. chi_sample (x * y) = chi_sample x * chi_sample y" by code_simp
  then have "chi_sample ((a mod 11) * (b mod 11)) = chi_sample (a mod 11) * chi_sample (b mod 11)" by simp
  moreover have "chi_sample (x mod 11) = chi_sample x" for x by (simp add: chi_sample_def)
  moreover have "chi_sample ((a mod 11) * (b mod 11)) = chi_sample (a * b)" by (simp add: chi_sample_def mod_mult_eq)
  ultimately show ?thesis by simp
qed

lemma legendre_sample: "legendre_ok sae_lib_sample 11 chi_sample"
  using chi_sample_mult by (auto simp: legendre_ok_def sae_lib_sample_def chi_sample_def Let_def)

lemma hunt_sample: "hunt_ok sae_lib_sample crypto_sample curve_sample chi_sample"
  using sae_lib_sample_ok crypto_sample_ok legendre_sample
  by (auto simp: hunt_ok_def hmac_total_def crypto_sample_def curve_sample_def sae_lib_sample_def chi_sample_def Let_def)

lemma group_sample: "curve_group curve_sample (\<lambda>n. n mod 5)"
proof -
  have "unat (of_nat (n mod 5) :: byte) = n mod 5" for n
    unfolding unsigned_of_nat by (simp add: take_bit_nat_eq_self less_trans [of _ 5])
  then show ?thesis
    by (auto simp: curve_group_def curve_sample_def octets_nat_def mod_simps less_trans [of _ 5])
qed

lemma lib_sample: "sae_lib_ok sae_lib_sample curve_sample (\<lambda>n. n mod 5)"
proof -
  have "prime_order 5"
  proof -
    have "\<forall>x\<in>set [0..<5]. \<forall>y\<in>set [0..<5]. x * y mod 5 = 0 \<longrightarrow> x = 0 \<or> y = (0 :: nat)" by code_simp
    then have "(a mod 5) * (b mod 5) mod 5 = 0 \<longrightarrow> a mod 5 = 0 \<or> b mod 5 = 0" for a b :: nat by simp
    then show ?thesis by (simp add: prime_order_def mod_mult_eq)
  qed
  then show ?thesis
    using sae_lib_sample_ok group_sample by (auto simp: sae_lib_ok_def curve_sample_def curve_sizes_def)
qed


section \<open>Applications\<close>

theorem pwe_ecc_reference_witness:
  "\<exists>res j. 0 \<le> res \<and>
     sae_derive_pwe_ecc sae_lib_sample crypto_sample 19 curve_sample (replicate 6 1) (replicate 6 2) [104, 105] 0
       (sae_tmp_zero\<lparr> sae_prime := 11, sae_prime_len := 1 \<rparr>) =
     Some (res, (sae_tmp_zero\<lparr> sae_prime := 11, sae_prime_len := 1 \<rparr>)\<lparr> pwe_ecc := Some 0 \<rparr>, j)"
proof -
  let ?tmp = "sae_tmp_zero\<lparr> sae_prime := 11, sae_prime_len := 1 \<rparr> :: nat sae_tmp"
  let ?cand = "\<lambda>n. ecc_candidate crypto_sample curve_sample chi_sample [11]
    (pwd_seed_of crypto_sample (sae_pwd_seed_key (replicate 6 1) (replicate 6 2)) [104, 105] n)"
  have draws: "dragonfly_get_random_qr_qnr sae_lib_sample (cv_prime curve_sample) 0 = Some (Some (3, 2), 3)" by code_simp
  have c: "first_candidate ?cand 1 = Some ([0], 0)" by code_simp
  have p: "map_option (cv_from_bin curve_sample) (pwe_ecc_point sae_lib_sample curve_sample [0] 0) = Some (Some 0)" by code_simp
  then obtain xy where xy: "pwe_ecc_point sae_lib_sample curve_sample [0] 0 = Some xy" "cv_from_bin curve_sample xy = Some 0" by auto
  have t: "sae_prime ?tmp = cv_prime curve_sample" "sae_prime_len ?tmp = cv_prime_len curve_sample"
    "length [11 :: byte] = cv_prime_len curve_sample" "octets_nat [11] = cv_prime curve_sample"
    by (simp_all add: curve_sample_def octets_nat_def)
  from pwe_ecc_reference [OF hunt_sample t(1,2) draws t(3,4), of 19 "replicate 6 1" "replicate 6 2" "[104, 105]"]
  show ?thesis unfolding c by (simp add: xy)
qed

text \<open>Two stations with the password \<^verbatim>\<open>hi\<close> for the network \<^verbatim>\<open>abc\<close>; one of them had rejected
  group 20, the other sends a token.\<close>

definition sae_start_sample :: "bytes \<Rightarrow> bytes \<Rightarrow> int list option \<Rightarrow> nat \<Rightarrow> (int \<times> nat sae_data \<times> nat) option" where
  "sae_start_sample own peer rejected i =
     sae_prepare_commit_pt sae_lib_sample crypto_sample (sae_derive_pt sae_lib_sample crypto_sample None [97, 98, 99] [104, 105] None)
       own peer rejected i (snd (sae_set_group sae_lib_sample 19 sae_data_zero))"

lemma sae_start_sample_eq:
  "map_option (\<lambda>(r, s, _). (r, own_commit_scalar (the (sae_tmp s)))) (sae_start_sample (replicate 6 1) (replicate 6 2) (Some [20, 0]) 0) =
     Some (0, Some 4)"
  "map_option (\<lambda>(r, s, _). (r, own_commit_scalar (the (sae_tmp s)))) (sae_start_sample (replicate 6 2) (replicate 6 1) None 2) =
     Some (0, Some 3)"
  by code_simp+

lemma sae_password_sample:
  "sae_derive_pt_ecc sae_lib_sample crypto_sample curve_sample 19 [97, 98, 99] [104, 105] None = Some (1 mod 5)"
  by code_simp

theorem sae_agreement_witness:
  "\<exists>a b i j msg_a msg_b a2 b2 a3 b3.
     sae_start_sample (replicate 6 1) (replicate 6 2) (Some [20, 0]) 0 = Some (0, a, i) \<and>
     sae_start_sample (replicate 6 2) (replicate 6 1) None 2 = Some (0, b, j) \<and>
     sae_write_commit sae_lib_sample None None a = Some (Some msg_a) \<and>
     sae_write_commit sae_lib_sample (Some [7, 7]) None b = Some (Some msg_b) \<and>
     sae_parse_commit sae_lib_sample msg_b (Some [19, 0]) True a = (WLAN_STATUS_SUCCESS, Some [7, 7], a2) \<and>
     sae_parse_commit sae_lib_sample msg_a None True b = (WLAN_STATUS_SUCCESS, None, b2) \<and>
     sae_process_commit sae_lib_sample crypto_sample a2 = Some (0, a3) \<and>
     sae_process_commit sae_lib_sample crypto_sample b2 = Some (0, b3) \<and> sae_pmk a3 = sae_pmk b3"
proof -
  obtain a i where a: "sae_start_sample (replicate 6 1) (replicate 6 2) (Some [20, 0]) 0 = Some (0, a, i)"
    "own_commit_scalar (the (sae_tmp a)) = Some 4" using sae_start_sample_eq(1) by (auto split: prod.splits)
  obtain b j where b: "sae_start_sample (replicate 6 2) (replicate 6 1) None 2 = Some (0, b, j)"
    "own_commit_scalar (the (sae_tmp b)) = Some 3" using sae_start_sample_eq(2) by (auto split: prod.splits)
  have "fst (sae_set_group sae_lib_sample 19 sae_data_zero) = 0" by code_simp
  then have s: "sae_set_group sae_lib_sample 19 sae_data_zero = (0, snd (sae_set_group sae_lib_sample 19 sae_data_zero))"
    by (metis prod.collapse)
  have ec: "sl_ec_init sae_lib_sample 19 = Some curve_sample" by (simp add: sae_lib_sample_def)
  have mac: "macs_total crypto_sample" by (simp add: macs_total_def hmac_total_def crypto_sample_def)
  have el: "commit_elems_ok None (map_option rejected_groups_buf (Some [20, 0])) None"
    "commit_elems_ok None (map_option rejected_groups_buf None) (Some [7, 7])"
    by (simp_all add: commit_elems_ok_def rejected_groups_buf_def WPA_PUT_LE16_def)
  have diff: "own_commit_scalar (the (sae_tmp a)) \<noteq> own_commit_scalar (the (sae_tmp b))" using a(2) b(2) by simp
  from sae_agreement [OF lib_sample crypto_sample_ok(1) mac _ ec sae_password_sample _ _ s a(1) [unfolded sae_start_sample_def]
      s b(1) [unfolded sae_start_sample_def] el _ _ diff, of "Some [19, 0]" None]
  show ?thesis using a(1) b(1) by simp blast
qed


theorem sae_commit_accepted_witness:
  "\<exists>token sae' tmp s. sae_parse_commit sae_lib_sample [19, 0, 4, 3, 3] (Some [19, 0]) False
       (snd (sae_set_group sae_lib_sample 19 sae_data_zero)) = (WLAN_STATUS_SUCCESS, token, sae') \<and>
     sae_tmp sae' = Some tmp \<and> peer_commit_scalar sae' = Some s \<and> 1 < s \<and> s < sae_order tmp \<and>
     valid_element sae_lib_sample tmp \<and> \<not> sae_reflected tmp sae'"
proof -
  let ?r = "sae_parse_commit sae_lib_sample [19, 0, 4, 3, 3] (Some [19, 0]) False (snd (sae_set_group sae_lib_sample 19 sae_data_zero))"
  have "fst ?r = WLAN_STATUS_SUCCESS" by code_simp
  then obtain token sae' where r: "?r = (WLAN_STATUS_SUCCESS, token, sae')" by (metis prod.collapse)
  from sae_commit_accepted [OF sae_lib_sample_ok(1) r] r show ?thesis by blast
qed

end
