(* ===== verification/Codec.thy ===== *)
theory Codec
  imports Prelude
begin

text \<open>
  Text forms of octets, \<^verbatim>\<open>src/utils/common.c\<close> and \<^verbatim>\<open>src/utils/base64.c\<close>: hexadecimal digits, MAC
  addresses, the escapes of \<^verbatim>\<open>printf_encode\<close>, quoted strings, base64.  A C string is the list of its
  octets without the terminating null octet, which \<open>cur\<close> reads at the end.
\<close>

unbundle bit_operations_syntax

section \<open>Strings\<close>

definition cur :: "bytes \<Rightarrow> byte" where
  "cur s = (case s of [] \<Rightarrow> 0 | c # _ \<Rightarrow> c)"

definition os_strchr :: "bytes \<Rightarrow> byte \<Rightarrow> nat option" where
  "os_strchr s c = List.find (\<lambda>i. s ! i = c) [0..<length s]"

definition os_strrchr :: "bytes \<Rightarrow> byte \<Rightarrow> nat option" where
  "os_strrchr s c = List.find (\<lambda>i. s ! i = c) (rev [0..<length s])"

text \<open>\<^verbatim>\<open>os_snprintf(buf + pos, buf_size - pos, ...)\<close>, with the text that the format gives: at most the
  space that is left is written, with a null octet at the end.\<close>

definition snprintf_at :: "nat \<Rightarrow> bytes \<Rightarrow> bytes \<Rightarrow> bytes" where
  "snprintf_at pos txt buf =
     (if pos < length buf then overwrite pos (take (length buf - pos - 1) txt @ [0]) buf else buf)"

definition os_snprintf_error :: "nat \<Rightarrow> nat \<Rightarrow> bool" where
  "os_snprintf_error space res \<longleftrightarrow> res \<ge> space"


section \<open>Hexadecimal digits\<close>

definition hex2num :: "byte \<Rightarrow> int" where
  "hex2num c =
     (if c \<ge> 0x30 \<and> c \<le> 0x39 then uint c - 0x30
      else if c \<ge> 0x61 \<and> c \<le> 0x66 then uint c - 0x61 + 10
      else if c \<ge> 0x41 \<and> c \<le> 0x46 then uint c - 0x41 + 10
      else -1)"

definition hex2byte :: "bytes \<Rightarrow> int" where
  "hex2byte hex =
     (let a = hex2num (cur hex)
      in if a < 0 then -1
      else let b = hex2num (cur (tl hex))
      in if b < 0 then -1
      else push_bit 4 a OR b)"

definition hexstr2bin :: "bytes \<Rightarrow> nat \<Rightarrow> bytes option" where
  "hexstr2bin hex len =
     those (map (\<lambda>i. let a = hex2byte (drop (2 * i) hex) in if a < 0 then None else Some (word_of_int a)) [0..<len])"

definition hex_digit :: "bool \<Rightarrow> byte \<Rightarrow> byte" where
  "hex_digit uppercase d = (if d < 10 then 0x30 + d else (if uppercase then 0x41 else 0x61) + (d - 10))"

text \<open>The format \<^verbatim>\<open>%02x\<close> or \<^verbatim>\<open>%02X\<close>.\<close>

definition hex_txt :: "bool \<Rightarrow> byte \<Rightarrow> bytes" where
  "hex_txt uppercase b = [hex_digit uppercase (drop_bit 4 b), hex_digit uppercase (b AND 0xF)]"

text \<open>The buffer and the position after the loop, and whether it was left by a lack of space.\<close>

fun snprintf_hex_loop :: "(byte \<Rightarrow> bytes) \<Rightarrow> bytes \<Rightarrow> nat \<Rightarrow> bytes \<Rightarrow> bool \<times> nat \<times> bytes" where
  "snprintf_hex_loop fmt [] pos buf = (False, pos, buf)"
| "snprintf_hex_loop fmt (b # bs) pos buf =
     (let buf' = snprintf_at pos (fmt b) buf
      in if os_snprintf_error (length buf - pos) (length (fmt b)) then (True, pos, buf'[length buf - 1 := 0])
         else snprintf_hex_loop fmt bs (pos + length (fmt b)) buf')"

text \<open>The result and the buffer; \<^const>\<open>None\<close> is a write outside of the buffer.\<close>

definition wpa_snprintf_hex_sep :: "bytes \<Rightarrow> bytes \<Rightarrow> byte \<Rightarrow> (nat \<times> bytes) option" where
  "wpa_snprintf_hex_sep buf data sep =
     (if length buf = 0 then Some (0, buf)
      else case snprintf_hex_loop (\<lambda>b. hex_txt False b @ [sep]) data 0 buf of
        (True, pos, buf) \<Rightarrow> Some (pos, buf)
      | (False, pos, buf) \<Rightarrow> if pos = 0 then None else Some (pos, buf[pos - 1 := 0]))"

definition snprintf_hex :: "bytes \<Rightarrow> bytes \<Rightarrow> bool \<Rightarrow> nat \<times> bytes" where
  "snprintf_hex buf data uppercase =
     (if length buf = 0 then (0, buf)
      else case snprintf_hex_loop (hex_txt uppercase) data 0 buf of
        (True, pos, buf) \<Rightarrow> (pos, buf)
      | (False, pos, buf) \<Rightarrow> (pos, buf[length buf - 1 := 0]))"

definition wpa_snprintf_hex :: "bytes \<Rightarrow> bytes \<Rightarrow> nat \<times> bytes" where
  "wpa_snprintf_hex buf data = snprintf_hex buf data False"

definition wpa_snprintf_hex_uppercase :: "bytes \<Rightarrow> bytes \<Rightarrow> nat \<times> bytes" where
  "wpa_snprintf_hex_uppercase buf data = snprintf_hex buf data True"


section \<open>MAC addresses\<close>

text \<open>The octets that were written and the rest of the text, \<^const>\<open>None\<close> for \<^verbatim>\<open>NULL\<close>; \<open>n\<close> octets are left.\<close>

fun hwaddr_parse_loop :: "nat \<Rightarrow> bytes \<Rightarrow> bytes \<Rightarrow> bytes \<times> bytes option" where
  "hwaddr_parse_loop 0 txt addr = (addr, Some txt)"
| "hwaddr_parse_loop (Suc n) txt addr =
     (let a = hex2byte txt
      in if a < 0 then (addr, None)
      else let txt = drop 2 txt; addr = addr @ [word_of_int a]
      in if n > 0 then if cur txt \<noteq> 0x3A then (addr, None) else hwaddr_parse_loop n (tl txt) addr
         else hwaddr_parse_loop n txt addr)"

definition hwaddr_parse :: "bytes \<Rightarrow> bytes \<times> bytes option" where
  "hwaddr_parse txt = hwaddr_parse_loop 6 txt []"

text \<open>The octets of an array of six, of which the first were written.\<close>

definition fill_addr :: "bytes \<Rightarrow> bytes \<Rightarrow> bytes" where
  "fill_addr new addr = overwrite 0 new addr"

definition hwaddr_aton :: "bytes \<Rightarrow> bytes \<Rightarrow> int \<times> bytes" where
  "hwaddr_aton txt addr = (let (new, r) = hwaddr_parse txt in (if r = None then -1 else 0, fill_addr new addr))"

definition isspace :: "byte \<Rightarrow> bool" where
  "isspace c \<longleftrightarrow> c = 32 \<or> (9 \<le> c \<and> c \<le> 13)"

definition hwaddr_masked_aton :: "bytes \<Rightarrow> bytes \<Rightarrow> bytes \<Rightarrow> bool \<Rightarrow> int \<times> bytes \<times> bytes" where
  "hwaddr_masked_aton txt addr msk maskable =
     (let (new, r) = hwaddr_parse txt; addr = fill_addr new addr
      in case r of
        None \<Rightarrow> (-1, addr, msk)
      | Some r \<Rightarrow>
          if cur r = 0 \<or> isspace (cur r) then (0, addr, replicate 6 0xFF)
          else if maskable \<and> cur r = 0x2F then
            let (new, r) = hwaddr_parse (tl r) in (if r = None then -1 else 0, addr, fill_addr new msk)
          else (-1, addr, msk))"

fun compact_aton_loop :: "nat \<Rightarrow> bytes \<Rightarrow> bytes \<Rightarrow> int \<times> bytes" where
  "compact_aton_loop 0 txt addr = (0, addr)"
| "compact_aton_loop (Suc n) txt addr =
     (let a = hex2num (cur txt)
      in if a < 0 then (-1, addr)
      else let b = hex2num (cur (tl txt))
      in if b < 0 then (-1, addr)
      else compact_aton_loop n (drop 2 txt) (addr @ [word_of_int (push_bit 4 a OR b)]))"

definition hwaddr_compact_aton :: "bytes \<Rightarrow> bytes \<Rightarrow> int \<times> bytes" where
  "hwaddr_compact_aton txt addr = (let (r, new) = compact_aton_loop 6 txt [] in (r, fill_addr new addr))"

text \<open>The result is the number of characters used.\<close>

fun aton2_loop :: "nat \<Rightarrow> bytes \<Rightarrow> bytes \<Rightarrow> bytes option \<times> bytes" where
  "aton2_loop 0 pos addr = (Some pos, addr)"
| "aton2_loop (Suc n) pos addr =
     (let pos = dropWhile (\<lambda>c. c = 0x3A \<or> c = 0x2E \<or> c = 0x2D) pos; a = hex2num (cur pos)
      in if a < 0 then (None, addr)
      else let b = hex2num (cur (tl pos))
      in if b < 0 then (None, addr)
      else aton2_loop n (drop 2 pos) (addr @ [word_of_int (push_bit 4 a OR b)]))"

definition hwaddr_aton2 :: "bytes \<Rightarrow> bytes \<Rightarrow> int \<times> bytes" where
  "hwaddr_aton2 txt addr =
     (let (r, new) = aton2_loop 6 txt []
      in (case r of None \<Rightarrow> -1 | Some pos \<Rightarrow> int (length txt - length pos), fill_addr new addr))"

text \<open>The format \<^verbatim>\<open>MACSTR\<close>.\<close>

definition mac_txt :: "bytes \<Rightarrow> bytes" where
  "mac_txt addr = (case map (hex_txt False) addr of [] \<Rightarrow> [] | x # xs \<Rightarrow> x @ concat (map (\<lambda>t. 0x3A # t) xs))"

definition hwaddr_mask_txt :: "bytes \<Rightarrow> bytes \<Rightarrow> bytes \<Rightarrow> int \<times> bytes" where
  "hwaddr_mask_txt buf addr msk =
     (let txt = (if \<exists>i\<in>set [0..<6]. msk ! i \<noteq> 0xFF then mac_txt addr @ [0x2F] @ mac_txt msk else mac_txt addr)
      in (if os_snprintf_error (length buf) (length txt) then -1 else int (length txt), snprintf_at 0 txt buf))"


section \<open>Escapes\<close>

definition escape_octet :: "byte \<Rightarrow> bytes" where
  "escape_octet b =
     (if b = 0x22 then [0x5C, 0x22] else if b = 0x5C then [0x5C, 0x5C] else if b = 0x1B then [0x5C, 0x65]
      else if b = 0x0A then [0x5C, 0x6E] else if b = 0x0D then [0x5C, 0x72] else if b = 0x09 then [0x5C, 0x74]
      else if b \<ge> 32 \<and> b \<le> 126 then [b]
      else [0x5C, 0x78] @ hex_txt False b)"

text \<open>The text, whose terminating null octet has the index of its length.\<close>

fun printf_encode_loop :: "nat \<Rightarrow> bytes \<Rightarrow> bytes \<Rightarrow> bytes" where
  "printf_encode_loop maxlen [] txt = txt"
| "printf_encode_loop maxlen (b # data) txt =
     (if length txt + 4 \<ge> maxlen then txt else printf_encode_loop maxlen data (txt @ escape_octet b))"

definition printf_encode :: "nat \<Rightarrow> bytes \<Rightarrow> bytes" where
  "printf_encode maxlen data = printf_encode_loop maxlen data []"

definition is_octal :: "byte \<Rightarrow> bool" where
  "is_octal c \<longleftrightarrow> 0x30 \<le> c \<and> c \<le> 0x37"

text \<open>The octet after a backslash, if there is one, and the text after it.\<close>

definition unescape :: "bytes \<Rightarrow> byte option \<times> bytes" where
  "unescape pos =
     (let c = cur pos
      in if c = 0x5C then (Some 0x5C, tl pos) else if c = 0x22 then (Some 0x22, tl pos)
      else if c = 0x6E then (Some 0x0A, tl pos) else if c = 0x72 then (Some 0x0D, tl pos)
      else if c = 0x74 then (Some 0x09, tl pos) else if c = 0x65 then (Some 0x1B, tl pos)
      else if c = 0x78 then
        (let pos = tl pos; val = hex2byte pos
         in if val < 0 then let val = hex2num (cur pos) in if val < 0 then (None, pos) else (Some (word_of_int val), tl pos)
            else (Some (word_of_int val), drop 2 pos))
      else if is_octal c then
        (let val = uint c - 0x30; pos = tl pos;
             (val, pos) = (if is_octal (cur pos) then (val * 8 + (uint (cur pos) - 0x30), tl pos) else (val, pos));
             (val, pos) = (if is_octal (cur pos) then (val * 8 + (uint (cur pos) - 0x30), tl pos) else (val, pos))
         in (Some (word_of_int val), pos))
      else (None, pos))"

lemma unescape_shorter: "length (snd (unescape pos)) \<le> length pos"
  by (cases pos) (auto simp: unescape_def cur_def Let_def split: list.splits)

function printf_decode_loop :: "nat \<Rightarrow> bytes \<Rightarrow> bytes \<Rightarrow> bytes" where
  "printf_decode_loop maxlen pos buf =
     (case pos of
        [] \<Rightarrow> buf
      | c # rest \<Rightarrow>
          if length buf + 1 \<ge> maxlen then buf
          else if c = 0x5C
          then (case unescape rest of
                  (None, pos) \<Rightarrow> printf_decode_loop maxlen pos buf
                | (Some b, pos) \<Rightarrow> printf_decode_loop maxlen pos (buf @ [b]))
          else printf_decode_loop maxlen rest (buf @ [c]))"
  by pat_completeness auto
termination
proof (relation "measure (\<lambda>(maxlen, pos, buf). length pos)", goal_cases)
  case (2 maxlen pos buf c rest x1 x2)
  then have "snd (unescape rest) = x2" by (metis snd_conv)
  then show ?case using 2 unescape_shorter [of rest] by simp
next
  case (3 maxlen pos buf c rest x1 x2 b)
  then have "snd (unescape rest) = x2" by (metis snd_conv)
  then show ?case using 3 unescape_shorter [of rest] by simp
qed simp_all

declare printf_decode_loop.simps [simp del]

definition printf_decode :: "nat \<Rightarrow> bytes \<Rightarrow> bytes" where
  "printf_decode maxlen str = printf_decode_loop maxlen str []"

definition wpa_ssid_txt :: "bytes option \<Rightarrow> bytes" where
  "wpa_ssid_txt ssid = (case ssid of None \<Rightarrow> [] | Some s \<Rightarrow> printf_encode 129 s)"


section \<open>Strings of the configuration\<close>

text \<open>\<open>alloc\<close> tells whether memory can be allocated.\<close>

definition wpa_config_parse_string :: "bool \<Rightarrow> bytes \<Rightarrow> bytes option" where
  "wpa_config_parse_string alloc value =
     (if cur value = 0x22 then
        (let value = tl value
         in case os_strrchr value 0x22 of
              None \<Rightarrow> None
            | Some pos \<Rightarrow> if cur (drop (pos + 1) value) \<noteq> 0 \<or> \<not> alloc then None else Some (take pos value))
      else if cur value = 0x50 \<and> cur (tl value) = 0x22 then
        (let value = drop 2 value
         in case os_strrchr value 0x22 of
              None \<Rightarrow> None
            | Some pos \<Rightarrow>
                if cur (drop (pos + 1) value) \<noteq> 0 \<or> \<not> alloc then None
                else Some (printf_decode (pos + 1) (take pos value)))
      else if odd (length value) \<or> \<not> alloc then None
      else hexstr2bin value (length value div 2))"

definition is_hex :: "bytes \<Rightarrow> bool" where
  "is_hex data \<longleftrightarrow> (\<exists>b\<in>set data. b < 32 \<or> b \<ge> 127)"

definition wpa_config_write_string_ascii :: "bool \<Rightarrow> bytes \<Rightarrow> bytes option" where
  "wpa_config_write_string_ascii alloc value = (if \<not> alloc then None else Some ([0x22] @ value @ [0x22]))"

text \<open>The string ends at the first null octet of the buffer.\<close>

definition wpa_config_write_string_hex :: "bool \<Rightarrow> bytes \<Rightarrow> bytes option" where
  "wpa_config_write_string_hex alloc value =
     (if \<not> alloc then None
      else Some (takeWhile (\<lambda>c. c \<noteq> 0) (snd (wpa_snprintf_hex (zeros (2 * length value + 1)) value))))"

definition wpa_config_write_string :: "bool \<Rightarrow> bytes option \<Rightarrow> bytes option" where
  "wpa_config_write_string alloc value =
     (case value of
        None \<Rightarrow> None
      | Some v \<Rightarrow> if is_hex v then wpa_config_write_string_hex alloc v else wpa_config_write_string_ascii alloc v)"

definition has_ctrl_char :: "bytes \<Rightarrow> bool" where
  "has_ctrl_char data \<longleftrightarrow> (\<exists>b\<in>set data. b < 32 \<or> b = 127)"

definition has_newline :: "bytes \<Rightarrow> bool" where
  "has_newline str \<longleftrightarrow> (\<exists>c\<in>set str. c = 0x0A \<or> c = 0x0D)"

text \<open>\<^verbatim>\<open>struct wpa_ssid_value\<close> is the list of its octets; the text up to its first blank or its
  closing quote is parsed.\<close>

definition ssid_parse :: "bool \<Rightarrow> bytes \<Rightarrow> int \<times> bytes" where
  "ssid_parse alloc buf =
     (if \<not> alloc then (-1, [])
      else case (if cur buf \<noteq> 0x22 then Some (case os_strchr buf 0x20 of None \<Rightarrow> buf | Some e \<Rightarrow> take e buf)
                 else map_option (\<lambda>e. take (e + 2) buf) (os_strchr (tl buf) 0x22)) of
        None \<Rightarrow> (-1, [])
      | Some tmp \<Rightarrow>
          let ssid = (case wpa_config_parse_string alloc tmp of None \<Rightarrow> [] | Some res \<Rightarrow> if length res \<le> 32 then res else [])
          in (if ssid \<noteq> [] then 0 else -1, ssid))"

definition str_starts :: "bytes \<Rightarrow> bytes \<Rightarrow> bool" where
  "str_starts str start \<longleftrightarrow> take (length start) str = start"

text \<open>The argument is the text with its length, which is given or found; the result 0 is \<^const>\<open>None\<close>.\<close>

fun utf8_unescape_loop :: "bytes \<Rightarrow> nat \<Rightarrow> bytes \<Rightarrow> bytes option" where
  "utf8_unescape_loop [] out_size out = Some out"
| "utf8_unescape_loop (c # inp) out_size out =
     (if length out \<ge> out_size then None
      else if c = 0x27 then Some out
      else if c = 0x5C then (case inp of [] \<Rightarrow> None | d # inp \<Rightarrow> utf8_unescape_loop inp out_size (out @ [d]))
      else utf8_unescape_loop inp out_size (out @ [c]))"

definition utf8_unescape :: "bytes \<Rightarrow> nat \<Rightarrow> bytes option" where
  "utf8_unescape inp out_size = utf8_unescape_loop (if cur inp = 0x27 then tl inp else inp) out_size []"

fun utf8_escape_loop :: "bytes \<Rightarrow> nat \<Rightarrow> bytes \<Rightarrow> bytes option" where
  "utf8_escape_loop [] out_size out = Some out"
| "utf8_escape_loop (c # inp) out_size out =
     (if length out \<ge> out_size then None
      else if c = 0x5C \<or> c = 0x27
      then if length out + 1 \<ge> out_size then None else utf8_escape_loop inp out_size (out @ [0x5C, c])
      else utf8_escape_loop inp out_size (out @ [c]))"

definition utf8_escape :: "bytes \<Rightarrow> nat \<Rightarrow> bytes option" where
  "utf8_escape inp out_size = utf8_escape_loop inp out_size []"

definition is_ctrl_char :: "byte \<Rightarrow> bool" where
  "is_ctrl_char c \<longleftrightarrow> sint c > 0 \<and> sint c < 32"

definition rssi_to_rcpi :: "int \<Rightarrow> byte" where
  "rssi_to_rcpi rssi =
     (if rssi = 0 then 255 else if rssi < -110 then 0 else if rssi > 0 then 220 else word_of_int ((rssi + 110) * 2))"


section \<open>Arrays\<close>

text \<open>The number of octets and the array.\<close>

definition merge_byte_arrays :: "nat \<Rightarrow> bytes option \<Rightarrow> bytes option \<Rightarrow> nat \<times> bytes" where
  "merge_byte_arrays res_len src1 src2 =
     (let res = zeros res_len
      in case src1 of
           Some s1 \<Rightarrow>
             if length s1 \<ge> res_len then (res_len, take res_len s1)
             else let res = overwrite 0 s1 res; len = length s1
                  in (case src2 of
                        None \<Rightarrow> (len, res)
                      | Some s2 \<Rightarrow> if len + length s2 \<ge> res_len then (res_len, overwrite len (take (res_len - len) s2) res)
                                  else (len + length s2, overwrite len s2 res))
         | None \<Rightarrow>
             (case src2 of
                None \<Rightarrow> (0, res)
              | Some s2 \<Rightarrow> if length s2 \<ge> res_len then (res_len, take res_len s2) else (length s2, overwrite 0 s2 res)))"

text \<open>An array of integers ends with the first 0; \<^const>\<open>None\<close> is \<^verbatim>\<open>NULL\<close>.\<close>

definition int_array :: "int list option \<Rightarrow> int list" where
  "int_array a = (case a of None \<Rightarrow> [] | Some l \<Rightarrow> takeWhile (\<lambda>x. x \<noteq> 0) l)"

definition int_array_len :: "int list option \<Rightarrow> nat" where
  "int_array_len a = length (int_array a)"

text \<open>The outer \<^const>\<open>None\<close> is an access through a \<^verbatim>\<open>NULL\<close> pointer.\<close>

definition int_array_concat :: "bool \<Rightarrow> int list option \<Rightarrow> int list option \<Rightarrow> int list option option" where
  "int_array_concat alloc res a =
     (if \<not> alloc then Some None
      else if a = None then None
      else Some (Some (int_array res @ int_array a @ [0])))"

text \<open>The loop that removes repetitions, with the octets kept so far in reverse order.\<close>

fun unique_loop :: "int list \<Rightarrow> int list \<Rightarrow> int list" where
  "unique_loop [] kept = rev kept"
| "unique_loop (x # xs) kept =
     (case kept of
        [] \<Rightarrow> unique_loop xs [x]
      | k # _ \<Rightarrow> if k = x then unique_loop xs kept else unique_loop xs (x # kept))"

definition int_array_sort_unique :: "int list option \<Rightarrow> int list option" where
  "int_array_sort_unique a = map_option (\<lambda>_. unique_loop (sort (int_array a)) [] @ [0]) a"

definition int_array_add_unique :: "bool \<Rightarrow> int list option \<Rightarrow> int \<Rightarrow> int list option" where
  "int_array_add_unique alloc res a =
     (if a \<in> set (int_array res) then res
      else if \<not> alloc then None
      else Some (int_array res @ [a, 0]))"


section \<open>Base64\<close>

definition base64_table :: bytes where
  "base64_table = map of_nat ([65..<91] @ [97..<123] @ [48..<58] @ [43, 47])"

definition base64_url_table :: bytes where
  "base64_url_table = map of_nat ([65..<91] @ [97..<123] @ [48..<58] @ [45, 95])"

text \<open>The four indices for three octets; at the end the octets that are missing count as 0.\<close>

definition sextet0 :: "byte \<Rightarrow> nat" where "sextet0 b0 = unat (drop_bit 2 b0 AND 0x3F)"

definition sextet1 :: "byte \<Rightarrow> byte \<Rightarrow> nat" where "sextet1 b0 b1 = unat ((push_bit 4 (b0 AND 0x03) OR drop_bit 4 b1) AND 0x3F)"

definition sextet2 :: "byte \<Rightarrow> byte \<Rightarrow> nat" where "sextet2 b1 b2 = unat ((push_bit 2 (b1 AND 0x0F) OR drop_bit 6 b2) AND 0x3F)"

definition sextet3 :: "byte \<Rightarrow> nat" where "sextet3 b2 = unat (b2 AND 0x3F)"

fun base64_blocks :: "bytes \<Rightarrow> bool \<Rightarrow> bool \<Rightarrow> nat \<Rightarrow> bytes \<Rightarrow> bytes" where
  "base64_blocks table pad lf line_len (b0 # b1 # b2 # rest) =
     [table ! sextet0 b0, table ! sextet1 b0 b1, table ! sextet2 b1 b2, table ! sextet3 b2] @
     (if lf \<and> line_len + 4 \<ge> 72 then 0x0A # base64_blocks table pad lf 0 rest
      else base64_blocks table pad lf (line_len + 4) rest)"
| "base64_blocks table pad lf line_len [b0, b1] =
     [table ! sextet0 b0, table ! sextet1 b0 b1, table ! sextet2 b1 0] @ (if pad then [0x3D] else []) @ (if lf then [0x0A] else [])"
| "base64_blocks table pad lf line_len [b0] =
     [table ! sextet0 b0, table ! sextet1 b0 0] @ (if pad then [0x3D, 0x3D] else []) @ (if lf then [0x0A] else [])"
| "base64_blocks table pad lf line_len [] = (if lf \<and> line_len > 0 then [0x0A] else [])"

text \<open>The size of the buffer, with the null octet.\<close>

definition base64_olen :: "nat \<Rightarrow> bool \<Rightarrow> nat" where
  "base64_olen len lf = (let olen = len * 4 div 3 + 4 in (if lf then olen + olen div 72 else olen) + 1)"

definition base64_gen_encode :: "bool \<Rightarrow> bytes \<Rightarrow> bytes \<Rightarrow> bool \<Rightarrow> bool \<Rightarrow> bytes option" where
  "base64_gen_encode alloc src table pad lf =
     (if length src \<ge> (2 ^ 64 - 1) div 4 \<or> base64_olen (length src) lf < length src \<or> \<not> alloc then None
      else Some (base64_blocks table pad lf 0 src))"

definition base64_dtable :: "bytes \<Rightarrow> byte \<Rightarrow> byte" where
  "base64_dtable table c =
     (if c = 0x3D then 0 else case List.find (\<lambda>i. table ! i = c) [0..<64] of Some i \<Rightarrow> of_nat i | None \<Rightarrow> 0x80)"

fun base64_decode_loop :: "(byte \<Rightarrow> byte) \<Rightarrow> bytes \<Rightarrow> bytes \<Rightarrow> nat \<Rightarrow> bytes \<Rightarrow> bytes option" where
  "base64_decode_loop dtable [] block pad out = Some out"
| "base64_decode_loop dtable (val # src) block pad out =
     (let tmp = dtable val
      in if tmp = 0x80 then base64_decode_loop dtable src block pad out
      else let pad = (if val = 0x3D then pad + 1 else pad); block = block @ [tmp]
      in if length block = 4
         then let out = out @ [push_bit 2 (block ! 0) OR drop_bit 4 (block ! 1), push_bit 4 (block ! 1) OR drop_bit 2 (block ! 2),
                               push_bit 6 (block ! 2) OR block ! 3]
              in if pad > 0
                 then if pad = 1 then Some (take (length out - 1) out)
                      else if pad = 2 then Some (take (length out - 2) out)
                      else None
                 else base64_decode_loop dtable src [] pad out
         else base64_decode_loop dtable src block pad out)"

definition base64_gen_decode :: "bool \<Rightarrow> bytes \<Rightarrow> bytes \<Rightarrow> bytes option" where
  "base64_gen_decode alloc src table =
     (let dtable = base64_dtable table; count = length (filter (\<lambda>c. dtable c \<noteq> 0x80) src)
      in if count = 0 then None
      else let extra_pad = (4 - count mod 4) mod 4
      in if \<not> alloc then None
      else base64_decode_loop dtable (src @ replicate extra_pad 0x3D) [] 0 [])"

definition base64_encode :: "bool \<Rightarrow> bytes \<Rightarrow> bytes option" where
  "base64_encode alloc src = base64_gen_encode alloc src base64_table True True"

definition base64_encode_no_lf :: "bool \<Rightarrow> bytes \<Rightarrow> bytes option" where
  "base64_encode_no_lf alloc src = base64_gen_encode alloc src base64_table True False"

definition base64_url_encode :: "bool \<Rightarrow> bytes \<Rightarrow> bytes option" where
  "base64_url_encode alloc src = base64_gen_encode alloc src base64_url_table False False"

definition base64_decode :: "bool \<Rightarrow> bytes \<Rightarrow> bytes option" where
  "base64_decode alloc src = base64_gen_decode alloc src base64_table"

definition base64_url_decode :: "bool \<Rightarrow> bytes \<Rightarrow> bytes option" where
  "base64_url_decode alloc src = base64_gen_decode alloc src base64_url_table"

end
