(* ===== verification/Codec_Safety.thy ===== *)
theory Codec_Safety
  imports Codec
begin

text \<open>
  Text forms are read back as what was written, and stay inside their buffers.
\<close>

unbundle bit_operations_syntax

section \<open>Octets as two digits\<close>

definition hex_ok :: "bool \<Rightarrow> byte \<Rightarrow> bool" where
  "hex_ok up d \<longleftrightarrow> hex2num (hex_digit up d) = uint d \<and>
     0x30 \<le> hex_digit up d \<and> hex_digit up d \<noteq> 0x50 \<and> hex_digit up d \<noteq> 0x5C \<and> hex_digit up d \<noteq> 0x80"

lemma hex_digit_ok: "unat d < 16 \<Longrightarrow> hex_ok up d"
proof -
  have d: "\<forall>n\<in>set [0..<16]. hex_ok True (of_nat n) \<and> hex_ok False (of_nat n)" by code_simp
  assume "unat d < 16"
  then show ?thesis using bspec [OF d, of "unat d"] by (cases up) simp_all
qed

lemma nibbles: "unat (drop_bit 4 b :: byte) < 16" "unat (b AND 15 :: byte) < 16"
proof -
  have "unat b < 256" using unsigned_less [where w = b and 'a = nat] by simp
  then show "unat (drop_bit 4 b :: byte) < 16" 
    unfolding unsigned_drop_bit_eq by (simp add: take_bit_nat_eq_self drop_bit_eq_div less_mult_imp_div_less)
  have "b AND 15 = take_bit 4 b" by (simp add: take_bit_eq_mask mask_eq_exp_minus_1)
  then show "unat (b AND 15 :: byte) < 16" using take_bit_nat_less_exp [of 4 "unat b"] by (simp add: unsigned_take_bit_eq)
qed

lemma join_nibbles: "push_bit 4 (uint (drop_bit 4 b :: byte)) OR uint (b AND 15 :: byte) = uint b"
proof -
  have "b AND 15 = take_bit 4 b" by (simp add: take_bit_eq_mask mask_eq_exp_minus_1)
  then show ?thesis by (intro bit_eqI) (auto simp: bit_simps)
qed

lemma hex2byte_txt [simp]: "hex2byte (hex_txt up b @ rest) = uint b"
  using hex_digit_ok [OF nibbles(1), of up b] hex_digit_ok [OF nibbles(2), of up b] join_nibbles [of b]
  by (simp add: hex2byte_def hex_txt_def cur_def Let_def hex_ok_def)

lemma length_hex_txt [simp]: "length (hex_txt up b) = 2"
  by (simp add: hex_txt_def)


lemma hex_txt_octets: "c \<in> set (hex_txt up b) \<Longrightarrow> 0x30 \<le> c \<and> c \<noteq> 0x50 \<and> c \<noteq> 0x5C \<and> c \<noteq> 0x80"
  using hex_digit_ok [OF nibbles(1), of up b] hex_digit_ok [OF nibbles(2), of up b] by (auto simp: hex_txt_def hex_ok_def)

definition hex_string :: "bool \<Rightarrow> bytes \<Rightarrow> bytes" where
  "hex_string up data = concat (map (hex_txt up) data)"

lemma length_hex_string [simp]: "length (hex_string up data) = 2 * length data"
  by (induction data) (simp_all add: hex_string_def)

lemma those_map_Some: "(\<And>x. x \<in> set xs \<Longrightarrow> f x = Some (g x)) \<Longrightarrow> those (map f xs) = Some (map g xs)"
  by (induction xs) simp_all

lemma drop_hex_string: "i < length data \<Longrightarrow> drop (2 * i) (hex_string up data) = hex_txt up (data ! i) @ drop (2 * Suc i) (hex_string up data)"
proof (induction data arbitrary: i)
  case (Cons b data)
  then show ?case by (cases i) (simp_all add: hex_string_def hex_txt_def)
qed simp

text \<open>Hexadecimal text is read back.\<close>

lemma hexstr2bin_hex_string: "hexstr2bin (hex_string up data) (length data) = Some data"
proof -
  have "hexstr2bin (hex_string up data) (length data) = Some (map ((!) data) [0..<length data])"
    unfolding hexstr2bin_def
  proof (rule those_map_Some)
    fix i assume "i \<in> set [0..<length data]"
    then have "hex2byte (drop (2 * i) (hex_string up data)) = uint (data ! i)" by (simp add: drop_hex_string)
    then show "(let a = hex2byte (drop (2 * i) (hex_string up data)) in if a < 0 then None else Some (word_of_int a)) = Some (data ! i)"
      by simp
  qed
  then show ?thesis by (simp add: map_nth)
qed

lemma snprintf_at_fits:
  "pos + length txt < length buf \<Longrightarrow> snprintf_at pos txt buf = take pos buf @ txt @ 0 # drop (pos + length txt + 1) buf"
  by (simp add: snprintf_at_def overwrite_def)

lemma snprintf_hex_loop_fits:
  assumes "\<And>b. length (fmt b) = k" "pos + k * length data < length buf"
  shows "\<exists>tail. snprintf_hex_loop fmt data pos buf =
    (False, pos + k * length data, take pos buf @ concat (map fmt data) @ tail) \<and>
    length tail = length buf - (pos + k * length data) \<and> (data \<noteq> [] \<longrightarrow> hd tail = 0) \<and> (data = [] \<longrightarrow> tail = drop pos buf)"
  using assms(2)
proof (induction data arbitrary: pos buf)
  case (Cons b data)
  let ?buf = "take pos buf @ fmt b @ 0 # drop (pos + k + 1) buf"
  have fit: "pos + length (fmt b) < length buf" using Cons.prems assms(1) by simp
  then have at: "snprintf_at pos (fmt b) buf = ?buf" using snprintf_at_fits [OF fit] assms(1) by simp
  have len: "length ?buf = length buf" using fit assms(1) [of b] by simp
  have "\<exists>tail. snprintf_hex_loop fmt data (pos + k) ?buf =
    (False, pos + k + k * length data, take (pos + k) ?buf @ concat (map fmt data) @ tail) \<and>
    length tail = length ?buf - (pos + k + k * length data) \<and> (data \<noteq> [] \<longrightarrow> hd tail = 0) \<and> (data = [] \<longrightarrow> tail = drop (pos + k) ?buf)"
    using Cons.prems len by (intro Cons.IH) simp
  moreover have "take (pos + k) ?buf = take pos buf @ fmt b" "drop (pos + k) ?buf = 0 # drop (pos + k + 1) buf"
    using fit assms(1) [of b] by simp_all
  ultimately obtain tail where t: "snprintf_hex_loop fmt data (pos + k) ?buf =
    (False, pos + k + k * length data, (take pos buf @ fmt b) @ concat (map fmt data) @ tail)"
    "length tail = length buf - (pos + k + k * length data)" "data \<noteq> [] \<longrightarrow> hd tail = 0" "data = [] \<longrightarrow> tail = 0 # drop (pos + k + 1) buf"
    using len fit assms(1) [of b] by auto
  have fits: "\<not> os_snprintf_error (length buf - pos) k" using fit assms(1) [of b] by (simp add: os_snprintf_error_def)
  have "snprintf_hex_loop fmt (b # data) pos buf = snprintf_hex_loop fmt data (pos + k) ?buf"
    using fit assms(1) [of b] by (simp add: at fits Let_def)
  then show ?case using t by (intro exI [of _ tail]) (auto simp: algebra_simps)
qed simp

lemma snprintf_hex_fits:
  assumes "2 * length data + 1 \<le> length buf" "data \<noteq> []"
  shows "\<exists>tail. snprintf_hex buf data up = (2 * length data, hex_string up data @ 0 # tail) \<and> length (snd (snprintf_hex buf data up)) = length buf"
proof -
  have ne: "length buf \<noteq> 0" using assms(1) by linarith
  obtain tail where t: "snprintf_hex_loop (hex_txt up) data 0 buf = (False, 2 * length data, hex_string up data @ tail)"
    "length tail = length buf - 2 * length data" "hd tail = 0"
    using snprintf_hex_loop_fits [of "hex_txt up" 2 0 data buf] assms by (auto simp: hex_string_def)
  then obtain tail' where t': "tail = 0 # tail'" using assms(1) by (cases tail) auto
  have "(hex_string up data @ 0 # tail')[length buf - 1 := 0] = hex_string up data @ 0 # (tail'[length tail' - 1 := 0])"
    using t(2) t' assms(1) by (cases tail' rule: rev_cases) (auto simp: list_update_append split: nat.splits)
  moreover have "length (hex_string up data @ 0 # tail') = length buf" using t(2) t' assms(1) by simp
  ultimately show ?thesis using ne t(1) t' by (auto simp: snprintf_hex_def)
qed


text \<open>With separators and no data the null octet goes before the buffer.\<close>

lemma snprintf_hex_sep_empty: "buf \<noteq> [] \<Longrightarrow> wpa_snprintf_hex_sep buf [] sep = None"
  by (simp add: wpa_snprintf_hex_sep_def)


section \<open>MAC addresses\<close>

lemma hwaddr_parse_loop_txt:
  "addr \<noteq> [] \<Longrightarrow> hwaddr_parse_loop (length addr) (mac_txt addr @ rest) acc = (acc @ addr, Some rest)"
proof (induction addr arbitrary: acc)
  case (Cons b addr)
  show ?case
  proof (cases addr)
    case Nil
    then show ?thesis by (simp add: mac_txt_def hex_txt_def Let_def hex2byte_txt [unfolded hex_txt_def, simplified])
  next
    case (Cons b' addr')
    have "mac_txt (b # addr) @ rest = hex_txt False b @ 0x3A # mac_txt addr @ rest" by (simp add: mac_txt_def Cons)
    then have "hwaddr_parse_loop (length (b # addr)) (mac_txt (b # addr) @ rest) acc =
      hwaddr_parse_loop (length addr) (mac_txt addr @ rest) (acc @ [b])"
      by (simp add: Cons Let_def cur_def)
    then show ?thesis using Cons.IH [of "acc @ [b]"] Cons by simp
  qed
qed simp

lemma hwaddr_roundtrip:
  assumes "length addr = 6" "length msk = 6" "length a = 6" "length m = 6"
  shows "hwaddr_masked_aton (mac_txt addr) a m maskable = (0, addr, replicate 6 0xFF)"
    "hwaddr_masked_aton (mac_txt addr @ [0x2F] @ mac_txt msk) a m True = (0, addr, msk)"
proof -
  have f: "fill_addr x y = x" if "length x = 6" "length y = 6" for x y using that by (simp add: fill_addr_def overwrite_def)
  have p: "hwaddr_parse (mac_txt x @ rest) = (x, Some rest)" if "length x = 6" for x rest
    using hwaddr_parse_loop_txt [of x rest "[]"] that by (fastforce simp: hwaddr_parse_def)
  show "hwaddr_masked_aton (mac_txt addr) a m maskable = (0, addr, replicate 6 0xFF)"
    using p [of addr "[]"] assms f by (simp add: hwaddr_masked_aton_def cur_def)
  show "hwaddr_masked_aton (mac_txt addr @ [0x2F] @ mac_txt msk) a m True = (0, addr, msk)"
    using p [of addr "[0x2F] @ mac_txt msk"] p [of msk "[]"] assms f by (simp add: hwaddr_masked_aton_def cur_def isspace_def)
qed


section \<open>Escapes and configuration strings\<close>

lemma length_escape_octet: "length (escape_octet b) \<le> 4"
  by (simp add: escape_octet_def)

lemma printf_encode_loop_eq:
  "4 * length data + length out < maxlen \<Longrightarrow> printf_encode_loop maxlen data out = out @ concat (map escape_octet data)"
proof (induction data arbitrary: out)
  case (Cons b data)
  then show ?case using length_escape_octet [of b] by simp
qed simp

text \<open>The text and its null octet fit into the buffer.\<close>

lemma printf_encode_fits: "0 < maxlen \<Longrightarrow> length (printf_encode maxlen data) < maxlen"
proof -
  have "length out < maxlen \<Longrightarrow> length (printf_encode_loop maxlen data out) < maxlen" for out
  proof (induction data arbitrary: out)
    case (Cons b data)
    then show ?case using length_escape_octet [of b] by simp
  qed simp
  then show "0 < maxlen \<Longrightarrow> length (printf_encode maxlen data) < maxlen" by (simp add: printf_encode_def)
qed

lemma decode_escape:
  assumes "length buf + 1 < maxlen"
  shows "printf_decode_loop maxlen (escape_octet b @ rest) buf = printf_decode_loop maxlen rest (buf @ [b])"
proof (cases "b \<in> {0x22, 0x5C, 0x1B, 0x0A, 0x0D, 0x09} \<or> 32 \<le> b \<and> b \<le> 126")
  case True
  have special: "printf_decode_loop maxlen (0x5C # c # rest) buf = printf_decode_loop maxlen rest (buf @ [d])"
    if "unescape (c # rest) = (Some d, rest)" for c d using that assms by (subst printf_decode_loop.simps) simp
  show ?thesis
  proof (cases "b \<in> {0x22, 0x5C, 0x1B, 0x0A, 0x0D, 0x09}")
    case True
    then show ?thesis by (elim insertE emptyE) (simp_all add: escape_octet_def special unescape_def cur_def)
  next
    case False
    then have "escape_octet b = [b]" using True by (auto simp: escape_octet_def)
    then show ?thesis using False assms by (subst printf_decode_loop.simps) simp
  qed
next
  case False
  then have "escape_octet b = [0x5C, 0x78] @ hex_txt False b" by (auto simp: escape_octet_def)
  moreover have "unescape (0x78 # hex_txt False b @ rest) = (Some b, rest)" by (simp add: unescape_def cur_def)
  ultimately show ?thesis using assms by (subst printf_decode_loop.simps) simp
qed

lemma printf_decode_escapes:
  "length buf + length data < maxlen \<Longrightarrow> printf_decode_loop maxlen (concat (map escape_octet data)) buf = buf @ data"
proof (induction data arbitrary: buf)
  case Nil
  then show ?case by (subst printf_decode_loop.simps) simp
next
  case (Cons b data)
  then show ?case using decode_escape [of buf maxlen b "concat (map escape_octet data)"] by simp
qed

text \<open>\<^verbatim>\<open>config.c\<close>: how a string is written.\<close>

lemma length_escapes: "length data \<le> length (concat (map escape_octet data))"
proof (induction data)
  case (Cons b data)
  have "1 \<le> length (escape_octet b)" by (simp add: escape_octet_def)
  then show ?case using Cons.IH by simp
qed simp

lemma strrchr_last: "os_strrchr (s @ [c]) c = Some (length s)"
  by (simp add: os_strrchr_def)

lemma takeWhile_hex_string: "takeWhile (\<lambda>c. c \<noteq> 0) (hex_string up data @ 0 # tail) = hex_string up data"
proof -
  have "\<forall>c\<in>set (hex_string up data). c \<noteq> 0" using hex_txt_octets by (fastforce simp: hex_string_def)
  then show ?thesis by (simp add: takeWhile_append2)
qed

text \<open>C24: a string that the configuration writes, quoted or in hexadecimal digits, and one in the
  notation with escapes, is read back as the same octets, whatever octets these are.\<close>

theorem config_string_roundtrip:
  "Option.bind (wpa_config_write_string True (Some data)) (wpa_config_parse_string True) = Some data \<and>
   wpa_config_parse_string True ([0x50, 0x22] @ printf_encode (4 * length data + 1) data @ [0x22]) = Some data"
proof
  let ?txt = "concat (map escape_octet data)"
  have enc: "printf_encode (4 * length data + 1) data = ?txt" by (simp add: printf_encode_def printf_encode_loop_eq)
  have "length data \<le> length ?txt" by (rule length_escapes)
  then have "printf_decode (length ?txt + 1) ?txt = data" using printf_decode_escapes [of "[]" data] by (simp add: printf_decode_def)
  then show "wpa_config_parse_string True ([0x50, 0x22] @ printf_encode (4 * length data + 1) data @ [0x22]) = Some data"
    unfolding enc by (simp add: wpa_config_parse_string_def cur_def strrchr_last)
  show "Option.bind (wpa_config_write_string True (Some data)) (wpa_config_parse_string True) = Some data"
  proof (cases "is_hex data")
    case False
    then show ?thesis
      by (simp add: wpa_config_write_string_def wpa_config_write_string_ascii_def wpa_config_parse_string_def cur_def strrchr_last)
  next
    case True
    then have ne: "data \<noteq> []" by (auto simp: is_hex_def)
    obtain tail where "snprintf_hex (zeros (2 * length data + 1)) data False = (2 * length data, hex_string False data @ 0 # tail)"
      using snprintf_hex_fits [of data "zeros (2 * length data + 1)" False] ne by (auto simp: zeros_def)
    then have w: "wpa_config_write_string True (Some data) = Some (hex_string False data)"
      using True by (simp add: wpa_config_write_string_def wpa_config_write_string_hex_def wpa_snprintf_hex_def takeWhile_hex_string)
    obtain b d where b: "data = b # d" using ne by (cases data) auto
    have c: "cur (hex_string False data) \<noteq> 0x22" "cur (hex_string False data) \<noteq> 0x50"
      using hex_txt_octets [of "hex_digit False (drop_bit 4 b)" False b] by (auto simp: b hex_string_def hex_txt_def cur_def)
    show ?thesis using c hexstr2bin_hex_string [of False data] by (simp add: w wpa_config_parse_string_def)
  qed
qed



section \<open>Escapes of quotes\<close>

definition quote_octet :: "byte \<Rightarrow> bytes" where
  "quote_octet c = (if c = 0x5C \<or> c = 0x27 then [0x5C, c] else [c])"

lemma utf8_escape_loop_eq:
  "length out + 2 * length data \<le> n \<Longrightarrow> utf8_escape_loop data n out = Some (out @ concat (map quote_octet data))"
  by (induction data arbitrary: out) (auto simp: quote_octet_def)

lemma utf8_unescape_loop_eq:
  "length out + length data \<le> n \<Longrightarrow> utf8_unescape_loop (concat (map quote_octet data)) n out = Some (out @ data)"
  by (induction data arbitrary: out) (auto simp: quote_octet_def)

lemma utf8_roundtrip:
  assumes "2 * length data \<le> n" "length data \<le> n'"
  shows "Option.bind (utf8_escape data n) (\<lambda>s. utf8_unescape s n') = Some data"
proof -
  have "cur (concat (map quote_octet data)) \<noteq> 0x27" by (cases data) (auto simp: cur_def quote_octet_def)
  then show ?thesis
    using assms utf8_unescape_loop_eq [of "[]" data n'] by (simp add: utf8_escape_def utf8_unescape_def utf8_escape_loop_eq)
qed


section \<open>Arrays\<close>

lemma merge_byte_arrays_eq:
  "merge_byte_arrays n (Some a) (Some b) = (min n (length a + length b), take n (a @ b @ zeros n))"
proof (cases "length a \<ge> n")
  case False
  then show ?thesis
    by (cases "length a + length b \<ge> n") (simp_all add: merge_byte_arrays_def overwrite_def zeros_def Let_def)
qed (simp add: merge_byte_arrays_def)

lemma unique_loop_spec:
  assumes "sorted xs" "sorted_wrt (<) (rev kept)" "kept \<noteq> [] \<longrightarrow> (\<forall>x\<in>set xs. hd kept \<le> x)"
  shows "sorted_wrt (<) (unique_loop xs kept) \<and> set (unique_loop xs kept) = set kept \<union> set xs"
  using assms
proof (induction xs arbitrary: kept)
  case (Cons x xs)
  show ?case
  proof (cases kept)
    case Nil
    then show ?thesis using Cons.prems Cons.IH [of "[x]"] by simp
  next
    case (Cons k ks)
    have "sorted_wrt (<) (rev (x # kept))" if "k \<noteq> x"
      using that Cons.prems(2,3) Cons by (fastforce simp: sorted_wrt_append)
    then show ?thesis using Cons.prems Cons.IH [of kept] Cons.IH [of "x # kept"] Cons by auto
  qed
qed simp

text \<open>Sorting keeps each number once, in ascending order.\<close>

lemma int_array_sort_unique_spec:
  "\<exists>l'. int_array_sort_unique (Some l) = Some (l' @ [0]) \<and> sorted_wrt (<) l' \<and> set l' = set (int_array (Some l))"
  using unique_loop_spec [of "sort (int_array (Some l))" "[]"] by (simp add: int_array_sort_unique_def)

end
