(* ===== verification/Codec_Base64.thy ===== *)
theory Codec_Base64
  imports Codec_Safety
begin

text \<open>
  Base64: decoding inverts each of the encoders, and an encoding fits the buffer that is allocated
  for it.
\<close>

unbundle bit_operations_syntax

section \<open>The tables\<close>

lemma octet_of_nat_eq: "x < 256 \<Longrightarrow> y < 256 \<Longrightarrow> (of_nat x :: byte) = of_nat y \<longleftrightarrow> x = y"
proof
  assume "x < 256" "y < 256" "(of_nat x :: byte) = of_nat y"
  then have "unat (of_nat x :: byte) = unat (of_nat y :: byte)" by simp
  then show "x = y" using \<open>x < 256\<close> \<open>y < 256\<close> by (simp add: unsigned_of_nat take_bit_nat_eq_self)
qed simp

definition table_ok :: "bytes \<Rightarrow> bool" where
  "table_ok table \<longleftrightarrow> length table = 64 \<and> distinct table \<and> 0x3D \<notin> set table \<and> 0x0A \<notin> set table"

lemma table_of_codes:
  assumes "distinct cs" "length cs = 64" "61 \<notin> set cs" "10 \<notin> set cs" "\<forall>x\<in>set cs. x < 256"
  shows "table_ok (map of_nat cs)"
proof -
  have "inj_on (of_nat :: nat \<Rightarrow> byte) (set cs)" using assms(5) octet_of_nat_eq by (auto simp: inj_on_def)
  moreover have "(of_nat n :: byte) \<notin> of_nat ` set cs" if "n \<notin> set cs" "n < 256" for n
    using that assms(5) octet_of_nat_eq by force
  from this [of 61] this [of 10] have "(0x3D :: byte) \<notin> of_nat ` set cs" "(0x0A :: byte) \<notin> of_nat ` set cs" using assms by simp_all
  ultimately show ?thesis using assms by (simp add: table_ok_def distinct_map)
qed

lemma tables_ok: "table_ok base64_table" "table_ok base64_url_table"
  unfolding base64_table_def base64_url_table_def by (rule table_of_codes; auto)+

lemma table_entry:
  assumes "table_ok table" "i < 64"
  shows "base64_dtable table (table ! i) = of_nat i" "table ! i \<noteq> 0x3D" "base64_dtable table (table ! i) \<noteq> 0x80"
proof -
  show p: "table ! i \<noteq> 0x3D" using assms nth_mem [of i table] unfolding table_ok_def by metis
  have "List.find (\<lambda>j. table ! j = table ! i) [0..<64] = Some i"
    using assms by (auto simp: find_Some_iff table_ok_def nth_eq_iff_index_eq intro!: exI [of _ i])
  then show d: "base64_dtable table (table ! i) = of_nat i" using p by (simp add: base64_dtable_def)
  show "base64_dtable table (table ! i) \<noteq> 0x80" using octet_of_nat_eq [of i 128] assms(2) by (simp add: d)
qed

lemma dtable_lf: "table_ok table \<Longrightarrow> base64_dtable table 0x0A = 0x80"
proof -
  assume t: "table_ok table"
  have "table ! j \<noteq> 0x0A" if "j < 64" for j using t that nth_mem [of j table] unfolding table_ok_def by metis
  then have "List.find (\<lambda>j. table ! j = 0x0A) [0..<64] = None" unfolding find_None_iff by simp
  then show ?thesis by (simp add: base64_dtable_def)
qed

lemma dtable_pad [simp]: "base64_dtable table 0x3D = 0"
  by (simp add: base64_dtable_def)

text \<open>The six bits of an index.\<close>

lemma index_less: "unat ((b :: byte) AND 0x3F) < 64"
proof -
  have "b AND 0x3F = take_bit 6 b" by (simp add: take_bit_eq_mask mask_eq_exp_minus_1)
  then show ?thesis using take_bit_nat_less_exp [of 6 "unat b"] by (simp add: unsigned_take_bit_eq)
qed

lemma six_bits: "(b :: byte) AND 0x3F = take_bit 6 b" "b AND 0x0F = take_bit 4 b" "b AND 0x03 = take_bit 2 b"
  by (simp_all add: take_bit_eq_mask mask_eq_exp_minus_1)

lemma bit_octet: "8 \<le> n \<Longrightarrow> \<not> bit (b :: byte) n"
  using bit_imp_le_length [of b n] by auto

lemma Suc_Suc_diff: "2 \<le> n \<Longrightarrow> Suc (Suc (n - 2)) = n"
  by simp

lemma octet_of_unat: "(of_nat (unat (b :: byte)) :: byte) = b"
  by simp

lemma split_octets:
  "push_bit 2 (of_nat (sextet0 b0)) OR drop_bit 4 (of_nat (sextet1 b0 b1)) = b0"
  "push_bit 4 (of_nat (sextet1 b0 b1)) OR drop_bit 2 (of_nat (sextet2 b1 b2)) = b1"
  "push_bit 6 (of_nat (sextet2 b1 b2)) OR of_nat (sextet3 b2) = b2"
  unfolding sextet0_def sextet1_def sextet2_def sextet3_def octet_of_unat six_bits
  by (safe intro!: bit_word_eqI) (auto simp: bit_simps bit_octet Suc_Suc_diff)

lemma sextet_less: "sextet0 b0 < 64" "sextet1 b0 b1 < 64" "sextet2 b1 b2 < 64" "sextet3 b2 < 64"
  unfolding sextet0_def sextet1_def sextet2_def sextet3_def by (rule index_less)+


section \<open>The encoding without line feeds\<close>

fun plain :: "bytes \<Rightarrow> bool \<Rightarrow> bytes \<Rightarrow> bytes" where
  "plain table pad (b0 # b1 # b2 # rest) =
     [table ! sextet0 b0, table ! sextet1 b0 b1, table ! sextet2 b1 b2, table ! sextet3 b2] @ plain table pad rest"
| "plain table pad [b0, b1] = [table ! sextet0 b0, table ! sextet1 b0 b1, table ! sextet2 b1 0] @ (if pad then [0x3D] else [])"
| "plain table pad [b0] = [table ! sextet0 b0, table ! sextet1 b0 0] @ (if pad then [0x3D, 0x3D] else [])"
| "plain table pad [] = []"

lemma octets3_induct [case_names three two one zero]:
  assumes "\<And>a b c xs. P xs \<Longrightarrow> P (a # b # c # xs)" "\<And>a b. P [a, b]" "\<And>a. P [a]" "P []"
  shows "P (xs :: bytes)"
  using assms by induction_schema (pat_completeness, lexicographic_order)

lemma filter_blocks:
  assumes "table_ok table"
  shows "filter (\<lambda>c. base64_dtable table c \<noteq> 0x80) (base64_blocks table pad lf ll xs) = plain table pad xs"
proof -
  note e = table_entry(3) [OF assms] sextet_less dtable_lf [OF assms]
  show ?thesis by (cases lf; induction xs arbitrary: ll rule: octets3_induct) (simp_all add: e)
qed

lemma mod_4_facts:
  "Suc (Suc (Suc (Suc n))) mod 4 = n mod 4" "(4 - Suc (Suc (Suc 0)) mod 4) mod 4 = Suc 0" "(4 - Suc (Suc 0) mod 4) mod 4 = Suc (Suc 0)"
proof -
  show "Suc (Suc (Suc (Suc n))) mod 4 = n mod 4" by presburger
  have "Suc (Suc (Suc 0)) = 3" "Suc (Suc 0) = 2" by simp_all
  then show "(4 - Suc (Suc (Suc 0)) mod 4) mod 4 = Suc 0" "(4 - Suc (Suc 0) mod 4) mod 4 = Suc (Suc 0)" by (simp_all only:) simp_all
qed

lemma plain_padded:
  "plain table pad xs @ replicate ((4 - length (plain table pad xs) mod 4) mod 4) 0x3D = plain table True xs"
  by (induction xs rule: octets3_induct) (simp_all add: mod_4_facts numeral_2_eq_2)

lemma plain_empty: "plain table pad xs = [] \<longleftrightarrow> xs = []"
  by (cases "(table, pad, xs)" rule: plain.cases) auto

lemma decode_filter:
  "base64_decode_loop d src block pad out = base64_decode_loop d (filter (\<lambda>c. d c \<noteq> 0x80) src) block pad out"
  by (induction d src block pad out rule: base64_decode_loop.induct) (auto simp: Let_def)

lemma decode_plain:
  assumes t: "table_ok table"
  shows "base64_decode_loop (base64_dtable table) (plain table True xs) [] 0 out = Some (out @ xs)"
proof -
  note e = table_entry [OF t] sextet_less
  have e80: "(of_nat i :: byte) \<noteq> 0x80" if "i < 64" for i using octet_of_nat_eq [of i 128] that by simp
  show ?thesis
  proof (induction xs arbitrary: out rule: octets3_induct)
    case (three b0 b1 b2 rest)
    show ?case using three.IH [of "out @ [b0, b1, b2]"] by (simp add: e e80 split_octets Let_def)
  next
    case (two b0 b1)
    show ?case by (simp add: e e80 split_octets Let_def)
  next
    case (one b0)
    show ?case by (simp add: e e80 split_octets Let_def)
  qed simp
qed



section \<open>The size\<close>

lemma length_blocks:
  assumes "lf \<longrightarrow> ll < 72"
  shows "length (base64_blocks table pad lf ll xs) \<le> 4 * ((length xs + 2) div 3) + (if lf then (ll + 4 * ((length xs + 2) div 3)) div 72 + 1 else 0)"
  using assms
proof (induction xs arbitrary: ll rule: octets3_induct)
  case (three b0 b1 b2 rest)
  let ?c = "4 * ((length rest + 2) div 3)"
  have "(n + 3 + 2) div 3 = (n + 2) div 3 + 1" for n :: nat by presburger
  moreover have "length (b0 # b1 # b2 # rest) = length rest + 3" by simp
  ultimately have c: "4 * ((length (b0 # b1 # b2 # rest) + 2) div 3) = ?c + 4" by (simp only: distrib_left mult_1_right)
  show ?case
  proof (cases "lf \<and> ll + 4 \<ge> 72")
    case True
    have "(c + 72) div 72 \<le> (ll + (c + 4)) div 72" for c using True by (intro div_le_mono) simp
    then have "(ll + (?c + 4)) div 72 \<ge> ?c div 72 + 1" by (metis div_add_self2 zero_neq_numeral)
    then show ?thesis using True three.IH [of 0] unfolding c by simp
  next
    case False
    then show ?thesis using three.IH [of "ll + 4"] three.prems unfolding c by (auto simp: algebra_simps)
  qed
qed simp_all

lemma blocks_fit: "length (base64_blocks table pad lf 0 xs) < base64_olen (length xs) lf"
proof -
  let ?c = "4 * ((length xs + 2) div 3)" and ?o = "length xs * 4 div 3 + 4"
  have c: "?c + 1 \<le> ?o" by presburger
  then have "?c div 72 \<le> ?o div 72" by (intro div_le_mono) simp
  then show ?thesis using c length_blocks [of lf 0 table pad xs] by (auto simp: base64_olen_def Let_def split: if_splits)
qed

lemma encode_Some:
  "length src < (2 ^ 64 - 1) div 4 \<Longrightarrow> base64_gen_encode True src table pad lf = Some (base64_blocks table pad lf 0 src)"
proof -
  assume "length src < (2 ^ 64 - 1) div 4"
  moreover have "length src \<le> length src * 4 div 3" by presburger
  then have "length src \<le> base64_olen (length src) lf" by (simp add: base64_olen_def Let_def)
  ultimately show ?thesis by (simp add: base64_gen_encode_def)
qed

lemma decode_encode:
  assumes "table_ok table" "src \<noteq> []" "length src < (2 ^ 64 - 1) div 4"
  shows "Option.bind (base64_gen_encode True src table pad lf) (\<lambda>txt. base64_gen_decode True txt table) = Some src"
proof -
  let ?b = "base64_blocks table pad lf 0 src" and ?p = "plain table pad src"
  have f: "filter (\<lambda>c. base64_dtable table c \<noteq> 0x80) ?b = ?p" using filter_blocks [OF assms(1)] .
  have "base64_decode_loop (base64_dtable table) (?b @ replicate ((4 - length ?p mod 4) mod 4) 0x3D) [] 0 [] =
    base64_decode_loop (base64_dtable table) (?p @ replicate ((4 - length ?p mod 4) mod 4) 0x3D) [] 0 []"
    by (subst decode_filter) (simp add: f filter_replicate)
  also have "\<dots> = Some src" unfolding plain_padded using decode_plain [OF assms(1), of src "[]"] by simp
  finally show ?thesis
    using assms(2) plain_empty [of table pad src] by (simp add: encode_Some [OF assms(3)] base64_gen_decode_def f Let_def)
qed

text \<open>C25: every base64 encoding, with line feeds, without them, and in the alphabet for URLs, is decoded
  to the octets it was made from, and its text with the null octet fits into the buffer.\<close>

theorem base64_roundtrip:
  assumes "data \<noteq> []" "length data < (2 ^ 64 - 1) div 4"
  shows "Option.bind (base64_encode True data) (base64_decode True) = Some data \<and>
    Option.bind (base64_encode_no_lf True data) (base64_decode True) = Some data \<and>
    Option.bind (base64_url_encode True data) (base64_url_decode True) = Some data \<and>
    length (the (base64_encode True data)) < base64_olen (length data) True \<and>
    length (the (base64_encode_no_lf True data)) < base64_olen (length data) False \<and>
    length (the (base64_url_encode True data)) < base64_olen (length data) False"
  using decode_encode [OF tables_ok(1) assms] decode_encode [OF tables_ok(2) assms] blocks_fit
  by (simp add: base64_encode_def base64_encode_no_lf_def base64_url_encode_def base64_decode_def base64_url_decode_def
      encode_Some [OF assms(2)])

theorem base64_roundtrip_witness:
  "Option.bind (base64_encode True [1, 2, 3, 4]) (base64_decode True) = Some [1, 2, 3, 4]"
  using base64_roundtrip [of "[1, 2, 3, 4]"] by simp

end
